(* ===== verification/Prelude.thy ===== *)
theory Prelude
  imports Main "HOL-Library.Word"
begin

text \<open>
  Shared vocabulary of the development: the machine types of the Rust program, its UTF-8
  strings and the standard-library string operations the program calls, saturating and
  checked arithmetic, the file system, and the JSON values and HTTP responses its handlers
  return. The lemmas here are the ones several components use.

  A Rust \<^verbatim>\<open>String\<close> is a list of bytes that is valid UTF-8; it is modelled as
  \<^typ>\<open>string\<close>, one \<^typ>\<open>char\<close> per byte, so that \<^verbatim>\<open>len()\<close> is
  \<^const>\<open>length\<close> and byte offsets are list positions. Operations on Unicode scalar values
  (\<^verbatim>\<open>trim\<close>, \<^verbatim>\<open>char::is_control\<close>, \<^verbatim>\<open>chars().count()\<close>) recognise the UTF-8
  encodings of the code points they act on.
\<close>

section \<open>Machine types\<close>

type_synonym u8 = "8 word"
type_synonym u16 = "16 word"
type_synonym u64 = "64 word"
type_synonym uuid = "128 word"
type_synonym timestamp = nat
type_synonym path = string

named_theorems str_simps \<open>rewrite rules of the byte-string operations\<close>
named_theorems resp_simps \<open>unfolding of responses and bodies\<close>

definition saturating_add_u64 :: "u64 \<Rightarrow> u64 \<Rightarrow> u64" where
  "saturating_add_u64 a b = (if unat a + unat b < 2 ^ 64 then a + b else - 1)"

definition checked_add_u64 :: "u64 \<Rightarrow> u64 \<Rightarrow> u64 option" where
  "checked_add_u64 a b = (if unat a + unat b < 2 ^ 64 then Some (a + b) else None)"

lemma unat_saturating_add_u64:
  "unat (saturating_add_u64 a b) = min (unat a + unat b) (2 ^ 64 - 1)"
proof (cases "unat a + unat b < 2 ^ 64")
  case True
  then have "unat (a + b) = unat a + unat b"
    by (simp add: unat_word_ariths)
  with True show ?thesis by (simp add: saturating_add_u64_def)
next
  case False
  then show ?thesis
    by (simp add: saturating_add_u64_def unsigned_minus_1_eq_mask mask_eq_exp_minus_1)
qed

lemma checked_add_u64_SomeD:
  "checked_add_u64 a b = Some c \<Longrightarrow> unat c = unat a + unat b"
  by (auto simp: checked_add_u64_def unat_word_ariths split: if_splits)

text \<open>
  \<^verbatim>\<open>slice.len() as u64\<close>. The length of a slice in memory fits in 64 bits; the clamp only
  concerns lists that no Rust slice can be.
\<close>

definition len_u64 :: "'a list \<Rightarrow> u64" where
  "len_u64 s = of_nat (min (length s) (2 ^ 64 - 1))"

lemma unat_len_u64: "unat (len_u64 s) = min (length s) (2 ^ 64 - 1)"
proof -
  have "min (length s) (2 ^ 64 - 1) < 2 ^ LENGTH(64)"
    by (simp add: min_def)
  then show ?thesis
    unfolding len_u64_def unsigned_of_nat by (simp only: take_bit_nat_eq_self of_nat_id)
qed

section \<open>Bytes and strings\<close>

definition byte_of :: "char \<Rightarrow> nat" where
  "byte_of c = of_char c"

definition is_ascii_upper :: "char \<Rightarrow> bool" where
  "is_ascii_upper c \<longleftrightarrow> 65 \<le> byte_of c \<and> byte_of c \<le> 90"

definition is_ascii_digit :: "char \<Rightarrow> bool" where
  "is_ascii_digit c \<longleftrightarrow> 48 \<le> byte_of c \<and> byte_of c \<le> 57"

definition is_ascii_alphanumeric :: "char \<Rightarrow> bool" where
  "is_ascii_alphanumeric c \<longleftrightarrow>
     is_ascii_digit c \<or> is_ascii_upper c \<or> 97 \<le> byte_of c \<and> byte_of c \<le> 122"

definition is_ascii_hexdigit :: "char \<Rightarrow> bool" where
  "is_ascii_hexdigit c \<longleftrightarrow>
     is_ascii_digit c \<or> 65 \<le> byte_of c \<and> byte_of c \<le> 70 \<or> 97 \<le> byte_of c \<and> byte_of c \<le> 102"

definition is_ascii_control :: "char \<Rightarrow> bool" where
  "is_ascii_control c \<longleftrightarrow> byte_of c < 32 \<or> byte_of c = 127"

definition ascii_lower_char :: "char \<Rightarrow> char" where
  "ascii_lower_char c = (if is_ascii_upper c then char_of (byte_of c + 32) else c)"

definition to_ascii_lowercase :: "string \<Rightarrow> string" where
  "to_ascii_lowercase s = map ascii_lower_char s"

definition eq_ignore_ascii_case :: "string \<Rightarrow> string \<Rightarrow> bool" where
  "eq_ignore_ascii_case a b \<longleftrightarrow> to_ascii_lowercase a = to_ascii_lowercase b"

definition starts_with :: "string \<Rightarrow> string \<Rightarrow> bool" where
  "starts_with s p \<longleftrightarrow> take (length p) s = p"

definition ends_with :: "string \<Rightarrow> string \<Rightarrow> bool" where
  "ends_with s p \<longleftrightarrow> length p \<le> length s \<and> drop (length s - length p) s = p"

definition strip_prefix :: "string \<Rightarrow> string \<Rightarrow> string option" where
  "strip_prefix p s = (if starts_with s p then Some (drop (length p) s) else None)"

definition strip_suffix :: "string \<Rightarrow> string \<Rightarrow> string option" where
  "strip_suffix p s = (if ends_with s p then Some (take (length s - length p) s) else None)"

text \<open>\<^verbatim>\<open>str::split(char)\<close>: always at least one part.\<close>

fun split_on :: "char \<Rightarrow> string \<Rightarrow> string list" where
  "split_on c [] = [[]]"
| "split_on c (x # xs) =
     (if x = c then [] # split_on c xs
      else (case split_on c xs of [] \<Rightarrow> [[x]] | p # ps \<Rightarrow> (x # p) # ps))"

text \<open>\<^verbatim>\<open>str::find(&str)\<close>: the offset of the leftmost occurrence.\<close>

fun find_sub :: "string \<Rightarrow> string \<Rightarrow> nat option" where
  "find_sub p [] = (if p = [] then Some 0 else None)"
| "find_sub p (x # xs) =
     (if starts_with (x # xs) p then Some 0 else map_option Suc (find_sub p xs))"

text \<open>
  The number of bytes of the White-Space scalar value at the front of a string, 0 when there
  is none: U+0009..U+000D, U+0020, U+0085, U+00A0, U+1680, U+2000..U+200A, U+2028, U+2029,
  U+202F, U+205F and U+3000.
\<close>

definition ws_len :: "string \<Rightarrow> nat" where
  "ws_len s = (let b = map byte_of (take 3 s) in
     if b \<noteq> [] \<and> (9 \<le> b ! 0 \<and> b ! 0 \<le> 13 \<or> b ! 0 = 32) then 1
     else if take 2 b = [194, 133] \<or> take 2 b = [194, 160] then 2
     else if b = [225, 154, 128] \<or> b = [226, 129, 159] \<or> b = [227, 128, 128] then 3
     else if length b = 3 \<and> b ! 0 = 226 \<and> b ! 1 = 128
             \<and> (128 \<le> b ! 2 \<and> b ! 2 \<le> 138 \<or> b ! 2 = 168 \<or> b ! 2 = 169 \<or> b ! 2 = 175) then 3
     else 0)"

definition ws_suffix_len :: "string \<Rightarrow> nat" where
  "ws_suffix_len s = (let n = length s in
     if 1 \<le> n \<and> ws_len (drop (n - 1) s) = 1 then 1
     else if 2 \<le> n \<and> ws_len (drop (n - 2) s) = 2 then 2
     else if 3 \<le> n \<and> ws_len (drop (n - 3) s) = 3 then 3
     else 0)"

lemma ws_len_Nil [simp]: "ws_len [] = 0"
  by (simp add: ws_len_def)

lemma ws_suffix_len_Nil [simp]: "ws_suffix_len [] = 0"
  by (simp add: ws_suffix_len_def)

function trim_start :: "string \<Rightarrow> string" where
  "trim_start s = (if ws_len s = 0 then s else trim_start (drop (ws_len s) s))"
  by pat_completeness auto
termination
proof (relation "measure length")
  fix s :: string
  assume "ws_len s \<noteq> 0"
  then have "s \<noteq> []" by auto
  with \<open>ws_len s \<noteq> 0\<close> show "(drop (ws_len s) s, s) \<in> measure length" by simp
qed simp

function trim_end :: "string \<Rightarrow> string" where
  "trim_end s =
     (if ws_suffix_len s = 0 then s else trim_end (take (length s - ws_suffix_len s) s))"
  by pat_completeness auto
termination
proof (relation "measure length")
  fix s :: string
  assume "ws_suffix_len s \<noteq> 0"
  then have "s \<noteq> []" by auto
  with \<open>ws_suffix_len s \<noteq> 0\<close>
  show "(take (length s - ws_suffix_len s) s, s) \<in> measure length" by simp
qed simp

declare trim_start.simps [simp del] trim_end.simps [simp del]

definition trim :: "string \<Rightarrow> string" where
  "trim s = trim_end (trim_start s)"

text \<open>\<^verbatim>\<open>chars().any(char::is_control)\<close>: U+0000..U+001F, U+007F and U+0080..U+009F.\<close>

fun has_control :: "string \<Rightarrow> bool" where
  "has_control [] = False"
| "has_control (x # xs) =
     (is_ascii_control x
      \<or> byte_of x = 194 \<and> (case xs of [] \<Rightarrow> False | y # _ \<Rightarrow> 128 \<le> byte_of y \<and> byte_of y \<le> 159)
      \<or> has_control xs)"

text \<open>\<^verbatim>\<open>chars().count()\<close>: bytes that do not continue a scalar value.\<close>

definition chars_count :: "string \<Rightarrow> nat" where
  "chars_count s = length (filter (\<lambda>c. \<not> (128 \<le> byte_of c \<and> byte_of c < 192)) s)"

subsection \<open>Facts about the string operations\<close>

lemma starts_with_append [simp, str_simps]: "starts_with (p @ s) p"
  by (simp add: starts_with_def)

lemma starts_with_iff: "starts_with s p \<longleftrightarrow> (\<exists>t. s = p @ t)"
  by (metis append_take_drop_id starts_with_append starts_with_def)

lemma ends_with_iff: "ends_with s p \<longleftrightarrow> (\<exists>t. s = t @ p)"
proof
  assume "ends_with s p"
  then show "\<exists>t. s = t @ p"
    by (metis append_take_drop_id ends_with_def)
qed (auto simp: ends_with_def)

lemma strip_prefix_append [simp, str_simps]: "strip_prefix p (p @ s) = Some s"
  by (simp add: strip_prefix_def)

lemma strip_prefix_eq_Some: "strip_prefix p s = Some t \<longleftrightarrow> s = p @ t"
  by (auto simp: strip_prefix_def starts_with_iff)

lemma strip_suffix_eq_Some: "strip_suffix p s = Some t \<longleftrightarrow> s = t @ p"
  by (auto simp: strip_suffix_def ends_with_iff)

lemma split_on_nonempty [simp]: "split_on c s \<noteq> []"
  by (induction s) (auto split: list.splits)

lemma split_on_no_sep: "c \<notin> set s \<Longrightarrow> split_on c s = [s]"
  by (induction s) auto

lemma split_on_append_sep:
  "c \<notin> set s \<Longrightarrow> split_on c (s @ c # t) = s # split_on c t"
  by (induction s) auto

lemma split_on_parts: "p \<in> set (split_on c s) \<Longrightarrow> c \<notin> set p"
proof (induction s arbitrary: p)
  case Nil
  then show ?case by simp
next
  case (Cons x xs)
  then show ?case
    by (cases "split_on c xs") (auto split: if_splits)
qed

lemma split_on_subset: "p \<in> set (split_on c s) \<Longrightarrow> set p \<subseteq> set s"
proof (induction s arbitrary: p)
  case Nil
  then show ?case by simp
next
  case (Cons x xs)
  then show ?case
    by (cases "split_on c xs") (fastforce split: if_splits)+
qed

lemma find_sub_SomeD:
  "find_sub p s = Some k \<Longrightarrow> k + length p \<le> length s \<and> (\<exists>u v. s = u @ p @ v \<and> length u = k)"
proof (induction s arbitrary: k)
  case Nil
  then show ?case by (auto split: if_splits)
next
  case (Cons x xs)
  show ?case
  proof (cases "starts_with (x # xs) p")
    case True
    then obtain t where "x # xs = p @ t" by (auto simp: starts_with_iff)
    moreover from True Cons.prems have "k = 0" by simp
    ultimately show ?thesis
      by (metis append_Nil length_append list.size(3) plus_nat.add_0 le_add1)
  next
    case False
    with Cons.prems obtain k' where "find_sub p xs = Some k'" "k = Suc k'" by auto
    with Cons.IH obtain u v where "xs = u @ p @ v" "length u = k'" by blast
    then have "x # xs = (x # u) @ p @ v \<and> length (x # u) = k"
      using \<open>k = Suc k'\<close> by simp
    then show ?thesis by (metis add.assoc le_add1 length_append)
  qed
qed

text \<open>The search is leftmost: any occurrence lies at or after the offset found.\<close>

lemma find_sub_leftmost:
  "s = u @ p @ v \<Longrightarrow> \<exists>k. find_sub p s = Some k \<and> k \<le> length u"
proof (induction s arbitrary: u)
  case Nil
  then show ?case by simp
next
  case (Cons x xs)
  show ?case
  proof (cases u)
    case Nil
    with Cons.prems have "starts_with (x # xs) p" by simp
    then show ?thesis by simp
  next
    case (Cons y ys)
    with Cons.prems have "xs = ys @ p @ v" by simp
    then obtain k where "find_sub p xs = Some k" "k \<le> length ys" using Cons.IH by blast
    with Cons show ?thesis by auto
  qed
qed

lemma to_ascii_lowercase_append [simp, str_simps]:
  "to_ascii_lowercase (a @ b) = to_ascii_lowercase a @ to_ascii_lowercase b"
  by (simp add: to_ascii_lowercase_def)

lemma length_to_ascii_lowercase [simp, str_simps]: "length (to_ascii_lowercase s) = length s"
  by (simp add: to_ascii_lowercase_def)

lemmas ascii_eval =
  to_ascii_lowercase_def ascii_lower_char_def is_ascii_upper_def byte_of_def char_of_def
  bit_Suc_0_iff

definition is_ascii_graphic :: "char \<Rightarrow> bool" where
  "is_ascii_graphic c \<longleftrightarrow> 33 \<le> byte_of c \<and> byte_of c \<le> 126"

lemma ws_len_graphic: "s \<noteq> [] \<Longrightarrow> is_ascii_graphic (hd s) \<Longrightarrow> ws_len s = 0"
  by (cases s) (auto simp: ws_len_def is_ascii_graphic_def Let_def take_Cons' split: if_splits)

lemma ws_len_last_graphic:
  assumes "s \<noteq> []" "is_ascii_graphic (last s)"
  shows "ws_len s \<noteq> length s"
proof
  assume len: "ws_len s = length s"
  then have "length s \<le> 3" by (auto simp: ws_len_def Let_def split: if_splits)
  with assms len show False
    by (cases s rule: rev_cases)
      (auto simp: ws_len_def is_ascii_graphic_def Let_def nth_append less_Suc_eq
        take_Cons' append_eq_Cons_conv split: if_splits)
qed

lemma ws_suffix_len_graphic:
  assumes "s \<noteq> []" "is_ascii_graphic (last s)"
  shows "ws_suffix_len s = 0"
proof -
  have "ws_len (drop (length s - k) s) \<noteq> k" if "1 \<le> k" "k \<le> length s" for k
  proof -
    have "drop (length s - k) s \<noteq> []" using that by simp
    moreover have "is_ascii_graphic (last (drop (length s - k) s))"
      using assms that by (simp add: last_drop)
    ultimately have "ws_len (drop (length s - k) s) \<noteq> length (drop (length s - k) s)"
      by (rule ws_len_last_graphic)
    with that show ?thesis by simp
  qed
  then show ?thesis by (auto simp: ws_suffix_len_def Let_def)
qed

lemma trim_graphic:
  assumes "s \<noteq> []" "is_ascii_graphic (hd s)" "is_ascii_graphic (last s)"
  shows "trim s = s"
  using assms
  by (simp add: trim_def trim_start.simps trim_end.simps ws_len_graphic ws_suffix_len_graphic)

lemma trim_nonempty_graphic:
  "s \<noteq> [] \<Longrightarrow> is_ascii_graphic (hd s) \<Longrightarrow> is_ascii_graphic (last s) \<Longrightarrow> trim s \<noteq> []"
  by (simp add: trim_graphic)

lemma length_trim_start: "length (trim_start s) \<le> length s"
proof (induction s rule: trim_start.induct)
  case (1 s)
  show ?case
  proof (cases "ws_len s = 0")
    case True
    then show ?thesis by (simp add: trim_start.simps)
  next
    case False
    then have "length (trim_start (drop (ws_len s) s)) \<le> length s" using "1.IH" by simp
    with False show ?thesis by (subst trim_start.simps) simp
  qed
qed

lemma set_trim_start: "set (trim_start s) \<subseteq> set s"
proof (induction s rule: trim_start.induct)
  case (1 s)
  show ?case
  proof (cases "ws_len s = 0")
    case True
    then show ?thesis by (simp add: trim_start.simps)
  next
    case False
    then have "set (trim_start (drop (ws_len s) s)) \<subseteq> set s"
      using "1.IH" set_drop_subset by fastforce
    with False show ?thesis by (subst trim_start.simps) simp
  qed
qed

lemma set_trim_end: "set (trim_end s) \<subseteq> set s"
proof (induction s rule: trim_end.induct)
  case (1 s)
  show ?case
  proof (cases "ws_suffix_len s = 0")
    case True
    then show ?thesis by (simp add: trim_end.simps)
  next
    case False
    then have "set (trim_end (take (length s - ws_suffix_len s) s)) \<subseteq> set s"
      using "1.IH" set_take_subset by fastforce
    with False show ?thesis by (subst trim_end.simps) simp
  qed
qed

lemma set_trim: "set (trim s) \<subseteq> set s"
  using set_trim_end set_trim_start by (fastforce simp: trim_def)

lemma trim_Nil [simp, str_simps]: "trim [] = []"
  by (simp add: trim_def trim_start.simps trim_end.simps)

section \<open>Decimal numbers\<close>

text \<open>\<^verbatim>\<open>u8::to_string\<close> and \<^verbatim>\<open>str::parse::<u8>\<close> (an optional plus sign, then digits).\<close>

fun show_nat :: "nat \<Rightarrow> string" where
  "show_nat n =
     (if n < 10 then [char_of (48 + n)] else show_nat (n div 10) @ [char_of (48 + n mod 10)])"

declare show_nat.simps [simp del]

definition show_u8 :: "u8 \<Rightarrow> string" where
  "show_u8 n = show_nat (unat n)"

definition digits_value :: "string \<Rightarrow> nat" where
  "digits_value s = foldl (\<lambda>acc c. 10 * acc + (byte_of c - 48)) 0 s"

definition parse_u8 :: "string \<Rightarrow> u8 option" where
  "parse_u8 s =
     (let ds = (case s of c # rest \<Rightarrow> if c = CHR ''+'' then rest else s | [] \<Rightarrow> s) in
      if ds = [] \<or> \<not> list_all is_ascii_digit ds then None
      else if digits_value ds < 256 then Some (of_nat (digits_value ds)) else None)"

lemma byte_of_char_of: "n < 256 \<Longrightarrow> byte_of (char_of n) = n"
  by (simp add: byte_of_def)

lemma show_nat_digits: "list_all is_ascii_digit (show_nat n) \<and> show_nat n \<noteq> []"
proof (induction n rule: show_nat.induct)
  case (1 n)
  show ?case
  proof (cases "n < 10")
    case True
    then show ?thesis
      by (simp add: show_nat.simps [of n] is_ascii_digit_def byte_of_char_of)
  next
    case False
    moreover have "n mod 10 < 10" by simp
    ultimately show ?thesis
      using 1 by (simp add: show_nat.simps [of n] is_ascii_digit_def byte_of_char_of)
  qed
qed

lemma digits_value_show_nat: "digits_value (show_nat n) = n"
proof (induction n rule: show_nat.induct)
  case (1 n)
  have m: "n mod 10 < 10" by simp
  show ?case
  proof (cases "n < 10")
    case True
    then show ?thesis
      by (subst show_nat.simps) (simp add: digits_value_def byte_of_char_of)
  next
    case False
    with 1 have "digits_value (show_nat (n div 10)) = n div 10" by simp
    with False m show ?thesis
      by (subst show_nat.simps) (simp add: digits_value_def byte_of_char_of)
  qed
qed

lemma parse_show_u8: "parse_u8 (show_u8 n) = Some n"
proof -
  have d: "list_all is_ascii_digit (show_u8 n)" "show_u8 n \<noteq> []"
    using show_nat_digits by (simp_all add: show_u8_def)
  then have "hd (show_u8 n) \<noteq> CHR ''+''"
    by (cases "show_u8 n") (auto simp: is_ascii_digit_def byte_of_def)
  with d have "(case show_u8 n of c # rest \<Rightarrow> if c = CHR ''+'' then rest else show_u8 n
      | [] \<Rightarrow> show_u8 n) = show_u8 n"
    by (cases "show_u8 n") auto
  moreover have "digits_value (show_u8 n) = unat n"
    by (simp add: show_u8_def digits_value_show_nat)
  moreover have "unat n < 256" using unsigned_less [of n] by simp
  ultimately show ?thesis using d by (simp add: parse_u8_def Let_def)
qed

section \<open>Sorting\<close>

lemma sort_key_Nil_iff [simp]: "sort_key f xs = [] \<longleftrightarrow> xs = []"
  by (metis length_0_conv length_sort)

section \<open>Tables\<close>

text \<open>
  A relational table is the list of its rows in insertion order. \<open>update_rows\<close> is an
  \<^verbatim>\<open>UPDATE ... WHERE\<close>; the count of changed rows is the number of rows that satisfy the
  condition.
\<close>

definition update_rows :: "('r \<Rightarrow> bool) \<Rightarrow> ('r \<Rightarrow> 'r) \<Rightarrow> 'r list \<Rightarrow> 'r list" where
  "update_rows P f rs = map (\<lambda>r. if P r then f r else r) rs"

definition count_rows :: "('r \<Rightarrow> bool) \<Rightarrow> 'r list \<Rightarrow> nat" where
  "count_rows P rs = length (filter P rs)"

definition find_row :: "('r \<Rightarrow> 'k) \<Rightarrow> 'k \<Rightarrow> 'r list \<Rightarrow> 'r option" where
  "find_row key k rs = find (\<lambda>r. key r = k) rs"

lemma map_update_rows [simp]:
  "(\<And>r. P r \<Longrightarrow> g (f r) = g r) \<Longrightarrow> map g (update_rows P f rs) = map g rs"
  by (auto simp: update_rows_def)

lemma set_update_rows:
  "x \<in> set (update_rows P f rs) \<longleftrightarrow> (\<exists>r \<in> set rs. x = (if P r then f r else r))"
  by (auto simp: update_rows_def)

lemma find_row_update:
  "(\<And>r. P r \<Longrightarrow> key (f r) = key r) \<Longrightarrow>
     find_row key k (update_rows P f rs) =
       map_option (\<lambda>r. if P r then f r else r) (find_row key k rs)"
  by (induction rs) (auto simp: find_row_def update_rows_def)

lemma find_row_append:
  "find_row key k (rs @ ss) =
     (case find_row key k rs of Some r \<Rightarrow> Some r | None \<Rightarrow> find_row key k ss)"
  by (induction rs) (auto simp: find_row_def)

lemma find_row_single [simp]: "find_row key k [r] = (if key r = k then Some r else None)"
  by (simp add: find_row_def)

lemma find_row_SomeD: "find_row key k rs = Some r \<Longrightarrow> r \<in> set rs \<and> key r = k"
  by (auto simp: find_row_def find_Some_iff)

lemma find_row_None_iff: "find_row key k rs = None \<longleftrightarrow> k \<notin> key ` set rs"
  by (auto simp: find_row_def find_None_iff)

lemma find_row_distinct:
  "distinct (map key rs) \<Longrightarrow> r \<in> set rs \<Longrightarrow> find_row key (key r) rs = Some r"
  by (induction rs) (auto simp: find_row_def)

text \<open>
  The interface of a keyed table inside a larger state: its rows can be read and replaced, and
  nothing else depends on them. The laws of lookup follow for every such table.
\<close>

locale keyed_table =
  fixes rows :: "'d \<Rightarrow> 'r list"
    and put :: "'r list \<Rightarrow> 'd \<Rightarrow> 'd"
    and key :: "'r \<Rightarrow> 'k"
  assumes rows_put: "rows (put rs d) = rs"
    and put_put: "put rs (put ss d) = put rs d"
begin

lemma lookup_after_insert:
  "key r \<notin> key ` set (rows d) \<Longrightarrow>
     find_row key k (rows (put (rows d @ [r]) d)) =
       (if k = key r then Some r else find_row key k (rows d))"
proof -
  assume new: "key r \<notin> key ` set (rows d)"
  then have "find_row key (key r) (rows d) = None" by (simp add: find_row_None_iff)
  then show ?thesis
    by (auto simp: rows_put find_row_append split: option.splits)
qed

lemma lookup_after_update:
  "(\<And>r. P r \<Longrightarrow> key (f r) = key r) \<Longrightarrow>
     find_row key k (rows (put (update_rows P f (rows d)) d)) =
       map_option (\<lambda>r. if P r then f r else r) (find_row key k (rows d))"
  by (simp add: rows_put find_row_update)

lemma lookup_after_delete:
  "find_row key k (rows (put (filter (\<lambda>r. key r \<noteq> k) (rows d)) d)) = None"
  by (auto simp: rows_put find_row_None_iff)

lemma keys_distinct_insert:
  "distinct (map key (rows d)) \<Longrightarrow> key r \<notin> key ` set (rows d) \<Longrightarrow>
     distinct (map key (rows (put (rows d @ [r]) d)))"
  by (simp add: rows_put)

lemma last_put: "rows (put rs (put ss d)) = rs"
  by (simp add: put_put rows_put)

end

section \<open>File system\<close>

text \<open>
  The files the service owns, by path. \<^verbatim>\<open>io_faults\<close> names the operations the operating
  system refuses; every fallible call of the program takes it, so that each
  \<^verbatim>\<open>map_err\<close> and early return of the handlers is a branch of the model.
\<close>

type_synonym fs = "path \<rightharpoonup> string"

datatype io_error = NotFound | OtherIo

datatype io_op =
    IoCreate path
  | IoWrite path
  | IoSync path
  | IoRename path path
  | IoRemove path
  | IoMkdir path
  | IoChmod path
  | IoRead path

type_synonym io_faults = "io_op \<Rightarrow> bool"

definition is_file :: "fs \<Rightarrow> path \<Rightarrow> bool" where
  "is_file fs p \<longleftrightarrow> fs p \<noteq> None"

definition fs_remove :: "io_faults \<Rightarrow> fs \<Rightarrow> path \<Rightarrow> io_error + fs" where
  "fs_remove fault fs p =
     (if fault (IoRemove p) then Inl OtherIo
      else if fs p = None then Inl NotFound
      else Inr (fs(p := None)))"

text \<open>\<^verbatim>\<open>let _ = remove_file(p)\<close>: the result is dropped.\<close>

definition fs_remove_ignore :: "io_faults \<Rightarrow> fs \<Rightarrow> path \<Rightarrow> fs" where
  "fs_remove_ignore fault fs p = (case fs_remove fault fs p of Inl _ \<Rightarrow> fs | Inr fs' \<Rightarrow> fs')"

definition fs_rename :: "io_faults \<Rightarrow> fs \<Rightarrow> path \<Rightarrow> path \<Rightarrow> io_error + fs" where
  "fs_rename fault fs p q =
     (if fault (IoRename p q) then Inl OtherIo
      else (case fs p of None \<Rightarrow> Inl NotFound | Some c \<Rightarrow> Inr (fs(p := None, q := Some c))))"

lemma fs_remove_ignore_other [simp]: "q \<noteq> p \<Longrightarrow> fs_remove_ignore fault fs p q = fs q"
  by (auto simp: fs_remove_ignore_def fs_remove_def)

lemma fs_remove_ignore_same:
  "\<not> fault (IoRemove p) \<Longrightarrow> fs_remove_ignore fault fs p p = None"
  by (auto simp: fs_remove_ignore_def fs_remove_def)

lemma fs_rename_InrD:
  "fs_rename fault fs p q = Inr fs' \<Longrightarrow> \<exists>c. fs p = Some c \<and> fs' = fs(p := None, q := Some c)"
  by (auto simp: fs_rename_def split: if_splits option.splits)

section \<open>JSON values and HTTP responses\<close>

datatype json =
    JNull
  | JBool bool
  | JNum int
  | JStr string
  | JArr "json list"
  | JObj "(string \<times> json) list"

datatype response = Response (resp_status: nat) (resp_body: "json option")

definition message :: "nat \<Rightarrow> string \<Rightarrow> response" where
  "message status text = Response status (Some (JObj [(''message'', JStr text)]))"

definition code_message_response :: "nat \<Rightarrow> string \<Rightarrow> string \<Rightarrow> response" where
  "code_message_response status code text =
     Response status (Some (JObj [(''code'', JStr code), (''message'', JStr text)]))"

definition jopt :: "('a \<Rightarrow> json) \<Rightarrow> 'a option \<Rightarrow> json" where
  "jopt f x = (case x of None \<Rightarrow> JNull | Some v \<Rightarrow> f v)"

definition juuid :: "uuid \<Rightarrow> json" where
  "juuid u = JNum (uint u)"

lemma resp_status_message [simp, resp_simps]: "resp_status (message s t) = s"
  by (simp add: message_def)

lemma resp_status_code_message [simp, resp_simps]:
  "resp_status (code_message_response s c t) = s"
  by (simp add: code_message_response_def)

section \<open>Sums\<close>

definition sum_bind :: "'e + 'a \<Rightarrow> ('a \<Rightarrow> 'e + 'b) \<Rightarrow> 'e + 'b" where
  "sum_bind x f = (case x of Inl e \<Rightarrow> Inl e | Inr v \<Rightarrow> f v)"

definition ok_or :: "'e \<Rightarrow> 'a option \<Rightarrow> 'e + 'a" where
  "ok_or e x = (case x of None \<Rightarrow> Inl e | Some v \<Rightarrow> Inr v)"

lemma sum_bind_simps [simp]: "sum_bind (Inl e) f = Inl e" "sum_bind (Inr v) f = f v"
  by (simp_all add: sum_bind_def)

lemma sum_bind_eq_Inr: "sum_bind x f = Inr y \<longleftrightarrow> (\<exists>v. x = Inr v \<and> f v = Inr y)"
  by (cases x) auto

lemma map_sum_eq_Inr [simp]: "map_sum id f x = Inr y \<longleftrightarrow> (\<exists>v. x = Inr v \<and> y = f v)"
  by (cases x) auto

lemma map_sum_eq_Inl [simp]: "map_sum id f x = Inl e \<longleftrightarrow> x = Inl e"
  by (cases x) auto

lemma ok_or_eq_Inr [simp]: "ok_or e x = Inr v \<longleftrightarrow> x = Some v"
  by (cases x) (auto simp: ok_or_def)


section \<open>Selection loops\<close>

text \<open>
  A loop that keeps one candidate and replaces it when \<open>replaces new old\<close> holds: the shape of
  \<^verbatim>\<open>Iterator::max_by_key\<close> and of the update checks' release loops.
\<close>

definition select_step :: "('a \<Rightarrow> 'a \<Rightarrow> bool) \<Rightarrow> 'a \<Rightarrow> 'a option \<Rightarrow> 'a option" where
  "select_step replaces x best =
     (case best of None \<Rightarrow> Some x | Some b \<Rightarrow> if replaces x b then Some x else Some b)"

definition select_best :: "('a \<Rightarrow> 'a \<Rightarrow> bool) \<Rightarrow> 'a list \<Rightarrow> 'a option" where
  "select_best replaces xs = fold (select_step replaces) xs None"

text \<open>
  What such a loop promises, provided that it replaces only by a rank at least as high and keeps
  only against a rank at most as high.
\<close>

locale selection =
  fixes replaces :: "'a \<Rightarrow> 'a \<Rightarrow> bool"
    and rank :: "'a \<Rightarrow> 'k :: linorder"
  assumes replaced: "replaces x b \<Longrightarrow> rank b \<le> rank x"
    and kept: "\<not> replaces x b \<Longrightarrow> rank x \<le> rank b"
begin

lemma fold_select_Some:
  "\<exists>c. fold (select_step replaces) xs (Some b) = Some c \<and> c \<in> insert b (set xs)
     \<and> rank b \<le> rank c \<and> (\<forall>x \<in> set xs. rank x \<le> rank c)"
proof (induction xs arbitrary: b)
  case Nil
  then show ?case by simp
next
  case (Cons x xs)
  show ?case
  proof (cases "replaces x b")
    case True
    with Cons.IH [of x] replaced [of x b] show ?thesis
      by (auto simp: select_step_def intro: order_trans)
  next
    case False
    with Cons.IH [of b] kept [of x b] show ?thesis
      by (auto simp: select_step_def intro: order_trans)
  qed
qed

lemma best_None_iff: "select_best replaces xs = None \<longleftrightarrow> xs = []"
proof (cases xs)
  case (Cons x ys)
  then show ?thesis
    using fold_select_Some [of ys x] by (auto simp: select_best_def select_step_def)
qed (simp add: select_best_def)

lemma best_SomeD:
  "select_best replaces xs = Some b \<Longrightarrow> b \<in> set xs \<and> (\<forall>x \<in> set xs. rank x \<le> rank b)"
proof (cases xs)
  case (Cons x ys)
  assume "select_best replaces xs = Some b"
  then show ?thesis
    using Cons fold_select_Some [of ys x] by (auto simp: select_best_def select_step_def)
qed (simp add: select_best_def)

end

end
