(* ===== verification/Ipa.thy ===== *)
theory Ipa
  imports Prelude
begin

text \<open>
  Validation of an IPA before it enters a signing job (\<^verbatim>\<open>src/ipa.rs\<close>). The ZIP reader, the
  property-list parser and SHA-256 are libraries: \<open>zip_open\<close>, \<open>plist_parse\<close> and
  \<open>sha256_hex\<close> are arguments. Everything the validator decides with what they return is
  modelled: the size, entry-count, expansion and compression-ratio limits, the archive path
  check, the choice of the application bundle and the reading of its \<^verbatim>\<open>Info.plist\<close>.
\<close>

section \<open>Limits\<close>

definition MAX_COMPRESSED_BYTES :: u64 where "MAX_COMPRESSED_BYTES = 2147483648"
definition MAX_EXPANDED_BYTES :: u64 where "MAX_EXPANDED_BYTES = 4294967296"
definition MAX_ENTRIES :: nat where "MAX_ENTRIES = 20000"
definition MAX_COMPRESSION_RATIO :: u64 where "MAX_COMPRESSION_RATIO = 200"
definition RATIO_CHECK_MIN_BYTES :: u64 where "RATIO_CHECK_MIN_BYTES = 1048576"
definition MAX_INFO_PLIST_BYTES :: u64 where "MAX_INFO_PLIST_BYTES = 16777216"

lemma unat_limits [simp]:
  "unat MAX_COMPRESSED_BYTES = 2147483648"
  "unat MAX_EXPANDED_BYTES = 4294967296"
  "unat MAX_COMPRESSION_RATIO = 200"
  "unat RATIO_CHECK_MIN_BYTES = 1048576"
  "unat MAX_INFO_PLIST_BYTES = 16777216"
  by (simp_all add: MAX_COMPRESSED_BYTES_def MAX_EXPANDED_BYTES_def MAX_COMPRESSION_RATIO_def
      RATIO_CHECK_MIN_BYTES_def MAX_INFO_PLIST_BYTES_def)

section \<open>Property lists, as far as the program looks at them\<close>

datatype plist =
    PString string
  | PUnsigned u64
  | PArray "plist list"
  | PDict "(string \<times> plist) list"
  | POther

type_synonym dictionary = "(string \<times> plist) list"

fun plist_string :: "plist \<Rightarrow> string option" where
  "plist_string (PString s) = Some s"
| "plist_string _ = None"

fun as_array :: "plist \<Rightarrow> plist list option" where
  "as_array (PArray xs) = Some xs"
| "as_array _ = None"

fun as_unsigned_integer :: "plist \<Rightarrow> u64 option" where
  "as_unsigned_integer (PUnsigned n) = Some n"
| "as_unsigned_integer _ = None"

fun as_dictionary :: "plist \<Rightarrow> dictionary option" where
  "as_dictionary (PDict d) = Some d"
| "as_dictionary _ = None"

definition get_string :: "dictionary \<Rightarrow> string \<Rightarrow> string option" where
  "get_string d key = Option.bind (map_of d key) plist_string"

section \<open>The platform an IPA is built for\<close>

datatype app_platform = Ios | Tvos | UnknownPlatform

fun installable_on_apple_tv :: "app_platform \<Rightarrow> bool \<Rightarrow> bool" where
  "installable_on_apple_tv UnknownPlatform apple_tv = True"
| "installable_on_apple_tv Tvos apple_tv = apple_tv"
| "installable_on_apple_tv Ios apple_tv = (\<not> apple_tv)"

definition platform_names :: "dictionary \<Rightarrow> string list" where
  "platform_names d =
     map to_ascii_lowercase
       ((case get_string d ''DTPlatformName'' of None \<Rightarrow> [] | Some n \<Rightarrow> [n]) @
        (case Option.bind (map_of d ''CFBundleSupportedPlatforms'') as_array of
           None \<Rightarrow> [] | Some vs \<Rightarrow> List.map_filter plist_string vs))"

definition device_families :: "dictionary \<Rightarrow> u64 list" where
  "device_families d =
     (case Option.bind (map_of d ''UIDeviceFamily'') as_array of
        None \<Rightarrow> [] | Some vs \<Rightarrow> List.map_filter as_unsigned_integer vs)"

definition from_info_plist :: "dictionary \<Rightarrow> app_platform" where
  "from_info_plist d =
     (let names = platform_names d in
      if list_ex (\<lambda>n. starts_with n ''appletv'') names then Tvos
      else if list_ex (\<lambda>n. starts_with n ''iphone'' \<or> starts_with n ''ipad'') names then Ios
      else
        (let families = device_families d in
         if List.member families 3 then Tvos
         else if list_ex (\<lambda>f. f = 1 \<or> f = 2) families then Ios
         else UnknownPlatform))"

section \<open>Upload metadata and errors\<close>

record upload_metadata =
  md_sha256 :: string
  md_size_bytes :: u64
  md_app_bundle_path :: string
  md_bundle_id :: string
  md_display_name :: string
  md_app_version :: "string option"
  md_info_plist_present :: bool
  md_platform :: app_platform

datatype upload_error =
    UploadTooLarge
  | InvalidArchive
  | UnsafeArchivePath
  | TooManyArchiveEntries
  | ExpansionLimit
  | InvalidPayload
  | MissingInfoPlist
  | InvalidBundleIdentifier

fun upload_error_text :: "upload_error \<Rightarrow> string" where
  "upload_error_text UploadTooLarge = ''upload exceeds the configured size limit''"
| "upload_error_text InvalidArchive = ''upload is not a readable IPA archive''"
| "upload_error_text UnsafeArchivePath = ''archive contains an unsafe path''"
| "upload_error_text TooManyArchiveEntries = ''archive contains too many entries''"
| "upload_error_text ExpansionLimit = ''archive expansion exceeds the configured limit''"
| "upload_error_text InvalidPayload =
     ''archive does not contain exactly one application bundle''"
| "upload_error_text MissingInfoPlist = ''application Info.plist is missing''"
| "upload_error_text InvalidBundleIdentifier =
     ''application Info.plist does not contain a valid bundle identifier''"

section \<open>Archive paths\<close>

text \<open>
  \<^verbatim>\<open>Path::components\<close> on Unix splits at \<^verbatim>\<open>/\<close>; a component is \<^verbatim>\<open>ParentDir\<close> when it is
  \<^verbatim>\<open>..\<close>, and there is no \<^verbatim>\<open>Prefix\<close>.
\<close>

definition validate_archive_path :: "string \<Rightarrow> upload_error + unit" where
  "validate_archive_path name =
     (if starts_with name ''/'' \<or> List.member name (CHR 0x5C)
         \<or> List.member (split_on CHR ''/'' name) ''..''
      then Inl UnsafeArchivePath else Inr ())"

definition main_bundle_from_entry :: "string \<Rightarrow> string option" where
  "main_bundle_from_entry name =
     (case split_on CHR ''/'' name of
        first # bundle # _ \<Rightarrow>
          (if first \<noteq> ''Payload'' then None
           else if ends_with bundle ''.app'' then Some (take (8 + length bundle) name)
           else None)
      | _ \<Rightarrow> None)"

section \<open>The inspection loop\<close>

record zip_entry =
  ze_name :: string
  ze_size :: u64
  ze_compressed_size :: u64
  ze_data :: "string option"

record inspect_state =
  is_expanded_bytes :: u64
  is_app_bundle :: "string option"
  is_info_plist_present :: bool
  is_bundle_id :: "string option"
  is_display_name :: "string option"
  is_app_version :: "string option"
  is_platform :: app_platform

definition inspect_init :: inspect_state where
  "inspect_init = \<lparr>is_expanded_bytes = 0, is_app_bundle = None, is_info_plist_present = False,
     is_bundle_id = None, is_display_name = None, is_app_version = None,
     is_platform = UnknownPlatform\<rparr>"

definition not_blank :: "string \<Rightarrow> bool" where
  "not_blank s \<longleftrightarrow> trim s \<noteq> []"

definition opt_filter :: "('a \<Rightarrow> bool) \<Rightarrow> 'a option \<Rightarrow> 'a option" where
  "opt_filter P x = (case x of None \<Rightarrow> None | Some v \<Rightarrow> if P v then Some v else None)"

definition opt_or_else :: "'a option \<Rightarrow> 'a option \<Rightarrow> 'a option" where
  "opt_or_else x y = (case x of None \<Rightarrow> y | Some _ \<Rightarrow> x)"

lemma opt_filter_eq_Some [simp]: "opt_filter P x = Some v \<longleftrightarrow> x = Some v \<and> P v"
  by (auto simp: opt_filter_def split: option.splits)

definition choose_bundle :: "string \<Rightarrow> string option \<Rightarrow> upload_error + string option" where
  "choose_bundle name app_bundle =
     (case main_bundle_from_entry name of
        None \<Rightarrow> Inr app_bundle
      | Some bundle \<Rightarrow>
          (case app_bundle of
             Some existing \<Rightarrow> if existing \<noteq> bundle then Inl InvalidPayload else Inr app_bundle
           | None \<Rightarrow> Inr (Some bundle)))"

definition read_info_plist ::
  "(string \<Rightarrow> plist option) \<Rightarrow> zip_entry \<Rightarrow> inspect_state \<Rightarrow> upload_error + inspect_state" where
  "read_info_plist plist_parse e st =
     (if MAX_INFO_PLIST_BYTES < ze_size e then Inl ExpansionLimit
      else sum_bind (ok_or InvalidArchive (ze_data e)) (\<lambda>data.
        sum_bind (ok_or InvalidBundleIdentifier (plist_parse data)) (\<lambda>value.
        sum_bind (ok_or InvalidBundleIdentifier (as_dictionary value)) (\<lambda>d.
          Inr (st\<lparr>is_info_plist_present := True,
                  is_bundle_id := get_string d ''CFBundleIdentifier'',
                  is_display_name := opt_or_else (get_string d ''CFBundleDisplayName'')
                                       (get_string d ''CFBundleName''),
                  is_app_version := opt_filter not_blank
                    (opt_or_else (get_string d ''CFBundleShortVersionString'')
                       (get_string d ''CFBundleVersion'')),
                  is_platform := from_info_plist d\<rparr>)))))"

definition inspect_entry ::
  "(string \<Rightarrow> plist option) \<Rightarrow> zip_entry option \<Rightarrow> inspect_state \<Rightarrow> upload_error + inspect_state"
where
  "inspect_entry plist_parse entry st =
     (case entry of
        None \<Rightarrow> Inl InvalidArchive
      | Some e \<Rightarrow>
          sum_bind (validate_archive_path (ze_name e)) (\<lambda>_.
            let expanded = saturating_add_u64 (is_expanded_bytes st) (ze_size e) in
            if MAX_EXPANDED_BYTES < expanded then Inl ExpansionLimit
            else if RATIO_CHECK_MIN_BYTES \<le> ze_size e \<and> 0 < ze_compressed_size e
                    \<and> MAX_COMPRESSION_RATIO < ze_size e div ze_compressed_size e
            then Inl ExpansionLimit
            else sum_bind (choose_bundle (ze_name e) (is_app_bundle st)) (\<lambda>bundle.
              let st' = st\<lparr>is_expanded_bytes := expanded, is_app_bundle := bundle\<rparr> in
              case bundle of
                Some b \<Rightarrow>
                  if ze_name e = b @ ''/Info.plist'' then read_info_plist plist_parse e st'
                  else Inr st'
              | None \<Rightarrow> Inr st')))"

fun inspect_entries ::
  "(string \<Rightarrow> plist option) \<Rightarrow> zip_entry option list \<Rightarrow> inspect_state
     \<Rightarrow> upload_error + inspect_state" where
  "inspect_entries plist_parse [] st = Inr st"
| "inspect_entries plist_parse (e # es) st =
     sum_bind (inspect_entry plist_parse e st) (inspect_entries plist_parse es)"

definition finish_inspection ::
  "string \<Rightarrow> nat \<Rightarrow> inspect_state \<Rightarrow> upload_error + upload_metadata" where
  "finish_inspection sha len st =
     (case is_app_bundle st of
        None \<Rightarrow> Inl InvalidPayload
      | Some app_bundle_path \<Rightarrow>
          if \<not> is_info_plist_present st then Inl MissingInfoPlist
          else (case opt_filter not_blank (is_bundle_id st) of
                  None \<Rightarrow> Inl InvalidBundleIdentifier
                | Some bundle_id \<Rightarrow>
                    Inr \<lparr>md_sha256 = sha, md_size_bytes = of_nat len,
                      md_app_bundle_path = app_bundle_path, md_bundle_id = bundle_id,
                      md_display_name = (case opt_filter not_blank (is_display_name st) of
                                           None \<Rightarrow> bundle_id | Some n \<Rightarrow> n),
                      md_app_version = is_app_version st,
                      md_info_plist_present = is_info_plist_present st,
                      md_platform = is_platform st\<rparr>))"

text \<open>
  The libraries the validator calls, as one record: \<open>lib_zip\<close> opens an archive (\<^term>\<open>None\<close>
  when it is unreadable) and gives the entries in index order (\<^term>\<open>None\<close> for an entry that
  cannot be opened).
\<close>

record ipa_lib =
  lib_sha256 :: "string \<Rightarrow> string"
  lib_zip :: "string \<Rightarrow> zip_entry option list option"
  lib_plist :: "string \<Rightarrow> plist option"

definition inspect_ipa ::
  "ipa_lib \<Rightarrow> io_faults \<Rightarrow> fs \<Rightarrow> path \<Rightarrow> upload_error + upload_metadata" where
  "inspect_ipa lib fault fs p =
     (case fs p of
        None \<Rightarrow> Inl InvalidArchive
      | Some content \<Rightarrow>
          if unat MAX_COMPRESSED_BYTES < length content then Inl UploadTooLarge
          else if fault (IoRead p) then Inl InvalidArchive
          else (case lib_zip lib content of
                  None \<Rightarrow> Inl InvalidArchive
                | Some entries \<Rightarrow>
                    if MAX_ENTRIES < length entries then Inl TooManyArchiveEntries
                    else sum_bind (inspect_entries (lib_plist lib) entries inspect_init)
                           (finish_inspection (lib_sha256 lib content) (length content))))"

definition bundle_identifier ::
  "ipa_lib \<Rightarrow> io_faults \<Rightarrow> fs \<Rightarrow> path \<Rightarrow> upload_error + string" where
  "bundle_identifier lib fault fs p = map_sum id md_bundle_id (inspect_ipa lib fault fs p)"

definition app_platform ::
  "ipa_lib \<Rightarrow> io_faults \<Rightarrow> fs \<Rightarrow> path \<Rightarrow> upload_error + app_platform" where
  "app_platform lib fault fs p = map_sum id md_platform (inspect_ipa lib fault fs p)"

section \<open>Archive paths stay under the extraction directory\<close>

text \<open>
  What unpacking an entry name does, as a walk from the extraction root: an empty component or
  \<^verbatim>\<open>.\<close> stays, \<^verbatim>\<open>..\<close> goes up (and fails at the root), anything else goes down.
\<close>

fun walk :: "string list \<Rightarrow> string list \<Rightarrow> string list option" where
  "walk [] at = Some at"
| "walk (c # cs) at =
     (if c = [] \<or> c = ''.'' then walk cs at
      else if c = ''..'' then (case at of [] \<Rightarrow> None | _ # up \<Rightarrow> walk cs up)
      else walk cs (c # at))"

lemma walk_no_parent:
  "''..'' \<notin> set cs \<Longrightarrow> \<exists>down. walk cs at = Some (down @ at)"
proof (induction cs arbitrary: at)
  case (Cons c cs)
  then show ?case
    by (cases "c = [] \<or> c = ''.''") (simp_all, metis append.assoc append_Cons append_Nil)
qed simp

lemma validate_archive_path_Inr:
  "validate_archive_path name = Inr () \<longleftrightarrow>
     \<not> starts_with name ''/'' \<and> CHR 0x5C \<notin> set name \<and> ''..'' \<notin> set (split_on CHR ''/'' name)"
  by (simp add: validate_archive_path_def)

lemma take_length_append: "take (length a) (a @ b) = a"
  by simp

lemma main_bundle_from_entry_SomeD:
  assumes "main_bundle_from_entry name = Some b"
  shows "\<exists>bundle. b = ''Payload/'' @ bundle \<and> ends_with bundle ''.app'' \<and> CHR ''/'' \<notin> set bundle
           \<and> starts_with name b"
proof -
  obtain first bdl rest where split: "split_on CHR ''/'' name = first # bdl # rest"
    using assms by (auto simp: main_bundle_from_entry_def split: list.splits)
  with assms have first: "first = ''Payload''" and app: "ends_with bdl ''.app''"
    and b: "b = take (8 + length bdl) name"
    by (auto simp: main_bundle_from_entry_def split: if_splits)
  have no_sep: "CHR ''/'' \<notin> set first" "CHR ''/'' \<notin> set bdl"
    using split split_on_parts [of _ "CHR ''/''" name] by auto
  have shape: "\<exists>t. s = p @ CHR ''/'' # t \<and> split_on CHR ''/'' t = q # ps"
    if "split_on CHR ''/'' s = p # q # ps" for s p q ps
    using that
  proof (induction s arbitrary: p)
    case (Cons x xs)
    then show ?case
      by (cases "split_on CHR ''/'' xs") (auto split: if_splits)
  qed simp
  from shape [OF split] obtain t where t: "name = first @ CHR ''/'' # t"
    "split_on CHR ''/'' t = bdl # rest" by blast
  have head: "\<exists>u. s = q @ u" if "split_on CHR ''/'' s = q # ps" for s q ps
    using that
  proof (induction s arbitrary: q ps)
    case (Cons x xs)
    then show ?case
      by (cases "split_on CHR ''/'' xs") (auto split: if_splits)
  qed simp
  from head [OF t(2)] obtain u where "t = bdl @ u" by blast
  then have name: "name = (''Payload/'' @ bdl) @ u" using t(1) first by simp
  have "8 + length bdl = length (''Payload/'' @ bdl)" by simp
  with b name have "b = ''Payload/'' @ bdl"
    by (simp only: take_length_append)
  moreover from this have "starts_with name b"
    unfolding name by (simp only: starts_with_append)
  ultimately show ?thesis using app no_sep by blast
qed

section \<open>What an accepted archive satisfies\<close>

definition entries_of :: "zip_entry option list \<Rightarrow> zip_entry list" where
  "entries_of es = List.map_filter id es"

lemma entries_of_simps [simp]:
  "entries_of [] = []"
  "entries_of (Some e # es) = e # entries_of es"
  by (simp_all add: entries_of_def map_filter_simps)

definition ratio_ok :: "zip_entry \<Rightarrow> bool" where
  "ratio_ok e \<longleftrightarrow>
     (1048576 \<le> unat (ze_size e) \<and> 0 < unat (ze_compressed_size e) \<longrightarrow>
      unat (ze_size e) div unat (ze_compressed_size e) \<le> 200)"

lemma inspect_entry_InrD:
  assumes "inspect_entry pp entry st = Inr st'"
  shows "\<exists>e. entry = Some e \<and> validate_archive_path (ze_name e) = Inr () \<and> ratio_ok e
    \<and> unat (is_expanded_bytes st') = unat (is_expanded_bytes st) + unat (ze_size e)
    \<and> unat (is_expanded_bytes st') \<le> 4294967296
    \<and> choose_bundle (ze_name e) (is_app_bundle st) = Inr (is_app_bundle st')"
proof -
  obtain e where e: "entry = Some e"
    using assms by (cases entry) (auto simp: inspect_entry_def)
  define expanded where "expanded = saturating_add_u64 (is_expanded_bytes st) (ze_size e)"
  have path: "validate_archive_path (ze_name e) = Inr ()"
    using assms e by (auto simp: inspect_entry_def sum_bind_eq_Inr)
  have le: "\<not> MAX_EXPANDED_BYTES < expanded"
    using assms e by (auto simp: inspect_entry_def sum_bind_eq_Inr expanded_def Let_def
        split: if_splits)
  have ratio: "\<not> (RATIO_CHECK_MIN_BYTES \<le> ze_size e \<and> 0 < ze_compressed_size e
        \<and> MAX_COMPRESSION_RATIO < ze_size e div ze_compressed_size e)"
    using assms e by (auto simp: inspect_entry_def sum_bind_eq_Inr Let_def split: if_splits)
  obtain bdl where bdl: "choose_bundle (ze_name e) (is_app_bundle st) = Inr bdl"
    and st': "is_app_bundle st' = bdl" "is_expanded_bytes st' = expanded"
    using assms e le ratio
    by (auto simp: inspect_entry_def sum_bind_eq_Inr Let_def expanded_def read_info_plist_def
        split: if_splits option.splits)
  have "unat expanded \<le> 4294967296"
    using le by (simp add: word_less_nat_alt)
  moreover from this have "unat expanded = unat (is_expanded_bytes st) + unat (ze_size e)"
    unfolding expanded_def unat_saturating_add_u64 by simp
  moreover have "ratio_ok e"
    using ratio by (auto simp: ratio_ok_def word_less_nat_alt word_le_nat_alt unat_div)
  ultimately show ?thesis using e path bdl st' by simp
qed

lemma choose_bundle_InrD:
  "choose_bundle name b = Inr b' \<Longrightarrow>
     (\<forall>m. main_bundle_from_entry name = Some m \<longrightarrow> b' = Some m) \<and> (b \<noteq> None \<longrightarrow> b' = b)"
  by (auto simp: choose_bundle_def split: option.splits if_splits)

lemma inspect_entries_InrD:
  "inspect_entries pp es st = Inr st' \<Longrightarrow>
     (\<forall>e \<in> set es. e \<noteq> None)
     \<and> (\<forall>e \<in> set (entries_of es). validate_archive_path (ze_name e) = Inr () \<and> ratio_ok e)
     \<and> unat (is_expanded_bytes st') =
         unat (is_expanded_bytes st) + (\<Sum>e\<leftarrow>entries_of es. unat (ze_size e))
     \<and> (\<forall>e \<in> set (entries_of es). \<forall>m.
          main_bundle_from_entry (ze_name e) = Some m \<longrightarrow> is_app_bundle st' = Some m)
     \<and> (is_app_bundle st \<noteq> None \<longrightarrow> is_app_bundle st' = is_app_bundle st)
     \<and> (es \<noteq> [] \<longrightarrow> unat (is_expanded_bytes st') \<le> 4294967296)"
proof (induction es arbitrary: st)
  case Nil
  then show ?case by simp
next
  case (Cons x xs)
  from Cons.prems obtain st1 where step: "inspect_entry pp x st = Inr st1"
    and rest: "inspect_entries pp xs st1 = Inr st'" by (auto simp: sum_bind_eq_Inr)
  from inspect_entry_InrD [OF step] obtain e where e: "x = Some e"
    "validate_archive_path (ze_name e) = Inr ()" "ratio_ok e"
    "unat (is_expanded_bytes st1) = unat (is_expanded_bytes st) + unat (ze_size e)"
    "unat (is_expanded_bytes st1) \<le> 4294967296"
    "choose_bundle (ze_name e) (is_app_bundle st) = Inr (is_app_bundle st1)" by blast
  note ch = choose_bundle_InrD [OF e(6)]
  note ih = Cons.IH [OF rest]
  have "xs = [] \<Longrightarrow> st' = st1" using rest by simp
  with ih e ch show ?case by (cases "xs = []") auto
qed


lemma inspect_entry_info_plist:
  assumes "inspect_entry pp entry st = Inr st'" and "is_info_plist_present st'"
    and "\<not> is_info_plist_present st"
  shows "\<exists>e b. entry = Some e \<and> is_app_bundle st' = Some b \<and> ze_name e = b @ ''/Info.plist''"
  using assms
  by (auto simp: inspect_entry_def sum_bind_eq_Inr Let_def read_info_plist_def
      split: if_splits option.splits)

lemma choose_bundle_origin:
  "choose_bundle name b = Inr (Some m) \<Longrightarrow> b = Some m \<or> main_bundle_from_entry name = Some m"
  by (auto simp: choose_bundle_def split: option.splits if_splits)

lemma inspect_entries_origin:
  "inspect_entries pp es st = Inr st' \<Longrightarrow> is_app_bundle st' = Some b \<Longrightarrow>
     (is_app_bundle st = Some b \<or>
      (\<exists>e \<in> set (entries_of es). main_bundle_from_entry (ze_name e) = Some b))
     \<and> (is_info_plist_present st' \<longrightarrow> is_info_plist_present st \<or>
         (\<exists>e \<in> set (entries_of es). ze_name e = b @ ''/Info.plist''))"
proof (induction es arbitrary: st)
  case Nil
  then show ?case by simp
next
  case (Cons x xs)
  from Cons.prems(1) obtain st1 where step: "inspect_entry pp x st = Inr st1"
    and rest: "inspect_entries pp xs st1 = Inr st'" by (auto simp: sum_bind_eq_Inr)
  from inspect_entry_InrD [OF step] obtain e where e: "x = Some e"
    "choose_bundle (ze_name e) (is_app_bundle st) = Inr (is_app_bundle st1)" by blast
  note kept = inspect_entries_InrD [OF rest]
  have one: "is_app_bundle st = Some b \<or> main_bundle_from_entry (ze_name e) = Some b"
    if "is_app_bundle st1 = Some b"
    using choose_bundle_origin e(2) that by metis
  have info: "is_info_plist_present st \<or> ze_name e = b @ ''/Info.plist''"
    if "is_info_plist_present st1"
  proof (cases "is_info_plist_present st")
    case False
    from inspect_entry_info_plist [OF step that False] e(1) kept Cons.prems(2)
    show ?thesis by auto
  qed simp
  from Cons.IH [OF rest Cons.prems(2)] one info e(1) show ?case by auto
qed

section \<open>Properties\<close>

text \<open>
  C1: An accepted upload is within every limit and internally consistent. If \<open>inspect_ipa\<close>
  returns metadata, then the file exists and is at most 2 GiB, the archive has at most 20,000
  readable entries whose true total size is at most 4 GiB, no entry of 1 MiB or more expands
  more than 200 times, unpacking any entry name never leaves the extraction directory, all
  entries that lie in an application bundle lie in the one bundle named by the metadata, that
  bundle is \<^verbatim>\<open>Payload/X.app\<close> and holds the \<^verbatim>\<open>Info.plist\<close> that was read, and the bundle
  identifier and display name are not blank.
\<close>

theorem inspect_ipa_accepts_safe:
  assumes "inspect_ipa lib fault fs p = Inr md"
  shows "\<exists>content entries. fs p = Some content \<and> lib_zip lib content = Some entries
    \<and> length content \<le> 2147483648 \<and> length entries \<le> 20000 \<and> None \<notin> set entries
    \<and> (\<Sum>e\<leftarrow>entries_of entries. unat (ze_size e)) \<le> 4294967296
    \<and> (\<forall>e \<in> set (entries_of entries).
         ratio_ok e \<and> \<not> starts_with (ze_name e) ''/''
         \<and> walk (split_on CHR ''/'' (ze_name e)) [] \<noteq> None
         \<and> (\<forall>m. main_bundle_from_entry (ze_name e) = Some m \<longrightarrow> m = md_app_bundle_path md))
    \<and> (\<exists>name. md_app_bundle_path md = ''Payload/'' @ name \<and> ends_with name ''.app'')
    \<and> (\<exists>e \<in> set (entries_of entries). ze_name e = md_app_bundle_path md @ ''/Info.plist'')
    \<and> not_blank (md_bundle_id md) \<and> not_blank (md_display_name md)
    \<and> md_sha256 md = lib_sha256 lib content \<and> unat (md_size_bytes md) = length content"
proof -
  obtain content entries st where c: "fs p = Some content" "lib_zip lib content = Some entries"
    "length content \<le> 2147483648" "length entries \<le> 20000"
    and run: "inspect_entries (lib_plist lib) entries inspect_init = Inr st"
    and fin: "finish_inspection (lib_sha256 lib content) (length content) st = Inr md"
    using assms
    by (auto simp: inspect_ipa_def sum_bind_eq_Inr MAX_ENTRIES_def split: option.splits if_splits)
  from fin obtain b where b: "is_app_bundle st = Some b" "is_info_plist_present st"
    and md: "md_app_bundle_path md = b" "not_blank (md_bundle_id md)"
      "not_blank (md_display_name md)" "md_sha256 md = lib_sha256 lib content"
      "md_size_bytes md = of_nat (length content)"
    by (auto simp: finish_inspection_def opt_filter_def split: option.splits if_splits)
  note all = inspect_entries_InrD [OF run]
  note org = inspect_entries_origin [OF run b(1)]
  have info: "\<exists>e \<in> set (entries_of entries). ze_name e = b @ ''/Info.plist''"
    using org b(2) by (simp add: inspect_init_def)
  then have ne: "entries \<noteq> []" by auto
  have size: "unat (md_size_bytes md) = length content"
    using c(3) md(5) by (simp add: unat_of_nat)
  have total: "(\<Sum>e\<leftarrow>entries_of entries. unat (ze_size e)) \<le> 4294967296"
    using all ne by (simp add: inspect_init_def)
  have walks: "walk (split_on CHR ''/'' n) [] \<noteq> None" "\<not> starts_with n ''/''"
    if "validate_archive_path n = Inr ()" for n
    using that walk_no_parent [of "split_on CHR ''/'' n" "[]"]
    by (auto simp: validate_archive_path_Inr)
  have name: "\<exists>name. b = ''Payload/'' @ name \<and> ends_with name ''.app''"
    using org main_bundle_from_entry_SomeD by (fastforce simp: inspect_init_def)
  have each: "\<forall>e \<in> set (entries_of entries). ratio_ok e \<and> \<not> starts_with (ze_name e) ''/''
      \<and> walk (split_on CHR ''/'' (ze_name e)) [] \<noteq> None
      \<and> (\<forall>m. main_bundle_from_entry (ze_name e) = Some m \<longrightarrow> m = b)"
    using all walks b(1) by auto
  from c total each name info md size all show ?thesis by (metis (no_types, lifting))
qed

definition demo_lib :: ipa_lib where
  "demo_lib = \<lparr>lib_sha256 = (\<lambda>s. ''d'' @ s),
     lib_zip = (\<lambda>s. Some [Some \<lparr>ze_name = ''Payload/A.app/'', ze_size = 0,
                                ze_compressed_size = 0, ze_data = Some []\<rparr>,
                          Some \<lparr>ze_name = ''Payload/A.app/Info.plist'', ze_size = 10,
                                ze_compressed_size = 5, ze_data = Some s\<rparr>]),
     lib_plist = (\<lambda>s. Some (PDict [(''CFBundleIdentifier'', PString s)]))\<rparr>"

definition demo_metadata :: upload_metadata where
  "demo_metadata = \<lparr>md_sha256 = ''dcom.a'', md_size_bytes = 5, md_app_bundle_path = ''Payload/A.app'',
     md_bundle_id = ''com.a'', md_display_name = ''com.a'', md_app_version = None,
     md_info_plist_present = True, md_platform = UnknownPlatform\<rparr>"

lemma demo_inspect:
  "fs p = Some ''com.a'' \<Longrightarrow> inspect_ipa demo_lib (\<lambda>_. False) fs p = Inr demo_metadata"
  by (simp add: inspect_ipa_def demo_lib_def inspect_init_def inspect_entry_def sum_bind_def
      validate_archive_path_def starts_with_def ends_with_def choose_bundle_def
      main_bundle_from_entry_def Let_def saturating_add_u64_def read_info_plist_def ok_or_def
      finish_inspection_def get_string_def opt_or_else_def opt_filter_def not_blank_def
      trim_nonempty_graphic is_ascii_graphic_def byte_of_def from_info_plist_def
      platform_names_def device_families_def MAX_ENTRIES_def MAX_EXPANDED_BYTES_def
      RATIO_CHECK_MIN_BYTES_def MAX_INFO_PLIST_BYTES_def demo_metadata_def)

theorem inspect_ipa_accepts_safe_witness:
  "\<exists>md. inspect_ipa demo_lib (\<lambda>_. False) [''a.ipa'' \<mapsto> ''com.a''] ''a.ipa'' = Inr md
      \<and> not_blank (md_bundle_id md) \<and> unat (md_size_bytes md) = 5"
proof -
  have run: "inspect_ipa demo_lib (\<lambda>_. False) [''a.ipa'' \<mapsto> ''com.a''] ''a.ipa'' = Inr demo_metadata"
    by (rule demo_inspect) simp
  from inspect_ipa_accepts_safe [OF run] run show ?thesis
    by (auto simp: demo_metadata_def)
qed

end
