(* ===== verification/Github.thy ===== *)
theory Github
  imports Ipa "HOL-Library.List_Lexorder" "HOL-Library.Char_ord" "HOL-Library.Product_Lexorder"
begin

text \<open>
  GitHub release sources (\<^verbatim>\<open>src/github.rs\<close>): parsing of repository references, asset
  patterns, the choice of the latest eligible release, and the download of a release asset. The
  network and the URL library are arguments: \<open>http_get\<close> answers a request, \<open>url_parse\<close> and
  \<open>url_extend\<close> are \<^verbatim>\<open>Url::parse\<close> and \<^verbatim>\<open>path_segments_mut().extend\<close>.
\<close>

section \<open>Data\<close>

record repository_ref =
  rr_owner :: string
  rr_repo :: string

record release_asset =
  ra_id :: int
  ra_name :: string
  ra_size :: u64
  ra_digest :: "string option"
  ra_browser_download_url :: string

record release =
  rl_id :: int
  rl_tag_name :: string
  rl_name :: string
  rl_draft :: bool
  rl_prerelease :: bool
  rl_published_at :: "string option"
  rl_assets :: "release_asset list"

datatype github_error =
    InvalidRepository
  | InvalidPattern
  | HttpStatus nat
  | InvalidResponse
  | AssetTooLarge
  | InvalidDownloadUrl
  | NoMatchingAsset
  | AmbiguousAsset
  | InvalidVersion

section \<open>Repository references\<close>

definition owner_char :: "char \<Rightarrow> bool" where
  "owner_char c \<longleftrightarrow> is_ascii_alphanumeric c \<or> c = CHR ''-'' \<or> c = CHR ''_''"

definition repo_char :: "char \<Rightarrow> bool" where
  "repo_char c \<longleftrightarrow> owner_char c \<or> c = CHR ''.''"

definition parse_public_repository :: "string \<Rightarrow> github_error + repository_ref" where
  "parse_public_repository raw =
     (let input = trim raw in
      if input = [] \<or> List.member input (CHR 0x00) \<or> starts_with input ''http://''
         \<or> List.member input CHR ''?'' \<or> List.member input CHR ''#''
      then Inl InvalidRepository
      else
        (let rest = (case strip_prefix ''https://github.com/'' input of
                       Some v \<Rightarrow> (case strip_suffix ''/'' v of Some w \<Rightarrow> w | None \<Rightarrow> v)
                     | None \<Rightarrow> input) in
         case split_on CHR ''/'' rest of
           [owner, repo] \<Rightarrow>
             if owner = [] \<or> repo = [] \<or> \<not> list_all owner_char owner \<or> \<not> list_all repo_char repo
             then Inl InvalidRepository
             else Inr \<lparr>rr_owner = owner, rr_repo = repo\<rparr>
         | _ \<Rightarrow> Inl InvalidRepository))"

definition OFFICIAL_OWNER :: string where "OFFICIAL_OWNER = ''lemehavit''"
definition OFFICIAL_REPO :: string where "OFFICIAL_REPO = ''iPhoneLoadly''"

definition official_repository :: repository_ref where
  "official_repository = \<lparr>rr_owner = OFFICIAL_OWNER, rr_repo = OFFICIAL_REPO\<rparr>"

text \<open>\<open>parse\<close> is \<^verbatim>\<open>semver::Version::parse\<close>.\<close>

definition official_version :: "(string \<Rightarrow> 'v option) \<Rightarrow> string \<Rightarrow> github_error + 'v" where
  "official_version parse tag =
     ok_or InvalidVersion
       (parse (case strip_prefix ''v'' tag of Some rest \<Rightarrow> rest | None \<Rightarrow> tag))"

section \<open>Asset patterns\<close>

definition validate_asset_pattern :: "string \<Rightarrow> github_error + unit" where
  "validate_asset_pattern pattern =
     (if trim pattern = [] \<or> has_control pattern \<or> List.member pattern CHR ''/''
         \<or> List.member pattern (CHR 0x5C)
      then Inl InvalidPattern else Inr ())"

text \<open>
  The loop over the middle parts of a pattern. A part is searched from \<open>offset\<close>; a hit moves the
  offset behind it.
\<close>

fun wildcard_middle :: "string list \<Rightarrow> string \<Rightarrow> nat \<Rightarrow> bool" where
  "wildcard_middle [] value offset = True"
| "wildcard_middle (p # ps) value offset =
     (case find_sub p (drop offset value) of
        None \<Rightarrow> False
      | Some found \<Rightarrow> wildcard_middle ps value (offset + (found + length p)))"

definition wildcard_match :: "string \<Rightarrow> string \<Rightarrow> bool" where
  "wildcard_match pattern0 value0 =
     (let pattern = to_ascii_lowercase pattern0;
          value = to_ascii_lowercase value0;
          parts = split_on CHR ''*'' pattern in
      if length parts = 1 then value = pattern
      else if \<not> starts_with value (parts ! 0) \<or> \<not> ends_with value (parts ! (length parts - 1))
      then False
      else wildcard_middle (take (length parts - 2) (drop 1 parts)) value (length (parts ! 0)))"

definition is_ipa_asset :: "release_asset \<Rightarrow> bool" where
  "is_ipa_asset asset \<longleftrightarrow> ends_with (to_ascii_lowercase (ra_name asset)) ''.ipa''"

definition match_ipa_asset :: "release \<Rightarrow> string \<Rightarrow> github_error + release_asset" where
  "match_ipa_asset rel pattern =
     sum_bind (validate_asset_pattern pattern) (\<lambda>_.
       case filter (\<lambda>a. is_ipa_asset a \<and> wildcard_match pattern (ra_name a)) (rl_assets rel) of
         [] \<Rightarrow> Inl NoMatchingAsset
       | [asset] \<Rightarrow> Inr asset
       | _ \<Rightarrow> Inl AmbiguousAsset)"

section \<open>The latest eligible release\<close>

definition release_key :: "release \<Rightarrow> string \<times> int" where
  "release_key r = ((case rl_published_at r of Some p \<Rightarrow> p | None \<Rightarrow> []), rl_id r)"

definition eligible_release :: "bool \<Rightarrow> release \<Rightarrow> bool" where
  "eligible_release include_prereleases r \<longleftrightarrow>
     \<not> rl_draft r \<and> (include_prereleases \<or> \<not> rl_prerelease r)"

text \<open>\<^verbatim>\<open>max_by_key\<close> keeps the last of several maximal elements.\<close>

definition newer_or_equal :: "release \<Rightarrow> release \<Rightarrow> bool" where
  "newer_or_equal r best \<longleftrightarrow> release_key best \<le> release_key r"

definition latest_eligible_release :: "release list \<Rightarrow> bool \<Rightarrow> release option" where
  "latest_eligible_release releases include_prereleases =
     select_best newer_or_equal (filter (eligible_release include_prereleases) releases)"

interpretation newest: selection newer_or_equal release_key
  by unfold_locales (auto simp: newer_or_equal_def)

section \<open>The client\<close>

record http_response =
  hr_status :: nat
  hr_content_length :: "u64 option"
  hr_chunks :: "string option list"

definition is_success :: "nat \<Rightarrow> bool" where
  "is_success status \<longleftrightarrow> 200 \<le> status \<and> status < 300"

text \<open>The redirect policy of \<^verbatim>\<open>GitHubClient::new\<close>.\<close>

definition redirect_followed :: "string \<Rightarrow> string option \<Rightarrow> bool" where
  "redirect_followed scheme host \<longleftrightarrow>
     scheme = ''https''
     \<and> (case host of None \<Rightarrow> False
        | Some h \<Rightarrow> List.member [''github.com'', ''api.github.com'', ''objects.githubusercontent.com'',
                               ''release-assets.githubusercontent.com''] h)"

text \<open>
  What GitHub answers to the releases request for a repository: a transport error, or a status
  and, when the body parses, the releases in it.
\<close>

type_synonym releases_api = "repository_ref \<Rightarrow> (nat \<times> release list option) option"

definition fetch_releases :: "releases_api \<Rightarrow> repository_ref \<Rightarrow> github_error + release list" where
  "fetch_releases api repository =
     (case api repository of
        None \<Rightarrow> Inl InvalidResponse
      | Some (status, body) \<Rightarrow>
          if \<not> is_success status then Inl (HttpStatus status)
          else ok_or InvalidResponse body)"

definition latest_release ::
  "releases_api \<Rightarrow> repository_ref \<Rightarrow> bool \<Rightarrow> github_error + release" where
  "latest_release api repository include_prereleases =
     sum_bind (fetch_releases api repository) (\<lambda>releases.
       ok_or NoMatchingAsset (latest_eligible_release releases include_prereleases))"

record 'u url_lib =
  ul_parse :: "string \<Rightarrow> 'u option"
  ul_extend :: "'u \<Rightarrow> string list \<Rightarrow> 'u option"
  ul_get :: "'u \<Rightarrow> http_response option"

text \<open>
  The streaming loop of \<^verbatim>\<open>download_asset\<close>: the file holds what was written so far; \<open>received\<close>
  counts the bytes received.
\<close>

fun download_chunks ::
  "io_faults \<Rightarrow> path \<Rightarrow> string option list \<Rightarrow> u64 \<Rightarrow> fs \<Rightarrow> (github_error + unit) \<times> fs" where
  "download_chunks fault dest [] received fs =
     (if fault (IoSync dest) then (Inl InvalidResponse, fs) else (Inr (), fs))"
| "download_chunks fault dest (None # _) received fs = (Inl InvalidResponse, fs)"
| "download_chunks fault dest (Some chunk # chunks) received fs =
     (let received' = saturating_add_u64 received (len_u64 chunk) in
      if MAX_COMPRESSED_BYTES < received' then (Inl AssetTooLarge, fs_remove_ignore fault fs dest)
      else if fault (IoWrite dest) then (Inl InvalidResponse, fs)
      else download_chunks fault dest chunks received'
             (fs(dest := Some ((case fs dest of None \<Rightarrow> [] | Some old \<Rightarrow> old) @ chunk))))"

definition expected_asset_url ::
  "'u url_lib \<Rightarrow> repository_ref \<Rightarrow> release \<Rightarrow> release_asset \<Rightarrow> 'u option" where
  "expected_asset_url lib repository rel asset =
     Option.bind (ul_parse lib ''https://github.com'') (\<lambda>base.
       ul_extend lib base [rr_owner repository, rr_repo repository, ''releases'', ''download'',
                           rl_tag_name rel, ra_name asset])"

definition download_asset ::
  "'u url_lib \<Rightarrow> io_faults \<Rightarrow> fs \<Rightarrow> repository_ref \<Rightarrow> release \<Rightarrow> release_asset \<Rightarrow> path
     \<Rightarrow> (github_error + unit) \<times> fs" where
  "download_asset lib fault fs repository rel asset dest =
     (case (ul_parse lib (ra_browser_download_url asset), expected_asset_url lib repository rel asset) of
        (Some url, Some expected) \<Rightarrow>
          if url \<noteq> expected then (Inl InvalidDownloadUrl, fs)
          else (case ul_get lib url of
                  None \<Rightarrow> (Inl InvalidResponse, fs)
                | Some response \<Rightarrow>
                    if \<not> is_success (hr_status response)
                    then (Inl (HttpStatus (hr_status response)), fs)
                    else if (case hr_content_length response of
                               None \<Rightarrow> False | Some n \<Rightarrow> MAX_COMPRESSED_BYTES < n)
                    then (Inl AssetTooLarge, fs)
                    else if fault (IoCreate dest) then (Inl InvalidResponse, fs)
                    else download_chunks fault dest (hr_chunks response) 0 (fs(dest := Some [])))
      | _ \<Rightarrow> (Inl InvalidDownloadUrl, fs))"

section \<open>Glob semantics of asset patterns\<close>

text \<open>
  The meaning of a pattern: \<^verbatim>\<open>*\<close> stands for any string, every other byte for itself.
\<close>

fun glob :: "string \<Rightarrow> string \<Rightarrow> bool" where
  "glob [] s = (s = [])"
| "glob (p # ps) s =
     (if p = CHR ''*'' then glob ps s \<or> (case s of [] \<Rightarrow> False | _ # s' \<Rightarrow> glob (p # ps) s')
      else (case s of [] \<Rightarrow> False | x # s' \<Rightarrow> x = p \<and> glob ps s'))"

text \<open>The same meaning over the parts between the stars.\<close>

fun glob_parts :: "string list \<Rightarrow> string \<Rightarrow> bool" where
  "glob_parts [] s = False"
| "glob_parts [p] s = (s = p)"
| "glob_parts (p # q # ps) s = (\<exists>u v. s = p @ u @ v \<and> glob_parts (q # ps) v)"

lemma glob_star: "glob (CHR ''*'' # ps) s \<longleftrightarrow> (\<exists>u v. s = u @ v \<and> glob ps v)"
proof (induction s)
  case Nil
  then show ?case by simp
next
  case (Cons x xs)
  have "glob (CHR ''*'' # ps) (x # xs) \<longleftrightarrow> glob ps (x # xs) \<or> (\<exists>u v. xs = u @ v \<and> glob ps v)"
    using Cons.IH by simp
  also have "\<dots> \<longleftrightarrow> (\<exists>u v. x # xs = u @ v \<and> glob ps v)"
    by (auto simp: Cons_eq_append_conv)
  finally show ?case .
qed

lemma glob_parts_Cons_char:
  "glob_parts ((c # p) # ps) s \<longleftrightarrow> (\<exists>s'. s = c # s' \<and> glob_parts (p # ps) s')"
  by (cases ps) auto

lemma glob_eq_parts: "glob pattern s \<longleftrightarrow> glob_parts (split_on CHR ''*'' pattern) s"
proof (induction pattern arbitrary: s)
  case Nil
  then show ?case by simp
next
  case (Cons c cs)
  obtain q qs where q: "split_on CHR ''*'' cs = q # qs"
    by (cases "split_on CHR ''*'' cs") auto
  show ?case
  proof (cases "c = CHR ''*''")
    case True
    with Cons.IH q show ?thesis by (simp add: glob_star del: glob.simps(2))
  next
    case False
    with Cons.IH q show ?thesis
      by (cases s) (auto simp: glob_parts_Cons_char)
  qed
qed

text \<open>The middle loop over the remaining suffix instead of an offset.\<close>

fun scan :: "string list \<Rightarrow> string \<Rightarrow> string option" where
  "scan [] s = Some s"
| "scan (p # ps) s =
     (case find_sub p s of None \<Rightarrow> None | Some found \<Rightarrow> scan ps (drop (found + length p) s))"

lemma wildcard_middle_scan:
  "wildcard_middle ps s offset \<longleftrightarrow> scan ps (drop offset s) \<noteq> None"
  by (induction ps s offset rule: wildcard_middle.induct)
    (auto split: option.splits simp: add.commute add.left_commute)

text \<open>
  Searching leftmost is optimal: the remaining suffix is as long as it can be, so the last part
  fits behind the middle parts iff it fits behind the leftmost choice.
\<close>

lemma scan_glob_parts:
  "(\<exists>u v. s = u @ v \<and> glob_parts (ms @ [l]) v) \<longleftrightarrow>
   (\<exists>r. scan ms s = Some r \<and> ends_with r l)"
proof (induction ms arbitrary: s)
  case Nil
  then show ?case by (auto simp: ends_with_iff)
next
  case (Cons m ms)
  obtain q qs where q: "ms @ [l] = q # qs" by (cases "ms @ [l]") auto
  show ?case
  proof
    assume "\<exists>u v. s = u @ v \<and> glob_parts ((m # ms) @ [l]) v"
    then obtain u u' v' where s: "s = u @ m @ u' @ v'" and g: "glob_parts (ms @ [l]) v'"
      using q by auto
    from find_sub_leftmost [OF s] obtain k where k: "find_sub m s = Some k" "k \<le> length u"
      by blast
    have "drop (k + length m) s = drop (k + length m) (u @ m) @ u' @ v'"
      using s k(2) by simp
    then have "\<exists>u v. drop (k + length m) s = u @ v \<and> glob_parts (ms @ [l]) v"
      using g by (metis append.assoc)
    with Cons.IH k(1) show "\<exists>r. scan (m # ms) s = Some r \<and> ends_with r l" by simp
  next
    assume "\<exists>r. scan (m # ms) s = Some r \<and> ends_with r l"
    then obtain k r where k: "find_sub m s = Some k"
      and r: "scan ms (drop (k + length m) s) = Some r" "ends_with r l"
      by (auto split: option.splits)
    from find_sub_SomeD [OF k] obtain u t where s: "s = u @ m @ t" "length u = k" by blast
    from r have "\<exists>u v. drop (k + length m) s = u @ v \<and> glob_parts (ms @ [l]) v"
      unfolding Cons.IH by blast
    moreover have "drop (k + length m) s = t" using s by simp
    ultimately obtain u' v' where "t = u' @ v'" "glob_parts (ms @ [l]) v'" by auto
    with s(1) q show "\<exists>u v. s = u @ v \<and> glob_parts ((m # ms) @ [l]) v"
      by (metis append_Cons glob_parts.simps(3))
  qed
qed


definition pattern_parts :: "string \<Rightarrow> string list" where
  "pattern_parts pattern = split_on CHR ''*'' (to_ascii_lowercase pattern)"

lemma parts_shape:
  "ps \<noteq> [] \<Longrightarrow> length ps \<noteq> 1 \<Longrightarrow>
     \<exists>f ms l. ps = f # ms @ [l] \<and> take (length ps - 2) (drop 1 ps) = ms
       \<and> ps ! 0 = f \<and> ps ! (length ps - 1) = l"
proof -
  assume "ps \<noteq> []" "length ps \<noteq> 1"
  then obtain f qs where qs: "ps = f # qs" "qs \<noteq> []" by (cases ps) auto
  then obtain ms l where "qs = ms @ [l]" by (cases qs rule: rev_cases) auto
  with qs(1) show ?thesis by (simp add: nth_append)
qed

lemma wildcard_match_parts:
  assumes "pattern_parts p = f # ms @ [l]"
  shows "wildcard_match p v \<longleftrightarrow>
    (let s = to_ascii_lowercase v in
     starts_with s f \<and> ends_with s l \<and> (\<exists>r. scan ms (drop (length f) s) = Some r))"
proof -
  have len: "length (pattern_parts p) \<noteq> 1" "pattern_parts p \<noteq> []" using assms by simp_all
  from parts_shape [OF len(2,1)] assms
  have "take (length (pattern_parts p) - 2) (drop 1 (pattern_parts p)) = ms"
    "pattern_parts p ! 0 = f" "pattern_parts p ! (length (pattern_parts p) - 1) = l" by auto
  with len show ?thesis
    unfolding wildcard_match_def Let_def pattern_parts_def [symmetric]
    by (auto simp: wildcard_middle_scan)
qed

lemma glob_parts_first:
  "glob_parts (f # ms @ [l]) s \<longleftrightarrow>
     (\<exists>t r. s = f @ t \<and> scan ms t = Some r \<and> ends_with r l)"
proof -
  obtain q qs where q: "ms @ [l] = q # qs" by (cases "ms @ [l]") auto
  have "glob_parts (f # ms @ [l]) s \<longleftrightarrow> (\<exists>u v. s = f @ u @ v \<and> glob_parts (ms @ [l]) v)"
    unfolding q by simp
  also have "\<dots> \<longleftrightarrow> (\<exists>t. s = f @ t \<and> (\<exists>u v. t = u @ v \<and> glob_parts (ms @ [l]) v))"
    by auto
  finally show ?thesis unfolding scan_glob_parts by blast
qed

lemma scan_suffix: "scan ms t = Some r \<Longrightarrow> \<exists>u. t = u @ r"
proof (induction ms arbitrary: t)
  case (Cons m ms)
  then show ?case
    by (auto split: option.splits) (metis append.assoc append_take_drop_id)
qed simp

section \<open>Properties\<close>

text \<open>
  Pattern matching never loses an asset: whenever a name matches the asset pattern as a
  case-insensitive glob, \<open>wildcard_match\<close> accepts it. The left-to-right greedy search of the
  middle parts is complete although it never backtracks.
\<close>

theorem wildcard_match_complete:
  assumes "glob (to_ascii_lowercase pattern) (to_ascii_lowercase name)"
  shows "wildcard_match pattern name"
proof -
  let ?s = "to_ascii_lowercase name"
  have g: "glob_parts (pattern_parts pattern) ?s"
    using assms by (simp add: glob_eq_parts pattern_parts_def)
  show ?thesis
  proof (cases "length (pattern_parts pattern) = 1")
    case True
    then obtain q where q: "pattern_parts pattern = [q]" by (cases "pattern_parts pattern") auto
    with g have "?s = q" by simp
    moreover have "to_ascii_lowercase pattern = q"
    proof -
      have "CHR ''*'' \<notin> set (to_ascii_lowercase pattern)"
        using q split_on_append_sep [of "CHR ''*''"] split_list_first
        unfolding pattern_parts_def
        by (metis list.distinct(1) list.inject split_on_nonempty)
      then show ?thesis using q by (simp add: pattern_parts_def split_on_no_sep)
    qed
    ultimately show ?thesis
      using True by (simp add: wildcard_match_def pattern_parts_def)
  next
    case False
    moreover have "pattern_parts pattern \<noteq> []" by (simp add: pattern_parts_def)
    ultimately obtain f ms l where parts: "pattern_parts pattern = f # ms @ [l]"
      using parts_shape by blast
    from g [unfolded parts glob_parts_first] obtain t r where
      t: "?s = f @ t" "scan ms t = Some r" "ends_with r l" by blast
    from scan_suffix [OF t(2)] t have "ends_with ?s l" by (auto simp: ends_with_iff)
    with t show ?thesis by (simp add: wildcard_match_parts [OF parts])
  qed
qed

theorem wildcard_match_complete_witness:
  "wildcard_match ''App-*-rel*.ipa'' ''app-1-rel-rel2.IPA''"
proof (rule wildcard_match_complete)
  have "to_ascii_lowercase ''App-*-rel*.ipa'' = ''app-*-rel*.ipa''"
    "to_ascii_lowercase ''app-1-rel-rel2.IPA'' = ''app-1-rel-rel2.ipa''"
    by (simp_all add: ascii_eval)
  then show "glob (to_ascii_lowercase ''App-*-rel*.ipa'') (to_ascii_lowercase ''app-1-rel-rel2.IPA'')"
    by simp
qed

text \<open>
  What \<open>wildcard_match\<close> accepts beyond the glob: exactly the names in which the last part
  of the pattern overlaps text already consumed by an earlier part. For a pattern with at least
  one star, acceptance coincides with the glob iff the remainder after the middle parts still
  ends with the last part; in particular a pattern that ends in a star is matched exactly.
\<close>

theorem wildcard_match_overlap:
  assumes "pattern_parts pattern = f # ms @ [l]"
  shows "(glob (to_ascii_lowercase pattern) (to_ascii_lowercase name) \<longleftrightarrow>
      wildcard_match pattern name
      \<and> (\<exists>r. scan ms (drop (length f) (to_ascii_lowercase name)) = Some r \<and> ends_with r l))
    \<and> (l = [] \<longrightarrow> wildcard_match pattern name =
          glob (to_ascii_lowercase pattern) (to_ascii_lowercase name))"
proof -
  let ?s = "to_ascii_lowercase name"
  have g: "glob (to_ascii_lowercase pattern) ?s \<longleftrightarrow>
      (\<exists>t r. ?s = f @ t \<and> scan ms t = Some r \<and> ends_with r l)"
    using assms by (simp add: glob_eq_parts pattern_parts_def [symmetric] glob_parts_first)
  have w: "wildcard_match pattern name \<longleftrightarrow>
      starts_with ?s f \<and> ends_with ?s l \<and> (\<exists>r. scan ms (drop (length f) ?s) = Some r)"
    by (simp add: wildcard_match_parts [OF assms] Let_def)
  have one: "glob (to_ascii_lowercase pattern) ?s \<longleftrightarrow> wildcard_match pattern name
      \<and> (\<exists>r. scan ms (drop (length f) ?s) = Some r \<and> ends_with r l)"
  proof
    assume "glob (to_ascii_lowercase pattern) ?s"
    then show "wildcard_match pattern name
      \<and> (\<exists>r. scan ms (drop (length f) ?s) = Some r \<and> ends_with r l)"
      using g wildcard_match_complete by auto
  next
    assume "wildcard_match pattern name
      \<and> (\<exists>r. scan ms (drop (length f) ?s) = Some r \<and> ends_with r l)"
    then show "glob (to_ascii_lowercase pattern) ?s"
      unfolding g w starts_with_iff by auto
  qed
  have "wildcard_match pattern name = glob (to_ascii_lowercase pattern) ?s" if "l = []"
    unfolding one using w that by (auto simp: ends_with_iff)
  with one show ?thesis by blast
qed

theorem wildcard_match_overlap_witness:
  "pattern_parts ''a*b*'' = ''a'' # [''b''] @ [[]] \<and> wildcard_match ''a*b*'' ''axbc''
     = glob (to_ascii_lowercase ''a*b*'') (to_ascii_lowercase ''axbc'')"
proof -
  have parts: "pattern_parts ''a*b*'' = ''a'' # [''b''] @ [[]]"
    by (simp add: pattern_parts_def ascii_eval)
  from wildcard_match_overlap [OF parts, of "''axbc''"] parts show ?thesis by blast
qed

text \<open>
  The greedy matcher is not the glob: the pattern \<^verbatim>\<open>abc*bc\<close> accepts the name \<^verbatim>\<open>abc\<close>, and
  \<^verbatim>\<open>App*-arm64*arm64.ipa\<close> accepts \<^verbatim>\<open>App-arm64.ipa\<close>, because the suffix test may reuse bytes the
  prefix or a middle part has already consumed. An asset can be selected that the pattern excludes.
\<close>

theorem wildcard_match_accepts_non_glob:
  "wildcard_match ''abc*bc'' ''abc'' \<and> \<not> glob ''abc*bc'' ''abc''
   \<and> wildcard_match ''App*-arm64*arm64.ipa'' ''App-arm64.ipa''
   \<and> \<not> glob (to_ascii_lowercase ''App*-arm64*arm64.ipa'') (to_ascii_lowercase ''App-arm64.ipa'')"
proof -
  have lower: "to_ascii_lowercase ''App*-arm64*arm64.ipa'' = ''app*-arm64*arm64.ipa''"
    "to_ascii_lowercase ''App-arm64.ipa'' = ''app-arm64.ipa''"
    "to_ascii_lowercase ''abc*bc'' = ''abc*bc''" "to_ascii_lowercase ''abc'' = ''abc''"
    by (simp_all add: ascii_eval)
  show ?thesis
    by (simp add: wildcard_match_def lower starts_with_def ends_with_def)
qed


text \<open>References that the parser accepts, and the three ways to write one.\<close>

definition valid_ref :: "repository_ref \<Rightarrow> bool" where
  "valid_ref r \<longleftrightarrow> rr_owner r \<noteq> [] \<and> rr_repo r \<noteq> []
     \<and> list_all owner_char (rr_owner r) \<and> list_all repo_char (rr_repo r)"

definition short_form :: "repository_ref \<Rightarrow> string" where
  "short_form r = rr_owner r @ CHR ''/'' # rr_repo r"

lemma repo_char_facts:
  "repo_char c \<Longrightarrow> is_ascii_graphic c \<and> c \<noteq> CHR ''/'' \<and> c \<noteq> CHR '':'' \<and> c \<noteq> CHR ''?''
     \<and> c \<noteq> CHR ''#'' \<and> c \<noteq> CHR 0x00"
  by (auto simp: repo_char_def owner_char_def is_ascii_graphic_def is_ascii_alphanumeric_def
      is_ascii_digit_def is_ascii_upper_def byte_of_def)

lemma valid_ref_chars:
  assumes "valid_ref r" and "c \<in> set (rr_owner r) \<union> set (rr_repo r)"
  shows "repo_char c"
  using assms by (auto simp: valid_ref_def list_all_iff repo_char_def)

lemma split_short_form:
  assumes "valid_ref r"
  shows "split_on CHR ''/'' (short_form r) = [rr_owner r, rr_repo r]"
proof -
  have "CHR ''/'' \<notin> set (rr_owner r)" "CHR ''/'' \<notin> set (rr_repo r)"
    using valid_ref_chars [OF assms] repo_char_facts by blast+
  then show ?thesis
    by (simp add: short_form_def split_on_append_sep split_on_no_sep)
qed

lemma parse_core:
  assumes r: "valid_ref r" and trimmed: "trim raw = input"
    and rest: "(case strip_prefix ''https://github.com/'' input of
        Some v \<Rightarrow> (case strip_suffix ''/'' v of Some w \<Rightarrow> w | None \<Rightarrow> v) | None \<Rightarrow> input)
      = short_form r"
    and ok: "input \<noteq> []" "\<not> starts_with input ''http://''"
      "CHR 0x00 \<notin> set input" "CHR ''?'' \<notin> set input" "CHR ''#'' \<notin> set input"
  shows "parse_public_repository raw = Inr r"
  using r ok split_short_form [OF r]
  by (simp add: parse_public_repository_def trimmed rest Let_def valid_ref_def)

lemma short_form_facts:
  assumes "valid_ref r"
  shows "short_form r \<noteq> []" "is_ascii_graphic (hd (short_form r))"
    "is_ascii_graphic (last (short_form r))" "last (short_form r) \<noteq> CHR ''/''"
    "CHR '':'' \<notin> set (short_form r)" "CHR 0x00 \<notin> set (short_form r)"
    "CHR ''?'' \<notin> set (short_form r)" "CHR ''#'' \<notin> set (short_form r)"
proof -
  have ne: "rr_owner r \<noteq> []" "rr_repo r \<noteq> []" using assms by (auto simp: valid_ref_def)
  note f = valid_ref_chars [OF assms] repo_char_facts
  show "short_form r \<noteq> []" by (simp add: short_form_def)
  show "is_ascii_graphic (hd (short_form r))"
    using ne f by (simp add: short_form_def)
  show "is_ascii_graphic (last (short_form r))" "last (short_form r) \<noteq> CHR ''/''"
    using ne f [of "last (rr_repo r)"] by (auto simp: short_form_def)
  show "CHR '':'' \<notin> set (short_form r)" "CHR 0x00 \<notin> set (short_form r)"
    "CHR ''?'' \<notin> set (short_form r)" "CHR ''#'' \<notin> set (short_form r)"
    using f by (fastforce simp: short_form_def)+
qed

lemma starts_with_colon: "starts_with s p \<Longrightarrow> CHR '':'' \<in> set p \<Longrightarrow> CHR '':'' \<in> set s"
  by (auto simp: starts_with_iff)

lemma parse_public_repository_InrD:
  "parse_public_repository raw = Inr r \<Longrightarrow> valid_ref r"
  by (auto simp: parse_public_repository_def valid_ref_def Let_def split: if_splits list.splits)

text \<open>
  Repository references round-trip. Whatever the parser accepts is a well-formed owner and
  repository name, and every well-formed reference is accepted, with the same result, in its
  three spellings: \<^verbatim>\<open>owner/repo\<close>, \<^verbatim>\<open>https://github.com/owner/repo\<close> and the same with a trailing
  slash.
\<close>

theorem parse_public_repository_roundtrip:
  "(\<exists>raw. parse_public_repository raw = Inr r) \<longleftrightarrow>
     valid_ref r
     \<and> parse_public_repository (short_form r) = Inr r
     \<and> parse_public_repository (''https://github.com/'' @ short_form r) = Inr r
     \<and> parse_public_repository (''https://github.com/'' @ short_form r @ ''/'') = Inr r"
proof
  assume "\<exists>raw. parse_public_repository raw = Inr r"
  then have v: "valid_ref r" using parse_public_repository_InrD by blast
  note f = short_form_facts [OF v]
  let ?u = "''https://github.com/''"
  have g: "is_ascii_graphic CHR ''/''" "is_ascii_graphic CHR ''h''"
    by (simp_all add: is_ascii_graphic_def byte_of_def)
  have p1: "parse_public_repository (short_form r) = Inr r"
  proof (rule parse_core [OF v, where input = "short_form r"])
    show "trim (short_form r) = short_form r" using f by (simp add: trim_graphic)
    show "\<not> starts_with (short_form r) ''http://''" using starts_with_colon f(5) by force
    have "\<not> starts_with (short_form r) ?u" using starts_with_colon f(5) by force
    then show "(case strip_prefix ?u (short_form r) of
        Some v \<Rightarrow> (case strip_suffix ''/'' v of Some w \<Rightarrow> w | None \<Rightarrow> v) | None \<Rightarrow> short_form r)
      = short_form r" by (simp add: strip_prefix_def)
  qed (use f in auto)
  have "strip_suffix ''/'' (short_form r) = None"
    using f(4) by (auto simp: strip_suffix_def ends_with_iff)
  then have p2: "parse_public_repository (?u @ short_form r) = Inr r"
    using f g by (intro parse_core [OF v, where input = "?u @ short_form r"])
      (auto simp: trim_graphic strip_prefix_def starts_with_def)
  have "strip_suffix ''/'' (short_form r @ ''/'') = Some (short_form r)"
    by (simp add: strip_suffix_eq_Some)
  then have p3: "parse_public_repository (?u @ short_form r @ ''/'') = Inr r"
    using f g by (intro parse_core [OF v, where input = "?u @ short_form r @ ''/''"])
      (auto simp: trim_graphic strip_prefix_def starts_with_def)
  from v p1 p2 p3 show "valid_ref r \<and> parse_public_repository (short_form r) = Inr r
     \<and> parse_public_repository (?u @ short_form r) = Inr r
     \<and> parse_public_repository (?u @ short_form r @ ''/'') = Inr r" by blast
qed blast

text \<open>
  The release a source follows is the newest one it may follow. \<open>latest_release\<close> returns a
  release that GitHub listed, is no draft, is a prerelease only when the source asked for them,
  and no eligible release has a greater publication date (ties by id); it fails with
  \<open>NoMatchingAsset\<close> exactly when there is no eligible release.
\<close>

theorem latest_release_newest:
  assumes "fetch_releases api repository = Inr releases"
  shows "(case latest_release api repository pre of
      Inr r \<Rightarrow> r \<in> set releases \<and> \<not> rl_draft r \<and> (pre \<or> \<not> rl_prerelease r)
        \<and> (\<forall>r' \<in> set releases. eligible_release pre r' \<longrightarrow> release_key r' \<le> release_key r)
    | Inl e \<Rightarrow> e = NoMatchingAsset \<and> (\<forall>r' \<in> set releases. \<not> eligible_release pre r'))"
proof (cases "latest_eligible_release releases pre")
  case None
  then have "filter (eligible_release pre) releases = []"
    unfolding latest_eligible_release_def newest.best_None_iff .
  with None assms show ?thesis
    by (simp add: latest_release_def ok_or_def filter_empty_conv)
next
  case (Some r)
  from newest.best_SomeD [OF Some [unfolded latest_eligible_release_def]] Some assms
  show ?thesis
    by (auto simp: latest_release_def ok_or_def eligible_release_def)
qed

definition demo_release :: "int \<Rightarrow> bool \<Rightarrow> release" where
  "demo_release i draft = \<lparr>rl_id = i, rl_tag_name = ''v1'', rl_name = ''r'', rl_draft = draft,
     rl_prerelease = False, rl_published_at = Some ''2026'', rl_assets = []\<rparr>"

theorem latest_release_newest_witness:
  "fetch_releases (\<lambda>_. Some (200, Some [demo_release 1 False, demo_release 2 True]))
     official_repository = Inr [demo_release 1 False, demo_release 2 True]
   \<and> latest_release (\<lambda>_. Some (200, Some [demo_release 1 False, demo_release 2 True]))
       official_repository False \<noteq> Inr (demo_release 2 True)"
proof -
  have f: "fetch_releases (\<lambda>_. Some (200, Some [demo_release 1 False, demo_release 2 True]))
     official_repository = Inr [demo_release 1 False, demo_release 2 True]"
    by (simp add: fetch_releases_def is_success_def ok_or_def)
  from latest_release_newest [OF f, of False] f show ?thesis
    by (auto simp: demo_release_def)
qed

lemma download_chunks_frame:
  "download_chunks fault dest cs n fs = (res, fs') \<Longrightarrow> q \<noteq> dest \<Longrightarrow> fs' q = fs q"
  by (induction fault dest cs n fs arbitrary: res fs' rule: download_chunks.induct)
    (auto simp: Let_def split: if_splits)

lemma download_chunks_Inr:
  "download_chunks fault dest cs n fs = (Inr (), fs') \<Longrightarrow> fs dest = Some old \<Longrightarrow>
     unat n \<le> 2147483648 \<Longrightarrow>
     \<exists>chunks. cs = map Some chunks \<and> fs' dest = Some (old @ concat chunks)
       \<and> unat n + length (concat chunks) \<le> 2147483648"
proof (induction fault dest cs n fs arbitrary: old fs' rule: download_chunks.induct)
  case (1 fault dest received fs)
  then show ?case by (auto split: if_splits)
next
  case (2 fault dest cs received fs)
  then show ?case by simp
next
  case (3 fault dest chunk cs received fs)
  define n' where "n' = saturating_add_u64 received (len_u64 chunk)"
  have le: "\<not> MAX_COMPRESSED_BYTES < n'" and nf: "\<not> fault (IoWrite dest)"
    and rest: "download_chunks fault dest cs n'
        (fs(dest := Some ((case fs dest of None \<Rightarrow> [] | Some old \<Rightarrow> old) @ chunk))) = (Inr (), fs')"
    using "3.prems"(1) by (auto simp: Let_def n'_def split: if_splits)
  from le have bound: "unat n' \<le> 2147483648" by (simp add: word_less_nat_alt)
  from "3.IH" [OF n'_def le [unfolded n'_def, folded n'_def] nf rest, of "old @ chunk"]
    "3.prems"(2) bound
  obtain chunks where c: "cs = map Some chunks" "fs' dest = Some (old @ chunk @ concat chunks)"
    "unat n' + length (concat chunks) \<le> 2147483648" by auto
  have "unat n' = min (unat received + unat (len_u64 chunk)) (2 ^ 64 - 1)"
    by (simp add: n'_def unat_saturating_add_u64)
  with bound have "unat n' = unat received + length chunk"
    by (simp add: unat_len_u64 min_def split: if_splits)
  with c show ?case by (intro exI [of _ "chunk # chunks"]) simp
qed

text \<open>
  C40: A download that reports success stored exactly what it should have. The asset's URL is the
  canonical release URL of the repository, tag and asset name, the server answered with a success
  status, every chunk arrived, the destination holds their concatenation and nothing else, and
  that is at most 2 GiB. Whatever the outcome, no other file changes.
\<close>

theorem download_asset_stores_canonical_asset:
  assumes run: "download_asset lib fault fs repository rel asset dest = (res, fs')"
  shows "(\<forall>q. q \<noteq> dest \<longrightarrow> fs' q = fs q)
    \<and> (res = Inr () \<longrightarrow>
        (\<exists>url response chunks. ul_parse lib (ra_browser_download_url asset) = Some url
           \<and> expected_asset_url lib repository rel asset = Some url
           \<and> ul_get lib url = Some response \<and> is_success (hr_status response)
           \<and> hr_chunks response = map Some chunks
           \<and> fs' dest = Some (concat chunks) \<and> length (concat chunks) \<le> 2147483648))"
proof (intro conjI impI allI)
  fix q assume "q \<noteq> dest"
  with run show "fs' q = fs q"
    by (auto simp: download_asset_def dest: download_chunks_frame
        split: option.splits if_splits)
next
  assume "res = Inr ()"
  with run obtain url response where u: "ul_parse lib (ra_browser_download_url asset) = Some url"
    "expected_asset_url lib repository rel asset = Some url" "ul_get lib url = Some response"
    "is_success (hr_status response)"
    and c: "download_chunks fault dest (hr_chunks response) 0 (fs(dest := Some [])) = (Inr (), fs')"
    by (auto simp: download_asset_def split: option.splits if_splits)
  from download_chunks_Inr [OF c, of "[]"] obtain chunks where
    "hr_chunks response = map Some chunks" "fs' dest = Some (concat chunks)"
    "length (concat chunks) \<le> 2147483648" by auto
  with u show "\<exists>url response chunks. ul_parse lib (ra_browser_download_url asset) = Some url
           \<and> expected_asset_url lib repository rel asset = Some url
           \<and> ul_get lib url = Some response \<and> is_success (hr_status response)
           \<and> hr_chunks response = map Some chunks
           \<and> fs' dest = Some (concat chunks) \<and> length (concat chunks) \<le> 2147483648"
    by blast
qed

definition demo_url_lib :: "string url_lib" where
  "demo_url_lib = \<lparr>ul_parse = (\<lambda>s. Some s),
     ul_extend = (\<lambda>b ps. Some (b @ concat (map (\<lambda>p. CHR ''/'' # p) ps))),
     ul_get = (\<lambda>_. Some \<lparr>hr_status = 200, hr_content_length = None,
                         hr_chunks = [Some ''ab'', Some ''c'']\<rparr>)\<rparr>"

definition demo_asset :: release_asset where
  "demo_asset = \<lparr>ra_id = 7, ra_name = ''A.ipa'', ra_size = 3, ra_digest = None,
     ra_browser_download_url =
       ''https://github.com/lemehavit/iPhoneLoadly/releases/download/v1/A.ipa''\<rparr>"

lemma demo_download:
  "download_asset demo_url_lib (\<lambda>_. False) Map.empty official_repository
     (demo_release 1 False) demo_asset ''t'' = (Inr (), [''t'' \<mapsto> ''abc''])"
proof -
  have l: "len_u64 ''ab'' = 2" "len_u64 ''c'' = 1"
    by (simp_all add: len_u64_def)
  show ?thesis
    by (simp add: download_asset_def demo_url_lib_def demo_asset_def demo_release_def
        expected_asset_url_def official_repository_def OFFICIAL_OWNER_def OFFICIAL_REPO_def
        is_success_def l saturating_add_u64_def MAX_COMPRESSED_BYTES_def)
qed

theorem download_asset_stores_canonical_asset_witness:
  "\<exists>fs'. download_asset demo_url_lib (\<lambda>_. False) Map.empty official_repository
       (demo_release 1 False) demo_asset ''t'' = (Inr (), fs')
     \<and> (\<forall>q. q \<noteq> ''t'' \<longrightarrow> fs' q = None) \<and> fs' ''t'' = Some ''abc''"
  using download_asset_stores_canonical_asset [OF demo_download] demo_download by auto

end
