(* ===== verification/Store.thy ===== *)
theory Store
  imports Github "HOL-Library.Option_ord"
begin

text \<open>
  The SQLite store (\<^verbatim>\<open>src/store.rs\<close>). Each table is the list of its rows, each function
  of the module is one definition over the database record, and the SQL statements are read as
  SQLite documents them: primary keys, unique indexes and foreign keys make a statement fail with
  \<open>ConstraintViolation\<close>, \<^verbatim>\<open>UPDATE\<close> touches the rows that satisfy its condition, \<^verbatim>\<open>NULL\<close> is
  \<^const>\<open>None\<close> and equals nothing. Identifiers are stored as the text of a UUID and are kept as
  UUIDs; \<^verbatim>\<open>datetime('now')\<close> is the argument \<open>now\<close>, in seconds, so that the text order of the
  timestamps is the order of the numbers and \<^verbatim>\<open>julianday\<close> differences are differences of
  seconds. Job phases are the strings the program writes.
\<close>

section \<open>Rows\<close>

record app_row =
  ar_id :: uuid
  ar_sha256 :: string
  ar_storage_path :: string
  ar_size_bytes :: u64
  ar_uploaded_at :: timestamp
  ar_deleted_at :: "timestamp option"
  ar_bundle_id :: "string option"
  ar_display_name :: "string option"
  ar_app_version :: "string option"

record job_row =
  jr_id :: uuid
  jr_app_id :: uuid
  jr_device_id :: uuid
  jr_phase :: string
  jr_created_at :: timestamp
  jr_completed_at :: "timestamp option"
  jr_progress_percent :: "u8 option"
  jr_device_label :: string
  jr_failure_code :: "string option"
  jr_installed_bundle_id :: "string option"
  jr_app_display_name :: "string option"
  jr_app_version :: "string option"

record github_source =
  sr_id :: uuid
  sr_app_id :: "uuid option"
  sr_owner :: string
  sr_repo :: string
  sr_asset_pattern :: string
  sr_include_prereleases :: bool
  sr_auto_download :: bool
  sr_auto_acknowledged_at :: "timestamp option"
  sr_last_checked_at :: "timestamp option"
  sr_last_release_id :: "int option"
  sr_last_release_tag :: "string option"
  sr_last_asset_id :: "int option"
  sr_last_asset_name :: "string option"
  sr_last_download_sha256 :: "string option"
  sr_last_status :: "string option"
  sr_last_error_code :: "string option"
  sr_created_at :: timestamp
  sr_updated_at :: timestamp

record db =
  db_apps :: "app_row list"
  db_jobs :: "job_row list"
  db_settings :: "string \<rightharpoonup> string"
  db_unmanaged :: "(uuid \<times> uuid) \<rightharpoonup> timestamp"
  db_sources :: "github_source list"

datatype sql_error = ConstraintViolation | InvalidQuery

definition empty_db :: db where
  "empty_db = \<lparr>db_apps = [], db_jobs = [], db_settings = Map.empty, db_unmanaged = Map.empty,
     db_sources = []\<rparr>"

abbreviation put_apps :: "app_row list \<Rightarrow> db \<Rightarrow> db" where
  "put_apps rs d \<equiv> d\<lparr>db_apps := rs\<rparr>"

abbreviation put_jobs :: "job_row list \<Rightarrow> db \<Rightarrow> db" where
  "put_jobs rs d \<equiv> d\<lparr>db_jobs := rs\<rparr>"

abbreviation put_sources :: "github_source list \<Rightarrow> db \<Rightarrow> db" where
  "put_sources rs d \<equiv> d\<lparr>db_sources := rs\<rparr>"

interpretation apps: keyed_table db_apps put_apps ar_id
  by unfold_locales simp_all

interpretation jobs: keyed_table db_jobs put_jobs jr_id
  by unfold_locales simp_all

interpretation sources: keyed_table db_sources put_sources sr_id
  by unfold_locales simp_all

section \<open>Start-up migration\<close>

text \<open>
  The statements \<open>initialize\<close> runs after it has added the missing columns (as \<^verbatim>\<open>NULL\<close>) to an
  older database. \<open>show_uuid\<close> is the text of an identifier; \<^verbatim>\<open>substr(id, 1, 8)\<close> takes its first
  eight bytes.
\<close>

definition null_or_empty :: "string option \<Rightarrow> bool" where
  "null_or_empty x \<longleftrightarrow> x = None \<or> x = Some []"

definition initialize :: "(uuid \<Rightarrow> string) \<Rightarrow> db \<Rightarrow> db" where
  "initialize show_uuid d =
     (let apps' = update_rows (\<lambda>a. null_or_empty (ar_display_name a))
            (\<lambda>a. a\<lparr>ar_display_name :=
               (case ar_bundle_id a of Some b \<Rightarrow> Some b | None \<Rightarrow> Some (take 8 (show_uuid (ar_id a))))\<rparr>)
            (db_apps d);
          app_of = (\<lambda>j. find_row ar_id (jr_app_id j) apps');
          jobs1 = update_rows (\<lambda>j. jr_phase j = ''succeeded'' \<and> jr_completed_at j = None)
            (\<lambda>j. j\<lparr>jr_completed_at := Some (jr_created_at j)\<rparr>) (db_jobs d);
          jobs2 = update_rows (\<lambda>j. null_or_empty (jr_app_display_name j))
            (\<lambda>j. j\<lparr>jr_app_display_name := Option.bind (app_of j) ar_display_name\<rparr>) jobs1;
          jobs3 = update_rows (\<lambda>j. jr_app_version j = None)
            (\<lambda>j. j\<lparr>jr_app_version := Option.bind (app_of j) ar_app_version\<rparr>) jobs2 in
      d\<lparr>db_apps := apps', db_jobs := jobs3\<rparr>)"

section \<open>Apps\<close>

record stored_app =
  sa_id :: uuid
  sa_sha256 :: string
  sa_size_bytes :: u64
  sa_display_name :: string
  sa_app_version :: "string option"
  sa_bundle_id :: "string option"
  sa_storage_path :: string

definition stored_app_of :: "(uuid \<Rightarrow> string) \<Rightarrow> app_row \<Rightarrow> stored_app" where
  "stored_app_of show_uuid a = \<lparr>sa_id = ar_id a, sa_sha256 = ar_sha256 a,
     sa_size_bytes = ar_size_bytes a,
     sa_display_name = (case ar_display_name a of Some n \<Rightarrow> n | None \<Rightarrow> show_uuid (ar_id a)),
     sa_app_version = ar_app_version a, sa_bundle_id = ar_bundle_id a,
     sa_storage_path = ar_storage_path a\<rparr>"

definition insert_app ::
  "timestamp \<Rightarrow> uuid \<Rightarrow> string \<Rightarrow> string \<Rightarrow> u64 \<Rightarrow> string \<Rightarrow> string \<Rightarrow> string option \<Rightarrow> db
     \<Rightarrow> sql_error + db" where
  "insert_app now aid sha256 storage_path size_bytes bundle_id display_name app_version d =
     (if aid \<in> set (map ar_id (db_apps d)) \<or> sha256 \<in> set (map ar_sha256 (db_apps d))
         \<or> storage_path \<in> set (map ar_storage_path (db_apps d))
      then Inl ConstraintViolation
      else Inr (put_apps (db_apps d @
        [\<lparr>ar_id = aid, ar_sha256 = sha256, ar_storage_path = storage_path,
          ar_size_bytes = size_bytes, ar_uploaded_at = now, ar_deleted_at = None,
          ar_bundle_id = Some bundle_id, ar_display_name = Some display_name,
          ar_app_version = app_version\<rparr>]) d))"

definition apps_missing_bundle_id :: "db \<Rightarrow> (uuid \<times> string) list" where
  "apps_missing_bundle_id d =
     [(ar_id a, ar_storage_path a). a \<leftarrow> db_apps d,
        ar_bundle_id a = None \<and> ar_deleted_at a = None]"

definition app_path :: "db \<Rightarrow> uuid \<Rightarrow> string option" where
  "app_path d aid =
     (case find (\<lambda>a. ar_id a = aid \<and> ar_deleted_at a = None) (db_apps d) of
        None \<Rightarrow> None | Some a \<Rightarrow> Some (ar_storage_path a))"

definition set_app_bundle_id :: "uuid \<Rightarrow> string \<Rightarrow> db \<Rightarrow> db" where
  "set_app_bundle_id aid bundle_id d =
     put_apps (update_rows (\<lambda>a. ar_id a = aid) (\<lambda>a. a\<lparr>ar_bundle_id := Some bundle_id\<rparr>) (db_apps d)) d"

definition list_apps :: "(uuid \<Rightarrow> string) \<Rightarrow> db \<Rightarrow> stored_app list" where
  "list_apps show_uuid d =
     map (stored_app_of show_uuid)
       (sort_key (\<lambda>a. - int (ar_uploaded_at a)) (filter (\<lambda>a. ar_deleted_at a = None) (db_apps d)))"

definition find_app :: "(uuid \<Rightarrow> string) \<Rightarrow> db \<Rightarrow> uuid \<Rightarrow> stored_app option" where
  "find_app show_uuid d aid = map_option (stored_app_of show_uuid) (find_row ar_id aid (db_apps d))"

definition restore_app :: "uuid \<Rightarrow> db \<Rightarrow> db" where
  "restore_app aid d =
     put_apps (update_rows (\<lambda>a. ar_id a = aid) (\<lambda>a. a\<lparr>ar_deleted_at := None\<rparr>) (db_apps d)) d"

definition rename_app :: "uuid \<Rightarrow> string \<Rightarrow> db \<Rightarrow> bool \<times> db" where
  "rename_app aid display_name d =
     (let P = (\<lambda>a. ar_id a = aid \<and> ar_deleted_at a = None) in
      (count_rows P (db_apps d) = 1,
       put_apps (update_rows P (\<lambda>a. a\<lparr>ar_display_name := Some display_name\<rparr>) (db_apps d)) d))"

section \<open>Jobs\<close>

definition active_phases :: "string list" where
  "active_phases = [''queued'', ''connecting'', ''signing'', ''transferring'', ''installing'']"

definition is_active :: "job_row \<Rightarrow> bool" where
  "is_active j \<longleftrightarrow> List.member active_phases (jr_phase j)"

record stored_job =
  sj_id :: uuid
  sj_app_id :: uuid
  sj_device_id :: uuid
  sj_phase :: string
  sj_progress_percent :: "u8 option"
  sj_device_label :: string
  sj_created_at :: timestamp
  sj_completed_at :: "timestamp option"
  sj_failure_code :: "string option"
  sj_app_display_name :: string
  sj_app_version :: "string option"

definition stored_job_of :: "(uuid \<Rightarrow> string) \<Rightarrow> job_row \<Rightarrow> stored_job" where
  "stored_job_of show_uuid j = \<lparr>sj_id = jr_id j, sj_app_id = jr_app_id j,
     sj_device_id = jr_device_id j, sj_phase = jr_phase j,
     sj_progress_percent = jr_progress_percent j, sj_device_label = jr_device_label j,
     sj_created_at = jr_created_at j, sj_completed_at = jr_completed_at j,
     sj_failure_code = jr_failure_code j,
     sj_app_display_name = (case jr_app_display_name j of Some n \<Rightarrow> n | None \<Rightarrow> show_uuid (jr_app_id j)),
     sj_app_version = jr_app_version j\<rparr>"

definition active_job_exists :: "db \<Rightarrow> uuid \<Rightarrow> uuid \<Rightarrow> bool" where
  "active_job_exists d app_id device_id \<longleftrightarrow>
     list_ex (\<lambda>j. jr_app_id j = app_id \<and> jr_device_id j = device_id \<and> is_active j) (db_jobs d)"

definition active_job_exists_for_app :: "db \<Rightarrow> uuid \<Rightarrow> bool" where
  "active_job_exists_for_app d app_id \<longleftrightarrow>
     list_ex (\<lambda>j. jr_app_id j = app_id \<and> is_active j) (db_jobs d)"

text \<open>\<^verbatim>\<open>INSERT ... SELECT\<close>: no row is inserted when the app is missing or deleted.\<close>

definition insert_job ::
  "timestamp \<Rightarrow> uuid \<Rightarrow> uuid \<Rightarrow> uuid \<Rightarrow> string \<Rightarrow> db \<Rightarrow> sql_error + db" where
  "insert_job now jid app_id device_id device_label d =
     (case find (\<lambda>a. ar_id a = app_id \<and> ar_deleted_at a = None) (db_apps d) of
        None \<Rightarrow> Inr d
      | Some a \<Rightarrow>
          if jid \<in> set (map jr_id (db_jobs d)) then Inl ConstraintViolation
          else Inr (put_jobs (db_jobs d @
            [\<lparr>jr_id = jid, jr_app_id = ar_id a, jr_device_id = device_id, jr_phase = ''queued'',
              jr_created_at = now, jr_completed_at = None, jr_progress_percent = None,
              jr_device_label = device_label, jr_failure_code = None,
              jr_installed_bundle_id = None, jr_app_display_name = ar_display_name a,
              jr_app_version = ar_app_version a\<rparr>]) d))"

definition find_job :: "(uuid \<Rightarrow> string) \<Rightarrow> db \<Rightarrow> uuid \<Rightarrow> stored_job option" where
  "find_job show_uuid d jid = map_option (stored_job_of show_uuid) (find_row jr_id jid (db_jobs d))"

definition list_recent_jobs :: "(uuid \<Rightarrow> string) \<Rightarrow> db \<Rightarrow> nat \<Rightarrow> stored_job list" where
  "list_recent_jobs show_uuid d limit =
     map (stored_job_of show_uuid)
       (take limit (sort_key (\<lambda>j. - int (jr_created_at j)) (db_jobs d)))"

definition terminal_phase :: "string \<Rightarrow> bool" where
  "terminal_phase phase \<longleftrightarrow> phase = ''succeeded'' \<or> phase = ''failed''"

definition update_job_status :: "timestamp \<Rightarrow> uuid \<Rightarrow> string \<Rightarrow> u8 option \<Rightarrow> db \<Rightarrow> db" where
  "update_job_status now jid phase progress_percent d =
     put_jobs (update_rows (\<lambda>j. jr_id j = jid)
       (\<lambda>j. if terminal_phase phase
            then j\<lparr>jr_phase := phase, jr_progress_percent := progress_percent,
                   jr_completed_at := Some now\<rparr>
            else j\<lparr>jr_phase := phase, jr_progress_percent := progress_percent\<rparr>) (db_jobs d)) d"

definition set_job_failure :: "uuid \<Rightarrow> string \<Rightarrow> db \<Rightarrow> db" where
  "set_job_failure jid failure_code d =
     put_jobs (update_rows (\<lambda>j. jr_id j = jid)
       (\<lambda>j. j\<lparr>jr_failure_code := Some failure_code\<rparr>) (db_jobs d)) d"

definition set_job_installed_bundle_id :: "uuid \<Rightarrow> string \<Rightarrow> db \<Rightarrow> db" where
  "set_job_installed_bundle_id jid bundle_id d =
     put_jobs (update_rows (\<lambda>j. jr_id j = jid)
       (\<lambda>j. j\<lparr>jr_installed_bundle_id := Some bundle_id\<rparr>) (db_jobs d)) d"

section \<open>Managed installations\<close>

definition is_unmanaged :: "db \<Rightarrow> uuid \<Rightarrow> uuid \<Rightarrow> bool" where
  "is_unmanaged d app_id device_id \<longleftrightarrow> db_unmanaged d (app_id, device_id) \<noteq> None"

record managed_app_identity =
  mi_installed_bundle_id :: "string option"
  mi_source_bundle_id :: "string option"

definition managed_app_identities :: "db \<Rightarrow> uuid \<Rightarrow> managed_app_identity list" where
  "managed_app_identities d device_id =
     remdups [\<lparr>mi_installed_bundle_id = jr_installed_bundle_id j,
               mi_source_bundle_id = ar_bundle_id a\<rparr>.
       j \<leftarrow> db_jobs d, a \<leftarrow> db_apps d,
       ar_id a = jr_app_id j \<and> jr_device_id j = device_id \<and> jr_phase j = ''succeeded''
       \<and> \<not> is_unmanaged d (jr_app_id j) (jr_device_id j)
       \<and> (jr_installed_bundle_id j \<noteq> None
          \<or> \<not> list_ex (\<lambda>exact. jr_app_id exact = jr_app_id j \<and> jr_device_id exact = jr_device_id j
                  \<and> jr_phase exact = ''succeeded'' \<and> jr_installed_bundle_id exact \<noteq> None) (db_jobs d))]"

text \<open>\<^verbatim>\<open>SELECT MAX(completed_at)\<close> over the successful jobs of an app on a device.\<close>

definition success_times :: "db \<Rightarrow> uuid \<Rightarrow> uuid \<Rightarrow> timestamp list" where
  "success_times d app_id device_id =
     List.map_filter jr_completed_at
       (filter (\<lambda>j. jr_app_id j = app_id \<and> jr_device_id j = device_id \<and> jr_phase j = ''succeeded'')
          (db_jobs d))"

definition latest_success :: "db \<Rightarrow> uuid \<Rightarrow> uuid \<Rightarrow> timestamp option" where
  "latest_success d app_id device_id =
     (case success_times d app_id device_id of [] \<Rightarrow> None | t # ts \<Rightarrow> Some (foldl max t ts))"

text \<open>
  The rows that \<open>refresh_due_targets\<close>, \<open>refresh_attention\<close>, \<open>installation_validity\<close> and
  \<open>list_managed_installations\<close> start from: the latest success of each managed, undeleted app on
  each device, joined with the app, with its completion time.
\<close>

definition current_installs :: "db \<Rightarrow> (job_row \<times> app_row \<times> timestamp) list" where
  "current_installs d =
     [(j, a, t). j \<leftarrow> db_jobs d, a \<leftarrow> db_apps d,
        ar_id a = jr_app_id j \<and> jr_phase j = ''succeeded'' \<and> ar_deleted_at a = None
        \<and> \<not> is_unmanaged d (jr_app_id j) (jr_device_id j)
        \<and> jr_completed_at j = latest_success d (jr_app_id j) (jr_device_id j),
        t \<leftarrow> (case jr_completed_at j of None \<Rightarrow> [] | Some t \<Rightarrow> [t])]"

record managed_installation =
  mg_app_id :: uuid
  mg_device_id :: uuid
  mg_app_display_name :: string
  mg_app_version :: "string option"
  mg_device_label :: string

definition list_managed_installations :: "(uuid \<Rightarrow> string) \<Rightarrow> db \<Rightarrow> managed_installation list" where
  "list_managed_installations show_uuid d =
     [\<lparr>mg_app_id = jr_app_id j, mg_device_id = jr_device_id j,
       mg_app_display_name = (case ar_display_name a of Some n \<Rightarrow> n
          | None \<Rightarrow> (case ar_bundle_id a of Some b \<Rightarrow> b | None \<Rightarrow> show_uuid (ar_id a))),
       mg_app_version = ar_app_version a, mg_device_label = jr_device_label j\<rparr>.
      (j, a, t) \<leftarrow> sort_key (\<lambda>(j, a, t). (jr_device_label j, ar_display_name a)) (current_installs d)]"

definition forget_managed_installation :: "timestamp \<Rightarrow> uuid \<Rightarrow> uuid \<Rightarrow> db \<Rightarrow> bool \<times> db" where
  "forget_managed_installation now app_id device_id d =
     (if active_job_exists d app_id device_id then (False, d)
      else (True, d\<lparr>db_unmanaged := (db_unmanaged d)((app_id, device_id) \<mapsto> now)\<rparr>))"

definition restore_managed_installation :: "uuid \<Rightarrow> uuid \<Rightarrow> db \<Rightarrow> db" where
  "restore_managed_installation app_id device_id d =
     d\<lparr>db_unmanaged := (db_unmanaged d)((app_id, device_id) := None)\<rparr>"

section \<open>Refresh\<close>

definition DEFAULT_REFRESH_AFTER_DAYS :: u8 where "DEFAULT_REFRESH_AFTER_DAYS = 6"
definition MIN_REFRESH_AFTER_DAYS :: u8 where "MIN_REFRESH_AFTER_DAYS = 1"
definition MAX_REFRESH_AFTER_DAYS :: u8 where "MAX_REFRESH_AFTER_DAYS = 6"

definition refresh_day_ok :: "u8 \<Rightarrow> bool" where
  "refresh_day_ok days \<longleftrightarrow> MIN_REFRESH_AFTER_DAYS \<le> days \<and> days \<le> MAX_REFRESH_AFTER_DAYS"

definition refresh_after_days :: "db \<Rightarrow> u8" where
  "refresh_after_days d =
     (case db_settings d ''refresh_after_days'' of
        None \<Rightarrow> DEFAULT_REFRESH_AFTER_DAYS
      | Some v \<Rightarrow> (case opt_filter refresh_day_ok (parse_u8 v) of
                    Some days \<Rightarrow> days | None \<Rightarrow> DEFAULT_REFRESH_AFTER_DAYS))"

definition set_refresh_after_days :: "u8 \<Rightarrow> db \<Rightarrow> sql_error + db" where
  "set_refresh_after_days after_days d =
     (if \<not> refresh_day_ok after_days then Inl InvalidQuery
      else Inr (d\<lparr>db_settings := (db_settings d)(''refresh_after_days'' \<mapsto> show_u8 after_days)\<rparr>))"

text \<open>\<open>elapsed\<close> is \<^verbatim>\<open>julianday('now') - julianday(completed_at)\<close> in seconds.\<close>

definition elapsed :: "timestamp \<Rightarrow> timestamp \<Rightarrow> int" where
  "elapsed now t = int now - int t"

text \<open>\<^verbatim>\<open>CAST(... AS INTEGER)\<close> truncates towards zero.\<close>

definition trunc_div :: "int \<Rightarrow> int \<Rightarrow> int" where
  "trunc_div a b = sgn a * sgn b * (\<bar>a\<bar> div \<bar>b\<bar>)"

definition refresh_due_targets :: "timestamp \<Rightarrow> u8 \<Rightarrow> db \<Rightarrow> (uuid \<times> uuid \<times> string) list" where
  "refresh_due_targets now after_days d =
     [(jr_app_id j, jr_device_id j, ar_storage_path a). (j, a, t) \<leftarrow> current_installs d,
        uint after_days * 86400 \<le> elapsed now t]"

record refresh_attention_row =
  ra_app_id :: uuid
  ra_device_label :: string
  ra_age_hours :: int
  ra_retry_failed :: bool

definition refresh_attention :: "timestamp \<Rightarrow> u8 \<Rightarrow> db \<Rightarrow> refresh_attention_row list" where
  "refresh_attention now after_days d =
     (let attention_after_hours = (if after_days = 0 then 0 else uint after_days - 1) * 24 in
      [\<lparr>ra_app_id = jr_app_id j, ra_device_label = jr_device_label j,
        ra_age_hours = trunc_div (elapsed now t) 3600,
        ra_retry_failed = list_ex (\<lambda>failed. jr_app_id failed = jr_app_id j
           \<and> jr_device_id failed = jr_device_id j \<and> jr_phase failed = ''failed''
           \<and> t < jr_created_at failed) (db_jobs d)\<rparr>.
       (j, a, t) \<leftarrow> current_installs d, attention_after_hours * 3600 \<le> elapsed now t])"

record installation_validity_row =
  iv_app_id :: uuid
  iv_device_label :: string
  iv_remaining_days :: int
  iv_completed_at :: timestamp

text \<open>\<^verbatim>\<open>MAX(0, CAST((168 - hours + 23) / 24 AS INTEGER))\<close>, in seconds.\<close>

definition remaining_days :: "timestamp \<Rightarrow> timestamp \<Rightarrow> int" where
  "remaining_days now t = max 0 (trunc_div ((168 + 23) * 3600 - elapsed now t) 86400)"

definition installation_validity :: "timestamp \<Rightarrow> db \<Rightarrow> installation_validity_row list" where
  "installation_validity now d =
     [\<lparr>iv_app_id = jr_app_id j, iv_device_label = jr_device_label j,
       iv_remaining_days = remaining_days now t, iv_completed_at = t\<rparr>.
      (j, a, t) \<leftarrow> sort_key (\<lambda>(j, a, t). - int t) (current_installs d)]"

section \<open>Deletion\<close>

datatype app_deletion = ReadyToDelete path | ActiveJob | AppNotFound

definition mark_app_deleted :: "timestamp \<Rightarrow> uuid \<Rightarrow> db \<Rightarrow> app_deletion \<times> db" where
  "mark_app_deleted now aid d =
     (case app_path d aid of
        None \<Rightarrow> (AppNotFound, d)
      | Some p \<Rightarrow>
          if active_job_exists_for_app d aid then (ActiveJob, d)
          else (ReadyToDelete p,
            d\<lparr>db_apps := update_rows (\<lambda>a. ar_id a = aid \<and> ar_deleted_at a = None)
                 (\<lambda>a. a\<lparr>ar_deleted_at := Some now\<rparr>) (db_apps d),
              db_sources := update_rows (\<lambda>s. sr_app_id s = Some aid)
                 (\<lambda>s. s\<lparr>sr_auto_download := False, sr_auto_acknowledged_at := None,
                        sr_updated_at := now\<rparr>) (db_sources d)\<rparr>))"

section \<open>GitHub sources\<close>

definition source_identity :: "github_source \<Rightarrow> string \<times> string \<times> string" where
  "source_identity s = (sr_owner s, sr_repo s, sr_asset_pattern s)"

text \<open>
  The constraints on \<^verbatim>\<open>github_sources\<close> that a statement writing \<open>app_id\<close>, owner, repository and
  pattern to one row has to satisfy against the other rows.
\<close>

definition source_conflict ::
  "github_source list \<Rightarrow> db \<Rightarrow> uuid option \<Rightarrow> string \<times> string \<times> string \<Rightarrow> bool" where
  "source_conflict others d app_id ident \<longleftrightarrow>
     ident \<in> set (map source_identity others)
     \<or> (case app_id of None \<Rightarrow> False
        | Some a \<Rightarrow> Some a \<in> set (map sr_app_id others) \<or> a \<notin> set (map ar_id (db_apps d)))"

definition insert_github_source ::
  "timestamp \<Rightarrow> uuid \<Rightarrow> uuid option \<Rightarrow> string \<Rightarrow> string \<Rightarrow> string \<Rightarrow> bool \<Rightarrow> db \<Rightarrow> sql_error + db"
where
  "insert_github_source now sid app_id owner repo asset_pattern include_prereleases d =
     (if sid \<in> set (map sr_id (db_sources d))
         \<or> source_conflict (db_sources d) d app_id (owner, repo, asset_pattern)
      then Inl ConstraintViolation
      else Inr (put_sources (db_sources d @
        [\<lparr>sr_id = sid, sr_app_id = app_id, sr_owner = owner, sr_repo = repo,
          sr_asset_pattern = asset_pattern, sr_include_prereleases = include_prereleases,
          sr_auto_download = False, sr_auto_acknowledged_at = None, sr_last_checked_at = None,
          sr_last_release_id = None, sr_last_release_tag = None, sr_last_asset_id = None,
          sr_last_asset_name = None, sr_last_download_sha256 = None, sr_last_status = None,
          sr_last_error_code = None, sr_created_at = now, sr_updated_at = now\<rparr>]) d))"

definition update_github_source ::
  "timestamp \<Rightarrow> uuid \<Rightarrow> uuid option \<Rightarrow> string \<Rightarrow> string \<Rightarrow> string \<Rightarrow> bool \<Rightarrow> db
     \<Rightarrow> sql_error + bool \<times> db" where
  "update_github_source now sid app_id owner repo asset_pattern include_prereleases d =
     (if sid \<notin> set (map sr_id (db_sources d)) then Inr (False, d)
      else if source_conflict (filter (\<lambda>s. sr_id s \<noteq> sid) (db_sources d)) d app_id
                (owner, repo, asset_pattern)
      then Inl ConstraintViolation
      else Inr (count_rows (\<lambda>s. sr_id s = sid) (db_sources d) = 1,
        put_sources (update_rows (\<lambda>s. sr_id s = sid)
          (\<lambda>s. s\<lparr>sr_app_id := app_id, sr_owner := owner, sr_repo := repo,
                 sr_asset_pattern := asset_pattern,
                 sr_include_prereleases := include_prereleases, sr_auto_download := False,
                 sr_auto_acknowledged_at := None, sr_updated_at := now\<rparr>) (db_sources d)) d))"

definition delete_github_source :: "uuid \<Rightarrow> db \<Rightarrow> bool \<times> db" where
  "delete_github_source sid d =
     (count_rows (\<lambda>s. sr_id s = sid) (db_sources d) = 1,
      put_sources (filter (\<lambda>s. sr_id s \<noteq> sid) (db_sources d)) d)"

definition link_github_source_app :: "timestamp \<Rightarrow> uuid \<Rightarrow> uuid \<Rightarrow> db \<Rightarrow> sql_error + db" where
  "link_github_source_app now source_id app_id d =
     (if source_id \<notin> set (map sr_id (db_sources d)) then Inr d
      else if Some app_id \<in> set (map sr_app_id (filter (\<lambda>s. sr_id s \<noteq> source_id) (db_sources d)))
              \<or> app_id \<notin> set (map ar_id (db_apps d))
      then Inl ConstraintViolation
      else Inr (put_sources (update_rows (\<lambda>s. sr_id s = source_id)
        (\<lambda>s. s\<lparr>sr_app_id := Some app_id, sr_updated_at := now\<rparr>) (db_sources d)) d))"

text \<open>The transaction of \<open>replace_app_from_source\<close>: a failing statement leaves nothing behind.\<close>

definition replace_app_from_source ::
  "timestamp \<Rightarrow> uuid \<Rightarrow> uuid \<Rightarrow> string \<Rightarrow> string \<Rightarrow> u64 \<Rightarrow> string \<Rightarrow> string option
     \<Rightarrow> int \<Rightarrow> string \<Rightarrow> int \<Rightarrow> string \<Rightarrow> db \<Rightarrow> sql_error + db" where
  "replace_app_from_source now app_id source_id sha256 storage_path size_bytes bundle_id app_version
       release_id release_tag asset_id asset_name d =
     (let others = filter (\<lambda>a. ar_id a \<noteq> app_id) (db_apps d) in
      if app_id \<in> set (map ar_id (db_apps d))
         \<and> (sha256 \<in> set (map ar_sha256 others) \<or> storage_path \<in> set (map ar_storage_path others))
      then Inl ConstraintViolation
      else Inr (d\<lparr>db_apps := update_rows (\<lambda>a. ar_id a = app_id)
             (\<lambda>a. a\<lparr>ar_sha256 := sha256, ar_storage_path := storage_path,
                    ar_size_bytes := size_bytes, ar_bundle_id := Some bundle_id,
                    ar_app_version := app_version, ar_deleted_at := None\<rparr>) (db_apps d),
           db_sources := update_rows (\<lambda>s. sr_id s = source_id)
             (\<lambda>s. s\<lparr>sr_last_checked_at := Some now, sr_last_release_id := Some release_id,
                    sr_last_release_tag := Some release_tag, sr_last_asset_id := Some asset_id,
                    sr_last_asset_name := Some asset_name, sr_last_download_sha256 := Some sha256,
                    sr_last_status := Some ''downloaded'', sr_last_error_code := None,
                    sr_updated_at := now\<rparr>) (db_sources d)\<rparr>))"

definition list_github_sources :: "db \<Rightarrow> github_source list" where
  "list_github_sources d = sort_key (\<lambda>s. - int (sr_created_at s)) (db_sources d)"

definition find_github_source :: "db \<Rightarrow> uuid \<Rightarrow> github_source option" where
  "find_github_source d sid = find_row sr_id sid (db_sources d)"

definition set_source_automation :: "timestamp \<Rightarrow> uuid \<Rightarrow> bool \<Rightarrow> bool \<Rightarrow> db \<Rightarrow> bool \<times> db" where
  "set_source_automation now sid enabled acknowledged d =
     (if enabled \<and> \<not> acknowledged then (False, d)
      else (count_rows (\<lambda>s. sr_id s = sid) (db_sources d) = 1,
        put_sources (update_rows (\<lambda>s. sr_id s = sid)
          (\<lambda>s. s\<lparr>sr_auto_download := enabled,
                 sr_auto_acknowledged_at := (if enabled then Some now else None),
                 sr_updated_at := now\<rparr>) (db_sources d)) d))"

definition record_source_check ::
  "timestamp \<Rightarrow> uuid \<Rightarrow> int option \<Rightarrow> string option \<Rightarrow> int option \<Rightarrow> string option \<Rightarrow> string option
     \<Rightarrow> string \<Rightarrow> string option \<Rightarrow> db \<Rightarrow> db" where
  "record_source_check now sid release_id release_tag asset_id asset_name sha256 status error_code d =
     put_sources (update_rows (\<lambda>s. sr_id s = sid)
       (\<lambda>s. s\<lparr>sr_last_checked_at := Some now, sr_last_release_id := release_id,
              sr_last_release_tag := release_tag, sr_last_asset_id := asset_id,
              sr_last_asset_name := asset_name, sr_last_download_sha256 := sha256,
              sr_last_status := Some status, sr_last_error_code := error_code,
              sr_updated_at := now\<rparr>) (db_sources d)) d"

end
