(* ===== verification/StoreInvariant.thy ===== *)
theory StoreInvariant
  imports Store
begin

text \<open>
  What the store keeps true. \<open>store_op\<close> lists every statement of \<^verbatim>\<open>src/store.rs\<close> that writes,
  \<open>apply_store_op\<close> runs one (a failing statement changes nothing), and \<open>reachable_db\<close> holds the
  databases that any sequence of them produces from an empty one. The lemmas prove, operation by
  operation, that the constraints and the relations between columns survive; the properties
  follow.
\<close>

section \<open>The invariant\<close>

definition apps_ok :: "db \<Rightarrow> bool" where
  "apps_ok d \<longleftrightarrow> distinct (map ar_id (db_apps d)) \<and> distinct (map ar_sha256 (db_apps d))
     \<and> distinct (map ar_storage_path (db_apps d))"

definition job_ok :: "db \<Rightarrow> job_row \<Rightarrow> bool" where
  "job_ok d j \<longleftrightarrow> jr_app_id j \<in> set (map ar_id (db_apps d))
     \<and> (terminal_phase (jr_phase j) \<longrightarrow> jr_completed_at j \<noteq> None)"

definition jobs_ok :: "db \<Rightarrow> bool" where
  "jobs_ok d \<longleftrightarrow> distinct (map jr_id (db_jobs d)) \<and> (\<forall>j \<in> set (db_jobs d). job_ok d j)"

definition source_ok :: "db \<Rightarrow> github_source \<Rightarrow> bool" where
  "source_ok d s \<longleftrightarrow> (sr_auto_download s \<longrightarrow> sr_auto_acknowledged_at s \<noteq> None)
     \<and> (\<forall>a. sr_app_id s = Some a \<longrightarrow> a \<in> set (map ar_id (db_apps d)))"

definition linked_apps :: "github_source list \<Rightarrow> uuid list" where
  "linked_apps ss = List.map_filter sr_app_id ss"

definition sources_ok :: "db \<Rightarrow> bool" where
  "sources_ok d \<longleftrightarrow> distinct (map sr_id (db_sources d))
     \<and> distinct (map source_identity (db_sources d))
     \<and> distinct (linked_apps (db_sources d))
     \<and> (\<forall>s \<in> set (db_sources d). source_ok d s)"

definition settings_ok :: "db \<Rightarrow> bool" where
  "settings_ok d \<longleftrightarrow> (\<forall>v. db_settings d ''refresh_after_days'' = Some v \<longrightarrow>
     (\<exists>n. refresh_day_ok n \<and> v = show_u8 n))"

definition db_ok :: "db \<Rightarrow> bool" where
  "db_ok d \<longleftrightarrow> apps_ok d \<and> jobs_ok d \<and> sources_ok d \<and> settings_ok d"

lemmas db_ok_defs = apps_ok_def jobs_ok_def job_ok_def sources_ok_def source_ok_def settings_ok_def

section \<open>The writing operations\<close>

datatype store_op =
    InsertApp timestamp uuid string string u64 string string "string option"
  | SetAppBundleId uuid string
  | SetRefreshAfterDays u8
  | InsertJob timestamp uuid uuid uuid string
  | UpdateJobStatus timestamp uuid string "u8 option"
  | SetJobFailure uuid string
  | SetJobInstalledBundleId uuid string
  | MarkAppDeleted timestamp uuid
  | RestoreApp uuid
  | RenameApp uuid string
  | ForgetManaged timestamp uuid uuid
  | RestoreManaged uuid uuid
  | InsertSource timestamp uuid "uuid option" string string string bool
  | UpdateSource timestamp uuid "uuid option" string string string bool
  | DeleteSource uuid
  | LinkSource timestamp uuid uuid
  | ReplaceApp timestamp uuid uuid string string u64 string "string option" int string int string
  | SetAutomation timestamp uuid bool bool
  | RecordCheck timestamp uuid "int option" "string option" "int option" "string option"
      "string option" string "string option"

definition keep :: "db \<Rightarrow> sql_error + db \<Rightarrow> db" where
  "keep d r = (case r of Inl _ \<Rightarrow> d | Inr d' \<Rightarrow> d')"

fun apply_store_op :: "store_op \<Rightarrow> db \<Rightarrow> db" where
  "apply_store_op (InsertApp now i sha p n b nm v) d = keep d (insert_app now i sha p n b nm v d)"
| "apply_store_op (SetAppBundleId i b) d = set_app_bundle_id i b d"
| "apply_store_op (SetRefreshAfterDays n) d = keep d (set_refresh_after_days n d)"
| "apply_store_op (InsertJob now i a dv l) d = keep d (insert_job now i a dv l d)"
| "apply_store_op (UpdateJobStatus now i ph pr) d = update_job_status now i ph pr d"
| "apply_store_op (SetJobFailure i c) d = set_job_failure i c d"
| "apply_store_op (SetJobInstalledBundleId i b) d = set_job_installed_bundle_id i b d"
| "apply_store_op (MarkAppDeleted now i) d = snd (mark_app_deleted now i d)"
| "apply_store_op (RestoreApp i) d = restore_app i d"
| "apply_store_op (RenameApp i n) d = snd (rename_app i n d)"
| "apply_store_op (ForgetManaged now a dv) d = snd (forget_managed_installation now a dv d)"
| "apply_store_op (RestoreManaged a dv) d = restore_managed_installation a dv d"
| "apply_store_op (InsertSource now i a o' r p pre) d =
     keep d (insert_github_source now i a o' r p pre d)"
| "apply_store_op (UpdateSource now i a o' r p pre) d =
     (case update_github_source now i a o' r p pre d of Inl _ \<Rightarrow> d | Inr (_, d') \<Rightarrow> d')"
| "apply_store_op (DeleteSource i) d = snd (delete_github_source i d)"
| "apply_store_op (LinkSource now i a) d = keep d (link_github_source_app now i a d)"
| "apply_store_op (ReplaceApp now a s sha p n b v ri rt ai an) d =
     keep d (replace_app_from_source now a s sha p n b v ri rt ai an d)"
| "apply_store_op (SetAutomation now i e k) d = snd (set_source_automation now i e k d)"
| "apply_store_op (RecordCheck now i ri rt ai an sha st ec) d =
     record_source_check now i ri rt ai an sha st ec d"

inductive reachable_db :: "db \<Rightarrow> bool" where
  start: "reachable_db empty_db"
| step: "reachable_db d \<Longrightarrow> reachable_db (apply_store_op x d)"

section \<open>Shared lemmas\<close>

lemma linked_apps_simps [simp]:
  "linked_apps [] = []"
  "linked_apps (s # ss) = (case sr_app_id s of None \<Rightarrow> linked_apps ss | Some a \<Rightarrow> a # linked_apps ss)"
  "linked_apps (ss @ ts) = linked_apps ss @ linked_apps ts"
  by (simp_all add: linked_apps_def map_filter_simps split: option.splits)
    (simp add: List.map_filter_def)

lemma linked_apps_update [simp]:
  "(\<And>s. P s \<Longrightarrow> sr_app_id (f s) = sr_app_id s) \<Longrightarrow>
     linked_apps (update_rows P f ss) = linked_apps ss"
  by (induction ss) (auto simp: update_rows_def split: option.splits)

lemma update_rows_absent: "k \<notin> key ` set rs \<Longrightarrow> update_rows (\<lambda>r. key r = k) f rs = rs"
  by (force simp: update_rows_def intro: map_idI)

lemma set_linked_apps: "a \<in> set (linked_apps ss) \<longleftrightarrow> (\<exists>s \<in> set ss. sr_app_id s = Some a)"
  by (induction ss) (auto split: option.splits)

lemma distinct_linked_filter: "distinct (linked_apps ss) \<Longrightarrow> distinct (linked_apps (filter P ss))"
  by (induction ss) (auto simp: set_linked_apps split: option.splits)

lemma filter_other_key: "k \<notin> key ` set rs \<Longrightarrow> filter (\<lambda>r. key r \<noteq> k) rs = rs"
  by (force simp: filter_id_conv)

text \<open>Overwriting a column of the one row with a given key by a value no other row has.\<close>

lemma distinct_update_one:
  assumes "distinct (map key rs)" "distinct (map g rs)"
    and "\<And>r. key (f r) = key r" and "\<And>r. key r = k \<Longrightarrow> g (f r) = v"
    and "v \<notin> set (map g (filter (\<lambda>r. key r \<noteq> k) rs))"
  shows "distinct (map g (update_rows (\<lambda>r. key r = k) f rs))"
  using assms
proof (induction rs)
  case (Cons r rs)
  have same: "update_rows (\<lambda>r. key r = k) f rs = rs" if "key r = k"
    using that Cons.prems(1) by (intro update_rows_absent) simp
  show ?case
  proof (cases "key r = k")
    case True
    then have "filter (\<lambda>x. key x \<noteq> k) rs = rs"
      using Cons.prems(1) by (intro filter_other_key) simp
    with True Cons.prems same show ?thesis by (simp add: update_rows_def)
  next
    case False
    with Cons have ih: "distinct (map g (update_rows (\<lambda>r. key r = k) f rs))" by simp
    have "g r \<notin> set (map g (update_rows (\<lambda>r. key r = k) f rs))"
      using Cons.prems False by (auto simp: update_rows_def split: if_splits)
    with ih False show ?thesis by (simp add: update_rows_def)
  qed
qed (simp add: update_rows_def)

lemma distinct_linked_update_one:
  assumes "distinct (map sr_id ss)" "distinct (linked_apps ss)"
    and "\<And>s. sr_id (f s) = sr_id s" and "\<And>s. sr_id s = k \<Longrightarrow> sr_app_id (f s) = v"
    and "\<And>a. v = Some a \<Longrightarrow> Some a \<notin> set (map sr_app_id (filter (\<lambda>s. sr_id s \<noteq> k) ss))"
  shows "distinct (linked_apps (update_rows (\<lambda>s. sr_id s = k) f ss))"
  using assms
proof (induction ss)
  case (Cons s ss)
  show ?case
  proof (cases "sr_id s = k")
    case True
    then have same: "update_rows (\<lambda>r. sr_id r = k) f ss = ss"
      using Cons.prems(1) by (intro update_rows_absent) simp
    from True Cons.prems(1) have "filter (\<lambda>x. sr_id x \<noteq> k) ss = ss"
      by (intro filter_other_key) simp
    with True Cons.prems same show ?thesis
      by (force simp: update_rows_def set_linked_apps split: option.splits)
  next
    case False
    with Cons have ih: "distinct (linked_apps (update_rows (\<lambda>r. sr_id r = k) f ss))"
      by (auto split: option.splits)
    have "a \<notin> set (linked_apps (update_rows (\<lambda>r. sr_id r = k) f ss))" if "sr_app_id s = Some a" for a
    proof
      assume "a \<in> set (linked_apps (update_rows (\<lambda>r. sr_id r = k) f ss))"
      then obtain t where t: "t \<in> set ss"
        "sr_app_id (if sr_id t = k then f t else t) = Some a"
        by (auto simp: set_linked_apps set_update_rows)
      show False
      proof (cases "sr_id t = k")
        case True
        with t Cons.prems(4) have "v = Some a" by simp
        with Cons.prems(5) that False show False by force
      next
        case False
        with t that Cons.prems(2) show False by (force simp: set_linked_apps)
      qed
    qed
    with ih False show ?thesis by (simp add: update_rows_def split: option.splits)
  qed
qed (simp add: update_rows_def)

section \<open>Each operation keeps the invariant\<close>

lemma jobs_only:
  assumes "db_ok d" "distinct (map jr_id js)" "\<forall>j \<in> set js. job_ok d j"
  shows "db_ok (put_jobs js d)"
  using assms by (simp add: db_ok_def db_ok_defs)

lemma update_jobs_ok:
  assumes "db_ok d" and "\<And>j. jr_id (f j) = jr_id j" "\<And>j. jr_app_id (f j) = jr_app_id j"
    and "\<And>j. job_ok d j \<Longrightarrow> terminal_phase (jr_phase (f j)) \<Longrightarrow> jr_completed_at (f j) \<noteq> None"
  shows "db_ok (put_jobs (update_rows P f (db_jobs d)) d)"
  using assms
  by (intro jobs_only) (auto simp: db_ok_def jobs_ok_def job_ok_def set_update_rows)

lemma sources_only:
  assumes "db_ok d" "distinct (map sr_id ss)" "distinct (map source_identity ss)"
    "distinct (linked_apps ss)" "\<forall>s \<in> set ss. source_ok d s"
  shows "db_ok (put_sources ss d)"
  using assms by (simp add: db_ok_def db_ok_defs)

lemma update_sources_ok:
  assumes "db_ok d" and "\<And>s. sr_id (f s) = sr_id s" "\<And>s. source_identity (f s) = source_identity s"
    "\<And>s. sr_app_id (f s) = sr_app_id s"
    and "\<And>s. source_ok d s \<Longrightarrow> sr_auto_download (f s) \<Longrightarrow> sr_auto_acknowledged_at (f s) \<noteq> None"
  shows "db_ok (put_sources (update_rows P f (db_sources d)) d)"
proof (rule sources_only [OF assms(1)])
  show "\<forall>s \<in> set (update_rows P f (db_sources d)). source_ok d s"
    using assms by (auto simp: db_ok_def sources_ok_def source_ok_def set_update_rows split: if_splits)
qed (use assms in \<open>simp_all add: db_ok_def sources_ok_def\<close>)

lemma update_apps_ok:
  assumes "db_ok d" and "\<And>a. ar_id (f a) = ar_id a" "\<And>a. ar_sha256 (f a) = ar_sha256 a"
    "\<And>a. ar_storage_path (f a) = ar_storage_path a"
  shows "db_ok (put_apps (update_rows P f (db_apps d)) d)"
proof -
  have m: "map ar_id (update_rows P f (db_apps d)) = map ar_id (db_apps d)"
    "map ar_sha256 (update_rows P f (db_apps d)) = map ar_sha256 (db_apps d)"
    "map ar_storage_path (update_rows P f (db_apps d)) = map ar_storage_path (db_apps d)"
    using assms by simp_all
  show ?thesis
    using assms(1) by (simp add: db_ok_def db_ok_defs m del: set_map)
qed

lemma insert_app_ok: "db_ok d \<Longrightarrow> db_ok (keep d (insert_app now i sha p n b nm v d))"
  by (auto simp: keep_def insert_app_def db_ok_def db_ok_defs)

lemma insert_job_ok: "db_ok d \<Longrightarrow> db_ok (keep d (insert_job now i a dv l d))"
proof (cases "find (\<lambda>x. ar_id x = a \<and> ar_deleted_at x = None) (db_apps d)")
  case (Some x)
  then have "x \<in> set (db_apps d)" by (auto simp: find_Some_iff)
  moreover assume "db_ok d"
  ultimately show ?thesis
    using Some
    by (auto simp: keep_def insert_job_def terminal_phase_def db_ok_def db_ok_defs)
qed (simp add: keep_def insert_job_def)

lemma mark_app_deleted_ok: "db_ok d \<Longrightarrow> db_ok (snd (mark_app_deleted now i d))"
proof -
  assume d: "db_ok d"
  let ?apps = "update_rows (\<lambda>a. ar_id a = i \<and> ar_deleted_at a = None)
      (\<lambda>a. a\<lparr>ar_deleted_at := Some now\<rparr>) (db_apps d)"
  have a: "db_ok (put_apps ?apps d)" by (rule update_apps_ok [OF d]) simp_all
  have "db_ok (put_sources (update_rows (\<lambda>s. sr_app_id s = Some i)
      (\<lambda>s. s\<lparr>sr_auto_download := False, sr_auto_acknowledged_at := None, sr_updated_at := now\<rparr>)
      (db_sources (put_apps ?apps d))) (put_apps ?apps d))"
    by (rule update_sources_ok [OF a]) (simp_all add: source_identity_def)
  then show ?thesis
    using d by (auto simp: mark_app_deleted_def split: option.splits)
qed

lemma source_conflictD:
  assumes "\<not> source_conflict others d app_id ident"
  shows "ident \<notin> set (map source_identity others)"
    "app_id = Some a \<Longrightarrow> Some a \<notin> set (map sr_app_id others) \<and> a \<in> set (map ar_id (db_apps d))"
  using assms by (auto simp: source_conflict_def split: option.splits)

lemma insert_source_ok: "db_ok d \<Longrightarrow> db_ok (keep d (insert_github_source now i a ow r p pre d))"
proof (cases "i \<in> set (map sr_id (db_sources d))
    \<or> source_conflict (db_sources d) d a (ow, r, p)")
  case False
  assume d: "db_ok d"
  from False have c: "\<not> source_conflict (db_sources d) d a (ow, r, p)" by blast
  note cc = source_conflictD [OF c]
  have "db_ok (put_sources (db_sources d @ [s]) d)"
    if "sr_id s = i" "sr_app_id s = a" "source_identity s = (ow, r, p)" "\<not> sr_auto_download s" for s
  proof (rule sources_only [OF d])
    show "distinct (linked_apps (db_sources d @ [s]))"
      using d that cc(2) by (force simp: db_ok_def sources_ok_def set_linked_apps split: option.splits)
    show "\<forall>t \<in> set (db_sources d @ [s]). source_ok d t"
      using d that cc(2) by (auto simp: db_ok_def sources_ok_def source_ok_def)
  qed (use d that False cc(1) in \<open>auto simp: db_ok_def sources_ok_def\<close>)
  then show ?thesis
    using False by (auto simp: keep_def insert_github_source_def source_identity_def)
qed (auto simp: keep_def insert_github_source_def)

lemma update_source_ok:
  assumes d: "db_ok d"
  shows "db_ok (apply_store_op (UpdateSource now i a ow r p pre) d)"
proof (cases "i \<in> set (map sr_id (db_sources d))
    \<and> \<not> source_conflict (filter (\<lambda>s. sr_id s \<noteq> i) (db_sources d)) d a (ow, r, p)")
  case True
  let ?others = "filter (\<lambda>s. sr_id s \<noteq> i) (db_sources d)"
  let ?f = "\<lambda>s. s\<lparr>sr_app_id := a, sr_owner := ow, sr_repo := r, sr_asset_pattern := p,
      sr_include_prereleases := pre, sr_auto_download := False,
      sr_auto_acknowledged_at := None, sr_updated_at := now\<rparr>"
  from True have c: "\<not> source_conflict ?others d a (ow, r, p)" by blast
  note cc = source_conflictD [OF c]
  have dist: "distinct (map sr_id (db_sources d))" "distinct (map source_identity (db_sources d))"
    "distinct (linked_apps (db_sources d))"
    using d by (simp_all add: db_ok_def sources_ok_def)
  have "db_ok (put_sources (update_rows (\<lambda>s. sr_id s = i) ?f (db_sources d)) d)"
  proof (rule sources_only [OF d])
    show "distinct (map sr_id (update_rows (\<lambda>s. sr_id s = i) ?f (db_sources d)))"
      using dist by simp
    show "distinct (map source_identity (update_rows (\<lambda>s. sr_id s = i) ?f (db_sources d)))"
      by (rule distinct_update_one [OF dist(1,2), where v = "(ow, r, p)"])
        (use cc in \<open>auto simp: source_identity_def\<close>)
    show "distinct (linked_apps (update_rows (\<lambda>s. sr_id s = i) ?f (db_sources d)))"
      by (rule distinct_linked_update_one [OF dist(1,3), where v = a]) (use cc in auto)
    show "\<forall>s \<in> set (update_rows (\<lambda>s. sr_id s = i) ?f (db_sources d)). source_ok d s"
      using d cc by (auto simp: set_update_rows source_ok_def db_ok_def sources_ok_def split: if_splits)
  qed
  with True show ?thesis by (simp add: update_github_source_def)
qed (use d in \<open>auto simp: update_github_source_def\<close>)

lemma link_source_ok: 
  assumes d: "db_ok d"
  shows "db_ok (keep d (link_github_source_app now i a d))"
proof (cases "i \<in> set (map sr_id (db_sources d)) \<and> \<not> (Some a \<in> set (map sr_app_id
      (filter (\<lambda>s. sr_id s \<noteq> i) (db_sources d))) \<or> a \<notin> set (map ar_id (db_apps d)))")
  case True
  let ?f = "\<lambda>s. s\<lparr>sr_app_id := Some a, sr_updated_at := now\<rparr>"
  have dist: "distinct (map sr_id (db_sources d))" "distinct (map source_identity (db_sources d))"
    "distinct (linked_apps (db_sources d))"
    using d by (simp_all add: db_ok_def sources_ok_def)
  have "db_ok (put_sources (update_rows (\<lambda>s. sr_id s = i) ?f (db_sources d)) d)"
  proof (rule sources_only [OF d])
    show "distinct (linked_apps (update_rows (\<lambda>s. sr_id s = i) ?f (db_sources d)))"
      by (rule distinct_linked_update_one [OF dist(1,3), where v = "Some a"]) (use True in auto)
    show "\<forall>s \<in> set (update_rows (\<lambda>s. sr_id s = i) ?f (db_sources d)). source_ok d s"
      using d True by (auto simp: set_update_rows source_ok_def db_ok_def sources_ok_def split: if_splits)
  qed (use dist in \<open>simp_all add: source_identity_def\<close>)
  with True show ?thesis by (simp add: keep_def link_github_source_app_def)
qed (use d in \<open>auto simp: keep_def link_github_source_app_def\<close>)

lemma replace_app_ok:
  assumes d: "db_ok d"
  shows "db_ok (keep d (replace_app_from_source now a s sha p n b v ri rt ai an d))"
proof (cases "a \<in> set (map ar_id (db_apps d))
    \<and> (sha \<in> set (map ar_sha256 (filter (\<lambda>x. ar_id x \<noteq> a) (db_apps d)))
       \<or> p \<in> set (map ar_storage_path (filter (\<lambda>x. ar_id x \<noteq> a) (db_apps d))))")
  case False
  let ?f = "\<lambda>x. x\<lparr>ar_sha256 := sha, ar_storage_path := p, ar_size_bytes := n,
      ar_bundle_id := Some b, ar_app_version := v, ar_deleted_at := None\<rparr>"
  let ?apps = "update_rows (\<lambda>x. ar_id x = a) ?f (db_apps d)"
  have dist: "distinct (map ar_id (db_apps d))" "distinct (map ar_sha256 (db_apps d))"
    "distinct (map ar_storage_path (db_apps d))"
    using d by (simp_all add: db_ok_def apps_ok_def)
  have ids: "map ar_id ?apps = map ar_id (db_apps d)" by simp
  have unique: "distinct (map ar_sha256 ?apps) \<and> distinct (map ar_storage_path ?apps)"
  proof (cases "a \<in> set (map ar_id (db_apps d))")
    case True
    with False show ?thesis
      by (intro conjI distinct_update_one [OF dist(1,2), where v = sha]
          distinct_update_one [OF dist(1,3), where v = p]) auto
  next
    case False
    then have "?apps = db_apps d" by (auto simp: update_rows_def intro!: map_idI)
    with dist show ?thesis by simp
  qed
  have a: "db_ok (put_apps ?apps d)"
    using d unique dist by (simp add: db_ok_def db_ok_defs ids del: set_map)
  let ?g = "\<lambda>x. x\<lparr>sr_last_checked_at := Some now, sr_last_release_id := Some ri,
      sr_last_release_tag := Some rt, sr_last_asset_id := Some ai, sr_last_asset_name := Some an,
      sr_last_download_sha256 := Some sha, sr_last_status := Some ''downloaded'',
      sr_last_error_code := None, sr_updated_at := now\<rparr>"
  have "db_ok (put_sources (update_rows (\<lambda>x. sr_id x = s) ?g
      (db_sources (put_apps ?apps d))) (put_apps ?apps d))"
    by (rule update_sources_ok [OF a]) (simp_all add: source_identity_def source_ok_def)
  with False show ?thesis by (auto simp: keep_def replace_app_from_source_def Let_def)
qed (use d in \<open>simp add: keep_def replace_app_from_source_def\<close>)

lemma set_app_bundle_id_ok: "db_ok d \<Longrightarrow> db_ok (set_app_bundle_id i b d)"
  unfolding set_app_bundle_id_def by (rule update_apps_ok) simp_all

lemma restore_app_ok: "db_ok d \<Longrightarrow> db_ok (restore_app i d)"
  unfolding restore_app_def by (rule update_apps_ok) simp_all

lemma rename_app_ok: "db_ok d \<Longrightarrow> db_ok (snd (rename_app i n d))"
  unfolding rename_app_def Let_def snd_conv by (rule update_apps_ok) simp_all

lemma set_refresh_ok: "db_ok d \<Longrightarrow> db_ok (keep d (set_refresh_after_days n d))"
  by (auto simp: keep_def set_refresh_after_days_def db_ok_def db_ok_defs)

lemma managed_ok:
  "db_ok d \<Longrightarrow> db_ok (snd (forget_managed_installation now a dv d))"
  "db_ok d \<Longrightarrow> db_ok (restore_managed_installation a dv d)"
  by (simp_all add: forget_managed_installation_def restore_managed_installation_def db_ok_def
      db_ok_defs)

lemma apply_store_op_ok: "db_ok d \<Longrightarrow> db_ok (apply_store_op x d)"
proof (cases x)
  case (UpdateSource now i a ow r p pre)
  assume "db_ok d"
  then show ?thesis unfolding UpdateSource by (rule update_source_ok)
next
  case (DeleteSource i)
  assume d: "db_ok d"
  then have "db_ok (put_sources (filter (\<lambda>s. sr_id s \<noteq> i) (db_sources d)) d)"
    by (intro sources_only)
      (auto simp: db_ok_def sources_ok_def distinct_map_filter distinct_linked_filter)
  with DeleteSource show ?thesis by (simp add: delete_github_source_def)
next
  case (SetAutomation now i e k)
  assume d: "db_ok d"
  have "db_ok (put_sources (update_rows (\<lambda>s. sr_id s = i)
      (\<lambda>s. s\<lparr>sr_auto_download := e, sr_auto_acknowledged_at := (if e then Some now else None),
             sr_updated_at := now\<rparr>) (db_sources d)) d)"
    by (rule update_sources_ok [OF d]) (simp_all add: source_identity_def)
  with d SetAutomation show ?thesis by (simp add: set_source_automation_def)
next
  case (RecordCheck now i ri rt ai an sha st ec)
  assume d: "db_ok d"
  show ?thesis
    unfolding RecordCheck apply_store_op.simps record_source_check_def
    by (rule update_sources_ok [OF d]) (simp_all add: source_identity_def source_ok_def)
next
  case (UpdateJobStatus now i ph pr)
  assume d: "db_ok d"
  show ?thesis
    unfolding UpdateJobStatus apply_store_op.simps update_job_status_def
    by (rule update_jobs_ok [OF d]) auto
next
  case (SetJobFailure i c)
  assume d: "db_ok d"
  show ?thesis
    unfolding SetJobFailure apply_store_op.simps set_job_failure_def
    by (rule update_jobs_ok [OF d]) (auto simp: job_ok_def)
next
  case (SetJobInstalledBundleId i c)
  assume d: "db_ok d"
  show ?thesis
    unfolding SetJobInstalledBundleId apply_store_op.simps set_job_installed_bundle_id_def
    by (rule update_jobs_ok [OF d]) (auto simp: job_ok_def)
qed (simp_all add: insert_app_ok insert_job_ok mark_app_deleted_ok insert_source_ok
    link_source_ok replace_app_ok set_app_bundle_id_ok restore_app_ok rename_app_ok
    set_refresh_ok managed_ok)

lemma empty_db_ok: "db_ok empty_db"
  by (simp add: empty_db_def db_ok_def db_ok_defs)

lemma reachable_db_ok: "reachable_db d \<Longrightarrow> db_ok d"
  by (induction rule: reachable_db.induct) (simp_all add: empty_db_ok apply_store_op_ok)

end
