(* ===== verification/StoreContract.thy ===== *)
theory StoreContract
  imports StoreInvariant
begin

text \<open>
  What the rest of the program may expect of the store: the integrity of every reachable
  database, the refresh setting, which installations are due and what forgetting or deleting an
  app does to them.
\<close>

section \<open>Latest successes\<close>

lemma foldl_max_Max: "foldl max (t :: nat) ts = Max (set (t # ts))"
proof (induction ts arbitrary: t)
  case (Cons x ts)
  then have "foldl max t (x # ts) = Max (set (max t x # ts))" by simp
  also have "\<dots> = Max (set (t # x # ts))"
    by (cases ts) (simp_all add: max.assoc)
  finally show ?case .
qed simp

lemma latest_success_eq_Some:
  "latest_success d a dv = Some t \<longleftrightarrow>
     t \<in> set (success_times d a dv) \<and> (\<forall>u \<in> set (success_times d a dv). u \<le> t)"
proof (cases "success_times d a dv")
  case (Cons x xs)
  have "Max (set (x # xs)) = t \<longleftrightarrow> t \<in> set (x # xs) \<and> (\<forall>u \<in> set (x # xs). u \<le> t)"
    by (rule Max_eq_iff) simp_all
  then show ?thesis by (simp add: latest_success_def Cons foldl_max_Max)
qed (simp add: latest_success_def)

lemma set_success_times:
  "t \<in> set (success_times d a dv) \<longleftrightarrow>
     (\<exists>j \<in> set (db_jobs d). jr_app_id j = a \<and> jr_device_id j = dv \<and> jr_phase j = ''succeeded''
        \<and> jr_completed_at j = Some t)"
  by (force simp: success_times_def List.map_filter_def)

lemma set_current_installs:
  "(j, a, t) \<in> set (current_installs d) \<longleftrightarrow>
     j \<in> set (db_jobs d) \<and> a \<in> set (db_apps d) \<and> ar_id a = jr_app_id j
     \<and> jr_phase j = ''succeeded'' \<and> ar_deleted_at a = None
     \<and> \<not> is_unmanaged d (jr_app_id j) (jr_device_id j)
     \<and> jr_completed_at j = Some t
     \<and> latest_success d (jr_app_id j) (jr_device_id j) = Some t"
  by (force simp: current_installs_def split: option.splits)

text \<open>An installation is current: the app is kept, managed, and was last installed at \<open>t\<close>.\<close>

definition installed_at :: "db \<Rightarrow> uuid \<Rightarrow> uuid \<Rightarrow> string \<Rightarrow> timestamp \<Rightarrow> bool" where
  "installed_at d aid dv p t \<longleftrightarrow>
     (\<exists>a \<in> set (db_apps d). ar_id a = aid \<and> ar_storage_path a = p \<and> ar_deleted_at a = None)
     \<and> \<not> is_unmanaged d aid dv \<and> latest_success d aid dv = Some t"

lemma current_installs_complete:
  assumes "installed_at d aid dv p t"
  shows "\<exists>j a. (j, a, t) \<in> set (current_installs d) \<and> jr_app_id j = aid \<and> jr_device_id j = dv
    \<and> ar_storage_path a = p"
proof -
  from assms obtain a where a: "a \<in> set (db_apps d)" "ar_id a = aid" "ar_storage_path a = p"
    "ar_deleted_at a = None" and m: "\<not> is_unmanaged d aid dv"
    and l: "latest_success d aid dv = Some t"
    by (auto simp: installed_at_def)
  from l obtain j where "j \<in> set (db_jobs d)" "jr_app_id j = aid" "jr_device_id j = dv"
    "jr_phase j = ''succeeded''" "jr_completed_at j = Some t"
    by (auto simp: latest_success_eq_Some set_success_times)
  with a m l have "(j, a, t) \<in> set (current_installs d)" by (simp add: set_current_installs)
  with a \<open>jr_app_id j = aid\<close> \<open>jr_device_id j = dv\<close> show ?thesis by blast
qed

lemma current_installs_sound:
  "(j, a, t) \<in> set (current_installs d) \<Longrightarrow>
     installed_at d (jr_app_id j) (jr_device_id j) (ar_storage_path a) t"
  by (auto simp: set_current_installs installed_at_def)

section \<open>Integrity\<close>

text \<open>
  C6: whatever sequence of store operations runs, failing ones included, identifiers, digests and
  paths of apps stay unique, every job belongs to an app of the table and has a completion time
  once it has ended, no two GitHub sources watch the same owner, repository and pattern or feed
  the same app, and a source downloads on its own only after an acknowledgement.
\<close>

theorem reachable_store_integrity:
  assumes "reachable_db d"
  shows "distinct (map ar_id (db_apps d)) \<and> distinct (map ar_sha256 (db_apps d))
    \<and> distinct (map ar_storage_path (db_apps d)) \<and> distinct (map jr_id (db_jobs d))
    \<and> (\<forall>j \<in> set (db_jobs d). jr_app_id j \<in> set (map ar_id (db_apps d))
         \<and> (terminal_phase (jr_phase j) \<longrightarrow> jr_completed_at j \<noteq> None))
    \<and> distinct (map source_identity (db_sources d)) \<and> distinct (linked_apps (db_sources d))
    \<and> (\<forall>s \<in> set (db_sources d). sr_auto_download s \<longrightarrow> sr_auto_acknowledged_at s \<noteq> None)"
  using reachable_db_ok [OF assms] by (simp add: db_ok_def db_ok_defs)

definition demo_ops :: "store_op list" where
  "demo_ops = [InsertApp 10 1 ''aa'' ''1.ipa'' 7 ''com.example'' ''Example'' None,
     InsertJob 20 5 1 9 ''Phone'', UpdateJobStatus 30 5 ''succeeded'' (Some 100),
     InsertSource 40 3 (Some 1) ''o'' ''r'' ''*.ipa'' False, SetAutomation 50 3 True True]"

definition demo_db :: db where
  "demo_db = fold apply_store_op demo_ops empty_db"

lemma reachable_fold: "reachable_db d \<Longrightarrow> reachable_db (fold apply_store_op xs d)"
  by (induction xs arbitrary: d) (auto intro: reachable_db.step)

lemma demo_db_reachable: "reachable_db demo_db"
  unfolding demo_db_def by (intro reachable_fold reachable_db.start)

lemma demo_db_eval:
  "demo_db = \<lparr>db_apps = [\<lparr>ar_id = 1, ar_sha256 = ''aa'', ar_storage_path = ''1.ipa'',
       ar_size_bytes = 7, ar_uploaded_at = 10, ar_deleted_at = None,
       ar_bundle_id = Some ''com.example'', ar_display_name = Some ''Example'',
       ar_app_version = None\<rparr>],
     db_jobs = [\<lparr>jr_id = 5, jr_app_id = 1, jr_device_id = 9, jr_phase = ''succeeded'',
       jr_created_at = 20, jr_completed_at = Some 30, jr_progress_percent = Some 100,
       jr_device_label = ''Phone'', jr_failure_code = None, jr_installed_bundle_id = None,
       jr_app_display_name = Some ''Example'', jr_app_version = None\<rparr>],
     db_settings = Map.empty, db_unmanaged = Map.empty,
     db_sources = [\<lparr>sr_id = 3, sr_app_id = Some 1, sr_owner = ''o'', sr_repo = ''r'',
       sr_asset_pattern = ''*.ipa'', sr_include_prereleases = False, sr_auto_download = True,
       sr_auto_acknowledged_at = Some 50, sr_last_checked_at = None, sr_last_release_id = None,
       sr_last_release_tag = None, sr_last_asset_id = None, sr_last_asset_name = None,
       sr_last_download_sha256 = None, sr_last_status = None, sr_last_error_code = None,
       sr_created_at = 40, sr_updated_at = 50\<rparr>]\<rparr>"
  by (simp add: demo_db_def demo_ops_def empty_db_def insert_app_def keep_def insert_job_def
      update_job_status_def update_rows_def terminal_phase_def insert_github_source_def
      source_conflict_def source_identity_def set_source_automation_def count_rows_def)

theorem reachable_store_integrity_witness:
  "reachable_db demo_db \<and> distinct (linked_apps (db_sources demo_db))
   \<and> map (\<lambda>s. (sr_auto_download s, sr_auto_acknowledged_at s)) (db_sources demo_db) = [(True, Some 50)]"
  using reachable_store_integrity [OF demo_db_reachable] demo_db_reachable
  by (intro conjI; (simp only:)?; simp add: demo_db_eval)

section \<open>The refresh setting\<close>

text \<open>
  a refresh day is stored exactly when it is 1 to 6, and is then the day read back; whatever
  the settings table holds, the day the scheduler uses is 1 to 6.
\<close>

theorem refresh_day_roundtrip:
  "(case set_refresh_after_days n d of
      Inl e \<Rightarrow> e = InvalidQuery \<and> \<not> (1 \<le> n \<and> n \<le> 6)
    | Inr d' \<Rightarrow> 1 \<le> n \<and> n \<le> 6 \<and> refresh_after_days d' = n)
   \<and> 1 \<le> refresh_after_days d \<and> refresh_after_days d \<le> 6"
proof -
  have r: "1 \<le> refresh_after_days d \<and> refresh_after_days d \<le> 6"
    by (auto simp: refresh_after_days_def DEFAULT_REFRESH_AFTER_DAYS_def refresh_day_ok_def
        MIN_REFRESH_AFTER_DAYS_def MAX_REFRESH_AFTER_DAYS_def opt_filter_def
        split: option.splits if_splits)
  then show ?thesis
    by (auto simp: set_refresh_after_days_def refresh_after_days_def parse_show_u8
        opt_filter_def refresh_day_ok_def MIN_REFRESH_AFTER_DAYS_def MAX_REFRESH_AFTER_DAYS_def)
qed

section \<open>Refresh targets\<close>

text \<open>
  the scheduler's targets are exactly the kept, managed apps whose latest successful
  installation on the device is at least the configured number of days old, each with the path
  of its current file.
\<close>

theorem refresh_due_targets_exact:
  "(aid, dv, p) \<in> set (refresh_due_targets now n d) \<longleftrightarrow>
     (\<exists>t. installed_at d aid dv p t \<and> uint n * 86400 \<le> int now - int t)"
proof
  assume "(aid, dv, p) \<in> set (refresh_due_targets now n d)"
  then obtain j a t where "(j, a, t) \<in> set (current_installs d)" "uint n * 86400 \<le> elapsed now t"
    "aid = jr_app_id j" "dv = jr_device_id j" "p = ar_storage_path a"
    by (auto simp: refresh_due_targets_def split: if_splits)
  then show "\<exists>t. installed_at d aid dv p t \<and> uint n * 86400 \<le> int now - int t"
    by (auto simp: elapsed_def dest: current_installs_sound)
next
  assume "\<exists>t. installed_at d aid dv p t \<and> uint n * 86400 \<le> int now - int t"
  then obtain t where i: "installed_at d aid dv p t" "uint n * 86400 \<le> int now - int t" by blast
  from current_installs_complete [OF i(1)] i(2)
  show "(aid, dv, p) \<in> set (refresh_due_targets now n d)"
    by (force simp: refresh_due_targets_def elapsed_def)
qed

text \<open>
  whatever is due for a refresh also appears in the dashboard's attention list, with an age
  of at least the configured days.
\<close>

theorem refresh_due_needs_attention:
  assumes "(aid, dv, p) \<in> set (refresh_due_targets now n d)"
  shows "\<exists>r \<in> set (refresh_attention now n d). ra_app_id r = aid \<and> 24 * uint n \<le> ra_age_hours r"
proof -
  from assms obtain j a t where j: "(j, a, t) \<in> set (current_installs d)" "aid = jr_app_id j"
    and e: "uint n * 86400 \<le> elapsed now t"
    by (auto simp: refresh_due_targets_def split: if_splits)
  have n: "0 \<le> uint n" by simp
  have h: "(if n = 0 then 0 else uint n - 1) * 24 * 3600 \<le> elapsed now t"
    using e n by auto
  have "24 * uint n \<le> trunc_div (elapsed now t) 3600"
  proof -
    have "24 * uint n \<le> elapsed now t div 3600" using e by simp
    moreover have "0 \<le> elapsed now t" using e n by linarith
    ultimately show ?thesis by (cases "elapsed now t = 0") (auto simp: trunc_div_def)
  qed
  with j h show ?thesis
    by (fastforce simp: refresh_attention_def Let_def)
qed

theorem refresh_due_needs_attention_witness:
  "(1, 9, ''1.ipa'') \<in> set (refresh_due_targets 600030 6 demo_db)
   \<and> (\<exists>r \<in> set (refresh_attention 600030 6 demo_db). ra_app_id r = 1 \<and> 24 * uint (6::u8) \<le> ra_age_hours r)"
proof -
  have "(1, 9, ''1.ipa'') \<in> set (refresh_due_targets 600030 6 demo_db)"
    by (simp add: refresh_due_targets_def current_installs_def demo_db_eval latest_success_def
        success_times_def map_filter_simps is_unmanaged_def elapsed_def)
  with refresh_due_needs_attention [OF this] show ?thesis by blast
qed

text \<open>
  the validity shown for an installation is between 0 and 7 days, never claims less than
  the 168 hours of a free signature leave by more than one hour, never more than a day too much,
  and is 0 exactly when more than 167 hours have passed.
\<close>

theorem remaining_days_bounds:
  assumes "t \<le> now"
  shows "0 \<le> remaining_days now t \<and> remaining_days now t \<le> 7
    \<and> 168 * 3600 - (int now - int t) \<le> remaining_days now t * 86400 + 3600
    \<and> (remaining_days now t = 0 \<longleftrightarrow> 167 * 3600 < int now - int t)
    \<and> (0 < remaining_days now t \<longrightarrow>
         remaining_days now t * 86400 < 168 * 3600 - (int now - int t) + 86400)"
proof -
  define x :: int where "x = 687600 - (int now - int t)"
  have le: "x \<le> 687600" using assms by (simp add: x_def)
  have r: "remaining_days now t = max 0 (trunc_div x 86400)"
    by (simp add: remaining_days_def elapsed_def x_def)
  show ?thesis
  proof (cases "0 < x")
    case True
    then have "remaining_days now t = x div 86400"
      by (simp add: r trunc_div_def pos_imp_zdiv_nonneg_iff)
    moreover have "x = 86400 * (x div 86400) + x mod 86400" "0 \<le> x mod 86400" "x mod 86400 < 86400"
      by simp_all
    ultimately show ?thesis
      using True le unfolding x_def by linarith
  next
    case False
    have "trunc_div x 86400 \<le> 0"
      using False by (cases "x = 0") (auto simp: trunc_div_def pos_imp_zdiv_nonneg_iff)
    with False show ?thesis by (simp add: r x_def)
  qed
qed

theorem remaining_days_bounds_witness:
  "(100::nat) \<le> 90100 \<and> remaining_days 90100 100 = 6"
proof -
  have "(100::nat) \<le> 90100" by simp
  with remaining_days_bounds [OF this] show ?thesis
    by (simp add: remaining_days_def elapsed_def trunc_div_def)
qed

end
