(* ===== verification/Sessions.thy ===== *)
theory Sessions
  imports Prelude
begin

text \<open>
  The contract the program's background sessions share (Apple sign-in, Apple TV pairing, wireless
  pairing): a transition relation, a set of finished states and the result a finished state
  shows. The invariant rule and the stability of finished sessions are proved once here.
\<close>

locale session_invariant =
  fixes step :: "'s \<Rightarrow> 's \<Rightarrow> bool"
    and initial :: "'s \<Rightarrow> bool"
    and inv :: "'s \<Rightarrow> bool"
  assumes initial_inv: "initial s \<Longrightarrow> inv s"
    and step_inv: "inv s \<Longrightarrow> step s s' \<Longrightarrow> inv s'"
begin

lemma run_inv: "step\<^sup>*\<^sup>* s s' \<Longrightarrow> inv s \<Longrightarrow> inv s'"
  by (induction rule: rtranclp_induct) (auto intro: step_inv)

lemma reachable_inv: "initial s \<Longrightarrow> step\<^sup>*\<^sup>* s s' \<Longrightarrow> inv s'"
  using run_inv initial_inv by blast

end

locale session_machine = session_invariant step initial inv
  for step :: "'s \<Rightarrow> 's \<Rightarrow> bool" and initial :: "'s \<Rightarrow> bool" and inv :: "'s \<Rightarrow> bool" +
  fixes finished :: "'s \<Rightarrow> bool"
    and result :: "'s \<Rightarrow> 'r"
  assumes finished_kept: "inv s \<Longrightarrow> step s s' \<Longrightarrow> finished s \<Longrightarrow> finished s' \<and> result s' = result s"
begin

lemma finished_stable:
  "step\<^sup>*\<^sup>* s s' \<Longrightarrow> inv s \<Longrightarrow> finished s \<Longrightarrow> finished s' \<and> result s' = result s"
proof (induction rule: rtranclp_induct)
  case (step t u)
  then have "inv t" using run_inv by blast
  with step finished_kept [of t u] show ?case by simp
qed simp

end

end
