(* ===== verification/Signing.thy ===== *)
theory Signing
  imports Ipa Sessions
begin

text \<open>
  Apple sign-in (\<^verbatim>\<open>src/signing.rs\<close>): the redacted diagnostics, the login attempt with its
  two-factor rendezvous, the background task of \<^verbatim>\<open>begin_login\<close> as a step relation, and the
  provider's session table. The anisette provider, the Apple account and the developer session
  are libraries; what they report is the label of a step. Apple's challenge parameters are the
  type variable \<open>'p\<close>.
\<close>

section \<open>Diagnostics of a failed sign-in\<close>

datatype login_phase = Authenticating | AwaitingTwoFactor | Ready | Failed

datatype auth_diagnostic_stage =
    AnisetteInit
  | AppleAccountBuild
  | AppleAccountLogin
  | AppleAccountLoginTimeout
  | DeveloperSession

datatype auth_network_class = NcAppleAuth | NcHttp | NcNetwork | NcTimeout | NcUnknown

datatype auth_failure_kind =
    FkAppleAuth
  | FkPlistParse
  | FkAnisetteNotProvisioned
  | FkDeveloperService
  | FkInvalidBundle
  | FkDevice
  | FkHttp
  | FkNetwork
  | FkTimeout
  | FkUnknown

record auth_failure_diagnostic =
  ad_auth_stage :: auth_diagnostic_stage
  ad_http_status :: "u16 option"
  ad_apple_auth_code :: "int option"
  ad_network_class :: auth_network_class
  ad_error_class :: auth_failure_kind
  ad_timeout :: bool

definition auth_unknown :: "auth_diagnostic_stage \<Rightarrow> auth_failure_diagnostic" where
  "auth_unknown stage = \<lparr>ad_auth_stage = stage, ad_http_status = None, ad_apple_auth_code = None,
     ad_network_class = NcUnknown, ad_error_class = FkUnknown, ad_timeout = False\<rparr>"

definition auth_timeout :: "auth_diagnostic_stage \<Rightarrow> auth_failure_diagnostic" where
  "auth_timeout stage = \<lparr>ad_auth_stage = stage, ad_http_status = None, ad_apple_auth_code = None,
     ad_network_class = NcTimeout, ad_error_class = FkTimeout, ad_timeout = True\<rparr>"

text \<open>
  One context of an error report, by the type it downcasts to; the texts the errors carry are
  kept so that the redaction is visible.
\<close>

datatype sideload_error =
    AuthWithMessage int string
  | PlistParseError string
  | AnisetteNotProvisioned
  | DeveloperError int string
  | InvalidBundle string
  | IdeviceError string

datatype io_kind = PermissionDenied | IoNotFound | AlreadyExists | StorageFull | InvalidData | IoKindOther

datatype report_context =
    CtxSideload sideload_error
  | CtxHttp "u16 option" bool
  | CtxSigningStage string
  | CtxIo io_kind
  | CtxOther string

fun sideload_class :: "sideload_error \<Rightarrow> auth_failure_kind" where
  "sideload_class (AuthWithMessage _ _) = FkAppleAuth"
| "sideload_class (PlistParseError _) = FkPlistParse"
| "sideload_class AnisetteNotProvisioned = FkAnisetteNotProvisioned"
| "sideload_class (DeveloperError _ _) = FkDeveloperService"
| "sideload_class (InvalidBundle _) = FkInvalidBundle"
| "sideload_class (IdeviceError _) = FkDevice"

definition http_context ::
  "u16 option \<Rightarrow> bool \<Rightarrow> auth_failure_diagnostic \<Rightarrow> auth_failure_diagnostic" where
  "http_context status is_timeout d =
     (case status of
        Some s \<Rightarrow> d\<lparr>ad_http_status := Some s, ad_network_class := NcHttp, ad_error_class := FkHttp\<rparr>
      | None \<Rightarrow>
          if is_timeout \<and> ad_http_status d = None
          then d\<lparr>ad_network_class := NcTimeout, ad_error_class := FkTimeout, ad_timeout := True\<rparr>
          else if ad_http_status d = None \<and> \<not> ad_timeout d
          then d\<lparr>ad_network_class := NcNetwork, ad_error_class := FkNetwork\<rparr>
          else d)"

fun report_loop :: "report_context list \<Rightarrow> auth_failure_diagnostic \<Rightarrow> auth_failure_diagnostic" where
  "report_loop [] d = d"
| "report_loop (CtxSideload (AuthWithMessage code _) # _) d =
     d\<lparr>ad_apple_auth_code := Some code, ad_network_class := NcAppleAuth,
       ad_error_class := FkAppleAuth, ad_timeout := False\<rparr>"
| "report_loop (CtxSideload e # cs) d = report_loop cs (d\<lparr>ad_error_class := sideload_class e\<rparr>)"
| "report_loop (CtxHttp status is_timeout # cs) d = report_loop cs (http_context status is_timeout d)"
| "report_loop (_ # cs) d = report_loop cs d"

definition auth_from_report ::
  "auth_diagnostic_stage \<Rightarrow> report_context list \<Rightarrow> auth_failure_diagnostic" where
  "auth_from_report stage report = report_loop report (auth_unknown stage)"

section \<open>Diagnostics of a failed signing run\<close>

record signing_failure_diagnostic =
  sf_stage :: string
  sf_error_class :: auth_failure_kind
  sf_http_status :: "u16 option"
  sf_apple_code :: "int option"
  sf_local_io :: "string option"

fun io_kind_name :: "io_kind \<Rightarrow> string" where
  "io_kind_name PermissionDenied = ''permissionDenied''"
| "io_kind_name IoNotFound = ''notFound''"
| "io_kind_name AlreadyExists = ''alreadyExists''"
| "io_kind_name StorageFull = ''storageFull''"
| "io_kind_name InvalidData = ''invalidData''"
| "io_kind_name IoKindOther = ''other''"

fun signing_context ::
  "report_context \<Rightarrow> signing_failure_diagnostic \<Rightarrow> signing_failure_diagnostic" where
  "signing_context (CtxSigningStage s) d =
     (if sf_stage d = ''unknown'' then d\<lparr>sf_stage := s\<rparr> else d)"
| "signing_context (CtxSideload (DeveloperError code _)) d = d\<lparr>sf_apple_code := Some code\<rparr>"
| "signing_context (CtxIo k) d = d\<lparr>sf_local_io := Some (io_kind_name k)\<rparr>"
| "signing_context _ d = d"

definition signing_from_report :: "report_context list \<Rightarrow> signing_failure_diagnostic" where
  "signing_from_report report =
     (let auth = auth_from_report DeveloperSession report in
      fold signing_context report
        \<lparr>sf_stage = ''unknown'', sf_error_class = ad_error_class auth,
         sf_http_status = ad_http_status auth, sf_apple_code = ad_apple_auth_code auth,
         sf_local_io = None\<rparr>)"

datatype signing_error =
    UnknownSession
  | NoTwoFactorChallenge
  | InvalidTwoFactorAction
  | MissingAnisetteUrl
  | NotReady
  | SgDeviceInfoFailed
  | SgDeveloperTeamFailed
  | SgDeviceRegistrationRequired
  | SgDeviceRegistrationFailed
  | SgIpaSigningFailed
  | SgClassifiedIpaSigning signing_failure_diagnostic
  | SgSignedMetadataFailed
  | SgDeviceInstallFailed
  | CredentialStorage

section \<open>The history of events after a two-factor code\<close>

datatype post_event_kind =
    TrustedDeviceVerifyBegin
  | TrustedDeviceVerifySuccess
  | TrustedDeviceVerifyRejected
  | TrustedDeviceVerifyFailure
  | TransitionToNeedsLogin
  | TransitionToNeedsDevice2FAVerification
  | PostTwoFactorInitialLoginBegin
  | PostTwoFactorInitialLoginResponseResult
  | PostTwoFactorProofLoginBegin
  | PostTwoFactorProofLoginResponseResult
  | TransitionToNeedsDevice2FA

datatype post_request_stage = TrustedDeviceVerify | InitialLogin | ProofLogin
datatype post_auth_state = NeedsLogin | NeedsDevice2FA | NeedsDevice2FAVerification
datatype post_result_class =
    RcSuccess
  | RcHttpFailure
  | RcAppleServiceFailure
  | RcResponseBodyFailure
  | RcPlistParseFailure
  | RcTransportFailure

record post_event =
  pe_event_kind :: post_event_kind
  pe_http_status :: "u16 option"
  pe_apple_service_code :: "int option"
  pe_from_auth_state :: "post_auth_state option"
  pe_to_auth_state :: "post_auth_state option"
  pe_request_stage :: "post_request_stage option"
  pe_result_class :: "post_result_class option"

datatype source_result =
    SrSuccess
  | SrHttpStatus u16
  | SrAppleServiceCode int
  | SrResponseBodyFailure
  | SrPlistParseFailure
  | SrTransportFailure

datatype source_stage = SsInitialLogin | SsProofLogin

datatype source_event =
    SeTrustedDeviceVerifyBegin
  | SeTrustedDeviceVerifySuccess
  | SeTrustedDeviceVerifyRejected int
  | SeTrustedDeviceVerifyFailure source_result
  | SeTransitionToNeedsLogin
  | SeTransitionToNeedsDevice2FAVerification
  | SePostTwoFactorInitialLoginBegin
  | SePostTwoFactorInitialLoginResponseResult source_result
  | SePostTwoFactorProofLoginBegin
  | SePostTwoFactorProofLoginResponseResult source_result
  | SeTransitionToNeedsDevice2FA source_stage

fun post_two_factor_result_fields ::
  "source_result \<Rightarrow> u16 option \<times> int option \<times> post_result_class option" where
  "post_two_factor_result_fields SrSuccess = (None, None, Some RcSuccess)"
| "post_two_factor_result_fields (SrHttpStatus s) = (Some s, None, Some RcHttpFailure)"
| "post_two_factor_result_fields (SrAppleServiceCode c) = (None, Some c, Some RcAppleServiceFailure)"
| "post_two_factor_result_fields SrResponseBodyFailure = (None, None, Some RcResponseBodyFailure)"
| "post_two_factor_result_fields SrPlistParseFailure = (None, None, Some RcPlistParseFailure)"
| "post_two_factor_result_fields SrTransportFailure = (None, None, Some RcTransportFailure)"

definition post_two_factor_result_event ::
  "post_event_kind \<Rightarrow> post_request_stage \<Rightarrow> source_result \<Rightarrow> post_event" where
  "post_two_factor_result_event kind stage result =
     (case post_two_factor_result_fields result of (http, code, cls) \<Rightarrow>
       \<lparr>pe_event_kind = kind, pe_http_status = http, pe_apple_service_code = code,
        pe_from_auth_state = None, pe_to_auth_state = None, pe_request_stage = Some stage,
        pe_result_class = cls\<rparr>)"

definition empty_post_two_factor_event :: "post_event_kind \<Rightarrow> post_event" where
  "empty_post_two_factor_event kind =
     \<lparr>pe_event_kind = kind, pe_http_status = None, pe_apple_service_code = None,
      pe_from_auth_state = None, pe_to_auth_state = None, pe_request_stage = None,
      pe_result_class = None\<rparr>"

fun post_two_factor_source_event :: "source_event \<Rightarrow> post_event" where
  "post_two_factor_source_event SeTrustedDeviceVerifyBegin =
     empty_post_two_factor_event TrustedDeviceVerifyBegin"
| "post_two_factor_source_event SeTrustedDeviceVerifySuccess =
     empty_post_two_factor_event TrustedDeviceVerifySuccess"
| "post_two_factor_source_event (SeTrustedDeviceVerifyRejected code) =
     \<lparr>pe_event_kind = TrustedDeviceVerifyRejected, pe_http_status = None,
      pe_apple_service_code = Some code, pe_from_auth_state = None, pe_to_auth_state = None,
      pe_request_stage = Some TrustedDeviceVerify, pe_result_class = Some RcAppleServiceFailure\<rparr>"
| "post_two_factor_source_event (SeTrustedDeviceVerifyFailure result) =
     post_two_factor_result_event TrustedDeviceVerifyFailure TrustedDeviceVerify result"
| "post_two_factor_source_event SeTransitionToNeedsLogin =
     \<lparr>pe_event_kind = TransitionToNeedsLogin, pe_http_status = None, pe_apple_service_code = None,
      pe_from_auth_state = Some NeedsDevice2FAVerification, pe_to_auth_state = Some NeedsLogin,
      pe_request_stage = None, pe_result_class = None\<rparr>"
| "post_two_factor_source_event SeTransitionToNeedsDevice2FAVerification =
     \<lparr>pe_event_kind = TransitionToNeedsDevice2FAVerification, pe_http_status = None,
      pe_apple_service_code = None, pe_from_auth_state = Some NeedsDevice2FAVerification,
      pe_to_auth_state = Some NeedsDevice2FAVerification,
      pe_request_stage = Some TrustedDeviceVerify, pe_result_class = None\<rparr>"
| "post_two_factor_source_event SePostTwoFactorInitialLoginBegin =
     empty_post_two_factor_event PostTwoFactorInitialLoginBegin"
| "post_two_factor_source_event (SePostTwoFactorInitialLoginResponseResult result) =
     post_two_factor_result_event PostTwoFactorInitialLoginResponseResult InitialLogin result"
| "post_two_factor_source_event SePostTwoFactorProofLoginBegin =
     empty_post_two_factor_event PostTwoFactorProofLoginBegin"
| "post_two_factor_source_event (SePostTwoFactorProofLoginResponseResult result) =
     post_two_factor_result_event PostTwoFactorProofLoginResponseResult ProofLogin result"
| "post_two_factor_source_event (SeTransitionToNeedsDevice2FA stage) =
     \<lparr>pe_event_kind = TransitionToNeedsDevice2FA, pe_http_status = None,
      pe_apple_service_code = None, pe_from_auth_state = Some NeedsLogin,
      pe_to_auth_state = Some NeedsDevice2FA,
      pe_request_stage = Some (case stage of SsInitialLogin \<Rightarrow> InitialLogin | SsProofLogin \<Rightarrow> ProofLogin),
      pe_result_class = None\<rparr>"

definition MAX_POST_TWO_FACTOR_DIAGNOSTIC_EVENTS :: nat where
  "MAX_POST_TWO_FACTOR_DIAGNOSTIC_EVENTS = 32"

definition push_event :: "post_event \<Rightarrow> post_event list \<Rightarrow> post_event list" where
  "push_event e es =
     (if length es = MAX_POST_TWO_FACTOR_DIAGNOSTIC_EVENTS then tl es else es) @ [e]"

section \<open>A login attempt\<close>

record 'p login_status =
  ls_id :: uuid
  ls_phase :: login_phase
  ls_two_factor :: "'p option"
  ls_message :: string
  ls_diagnostic :: "auth_failure_diagnostic option"
  ls_post_two_factor_diagnostics :: "post_event list option"

datatype two_factor_response =
    SubmitCode string
  | SendSms "32 word"
  | SendToDevices
  | ResendCode
  | Abort

record 'p login_attempt =
  la_id :: uuid
  la_state :: "'p login_status"
  la_response :: "two_factor_response option"
  la_events :: "post_event list"

definition new_attempt :: "uuid \<Rightarrow> 'p login_attempt" where
  "new_attempt aid = \<lparr>la_id = aid,
     la_state = \<lparr>ls_id = aid, ls_phase = Authenticating, ls_two_factor = None,
       ls_message = ''Authenticating with Apple.'', ls_diagnostic = None,
       ls_post_two_factor_diagnostics = None\<rparr>,
     la_response = None, la_events = []\<rparr>"

definition post_two_factor_snapshot :: "'p login_attempt \<Rightarrow> post_event list option" where
  "post_two_factor_snapshot a = (if la_events a = [] then None else Some (la_events a))"

definition attempt_status :: "'p login_attempt \<Rightarrow> 'p login_status" where
  "attempt_status a =
     (la_state a)\<lparr>ls_post_two_factor_diagnostics := post_two_factor_snapshot a\<rparr>"

definition record_post_two_factor_event :: "source_event \<Rightarrow> 'p login_attempt \<Rightarrow> 'p login_attempt" where
  "record_post_two_factor_event e a =
     a\<lparr>la_events := push_event (post_two_factor_source_event e) (la_events a)\<rparr>"

definition authenticating :: "string \<Rightarrow> 'p login_attempt \<Rightarrow> 'p login_attempt" where
  "authenticating text a =
     a\<lparr>la_state := (la_state a)\<lparr>ls_phase := Authenticating, ls_two_factor := None,
         ls_diagnostic := None, ls_message := text\<rparr>\<rparr>"

text \<open>
  \<^verbatim>\<open>wait_for_two_factor\<close> publishes the challenge and then waits for the response slot to fill;
  \<open>take_response\<close> is one round of its loop.
\<close>

definition wait_for_two_factor :: "'p \<Rightarrow> 'p login_attempt \<Rightarrow> 'p login_attempt" where
  "wait_for_two_factor params a =
     a\<lparr>la_state := \<lparr>ls_id = la_id a, ls_phase = AwaitingTwoFactor, ls_two_factor = Some params,
         ls_message = ''Apple requires a two-factor authentication response.'',
         ls_diagnostic = None, ls_post_two_factor_diagnostics = None\<rparr>\<rparr>"

definition take_response ::
  "'p login_attempt \<Rightarrow> (two_factor_response \<times> 'p login_attempt) option" where
  "take_response a = map_option (\<lambda>r. (r, a\<lparr>la_response := None\<rparr>)) (la_response a)"

definition submit_response ::
  "two_factor_response \<Rightarrow> 'p login_attempt \<Rightarrow> signing_error + 'p login_attempt" where
  "submit_response r a =
     (if ls_phase (la_state a) \<noteq> AwaitingTwoFactor then Inl NoTwoFactorChallenge
      else Inr (a\<lparr>la_state := (la_state a)\<lparr>ls_phase := Authenticating, ls_two_factor := None,
                    ls_message := ''Verifying the two-factor code with Apple.''\<rparr>,
                  la_response := Some r\<rparr>))"

definition attempt_ready :: "'p login_attempt \<Rightarrow> 'p login_attempt" where
  "attempt_ready a =
     a\<lparr>la_state := \<lparr>ls_id = la_id a, ls_phase = Ready, ls_two_factor = None,
         ls_message = ''Apple signing session is ready.'', ls_diagnostic = None,
         ls_post_two_factor_diagnostics = None\<rparr>\<rparr>"

definition attempt_failed :: "auth_failure_diagnostic \<Rightarrow> 'p login_attempt \<Rightarrow> 'p login_attempt" where
  "attempt_failed diagnostic a =
     a\<lparr>la_state := \<lparr>ls_id = la_id a, ls_phase = Failed, ls_two_factor = None,
         ls_message = ''Apple authentication failed. Check the server logs for redacted diagnostics.'',
         ls_diagnostic = Some diagnostic, ls_post_two_factor_diagnostics = None\<rparr>\<rparr>"

lemmas attempt_defs = authenticating_def wait_for_two_factor_def take_response_def
  submit_response_def attempt_ready_def attempt_failed_def record_post_two_factor_event_def
  new_attempt_def

end
