(* ===== verification/LoginSession.thy ===== *)
theory LoginSession
  imports Signing
begin

text \<open>
  The signing provider (\<^verbatim>\<open>src/signing.rs\<close>, \<^verbatim>\<open>AppleSigningProvider\<close>) and the sign-in handlers of
  \<^verbatim>\<open>src/main.rs\<close>. Each sign-in runs as a background task; \<open>login_task\<close> is the point it has
  reached and \<open>apply_login_event\<close> what it does next. The handlers interleave with the tasks at
  the granularity of the provider's locks.
\<close>

section \<open>Provider state\<close>

datatype max_certs_behavior = CertsRevoke | CertsError

record sideloader =
  sl_email :: string
  sl_max_certs :: max_certs_behavior

datatype task_point =
    TaskSpawned
  | TaskPreparing
  | TaskLoggingIn
  | TaskWaiting
  | TaskDeveloperSession
  | TaskSessionStored
  | TaskEnded

record login_task =
  lt_point :: task_point
  lt_email :: string
  lt_revoke :: bool

record 'p provider =
  pr_anisette_url :: "string option"
  pr_sideloader :: "sideloader option"
  pr_attempts :: "uuid \<rightharpoonup> 'p login_attempt"
  pr_tasks :: "uuid \<rightharpoonup> login_task"
  pr_certificate_recovery_requested :: bool
  pr_saved_login_id :: "uuid option"

definition new_provider :: "string option \<Rightarrow> 'p provider" where
  "new_provider anisette_url = \<lparr>pr_anisette_url = opt_filter not_blank anisette_url,
     pr_sideloader = None, pr_attempts = Map.empty, pr_tasks = Map.empty,
     pr_certificate_recovery_requested = False, pr_saved_login_id = None\<rparr>"

definition is_ready :: "'p provider \<Rightarrow> bool" where
  "is_ready p \<longleftrightarrow> pr_sideloader p \<noteq> None"

definition has_anisette_url :: "'p provider \<Rightarrow> bool" where
  "has_anisette_url p \<longleftrightarrow> pr_anisette_url p \<noteq> None"

definition readiness :: "'p provider \<Rightarrow> bool \<times> string" where
  "readiness p =
     (if is_ready p then (True, ''Apple signing session is active.'')
      else if has_anisette_url p then (False, ''Sign in with Apple to enable signing.'')
      else (False, ''Configure a trusted anisette URL before signing in with Apple.''))"

definition request_certificate_recovery :: "'p provider \<Rightarrow> 'p provider" where
  "request_certificate_recovery p = p\<lparr>pr_certificate_recovery_requested := True\<rparr>"

section \<open>The sign-in task\<close>

text \<open>\<open>new_id\<close> is the UUID the operating system's clock and generator give.\<close>

definition begin_login ::
  "uuid \<Rightarrow> string \<Rightarrow> 'p provider \<Rightarrow> signing_error + 'p login_status \<times> 'p provider" where
  "begin_login new_id email p =
     (case pr_anisette_url p of
        None \<Rightarrow> Inl MissingAnisetteUrl
      | Some _ \<Rightarrow>
          let attempt = new_attempt new_id in
          Inr (attempt_status attempt,
            p\<lparr>pr_certificate_recovery_requested := False,
              pr_attempts := (pr_attempts p)(new_id \<mapsto> attempt),
              pr_tasks := (pr_tasks p)(new_id \<mapsto>
                \<lparr>lt_point = TaskSpawned, lt_email = email,
                 lt_revoke = pr_certificate_recovery_requested p\<rparr>)\<rparr>))"

text \<open>What the libraries report to a running task.\<close>

datatype 'p login_event =
    EvStarted
  | EvAnisetteBuilt bool
  | EvDiagnostic source_event
  | EvChallenge 'p
  | EvResponseTaken
  | EvLoginFailed auth_diagnostic_stage "report_context list"
  | EvLoginTimeout
  | EvLoggedIn
  | EvDeveloperFailed "report_context list"
  | EvDeveloperReady
  | EvReadyPublished

fun task_event ::
  "'p login_event \<Rightarrow> login_task \<Rightarrow> 'p login_attempt \<Rightarrow> (login_task \<times> 'p login_attempt) option" where
  "task_event EvStarted t a =
     (if lt_point t = TaskSpawned
      then Some (t\<lparr>lt_point := TaskPreparing\<rparr>,
             authenticating ''Preparing the local anisette provider.'' a) else None)"
| "task_event (EvAnisetteBuilt ok) t a =
     (if lt_point t \<noteq> TaskPreparing then None
      else if ok then Some (t\<lparr>lt_point := TaskLoggingIn\<rparr>,
        authenticating ''Contacting Apple through the local anisette provider.'' a)
      else Some (t\<lparr>lt_point := TaskEnded\<rparr>, attempt_failed (auth_unknown AnisetteInit) a))"
| "task_event (EvDiagnostic e) t a =
     (if lt_point t = TaskLoggingIn then Some (t, record_post_two_factor_event e a) else None)"
| "task_event (EvChallenge params) t a =
     (if lt_point t = TaskLoggingIn
      then Some (t\<lparr>lt_point := TaskWaiting\<rparr>, wait_for_two_factor params a) else None)"
| "task_event EvResponseTaken t a =
     (if lt_point t = TaskWaiting
      then map_option (\<lambda>(_, a'). (t\<lparr>lt_point := TaskLoggingIn\<rparr>, a')) (take_response a) else None)"
| "task_event (EvLoginFailed stage report) t a =
     (if lt_point t = TaskLoggingIn
      then Some (t\<lparr>lt_point := TaskEnded\<rparr>, attempt_failed (auth_from_report stage report) a) else None)"
| "task_event EvLoginTimeout t a =
     (if lt_point t = TaskLoggingIn \<or> lt_point t = TaskWaiting
      then Some (t\<lparr>lt_point := TaskEnded\<rparr>, attempt_failed (auth_timeout AppleAccountLoginTimeout) a)
      else None)"
| "task_event EvLoggedIn t a =
     (if lt_point t = TaskLoggingIn then Some (t\<lparr>lt_point := TaskDeveloperSession\<rparr>, a) else None)"
| "task_event (EvDeveloperFailed report) t a =
     (if lt_point t = TaskDeveloperSession
      then Some (t\<lparr>lt_point := TaskEnded\<rparr>, attempt_failed (auth_from_report DeveloperSession report) a)
      else None)"
| "task_event EvDeveloperReady t a =
     (if lt_point t = TaskDeveloperSession then Some (t\<lparr>lt_point := TaskSessionStored\<rparr>, a) else None)"
| "task_event EvReadyPublished t a =
     (if lt_point t = TaskSessionStored then Some (t\<lparr>lt_point := TaskEnded\<rparr>, attempt_ready a) else None)"

definition stores_session :: "'p login_event \<Rightarrow> bool" where
  "stores_session e \<longleftrightarrow> (case e of EvDeveloperReady \<Rightarrow> True | _ \<Rightarrow> False)"

definition apply_login_event :: "uuid \<Rightarrow> 'p login_event \<Rightarrow> 'p provider \<Rightarrow> 'p provider option" where
  "apply_login_event i e p =
     (case (pr_tasks p i, pr_attempts p i) of
        (Some t, Some a) \<Rightarrow>
          (case task_event e t a of
             None \<Rightarrow> None
           | Some (t', a') \<Rightarrow>
               Some (p\<lparr>pr_tasks := (pr_tasks p)(i \<mapsto> t'), pr_attempts := (pr_attempts p)(i \<mapsto> a'),
                 pr_sideloader := (if stores_session e
                   then Some \<lparr>sl_email = lt_email t,
                     sl_max_certs = (if lt_revoke t then CertsRevoke else CertsError)\<rparr>
                   else pr_sideloader p)\<rparr>))
      | _ \<Rightarrow> None)"

section \<open>Session queries and two-factor responses\<close>

definition login_status :: "uuid \<Rightarrow> 'p provider \<Rightarrow> signing_error + 'p login_status" where
  "login_status i p = map_sum id attempt_status (ok_or UnknownSession (pr_attempts p i))"

definition parse_two_factor ::
  "string \<Rightarrow> string option \<Rightarrow> 32 word option \<Rightarrow> signing_error + two_factor_response" where
  "parse_two_factor action code number_id =
     (if action = ''submitCode'' then
        map_sum id SubmitCode (ok_or InvalidTwoFactorAction (opt_filter not_blank code))
      else if action = ''sendSms'' then
        map_sum id SendSms (ok_or InvalidTwoFactorAction number_id)
      else if action = ''sendToDevices'' then Inr SendToDevices
      else if action = ''resendCode'' then Inr ResendCode
      else if action = ''abort'' then Inr Abort
      else Inl InvalidTwoFactorAction)"

definition submit_two_factor ::
  "uuid \<Rightarrow> string \<Rightarrow> string option \<Rightarrow> 32 word option \<Rightarrow> 'p provider
     \<Rightarrow> (signing_error + unit) \<times> 'p provider" where
  "submit_two_factor i action code number_id p =
     (case parse_two_factor action code number_id of
        Inl e \<Rightarrow> (Inl e, p)
      | Inr r \<Rightarrow>
          (case pr_attempts p i of
             None \<Rightarrow> (Inl UnknownSession, p)
           | Some a \<Rightarrow>
               (case submit_response r a of
                  Inl e \<Rightarrow> (Inl e, p)
                | Inr a' \<Rightarrow> (Inr (), p\<lparr>pr_attempts := (pr_attempts p)(i \<mapsto> a')\<rparr>))))"

section \<open>Saved credentials\<close>

text \<open>
  Encryption, base64 and JSON are libraries: \<open>cl_encrypt key nonce plain\<close> is AES-256-GCM
  (\<^term>\<open>None\<close> when it fails), \<open>cl_pair\<close>/\<open>cl_unpair\<close> stand for the JSON of a two-field record,
  \<open>cl_b64\<close>/\<open>cl_unb64\<close> for base64. Key and nonce are the random bytes of the call.
\<close>

record crypto_lib =
  cl_encrypt :: "string \<Rightarrow> string \<Rightarrow> string \<Rightarrow> string option"
  cl_decrypt :: "string \<Rightarrow> string \<Rightarrow> string \<Rightarrow> string option"
  cl_pair :: "string \<Rightarrow> string \<Rightarrow> string"
  cl_unpair :: "string \<Rightarrow> (string \<times> string) option"
  cl_b64 :: "string \<Rightarrow> string"
  cl_unb64 :: "string \<Rightarrow> string option"

definition credentials_path :: "path \<Rightarrow> path" where
  "credentials_path dir = dir @ ''/saved-credentials.json''"

definition credentials_key_path :: "path \<Rightarrow> path" where
  "credentials_key_path dir = dir @ ''/credentials.key''"

definition read_file :: "io_faults \<Rightarrow> fs \<Rightarrow> path \<Rightarrow> io_error + string" where
  "read_file fault fs p =
     (if fault (IoRead p) then Inl OtherIo else ok_or NotFound (fs p))"

definition credential_key ::
  "io_faults \<Rightarrow> path \<Rightarrow> string \<Rightarrow> fs \<Rightarrow> (signing_error + string) \<times> fs" where
  "credential_key fault dir random_key fs =
     (let p = credentials_key_path dir in
      if fault (IoMkdir dir) then (Inl CredentialStorage, fs)
      else (case read_file fault fs p of
              Inr bytes \<Rightarrow>
                (if length bytes = 32 then Inr bytes else Inl CredentialStorage, fs)
            | Inl _ \<Rightarrow>
                if fault (IoWrite p) then (Inl CredentialStorage, fs)
                else (Inr random_key, fs(p := Some random_key))))"

definition save_credentials ::
  "crypto_lib \<Rightarrow> io_faults \<Rightarrow> path \<Rightarrow> string \<Rightarrow> string \<Rightarrow> string \<Rightarrow> string \<Rightarrow> fs
     \<Rightarrow> (signing_error + unit) \<times> fs" where
  "save_credentials lib fault dir random_key nonce email password fs =
     (case credential_key fault dir random_key fs of
        (Inl e, fs1) \<Rightarrow> (Inl e, fs1)
      | (Inr key, fs1) \<Rightarrow>
          (case cl_encrypt lib key nonce (cl_pair lib email password) of
             None \<Rightarrow> (Inl CredentialStorage, fs1)
           | Some ciphertext \<Rightarrow>
               let p = credentials_path dir in
               if fault (IoWrite p) then (Inl CredentialStorage, fs1)
               else (Inr (), fs1(p := Some (cl_pair lib (cl_b64 lib nonce) (cl_b64 lib ciphertext))))))"

definition delete_saved_credentials ::
  "io_faults \<Rightarrow> path \<Rightarrow> fs \<Rightarrow> (signing_error + unit) \<times> fs" where
  "delete_saved_credentials fault dir fs =
     (case fs_remove fault fs (credentials_path dir) of
        Inr fs' \<Rightarrow> (Inr (), fs')
      | Inl NotFound \<Rightarrow> (Inr (), fs)
      | Inl OtherIo \<Rightarrow> (Inl CredentialStorage, fs))"

definition has_saved_credentials :: "path \<Rightarrow> fs \<Rightarrow> bool" where
  "has_saved_credentials dir fs \<longleftrightarrow> is_file fs (credentials_path dir)"

text \<open>The part of \<^verbatim>\<open>restore_saved_login\<close> that reads the credentials back.\<close>

definition load_credentials ::
  "crypto_lib \<Rightarrow> io_faults \<Rightarrow> path \<Rightarrow> string \<Rightarrow> fs
     \<Rightarrow> (signing_error + (string \<times> string) option) \<times> fs" where
  "load_credentials lib fault dir random_key fs =
     (case read_file fault fs (credentials_path dir) of
        Inl NotFound \<Rightarrow> (Inr None, fs)
      | Inl OtherIo \<Rightarrow> (Inl CredentialStorage, fs)
      | Inr rec \<Rightarrow>
          (case cl_unpair lib rec of
             None \<Rightarrow> (Inl CredentialStorage, fs)
           | Some (nonce64, ciphertext64) \<Rightarrow>
               (case cl_unb64 lib nonce64 of
                  None \<Rightarrow> (Inl CredentialStorage, fs)
                | Some nonce \<Rightarrow>
                    if length nonce \<noteq> 12 then (Inl CredentialStorage, fs)
                    else (case cl_unb64 lib ciphertext64 of
                            None \<Rightarrow> (Inl CredentialStorage, fs)
                          | Some ciphertext \<Rightarrow>
                              (case credential_key fault dir random_key fs of
                                 (Inl e, fs1) \<Rightarrow> (Inl e, fs1)
                               | (Inr key, fs1) \<Rightarrow>
                                   (case Option.bind (cl_decrypt lib key nonce ciphertext) (cl_unpair lib) of
                                      None \<Rightarrow> (Inl CredentialStorage, fs1)
                                    | Some saved \<Rightarrow> (Inr (Some saved), fs1)))))))"

definition restore_saved_login ::
  "crypto_lib \<Rightarrow> io_faults \<Rightarrow> path \<Rightarrow> string \<Rightarrow> uuid \<Rightarrow> fs \<Rightarrow> 'p provider
     \<Rightarrow> (signing_error + 'p login_status option) \<times> fs \<times> 'p provider" where
  "restore_saved_login lib fault dir random_key new_id fs p =
     (case load_credentials lib fault dir random_key fs of
        (Inl e, fs1) \<Rightarrow> (Inl e, fs1, p)
      | (Inr None, fs1) \<Rightarrow> (Inr None, fs1, p)
      | (Inr (Some (email, password)), fs1) \<Rightarrow>
          (case begin_login new_id email p of
             Inl e \<Rightarrow> (Inl e, fs1, p)
           | Inr (status, p') \<Rightarrow>
               (Inr (Some status), fs1, p'\<lparr>pr_saved_login_id := Some (ls_id status)\<rparr>)))"

definition saved_login_status :: "'p provider \<Rightarrow> signing_error + 'p login_status option" where
  "saved_login_status p =
     (case pr_saved_login_id p of
        None \<Rightarrow> Inr None | Some i \<Rightarrow> map_sum id Some (login_status i p))"

section \<open>Handlers\<close>

text \<open>\<open>status_json\<close> is the serialisation of a login status.\<close>

definition start_apple_login ::
  "('p login_status \<Rightarrow> json) \<Rightarrow> crypto_lib \<Rightarrow> io_faults \<Rightarrow> path \<Rightarrow> string \<Rightarrow> string \<Rightarrow> uuid
     \<Rightarrow> string \<Rightarrow> string \<Rightarrow> bool \<Rightarrow> fs \<Rightarrow> 'p provider \<Rightarrow> response \<times> fs \<times> 'p provider" where
  "start_apple_login status_json lib fault dir random_key nonce new_id email password save fs p =
     (if trim email = [] \<or> password = [] then
        (message 400 ''Email and password are required.'', fs, p)
      else
        let (saved, fs1) = (if save then save_credentials lib fault dir random_key nonce email password fs
                            else (Inr (), fs)) in
        case saved of
          Inl _ \<Rightarrow> (message 500 ''Unable to save encrypted credentials.'', fs1, p)
        | Inr () \<Rightarrow>
            (case begin_login new_id email p of
               Inr (status, p') \<Rightarrow>
                 (Response 202 (Some (status_json status)), fs1,
                  if save then p'\<lparr>pr_saved_login_id := Some (ls_id status)\<rparr> else p')
             | Inl MissingAnisetteUrl \<Rightarrow>
                 (message 503 ''Configure IPHONELOADLY_ANISETTE_URL with a trusted anisette service before signing in.'',
                  fs1, p)
             | Inl _ \<Rightarrow> (message 500 ''Unable to start Apple sign-in.'', fs1, p)))"

definition saved_apple_login ::
  "('p login_status \<Rightarrow> json) \<Rightarrow> path \<Rightarrow> fs \<Rightarrow> 'p provider \<Rightarrow> response" where
  "saved_apple_login status_json dir fs p =
     (case saved_login_status p of
        Inr (Some status) \<Rightarrow>
          Response 200 (Some (JObj [(''saved'', JBool True), (''login'', status_json status)]))
      | Inr None \<Rightarrow> Response 200 (Some (JObj [(''saved'', JBool (has_saved_credentials dir fs))]))
      | Inl _ \<Rightarrow> message 500 ''Unable to read saved sign-in state.'')"

definition delete_saved_apple_login ::
  "io_faults \<Rightarrow> path \<Rightarrow> fs \<Rightarrow> 'p provider \<Rightarrow> response \<times> fs \<times> 'p provider" where
  "delete_saved_apple_login fault dir fs p =
     (case delete_saved_credentials fault dir fs of
        (Inr (), fs') \<Rightarrow> (Response 204 None, fs', p\<lparr>pr_saved_login_id := None\<rparr>)
      | (Inl _, fs') \<Rightarrow> (message 500 ''Unable to remove saved credentials.'', fs', p))"

definition get_apple_login :: "('p login_status \<Rightarrow> json) \<Rightarrow> uuid \<Rightarrow> 'p provider \<Rightarrow> response" where
  "get_apple_login status_json i p =
     (case login_status i p of
        Inr status \<Rightarrow> Response 200 (Some (status_json status))
      | Inl _ \<Rightarrow> message 404 ''Apple login session was not found.'')"

definition submit_apple_two_factor ::
  "uuid \<Rightarrow> string \<Rightarrow> string option \<Rightarrow> 32 word option \<Rightarrow> 'p provider \<Rightarrow> response \<times> 'p provider" where
  "submit_apple_two_factor i action code number_id p =
     (case submit_two_factor i action code number_id p of
        (Inr (), p') \<Rightarrow> (message 202 ''Two-factor response accepted.'', p')
      | (Inl UnknownSession, p') \<Rightarrow> (message 404 ''Apple login session was not found.'', p')
      | (Inl NoTwoFactorChallenge, p') \<Rightarrow>
          (message 409 ''Apple is not currently requesting a two-factor response.'', p')
      | (Inl _, p') \<Rightarrow> (message 400 ''Invalid two-factor response.'', p'))"

end
