(* ===== verification/LoginContract.thy ===== *)
theory LoginContract
  imports LoginSession
begin

text \<open>
  What the sign-in sessions guarantee: the invariant that relates a task's progress to the status
  the dashboard polls, the stability of finished sessions, the single use of a two-factor
  challenge and of an armed certificate recovery, and the round trip of saved credentials.
\<close>

section \<open>Transitions\<close>

text \<open>
  A provider moves when a request begins a login (with an identifier that is not in use), submits
  a response or arms the certificate recovery, or when a task handles an event.
\<close>

inductive login_step :: "'p provider \<Rightarrow> 'p provider \<Rightarrow> bool" where
  login_begun: "begin_login i email p = Inr (status, p') \<Longrightarrow> pr_attempts p i = None \<Longrightarrow> login_step p p'"
| submit: "login_step p (snd (submit_two_factor i action code number_id p))"
| recovery: "login_step p (request_certificate_recovery p)"
| task: "apply_login_event i e p = Some p' \<Longrightarrow> login_step p p'"

inductive_cases login_stepE: "login_step p p'"

fun_cases task_eventE:
  "task_event EvStarted t a = Some r"
  and "task_event (EvAnisetteBuilt ok) t a = Some r"
  and "task_event (EvDiagnostic d) t a = Some r"
  and "task_event (EvChallenge params) t a = Some r"
  and "task_event EvResponseTaken t a = Some r"
  and "task_event (EvLoginFailed stage report) t a = Some r"
  and "task_event EvLoginTimeout t a = Some r"
  and "task_event EvLoggedIn t a = Some r"
  and "task_event (EvDeveloperFailed report) t a = Some r"
  and "task_event EvDeveloperReady t a = Some r"
  and "task_event EvReadyPublished t a = Some r"

section \<open>The invariant of one session\<close>

definition finished_phase :: "login_phase \<Rightarrow> bool" where
  "finished_phase ph \<longleftrightarrow> ph = Ready \<or> ph = Failed"

definition session_ok :: "uuid \<Rightarrow> login_task \<Rightarrow> 'p login_attempt \<Rightarrow> bool" where
  "session_ok i t a \<longleftrightarrow>
     la_id a = i \<and> ls_id (la_state a) = i
     \<and> (finished_phase (ls_phase (la_state a)) \<longleftrightarrow> lt_point t = TaskEnded)
     \<and> (ls_phase (la_state a) = AwaitingTwoFactor \<longrightarrow> lt_point t = TaskWaiting \<and> la_response a = None)
     \<and> (la_response a \<noteq> None \<longrightarrow> lt_point t = TaskWaiting \<or> lt_point t = TaskEnded)
     \<and> (ls_two_factor (la_state a) \<noteq> None \<longleftrightarrow> ls_phase (la_state a) = AwaitingTwoFactor)
     \<and> (ls_diagnostic (la_state a) \<noteq> None \<longleftrightarrow> ls_phase (la_state a) = Failed)
     \<and> length (la_events a) \<le> MAX_POST_TWO_FACTOR_DIAGNOSTIC_EVENTS"

definition session_stored :: "login_task \<Rightarrow> 'p login_attempt \<Rightarrow> bool" where
  "session_stored t a \<longleftrightarrow> lt_point t = TaskSessionStored \<or> ls_phase (la_state a) = Ready"

lemma length_push_event:
  "length es \<le> MAX_POST_TWO_FACTOR_DIAGNOSTIC_EVENTS \<Longrightarrow>
     length (push_event e es) \<le> MAX_POST_TWO_FACTOR_DIAGNOSTIC_EVENTS"
  by (auto simp: push_event_def MAX_POST_TWO_FACTOR_DIAGNOSTIC_EVENTS_def)

lemma new_session_ok:
  "session_ok i \<lparr>lt_point = TaskSpawned, lt_email = email, lt_revoke = r\<rparr> (new_attempt i)"
  by (simp add: session_ok_def new_attempt_def finished_phase_def)

lemma new_session_not_stored:
  "\<not> session_stored \<lparr>lt_point = TaskSpawned, lt_email = email, lt_revoke = r\<rparr> (new_attempt i)"
  by (simp add: session_stored_def new_attempt_def)

lemma task_event_ok:
  "task_event e t a = Some (t', a') \<Longrightarrow> session_ok i t a \<Longrightarrow> session_ok i t' a'"
  unfolding session_ok_def finished_phase_def
  by (cases e; clarsimp simp: attempt_defs length_push_event split: if_splits)

lemma task_event_stored:
  "task_event e t a = Some (t', a') \<Longrightarrow> session_ok i t a \<Longrightarrow> session_stored t' a' \<Longrightarrow>
     stores_session e \<or> session_stored t a"
  unfolding session_stored_def stores_session_def session_ok_def finished_phase_def
  by (cases e; clarsimp simp: attempt_defs split: if_splits)

lemma task_event_not_ended: "task_event e t a = Some r \<Longrightarrow> lt_point t \<noteq> TaskEnded"
  by (cases e; clarsimp split: if_splits)

lemma submit_response_ok:
  "submit_response r a = Inr a' \<Longrightarrow> session_ok i t a \<Longrightarrow> session_ok i t a'"
  by (auto simp: submit_response_def session_ok_def finished_phase_def split: if_splits)

lemma submit_response_stored:
  "submit_response r a = Inr a' \<Longrightarrow> session_ok i t a \<Longrightarrow> session_stored t a' \<Longrightarrow> session_stored t a"
  by (auto simp: submit_response_def session_ok_def session_stored_def split: if_splits)

section \<open>The invariant of the provider\<close>

definition provider_ok :: "'p provider \<Rightarrow> bool" where
  "provider_ok p \<longleftrightarrow> dom (pr_tasks p) = dom (pr_attempts p)
     \<and> (\<forall>i t a. pr_tasks p i = Some t \<longrightarrow> pr_attempts p i = Some a \<longrightarrow>
          session_ok i t a \<and> (session_stored t a \<longrightarrow> pr_sideloader p \<noteq> None))"

lemma provider_ok_update:
  assumes "provider_ok p" "session_ok i t' a'"
    and "session_stored t' a' \<Longrightarrow> pr_sideloader p' \<noteq> None"
    and "pr_sideloader p \<noteq> None \<Longrightarrow> pr_sideloader p' \<noteq> None"
    and "pr_tasks p' = (pr_tasks p)(i \<mapsto> t')" "pr_attempts p' = (pr_attempts p)(i \<mapsto> a')"
  shows "provider_ok p'"
  using assms unfolding provider_ok_def by auto

lemma provider_ok_sessions:
  "provider_ok p \<Longrightarrow> pr_tasks p i = Some t \<Longrightarrow> pr_attempts p i = Some a \<Longrightarrow>
     session_ok i t a \<and> (session_stored t a \<longrightarrow> pr_sideloader p \<noteq> None)"
  by (simp add: provider_ok_def)

lemma provider_ok_task:
  "provider_ok p \<Longrightarrow> pr_attempts p i = Some a \<Longrightarrow> \<exists>t. pr_tasks p i = Some t"
  unfolding provider_ok_def by blast

lemma begin_login_ok:
  assumes "provider_ok p" "begin_login i email p = Inr (status, p')"
  shows "provider_ok p'"
  using assms
  by (intro provider_ok_update [OF assms(1), where p' = p' and i = i and a' = "new_attempt i"
        and t' = "\<lparr>lt_point = TaskSpawned, lt_email = email,
                   lt_revoke = pr_certificate_recovery_requested p\<rparr>"])
    (auto simp: begin_login_def new_session_ok new_session_not_stored Let_def split: option.splits)

lemma apply_login_event_ok:
  assumes p: "provider_ok p" and e: "apply_login_event i e p = Some p'"
  shows "provider_ok p'"
proof -
  from e obtain t a t' a' where pa: "pr_tasks p i = Some t" "pr_attempts p i = Some a"
    and ev: "task_event e t a = Some (t', a')"
    and p': "pr_tasks p' = (pr_tasks p)(i \<mapsto> t')" "pr_attempts p' = (pr_attempts p)(i \<mapsto> a')"
      "pr_sideloader p' = (if stores_session e then Some \<lparr>sl_email = lt_email t,
         sl_max_certs = (if lt_revoke t then CertsRevoke else CertsError)\<rparr> else pr_sideloader p)"
    by (auto simp: apply_login_event_def split: option.splits)
  from provider_ok_sessions [OF p pa] have s: "session_ok i t a" "session_stored t a \<Longrightarrow> pr_sideloader p \<noteq> None"
    by auto
  show ?thesis
    by (rule provider_ok_update [OF p task_event_ok [OF ev s(1)] _ _ p'(1,2)])
      (use task_event_stored [OF ev s(1)] s(2) p'(3) in auto)
qed

lemma submit_two_factor_cases:
  "snd (submit_two_factor i action code number_id p) = p \<or>
   (\<exists>r a a'. parse_two_factor action code number_id = Inr r \<and> pr_attempts p i = Some a
      \<and> submit_response r a = Inr a'
      \<and> submit_two_factor i action code number_id p =
          (Inr (), p\<lparr>pr_attempts := (pr_attempts p)(i \<mapsto> a')\<rparr>))"
  by (auto simp: submit_two_factor_def split: sum.splits option.splits)

lemma submit_ok:
  assumes p: "provider_ok p"
  shows "provider_ok (snd (submit_two_factor i action code number_id p))"
  using submit_two_factor_cases [of i action code number_id p]
proof
  assume "\<exists>r a a'. parse_two_factor action code number_id = Inr r \<and> pr_attempts p i = Some a
      \<and> submit_response r a = Inr a'
      \<and> submit_two_factor i action code number_id p =
          (Inr (), p\<lparr>pr_attempts := (pr_attempts p)(i \<mapsto> a')\<rparr>)"
  then obtain r a a' where a: "pr_attempts p i = Some a" "submit_response r a = Inr a'"
    and eq: "submit_two_factor i action code number_id p =
          (Inr (), p\<lparr>pr_attempts := (pr_attempts p)(i \<mapsto> a')\<rparr>)" by blast
  from provider_ok_task [OF p a(1)] obtain t where t: "pr_tasks p i = Some t" by blast
  from provider_ok_sessions [OF p t a(1)]
  have s: "session_ok i t a" "session_stored t a \<Longrightarrow> pr_sideloader p \<noteq> None" by auto
  show ?thesis
    by (rule provider_ok_update [OF p submit_response_ok [OF a(2) s(1)]])
      (use t s(2) submit_response_stored [OF a(2) s(1)] eq in auto)
qed (simp add: p)

lemma new_provider_ok: "provider_ok (new_provider url)"
  by (simp add: provider_ok_def new_provider_def)

lemma recovery_ok: "provider_ok p \<Longrightarrow> provider_ok (request_certificate_recovery p)"
  by (simp add: request_certificate_recovery_def provider_ok_def)

lemma login_step_ok: "provider_ok p \<Longrightarrow> login_step p p' \<Longrightarrow> provider_ok p'"
  by (elim login_stepE) (blast intro: begin_login_ok apply_login_event_ok submit_ok recovery_ok)+

text \<open>
  The session whose stability is asked for is fixed by its identifier \<open>i\<close>: it is finished when
  its attempt is in a final phase, and its result is the status the dashboard polls.
\<close>

definition login_finished :: "uuid \<Rightarrow> 'p provider \<Rightarrow> bool" where
  "login_finished i p \<longleftrightarrow>
     (case pr_attempts p i of None \<Rightarrow> False | Some a \<Rightarrow> finished_phase (ls_phase (la_state a)))"

lemma login_step_finished:
  assumes p: "provider_ok p" and s: "login_step p p'" and f: "login_finished i p"
  shows "pr_attempts p' i = pr_attempts p i"
  using s
proof cases
  case (login_begun j email status)
  with f have "i \<noteq> j" by (auto simp: login_finished_def)
  with login_begun show ?thesis by (auto simp: begin_login_def Let_def split: option.splits)
next
  case (submit j action code number_id)
  show ?thesis
  proof (cases "i = j")
    case True
    then show ?thesis
      using f submit submit_two_factor_cases [of j action code number_id p]
      by (auto simp: login_finished_def submit_response_def finished_phase_def split: if_splits)
  next
    case False
    then show ?thesis
      using submit submit_two_factor_cases [of j action code number_id p] by auto
  qed
next
  case recovery
  then show ?thesis by (simp add: request_certificate_recovery_def)
next
  case (task j e)
  then obtain t a t' a' where t: "pr_tasks p j = Some t" "pr_attempts p j = Some a"
    "task_event e t a = Some (t', a')" "pr_attempts p' = (pr_attempts p)(j \<mapsto> a')"
    by (auto simp: apply_login_event_def split: option.splits)
  show ?thesis
  proof (cases "i = j")
    case True
    from provider_ok_sessions [OF p t(1,2)] f True t(2) have "lt_point t = TaskEnded"
      by (simp add: session_ok_def login_finished_def)
    with task_event_not_ended [OF t(3)] show ?thesis by simp
  qed (simp add: t)
qed

interpretation login: session_invariant login_step "\<lambda>p. \<exists>url. p = new_provider url" provider_ok
  by unfold_locales (auto simp: new_provider_ok login_step_ok)

interpretation login: session_machine login_step "\<lambda>p. \<exists>url. p = new_provider url" provider_ok
    "login_finished i" "login_status i" for i
  by unfold_locales (auto simp: login_step_finished login_finished_def login_status_def)

section \<open>Properties\<close>

lemma login_status_facts:
  assumes "login_step\<^sup>*\<^sup>* (new_provider url) p" and "login_status i p = Inr st"
  shows "(ls_two_factor st \<noteq> None \<longleftrightarrow> ls_phase st = AwaitingTwoFactor)
    \<and> (ls_diagnostic st \<noteq> None \<longleftrightarrow> ls_phase st = Failed)
    \<and> (ls_phase st = Ready \<longrightarrow> is_ready p) \<and> ls_id st = i
    \<and> (case ls_post_two_factor_diagnostics st of None \<Rightarrow> True | Some es \<Rightarrow> es \<noteq> [] \<and> length es \<le> 32)"
proof -
  from assms(1) have p: "provider_ok p" using login.reachable_inv by blast
  from assms(2) obtain a where a: "pr_attempts p i = Some a" and st: "st = attempt_status a"
    by (cases "pr_attempts p i") (auto simp: login_status_def ok_or_def)
  from provider_ok_task [OF p a] obtain t where "pr_tasks p i = Some t" by blast
  from provider_ok_sessions [OF p this a] show ?thesis
    by (auto simp: st attempt_status_def session_ok_def session_stored_def is_ready_def
        post_two_factor_snapshot_def MAX_POST_TWO_FACTOR_DIAGNOSTIC_EVENTS_def)
qed

text \<open>
  C11: In every provider the server can reach, the status of a sign-in is consistent: it offers a
  two-factor challenge exactly while it waits for one, it carries a diagnostic exactly when it
  has failed, it says ready only when a signing session is stored, and it keeps at most 32
  diagnostic events.
\<close>

theorem login_status_consistent:
  assumes "login_step\<^sup>*\<^sup>* (new_provider url) p" and "login_status i p = Inr st"
  shows "(ls_two_factor st \<noteq> None \<longleftrightarrow> ls_phase st = AwaitingTwoFactor)
    \<and> (ls_diagnostic st \<noteq> None \<longleftrightarrow> ls_phase st = Failed)
    \<and> (ls_phase st = Ready \<longrightarrow> is_ready p) \<and> ls_id st = i
    \<and> (case ls_post_two_factor_diagnostics st of None \<Rightarrow> True | Some es \<Rightarrow> es \<noteq> [] \<and> length es \<le> 32)"
  by (rule login_status_facts [OF assms])

definition demo_provider :: "unit provider" where
  "demo_provider = new_provider (Some ''http://anisette'')"

definition demo_events :: "unit login_event list" where
  "demo_events = [EvStarted, EvAnisetteBuilt True, EvLoggedIn, EvDeveloperReady, EvReadyPublished]"

fun run_events :: "uuid \<Rightarrow> 'p login_event list \<Rightarrow> 'p provider \<Rightarrow> 'p provider option" where
  "run_events i [] p = Some p"
| "run_events i (e # es) p = Option.bind (apply_login_event i e p) (run_events i es)"

lemma run_events_steps: "run_events i es p = Some p' \<Longrightarrow> login_step\<^sup>*\<^sup>* p p'"
proof (induction es arbitrary: p)
  case (Cons e es)
  then obtain q where q: "apply_login_event i e p = Some q" "run_events i es q = Some p'"
    by (auto split: Option.bind_splits)
  with Cons.IH show ?case by (meson converse_rtranclp_into_rtranclp login_step.task)
qed simp

definition demo_started :: "unit provider" where
  "demo_started = snd (projr (begin_login 7 ''a@b'' demo_provider))"

definition demo_signed_in :: "unit provider" where
  "demo_signed_in = the (run_events 7 demo_events demo_started)"

lemma demo_anisette: "pr_anisette_url demo_provider = Some ''http://anisette''"
  by (simp add: demo_provider_def new_provider_def opt_filter_def not_blank_def trim_nonempty_graphic
      is_ascii_graphic_def byte_of_def)

lemma demo_begin: "begin_login 7 ''a@b'' demo_provider = Inr (attempt_status (new_attempt 7), demo_started)"
  by (simp add: demo_started_def begin_login_def demo_anisette Let_def)

lemma demo_run: "run_events 7 demo_events demo_started = Some demo_signed_in"
  by (simp add: demo_signed_in_def demo_started_def begin_login_def demo_anisette Let_def
      demo_events_def apply_login_event_def new_attempt_def authenticating_def)

lemma demo_reach: "login_step\<^sup>*\<^sup>* demo_provider demo_signed_in"
proof -
  have "pr_attempts demo_provider 7 = None" by (simp add: demo_provider_def new_provider_def)
  then have "login_step demo_provider demo_started"
    using demo_begin login_step.login_begun by blast
  with run_events_steps [OF demo_run] show ?thesis by (meson converse_rtranclp_into_rtranclp)
qed

lemma demo_status:
  "\<exists>st. login_status 7 demo_signed_in = Inr st \<and> ls_phase st = Ready"
  by (simp add: demo_signed_in_def demo_started_def begin_login_def demo_anisette Let_def
      demo_events_def apply_login_event_def new_attempt_def authenticating_def attempt_ready_def
      login_status_def ok_or_def attempt_status_def)

theorem login_status_consistent_witness:
  "\<exists>st. login_status 7 demo_signed_in = Inr st \<and> ls_phase st = Ready \<and> is_ready demo_signed_in"
proof -
  obtain st where st: "login_status 7 demo_signed_in = Inr st" "ls_phase st = Ready"
    using demo_status by blast
  from login_status_consistent [OF demo_reach [unfolded demo_provider_def] st(1)] st show ?thesis
    by blast
qed

text \<open>
  A finished sign-in never changes. Once a reachable provider shows a session as ready or
  failed, every later poll of that session returns the same status, whatever requests and tasks
  run in between.
\<close>

theorem finished_login_stable:
  assumes "login_step\<^sup>*\<^sup>* (new_provider url) p" "login_finished i p" "login_step\<^sup>*\<^sup>* p p'"
  shows "login_status i p' = login_status i p \<and> login_finished i p'"
proof -
  from assms(1) have "provider_ok p" using login.reachable_inv by blast
  with login.finished_stable [OF assms(3), of i] assms(2) show ?thesis by blast
qed

theorem finished_login_stable_witness:
  "login_finished 7 demo_signed_in
   \<and> login_status 7 (request_certificate_recovery demo_signed_in) = login_status 7 demo_signed_in"
proof -
  have f: "login_finished 7 demo_signed_in"
    using demo_status by (auto simp: login_status_def login_finished_def finished_phase_def ok_or_def
        attempt_status_def split: option.splits)
  have "login_step\<^sup>*\<^sup>* demo_signed_in (request_certificate_recovery demo_signed_in)"
    by (rule r_into_rtranclp) (rule login_step.recovery)
  from finished_login_stable [OF demo_reach [unfolded demo_provider_def] f this] f show ?thesis by blast
qed

lemma submit_two_factor_accepted:
  "submit_two_factor i action code number_id p = (Inr u, p') \<Longrightarrow>
     \<exists>r a a'. parse_two_factor action code number_id = Inr r \<and> pr_attempts p i = Some a
       \<and> submit_response r a = Inr a' \<and> p' = p\<lparr>pr_attempts := (pr_attempts p)(i \<mapsto> a')\<rparr>"
  by (auto simp: submit_two_factor_def split: sum.splits option.splits)

lemma submit_two_factor_refused:
  "pr_attempts p i = Some a \<Longrightarrow> ls_phase (la_state a) \<noteq> AwaitingTwoFactor \<Longrightarrow>
     fst (submit_two_factor i action code number_id p) \<noteq> Inr ()"
  by (simp add: submit_two_factor_def submit_response_def split: sum.splits)

text \<open>
  A two-factor challenge is answered once. When a submission is accepted, the session holds
  exactly the parsed response for the waiting task and leaves the awaiting phase, so every
  further submission to it is refused until Apple issues a new challenge; a refused submission
  changes nothing.
\<close>

theorem two_factor_single_use:
  "(case submit_two_factor i action code number_id p of
      (Inr _, p') \<Rightarrow>
        (\<exists>r a. parse_two_factor action code number_id = Inr r \<and> pr_attempts p' i = Some a
           \<and> la_response a = Some r \<and> take_response a = Some (r, a\<lparr>la_response := None\<rparr>))
        \<and> (\<forall>action' code' number'. fst (submit_two_factor i action' code' number' p') \<noteq> Inr ())
    | (Inl _, p') \<Rightarrow> p' = p)"
proof (cases "submit_two_factor i action code number_id p")
  case (Pair res p')
  show ?thesis
  proof (cases res)
    case (Inl e)
    with Pair show ?thesis
      by (auto simp: submit_two_factor_def split: sum.splits option.splits)
  next
    case (Inr u)
    with Pair obtain r a a' where r: "parse_two_factor action code number_id = Inr r"
      "submit_response r a = Inr a'" and p': "p' = p\<lparr>pr_attempts := (pr_attempts p)(i \<mapsto> a')\<rparr>"
      using submit_two_factor_accepted by blast
    then have a': "la_response a' = Some r" "pr_attempts p' i = Some a'"
      "ls_phase (la_state a') \<noteq> AwaitingTwoFactor"
      by (auto simp: submit_response_def split: if_splits)
    have "take_response a' = Some (r, a'\<lparr>la_response := None\<rparr>)"
      using a'(1) by (simp add: take_response_def)
    with r(1) a'(1,2) have first: "\<exists>r a. parse_two_factor action code number_id = Inr r
        \<and> pr_attempts p' i = Some a \<and> la_response a = Some r
        \<and> take_response a = Some (r, a\<lparr>la_response := None\<rparr>)" by blast
    have "\<forall>x y z. fst (submit_two_factor i x y z p') \<noteq> Inr ()"
      using submit_two_factor_refused [OF a'(2,3)] by blast
    with first show ?thesis unfolding Pair Inr by simp
  qed
qed

definition recovery_of :: "uuid \<Rightarrow> 'p provider \<Rightarrow> bool option" where
  "recovery_of i p = map_option lt_revoke (pr_tasks p i)"

text \<open>
  An armed certificate recovery is used by exactly one sign-in: the login begun next carries
  it, and no login begun after that does unless it is armed again; a login refused for a missing
  anisette URL leaves it armed.
\<close>

theorem certificate_recovery_single_use:
  "(case begin_login i email (request_certificate_recovery p) of
      Inl e \<Rightarrow> e = MissingAnisetteUrl \<and> pr_anisette_url p = None
    | Inr (status, p1) \<Rightarrow> recovery_of i p1 = Some True
        \<and> (case begin_login j email' p1 of
             Inl _ \<Rightarrow> False | Inr (status', p2) \<Rightarrow> recovery_of j p2 = Some False))"
  by (auto simp: begin_login_def request_certificate_recovery_def recovery_of_def Let_def
      split: option.splits)

text \<open>
  Saved credentials come back. If the libraries invert each other (decryption undoes
  encryption under the same key and nonce, base64 and JSON round-trip) and nothing else touches
  the two files, then after a successful save a restart restores exactly the saved email and
  password, with the key that the save wrote or found.
\<close>

theorem credentials_roundtrip:
  assumes decrypt: "\<And>k n m c. cl_encrypt lib k n m = Some c \<Longrightarrow> cl_decrypt lib k n c = Some m"
    and b64: "\<And>b. cl_unb64 lib (cl_b64 lib b) = Some b"
    and pair: "\<And>a b. cl_unpair lib (cl_pair lib a b) = Some (a, b)"
    and saved: "save_credentials lib fault dir key0 nonce email password fs = (Inr (), fs')"
    and random: "length key0 = 32" "length nonce = 12"
    and reads: "\<not> fault (IoRead (credentials_path dir))" "\<not> fault (IoRead (credentials_key_path dir))"
  shows "load_credentials lib fault dir key1 fs' = (Inr (Some (email, password)), fs')"
proof -
  let ?c = "credentials_path dir" and ?k = "credentials_key_path dir"
  have ne: "?c \<noteq> ?k" by (simp add: credentials_path_def credentials_key_path_def)
  from saved obtain key fs1 c where k: "credential_key fault dir key0 fs = (Inr key, fs1)"
    and c: "cl_encrypt lib key nonce (cl_pair lib email password) = Some c"
    and fs': "fs' = fs1(?c := Some (cl_pair lib (cl_b64 lib nonce) (cl_b64 lib c)))"
    by (auto simp: save_credentials_def Let_def split: prod.splits sum.splits option.splits if_splits)
  from k reads(2) random(1) have key: "fs1 ?k = Some key" "length key = 32" "\<not> fault (IoMkdir dir)"
    by (auto simp: credential_key_def read_file_def ok_or_def Let_def split: if_splits option.splits)
  have "credential_key fault dir key1 fs' = (Inr key, fs')"
    using key ne reads(2) by (simp add: credential_key_def read_file_def fs' ok_or_def Let_def)
  then show ?thesis
    using reads(1) random(2) decrypt [OF c]
    by (simp add: load_credentials_def read_file_def ok_or_def fs' pair b64)
qed

text \<open>A library that satisfies the laws: texts are framed by their length in unary.\<close>

definition demo_crypto :: crypto_lib where
  "demo_crypto = \<lparr>cl_encrypt = (\<lambda>k n m. Some m), cl_decrypt = (\<lambda>k n c. Some c),
     cl_pair = (\<lambda>a b. replicate (length a) CHR ''1'' @ CHR ''0'' # a @ b),
     cl_unpair = (\<lambda>s. let n = length (takeWhile (\<lambda>c. c = CHR ''1'') s); r = drop (Suc n) s
                       in Some (take n r, drop n r)),
     cl_b64 = (\<lambda>b. b), cl_unb64 = Some\<rparr>"

lemma demo_unpair: "cl_unpair demo_crypto (cl_pair demo_crypto a b) = Some (a, b)"
proof -
  have "takeWhile (\<lambda>c. c = CHR ''1'') (replicate n CHR ''1'' @ CHR ''0'' # s) = replicate n CHR ''1''"
    for n s by (induction n) simp_all
  then show ?thesis by (simp add: demo_crypto_def Let_def)
qed

theorem credentials_roundtrip_witness:
  "\<exists>fs'. save_credentials demo_crypto (\<lambda>_. False) ''d'' (replicate 32 CHR ''k'') (replicate 12 CHR ''n'')
      ''a@b'' ''pw'' Map.empty = (Inr (), fs')
    \<and> load_credentials demo_crypto (\<lambda>_. False) ''d'' [] fs' = (Inr (Some (''a@b'', ''pw'')), fs')"
proof -
  obtain fs' where s: "save_credentials demo_crypto (\<lambda>_. False) ''d'' (replicate 32 CHR ''k'')
      (replicate 12 CHR ''n'') ''a@b'' ''pw'' Map.empty = (Inr (), fs')"
    by (simp add: save_credentials_def credential_key_def read_file_def ok_or_def demo_crypto_def)
  have "load_credentials demo_crypto (\<lambda>_. False) ''d'' [] fs' = (Inr (Some (''a@b'', ''pw'')), fs')"
    by (rule credentials_roundtrip [OF _ _ _ s]) (simp_all add: demo_unpair, simp_all add: demo_crypto_def)
  with s show ?thesis by blast
qed

end
