(* ===== verification/SigningFiles.thy ===== *)
theory SigningFiles
  imports LoginSession "HOL-Library.Sublist"
begin

unbundle bit_operations_syntax

text \<open>
  The files of a signing run (\<^verbatim>\<open>src/signing.rs\<close>): the private hard link to the IPA
  (\<^verbatim>\<open>SideloadInput\<close>), the directory the signer extracts into (\<^verbatim>\<open>SideloadExtractionCleanup\<close>),
  the artifact a run returns (\<^verbatim>\<open>SignedAppArtifact\<close>) and what dropping each of them removes.
  A disk maps a path to its node; a file node names its contents, which hard links share. A
  path is the list of its components, as \<^verbatim>\<open>std::path::Path\<close> compares them.
\<close>

section \<open>Disks\<close>

type_synonym components = "string list"

datatype disk_node = DirNode | FileNode nat | LinkNode | OtherNode

record disk =
  dk_nodes :: "components \<Rightarrow> disk_node option"
  dk_data :: "nat \<Rightarrow> string"

datatype node_kind = KSymlink | KDir | KFile u64 | KOther

datatype rename_result = Renamed | CrossesDevices | RenameFailed

text \<open>
  What the operating system decides and the disk does not show: whether the metadata of a path
  can be read, the entries of a directory in the order they are listed (an entry may fail), the
  canonical components of a path, whether a directory or a hard link can be made, whether the
  mode of a path can be set and the mode then read back, how a rename ends, the owner of a path,
  the property list in some bytes, and the paths a removal cannot remove. \<open>sh_link_dir\<close> and
  \<open>sh_link_file\<close> say whether a link leads to a directory or to a file. The names the program
  makes are fresh, so one answer for each path is enough.
\<close>

record signing_host =
  sh_stat :: "components \<Rightarrow> bool"
  sh_list :: "disk \<Rightarrow> components \<Rightarrow> components option list option"
  sh_canonical :: "disk \<Rightarrow> components \<Rightarrow> string list option"
  sh_create_dir :: "components \<Rightarrow> bool"
  sh_link_dir :: "components \<Rightarrow> bool"
  sh_hard_link :: "components \<Rightarrow> components \<Rightarrow> bool"
  sh_link_file :: "components \<Rightarrow> bool"
  sh_chmod :: "components \<Rightarrow> 32 word \<Rightarrow> bool"
  sh_mode :: "components \<Rightarrow> 32 word \<Rightarrow> 32 word option"
  sh_rename :: "components \<Rightarrow> components \<Rightarrow> rename_result"
  sh_owner :: "components \<Rightarrow> nat"
  sh_plist :: "string \<Rightarrow> plist option"
  sh_keeps :: "components \<Rightarrow> bool"
  sh_temp_dir :: components

fun kind_of_node :: "disk \<Rightarrow> disk_node \<Rightarrow> node_kind" where
  "kind_of_node d DirNode = KDir"
| "kind_of_node d (FileNode i) = KFile (of_nat (length (dk_data d i)))"
| "kind_of_node d LinkNode = KSymlink"
| "kind_of_node d OtherNode = KOther"

definition symlink_metadata :: "signing_host \<Rightarrow> disk \<Rightarrow> components \<Rightarrow> node_kind option" where
  "symlink_metadata h d p = (if sh_stat h p then map_option (kind_of_node d) (dk_nodes d p) else None)"

definition path_parent :: "components \<Rightarrow> components option" where
  "path_parent p = (if p = [] then None else Some (butlast p))"

definition path_file_name :: "components \<Rightarrow> string option" where
  "path_file_name p = (if p = [] \<or> last p = ''..'' then None else Some (last p))"

text \<open>\<^verbatim>\<open>Path::is_file\<close> follows links.\<close>

definition path_is_file :: "signing_host \<Rightarrow> disk \<Rightarrow> components \<Rightarrow> bool" where
  "path_is_file h d p =
     (case symlink_metadata h d p of
        Some (KFile _) \<Rightarrow> True | Some KSymlink \<Rightarrow> sh_link_file h p | _ \<Rightarrow> False)"

definition restrict_signed_artifact_path :: "signing_host \<Rightarrow> components \<Rightarrow> bool \<Rightarrow> bool" where
  "restrict_signed_artifact_path h p directory =
     (let mode = if directory then 448 else 384 in
      sh_chmod h p mode \<and>
      (case sh_mode h p mode of None \<Rightarrow> False | Some actual \<Rightarrow> actual AND 511 = mode))"

definition put_node :: "components \<Rightarrow> disk_node option \<Rightarrow> disk \<Rightarrow> disk" where
  "put_node p n d = d\<lparr>dk_nodes := (dk_nodes d)(p := n)\<rparr>"

text \<open>\<^verbatim>\<open>rename\<close> of \<open>src\<close> to \<open>dst\<close> takes everything below \<open>src\<close> along.\<close>

definition move_tree :: "components \<Rightarrow> components \<Rightarrow> disk \<Rightarrow> disk" where
  "move_tree src dst d = d\<lparr>dk_nodes := \<lambda>q.
     if prefix dst q then dk_nodes d (src @ drop (length dst) q)
     else if prefix src q then None else dk_nodes d q\<rparr>"

definition remove_dir_all :: "signing_host \<Rightarrow> components \<Rightarrow> disk \<Rightarrow> disk" where
  "remove_dir_all h p d =
     d\<lparr>dk_nodes := \<lambda>q. if prefix p q \<and> \<not> sh_keeps h q then None else dk_nodes d q\<rparr>"

definition remove_signed_artifact_path :: "signing_host \<Rightarrow> components \<Rightarrow> disk \<Rightarrow> disk" where
  "remove_signed_artifact_path h p d =
     (case symlink_metadata h d p of
        Some KSymlink \<Rightarrow> if sh_keeps h p then d else put_node p None d
      | Some (KFile _) \<Rightarrow> if sh_keeps h p then d else put_node p None d
      | Some KDir \<Rightarrow> remove_dir_all h p d
      | _ \<Rightarrow> d)"

text \<open>\<^verbatim>\<open>create_dir_all\<close>, over the paths from the top down to the wanted one.\<close>

fun create_dirs :: "signing_host \<Rightarrow> components list \<Rightarrow> disk \<Rightarrow> bool \<times> disk" where
  "create_dirs h [] d = (True, d)"
| "create_dirs h (p # ps) d =
     (case dk_nodes d p of
        None \<Rightarrow> if sh_create_dir h p then create_dirs h ps (put_node p (Some DirNode) d) else (False, d)
      | Some DirNode \<Rightarrow> create_dirs h ps d
      | Some LinkNode \<Rightarrow> if sh_link_dir h p then create_dirs h ps d else (False, d)
      | Some _ \<Rightarrow> (False, d))"

definition create_dir_all :: "signing_host \<Rightarrow> components \<Rightarrow> disk \<Rightarrow> bool \<times> disk" where
  "create_dir_all h p d = create_dirs h (tl (prefixes p)) d"

section \<open>The private input and the extraction directory\<close>

definition input_name :: "string \<Rightarrow> string" where
  "input_name fresh = ''.iphoneloadly-signing-'' @ fresh @ ''.ipa''"

definition sideload_input :: "signing_host \<Rightarrow> string \<Rightarrow> components \<Rightarrow> disk \<Rightarrow> signing_error + components \<times> disk" where
  "sideload_input h fresh ipa d =
     (case path_parent ipa of
        None \<Rightarrow> Inl SgIpaSigningFailed
      | Some parent \<Rightarrow>
          let path = parent @ [input_name fresh] in
          (case dk_nodes d ipa of
             None \<Rightarrow> Inl SgIpaSigningFailed
           | Some DirNode \<Rightarrow> Inl SgIpaSigningFailed
           | Some node \<Rightarrow>
               if dk_nodes d path = None \<and> sh_hard_link h ipa path
               then Inr (path, put_node path (Some node) d) else Inl SgIpaSigningFailed))"

definition extraction_cleanup :: "signing_host \<Rightarrow> components \<Rightarrow> signing_error + components" where
  "extraction_cleanup h ipa =
     (case path_file_name ipa of
        None \<Rightarrow> Inl SgIpaSigningFailed
      | Some name \<Rightarrow> Inr (sh_temp_dir h @ [name @ ''_extracted'']))"

text \<open>
  What leaving the run drops. The extraction directory is dropped only while it is still owned
  (\<^verbatim>\<open>into_path\<close> takes it out).
\<close>

definition drop_sideload_input :: "signing_host \<Rightarrow> components \<Rightarrow> disk \<Rightarrow> disk" where
  "drop_sideload_input h path d = remove_signed_artifact_path h path d"

definition drop_extraction_cleanup :: "signing_host \<Rightarrow> components option \<Rightarrow> disk \<Rightarrow> disk" where
  "drop_extraction_cleanup h path d =
     (case path of None \<Rightarrow> d | Some p \<Rightarrow> remove_signed_artifact_path h p d)"

declare drop_sideload_input_def [simp] drop_extraction_cleanup_def [simp]

section \<open>The artifact of a signing run\<close>

record signed_app_artifact =
  sga_app_bundle_path :: components
  sga_cleanup_root :: components
  sga_extraction_root :: "components option"
  sga_bundle_id :: string

definition drop_artifact :: "signing_host \<Rightarrow> signed_app_artifact \<Rightarrow> disk \<Rightarrow> disk" where
  "drop_artifact h a d =
     (let d1 = remove_signed_artifact_path h (sga_cleanup_root a) d in
      case sga_extraction_root a of
        None \<Rightarrow> d1
      | Some root \<Rightarrow> remove_signed_artifact_path h root d1)"

section \<open>What removal, moving and creation change\<close>

text \<open>Every node but those at the top has a directory above it.\<close>

definition dirs_closed :: "disk \<Rightarrow> bool" where
  "dirs_closed d \<longleftrightarrow> (\<forall>p n. dk_nodes d (p @ [n]) \<noteq> None \<longrightarrow> p = [] \<or> dk_nodes d p = Some DirNode)"

definition removes_all :: "signing_host \<Rightarrow> bool" where
  "removes_all h \<longleftrightarrow> (\<forall>p. sh_stat h p \<and> \<not> sh_keeps h p)"

lemma dirs_closedD:
  assumes "dirs_closed d" "dk_nodes d q \<noteq> None" "strict_prefix p q" "p \<noteq> []"
  shows "dk_nodes d p = Some DirNode"
  using assms(2,3)
proof (induction q rule: rev_induct)
  case (snoc n q)
  from snoc.prems(1) assms(1) have up: "q = [] \<or> dk_nodes d q = Some DirNode"
    by (auto simp: dirs_closed_def)
  from snoc.prems(2) have "p = q \<or> strict_prefix p q"
    by (metis prefix_snoc prefix_order.le_less prefix_order.less_le)
  with up assms(4) snoc.IH show ?case by auto
qed simp

lemma closed_absent:
  assumes "dirs_closed d" "dk_nodes d p \<noteq> Some DirNode" "strict_prefix p q" "p \<noteq> []"
  shows "dk_nodes d q = None"
  using dirs_closedD [OF assms(1) _ assms(3,4)] assms(2) by blast

lemma dk_nodes_put_node [simp]:
  "dk_nodes (put_node p n d) = (dk_nodes d)(p := n)" "dk_data (put_node p n d) = dk_data d"
  by (simp_all add: put_node_def)

lemma dk_data_unchanged [simp]:
  "dk_data (move_tree src dst d) = dk_data d"
  "dk_data (remove_dir_all h p d) = dk_data d"
  "dk_data (remove_signed_artifact_path h p d) = dk_data d"
  by (simp_all add: move_tree_def remove_dir_all_def remove_signed_artifact_path_def
      split: option.split node_kind.split)

lemma move_tree_other [simp]:
  "\<not> prefix dst q \<Longrightarrow> \<not> prefix src q \<Longrightarrow> dk_nodes (move_tree src dst d) q = dk_nodes d q"
  by (simp add: move_tree_def)

lemma move_tree_dst [simp]: "dk_nodes (move_tree src dst d) dst = dk_nodes d src"
  by (simp add: move_tree_def)

lemma remove_other [simp]:
  "\<not> prefix p q \<Longrightarrow> dk_nodes (remove_signed_artifact_path h p d) q = dk_nodes d q"
  by (auto simp: remove_signed_artifact_path_def remove_dir_all_def
      split: option.split node_kind.split)

text \<open>Removal never adds a node.\<close>

lemma remove_cases:
  "dk_nodes (remove_signed_artifact_path h p d) q = None
   \<or> dk_nodes (remove_signed_artifact_path h p d) q = dk_nodes d q"
  by (auto simp: remove_signed_artifact_path_def remove_dir_all_def
      split: option.split node_kind.split)

lemma remove_absent [simp]:
  "dk_nodes d q = None \<Longrightarrow> dk_nodes (remove_signed_artifact_path h p d) q = None"
  using remove_cases [of h p d q] by auto

text \<open>A directory goes with everything below it; a file or a link goes alone.\<close>

lemma remove_directory:
  "removes_all h \<Longrightarrow> dk_nodes d p = Some DirNode \<Longrightarrow> prefix p q \<Longrightarrow>
     dk_nodes (remove_signed_artifact_path h p d) q = None"
  by (simp add: remove_signed_artifact_path_def symlink_metadata_def removes_all_def remove_dir_all_def)

lemma remove_leaf:
  "removes_all h \<Longrightarrow> dk_nodes d p \<noteq> Some OtherNode \<Longrightarrow>
     dk_nodes (remove_signed_artifact_path h p d) p = None"
  by (cases "dk_nodes d p"; cases "the (dk_nodes d p)")
    (auto simp: remove_signed_artifact_path_def symlink_metadata_def removes_all_def remove_dir_all_def)

text \<open>Making directories leaves every other path alone.\<close>

lemma create_dirs_frame:
  "create_dirs h ps d = (ok, d') \<Longrightarrow>
     dk_data d' = dk_data d \<and>
     (dk_nodes d' q = dk_nodes d q \<or> q \<in> set ps \<and> dk_nodes d q = None \<and> dk_nodes d' q = Some DirNode)"
proof (induction h ps d rule: create_dirs.induct)
  case (2 h p ps d)
  show ?case
  proof (cases "dk_nodes d p")
    case None
    with 2 show ?thesis by (auto split: if_splits)
  next
    case (Some n)
    with 2 show ?thesis by (cases n) (auto split: if_splits)
  qed
qed simp

lemma create_dir_all_frame:
  assumes "create_dir_all h p d = (ok, d')"
  shows "dk_data d' = dk_data d" and
    "dk_nodes d' q = dk_nodes d q \<or> prefix q p \<and> dk_nodes d q = None \<and> dk_nodes d' q = Some DirNode"
proof -
  have "set (tl (prefixes p)) \<subseteq> set (prefixes p)" by (cases "prefixes p") auto
  then show "dk_data d' = dk_data d"
    "dk_nodes d' q = dk_nodes d q \<or> prefix q p \<and> dk_nodes d q = None \<and> dk_nodes d' q = Some DirNode"
    using create_dirs_frame [OF assms [unfolded create_dir_all_def], of q] by auto
qed

lemma sideload_input_InrD:
  assumes "sideload_input h fresh ipa d = Inr (input, d')"
  shows "ipa \<noteq> [] \<and> input = butlast ipa @ [input_name fresh] \<and> dk_nodes d ipa \<noteq> None
    \<and> dk_nodes d ipa \<noteq> Some DirNode \<and> dk_nodes d input = None \<and> d' = put_node input (dk_nodes d ipa) d"
  using assms
  by (auto simp: sideload_input_def path_parent_def Let_def
      split: option.splits disk_node.splits if_splits)

end
