(* ===== verification/SigningRun.thy ===== *)
theory SigningRun
  imports SigningFiles
begin

text \<open>
  A signing run (\<^verbatim>\<open>src/signing.rs\<close>, device identities, registration preflight, signing and the
  snapshot of the signed application; \<^verbatim>\<open>src/registration_diagnostic.rs\<close>). Apple's developer
  service and the signer are libraries: their answers are arguments, and the signer is a function
  on the disk. A signing run takes a disk (\<open>SigningFiles\<close>) and returns the disk it leaves. The
  tree check reads it through \<open>tree_env\<close>, which gives the entries of a directory, the kind of a
  path without following links, and the canonical components of a path.
\<close>

section \<open>Device identities\<close>

record signing_device_identity =
  di_name :: string
  di_udid :: string
  di_apple_tv :: bool
  di_product_type :: "string option"
  di_ios_version :: "string option"

definition new_identity :: "string \<Rightarrow> string \<Rightarrow> signing_error + signing_device_identity" where
  "new_identity name udid =
     (if trim name = [] \<or> trim udid = [] \<or> 256 < length name \<or> 256 < length udid
      then Inl SgDeviceInfoFailed
      else Inr \<lparr>di_name = name, di_udid = udid, di_apple_tv = False, di_product_type = None,
             di_ios_version = None\<rparr>)"

definition with_device_class ::
  "string option \<Rightarrow> signing_device_identity \<Rightarrow> signing_device_identity" where
  "with_device_class device_class i =
     i\<lparr>di_apple_tv := (case device_class of None \<Rightarrow> False
                        | Some c \<Rightarrow> eq_ignore_ascii_case c ''AppleTV'')\<rparr>"

definition bounded :: "string option \<Rightarrow> string option" where
  "bounded v = opt_filter (\<lambda>s. trim s \<noteq> [] \<and> length s \<le> 128 \<and> \<not> has_control s) v"

definition with_device_metadata ::
  "string option \<Rightarrow> string option \<Rightarrow> signing_device_identity \<Rightarrow> signing_device_identity" where
  "with_device_metadata product_type ios_version i =
     i\<lparr>di_product_type := bounded product_type, di_ios_version := bounded ios_version\<rparr>"

datatype developer_device_type = DeveloperTvos

definition developer_device_type :: "signing_device_identity \<Rightarrow> developer_device_type option" where
  "developer_device_type i = (if di_apple_tv i then Some DeveloperTvos else None)"

section \<open>Registration\<close>

datatype device_registration_state = AlreadyPresent | NewRequired
datatype device_registration_policy = RequireExisting | Ensure

fun registration_policy_after_preflight ::
  "device_registration_state \<Rightarrow> device_registration_policy \<Rightarrow> device_registration_policy option" where
  "registration_policy_after_preflight AlreadyPresent _ = Some RequireExisting"
| "registration_policy_after_preflight NewRequired Ensure = Some Ensure"
| "registration_policy_after_preflight NewRequired RequireExisting = None"

record registration_counts =
  rm_listed_devices :: nat
  rm_exact :: nat
  rm_ascii_case_insensitive :: nat
  rm_trimmed_ascii_case_insensitive :: nat
  rm_target_has_outer_whitespace :: bool

definition count_match :: "string \<Rightarrow> string \<Rightarrow> registration_counts \<Rightarrow> registration_counts" where
  "count_match target number m =
     m\<lparr>rm_listed_devices := rm_listed_devices m + 1,
       rm_exact := rm_exact m + (if number = target then 1 else 0),
       rm_ascii_case_insensitive := rm_ascii_case_insensitive m
         + (if eq_ignore_ascii_case number target then 1 else 0),
       rm_trimmed_ascii_case_insensitive := rm_trimmed_ascii_case_insensitive m
         + (if eq_ignore_ascii_case (trim number) (trim target) then 1 else 0)\<rparr>"

definition registration_matches :: "string \<Rightarrow> string list \<Rightarrow> registration_counts" where
  "registration_matches target device_numbers =
     fold (count_match target) device_numbers
       \<lparr>rm_listed_devices = 0, rm_exact = 0, rm_ascii_case_insensitive = 0,
        rm_trimmed_ascii_case_insensitive = 0,
        rm_target_has_outer_whitespace = (target \<noteq> trim target)\<rparr>"

definition diagnostic_team_id :: "string \<Rightarrow> string" where
  "diagnostic_team_id team_id =
     (if length team_id = 10 \<and> list_all is_ascii_alphanumeric team_id then team_id
      else ''<redacted-invalid-team-id>'')"

section \<open>The account preflight\<close>

record certificate =
  ce_max_active_certs :: "int option"
  ce_serial_number :: "string option"
  ce_status :: "string option"
  ce_machine_name :: "string option"

record apple_account_preflight =
  ap_device_registration :: device_registration_state
  ap_development_certificate_count :: nat
  ap_development_certificate_capacity :: "nat option"
  ap_machine_certificate_present :: bool

text \<open>
  The developer service: the team, the device numbers registered for a device type, the
  certificates, whether a registration succeeds, and the signer: from the IPA's path and the disk
  it makes an error report, or the path of the signed application, and a new disk.
\<close>

record developer_service =
  dv_team :: "string option"
  dv_devices :: "developer_device_type option \<Rightarrow> string list option"
  dv_certificates :: "certificate list option"
  dv_register :: "string \<Rightarrow> string \<Rightarrow> developer_device_type option \<Rightarrow> bool"
  dv_sign :: "developer_device_type option \<Rightarrow> components \<Rightarrow> disk
     \<Rightarrow> (report_context list + components) \<times> disk"

definition active_certificate :: "certificate \<Rightarrow> bool" where
  "active_certificate c \<longleftrightarrow> ce_serial_number c \<noteq> None \<and> ce_status c \<noteq> Some ''Revoked''"

definition max_opt :: "nat list \<Rightarrow> nat option" where
  "max_opt xs = (case xs of [] \<Rightarrow> None | x # ys \<Rightarrow> Some (fold max ys x))"

definition capacities :: "certificate list \<Rightarrow> nat list" where
  "capacities certs = map nat (filter (\<lambda>c. 0 \<le> c) (List.map_filter ce_max_active_certs certs))"

definition account_preflight ::
  "developer_service \<Rightarrow> signing_device_identity \<Rightarrow> signing_error + apple_account_preflight" where
  "account_preflight dv identity =
     sum_bind (ok_or SgDeveloperTeamFailed (dv_team dv)) (\<lambda>_.
     sum_bind (ok_or SgDeveloperTeamFailed (dv_devices dv (developer_device_type identity))) (\<lambda>devices.
     sum_bind (ok_or SgDeveloperTeamFailed (dv_certificates dv)) (\<lambda>certs.
       let active = filter active_certificate certs in
       Inr \<lparr>ap_device_registration =
              (if List.member devices (di_udid identity) then AlreadyPresent else NewRequired),
            ap_development_certificate_count = length active,
            ap_development_certificate_capacity = max_opt (capacities certs),
            ap_machine_certificate_present =
              list_ex (\<lambda>c. ce_machine_name c = Some ''iPhoneLoadly'') active\<rparr>)))"

section \<open>The tree of a signed application\<close>

record tree_env =
  te_read_dir :: "components \<Rightarrow> components option list option"
  te_kind :: "components \<Rightarrow> node_kind option"
  te_canonical :: "components \<Rightarrow> string list option"

definition MAX_TREE_ENTRIES :: nat where "MAX_TREE_ENTRIES = 20000"
definition MAX_TREE_BYTES :: u64 where "MAX_TREE_BYTES = 2147483648"

definition path_starts_with :: "string list \<Rightarrow> string list \<Rightarrow> bool" where
  "path_starts_with p root \<longleftrightarrow> take (length root) p = root"

type_synonym tree_state = "nat \<times> u64 \<times> components list"

definition check_tree_entry ::
  "tree_env \<Rightarrow> string list \<Rightarrow> components option \<Rightarrow> tree_state \<Rightarrow> signing_error + tree_state" where
  "check_tree_entry te root entry st =
     (case st of (entries, bytes, pending) \<Rightarrow>
        case entry of
          None \<Rightarrow> Inl SgSignedMetadataFailed
        | Some p \<Rightarrow>
            if MAX_TREE_ENTRIES < entries + 1 then Inl SgSignedMetadataFailed
            else (case (te_kind te p, te_canonical te p) of
                    (None, _) \<Rightarrow> Inl SgSignedMetadataFailed
                  | (Some KSymlink, _) \<Rightarrow> Inl SgSignedMetadataFailed
                  | (Some _, None) \<Rightarrow> Inl SgSignedMetadataFailed
                  | (Some kind, Some canonical) \<Rightarrow>
                      if \<not> path_starts_with canonical root then Inl SgSignedMetadataFailed
                      else (case kind of
                              KDir \<Rightarrow> Inr (entries + 1, bytes, pending @ [p])
                            | KFile len \<Rightarrow>
                                (case checked_add_u64 bytes len of
                                   None \<Rightarrow> Inl SgSignedMetadataFailed
                                 | Some added \<Rightarrow>
                                     if MAX_TREE_BYTES < added then Inl SgSignedMetadataFailed
                                     else Inr (entries + 1, added, pending))
                            | _ \<Rightarrow> Inl SgSignedMetadataFailed)))"

fun check_tree_entries ::
  "tree_env \<Rightarrow> string list \<Rightarrow> components option list \<Rightarrow> tree_state \<Rightarrow> signing_error + tree_state" where
  "check_tree_entries te root [] st = Inr st"
| "check_tree_entries te root (e # es) st =
     sum_bind (check_tree_entry te root e st) (check_tree_entries te root es)"

lemma check_tree_entry_counts:
  "check_tree_entry te root e (n, b, q) = Inr (n', b', q') \<Longrightarrow>
     n' = n + 1 \<and> n' \<le> MAX_TREE_ENTRIES \<and> length q' \<le> length q + 1"
  by (auto simp: check_tree_entry_def split: option.splits node_kind.splits if_splits)

lemma check_tree_entries_counts:
  "check_tree_entries te root es (n, b, q) = Inr (n', b', q') \<Longrightarrow>
     n' = n + length es \<and> (es \<noteq> [] \<longrightarrow> n' \<le> MAX_TREE_ENTRIES) \<and> length q' \<le> length q + length es"
proof (induction es arbitrary: n b q)
  case (Cons e es)
  then obtain n1 b1 q1 where "check_tree_entry te root e (n, b, q) = Inr (n1, b1, q1)"
    "check_tree_entries te root es (n1, b1, q1) = Inr (n', b', q')"
    by (auto simp: sum_bind_eq_Inr)
  with Cons.IH [of n1 b1 q1] check_tree_entry_counts [of te root e n b q n1 b1 q1]
  show ?case by (cases es) auto
qed simp

text \<open>
  The worklist loop. Every directory taken from the queue was counted as an entry when it was put
  there, and the number of entries is bounded, so the loop ends.
\<close>

function tree_loop ::
  "tree_env \<Rightarrow> string list \<Rightarrow> tree_state \<Rightarrow> signing_error + unit" where
  "tree_loop te root (entries, bytes, []) = Inr ()"
| "tree_loop te root (entries, bytes, directory # pending) =
     (case te_read_dir te directory of
        None \<Rightarrow> Inl SgSignedMetadataFailed
      | Some es \<Rightarrow>
          (case check_tree_entries te root es (entries, bytes, pending) of
             Inl e \<Rightarrow> Inl e | Inr st \<Rightarrow> tree_loop te root st))"
  by pat_completeness auto
termination
proof (relation "measure (\<lambda>(te, root, n, b, q). 2 * (MAX_TREE_ENTRIES - n) + length q)")
  fix te root entries bytes directory pending es st
  assume "check_tree_entries te root es (entries, bytes, pending) = Inr st"
  moreover obtain n b q where "st = (n, b, q)" by (cases st)
  ultimately have "check_tree_entries te root es (entries, bytes, pending) = Inr (n, b, q)" by simp
  from check_tree_entries_counts [OF this] \<open>st = (n, b, q)\<close>
  show "((te, root, st), te, root, entries, bytes, directory # pending)
      \<in> measure (\<lambda>(te, root, n, b, q). 2 * (MAX_TREE_ENTRIES - n) + length q)"
    by (cases es) auto
qed simp

declare tree_loop.simps [simp del]

definition validate_private_signed_tree :: "tree_env \<Rightarrow> components \<Rightarrow> signing_error + unit" where
  "validate_private_signed_tree te root =
     (case te_canonical te root of
        None \<Rightarrow> Inl SgSignedMetadataFailed
      | Some canonical_root \<Rightarrow> tree_loop te canonical_root (0, 0, [root]))"

section \<open>Taking ownership of the signed application\<close>

definition disk_tree :: "signing_host \<Rightarrow> disk \<Rightarrow> tree_env" where
  "disk_tree h d = \<lparr>te_read_dir = sh_list h d, te_kind = symlink_metadata h d,
     te_canonical = sh_canonical h d\<rparr>"

abbreviation snap_failed :: "signing_error + 'a" where
  "snap_failed \<equiv> Inl SgSignedMetadataFailed"

definition canonical_parent_is :: "string list \<Rightarrow> string list \<Rightarrow> bool" where
  "canonical_parent_is p parent \<longleftrightarrow> p \<noteq> [] \<and> butlast p = parent"

text \<open>
  A run makes three fresh UUIDs: \<open>fresh 0\<close> names the private input, \<open>fresh 1\<close> the signed
  application, \<open>fresh 2\<close> the quarantine used when it lies on another file system.
\<close>

definition quarantine_path :: "(nat \<Rightarrow> string) \<Rightarrow> components \<Rightarrow> components" where
  "quarantine_path fresh parent = parent @ [''.iphoneloadly-owned-'' @ fresh 2]"

definition direct_path :: "(nat \<Rightarrow> string) \<Rightarrow> components \<Rightarrow> components" where
  "direct_path fresh storage = storage @ [''iphoneloadly-signed-'' @ fresh 1 @ ''.app'']"

definition quarantine_signed_app ::
  "signing_host \<Rightarrow> (nat \<Rightarrow> string) \<Rightarrow> components \<Rightarrow> components \<Rightarrow> disk
     \<Rightarrow> (signing_error + components \<times> components \<times> string list) \<times> disk" where
  "quarantine_signed_app h fresh source storage d =
     (case path_parent source of
        None \<Rightarrow> (snap_failed, d)
      | Some parent \<Rightarrow>
          let quarantine = quarantine_path fresh parent;
              owned = quarantine @ [''Signed.app''] in
          if symlink_metadata h d parent \<noteq> Some KDir \<or> symlink_metadata h d storage = None
             \<or> sh_owner h parent \<noteq> sh_owner h storage
             \<or> \<not> restrict_signed_artifact_path h parent True
          then (snap_failed, d)
          else (case sh_canonical h d parent of
                  None \<Rightarrow> (snap_failed, d)
                | Some canonical_parent \<Rightarrow>
                    if dk_nodes d quarantine \<noteq> None \<or> \<not> sh_create_dir h quarantine
                    then (snap_failed, d)
                    else let d1 = put_node quarantine (Some DirNode) d in
                      if \<not> restrict_signed_artifact_path h quarantine True then (snap_failed, d1)
                      else (case sh_canonical h d1 quarantine of
                              None \<Rightarrow> (snap_failed, d1)
                            | Some canonical_quarantine \<Rightarrow>
                                if \<not> canonical_parent_is canonical_quarantine canonical_parent
                                   \<or> sh_rename h source owned \<noteq> Renamed
                                then (snap_failed, remove_signed_artifact_path h quarantine d1)
                                else (Inr (owned, quarantine, canonical_quarantine),
                                      move_tree source owned d1))))"

definition inspect_owned ::
  "signing_host \<Rightarrow> disk \<Rightarrow> components \<Rightarrow> string list \<Rightarrow> signing_error + string" where
  "inspect_owned h d owned expected_parent =
     (if symlink_metadata h d owned \<noteq> Some KDir \<or> \<not> restrict_signed_artifact_path h owned True
      then snap_failed
      else (case sh_canonical h d owned of
              None \<Rightarrow> snap_failed
            | Some canonical_owned \<Rightarrow>
                if \<not> canonical_parent_is canonical_owned expected_parent then snap_failed
                else sum_bind (validate_private_signed_tree (disk_tree h d) owned) (\<lambda>_.
                  let info_path = owned @ [''Info.plist''] in
                  case (symlink_metadata h d info_path, dk_nodes d info_path) of
                    (Some (KFile _), Some (FileNode i)) \<Rightarrow>
                      ok_or SgSignedMetadataFailed
                        (opt_filter (\<lambda>b. b \<noteq> [] \<and> length b \<le> 512)
                          (Option.bind (sh_plist h (dk_data d i)) (\<lambda>v.
                           Option.bind (as_dictionary v) (\<lambda>info.
                             get_string info ''CFBundleIdentifier''))))
                  | _ \<Rightarrow> snap_failed)))"

text \<open>
  The move of the signed application: straight into the storage, or into a quarantine beside it
  when the storage is on another file system (\<open>force\<close> makes every move such a one). A failing
  move removes the signed application.
\<close>

definition take_signed_app ::
  "signing_host \<Rightarrow> bool \<Rightarrow> (nat \<Rightarrow> string) \<Rightarrow> components \<Rightarrow> components \<Rightarrow> string list \<Rightarrow> disk
     \<Rightarrow> (signing_error + components \<times> components \<times> string list) \<times> disk" where
  "take_signed_app h force fresh source storage canonical_storage d =
     (let direct = direct_path fresh storage in
      case (if force then CrossesDevices else sh_rename h source direct) of
        Renamed \<Rightarrow> (Inr (direct, direct, canonical_storage), move_tree source direct d)
      | CrossesDevices \<Rightarrow>
          (case quarantine_signed_app h fresh source storage d of
             (Inr taken, d1) \<Rightarrow> (Inr taken, d1)
           | (Inl e, d1) \<Rightarrow> (Inl e, remove_signed_artifact_path h source d1))
      | RenameFailed \<Rightarrow> (snap_failed, remove_signed_artifact_path h source d))"

definition snapshot_signed_app_inner ::
  "signing_host \<Rightarrow> bool \<Rightarrow> (nat \<Rightarrow> string) \<Rightarrow> components \<Rightarrow> components \<Rightarrow> disk
     \<Rightarrow> (signing_error + signed_app_artifact) \<times> disk" where
  "snapshot_signed_app_inner h force fresh source storage d =
     (if symlink_metadata h d source \<noteq> Some KDir then (snap_failed, d)
      else case create_dir_all h storage d of
        (created, d1) \<Rightarrow>
          if \<not> created \<or> symlink_metadata h d1 storage \<noteq> Some KDir
             \<or> \<not> restrict_signed_artifact_path h storage True
          then (snap_failed, d1)
          else (case sh_canonical h d1 storage of
                  None \<Rightarrow> (snap_failed, d1)
                | Some canonical_storage \<Rightarrow>
                    (case take_signed_app h force fresh source storage canonical_storage d1 of
                       (Inl e, d2) \<Rightarrow> (Inl e, d2)
                     | (Inr (owned, cleanup_root, expected_parent), d2) \<Rightarrow>
                         (case inspect_owned h d2 owned expected_parent of
                            Inl e \<Rightarrow> (Inl e, remove_signed_artifact_path h cleanup_root d2)
                          | Inr bundle_id \<Rightarrow>
                              (Inr \<lparr>sga_app_bundle_path = owned, sga_cleanup_root = cleanup_root,
                                 sga_extraction_root = None, sga_bundle_id = bundle_id\<rparr>, d2)))))"

definition snapshot_signed_app ::
  "signing_host \<Rightarrow> (nat \<Rightarrow> string) \<Rightarrow> components \<Rightarrow> components \<Rightarrow> disk
     \<Rightarrow> (signing_error + signed_app_artifact) \<times> disk" where
  "snapshot_signed_app h = snapshot_signed_app_inner h False"

section \<open>Signing for a device\<close>

text \<open>\<^verbatim>\<open>(value.clamp(0.0, 1.0) * 40.0) as u8\<close> for a value of \<open>num\<close>/\<open>den\<close>.\<close>

definition signing_percent :: "int \<Rightarrow> nat \<Rightarrow> nat" where
  "signing_percent num den = nat (max 0 (min num (int den))) * 40 div den"

text \<open>\<^verbatim>\<open>40 + ((value.min(100) * 60) / 100) as u8\<close>.\<close>

definition install_percent :: "u64 \<Rightarrow> u8" where
  "install_percent v = 40 + ucast (min v 100 * 60 div 100)"

definition registered_for ::
  "developer_service \<Rightarrow> signing_device_identity \<Rightarrow> device_registration_policy \<Rightarrow> signing_error + unit" where
  "registered_for dv identity policy =
     sum_bind (ok_or SgDeveloperTeamFailed (dv_team dv)) (\<lambda>_.
       case policy of
         RequireExisting \<Rightarrow>
           sum_bind (ok_or SgDeveloperTeamFailed (dv_devices dv (developer_device_type identity)))
             (\<lambda>devices. if List.member devices (di_udid identity) then Inr ()
                        else Inl SgDeviceRegistrationRequired)
       | Ensure \<Rightarrow>
           if dv_register dv (di_name identity) (di_udid identity) (developer_device_type identity)
           then Inr () else Inl SgDeviceRegistrationFailed)"

text \<open>
  The signing itself. The private input and the extraction directory belong to the run: leaving
  it drops first the extraction directory and then the input, on every path; a success hands the
  extraction directory to the artifact instead.
\<close>

definition sign_app ::
  "signing_host \<Rightarrow> developer_service \<Rightarrow> (nat \<Rightarrow> string) \<Rightarrow> components \<Rightarrow> components
     \<Rightarrow> signing_device_identity \<Rightarrow> disk \<Rightarrow> (signing_error + signed_app_artifact) \<times> disk" where
  "sign_app h dv fresh storage ipa identity d =
     (case sideload_input h (fresh 0) ipa d of
        Inl e \<Rightarrow> (Inl e, d)
      | Inr (input, d1) \<Rightarrow>
          let leave = (\<lambda>cleanup d. drop_sideload_input h input (drop_extraction_cleanup h cleanup d)) in
          (case extraction_cleanup h input of
             Inl e \<Rightarrow> (Inl e, drop_sideload_input h input d1)
           | Inr root \<Rightarrow>
               (case dv_sign dv (developer_device_type identity) input d1 of
                  (Inl report, d2) \<Rightarrow>
                    (Inl (SgClassifiedIpaSigning (signing_from_report report)), leave (Some root) d2)
                | (Inr signed_app, d2) \<Rightarrow>
                    (case snapshot_signed_app h fresh signed_app storage d2 of
                       (Inl e, d3) \<Rightarrow> (Inl e, leave (Some root) d3)
                     | (Inr artifact, d3) \<Rightarrow>
                         (Inr (artifact\<lparr>sga_extraction_root := Some root\<rparr>), leave None d3)))))"

definition sign_for_device_with_sideloader ::
  "signing_host \<Rightarrow> developer_service \<Rightarrow> (nat \<Rightarrow> string) \<Rightarrow> components \<Rightarrow> components
     \<Rightarrow> signing_device_identity \<Rightarrow> device_registration_policy \<Rightarrow> disk
     \<Rightarrow> (signing_error + signed_app_artifact) \<times> disk" where
  "sign_for_device_with_sideloader h dv fresh storage ipa identity policy d =
     (case registered_for dv identity policy of
        Inl e \<Rightarrow> (Inl e, d)
      | Inr _ \<Rightarrow> sign_app h dv fresh storage ipa identity d)"

datatype existing_device_signing_error = PreflightError signing_error | SigningError signing_error

definition preflight_and_sign_for_device ::
  "signing_host \<Rightarrow> developer_service option \<Rightarrow> (nat \<Rightarrow> string) \<Rightarrow> components \<Rightarrow> components
     \<Rightarrow> signing_device_identity \<Rightarrow> device_registration_policy \<Rightarrow> disk
     \<Rightarrow> (existing_device_signing_error + apple_account_preflight \<times> signed_app_artifact option) \<times> disk" where
  "preflight_and_sign_for_device h session fresh storage ipa identity policy d =
     (if \<not> path_is_file h d ipa then (Inl (SigningError SgIpaSigningFailed), d)
      else (case session of
              None \<Rightarrow> (Inl (PreflightError NotReady), d)
            | Some dv \<Rightarrow>
                (case account_preflight dv identity of
                   Inl e \<Rightarrow> (Inl (PreflightError e), d)
                 | Inr preflight \<Rightarrow>
                     (case registration_policy_after_preflight (ap_device_registration preflight) policy of
                        None \<Rightarrow> (Inr (preflight, None), d)
                      | Some policy' \<Rightarrow>
                          (case sign_for_device_with_sideloader h dv fresh storage ipa identity policy' d of
                             (Inl e, d1) \<Rightarrow> (Inl (SigningError e), d1)
                           | (Inr artifact, d1) \<Rightarrow> (Inr (preflight, Some artifact), d1))))))"

definition sign_for_device ::
  "signing_host \<Rightarrow> developer_service option \<Rightarrow> (nat \<Rightarrow> string) \<Rightarrow> components \<Rightarrow> components
     \<Rightarrow> signing_device_identity \<Rightarrow> device_registration_policy \<Rightarrow> disk
     \<Rightarrow> (signing_error + signed_app_artifact) \<times> disk" where
  "sign_for_device h session fresh storage ipa identity policy d =
     (if \<not> path_is_file h d ipa then (Inl SgIpaSigningFailed, d)
      else (case session of
              None \<Rightarrow> (Inl NotReady, d)
            | Some dv \<Rightarrow> sign_for_device_with_sideloader h dv fresh storage ipa identity policy d))"

text \<open>
  \<open>device_info\<close> is the name and UDID read from the device; \<open>install\<close> transfers and installs. The
  artifact is dropped when the call returns.
\<close>

definition signing_install_ipa ::
  "signing_host \<Rightarrow> developer_service option \<Rightarrow> (nat \<Rightarrow> string) \<Rightarrow> components \<Rightarrow> components
     \<Rightarrow> (string \<times> string) option \<Rightarrow> (components \<Rightarrow> bool) \<Rightarrow> disk \<Rightarrow> (signing_error + string) \<times> disk" where
  "signing_install_ipa h session fresh storage ipa device_info install d =
     (case device_info of
        None \<Rightarrow> (Inl SgDeviceInfoFailed, d)
      | Some (name, udid) \<Rightarrow>
          (case new_identity name udid of
             Inl e \<Rightarrow> (Inl e, d)
           | Inr identity \<Rightarrow>
               (case sign_for_device h session fresh storage ipa identity Ensure d of
                  (Inl e, d1) \<Rightarrow> (Inl e, d1)
                | (Inr artifact, d1) \<Rightarrow>
                    (if install (sga_app_bundle_path artifact)
                     then Inr (sga_bundle_id artifact) else Inl SgDeviceInstallFailed,
                     drop_artifact h artifact d1))))"

section \<open>The tree check is sound\<close>

lemma check_tree_entry_error:
  "check_tree_entry te root e st = Inl err \<Longrightarrow> err = SgSignedMetadataFailed"
  by (auto simp: check_tree_entry_def split: option.splits node_kind.splits prod.splits if_splits)

lemma check_tree_entries_error:
  "check_tree_entries te root es st = Inl err \<Longrightarrow> err = SgSignedMetadataFailed"
  by (induction es arbitrary: st)
    (auto simp: sum_bind_def check_tree_entry_error split: sum.splits)

lemma tree_loop_error: "tree_loop te root st = Inl err \<Longrightarrow> err = SgSignedMetadataFailed"
  by (induction te root st rule: tree_loop.induct)
    (auto simp: tree_loop.simps check_tree_entries_error split: option.splits sum.splits)

lemma validate_tree_error:
  "validate_private_signed_tree te root = Inl err \<Longrightarrow> err = SgSignedMetadataFailed"
  by (auto simp: validate_private_signed_tree_def tree_loop_error split: option.splits)

text \<open>What lies below a directory.\<close>

inductive_set tree_below :: "tree_env \<Rightarrow> components \<Rightarrow> components set" for te root where
  child: "te_read_dir te root = Some es \<Longrightarrow> Some p \<in> set es \<Longrightarrow> p \<in> tree_below te root"
| deeper: "p \<in> tree_below te root \<Longrightarrow> te_kind te p = Some KDir \<Longrightarrow> te_read_dir te p = Some es \<Longrightarrow>
    Some q \<in> set es \<Longrightarrow> q \<in> tree_below te root"

definition node_ok :: "tree_env \<Rightarrow> string list \<Rightarrow> components \<Rightarrow> bool" where
  "node_ok te root p \<longleftrightarrow>
     (te_kind te p = Some KDir \<or> (\<exists>len. te_kind te p = Some (KFile len)))
     \<and> (\<exists>c. te_canonical te p = Some c \<and> path_starts_with c root)"

definition node_bytes :: "tree_env \<Rightarrow> components \<Rightarrow> nat" where
  "node_bytes te p = (case te_kind te p of Some (KFile len) \<Rightarrow> unat len | _ \<Rightarrow> 0)"

definition dirs_of :: "tree_env \<Rightarrow> components list \<Rightarrow> components list" where
  "dirs_of te ps = filter (\<lambda>p. te_kind te p = Some KDir) ps"

lemma check_tree_entry_InrD:
  assumes "check_tree_entry te root e (n, b, q) = Inr (n', b', q')"
  obtains p where "e = Some p" "node_ok te root p" "unat b' = unat b + node_bytes te p"
    "q' = q @ dirs_of te [p]" "unat b \<le> unat MAX_TREE_BYTES \<longrightarrow> unat b' \<le> unat MAX_TREE_BYTES"
proof -
  from assms obtain p k c where e: "e = Some p" and k: "te_kind te p = Some k"
    and c: "te_canonical te p = Some c" "path_starts_with c root" "k \<noteq> KSymlink"
    by (auto simp: check_tree_entry_def split: option.splits node_kind.splits if_splits)
  show ?thesis
  proof (rule that [OF e])
    show "node_ok te root p"
      using assms e k c
      by (auto simp: check_tree_entry_def node_ok_def split: node_kind.splits if_splits)
    show "unat b' = unat b + node_bytes te p"
      using assms e k c
      by (auto simp: check_tree_entry_def node_bytes_def dest: checked_add_u64_SomeD
          split: node_kind.splits if_splits option.splits)
    show "q' = q @ dirs_of te [p]"
      using assms e k c
      by (auto simp: check_tree_entry_def dirs_of_def split: node_kind.splits if_splits option.splits)
    show "unat b \<le> unat MAX_TREE_BYTES \<longrightarrow> unat b' \<le> unat MAX_TREE_BYTES"
      using assms e k c
      by (auto simp: check_tree_entry_def word_le_nat_alt not_less
          split: node_kind.splits if_splits option.splits)
  qed
qed

lemma check_tree_entries_InrD:
  assumes "check_tree_entries te root es (n, b, q) = Inr (n', b', q')"
    "unat b \<le> unat MAX_TREE_BYTES"
  shows "\<exists>ps. es = map Some ps \<and> (\<forall>p \<in> set ps. node_ok te root p)
    \<and> unat b' = unat b + sum_list (map (node_bytes te) ps) \<and> q' = q @ dirs_of te ps
    \<and> unat b' \<le> unat MAX_TREE_BYTES"
  using assms
proof (induction es arbitrary: n b q)
  case Nil
  then show ?case by (simp add: dirs_of_def)
next
  case (Cons e es)
  then obtain n1 b1 q1 where e: "check_tree_entry te root e (n, b, q) = Inr (n1, b1, q1)"
    and es: "check_tree_entries te root es (n1, b1, q1) = Inr (n', b', q')"
    by (auto simp: sum_bind_eq_Inr)
  from check_tree_entry_InrD [OF e] obtain p where p: "e = Some p" "node_ok te root p"
    "unat b1 = unat b + node_bytes te p" "q1 = q @ dirs_of te [p]"
    "unat b1 \<le> unat MAX_TREE_BYTES" using Cons.prems(2) by blast
  from Cons.IH [OF es p(5)] obtain ps where ps: "es = map Some ps"
    "\<forall>p \<in> set ps. node_ok te root p" "unat b' = unat b1 + sum_list (map (node_bytes te) ps)"
    "q' = q1 @ dirs_of te ps" "unat b' \<le> unat MAX_TREE_BYTES" by blast
  show ?case
    by (rule exI [of _ "p # ps"]) (use p ps in \<open>auto simp: dirs_of_def\<close>)
qed

text \<open>The entries the loop has still to look at are listed by some \<open>ws\<close> within the limits.\<close>

lemma tree_loop_InrD:
  assumes "tree_loop te root (n, b, q) = Inr ()" "unat b \<le> unat MAX_TREE_BYTES"
    "n \<le> MAX_TREE_ENTRIES"
  shows "\<exists>ws. (\<forall>w \<in> set ws. node_ok te root w)
    \<and> (\<forall>d \<in> set q \<union> set (dirs_of te ws). \<exists>es. te_read_dir te d = Some (map Some es) \<and> set es \<subseteq> set ws)
    \<and> n + length ws \<le> MAX_TREE_ENTRIES
    \<and> unat b + sum_list (map (node_bytes te) ws) \<le> unat MAX_TREE_BYTES"
  using assms
proof (induction te root "(n, b, q)" arbitrary: n b q rule: tree_loop.induct)
  case (1 te root n b)
  then show ?case by (intro exI [of _ "[]"]) (simp add: dirs_of_def)
next
  case (2 te root n b d q)
  from "2.prems"(1) obtain es st where es: "te_read_dir te d = Some es"
    and st: "check_tree_entries te root es (n, b, q) = Inr st" "tree_loop te root st = Inr ()"
    by (auto simp: tree_loop.simps split: option.splits sum.splits)
  obtain n' b' q' where st': "st = (n', b', q')" by (cases st)
  from check_tree_entries_InrD [OF st(1) [unfolded st'] "2.prems"(2)] obtain ps
    where ps: "es = map Some ps" "\<forall>p \<in> set ps. node_ok te root p"
      "unat b' = unat b + sum_list (map (node_bytes te) ps)" "q' = q @ dirs_of te ps"
      "unat b' \<le> unat MAX_TREE_BYTES" by blast
  from check_tree_entries_counts [OF st(1) [unfolded st']] "2.prems"(3)
  have n': "n' = n + length ps" "n' \<le> MAX_TREE_ENTRIES" by (auto simp: ps(1))
  from "2.hyps" [OF es st(1) [unfolded st'] st(2) [unfolded st'] ps(5) n'(2)] obtain ws
    where ws: "\<forall>w \<in> set ws. node_ok te root w"
      "\<forall>d \<in> set q' \<union> set (dirs_of te ws). \<exists>es. te_read_dir te d = Some (map Some es) \<and> set es \<subseteq> set ws"
      "n' + length ws \<le> MAX_TREE_ENTRIES"
      "unat b' + sum_list (map (node_bytes te) ws) \<le> unat MAX_TREE_BYTES" by blast
  show ?case
  proof (intro exI [of _ "ps @ ws"] conjI)
    show "\<forall>w \<in> set (ps @ ws). node_ok te root w" using ps(2) ws(1) by auto
    show "\<forall>d' \<in> set (d # q) \<union> set (dirs_of te (ps @ ws)).
        \<exists>es. te_read_dir te d' = Some (map Some es) \<and> set es \<subseteq> set (ps @ ws)"
    proof
      fix d' assume "d' \<in> set (d # q) \<union> set (dirs_of te (ps @ ws))"
      then consider "d' = d" | "d' \<in> set q' \<union> set (dirs_of te ws)"
        by (auto simp: ps(4) dirs_of_def)
      then show "\<exists>es. te_read_dir te d' = Some (map Some es) \<and> set es \<subseteq> set (ps @ ws)"
        by cases (use es ps(1) ws(2) in \<open>fastforce+\<close>)
    qed
    show "n + length (ps @ ws) \<le> MAX_TREE_ENTRIES" using ws(3) n'(1) by simp
    show "unat b + sum_list (map (node_bytes te) (ps @ ws)) \<le> unat MAX_TREE_BYTES"
      using ws(4) ps(3) by simp
  qed
qed

text \<open>
  C19: A signed application that passes the tree check is private and bounded. Everything below
  its root, at any depth, is a directory or a regular file (never a link or a device), has a
  canonical path inside the root, and the whole tree has at most 20,000 entries and 2 GiB.
\<close>

theorem signed_tree_sound:
  assumes "validate_private_signed_tree te root = Inr ()" "te_canonical te root = Some croot"
  shows "(\<forall>p \<in> tree_below te root. node_ok te croot p)
    \<and> (\<exists>ws. tree_below te root \<subseteq> set ws \<and> length ws \<le> 20000
         \<and> sum_list (map (node_bytes te) ws) \<le> 2147483648)"
proof -
  from assms have "tree_loop te croot (0, 0, [root]) = Inr ()"
    by (simp add: validate_private_signed_tree_def)
  from tree_loop_InrD [OF this] obtain ws where ws: "\<forall>w \<in> set ws. node_ok te croot w"
    "\<forall>d \<in> {root} \<union> set (dirs_of te ws). \<exists>es. te_read_dir te d = Some (map Some es) \<and> set es \<subseteq> set ws"
    "length ws \<le> 20000" "sum_list (map (node_bytes te) ws) \<le> 2147483648"
    by (auto simp: MAX_TREE_ENTRIES_def MAX_TREE_BYTES_def)
  have sub: "p \<in> set ws" if "p \<in> tree_below te root" for p
    using that
  proof induction
    case (child es p)
    with ws(2) show ?case by auto
  next
    case (deeper p es q)
    then have "p \<in> set (dirs_of te ws)" by (simp add: dirs_of_def)
    with ws(2) obtain es' where "te_read_dir te p = Some (map Some es')" "set es' \<subseteq> set ws" by blast
    with deeper show ?case by auto
  qed
  with ws show ?thesis by blast
qed

definition demo_tree :: tree_env where
  "demo_tree = \<lparr>te_read_dir = (\<lambda>p. if p = [''r''] then Some [Some [''r'', ''f'']] else None),
     te_kind = (\<lambda>p. if p = [''r'', ''f''] then Some (KFile 5) else Some KDir),
     te_canonical = (\<lambda>p. Some [''r''])\<rparr>"

theorem signed_tree_sound_witness:
  "validate_private_signed_tree demo_tree [''r''] = Inr ()
   \<and> [''r'', ''f''] \<in> tree_below demo_tree [''r'']
   \<and> node_ok demo_tree [''r''] [''r'', ''f'']"
proof -
  let ?te = "demo_tree"
  have v: "validate_private_signed_tree ?te [''r''] = Inr ()"
    by (simp add: validate_private_signed_tree_def tree_loop.simps check_tree_entry_def demo_tree_def
        path_starts_with_def checked_add_u64_def MAX_TREE_ENTRIES_def MAX_TREE_BYTES_def)
  have b: "[''r'', ''f''] \<in> tree_below ?te [''r'']"
    by (rule tree_below.child [where es = "[Some [''r'', ''f'']]"]) (simp_all add: demo_tree_def)
  have c: "te_canonical demo_tree [''r''] = Some [''r'']" by (simp add: demo_tree_def)
  from signed_tree_sound [OF v c] b v show ?thesis by simp
qed

lemma inspect_owned_InlD: "inspect_owned h d owned expected = Inl e \<Longrightarrow> e = SgSignedMetadataFailed"
  by (auto simp: inspect_owned_def ok_or_def sum_bind_def Let_def dest: validate_tree_error
      split: option.splits node_kind.splits disk_node.splits sum.splits if_splits)

lemma inspect_owned_InrD:
  "inspect_owned h d owned expected = Inr b \<Longrightarrow>
     validate_private_signed_tree (disk_tree h d) owned = Inr () \<and> b \<noteq> [] \<and> length b \<le> 512"
  by (auto simp: inspect_owned_def sum_bind_eq_Inr Let_def
      split: option.splits node_kind.splits disk_node.splits if_splits)

lemma metadata_KDir [simp]: "symlink_metadata h d p = Some KDir \<Longrightarrow> dk_nodes d p = Some DirNode"
  by (auto simp: symlink_metadata_def elim!: kind_of_node.elims split: if_splits)

section \<open>The snapshot owns what it returns\<close>

lemma direct_not_quarantine [simp]: "direct_path fresh storage \<noteq> quarantine_path fresh parent"
  by (simp add: direct_path_def quarantine_path_def)

lemma quarantine_not_above [simp]: "\<not> prefix (quarantine_path fresh parent) parent"
  by (auto simp: quarantine_path_def dest: prefix_length_le)

lemma quarantine_frame:
  assumes "quarantine_signed_app h fresh source storage d = (r, d')"
    and "\<not> prefix source q" "\<not> prefix (quarantine_path fresh (butlast source)) q"
  shows "dk_nodes d' q = dk_nodes d q"
proof -
  from assms(3) have "q \<noteq> quarantine_path fresh (butlast source)"
    "\<not> prefix (quarantine_path fresh (butlast source) @ [''Signed.app'']) q"
    by (auto dest: append_prefixD)
  with assms show ?thesis
    by (auto simp: quarantine_signed_app_def path_parent_def Let_def split: option.splits if_splits)
qed

lemma quarantine_data:
  "quarantine_signed_app h fresh source storage d = (r, d') \<Longrightarrow> dk_data d' = dk_data d"
  by (auto simp: quarantine_signed_app_def Let_def split: option.splits if_splits)

lemma quarantine_InlD:
  "quarantine_signed_app h fresh source storage d = (Inl e, d') \<Longrightarrow> e = SgSignedMetadataFailed"
  by (auto simp: quarantine_signed_app_def Let_def split: option.splits if_splits)

lemma quarantine_source_kept:
  assumes "quarantine_signed_app h fresh source storage d = (Inl e, d')" "dk_nodes d source = Some DirNode"
  shows "dk_nodes d' source = Some DirNode"
proof (cases "prefix (quarantine_path fresh (butlast source)) source")
  case True
  then have "source = quarantine_path fresh (butlast source) \<or>
      prefix (quarantine_path fresh (butlast source)) (butlast source)"
    by (cases source rule: rev_cases) (auto simp: quarantine_path_def)
  then have "source = quarantine_path fresh (butlast source)" by simp
  with assms show ?thesis
    by (auto simp: quarantine_signed_app_def path_parent_def Let_def split: option.splits if_splits)
next
  case False
  then have "source \<noteq> quarantine_path fresh (butlast source)" by auto
  with False assms show ?thesis
    by (auto simp: quarantine_signed_app_def path_parent_def Let_def split: option.splits if_splits)
qed

lemma quarantine_InrD:
  assumes "quarantine_signed_app h fresh source storage d = (Inr (owned, root, expected), d')"
    "dk_nodes d source = Some DirNode"
  shows "root = quarantine_path fresh (butlast source) \<and> owned = root @ [''Signed.app'']
    \<and> dk_nodes d' root = Some DirNode \<and> dk_nodes d' owned = Some DirNode
    \<and> (prefix source q \<longrightarrow> dk_nodes d' q = None \<or> prefix root q)"
proof -
  let ?q = "quarantine_path fresh (butlast source)"
  from assms have q: "root = ?q" "owned = ?q @ [''Signed.app'']" "dk_nodes d ?q = None"
    "d' = move_tree source owned (put_node ?q (Some DirNode) d)" "source \<noteq> []"
    by (auto simp: quarantine_signed_app_def path_parent_def Let_def split: option.splits if_splits)
  have "source \<noteq> ?q" using q(3) assms(2) by auto
  moreover have "prefix source ?q \<Longrightarrow> source = ?q \<or> prefix source (butlast source)"
    by (auto simp: quarantine_path_def)
  moreover have "\<not> prefix source (butlast source)"
    using q(5) by (cases source rule: rev_cases) (auto dest!: prefix_length_le)
  ultimately have "\<not> prefix source ?q" by auto
  moreover have "\<not> prefix owned ?q" using q(2) by (auto dest: prefix_length_le)
  ultimately show ?thesis using q(1,2,4) assms(2) \<open>source \<noteq> ?q\<close>
    by (auto simp: move_tree_def dest: append_prefixD)
qed

lemma take_frame:
  assumes "take_signed_app h force fresh source storage cs d = (r, d')"
    and "\<not> prefix source q" "\<not> prefix (quarantine_path fresh (butlast source)) q"
      "\<not> prefix (direct_path fresh storage) q"
  shows "dk_nodes d' q = dk_nodes d q"
  using assms quarantine_frame [OF _ assms(2,3), of h storage d]
  by (auto simp: take_signed_app_def Let_def split: rename_result.splits prod.splits sum.splits if_splits)

lemma take_data:
  "take_signed_app h force fresh source storage cs d = (r, d') \<Longrightarrow> dk_data d' = dk_data d"
  by (auto simp: take_signed_app_def Let_def dest: quarantine_data
      split: rename_result.splits prod.splits sum.splits if_splits)

lemma take_InlD:
  assumes "take_signed_app h force fresh source storage cs d = (Inl e, d')"
    "dk_nodes d source = Some DirNode" "removes_all h"
  shows "e = SgSignedMetadataFailed \<and> (prefix source q \<longrightarrow> dk_nodes d' q = None)"
  using assms
  by (auto simp: take_signed_app_def Let_def remove_directory quarantine_source_kept dest: quarantine_InlD
      split: rename_result.splits prod.splits sum.splits if_splits)

lemma take_InrD:
  assumes "take_signed_app h force fresh source storage cs d = (Inr (owned, root, expected), d')"
    "dk_nodes d source = Some DirNode"
  shows "prefix root owned \<and> dk_nodes d' root = Some DirNode \<and> dk_nodes d' owned = Some DirNode
    \<and> (root = direct_path fresh storage \<or> root = quarantine_path fresh (butlast source))
    \<and> (prefix source q \<longrightarrow> dk_nodes d' q = None \<or> prefix root q)"
proof (cases "quarantine_signed_app h fresh source storage d")
  case (Pair r d1)
  with assms quarantine_InrD [of h fresh source storage d owned root expected d' q] show ?thesis
    by (auto simp: take_signed_app_def Let_def move_tree_def
        split: rename_result.splits prod.splits sum.splits if_splits)
qed

text \<open>The snapshot starts once the signed application and the storage are directories it may use.\<close>

definition snapshot_starts :: "signing_host \<Rightarrow> components \<Rightarrow> components \<Rightarrow> disk \<Rightarrow> bool" where
  "snapshot_starts h source storage d =
     (symlink_metadata h d source = Some KDir
      \<and> (case create_dir_all h storage d of
           (created, d1) \<Rightarrow> created \<and> symlink_metadata h d1 storage = Some KDir
             \<and> restrict_signed_artifact_path h storage True \<and> sh_canonical h d1 storage \<noteq> None))"

lemma snapshot_cases:
  assumes "snapshot_signed_app h fresh source storage d = (r, d')"
  obtains (refused) e where "r = Inl e" "e = SgSignedMetadataFailed" "\<not> snapshot_starts h source storage d"
      "d' = d \<or> (\<exists>ok. create_dir_all h storage d = (ok, d'))"
    | (not_taken) e d1 cs where "r = Inl e" "create_dir_all h storage d = (True, d1)"
      "symlink_metadata h d source = Some KDir"
      "take_signed_app h False fresh source storage cs d1 = (Inl e, d')"
    | (rejected) e d1 cs owned root expected d2 where "r = Inl e" "e = SgSignedMetadataFailed"
      "create_dir_all h storage d = (True, d1)" "symlink_metadata h d source = Some KDir"
      "take_signed_app h False fresh source storage cs d1 = (Inr (owned, root, expected), d2)"
      "d' = remove_signed_artifact_path h root d2"
    | (owned) a d1 cs expected where "r = Inr a"
      "create_dir_all h storage d = (True, d1)" "symlink_metadata h d source = Some KDir"
      "take_signed_app h False fresh source storage cs d1 =
         (Inr (sga_app_bundle_path a, sga_cleanup_root a, expected), d')"
      "inspect_owned h d' (sga_app_bundle_path a) expected = Inr (sga_bundle_id a)"
      "sga_extraction_root a = None"
  using assms
  by (auto simp: snapshot_signed_app_def snapshot_signed_app_inner_def snapshot_starts_def
      dest!: inspect_owned_InlD split: prod.splits option.splits sum.splits if_splits)

lemma create_keeps_directory:
  "create_dir_all h p d = (ok, d') \<Longrightarrow> dk_nodes d q = Some n \<Longrightarrow> dk_nodes d' q = Some n"
  using create_dir_all_frame(2) [of h p d ok d' q] by auto

text \<open>
  A snapshot owns what it returns and leaves nothing behind when it fails. A successful
  snapshot returns a directory whose tree passed the check, under a bundle identifier of 1 to 512
  bytes, inside the directory its artifact will remove, and the signed application is no longer
  where the signer left it. Once the signed application and the storage have been accepted as
  directories, a failing snapshot leaves nothing at or below the signed application.
\<close>

theorem snapshot_owns_or_removes:
  assumes "removes_all h"
  shows "(case snapshot_signed_app h fresh source storage d of
      (Inr a, d') \<Rightarrow>
        validate_private_signed_tree (disk_tree h d') (sga_app_bundle_path a) = Inr ()
        \<and> dk_nodes d' (sga_app_bundle_path a) = Some DirNode
        \<and> prefix (sga_cleanup_root a) (sga_app_bundle_path a)
        \<and> (\<forall>q. prefix source q \<longrightarrow> dk_nodes d' q = None \<or> prefix (sga_cleanup_root a) q)
        \<and> 1 \<le> length (sga_bundle_id a) \<and> length (sga_bundle_id a) \<le> 512
    | (Inl e, d') \<Rightarrow> e = SgSignedMetadataFailed
        \<and> (snapshot_starts h source storage d \<longrightarrow> (\<forall>q. prefix source q \<longrightarrow> dk_nodes d' q = None)))"
proof (cases "snapshot_signed_app h fresh source storage d")
  case (Pair r d')
  then show ?thesis
  proof (cases rule: snapshot_cases)
    case (refused e)
    with Pair show ?thesis by simp
  next
    case (not_taken e d1 cs)
    with Pair take_InlD [OF not_taken(4) create_keeps_directory [OF not_taken(2)] assms]
    show ?thesis by auto
  next
    case (rejected e d1 cs owned root expected d2)
    have src: "dk_nodes d1 source = Some DirNode"
      using create_keeps_directory [OF rejected(3)] rejected(4) by auto
    have "dk_nodes d' q = None" if "prefix source q" for q
      using take_InrD [OF rejected(5) src, of q] that rejected(6) remove_directory [OF assms]
      by (cases "prefix root q") auto
    with rejected Pair show ?thesis by simp
  next
    case (owned a d1 cs expected)
    have src: "dk_nodes d1 source = Some DirNode"
      using create_keeps_directory [OF owned(2)] owned(3) by auto
    from owned Pair inspect_owned_InrD [OF owned(5)] take_InrD [OF owned(4) src] show ?thesis
      by (auto simp: Suc_le_eq)
  qed
qed

text \<open>A host on which every operation succeeds, and a disk with a freshly signed application.\<close>

definition demo_host :: signing_host where
  "demo_host = \<lparr>sh_stat = (\<lambda>_. True), sh_list = (\<lambda>_ _. Some []), sh_canonical = (\<lambda>_ p. Some p),
     sh_create_dir = (\<lambda>_. True), sh_link_dir = (\<lambda>_. False), sh_hard_link = (\<lambda>_ _. True),
     sh_link_file = (\<lambda>_. False), sh_chmod = (\<lambda>_ _. True), sh_mode = (\<lambda>_ m. Some m),
     sh_rename = (\<lambda>_ _. Renamed), sh_owner = (\<lambda>_. 0),
     sh_plist = (\<lambda>b. Some (PDict [(''CFBundleIdentifier'', PString b)])),
     sh_keeps = (\<lambda>_. False), sh_temp_dir = [''tmp'']\<rparr>"

definition demo_signed_disk :: disk where
  "demo_signed_disk = \<lparr>dk_nodes = [[''tmp''] \<mapsto> DirNode, [''tmp'', ''x''] \<mapsto> DirNode,
     [''tmp'', ''x'', ''A.app''] \<mapsto> DirNode, [''s''] \<mapsto> DirNode], dk_data = (\<lambda>_. ''com.a'')\<rparr>"

theorem snapshot_owns_or_removes_witness:
  "snapshot_starts demo_host [''tmp'', ''x'', ''A.app''] [''s''] demo_signed_disk
   \<and> dk_nodes (snd (snapshot_signed_app demo_host (\<lambda>_. ''u'') [''tmp'', ''x'', ''A.app''] [''s'']
       demo_signed_disk)) [''tmp'', ''x'', ''A.app''] = None"
proof -
  have h: "removes_all demo_host" by (simp add: removes_all_def demo_host_def)
  have st: "snapshot_starts demo_host [''tmp'', ''x'', ''A.app''] [''s''] demo_signed_disk"
    by (simp add: snapshot_starts_def create_dir_all_def demo_host_def demo_signed_disk_def
        symlink_metadata_def restrict_signed_artifact_path_def)
  obtain e d' where run: "snapshot_signed_app demo_host (\<lambda>_. ''u'') [''tmp'', ''x'', ''A.app''] [''s'']
      demo_signed_disk = (Inl e, d')"
    by (simp add: snapshot_signed_app_def snapshot_signed_app_inner_def take_signed_app_def
        inspect_owned_def create_dir_all_def demo_host_def demo_signed_disk_def symlink_metadata_def
        restrict_signed_artifact_path_def direct_path_def move_tree_def validate_private_signed_tree_def
        disk_tree_def tree_loop.simps canonical_parent_is_def Let_def)
  from snapshot_owns_or_removes [OF h, where fresh = "\<lambda>_. ''u''" and source = "[''tmp'', ''x'', ''A.app'']"
      and storage = "[''s'']" and d = demo_signed_disk]
    st run show ?thesis by simp
qed

lemma sign_app_register [simp]: "sign_app h (dv\<lparr>dv_register := f\<rparr>) = sign_app h dv"
  by (intro ext) (simp add: sign_app_def Let_def split: sum.split)

text \<open>
  C20: A device is never registered against the requested policy. If signing under
  \<^const>\<open>RequireExisting\<close> yields an artifact, the device was listed for its platform before; a
  missing registration then ends the run before the signer is called, with the disk as it was;
  and a listed device is never registered again, whichever policy is requested.
\<close>

theorem registration_policy_respected:
  "(case preflight_and_sign_for_device h (Some dv) fresh storage ipa identity policy d of
      (Inr (preflight, Some artifact), d') \<Rightarrow>
        (case dv_devices dv (developer_device_type identity) of
           None \<Rightarrow> False
         | Some devices \<Rightarrow> di_udid identity \<in> set devices
             \<or> policy = Ensure
                \<and> dv_register dv (di_name identity) (di_udid identity) (developer_device_type identity))
    | (Inr (preflight, None), d') \<Rightarrow>
        policy = RequireExisting \<and> ap_device_registration preflight = NewRequired \<and> d' = d
    | (Inl _, d') \<Rightarrow> True)
   \<and> (case dv_devices dv (developer_device_type identity) of
        None \<Rightarrow> True
      | Some devices \<Rightarrow> if di_udid identity \<in> set devices
          then preflight_and_sign_for_device h (Some dv) fresh storage ipa identity policy d =
            preflight_and_sign_for_device h (Some (dv\<lparr>dv_register := \<lambda>_ _ _. False\<rparr>))
              fresh storage ipa identity policy d
          else True)"
proof
  show "case preflight_and_sign_for_device h (Some dv) fresh storage ipa identity policy d of
      (Inr (preflight, Some artifact), d') \<Rightarrow>
        (case dv_devices dv (developer_device_type identity) of
           None \<Rightarrow> False
         | Some devices \<Rightarrow> di_udid identity \<in> set devices
             \<or> policy = Ensure
                \<and> dv_register dv (di_name identity) (di_udid identity) (developer_device_type identity))
    | (Inr (preflight, None), d') \<Rightarrow>
        policy = RequireExisting \<and> ap_device_registration preflight = NewRequired \<and> d' = d
    | (Inl _, d') \<Rightarrow> True"
    by (cases policy)
      (auto simp: preflight_and_sign_for_device_def account_preflight_def ok_or_def Let_def
        sign_for_device_with_sideloader_def registered_for_def
        split: option.splits sum.splits prod.splits if_splits)
  show "case dv_devices dv (developer_device_type identity) of
        None \<Rightarrow> True
      | Some devices \<Rightarrow> if di_udid identity \<in> set devices
          then preflight_and_sign_for_device h (Some dv) fresh storage ipa identity policy d =
            preflight_and_sign_for_device h (Some (dv\<lparr>dv_register := \<lambda>_ _ _. False\<rparr>))
              fresh storage ipa identity policy d
          else True"
    by (auto simp: preflight_and_sign_for_device_def account_preflight_def ok_or_def Let_def
        sign_for_device_with_sideloader_def registered_for_def split: option.splits)
qed

text \<open>The progress values stay a percentage, and transfer starts where signing ends.\<close>

lemma signing_percent_le: "signing_percent num den \<le> 40"
proof (cases "den = 0")
  case False
  have "nat (max 0 (min num (int den))) \<le> den" by linarith
  then have "nat (max 0 (min num (int den))) * 40 div den \<le> den * 40 div den"
    by (intro div_le_mono mult_le_mono1)
  with False show ?thesis by (simp add: signing_percent_def)
qed (simp add: signing_percent_def)

end
