(* ===== verification/Devices.thy ===== *)
theory Devices
  imports SigningRun
begin

text \<open>
  The device list (\<^verbatim>\<open>src/main.rs\<close>): the netmuxd and Bonjour transport, the merge with the
  remotely paired devices, and the lists of installed apps. What netmuxd, Bonjour, lockdown and
  the installation proxy answer is an argument; a timeout is an error answer.
\<close>

section \<open>Errors of the transport\<close>

datatype transport_error =
    TransportUnavailable
  | DeviceInstallFailed
  | DeviceInfoFailed
  | DeveloperTeamFailed
  | DeviceRegistrationFailed
  | IpaSigningFailed
  | SignedMetadataFailed

text \<open>The \<^verbatim>\<open>map_err\<close> of \<^verbatim>\<open>NetmuxTransport::install_ipa\<close>.\<close>

fun install_error :: "signing_error \<Rightarrow> transport_error" where
  "install_error SgDeviceInfoFailed = DeviceInfoFailed"
| "install_error SgDeveloperTeamFailed = DeveloperTeamFailed"
| "install_error SgDeviceRegistrationFailed = DeviceRegistrationFailed"
| "install_error SgIpaSigningFailed = IpaSigningFailed"
| "install_error (SgClassifiedIpaSigning _) = IpaSigningFailed"
| "install_error SgSignedMetadataFailed = SignedMetadataFailed"
| "install_error SgDeviceInstallFailed = DeviceInstallFailed"
| "install_error NotReady = DeviceInstallFailed"
| "install_error _ = DeviceInstallFailed"

section \<open>Device summaries\<close>

datatype device_class = Iphone | AppleTvClass

text \<open>
  The connection type and the status of a summary have one value each, and \<open>ds_install_eligible\<close>
  is always true; the row keeps what varies.
\<close>

record device_summary =
  ds_id :: uuid
  ds_display_name :: string
  ds_product_type :: string
  ds_ios_version :: string
  ds_install_eligible :: bool
  ds_device_class :: device_class

type_synonym ip_addr = string

text \<open>
  \<^verbatim>\<open>device_id_for_udid\<close>: the first 16 bytes of the SHA-256 digest; \<open>sha16\<close> is that part of the
  digest, read as a UUID.
\<close>

definition device_id_for_udid :: "(string \<Rightarrow> uuid) \<Rightarrow> string \<Rightarrow> uuid" where
  "device_id_for_udid sha16 udid = sha16 udid"

definition unwrap_or :: "'a \<Rightarrow> 'a option \<Rightarrow> 'a" where
  "unwrap_or d x = (case x of None \<Rightarrow> d | Some v \<Rightarrow> v)"

lemma unwrap_or_simps [simp]: "unwrap_or d None = d" "unwrap_or d (Some v) = v"
  by (simp_all add: unwrap_or_def)

definition rsd_device_summary ::
  "(string \<Rightarrow> uuid) \<Rightarrow> signing_device_identity \<Rightarrow> device_summary" where
  "rsd_device_summary sha16 i =
     \<lparr>ds_id = device_id_for_udid sha16 (di_udid i), ds_display_name = di_name i,
      ds_product_type = unwrap_or ''unknown'' (di_product_type i),
      ds_ios_version = unwrap_or ''unknown'' (di_ios_version i),
      ds_install_eligible = True,
      ds_device_class = (if di_apple_tv i then AppleTvClass else Iphone)\<rparr>"

text \<open>
  \<^verbatim>\<open>describe_device\<close>: what the lockdown session at an address answers to the three value
  requests; \<^term>\<open>None\<close> is a failing connection, session or request, an inner \<^term>\<open>None\<close> a value
  that is no string.
\<close>

type_synonym lockdown =
  "string \<Rightarrow> ip_addr \<Rightarrow> (string option \<times> string option \<times> string option) option"

definition describe_device ::
  "(string \<Rightarrow> uuid) \<Rightarrow> lockdown \<Rightarrow> string \<Rightarrow> ip_addr \<Rightarrow> transport_error + device_summary" where
  "describe_device sha16 lockdown udid address =
     (case lockdown udid address of
        None \<Rightarrow> Inl TransportUnavailable
      | Some (device_name, product_type, ios_version) \<Rightarrow>
          Inr \<lparr>ds_id = device_id_for_udid sha16 udid,
               ds_display_name = unwrap_or ''iPhone'' device_name,
               ds_product_type = unwrap_or ''unknown'' product_type,
               ds_ios_version = unwrap_or ''unknown'' ios_version,
               ds_install_eligible = True, ds_device_class = Iphone\<rparr>)"

section \<open>Reachable devices\<close>

text \<open>
  The loop of \<^verbatim>\<open>reachable_candidates\<close>. The accumulators are the attempted pairs and the
  identified UDIDs; \<open>describe\<close> is \<^const>\<open>describe_device\<close> with its connections.
\<close>

fun reachable_loop ::
  "(string \<Rightarrow> ip_addr \<Rightarrow> transport_error + device_summary) \<Rightarrow> (string \<times> ip_addr) list
     \<Rightarrow> (string \<times> ip_addr) set \<Rightarrow> string set \<Rightarrow> (string \<times> ip_addr \<times> device_summary) list" where
  "reachable_loop describe [] attempted identified = []"
| "reachable_loop describe ((udid, address) # cs) attempted identified =
     (if udid \<in> identified \<or> (udid, address) \<in> attempted
      then reachable_loop describe cs attempted identified
      else (case describe udid address of
              Inr summary \<Rightarrow> (udid, address, summary) #
                reachable_loop describe cs (insert (udid, address) attempted) (insert udid identified)
            | Inl _ \<Rightarrow> reachable_loop describe cs (insert (udid, address) attempted) identified))"

definition reachable_candidates ::
  "(string \<Rightarrow> ip_addr \<Rightarrow> transport_error + device_summary) \<Rightarrow> (string \<times> ip_addr) list
     \<Rightarrow> (string \<times> ip_addr \<times> device_summary) list" where
  "reachable_candidates describe candidates = reachable_loop describe candidates {} {}"

text \<open>netmuxd's answer: the connection of each device; only network devices count.\<close>

datatype mux_connection = NetworkConnection ip_addr | UsbConnection | UnknownConnection

definition netmux_network_devices ::
  "(string \<times> mux_connection) list option \<Rightarrow> transport_error + (string \<times> ip_addr) list" where
  "netmux_network_devices answer =
     (case answer of
        None \<Rightarrow> Inl TransportUnavailable
      | Some devices \<Rightarrow> Inr (List.map_filter (\<lambda>(udid, c).
          (case c of NetworkConnection a \<Rightarrow> Some (udid, a) | _ \<Rightarrow> None)) devices))"

text \<open>The names of the pairing directory, \<^term>\<open>None\<close> when it cannot be read.\<close>

definition pairing_record_udids :: "string list option \<Rightarrow> transport_error + string list" where
  "pairing_record_udids entries =
     (case entries of
        None \<Rightarrow> Inl TransportUnavailable
      | Some names \<Rightarrow> Inr (filter (\<lambda>u. u \<noteq> ''SystemConfiguration'')
          (List.map_filter (strip_suffix ''.plist'') names)))"

text \<open>The IPv4 addresses Bonjour resolved before its deadline; none is an error.\<close>

definition discover_mobdev2_ipv4_addresses ::
  "ip_addr list option \<Rightarrow> transport_error + ip_addr list" where
  "discover_mobdev2_ipv4_addresses resolved =
     (case resolved of None \<Rightarrow> Inl TransportUnavailable
      | Some [] \<Rightarrow> Inl TransportUnavailable | Some as \<Rightarrow> Inr (remdups as))"

definition bonjour_candidates ::
  "ip_addr list option \<Rightarrow> string list option \<Rightarrow> transport_error + (string \<times> ip_addr) list" where
  "bonjour_candidates resolved entries =
     sum_bind (discover_mobdev2_ipv4_addresses resolved) (\<lambda>addresses.
     sum_bind (pairing_record_udids entries) (\<lambda>udids.
       Inr [(u, a). u \<leftarrow> udids, a \<leftarrow> addresses]))"

record network_env =
  ne_mux :: "(string \<times> mux_connection) list option"
  ne_bonjour :: "ip_addr list option"
  ne_pairing_dir :: "string list option"
  ne_describe :: "string \<Rightarrow> ip_addr \<Rightarrow> transport_error + device_summary"

definition reachable_network_devices ::
  "network_env \<Rightarrow> transport_error + (string \<times> ip_addr \<times> device_summary) list" where
  "reachable_network_devices e =
     (let reachable = reachable_candidates (ne_describe e)
            (case netmux_network_devices (ne_mux e) of Inl _ \<Rightarrow> [] | Inr cs \<Rightarrow> cs) in
      if reachable \<noteq> [] then Inr reachable
      else sum_bind (bonjour_candidates (ne_bonjour e) (ne_pairing_dir e)) (\<lambda>cs.
        let reachable' = reachable_candidates (ne_describe e) cs in
        if reachable' = [] then Inl TransportUnavailable else Inr reachable'))"

definition list_network_devices :: "network_env \<Rightarrow> transport_error + device_summary list" where
  "list_network_devices e =
     sum_bind (reachable_network_devices e) (\<lambda>ds. Inr (map (\<lambda>(_, _, summary). summary) ds))"

section \<open>The devices an installation may go to\<close>

definition merge_install_devices ::
  "transport_error + device_summary list \<Rightarrow> device_summary list
     \<Rightarrow> transport_error + device_summary list" where
  "merge_install_devices network rsd =
     (if rsd = [] then network
      else Inr (filter (\<lambda>d. \<not> list_ex (\<lambda>r. ds_id r = ds_id d) rsd)
                  (case network of Inl _ \<Rightarrow> [] | Inr ds \<Rightarrow> ds) @ rsd))"

text \<open>
  \<open>rsd_identities\<close> are the identities verified over the preserved pairings of the iPhone service
  and, when it has one stored, of the Apple TV service; \<open>apple_tv\<close> is \<^term>\<open>None\<close> when the feature
  is off.
\<close>

definition rsd_targets ::
  "bool \<Rightarrow> (string \<Rightarrow> uuid) \<Rightarrow> signing_device_identity option
     \<Rightarrow> (bool \<times> signing_device_identity option) option \<Rightarrow> device_summary list" where
  "rsd_targets rsd_install sha16 iphone apple_tv =
     (if \<not> rsd_install then []
      else (case iphone of None \<Rightarrow> [] | Some i \<Rightarrow> [rsd_device_summary sha16 i]) @
           (case apple_tv of
              Some (True, Some i) \<Rightarrow> [rsd_device_summary sha16 i]
            | _ \<Rightarrow> []))"

definition rsd_install_enabled :: "string option \<Rightarrow> bool" where
  "rsd_install_enabled v \<longleftrightarrow> map_option trim v = Some ''on''"

definition platform_mismatch ::
  "ipa_lib \<Rightarrow> io_faults \<Rightarrow> fs \<Rightarrow> path \<Rightarrow> device_class \<Rightarrow> string option" where
  "platform_mismatch lib fault fs ipa_path cls =
     (case app_platform lib fault fs ipa_path of
        Inl _ \<Rightarrow> None
      | Inr platform \<Rightarrow>
          (let apple_tv = (cls = AppleTvClass) in
           if installable_on_apple_tv platform apple_tv then None
           else Some (if apple_tv
             then ''This IPA is built for iPhone and iPad and cannot be installed on Apple TV.''
             else ''This IPA is built for Apple TV and cannot be installed on iPhone.'')))"

section \<open>Installed apps\<close>

record installed_app_summary =
  ia_display_name :: string
  ia_bundle_id :: string
  ia_version :: string

text \<open>The em dash the program shows for an unknown version, in UTF-8.\<close>

definition em_dash :: string where
  "em_dash = [CHR 0xE2, CHR 0x80, CHR 0x94]"

text \<open>
  \<^verbatim>\<open>list_installed_apps\<close>: the first of two keys that is present is taken, and is dropped when it
  is no string; \<^verbatim>\<open>rsd_installed_apps\<close>: the first of two keys that holds a string.
\<close>

definition installed_app :: "plist \<Rightarrow> installed_app_summary option" where
  "installed_app v =
     Option.bind (as_dictionary v) (\<lambda>info.
     Option.bind (get_string info ''CFBundleIdentifier'') (\<lambda>bundle_id.
       Some \<lparr>ia_display_name = unwrap_or bundle_id
               (Option.bind (opt_or_else (map_of info ''CFBundleDisplayName'')
                  (map_of info ''CFBundleName'')) plist_string),
             ia_bundle_id = bundle_id,
             ia_version = unwrap_or em_dash
               (Option.bind (opt_or_else (map_of info ''CFBundleShortVersionString'')
                  (map_of info ''CFBundleVersion'')) plist_string)\<rparr>))"

definition rsd_field :: "plist \<Rightarrow> string \<Rightarrow> string \<Rightarrow> string option" where
  "rsd_field v k1 k2 = Option.bind (as_dictionary v) (\<lambda>info.
     opt_or_else (get_string info k1) (get_string info k2))"

definition rsd_installed_apps :: "(string \<times> plist) list \<Rightarrow> installed_app_summary list" where
  "rsd_installed_apps apps =
     map (\<lambda>(bundle_id, v).
       \<lparr>ia_display_name = unwrap_or bundle_id (rsd_field v ''CFBundleDisplayName'' ''CFBundleName''),
        ia_bundle_id = bundle_id,
        ia_version = unwrap_or em_dash
          (rsd_field v ''CFBundleShortVersionString'' ''CFBundleVersion'')\<rparr>) apps"

end
