(* ===== verification/RsdInstall.thy ===== *)
theory RsdInstall
  imports SigningRun
begin

text \<open>
  Installation over a remote pairing (\<^verbatim>\<open>src/wireless_pairing.rs\<close>: the stages and reports of an
  installation, \<^verbatim>\<open>install_remote_pairing_app\<close>, \<^verbatim>\<open>execute_rsd_first_install\<close> and their helpers).
  Opening a session, the identity check, signing, the upload plan, staging and the installation
  proxy answer through an environment record; a passed deadline is an answer of its own. The
  upload plan and staging themselves are modelled in the theories \<open>UploadPlan\<close> and \<open>Staging\<close>.
\<close>

section \<open>Stages and outcomes\<close>

datatype rsd_probe_stage = PrDiscovery | PrValidatePairing | PrTunnel | PrRsdHandshake | PrCoreDeviceService

fun rsd_probe_stage_str :: "rsd_probe_stage \<Rightarrow> string" where
  "rsd_probe_stage_str PrDiscovery = ''discovery''"
| "rsd_probe_stage_str PrValidatePairing = ''validatePairing''"
| "rsd_probe_stage_str PrTunnel = ''tunnel''"
| "rsd_probe_stage_str PrRsdHandshake = ''rsdHandshake''"
| "rsd_probe_stage_str PrCoreDeviceService = ''coreDeviceService''"

datatype session_cleanup = ScNotNeeded | ScSucceeded | ScFailed

fun session_cleanup_str :: "session_cleanup \<Rightarrow> string" where
  "session_cleanup_str ScNotNeeded = ''notNeeded''"
| "session_cleanup_str ScSucceeded = ''succeeded''"
| "session_cleanup_str ScFailed = ''failed''"

datatype read_only_stage =
    RoDiscovery
  | RoValidatePairing
  | RoTunnel
  | RoRsdHandshake
  | RoServiceLookup
  | RoServiceConnect
  | RoClientInit
  | RoAfcQuery
  | RoAppLookup
  | RoCleanup

fun read_only_stage_str :: "read_only_stage \<Rightarrow> string" where
  "read_only_stage_str RoDiscovery = ''discovery''"
| "read_only_stage_str RoValidatePairing = ''validatePairing''"
| "read_only_stage_str RoTunnel = ''tunnel''"
| "read_only_stage_str RoRsdHandshake = ''rsdHandshake''"
| "read_only_stage_str RoServiceLookup = ''serviceLookup''"
| "read_only_stage_str RoServiceConnect = ''serviceConnect''"
| "read_only_stage_str RoClientInit = ''clientInit''"
| "read_only_stage_str RoAfcQuery = ''afcQuery''"
| "read_only_stage_str RoAppLookup = ''appLookup''"
| "read_only_stage_str RoCleanup = ''cleanup''"

fun read_only_operation :: "read_only_stage \<Rightarrow> string" where
  "read_only_operation RoServiceLookup = ''service_lookup''"
| "read_only_operation RoServiceConnect = ''service_connect''"
| "read_only_operation RoClientInit = ''client_init''"
| "read_only_operation RoAfcQuery = ''afc_query''"
| "read_only_operation RoAppLookup = ''app_lookup''"
| "read_only_operation RoCleanup = ''cleanup''"
| "read_only_operation _ = ''setup''"

fun read_only_of_probe :: "rsd_probe_stage \<Rightarrow> read_only_stage" where
  "read_only_of_probe PrDiscovery = RoDiscovery"
| "read_only_of_probe PrValidatePairing = RoValidatePairing"
| "read_only_of_probe PrTunnel = RoTunnel"
| "read_only_of_probe PrRsdHandshake = RoRsdHandshake"
| "read_only_of_probe PrCoreDeviceService = RoServiceConnect"

datatype rsd_identity_failure =
    HandshakeIdentity
  | IdServiceLookup
  | IdServiceConnect
  | IdClientInit
  | LockdownIdentity
  | DeviceName
  | IdentityMismatch

fun identity_failure_kind :: "rsd_identity_failure \<Rightarrow> string" where
  "identity_failure_kind HandshakeIdentity = ''handshake_identity''"
| "identity_failure_kind IdServiceLookup = ''lockdown_service_lookup''"
| "identity_failure_kind IdServiceConnect = ''lockdown_service_connect''"
| "identity_failure_kind IdClientInit = ''lockdown_client_init''"
| "identity_failure_kind LockdownIdentity = ''lockdown_identity''"
| "identity_failure_kind DeviceName = ''device_name''"
| "identity_failure_kind IdentityMismatch = ''identity_mismatch''"

datatype install_outcome = NotStarted | Installed | NotInstalled | OutcomeUnknown

fun install_outcome_str :: "install_outcome \<Rightarrow> string" where
  "install_outcome_str NotStarted = ''notStarted''"
| "install_outcome_str Installed = ''installed''"
| "install_outcome_str NotInstalled = ''notInstalled''"
| "install_outcome_str OutcomeUnknown = ''outcomeUnknown''"

datatype install_stage =
    InDiscovery
  | InValidatePairing
  | InTunnel
  | InRsdHandshake
  | InIdentity
  | InAccountPreflight
  | InSigning
  | InAlreadyInstalled
  | InStaging
  | InInstall
  | InVerification
  | InCleanup
  | InSessionCleanup
  | InComplete

fun install_stage_str :: "install_stage \<Rightarrow> string" where
  "install_stage_str InDiscovery = ''discovery''"
| "install_stage_str InValidatePairing = ''validatePairing''"
| "install_stage_str InTunnel = ''tunnel''"
| "install_stage_str InRsdHandshake = ''rsdHandshake''"
| "install_stage_str InIdentity = ''identity''"
| "install_stage_str InAccountPreflight = ''accountPreflight''"
| "install_stage_str InSigning = ''signing''"
| "install_stage_str InAlreadyInstalled = ''alreadyInstalled''"
| "install_stage_str InStaging = ''staging''"
| "install_stage_str InInstall = ''install''"
| "install_stage_str InVerification = ''verification''"
| "install_stage_str InCleanup = ''cleanup''"
| "install_stage_str InSessionCleanup = ''sessionCleanup''"
| "install_stage_str InComplete = ''complete''"

fun install_of_probe :: "rsd_probe_stage \<Rightarrow> install_stage" where
  "install_of_probe PrDiscovery = InDiscovery"
| "install_of_probe PrValidatePairing = InValidatePairing"
| "install_of_probe PrTunnel = InTunnel"
| "install_of_probe PrRsdHandshake = InRsdHandshake"
| "install_of_probe PrCoreDeviceService = InRsdHandshake"

fun install_of_read_only :: "read_only_stage \<Rightarrow> install_stage" where
  "install_of_read_only RoDiscovery = InDiscovery"
| "install_of_read_only RoValidatePairing = InValidatePairing"
| "install_of_read_only RoTunnel = InTunnel"
| "install_of_read_only RoAfcQuery = InStaging"
| "install_of_read_only RoAppLookup = InAlreadyInstalled"
| "install_of_read_only RoCleanup = InSessionCleanup"
| "install_of_read_only _ = InRsdHandshake"

datatype staging_cleanup = StNotNeeded | StSucceeded | StFailed

fun staging_cleanup_str :: "staging_cleanup \<Rightarrow> string" where
  "staging_cleanup_str StNotNeeded = ''notNeeded''"
| "staging_cleanup_str StSucceeded = ''succeeded''"
| "staging_cleanup_str StFailed = ''failed''"

record install_report =
  rp_outcome :: install_outcome
  rp_stage :: install_stage
  rp_cleanup :: staging_cleanup
  rp_session_cleanup :: session_cleanup
  rp_install_command_count :: nat
  rp_error_kind :: string
  rp_bundle_id :: "string option"
  rp_certificate_pressure :: bool
  rp_signing_diagnostic :: "signing_failure_diagnostic option"

datatype existing_app_policy = Refuse | Upgrade

section \<open>Deadlines, in milliseconds since some origin\<close>

definition RSD_INSTALL_TIMEOUT :: nat where "RSD_INSTALL_TIMEOUT = 15 * 60 * 1000"
definition RSD_NORMAL_INSTALL_TIMEOUT :: nat where "RSD_NORMAL_INSTALL_TIMEOUT = 60 * 60 * 1000"
definition RSD_INSTALL_CLEANUP_TIMEOUT :: nat where "RSD_INSTALL_CLEANUP_TIMEOUT = 10 * 1000"
definition RSD_INSTALL_SESSION_CLEANUP_TIMEOUT :: nat where
  "RSD_INSTALL_SESSION_CLEANUP_TIMEOUT = 10 * 1000"
definition RSD_INSTALL_VERIFICATION_TIMEOUT :: nat where
  "RSD_INSTALL_VERIFICATION_TIMEOUT = 20 * 1000"

fun rsd_install_timeout :: "existing_app_policy \<Rightarrow> nat" where
  "rsd_install_timeout Refuse = RSD_INSTALL_TIMEOUT"
| "rsd_install_timeout Upgrade = RSD_NORMAL_INSTALL_TIMEOUT"

definition install_cleanup_reserve :: nat where
  "install_cleanup_reserve = RSD_INSTALL_CLEANUP_TIMEOUT + RSD_INSTALL_SESSION_CLEANUP_TIMEOUT"

definition checked_sub :: "nat \<Rightarrow> nat \<Rightarrow> nat option" where
  "checked_sub a b = (if b \<le> a then Some (a - b) else None)"

definition install_work_deadline :: "nat \<Rightarrow> nat \<Rightarrow> nat" where
  "install_work_deadline overall_deadline work_start =
     (case checked_sub overall_deadline install_cleanup_reserve of None \<Rightarrow> work_start | Some t \<Rightarrow> t)"

definition install_verification_deadline :: "nat \<Rightarrow> nat \<Rightarrow> nat" where
  "install_verification_deadline overall_deadline verification_start =
     min (install_work_deadline overall_deadline verification_start)
       (verification_start + RSD_INSTALL_VERIFICATION_TIMEOUT)"

section \<open>Helpers\<close>

definition validate_rsd_identity ::
  "plist option \<Rightarrow> plist option \<Rightarrow> plist option \<Rightarrow> rsd_identity_failure + signing_device_identity" where
  "validate_rsd_identity handshake lockdown device_name =
     (let field = (\<lambda>v. opt_filter (\<lambda>s. trim s \<noteq> [] \<and> length s \<le> 256) (Option.bind v plist_string)) in
      case field handshake of
        None \<Rightarrow> Inl HandshakeIdentity
      | Some handshake_identity \<Rightarrow>
          (case field lockdown of
             None \<Rightarrow> Inl LockdownIdentity
           | Some lockdown_identity \<Rightarrow>
               if handshake_identity \<noteq> lockdown_identity then Inl IdentityMismatch
               else (case field device_name of
                       None \<Rightarrow> Inl DeviceName
                     | Some name \<Rightarrow>
                         (case new_identity name lockdown_identity of
                            Inl _ \<Rightarrow> Inl DeviceName | Inr i \<Rightarrow> Inr i))))"

text \<open>The services of a handshake, by name, with their ports.\<close>

definition exact_rsd_service_port :: "(string \<rightharpoonup> u16) \<Rightarrow> string \<Rightarrow> u16 option" where
  "exact_rsd_service_port services service_name =
     (case services service_name of None \<Rightarrow> None | Some port \<Rightarrow> if port \<noteq> 0 then Some port else None)"

definition AFC_SERVICE_NAME :: string where
  "AFC_SERVICE_NAME = ''com.apple.afc.shim.remote''"

definition INSTALLATION_PROXY_SERVICE_NAME :: string where
  "INSTALLATION_PROXY_SERVICE_NAME = ''com.apple.mobile.installation_proxy.shim.remote''"

definition required_install_path_services_present :: "(string \<rightharpoonup> u16) \<Rightarrow> bool" where
  "required_install_path_services_present services \<longleftrightarrow>
     exact_rsd_service_port services AFC_SERVICE_NAME \<noteq> None
     \<and> exact_rsd_service_port services INSTALLATION_PROXY_SERVICE_NAME \<noteq> None"

datatype install_command_failure = Definitive | PossiblyAccepted

text \<open>How the installation proxy answered before the deadline.\<close>

datatype proxy_answer = ProxyOk | ProxyOperationFailed | ProxyOtherError | ProxyTimeout

fun send_one_install_command :: "proxy_answer \<Rightarrow> install_command_failure + unit" where
  "send_one_install_command ProxyOk = Inr ()"
| "send_one_install_command ProxyOperationFailed = Inl Definitive"
| "send_one_install_command ProxyOtherError = Inl PossiblyAccepted"
| "send_one_install_command ProxyTimeout = Inl PossiblyAccepted"

text \<open>A lookup of the bundle: \<^term>\<open>None\<close> when it fails, else whether the bundle is installed.\<close>

fun outcome_after_install_failure :: "install_command_failure \<Rightarrow> bool option \<Rightarrow> install_outcome" where
  "outcome_after_install_failure _ (Some True) = Installed"
| "outcome_after_install_failure Definitive _ = NotInstalled"
| "outcome_after_install_failure PossiblyAccepted _ = OutcomeUnknown"

definition outcome_after_install_result ::
  "install_command_failure + unit \<Rightarrow> bool option \<Rightarrow> install_outcome" where
  "outcome_after_install_result install_result lookup =
     (case install_result of
        Inr _ \<Rightarrow> (case lookup of Some True \<Rightarrow> Installed | Some False \<Rightarrow> NotInstalled | None \<Rightarrow> OutcomeUnknown)
      | Inl failure \<Rightarrow> outcome_after_install_failure failure lookup)"

definition install_error_kind :: "install_command_failure + unit \<Rightarrow> install_outcome \<Rightarrow> string" where
  "install_error_kind install_result outcome =
     (case outcome of
        Installed \<Rightarrow> ''''
      | NotInstalled \<Rightarrow> (case install_result of Inr _ \<Rightarrow> ''install_not_verified'' | Inl _ \<Rightarrow> ''install_rejected'')
      | OutcomeUnknown \<Rightarrow> ''install_result_ambiguous''
      | NotStarted \<Rightarrow> '''')"

definition record_session_cleanup :: "install_report \<Rightarrow> session_cleanup \<Rightarrow> install_report" where
  "record_session_cleanup report cleanup =
     (let r = report\<lparr>rp_session_cleanup := cleanup\<rparr> in
      if cleanup = ScFailed \<and> rp_error_kind r = ''''
      then r\<lparr>rp_stage := InSessionCleanup, rp_error_kind := ''session_cleanup''\<rparr> else r)"

definition merge_session_cleanup :: "session_cleanup \<Rightarrow> session_cleanup \<Rightarrow> session_cleanup" where
  "merge_session_cleanup first second =
     (if first = ScFailed \<or> second = ScFailed then ScFailed
      else if first = ScSucceeded \<or> second = ScSucceeded then ScSucceeded else ScNotNeeded)"

definition rsd_install_failure ::
  "install_stage \<Rightarrow> string \<Rightarrow> bool \<Rightarrow> string option \<Rightarrow> install_report" where
  "rsd_install_failure stage error_kind certificate_pressure bundle_id =
     \<lparr>rp_outcome = NotStarted, rp_stage = stage, rp_cleanup = StNotNeeded,
      rp_session_cleanup = ScNotNeeded, rp_install_command_count = 0, rp_error_kind = error_kind,
      rp_bundle_id = bundle_id, rp_certificate_pressure = certificate_pressure,
      rp_signing_diagnostic = None\<rparr>"

fun signing_error_kind :: "signing_error \<Rightarrow> string" where
  "signing_error_kind NotReady = ''signing_not_ready''"
| "signing_error_kind SgDeviceRegistrationRequired = ''device_registration_required''"
| "signing_error_kind SgDeveloperTeamFailed = ''account_preflight''"
| "signing_error_kind SgSignedMetadataFailed = ''signed_metadata''"
| "signing_error_kind _ = ''signing_failed''"

section \<open>Staging, installing and verifying\<close>

datatype plan_result = PlanReady | PlanFailed string | PlanTaskLost | PlanTimeout
datatype staging_result = Staged | StagingFailed string | StagingTimeout

record execute_env =
  ex_precheck_client :: bool
  ex_precheck_lookup :: "bool option"
  ex_plan :: plan_result
  ex_afc_client :: bool
  ex_staging :: staging_result
  ex_root_created :: bool
  ex_window_expired :: bool
  ex_install_client :: bool
  ex_install_answer :: proxy_answer
  ex_verification_expired :: bool
  ex_verification_client :: bool
  ex_verification_lookup :: "bool option"
  ex_clean :: staging_cleanup

text \<open>
  \<^verbatim>\<open>clean_exact_task_staging\<close>: nothing to clean when the root was never created; \<open>ex_clean\<close> is the
  answer of the removal of the task's root, \<open>StFailed\<close> or \<open>StSucceeded\<close>.
\<close>

definition clean_staging :: "execute_env \<Rightarrow> bool \<Rightarrow> staging_cleanup" where
  "clean_staging e root_created = (if \<not> root_created then StNotNeeded else ex_clean e)"

definition verification_lookup :: "execute_env \<Rightarrow> bool option" where
  "verification_lookup e =
     (if ex_verification_expired e \<or> \<not> ex_verification_client e then None
      else ex_verification_lookup e)"

definition after_cleanup :: "staging_cleanup \<Rightarrow> install_report \<Rightarrow> install_report" where
  "after_cleanup c r =
     (let r' = r\<lparr>rp_cleanup := c\<rparr> in
      if c = StFailed \<and> rp_error_kind r' = ''''
      then r'\<lparr>rp_stage := InCleanup, rp_error_kind := ''staging_cleanup''\<rparr> else r')"

definition precheck :: "execute_env \<Rightarrow> existing_app_policy \<Rightarrow> string option" where
  "precheck e policy =
     (if policy = Upgrade then None
      else if \<not> ex_precheck_client e then Some ''installation_proxy''
      else (case ex_precheck_lookup e of
              Some True \<Rightarrow> Some ''app_already_installed''
            | Some False \<Rightarrow> None
            | None \<Rightarrow> Some ''installed_app_lookup''))"

definition plan_failure :: "plan_result \<Rightarrow> string option" where
  "plan_failure p = (case p of PlanReady \<Rightarrow> None | PlanFailed k \<Rightarrow> Some k
     | PlanTaskLost \<Rightarrow> Some ''local_task'' | PlanTimeout \<Rightarrow> Some ''timeout'')"

definition install_and_verify :: "execute_env \<Rightarrow> string \<Rightarrow> bool \<Rightarrow> install_report" where
  "install_and_verify e bundle_id pressure =
     (let install_result = send_one_install_command (ex_install_answer e);
          outcome = outcome_after_install_result install_result (verification_lookup e);
          (stage, error_kind) =
            (if outcome = Installed then (InComplete, '''')
             else (InVerification, install_error_kind install_result outcome)) in
      \<lparr>rp_outcome = outcome, rp_stage = stage, rp_cleanup = StNotNeeded,
       rp_session_cleanup = ScNotNeeded, rp_install_command_count = 1, rp_error_kind = error_kind,
       rp_bundle_id = Some bundle_id, rp_certificate_pressure = pressure,
       rp_signing_diagnostic = None\<rparr>)"

definition execute_rsd_first_install ::
  "execute_env \<Rightarrow> string \<Rightarrow> bool \<Rightarrow> existing_app_policy \<Rightarrow> install_report" where
  "execute_rsd_first_install e bundle_id pressure policy =
     (let fail = (\<lambda>stage kind. rsd_install_failure stage kind pressure (Some bundle_id));
          failed_staged = (\<lambda>stage kind. (fail stage kind)\<lparr>rp_outcome := NotInstalled\<rparr>) in
      case precheck e policy of
        Some kind \<Rightarrow> fail InAlreadyInstalled kind
      | None \<Rightarrow>
          (case plan_failure (ex_plan e) of
             Some kind \<Rightarrow> fail InStaging kind
           | None \<Rightarrow>
               if \<not> ex_afc_client e then fail InStaging ''afc_service''
               else
                 let clean = clean_staging e (ex_root_created e) in
                 (case ex_staging e of
                    Staged \<Rightarrow>
                      if ex_window_expired e
                      then (failed_staged InInstall ''timeout'')\<lparr>rp_cleanup := clean\<rparr>
                      else if \<not> ex_install_client e
                      then (failed_staged InInstall ''installation_proxy'')\<lparr>rp_cleanup := clean\<rparr>
                      else after_cleanup clean (install_and_verify e bundle_id pressure)
                  | StagingFailed kind \<Rightarrow> after_cleanup clean (failed_staged InStaging kind)
                  | StagingTimeout \<Rightarrow> after_cleanup clean (failed_staged InStaging ''timeout''))))"

section \<open>The whole installation\<close>

datatype open_result = SessionOpened | SessionFailed rsd_probe_stage session_cleanup | SessionTimeout read_only_stage

text \<open>The identity read over a session; \<^term>\<open>None\<close> when the deadline passed.\<close>

type_synonym identity_answer = "(rsd_identity_failure + signing_device_identity) option"

datatype signing_answer =
    SigningDone "existing_device_signing_error + apple_account_preflight \<times> signed_app_artifact option"
  | SigningTaskLost
  | SigningTimeout

record install_env =
  ie_open1 :: open_result
  ie_identity1 :: identity_answer
  ie_close1 :: session_cleanup
  ie_sign :: "signing_device_identity \<Rightarrow> device_registration_policy \<Rightarrow> signing_answer"
  ie_open2 :: open_result
  ie_identity2 :: identity_answer
  ie_close2 :: session_cleanup
  ie_execute :: execute_env

definition certificate_pressure :: "apple_account_preflight \<Rightarrow> bool" where
  "certificate_pressure p \<longleftrightarrow>
     (case ap_development_certificate_capacity p of
        None \<Rightarrow> False | Some capacity \<Rightarrow> capacity \<le> ap_development_certificate_count p)
     \<and> \<not> ap_machine_certificate_present p"

fun existing_error_parts :: "existing_device_signing_error \<Rightarrow> install_stage \<times> signing_error" where
  "existing_error_parts (PreflightError e) = (InAccountPreflight, e)"
| "existing_error_parts (SigningError e) = (InSigning, e)"

definition signing_failure_report ::
  "existing_device_signing_error \<Rightarrow> session_cleanup \<Rightarrow> install_report" where
  "signing_failure_report err cleanup =
     (case existing_error_parts err of (stage, e) \<Rightarrow>
       let r = rsd_install_failure stage (signing_error_kind e) False None in
       record_session_cleanup
         (case e of SgClassifiedIpaSigning d \<Rightarrow> r\<lparr>rp_signing_diagnostic := Some d\<rparr> | _ \<Rightarrow> r) cleanup)"

definition second_identity_error :: "signing_device_identity \<Rightarrow> identity_answer \<Rightarrow> string option" where
  "second_identity_error identity answer =
     (case answer of
        Some (Inr i) \<Rightarrow> if i = identity then None else Some ''identity_changed''
      | Some (Inl failure) \<Rightarrow> Some (identity_failure_kind failure)
      | None \<Rightarrow> Some ''timeout'')"

definition install_signed ::
  "install_env \<Rightarrow> existing_app_policy \<Rightarrow> signing_device_identity \<Rightarrow> bool \<Rightarrow> string \<Rightarrow> install_report" where
  "install_signed e policy identity pressure bundle_id =
     (let merged = merge_session_cleanup (ie_close1 e) in
      case ie_open2 e of
        SessionFailed stage cleanup \<Rightarrow>
          record_session_cleanup
            (rsd_install_failure (install_of_probe stage) ''session_open'' pressure (Some bundle_id))
            (merged cleanup)
      | SessionTimeout stage \<Rightarrow>
          record_session_cleanup
            (rsd_install_failure (install_of_read_only stage) ''timeout'' pressure (Some bundle_id))
            (merged (if stage = RoRsdHandshake then ScFailed else ScNotNeeded))
      | SessionOpened \<Rightarrow>
          (case second_identity_error identity (ie_identity2 e) of
             Some kind \<Rightarrow>
               record_session_cleanup (rsd_install_failure InIdentity kind pressure (Some bundle_id))
                 (merged (ie_close2 e))
           | None \<Rightarrow>
               record_session_cleanup
                 (execute_rsd_first_install (ie_execute e) bundle_id pressure policy)
                 (merged (ie_close2 e))))"

definition install_remote_pairing_app ::
  "install_env \<Rightarrow> existing_app_policy \<Rightarrow> device_registration_policy \<Rightarrow> install_report" where
  "install_remote_pairing_app e policy registration =
     (case ie_open1 e of
        SessionFailed stage cleanup \<Rightarrow>
          record_session_cleanup
            (rsd_install_failure (install_of_probe stage) ''session_open'' False None) cleanup
      | SessionTimeout stage \<Rightarrow>
          (let r = rsd_install_failure (install_of_read_only stage) ''timeout'' False None in
           if stage = RoRsdHandshake then record_session_cleanup r ScFailed else r)
      | SessionOpened \<Rightarrow>
          (case ie_identity1 e of
             None \<Rightarrow> record_session_cleanup (rsd_install_failure InIdentity ''timeout'' False None) (ie_close1 e)
           | Some (Inl failure) \<Rightarrow>
               record_session_cleanup
                 (rsd_install_failure InIdentity (identity_failure_kind failure) False None) (ie_close1 e)
           | Some (Inr identity) \<Rightarrow>
               if ie_close1 e = ScFailed
               then record_session_cleanup
                      (rsd_install_failure InSessionCleanup ''session_cleanup'' False None) (ie_close1 e)
               else (case ie_sign e identity registration of
                       SigningTaskLost \<Rightarrow>
                         record_session_cleanup
                           (rsd_install_failure InSigning ''local_task'' False None) (ie_close1 e)
                     | SigningTimeout \<Rightarrow>
                         record_session_cleanup
                           (rsd_install_failure InSigning ''timeout'' False None) (ie_close1 e)
                     | SigningDone (Inl err) \<Rightarrow> signing_failure_report err (ie_close1 e)
                     | SigningDone (Inr (preflight, None)) \<Rightarrow>
                         record_session_cleanup
                           (rsd_install_failure InAccountPreflight ''device_registration_required''
                              (certificate_pressure preflight) None) (ie_close1 e)
                     | SigningDone (Inr (preflight, Some artifact)) \<Rightarrow>
                         install_signed e policy identity (certificate_pressure preflight)
                           (sga_bundle_id artifact))))"

definition install_remote_pairing_first_app :: "install_env \<Rightarrow> install_report" where
  "install_remote_pairing_first_app e = install_remote_pairing_app e Refuse RequireExisting"

end
