(* ===== verification/Jobs.thy ===== *)
theory Jobs
  imports Devices RsdInstall StoreContract
begin

text \<open>
  Installation jobs and the other handlers over the store (\<^verbatim>\<open>src/main.rs\<close>, \<^verbatim>\<open>src/jobs.rs\<close>). A
  handler is a function of the server state and of what its awaited calls answer; where a handler
  takes the database lock more than once, \<open>others\<close> is what other requests do in between.
  \<open>sv_db_fault\<close> is a poisoned mutex or a failing SQLite statement, which every handler maps to
  the same branch. An identifier in a JSON body is its text \<open>show_uuid\<close>, a timestamp its seconds.
\<close>

record server =
  sv_db :: db
  sv_db_fault :: bool
  sv_fs :: fs

text \<open>\<^verbatim>\<open>database.lock().map_err(..).and_then(..)\<close>: a reading and a writing access.\<close>

definition read_db :: "server \<Rightarrow> (db \<Rightarrow> 'a) \<Rightarrow> 'a option" where
  "read_db srv f = (if sv_db_fault srv then None else Some (f (sv_db srv)))"

definition write_db :: "server \<Rightarrow> (db \<Rightarrow> 'e + 'a \<times> db) \<Rightarrow> 'a option \<times> server" where
  "write_db srv f =
     (if sv_db_fault srv then (None, srv)
      else (case f (sv_db srv) of
              Inl _ \<Rightarrow> (None, srv) | Inr (v, d) \<Rightarrow> (Some v, srv\<lparr>sv_db := d\<rparr>)))"

section \<open>Creating a job\<close>

record job_env =
  je_signing_ready :: bool
  je_devices :: "transport_error + device_summary list"
  je_now :: timestamp
  je_lib :: ipa_lib
  je_fault :: io_faults
  je_show_uuid :: "uuid \<Rightarrow> string"

record install_task =
  it_job :: uuid
  it_app :: uuid
  it_device :: uuid
  it_path :: path

text \<open>\<^verbatim>\<open>jobs::InstallJob\<close>, always \<^verbatim>\<open>queued\<close>.\<close>

definition install_job_body :: "(uuid \<Rightarrow> string) \<Rightarrow> uuid \<Rightarrow> uuid \<Rightarrow> json" where
  "install_job_body show_uuid job app =
     JObj [(''id'', JStr (show_uuid job)), (''phase'', JStr ''queued''), (''progressPercent'', JNull),
       (''publicMessage'', JStr (''Signing and installation job queued for app '' @ show_uuid app @ ''.''))]"

definition find_device :: "uuid \<Rightarrow> device_summary list \<Rightarrow> device_summary option" where
  "find_device dv ds = find (\<lambda>d. ds_id d = dv) ds"

definition queue_job ::
  "timestamp \<Rightarrow> uuid \<Rightarrow> uuid \<Rightarrow> uuid \<Rightarrow> string \<Rightarrow> db \<Rightarrow> sql_error + path \<times> db" where
  "queue_job now job app dv label d =
     (case app_path d app of
        None \<Rightarrow> Inl InvalidQuery
      | Some p \<Rightarrow> map_sum id (\<lambda>d'. (p, d')) (insert_job now job app dv label d))"

definition create_install_job ::
  "job_env \<Rightarrow> (server \<Rightarrow> server) \<Rightarrow> uuid \<Rightarrow> uuid \<Rightarrow> uuid \<Rightarrow> server
     \<Rightarrow> response \<times> server \<times> install_task option" where
  "create_install_job e others job app dv srv =
     (if \<not> je_signing_ready e then
        (message 409 ''Apple signing is not ready. Sign in before creating an installation job.'', srv, None)
      else
        (case je_devices e of
           Inl _ \<Rightarrow>
             (message 503 ''Wi-Fi device discovery is unavailable. Check netmuxd and try again.'', srv, None)
         | Inr devices \<Rightarrow>
             (case find_device dv devices of
                None \<Rightarrow>
                  (message 404 ''The requested iPhone was not found on the trusted Wi-Fi transport.'', srv, None)
              | Some device \<Rightarrow>
                  (case Option.bind (Option.bind (read_db srv (\<lambda>d. app_path d app)) id)
                          (\<lambda>p. platform_mismatch (je_lib e) (je_fault e) (sv_fs srv) p (ds_device_class device)) of
                     Some text \<Rightarrow> (message 422 text, srv, None)
                   | None \<Rightarrow>
                       (case write_db (others srv) (queue_job (je_now e) job app dv (ds_display_name device)) of
                          (None, srv') \<Rightarrow> (message 404 ''Uploaded IPA was not found.'', srv', None)
                        | (Some p, srv') \<Rightarrow>
                            (Response 202 (Some (install_job_body (je_show_uuid e) job app)), srv',
                             Some \<lparr>it_job = job, it_app = app, it_device = dv, it_path = p\<rparr>))))))"

section \<open>Refreshing what is due\<close>

definition queue_refresh ::
  "timestamp \<Rightarrow> uuid \<Rightarrow> uuid \<Rightarrow> uuid \<Rightarrow> string \<Rightarrow> db \<Rightarrow> sql_error + bool \<times> db" where
  "queue_refresh now job app dv label d =
     (if active_job_exists d app dv then Inr (False, d)
      else map_sum id (\<lambda>d'. (True, d')) (insert_job now job app dv label d))"

text \<open>\<open>ids k\<close> is the \<open>k\<close>-th UUID the loop draws.\<close>

fun refresh_loop ::
  "job_env \<Rightarrow> (server \<Rightarrow> server) \<Rightarrow> device_summary list \<Rightarrow> (nat \<Rightarrow> uuid) \<Rightarrow> nat
     \<Rightarrow> (uuid \<times> uuid \<times> path) list \<Rightarrow> server \<Rightarrow> server \<times> install_task list" where
  "refresh_loop e others devices ids k [] srv = (srv, [])"
| "refresh_loop e others devices ids k ((app, dv, p) # targets) srv =
     (case find_device dv devices of
        None \<Rightarrow> refresh_loop e others devices ids k targets srv
      | Some device \<Rightarrow>
          (case write_db (others srv) (queue_refresh (je_now e) (ids k) app dv (ds_display_name device)) of
             (inserted, srv1) \<Rightarrow>
               (case refresh_loop e others devices ids (Suc k) targets srv1 of
                  (srv2, tasks) \<Rightarrow>
                    (srv2, if inserted = Some True
                       then \<lparr>it_job = ids k, it_app = app, it_device = dv, it_path = p\<rparr> # tasks
                       else tasks))))"

definition trigger_refresh ::
  "job_env \<Rightarrow> (server \<Rightarrow> server) \<Rightarrow> (nat \<Rightarrow> uuid) \<Rightarrow> server \<Rightarrow> response \<times> server \<times> install_task list" where
  "trigger_refresh e others ids srv =
     (if \<not> je_signing_ready e then
        (message 409 ''Apple signing is not ready. Sign in before refreshing apps.'', srv, [])
      else
        (case je_devices e of
           Inl _ \<Rightarrow>
             (message 503 ''Wi-Fi device discovery is unavailable. Check netmuxd and try again.'', srv, [])
         | Inr devices \<Rightarrow>
             (case read_db srv (\<lambda>d. refresh_due_targets (je_now e) (refresh_after_days d) d) of
                None \<Rightarrow> (message 500 ''Unable to read refresh targets.'', srv, [])
              | Some targets \<Rightarrow>
                  (case refresh_loop e others devices ids 0 targets srv of
                     (srv', tasks) \<Rightarrow>
                       (Response 202 (Some (JObj [(''queued'', JNum (int (length tasks)))])), srv', tasks)))))"

section \<open>Running a job\<close>

definition progress_phase :: "u8 \<Rightarrow> string" where
  "progress_phase progress = (if 40 \<le> progress then ''transferring'' else ''signing'')"

fun failure_code :: "transport_error \<Rightarrow> string" where
  "failure_code TransportUnavailable = ''iphone_unavailable''"
| "failure_code DeviceInfoFailed = ''device_info_failed''"
| "failure_code DeveloperTeamFailed = ''developer_team_failed''"
| "failure_code DeviceRegistrationFailed = ''device_registration_failed''"
| "failure_code IpaSigningFailed = ''ipa_signing_failed''"
| "failure_code SignedMetadataFailed = ''signed_metadata_failed''"
| "failure_code DeviceInstallFailed = ''device_install_failed''"

text \<open>The database sections of \<^verbatim>\<open>run_install_job\<close>, each under one acquisition of the lock.\<close>

datatype job_write =
    WStatus string "u8 option"
  | WFailure string
  | WInstalled string

fun apply_job_write :: "timestamp \<Rightarrow> install_task \<Rightarrow> job_write \<Rightarrow> db \<Rightarrow> db" where
  "apply_job_write now t (WStatus phase progress) d = update_job_status now (it_job t) phase progress d"
| "apply_job_write now t (WFailure code) d = set_job_failure (it_job t) code d"
| "apply_job_write now t (WInstalled bundle_id) d =
     restore_managed_installation (it_app t) (it_device t)
       (set_job_installed_bundle_id (it_job t) bundle_id d)"

text \<open>
  The sections a run performs, in order, given whether the file is there, the progress callbacks
  that arrive before the installation returns, and its result. An installation that never returns
  is a run that stops before its last two writes: the function lists what is written, it does not
  say that all of it is. The errors of the writes are ignored by the code, and a signing task that
  was aborted at its deadline can still call back after the result is there: \<^verbatim>\<open>JobsContract\<close> has
  both as steps of their own.
\<close>

definition run_install_job ::
  "bool \<Rightarrow> u8 list \<Rightarrow> transport_error + string \<Rightarrow> job_write list" where
  "run_install_job ipa_is_file progress result =
     (if \<not> ipa_is_file then [WFailure ''ipa_file_missing'', WStatus ''failed'' None]
      else [WStatus ''connecting'' (Some 0), WStatus ''signing'' (Some 1)]
        @ map (\<lambda>p. WStatus (progress_phase p) (Some p)) progress
        @ (case result of
             Inr bundle_id \<Rightarrow> [WInstalled bundle_id, WStatus ''succeeded'' (Some 100)]
           | Inl error \<Rightarrow> [WFailure (failure_code error), WStatus ''failed'' None]))"

definition rsd_install_result :: "install_report \<Rightarrow> transport_error + string" where
  "rsd_install_result r =
     (if rp_outcome r = Installed then ok_or DeviceInstallFailed (rp_bundle_id r)
      else Inl (case rp_stage r of
          InDiscovery \<Rightarrow> TransportUnavailable
        | InValidatePairing \<Rightarrow> TransportUnavailable
        | InTunnel \<Rightarrow> TransportUnavailable
        | InRsdHandshake \<Rightarrow> TransportUnavailable
        | InIdentity \<Rightarrow> DeviceInfoFailed
        | InAccountPreflight \<Rightarrow>
            if rp_error_kind r = ''device_registration_required''
            then DeviceRegistrationFailed else DeveloperTeamFailed
        | InSigning \<Rightarrow> IpaSigningFailed
        | _ \<Rightarrow> DeviceInstallFailed))"

definition job_message :: "string \<Rightarrow> string option \<Rightarrow> string" where
  "job_message phase code =
     (if phase = ''failed'' then
        (let c = unwrap_or ''installation_failed'' code in
         if c = ''iphone_unavailable'' then ''The selected trusted iPhone is not reachable over Wi-Fi.''
         else if c = ''device_info_failed''
         then ''Could not read the selected iPhone information over the trusted Wi-Fi connection.''
         else if c = ''developer_team_failed''
         then ''Apple developer team information could not be prepared.''
         else if c = ''device_registration_failed''
         then ''The iPhone could not be registered for this signing session.''
         else if c = ''ipa_signing_failed'' then ''The IPA could not be signed.''
         else if c = ''ipa_file_missing''
         then ''The IPA file is missing on the server. Download it again from its source or upload it again.''
         else if c = ''signed_metadata_failed''
         then ''The signed IPA metadata could not be validated.''
         else if c = ''device_install_failed''
         then ''Signing completed, but transfer/installation on the iPhone failed. Keep the phone unlocked, reachable, and check free storage.''
         else ''Installation failed.'')
      else if phase = ''queued'' then ''Installation job is queued.''
      else if phase = ''connecting'' then ''Connecting to the trusted iPhone over Wi-Fi.''
      else if phase = ''signing'' then ''Signing the IPA.''
      else if phase = ''transferring'' \<or> phase = ''installing''
      then ''Transferring and installing the IPA on the iPhone.''
      else if phase = ''succeeded'' then ''IPA was signed and installed.''
      else ''Installation job status is unavailable.'')"

section \<open>Reading jobs and settings\<close>

definition jtime :: "timestamp \<Rightarrow> json" where "jtime t = JNum (int t)"
definition ju8 :: "u8 \<Rightarrow> json" where "ju8 n = JNum (uint n)"

definition install_job_json :: "(uuid \<Rightarrow> string) \<Rightarrow> stored_job \<Rightarrow> json" where
  "install_job_json show_uuid j =
     JObj [(''id'', JStr (show_uuid (sj_id j))), (''appId'', JStr (show_uuid (sj_app_id j))),
       (''deviceId'', JStr (show_uuid (sj_device_id j))), (''deviceLabel'', JStr (sj_device_label j)),
       (''phase'', JStr (sj_phase j)), (''progressPercent'', jopt ju8 (sj_progress_percent j)),
       (''appDisplayName'', JStr (sj_app_display_name j)), (''appVersion'', jopt JStr (sj_app_version j)),
       (''createdAt'', jtime (sj_created_at j)), (''completedAt'', jopt jtime (sj_completed_at j)),
       (''failureCode'', jopt JStr (sj_failure_code j)),
       (''publicMessage'', JStr (job_message (sj_phase j) (sj_failure_code j)))]"

definition get_install_job :: "(uuid \<Rightarrow> string) \<Rightarrow> uuid \<Rightarrow> server \<Rightarrow> response" where
  "get_install_job show_uuid i srv =
     (case read_db srv (\<lambda>d. find_job show_uuid d i) of
        Some (Some job) \<Rightarrow> Response 200 (Some (install_job_json show_uuid job))
      | Some None \<Rightarrow> message 404 ''Installation job was not found.''
      | None \<Rightarrow> message 500 ''Unable to read installation job.'')"

definition list_install_jobs :: "(uuid \<Rightarrow> string) \<Rightarrow> server \<Rightarrow> response" where
  "list_install_jobs show_uuid srv =
     (case read_db srv (\<lambda>d. list_recent_jobs show_uuid d 20) of
        Some jobs \<Rightarrow> Response 200 (Some (JArr (map (install_job_json show_uuid) jobs)))
      | None \<Rightarrow> message 200 ''Unable to read installation history.'')"

definition app_json :: "(uuid \<Rightarrow> string) \<Rightarrow> stored_app \<Rightarrow> json" where
  "app_json show_uuid a =
     JObj [(''id'', JStr (show_uuid (sa_id a))), (''displayName'', JStr (sa_display_name a)),
       (''appVersion'', jopt JStr (sa_app_version a)), (''bundleId'', jopt JStr (sa_bundle_id a)),
       (''sha256'', JStr (sa_sha256 a)), (''sizeBytes'', JNum (uint (sa_size_bytes a)))]"

definition list_apps_handler :: "(uuid \<Rightarrow> string) \<Rightarrow> server \<Rightarrow> response" where
  "list_apps_handler show_uuid srv =
     (case read_db srv (list_apps show_uuid) of
        Some apps \<Rightarrow> Response 200 (Some (JArr (map (app_json show_uuid) apps)))
      | None \<Rightarrow> message 200 ''Unable to list uploaded IPAs.'')"

definition managed_json :: "(uuid \<Rightarrow> string) \<Rightarrow> managed_installation \<Rightarrow> json" where
  "managed_json show_uuid m =
     JObj [(''appId'', JStr (show_uuid (mg_app_id m))), (''deviceId'', JStr (show_uuid (mg_device_id m))),
       (''appDisplayName'', JStr (mg_app_display_name m)), (''appVersion'', jopt JStr (mg_app_version m)),
       (''deviceLabel'', JStr (mg_device_label m))]"

definition list_managed_handler :: "(uuid \<Rightarrow> string) \<Rightarrow> server \<Rightarrow> response" where
  "list_managed_handler show_uuid srv =
     (case read_db srv (list_managed_installations show_uuid) of
        Some items \<Rightarrow> Response 200 (Some (JArr (map (managed_json show_uuid) items)))
      | None \<Rightarrow> message 500 ''Unable to read managed installations.'')"

definition forget_managed_handler :: "timestamp \<Rightarrow> uuid \<Rightarrow> uuid \<Rightarrow> server \<Rightarrow> response \<times> server" where
  "forget_managed_handler now dv app srv =
     (case write_db srv (\<lambda>d. Inr (forget_managed_installation now app dv d) :: sql_error + _) of
        (Some True, srv') \<Rightarrow> (Response 204 None, srv')
      | (Some False, srv') \<Rightarrow>
          (message 409 ''This installation has an active job and cannot be removed from management yet.'', srv')
      | (None, srv') \<Rightarrow> (message 500 ''Unable to remove the installation from management.'', srv'))"

definition managed_app :: "string \<Rightarrow> managed_app_identity list \<Rightarrow> bool" where
  "managed_app bundle_id identities =
     list_ex (\<lambda>i. case mi_installed_bundle_id i of
         Some installed \<Rightarrow> installed = bundle_id
       | None \<Rightarrow>
           (case mi_source_bundle_id i of
              None \<Rightarrow> False
            | Some source \<Rightarrow> bundle_id = source
                \<or> (case strip_prefix source bundle_id of
                     None \<Rightarrow> False | Some team \<Rightarrow> starts_with team ''.''))) identities"

definition installed_app_json :: "installed_app_summary \<Rightarrow> json" where
  "installed_app_json a = JObj [(''displayName'', JStr (ia_display_name a)),
     (''bundleId'', JStr (ia_bundle_id a)), (''version'', JStr (ia_version a))]"

text \<open>\<open>installed\<close> is what the device lists, over RSD or netmuxd.\<close>

definition list_device_apps ::
  "uuid \<Rightarrow> transport_error + installed_app_summary list \<Rightarrow> server \<Rightarrow> response" where
  "list_device_apps dv installed srv =
     (case read_db srv (\<lambda>d. managed_app_identities d dv) of
        None \<Rightarrow> message 500 ''Unable to read managed app history.''
      | Some identities \<Rightarrow>
          (case installed of
             Inl _ \<Rightarrow> message 503 ''The selected trusted iPhone is not reachable over Wi-Fi.''
           | Inr apps \<Rightarrow> Response 200 (Some (JArr (map installed_app_json
               (sort_key ia_display_name
                 (filter (\<lambda>a. managed_app (ia_bundle_id a) identities) apps)))))))"

definition refresh_attention_handler :: "(uuid \<Rightarrow> string) \<Rightarrow> timestamp \<Rightarrow> server \<Rightarrow> response" where
  "refresh_attention_handler show_uuid now srv =
     (case read_db srv (\<lambda>d. (refresh_after_days d, refresh_attention now (refresh_after_days d) d)) of
        Some (after_days, items) \<Rightarrow>
          Response 200 (Some (JObj [(''afterDays'', ju8 after_days),
            (''items'', JArr (map (\<lambda>i. JObj [(''appId'', JStr (show_uuid (ra_app_id i))),
               (''deviceLabel'', JStr (ra_device_label i)), (''ageHours'', JNum (ra_age_hours i)),
               (''retryFailed'', JBool (ra_retry_failed i))]) items))]))
      | None \<Rightarrow> message 200 ''Unable to read refresh warnings.'')"

definition settings_json :: "u8 \<Rightarrow> json" where
  "settings_json after_days = JObj [(''afterDays'', ju8 after_days)]"

definition get_refresh_settings :: "server \<Rightarrow> response" where
  "get_refresh_settings srv =
     (case read_db srv refresh_after_days of
        Some after_days \<Rightarrow> Response 200 (Some (settings_json after_days))
      | None \<Rightarrow> message 500 ''Unable to read refresh settings.'')"

definition update_refresh_settings :: "u8 \<Rightarrow> server \<Rightarrow> response \<times> server" where
  "update_refresh_settings after_days srv =
     (if \<not> refresh_day_ok after_days
      then (message 400 ''Automatic refresh must be between day 1 and day 6.'', srv)
      else (case write_db srv (\<lambda>d. map_sum id (Pair ()) (set_refresh_after_days after_days d)) of
              (Some _, srv') \<Rightarrow> (Response 200 (Some (settings_json after_days)), srv')
            | (None, srv') \<Rightarrow> (message 500 ''Unable to save refresh settings.'', srv')))"

definition installation_validity_handler :: "(uuid \<Rightarrow> string) \<Rightarrow> timestamp \<Rightarrow> server \<Rightarrow> response" where
  "installation_validity_handler show_uuid now srv =
     (case read_db srv (installation_validity now) of
        Some items \<Rightarrow> Response 200 (Some (JArr (map (\<lambda>i.
          JObj [(''appId'', JStr (show_uuid (iv_app_id i))), (''deviceLabel'', JStr (iv_device_label i)),
            (''remainingDays'', JNum (iv_remaining_days i)), (''completedAt'', jtime (iv_completed_at i))]) items)))
      | None \<Rightarrow> message 200 ''Unable to read IPA validity.'')"

end
