(* ===== verification/Uploads.thy ===== *)
theory Uploads
  imports Jobs
begin

text \<open>
  Uploading, renaming and deleting an IPA (\<^verbatim>\<open>src/main.rs\<close>). The multipart parser is a library:
  an upload is the list of the parts it yields; a parse error ends the list as the end of the body
  does, because the handler's loop stops on both.
\<close>

section \<open>Deleting\<close>

definition delete_ipa :: "io_faults \<Rightarrow> timestamp \<Rightarrow> uuid \<Rightarrow> server \<Rightarrow> response \<times> server" where
  "delete_ipa fault now aid srv =
     (case write_db srv (\<lambda>d. Inr (mark_app_deleted now aid d) :: sql_error + _) of
        (None, srv1) \<Rightarrow> (message 500 ''Unable to remove the IPA.'', srv1)
      | (Some AppNotFound, srv1) \<Rightarrow> (message 404 ''Uploaded IPA was not found.'', srv1)
      | (Some ActiveJob, srv1) \<Rightarrow>
          (message 409 ''This IPA cannot be removed while an installation or refresh job is active.'', srv1)
      | (Some (ReadyToDelete p), srv1) \<Rightarrow>
          (case fs_remove fault (sv_fs srv1) p of
             Inr fs' \<Rightarrow> (Response 204 None, srv1\<lparr>sv_fs := fs'\<rparr>)
           | Inl NotFound \<Rightarrow> (Response 204 None, srv1)
           | Inl OtherIo \<Rightarrow>
               (message 500 ''Unable to remove the IPA file from server storage.'',
                if sv_db_fault srv1 then srv1 else srv1\<lparr>sv_db := restore_app aid (sv_db srv1)\<rparr>)))"

section \<open>Renaming\<close>

definition display_name_error :: string where
  "display_name_error = ''Display name must be at most 120 characters and contain no control characters.''"

definition validate_display_name :: "string \<Rightarrow> string + string" where
  "validate_display_name v =
     (let value = trim v in
      if 120 < chars_count value \<or> list_ex is_ascii_control value
      then Inl display_name_error else Inr value)"

definition rename_app_handler :: "uuid \<Rightarrow> string \<Rightarrow> server \<Rightarrow> response \<times> server" where
  "rename_app_handler aid name srv =
     (case validate_display_name name of
        Inl _ \<Rightarrow> (message 400 ''Invalid display name.'', srv)
      | Inr display_name \<Rightarrow>
          if display_name = [] then (message 400 ''Display name cannot be empty when renaming.'', srv)
          else (case write_db srv (\<lambda>d. Inr (rename_app aid display_name d) :: sql_error + _) of
                  (Some True, srv') \<Rightarrow> (Response 204 None, srv')
                | (Some False, srv') \<Rightarrow> (message 404 ''Uploaded IPA was not found.'', srv')
                | (None, srv') \<Rightarrow> (message 500 ''Unable to rename the IPA.'', srv')))"

section \<open>Uploading\<close>

text \<open>
  A part: its name, the text it decodes to (\<^term>\<open>None\<close> when it does not) and the chunks it yields
  (\<^term>\<open>None\<close> for a read error).
\<close>

record part =
  pt_name :: "string option"
  pt_text :: "string option"
  pt_chunks :: "string option list"

fun receive_chunks ::
  "io_faults \<Rightarrow> path \<Rightarrow> string option list \<Rightarrow> u64 \<Rightarrow> fs \<Rightarrow> (response + u64) \<times> fs" where
  "receive_chunks fault tmp [] written fs = (Inr written, fs)"
| "receive_chunks fault tmp (None # _) written fs =
     (Inl (message 400 ''Unable to read IPA upload.''), fs_remove_ignore fault fs tmp)"
| "receive_chunks fault tmp (Some chunk # chunks) written fs =
     (let written' = saturating_add_u64 written (len_u64 chunk) in
      if MAX_COMPRESSED_BYTES < written'
      then (Inl (message 413 ''IPA exceeds the 2 GiB upload limit.''), fs_remove_ignore fault fs tmp)
      else if fault (IoWrite tmp)
      then (Inl (message 500 ''Unable to store IPA upload.''), fs_remove_ignore fault fs tmp)
      else receive_chunks fault tmp chunks written'
             (fs(tmp := Some ((case fs tmp of None \<Rightarrow> [] | Some old \<Rightarrow> old) @ chunk))))"

text \<open>The loop state: the display name, whether the file was seen, the bytes written.\<close>

fun receive_parts ::
  "io_faults \<Rightarrow> path \<Rightarrow> part list \<Rightarrow> string option \<Rightarrow> bool \<Rightarrow> u64 \<Rightarrow> fs
     \<Rightarrow> (response + string option \<times> bool) \<times> fs" where
  "receive_parts fault tmp [] display_name file_seen written fs = (Inr (display_name, file_seen), fs)"
| "receive_parts fault tmp (p # ps) display_name file_seen written fs =
     (case pt_name p of
        None \<Rightarrow> (Inl (message 400 ''Invalid multipart field.''), fs_remove_ignore fault fs tmp)
      | Some name \<Rightarrow>
          if name = ''displayName'' \<and> display_name = None then
            (case Option.bind (pt_text p) (\<lambda>t. case validate_display_name t of Inl _ \<Rightarrow> None | Inr v \<Rightarrow> Some v) of
               None \<Rightarrow> (Inl (message 400 ''Invalid display name.''), fs_remove_ignore fault fs tmp)
             | Some v \<Rightarrow> receive_parts fault tmp ps (Some v) file_seen written fs)
          else if name = ''file'' \<and> \<not> file_seen then
            (case receive_chunks fault tmp (pt_chunks p) written fs of
               (Inl r, fs1) \<Rightarrow> (Inl r, fs1)
             | (Inr written', fs1) \<Rightarrow> receive_parts fault tmp ps display_name True written' fs1)
          else (Inl (message 400 ''Expected one file field and at most one display name field.''),
                fs_remove_ignore fault fs tmp))"

definition upload_temporary :: "(uuid \<Rightarrow> string) \<Rightarrow> path \<Rightarrow> uuid \<Rightarrow> path" where
  "upload_temporary show_uuid apps_dir aid = apps_dir @ ''/.'' @ show_uuid aid @ ''.upload''"

definition upload_final :: "(uuid \<Rightarrow> string) \<Rightarrow> path \<Rightarrow> uuid \<Rightarrow> path" where
  "upload_final show_uuid apps_dir aid = apps_dir @ ''/'' @ show_uuid aid @ ''.ipa''"

definition upload_body :: "(uuid \<Rightarrow> string) \<Rightarrow> uuid \<Rightarrow> string \<Rightarrow> upload_metadata \<Rightarrow> json" where
  "upload_body show_uuid aid display_name md =
     JObj [(''id'', JStr (show_uuid aid)), (''displayName'', JStr display_name),
       (''appVersion'', jopt JStr (md_app_version md)), (''sha256'', JStr (md_sha256 md)),
       (''sizeBytes'', JNum (uint (md_size_bytes md)))]"

definition upload_name :: "string option \<Rightarrow> upload_metadata \<Rightarrow> string" where
  "upload_name display_name md =
     (case opt_filter (\<lambda>v. v \<noteq> []) display_name of Some n \<Rightarrow> n | None \<Rightarrow> md_display_name md)"

text \<open>The part of \<^verbatim>\<open>upload_ipa\<close> after the body has been received and synced.\<close>

definition finish_upload ::
  "job_env \<Rightarrow> path \<Rightarrow> uuid \<Rightarrow> string option \<Rightarrow> server \<Rightarrow> response \<times> server" where
  "finish_upload e apps_dir aid display_name srv =
     (let fault = je_fault e; tmp = upload_temporary (je_show_uuid e) apps_dir aid;
          final = upload_final (je_show_uuid e) apps_dir aid in
      case inspect_ipa (je_lib e) fault (sv_fs srv) tmp of
        Inl error \<Rightarrow>
          (Response 400 (Some (JObj [(''message'', JStr ''IPA was rejected.''),
             (''code'', JStr (upload_error_text error))])),
           srv\<lparr>sv_fs := fs_remove_ignore fault (sv_fs srv) tmp\<rparr>)
      | Inr md \<Rightarrow>
          (case fs_rename fault (sv_fs srv) tmp final of
             Inl _ \<Rightarrow> (message 500 ''Unable to finalize IPA upload.'',
                       srv\<lparr>sv_fs := fs_remove_ignore fault (sv_fs srv) tmp\<rparr>)
           | Inr fs' \<Rightarrow>
               let name = upload_name display_name md in
               (case write_db (srv\<lparr>sv_fs := fs'\<rparr>) (\<lambda>d. map_sum id (Pair ())
                       (insert_app (je_now e) aid (md_sha256 md) final (md_size_bytes md)
                          (md_bundle_id md) name (md_app_version md) d)) of
                  (None, srv1) \<Rightarrow> (message 500 ''Unable to record IPA upload.'',
                     srv1\<lparr>sv_fs := fs_remove_ignore fault (sv_fs srv1) final\<rparr>)
                | (Some _, srv1) \<Rightarrow>
                    (Response 201 (Some (upload_body (je_show_uuid e) aid name md)), srv1))))"

definition upload_ipa ::
  "job_env \<Rightarrow> path \<Rightarrow> uuid \<Rightarrow> part list \<Rightarrow> server \<Rightarrow> response \<times> server" where
  "upload_ipa e apps_dir aid parts srv =
     (let fault = je_fault e; tmp = upload_temporary (je_show_uuid e) apps_dir aid in
      if fault (IoCreate tmp) then (message 500 ''Unable to store IPA upload.'', srv)
      else (case receive_parts fault tmp parts None False 0 ((sv_fs srv)(tmp := Some [])) of
              (Inl r, fs1) \<Rightarrow> (r, srv\<lparr>sv_fs := fs1\<rparr>)
            | (Inr (display_name, file_seen), fs1) \<Rightarrow>
                if \<not> file_seen
                then (message 400 ''Expected an IPA file field.'',
                      srv\<lparr>sv_fs := fs_remove_ignore fault fs1 tmp\<rparr>)
                else if fault (IoSync tmp)
                then (message 500 ''Unable to store IPA upload.'',
                      srv\<lparr>sv_fs := fs_remove_ignore fault fs1 tmp\<rparr>)
                else finish_upload e apps_dir aid display_name (srv\<lparr>sv_fs := fs1\<rparr>)))"

section \<open>An upload is stored whole or not at all\<close>

lemma receive_chunks_frame:
  "receive_chunks fault tmp chunks written fs = (res, fs') \<Longrightarrow> q \<noteq> tmp \<Longrightarrow> fs' q = fs q"
  by (induction fault tmp chunks written fs arbitrary: res fs' rule: receive_chunks.induct)
    (auto simp: Let_def split: if_splits)

lemma receive_chunks_Inl:
  "receive_chunks fault tmp chunks written fs = (Inl r, fs') \<Longrightarrow> \<not> fault (IoRemove tmp) \<Longrightarrow>
     fs' tmp = None \<and> resp_status r \<noteq> 201"
  by (induction fault tmp chunks written fs arbitrary: r fs' rule: receive_chunks.induct)
    (auto simp: Let_def fs_remove_ignore_same split: if_splits)

lemma receive_parts_frame:
  "receive_parts fault tmp ps dn seen written fs = (res, fs') \<Longrightarrow> q \<noteq> tmp \<Longrightarrow> fs' q = fs q"
proof (induction fault tmp ps dn seen written fs arbitrary: res fs' rule: receive_parts.induct)
  case (2 fault tmp p ps dn seen written fs)
  then show ?case
    by (auto split: option.splits if_splits prod.splits sum.splits dest: receive_chunks_frame)
qed simp

lemma receive_parts_Inl:
  "receive_parts fault tmp ps dn seen written fs = (Inl r, fs') \<Longrightarrow> \<not> fault (IoRemove tmp) \<Longrightarrow>
     fs' tmp = None \<and> resp_status r \<noteq> 201"
proof (induction fault tmp ps dn seen written fs arbitrary: r fs' rule: receive_parts.induct)
  case (2 fault tmp p ps dn seen written fs)
  then show ?case
    by (auto simp: fs_remove_ignore_same split: option.splits if_splits prod.splits sum.splits
        dest: receive_chunks_Inl)
qed simp

lemma upload_paths_differ: "upload_temporary show_uuid dir i \<noteq> upload_final show_uuid dir i"
proof
  assume "upload_temporary show_uuid dir i = upload_final show_uuid dir i"
  then have "''.'' @ show_uuid i @ ''.upload'' = show_uuid i @ ''.ipa''"
    by (simp add: upload_temporary_def upload_final_def)
  then have "length (''.'' @ show_uuid i @ ''.upload'') = length (show_uuid i @ ''.ipa'')" by metis
  then show False by simp
qed


lemma fs_remove_ignore_eq:
  "\<not> fault (IoRemove p) \<Longrightarrow> fs_remove_ignore fault fs p = fs(p := None)"
  by (auto simp: fs_remove_ignore_def fs_remove_def)

lemma finish_upload_outcome:
  fixes e dir aid
  defines "tmp \<equiv> upload_temporary (je_show_uuid e) dir aid"
    and "final \<equiv> upload_final (je_show_uuid e) dir aid"
  assumes run: "finish_upload e dir aid dn srv1 = (r, srv')"
    and fs: "sv_fs srv1 = base(tmp := c)" and free: "base tmp = None" "base final = None"
    and removable: "\<And>p. \<not> je_fault e (IoRemove p)"
  shows "if resp_status r = 201
    then \<exists>content md name. c = Some content \<and> sv_fs srv' = base(final := Some content)
      \<and> inspect_ipa (je_lib e) (je_fault e) (base(tmp := Some content)) tmp = Inr md
      \<and> insert_app (je_now e) aid (md_sha256 md) final
          (md_size_bytes md) (md_bundle_id md) name (md_app_version md) (sv_db srv1) = Inr (sv_db srv')
    else srv' = srv1\<lparr>sv_fs := base\<rparr>"
proof -
  have ne: "tmp \<noteq> final" unfolding tmp_def final_def by (rule upload_paths_differ)
  have base_tmp: "base(tmp := None) = base" and base_final: "base(final := None) = base"
    using free by auto
  note rm = fs_remove_ignore_eq [of "je_fault e", OF removable]
  note run' = run [unfolded finish_upload_def Let_def, folded tmp_def final_def]
  show ?thesis
  proof (cases "inspect_ipa (je_lib e) (je_fault e) (sv_fs srv1) tmp")
    case (Inl err)
    with run' fs base_tmp show ?thesis by (auto simp: rm)
  next
    case (Inr md)
    show ?thesis
    proof (cases "fs_rename (je_fault e) (sv_fs srv1) tmp final")
      case (Inl err)
      with run' Inr fs base_tmp show ?thesis by (auto simp: rm)
    next
      case ren: (Inr fs')
      from fs_rename_InrD [OF ren] fs ne obtain content
        where c: "c = Some content" and fs': "fs' = base(final := Some content)"
        using base_tmp by (auto simp: fun_upd_twist)
      with run' Inr ren fs base_final show ?thesis
        by (auto simp: rm write_db_def split: if_splits sum.splits intro!: exI [of _ "upload_name dn md"])
    qed
  qed
qed

lemma upload_ipa_outcome:
  assumes run: "upload_ipa e apps_dir aid parts srv = (r, srv')"
    and free: "sv_fs srv (upload_temporary (je_show_uuid e) apps_dir aid) = None"
      "sv_fs srv (upload_final (je_show_uuid e) apps_dir aid) = None"
    and removable: "\<And>p. \<not> je_fault e (IoRemove p)"
  shows "if resp_status r = 201
    then \<exists>content md name. sv_fs srv' = (sv_fs srv)(upload_final (je_show_uuid e) apps_dir aid := Some content)
      \<and> inspect_ipa (je_lib e) (je_fault e)
          ((sv_fs srv)(upload_temporary (je_show_uuid e) apps_dir aid := Some content))
          (upload_temporary (je_show_uuid e) apps_dir aid) = Inr md
      \<and> insert_app (je_now e) aid (md_sha256 md) (upload_final (je_show_uuid e) apps_dir aid)
          (md_size_bytes md) (md_bundle_id md) name (md_app_version md) (sv_db srv) = Inr (sv_db srv')
    else srv' = srv"
proof (cases "je_fault e (IoCreate (upload_temporary (je_show_uuid e) apps_dir aid))")
  case True
  with run show ?thesis by (auto simp: upload_ipa_def Let_def)
next
  case False
  let ?tmp = "upload_temporary (je_show_uuid e) apps_dir aid"
  obtain res fs1 where parts:
    "receive_parts (je_fault e) ?tmp parts None False 0 ((sv_fs srv)(?tmp := Some [])) = (res, fs1)"
    by fastforce
  have frame: "fs1 = (sv_fs srv)(?tmp := fs1 ?tmp)"
    using receive_parts_frame [OF parts] by (auto simp: fun_eq_iff)
  have clean: "fs1(?tmp := None) = sv_fs srv" using free(1) by (subst frame) auto
  then have undone: "srv\<lparr>sv_fs := fs1(?tmp := None)\<rparr> = srv" by simp
  note rm = fs_remove_ignore_eq [of "je_fault e", OF removable]
  show ?thesis
  proof (cases res)
    case (Inl err)
    from receive_parts_Inl [OF parts [unfolded Inl]] removable
    have "fs1 = fs1(?tmp := None)" "resp_status err \<noteq> 201" by auto
    with run False parts Inl clean show ?thesis by (auto simp: upload_ipa_def Let_def)
  next
    case (Inr st)
    obtain dn seen where st: "st = (dn, seen)" by (cases st)
    show ?thesis
    proof (cases "\<not> seen \<or> je_fault e (IoSync ?tmp)")
      case True
      with run False parts Inr st have "r = message (if seen then 500 else 400)
          (if seen then ''Unable to store IPA upload.'' else ''Expected an IPA file field.'')"
        "srv' = srv\<lparr>sv_fs := fs1(?tmp := None)\<rparr>"
        by (simp_all add: upload_ipa_def Let_def rm split: if_splits)
      with undone show ?thesis by simp
    next
      case fin: False
      with run False parts Inr st
      have "finish_upload e apps_dir aid dn (srv\<lparr>sv_fs := fs1\<rparr>) = (r, srv')"
        by (simp add: upload_ipa_def Let_def)
      from finish_upload_outcome [OF this _ free removable, of "fs1 ?tmp"] frame
      show ?thesis by (auto split: if_splits)
    qed
  qed
qed

text \<open>
  C8: An upload is stored whole or not at all. When the two paths of a new upload are free and
  files can be removed, the handler either answers 201, and then exactly one file has been added,
  its content passed the inspection, and the database is the old one with the app recorded; or it
  answers with an error and files and database are what they were.
\<close>

theorem upload_all_or_nothing:
  assumes run: "upload_ipa e apps_dir aid parts srv = (r, srv')"
    and free: "sv_fs srv (upload_temporary (je_show_uuid e) apps_dir aid) = None"
      "sv_fs srv (upload_final (je_show_uuid e) apps_dir aid) = None"
    and removable: "\<And>p. \<not> je_fault e (IoRemove p)"
  shows "if resp_status r = 201
    then \<exists>content md name. sv_fs srv' = (sv_fs srv)(upload_final (je_show_uuid e) apps_dir aid := Some content)
      \<and> inspect_ipa (je_lib e) (je_fault e)
          ((sv_fs srv)(upload_temporary (je_show_uuid e) apps_dir aid := Some content))
          (upload_temporary (je_show_uuid e) apps_dir aid) = Inr md
      \<and> insert_app (je_now e) aid (md_sha256 md) (upload_final (je_show_uuid e) apps_dir aid)
          (md_size_bytes md) (md_bundle_id md) name (md_app_version md) (sv_db srv) = Inr (sv_db srv')
    else srv' = srv"
  using upload_ipa_outcome [OF assms] .

definition demo_env :: job_env where
  "demo_env = \<lparr>je_signing_ready = True,
     je_devices = Inr [\<lparr>ds_id = 9, ds_display_name = ''Phone'', ds_product_type = ''iPhone15,2'',
       ds_ios_version = ''18'', ds_install_eligible = True, ds_device_class = Iphone\<rparr>],
     je_now = 50, je_lib = demo_lib, je_fault = (\<lambda>_. False), je_show_uuid = (\<lambda>i. show_nat (unat i))\<rparr>"

lemma demo_env_simps [simp]:
  "je_fault demo_env = (\<lambda>_. False)" "je_lib demo_env = demo_lib" "je_now demo_env = 50"
  "je_show_uuid demo_env = (\<lambda>i. show_nat (unat i))" "je_signing_ready demo_env"
  by (simp_all add: demo_env_def)

definition demo_upload_parts :: "part list" where
  "demo_upload_parts =
     [\<lparr>pt_name = Some ''file'', pt_text = None, pt_chunks = [Some ''com'', Some ''.a'']\<rparr>]"

lemma demo_paths:
  "upload_temporary (\<lambda>i. show_nat (unat i)) ''apps'' 7 = ''apps/.7.upload''"
  "upload_final (\<lambda>i. show_nat (unat i)) ''apps'' 7 = ''apps/7.ipa''"
  by code_simp+

definition demo_uploaded :: app_row where
  "demo_uploaded = \<lparr>ar_id = 7, ar_sha256 = ''dcom.a'', ar_storage_path = ''apps/7.ipa'',
     ar_size_bytes = 5, ar_uploaded_at = 50, ar_deleted_at = None, ar_bundle_id = Some ''com.a'',
     ar_display_name = Some ''com.a'', ar_app_version = None\<rparr>"

lemma demo_upload:
  assumes "7 \<notin> ar_id ` set (db_apps (sv_db srv))" "''dcom.a'' \<notin> ar_sha256 ` set (db_apps (sv_db srv))"
    "''apps/7.ipa'' \<notin> ar_storage_path ` set (db_apps (sv_db srv))" "\<not> sv_db_fault srv"
    "sv_fs srv ''apps/.7.upload'' = None"
  shows "upload_ipa demo_env ''apps'' 7 demo_upload_parts srv
   = (Response 201 (Some (upload_body (\<lambda>i. show_nat (unat i)) 7 ''com.a'' demo_metadata)),
      srv\<lparr>sv_db := put_apps (db_apps (sv_db srv) @ [demo_uploaded]) (sv_db srv),
        sv_fs := (sv_fs srv)(''apps/7.ipa'' \<mapsto> ''com.a'')\<rparr>)"
proof -
  have parts: "receive_parts (\<lambda>_. False) ''apps/.7.upload'' demo_upload_parts None False 0
      ((sv_fs srv)(''apps/.7.upload'' \<mapsto> [])) = (Inr (None, True), (sv_fs srv)(''apps/.7.upload'' \<mapsto> ''com.a''))"
    by (simp add: demo_upload_parts_def Let_def saturating_add_u64_def len_u64_def MAX_COMPRESSED_BYTES_def)
  have undo: "(sv_fs srv)(''apps/.7.upload'' := None) = sv_fs srv" using assms(5) by auto
  have "insert_app 50 7 (md_sha256 demo_metadata) ''apps/7.ipa'' (md_size_bytes demo_metadata)
      (md_bundle_id demo_metadata) (upload_name None demo_metadata) (md_app_version demo_metadata) (sv_db srv)
    = Inr (put_apps (db_apps (sv_db srv) @ [demo_uploaded]) (sv_db srv))"
    using assms by (simp add: insert_app_def demo_metadata_def demo_uploaded_def upload_name_def opt_filter_def)
  moreover have "upload_name None demo_metadata = ''com.a''"
    by (simp add: upload_name_def opt_filter_def demo_metadata_def)
  ultimately show ?thesis using assms(4)
    unfolding upload_ipa_def Let_def demo_env_simps demo_paths
    by (simp add: parts finish_upload_def demo_paths demo_inspect fs_rename_def write_db_def undo Let_def)
qed

definition demo_server :: server where
  "demo_server = \<lparr>sv_db = demo_db, sv_db_fault = False, sv_fs = [''1.ipa'' \<mapsto> ''com.a'']\<rparr>"

theorem upload_all_or_nothing_witness:
  "let (r, srv') = upload_ipa demo_env ''apps'' 7 demo_upload_parts demo_server in
     resp_status r = 201
     \<and> (\<exists>content md. sv_fs srv' = [''1.ipa'' \<mapsto> ''com.a'', ''apps/7.ipa'' \<mapsto> content]
         \<and> inspect_ipa demo_lib (\<lambda>_. False)
             [''1.ipa'' \<mapsto> ''com.a'', ''apps/.7.upload'' \<mapsto> content] ''apps/.7.upload'' = Inr md)"
proof -
  have "7 \<notin> ar_id ` set (db_apps (sv_db demo_server))" "\<not> sv_db_fault demo_server"
    "''dcom.a'' \<notin> ar_sha256 ` set (db_apps (sv_db demo_server))"
    "''apps/7.ipa'' \<notin> ar_storage_path ` set (db_apps (sv_db demo_server))"
    "sv_fs demo_server ''apps/.7.upload'' = None" "sv_fs demo_server ''apps/7.ipa'' = None"
    by (simp_all add: demo_server_def demo_db_eval)
  note run = demo_upload [OF this(1,3,4,2,5)] and paths = this(5,6)
  from upload_all_or_nothing [OF run] paths run show ?thesis
    by (auto simp: demo_paths demo_server_def)
qed

section \<open>Deleting an IPA\<close>

lemma restore_after_delete:
  assumes "distinct (map ar_id rows)" "a \<in> set rows" "ar_id a = aid" "ar_deleted_at a = None"
  shows "update_rows (\<lambda>a. ar_id a = aid) (\<lambda>a. a\<lparr>ar_deleted_at := None\<rparr>)
      (update_rows (\<lambda>a. ar_id a = aid \<and> ar_deleted_at a = None) (\<lambda>a. a\<lparr>ar_deleted_at := t\<rparr>) rows) = rows"
proof -
  have "b = a" if "b \<in> set rows" "ar_id b = aid" for b
    using assms that by (metis inj_on_eq_iff distinct_map)
  then have "\<forall>b \<in> set rows. ar_id b = aid \<longrightarrow> ar_deleted_at b = None" using assms(4) by auto
  then show ?thesis by (induction rows) (auto simp: update_rows_def)
qed

lemma ball_update_rows:
  "(\<forall>x \<in> set (update_rows P f rs). Q x) \<longleftrightarrow> (\<forall>r \<in> set rs. Q (if P r then f r else r))"
  unfolding update_rows_def set_map ball_simps ..

lemma app_path_SomeD:
  "app_path d aid = Some p \<Longrightarrow>
     \<exists>a \<in> set (db_apps d). ar_id a = aid \<and> ar_deleted_at a = None \<and> ar_storage_path a = p"
  by (auto simp: app_path_def find_Some_iff split: option.splits)

lemma app_path_None_iff:
  "app_path d aid = None \<longleftrightarrow> (\<forall>a \<in> set (db_apps d). ar_id a = aid \<longrightarrow> ar_deleted_at a \<noteq> None)"
proof -
  have "app_path d aid = None \<longleftrightarrow> find (\<lambda>a. ar_id a = aid \<and> ar_deleted_at a = None) (db_apps d) = None"
    by (simp add: app_path_def split: option.split)
  also have "\<dots> \<longleftrightarrow> \<not> (\<exists>a. a \<in> set (db_apps d) \<and> ar_id a = aid \<and> ar_deleted_at a = None)"
    by (simp only: find_None_iff)
  finally show ?thesis by auto
qed

lemma delete_ipa_cases:
  obtains (fault) "sv_db_fault srv" "delete_ipa fault now aid srv = (message 500 ''Unable to remove the IPA.'', srv)"
  | (missing) "\<not> sv_db_fault srv" "app_path (sv_db srv) aid = None"
      "delete_ipa fault now aid srv = (message 404 ''Uploaded IPA was not found.'', srv)"
  | (active) "\<not> sv_db_fault srv" "active_job_exists_for_app (sv_db srv) aid"
      "delete_ipa fault now aid srv = (message 409
        ''This IPA cannot be removed while an installation or refresh job is active.'', srv)"
  | (delete) p d where "\<not> sv_db_fault srv" "app_path (sv_db srv) aid = Some p"
      "\<not> active_job_exists_for_app (sv_db srv) aid"
      "mark_app_deleted now aid (sv_db srv) = (ReadyToDelete p, d)"
      "delete_ipa fault now aid srv =
          (case fs_remove fault (sv_fs srv) p of
             Inr fs' \<Rightarrow> (Response 204 None, srv\<lparr>sv_db := d, sv_fs := fs'\<rparr>)
           | Inl NotFound \<Rightarrow> (Response 204 None, srv\<lparr>sv_db := d\<rparr>)
           | Inl OtherIo \<Rightarrow> (message 500 ''Unable to remove the IPA file from server storage.'',
               srv\<lparr>sv_db := restore_app aid d\<rparr>))"
proof (cases "sv_db_fault srv")
  case True
  with fault show ?thesis by (simp add: delete_ipa_def write_db_def)
next
  case False
  show ?thesis
  proof (cases "mark_app_deleted now aid (sv_db srv)")
    case (Pair v d)
    show ?thesis
    proof (cases v)
      case (ReadyToDelete p)
      with Pair False show ?thesis
        by (intro delete [of p d])
          (auto simp: delete_ipa_def write_db_def mark_app_deleted_def
            split: option.splits if_splits sum.splits io_error.splits)
    next
      case ActiveJob
      with Pair False show ?thesis
        by (intro active) (auto simp: delete_ipa_def write_db_def mark_app_deleted_def
            split: option.splits if_splits)
    next
      case AppNotFound
      with Pair False show ?thesis
        by (intro missing) (auto simp: delete_ipa_def write_db_def mark_app_deleted_def
            split: option.splits if_splits)
    qed
  qed
qed

text \<open>
  What deleting an IPA does. 204: the app had no active job, is no longer offered, its file
  is gone and no source linked to it downloads automatically any more. 404 and 409: nothing
  changes. 500: the apps, the jobs and the files are as before.
\<close>

theorem delete_ipa_outcomes:
  assumes run: "delete_ipa fault now aid srv = (r, srv')" and ok: "db_ok (sv_db srv)"
  shows "resp_status r = 204 \<and> \<not> active_job_exists_for_app (sv_db srv) aid
      \<and> app_path (sv_db srv') aid = None
      \<and> map_option (sv_fs srv') (app_path (sv_db srv) aid) = Some None
      \<and> filter (\<lambda>s. sr_app_id s = Some aid \<and> sr_auto_download s) (db_sources (sv_db srv')) = []
    \<or> resp_status r \<in> {404, 409} \<and> srv' = srv
    \<or> resp_status r = 500 \<and> db_apps (sv_db srv') = db_apps (sv_db srv)
      \<and> db_jobs (sv_db srv') = db_jobs (sv_db srv) \<and> sv_fs srv' = sv_fs srv"
proof (cases rule: delete_ipa_cases [of srv fault now aid])
  case (delete p d)
  from app_path_SomeD [OF delete(2)] obtain a where a: "a \<in> set (db_apps (sv_db srv))"
    "ar_id a = aid" "ar_deleted_at a = None" "ar_storage_path a = p" by blast
  from delete(4) have d: "d = snd (mark_app_deleted now aid (sv_db srv))" by simp
  from ok have "distinct (map ar_id (db_apps (sv_db srv)))" by (simp add: db_ok_def apps_ok_def)
  note restore = restore_after_delete [OF this a(1-3)]
  have rows: "db_apps d = update_rows (\<lambda>a. ar_id a = aid \<and> ar_deleted_at a = None)
        (\<lambda>a. a\<lparr>ar_deleted_at := Some now\<rparr>) (db_apps (sv_db srv))"
    and srcs: "db_sources d = update_rows (\<lambda>s. sr_app_id s = Some aid)
        (\<lambda>s. s\<lparr>sr_auto_download := False, sr_auto_acknowledged_at := None, sr_updated_at := now\<rparr>)
        (db_sources (sv_db srv))"
    by (simp_all add: d mark_app_deleted_def delete(2,3))
  have gone: "app_path d aid = None"
    by (simp add: app_path_None_iff rows ball_update_rows)
  have off: "filter (\<lambda>s. sr_app_id s = Some aid \<and> sr_auto_download s) (db_sources d) = []"
    by (simp add: srcs filter_empty_conv ball_update_rows)
  have apps: "db_apps (restore_app aid d) = db_apps (sv_db srv)" "db_jobs d = db_jobs (sv_db srv)"
    by (simp_all add: restore_app_def rows restore) (simp add: d mark_app_deleted_def delete(2,3))
  show ?thesis
  proof (cases "fs_remove fault (sv_fs srv) p")
    case (Inr fs')
    then have "fs' p = None" by (auto simp: fs_remove_def split: if_splits)
    moreover from Inr run delete(5) have "r = Response 204 None" "srv' = srv\<lparr>sv_db := d, sv_fs := fs'\<rparr>"
      by auto
    ultimately show ?thesis using delete(2,3) gone off by simp
  next
    case (Inl err)
    show ?thesis
    proof (cases err)
      case NotFound
      with Inl have "sv_fs srv p = None" by (auto simp: fs_remove_def split: if_splits)
      moreover from Inl NotFound run delete(5) have "r = Response 204 None" "srv' = srv\<lparr>sv_db := d\<rparr>"
        by auto
      ultimately show ?thesis using delete(2,3) gone off by simp
    next
      case OtherIo
      with Inl run delete(5) have "resp_status r = 500" "srv' = srv\<lparr>sv_db := restore_app aid d\<rparr>" by auto
      with apps show ?thesis by (simp add: restore_app_def)
    qed
  qed
qed (use run in auto)

lemma demo_delete:
  "\<exists>d. delete_ipa (\<lambda>_. False) 60 1 demo_server
      = (Response 204 None, \<lparr>sv_db = d, sv_db_fault = False, sv_fs = Map.empty\<rparr>)
    \<and> map ar_id (db_apps d) = [1] \<and> map ar_sha256 (db_apps d) = [''aa'']
    \<and> map ar_storage_path (db_apps d) = [''1.ipa'']"
  by (simp add: delete_ipa_def demo_server_def demo_db_eval write_db_def mark_app_deleted_def
      app_path_def active_job_exists_for_app_def is_active_def active_phases_def update_rows_def
      fs_remove_def)

theorem delete_ipa_outcomes_witness:
  "let (r, srv') = delete_ipa (\<lambda>_. False) 60 1 demo_server in
     resp_status r = 204 \<and> app_path (sv_db srv') 1 = None
     \<and> map_option (sv_fs srv') (app_path (sv_db demo_server) 1) = Some None"
proof -
  from demo_delete obtain d where del: "delete_ipa (\<lambda>_. False) 60 1 demo_server
      = (Response 204 None, \<lparr>sv_db = d, sv_db_fault = False, sv_fs = Map.empty\<rparr>)" by blast
  have "db_ok (sv_db demo_server)" using reachable_db_ok [OF demo_db_reachable] by (simp add: demo_server_def)
  from delete_ipa_outcomes [OF del this] del show ?thesis by simp
qed

lemma finish_inspection_sha256: "finish_inspection h n st = Inr md \<Longrightarrow> md_sha256 md = h"
  by (auto simp: finish_inspection_def split: if_splits option.splits)

lemma inspect_ipa_sha256:
  "inspect_ipa lib fault (fs(p := Some content)) p = Inr md \<Longrightarrow> md_sha256 md = lib_sha256 lib content"
  by (auto simp: inspect_ipa_def sum_bind_eq_Inr dest: finish_inspection_sha256
      split: if_splits option.splits)

lemma delete_ipa_keeps_hash:
  assumes "delete_ipa fault now aid srv = (Response 204 None, srv1)" "a \<in> set (db_apps (sv_db srv))" "ar_id a = aid"
  shows "\<exists>b \<in> set (db_apps (sv_db srv1)). ar_id b = aid \<and> ar_sha256 b = ar_sha256 a"
proof (cases rule: delete_ipa_cases [of srv fault now aid])
  case (delete p d)
  from delete(5) assms(1) have "sv_db srv1 = d"
    by (cases "fs_remove fault (sv_fs srv) p") (auto simp: message_def split: io_error.splits)
  moreover have "\<exists>b \<in> set (db_apps d). ar_id b = aid \<and> ar_sha256 b = ar_sha256 a"
    using delete(2-4) assms(2,3)
    by (intro bexI [of _ "if ar_deleted_at a = None then a\<lparr>ar_deleted_at := Some now\<rparr> else a"])
       (auto simp: mark_app_deleted_def update_rows_def)
  ultimately show ?thesis by simp
qed (use assms(1) in \<open>simp_all add: message_def\<close>)

text \<open>
  Of the statements that write to the store, only \<^verbatim>\<open>replace_app_from_source\<close> for the app itself
  rewrites the hash of its row, and none removes the row.
\<close>

fun replaces :: "uuid \<Rightarrow> store_op \<Rightarrow> bool" where
  "replaces aid (ReplaceApp now a s sha p n b v ri rt ai an) = (a = aid)"
| "replaces aid x = False"

abbreviation holds_hash :: "uuid \<Rightarrow> string \<Rightarrow> db \<Rightarrow> bool" where
  "holds_hash aid h d \<equiv> \<exists>b \<in> set (db_apps d). ar_id b = aid \<and> ar_sha256 b = h"

lemma holds_hash_update_rows:
  assumes "\<exists>b \<in> set rows. ar_id b = aid \<and> ar_sha256 b = h"
    and "\<And>b. ar_id (f b) = ar_id b" "\<And>b. P b \<Longrightarrow> ar_id b = aid \<Longrightarrow> ar_sha256 (f b) = ar_sha256 b"
  shows "\<exists>b \<in> set (update_rows P f rows). ar_id b = aid \<and> ar_sha256 b = h"
proof -
  from assms(1) obtain b where "b \<in> set rows" "ar_id b = aid" "ar_sha256 b = h" by blast
  with assms(2,3) show ?thesis
    by (intro bexI [of _ "if P b then f b else b"]) (auto simp: update_rows_def)
qed

lemma store_op_keeps_hash:
  assumes "\<not> replaces aid x" "holds_hash aid h d"
  shows "holds_hash aid h (apply_store_op x d)"
proof (cases x)
  case (InsertApp now i sha p n b nm v)
  with assms(2) show ?thesis by (auto simp: keep_def insert_app_def)
next
  case (SetAppBundleId i b)
  with assms(2) show ?thesis by (auto simp: set_app_bundle_id_def intro!: holds_hash_update_rows)
next
  case (MarkAppDeleted now i)
  with assms(2) show ?thesis
    by (auto simp: mark_app_deleted_def split: option.splits intro!: holds_hash_update_rows)
next
  case (RestoreApp i)
  with assms(2) show ?thesis by (auto simp: restore_app_def intro!: holds_hash_update_rows)
next
  case (RenameApp i n)
  with assms(2) show ?thesis by (auto simp: rename_app_def Let_def intro!: holds_hash_update_rows)
next
  case (ReplaceApp now a s sha p n b v ri rt ai an)
  with assms show ?thesis
    by (auto simp: keep_def replace_app_from_source_def split: sum.splits option.splits
        intro!: holds_hash_update_rows)
next
  case (UpdateSource now i a ow r p pre)
  with assms(2) show ?thesis by (auto simp: update_github_source_def Let_def split: sum.splits option.splits if_splits)
qed (use assms(2) in \<open>auto simp: keep_def set_refresh_after_days_def insert_job_def update_job_status_def
    set_job_failure_def set_job_installed_bundle_id_def forget_managed_installation_def
    restore_managed_installation_def insert_github_source_def delete_github_source_def
    link_github_source_app_def set_source_automation_def record_source_check_def Let_def
    split: sum.splits option.splits if_splits\<close>)

lemma store_ops_keep_hash:
  assumes "holds_hash aid h d" "list_all (\<lambda>x. \<not> replaces aid x) ops"
  shows "holds_hash aid h (fold apply_store_op ops d)"
  using assms by (induction ops arbitrary: d) (simp_all add: store_op_keeps_hash)

text \<open>
  C38: The file of an app whose deletion was answered with 204 cannot be uploaded again until a linked
  source replaces the app. Whatever other statements the store has run since then, an upload that is
  answered with 201 stores content with another hash: the deleted row keeps its unique
  \<^verbatim>\<open>sha256\<close>. (A download by \<^verbatim>\<open>replace_app_from_source\<close> for this very app gives the row another
  hash and revives it; the theorem does not speak of what comes after one.)
\<close>

theorem deleted_ipa_not_uploadable:
  assumes del: "delete_ipa fault now aid srv = (Response 204 None, srv1)"
    and deleted: "a \<in> set (db_apps (sv_db srv))" "ar_id a = aid"
    and later: "sv_db later = fold apply_store_op ops (sv_db srv1)" "list_all (\<lambda>x. \<not> replaces aid x) ops"
    and up: "upload_ipa e dir new parts later = (r, srv2)" "resp_status r = 201"
    and free: "sv_fs later (upload_temporary (je_show_uuid e) dir new) = None"
      "sv_fs later (upload_final (je_show_uuid e) dir new) = None"
    and removable: "\<And>p. \<not> je_fault e (IoRemove p)"
  shows "\<exists>content. sv_fs srv2 (upload_final (je_show_uuid e) dir new) = Some content
    \<and> lib_sha256 (je_lib e) content \<noteq> ar_sha256 a"
proof -
  from store_ops_keep_hash [OF delete_ipa_keeps_hash [OF del deleted] later(2)] later(1)
  have kept: "ar_sha256 a \<in> ar_sha256 ` set (db_apps (sv_db later))" by (auto intro: rev_image_eqI)
  from upload_ipa_outcome [OF up(1) free removable] up(2) obtain content md name where
    stored: "sv_fs srv2 = (sv_fs later)(upload_final (je_show_uuid e) dir new := Some content)"
    and md: "inspect_ipa (je_lib e) (je_fault e)
        ((sv_fs later)(upload_temporary (je_show_uuid e) dir new := Some content))
        (upload_temporary (je_show_uuid e) dir new) = Inr md"
    and ins: "insert_app (je_now e) new (md_sha256 md) (upload_final (je_show_uuid e) dir new)
        (md_size_bytes md) (md_bundle_id md) name (md_app_version md) (sv_db later) = Inr (sv_db srv2)"
    by auto
  from ins have "md_sha256 md \<notin> ar_sha256 ` set (db_apps (sv_db later))"
    by (auto simp: insert_app_def split: if_splits)
  moreover from md have "md_sha256 md = lib_sha256 (je_lib e) content"
    by (rule inspect_ipa_sha256)
  ultimately show ?thesis using stored kept by auto
qed

theorem deleted_ipa_not_uploadable_witness:
  "let (r1, srv1) = delete_ipa (\<lambda>_. False) 60 1 demo_server;
       (r2, srv2) = upload_ipa demo_env ''apps'' 7 demo_upload_parts srv1 in
     resp_status r1 = 204 \<and> resp_status r2 = 201
     \<and> (\<exists>content. sv_fs srv2 ''apps/7.ipa'' = Some content \<and> lib_sha256 demo_lib content \<noteq> ''aa'')"
proof -
  from demo_delete obtain d where del: "delete_ipa (\<lambda>_. False) 60 1 demo_server
      = (Response 204 None, \<lparr>sv_db = d, sv_db_fault = False, sv_fs = Map.empty\<rparr>)"
    and rows: "map ar_id (db_apps d) = [1]" "map ar_sha256 (db_apps d) = [''aa'']"
      "map ar_storage_path (db_apps d) = [''1.ipa'']" by (elim exE conjE) (rule that)
  let ?srv1 = "\<lparr>sv_db = d, sv_db_fault = False, sv_fs = Map.empty\<rparr>"
  have "7 \<notin> ar_id ` set (db_apps (sv_db ?srv1))" "''dcom.a'' \<notin> ar_sha256 ` set (db_apps (sv_db ?srv1))"
    "''apps/7.ipa'' \<notin> ar_storage_path ` set (db_apps (sv_db ?srv1))"
    using rows by (simp_all flip: set_map)
  from demo_upload [OF this] obtain srv2 b where
    up: "upload_ipa demo_env ''apps'' 7 demo_upload_parts ?srv1 = (Response 201 b, srv2)" by simp
  obtain a where a: "a \<in> set (db_apps (sv_db demo_server))" "ar_id a = 1" "ar_sha256 a = ''aa''"
    by (simp add: demo_server_def demo_db_eval)
  have "sv_db ?srv1 = fold apply_store_op [RenameApp 3 ''b''] (sv_db ?srv1)"
    using rows by (auto simp: rename_app_def update_rows_def intro!: db.equality map_idI [symmetric])
  from deleted_ipa_not_uploadable [OF del a(1,2) this _ up] a(3) del up show ?thesis
    by (auto simp: demo_paths)
qed

end
