(* ===== verification/JobsContract.thy ===== *)
theory JobsContract
  imports Uploads Sessions
begin

text \<open>
  Jobs as a concurrent system: the server with the tasks it has spawned, each with the database
  writes it still has to do. A step is one section under the database lock: a handler queues a
  job, a task performs its next write or fails to, an aborted signing task writes its progress
  late, a finished task goes away, or another request changes the store. The invariant ties every
  active job row to a task that will end it, but for the jobs set back by a late progress write
  and those whose last write failed; from it follow that the app of a running job is never
  deleted and that an idle server blocks no other job. A restart drops the tasks and keeps the
  rows, and a late progress write reopens a row whose task has ended: both strand the job.
\<close>

section \<open>The system\<close>

text \<open>
  A task: what it was spawned with, the writes of \<^verbatim>\<open>run_install_job\<close> still to come, and the
  progress a signing task may still report after the run has given it up. \<open>sy_astray\<close> is no state
  of the program. It records which rows no longer follow their task: a late progress write came
  after the last write, or the last write failed.
\<close>

type_synonym job_task = "install_task \<times> job_write list \<times> u8 list"

record system =
  sy_server :: server
  sy_tasks :: "job_task list"
  sy_astray :: "uuid set"

text \<open>
  A run whose signing does not end before its deadline aborts the signing task and reports
  \<^const>\<open>IpaSigningFailed\<close> (stage \<^const>\<open>InSigning\<close>). The abort takes effect at the next point where
  the task waits; until then it runs on, up to the \<^verbatim>\<open>progress(40)\<close> after the snapshot of the signed
  app, and nothing orders this against the last two writes of the run.
\<close>

definition spawned_task ::
  "install_task \<Rightarrow> bool \<Rightarrow> u8 list \<Rightarrow> transport_error + string \<Rightarrow> u8 list \<Rightarrow> job_task" where
  "spawned_task t ipa_is_file progress result late =
     (t, run_install_job ipa_is_file progress result,
      if ipa_is_file \<and> result = Inl IpaSigningFailed then late else [])"

text \<open>
  The writes ignore their errors. \<open>first\<close> and \<open>second\<close> tell which of the two statements of
  \<^const>\<open>WInstalled\<close> went through when the section did not succeed as a whole.
\<close>

fun failing_job_write :: "bool \<Rightarrow> bool \<Rightarrow> install_task \<Rightarrow> job_write \<Rightarrow> db \<Rightarrow> db" where
  "failing_job_write first second t (WInstalled bundle_id) d =
     (let d1 = if first then set_job_installed_bundle_id (it_job t) bundle_id d else d
      in if second then restore_managed_installation (it_app t) (it_device t) d1 else d1)"
| "failing_job_write first second t w d = d"

text \<open>The callback of the installation, which the signing task holds.\<close>

definition late_progress :: "timestamp \<Rightarrow> install_task \<Rightarrow> u8 \<Rightarrow> db \<Rightarrow> db" where
  "late_progress now t p = apply_job_write now t (WStatus (progress_phase p) (Some p))"

text \<open>The store operations only the job handlers and the job task perform.\<close>

fun job_op :: "store_op \<Rightarrow> bool" where
  "job_op (InsertJob _ _ _ _ _) = True"
| "job_op (UpdateJobStatus _ _ _ _) = True"
| "job_op (SetJobFailure _ _) = True"
| "job_op (SetJobInstalledBundleId _ _) = True"
| "job_op _ = False"

text \<open>
  \<open>queued\<close>: \<open>create_install_job\<close> saw the server as \<open>before\<close> while it checked the request; other
  steps happened until it took the lock for its second section. \<open>refreshed\<close> is one round of the
  loop of \<open>trigger_refresh\<close>; the app is not deleted because the handler holds the read half of
  \<^verbatim>\<open>app_mutation\<close> since it read the targets. What the task will write depends on the installation
  it runs, so any outcome is possible. A task may stop taking steps for good, as one does that
  waits for an answer without a deadline: nothing here says that a job ends. \<open>late\<close> and
  \<open>late_failed\<close> are possible once the run has given up waiting, when only its last two writes
  are left.
\<close>

inductive system_step :: "system \<Rightarrow> system \<Rightarrow> bool" where
  queued: "create_install_job e (\<lambda>_. sy_server s) job app dv before = (r, srv', Some t) \<Longrightarrow>
     system_step s (s\<lparr>sy_server := srv',
       sy_tasks := sy_tasks s @ [spawned_task t f progress result late]\<rparr>)"
| refreshed: "write_db (sy_server s) (queue_refresh now job app dv label) = (Some True, srv') \<Longrightarrow>
     app_path (sv_db (sy_server s)) app = Some p \<Longrightarrow>
     system_step s (s\<lparr>sy_server := srv', sy_tasks := sy_tasks s
       @ [spawned_task \<lparr>it_job = job, it_app = app, it_device = dv, it_path = p\<rparr> f progress result late]\<rparr>)"
| worked: "sy_tasks s = before @ (t, w # ws, late) # after \<Longrightarrow>
     system_step s (s\<lparr>sy_server := (sy_server s)\<lparr>sv_db := apply_job_write now t w (sv_db (sy_server s))\<rparr>,
       sy_tasks := before @ (t, ws, late) # after\<rparr>)"
| failed: "sy_tasks s = before @ (t, w # ws, late) # after \<Longrightarrow>
     system_step s (s\<lparr>sy_server := (sy_server s)\<lparr>sv_db := failing_job_write g h t w (sv_db (sy_server s))\<rparr>,
       sy_tasks := before @ (t, ws, late) # after,
       sy_astray := (if ws = [] then insert (it_job t) (sy_astray s) else sy_astray s)\<rparr>)"
| late: "sy_tasks s = before @ (t, ws, p # late) # after \<Longrightarrow> length ws \<le> 2 \<Longrightarrow>
     system_step s (s\<lparr>sy_server := (sy_server s)\<lparr>sv_db := late_progress now t p (sv_db (sy_server s))\<rparr>,
       sy_tasks := before @ (t, ws, late) # after,
       sy_astray := (if ws = [] then insert (it_job t) (sy_astray s) else sy_astray s)\<rparr>)"
| late_failed: "sy_tasks s = before @ (t, ws, p # late) # after \<Longrightarrow>
     system_step s (s\<lparr>sy_tasks := before @ (t, ws, late) # after\<rparr>)"
| finished: "sy_tasks s = before @ (t, [], []) # after \<Longrightarrow>
     system_step s (s\<lparr>sy_tasks := before @ after\<rparr>)"
| stored: "\<not> job_op x \<Longrightarrow>
     system_step s (s\<lparr>sy_server := (sy_server s)\<lparr>sv_db := apply_store_op x (sv_db (sy_server s)), sv_fs := files\<rparr>\<rparr>)"

inductive_cases system_stepE: "system_step s s'"

definition started :: "server \<Rightarrow> system" where
  "started srv = \<lparr>sy_server = srv, sy_tasks = [], sy_astray = {}\<rparr>"

text \<open>The process ends and starts again: the tasks are gone, \<open>initialize\<close> runs on the database.\<close>

definition restart :: "(uuid \<Rightarrow> string) \<Rightarrow> system \<Rightarrow> system" where
  "restart show_uuid s =
     started ((sy_server s)\<lparr>sv_db := initialize show_uuid (sv_db (sy_server s))\<rparr>)"

section \<open>What a task writes\<close>

fun ends_job :: "job_write list \<Rightarrow> bool" where
  "ends_job [] = False"
| "ends_job (w # ws) =
     (if ws = [] then (case w of WStatus phase _ \<Rightarrow> terminal_phase phase | _ \<Rightarrow> False)
      else (case w of WStatus phase _ \<Rightarrow> phase \<in> set active_phases | _ \<Rightarrow> True) \<and> ends_job ws)"

lemma active_not_terminal: "p \<in> set active_phases \<Longrightarrow> \<not> terminal_phase p"
  by (auto simp: active_phases_def terminal_phase_def)

lemma active_progress_phase: "progress_phase p \<in> set active_phases"
  by (simp add: progress_phase_def active_phases_def)

lemma ends_job_progress:
  "ends_job (map (\<lambda>p. WStatus (progress_phase p) (Some p)) ps @ ws) \<longleftrightarrow> ends_job ws" if "ws \<noteq> []"
  using that by (induction ps) (simp_all add: active_progress_phase)

lemma run_install_job_ends: "ends_job (run_install_job f progress result)"
proof -
  have "ends_job (case result of Inr bundle_id \<Rightarrow> [WInstalled bundle_id, WStatus ''succeeded'' (Some 100)]
      | Inl error \<Rightarrow> [WFailure (failure_code error), WStatus ''failed'' None])"
    by (simp add: terminal_phase_def split: sum.split)
  moreover have "(case result of Inr bundle_id \<Rightarrow> [WInstalled bundle_id, WStatus ''succeeded'' (Some 100)]
      | Inl error \<Rightarrow> [WFailure (failure_code error), WStatus ''failed'' None]) \<noteq> []"
    by (simp split: sum.split)
  ultimately show ?thesis
    by (simp add: run_install_job_def ends_job_progress active_phases_def terminal_phase_def)
qed

fun write_row :: "timestamp \<Rightarrow> job_write \<Rightarrow> job_row \<Rightarrow> job_row" where
  "write_row now (WStatus phase progress) j =
     (if terminal_phase phase
      then j\<lparr>jr_phase := phase, jr_progress_percent := progress, jr_completed_at := Some now\<rparr>
      else j\<lparr>jr_phase := phase, jr_progress_percent := progress\<rparr>)"
| "write_row now (WFailure code) j = j\<lparr>jr_failure_code := Some code\<rparr>"
| "write_row now (WInstalled b) j = j\<lparr>jr_installed_bundle_id := Some b\<rparr>"

lemma apply_job_write_rows:
  "db_jobs (apply_job_write now t w d) = update_rows (\<lambda>j. jr_id j = it_job t) (write_row now w) (db_jobs d)"
  "db_apps (apply_job_write now t w d) = db_apps d"
  by (cases w; simp add: update_job_status_def set_job_failure_def set_job_installed_bundle_id_def
      restore_managed_installation_def update_rows_def)+

lemma update_rows_id: "update_rows P id rs = rs"
  by (simp add: update_rows_def cong: if_cong)

lemma failing_job_write_rows:
  "\<exists>f. (\<forall>j. jr_id (f j) = jr_id j \<and> jr_app_id (f j) = jr_app_id j \<and> jr_device_id (f j) = jr_device_id j
        \<and> jr_phase (f j) = jr_phase j)
     \<and> db_jobs (failing_job_write g h t w d) = update_rows (\<lambda>j. jr_id j = it_job t) f (db_jobs d)"
proof (cases w)
  case (WInstalled b)
  show ?thesis
  proof (cases g)
    case True
    with WInstalled show ?thesis
      by (intro exI [of _ "\<lambda>j. j\<lparr>jr_installed_bundle_id := Some b\<rparr>"])
        (simp add: set_job_installed_bundle_id_def restore_managed_installation_def update_rows_def Let_def)
  next
    case False
    with WInstalled show ?thesis
      by (intro exI [of _ id]) (simp add: restore_managed_installation_def update_rows_id Let_def)
  qed
qed (auto intro!: exI [of _ id] simp: update_rows_id)

lemma failing_job_write_apps: "db_apps (failing_job_write g h t w d) = db_apps d"
  by (cases w) (simp_all add: set_job_installed_bundle_id_def restore_managed_installation_def Let_def)

lemma late_progress_rows:
  "db_jobs (late_progress now t p d)
     = update_rows (\<lambda>j. jr_id j = it_job t) (write_row now (WStatus (progress_phase p) (Some p))) (db_jobs d)"
  "db_apps (late_progress now t p d) = db_apps d"
  unfolding late_progress_def by (rule apply_job_write_rows)+

lemma write_row_keeps [simp]:
  "jr_id (write_row now w j) = jr_id j" "jr_app_id (write_row now w j) = jr_app_id j"
  "jr_device_id (write_row now w j) = jr_device_id j"
  by (cases w; simp)+

lemma write_row_phase:
  "jr_phase (write_row now w j) = (case w of WStatus phase _ \<Rightarrow> phase | _ \<Rightarrow> jr_phase j)"
  by (cases w) simp_all

section \<open>The invariant\<close>

fun task_ok :: "uuid set \<Rightarrow> db \<Rightarrow> job_task \<Rightarrow> bool" where
  "task_ok astray d (t, ws, late) \<longleftrightarrow> (\<exists>j \<in> set (db_jobs d). jr_id j = it_job t \<and> jr_app_id j = it_app t
     \<and> jr_device_id j = it_device t
     \<and> (if ws = [] then terminal_phase (jr_phase j) \<or> it_job t \<in> astray
        else is_active j \<and> ends_job ws \<and> app_path d (it_app t) \<noteq> None))"

definition task_job :: "job_task \<Rightarrow> uuid" where
  "task_job x = it_job (fst x)"

definition system_ok :: "system \<Rightarrow> bool" where
  "system_ok s \<longleftrightarrow> (let d = sv_db (sy_server s) in
     db_ok d \<and> \<not> sv_db_fault (sy_server s) \<and> distinct (map task_job (sy_tasks s))
     \<and> (\<forall>x \<in> set (sy_tasks s). task_ok (sy_astray s) d x)
     \<and> (\<forall>j \<in> set (db_jobs d). is_active j \<longrightarrow>
          jr_id j \<in> task_job ` set (sy_tasks s) \<union> sy_astray s))"

definition app_kept :: "db \<Rightarrow> db \<Rightarrow> bool" where
  "app_kept d d' \<longleftrightarrow> (\<forall>a. app_path d a \<noteq> None \<longrightarrow> active_job_exists_for_app d a \<longrightarrow> app_path d' a \<noteq> None)"

lemma is_active_iff: "is_active j \<longleftrightarrow> jr_phase j \<in> set active_phases"
  by (simp add: is_active_def)

lemma active_job_exists_for_appI:
  "j \<in> set (db_jobs d) \<Longrightarrow> is_active j \<Longrightarrow> active_job_exists_for_app d (jr_app_id j)"
  by (auto simp: active_job_exists_for_app_def list_ex_iff)

lemma task_ok_kept:
  assumes "task_ok A d x" "db_jobs d' = db_jobs d" "app_kept d d'"
  shows "task_ok A d' x"
proof (cases x rule: prod_cases3)
  case (fields t ws late)
  with assms(1) obtain j where j: "j \<in> set (db_jobs d)" "jr_id j = it_job t" "jr_app_id j = it_app t"
    "jr_device_id j = it_device t"
    "if ws = [] then terminal_phase (jr_phase j) \<or> it_job t \<in> A
     else is_active j \<and> ends_job ws \<and> app_path d (it_app t) \<noteq> None" by auto
  have "app_path d' (it_app t) \<noteq> None" if "ws \<noteq> []"
    using that j assms(3) active_job_exists_for_appI [OF j(1)] by (auto simp: app_kept_def)
  with j fields assms(2) show ?thesis by (auto split: if_splits)
qed

lemma app_path_rows:
  "app_path d a \<noteq> None \<longleftrightarrow> (\<exists>r \<in> set (db_apps d). ar_id r = a \<and> ar_deleted_at r = None)"
  using app_path_None_iff [of d a] by auto

lemma bex_update_rows:
  "(\<exists>x \<in> set (update_rows P f rs). Q x) \<longleftrightarrow> (\<exists>r \<in> set rs. Q (if P r then f r else r))"
  unfolding update_rows_def set_map bex_simps ..

lemma app_path_update:
  "(\<And>r. ar_id (f r) = ar_id r) \<Longrightarrow> (\<And>r. ar_deleted_at r = None \<Longrightarrow> ar_deleted_at (f r) = None) \<Longrightarrow>
   app_path d a \<noteq> None \<Longrightarrow> app_path (put_apps (update_rows P f (db_apps d)) d) a \<noteq> None"
  unfolding app_path_rows by (simp add: bex_update_rows) (metis (full_types))

lemma app_path_same: "db_apps d' = db_apps d \<Longrightarrow> app_path d' a = app_path d a"
  by (simp add: app_path_def)

lemma app_kept_same: "db_apps d' = db_apps d \<Longrightarrow> app_kept d d'"
  by (simp add: app_kept_def app_path_def)

lemma mark_app_deleted_kept: "app_kept d (snd (mark_app_deleted now i d))"
proof (cases "app_path d i = None \<or> active_job_exists_for_app d i")
  case True
  then have "snd (mark_app_deleted now i d) = d" by (auto simp: mark_app_deleted_def split: option.splits)
  then show ?thesis by (simp add: app_kept_def)
next
  case False
  then have "db_apps (snd (mark_app_deleted now i d)) = update_rows (\<lambda>a. ar_id a = i \<and> ar_deleted_at a = None)
      (\<lambda>a. a\<lparr>ar_deleted_at := Some now\<rparr>) (db_apps d)"
    by (auto simp: mark_app_deleted_def)
  with False show ?thesis
    unfolding app_kept_def app_path_rows by (auto simp: bex_update_rows intro: rev_bexI)
qed

lemma insert_app_kept: "app_kept d (keep d (insert_app now i sha p n b nm v d))"
  unfolding app_kept_def app_path_rows by (auto simp: keep_def insert_app_def)

lemma replace_app_kept: "app_kept d (keep d (replace_app_from_source now a s sha p n b v ri rt ai an d))"
proof (cases "replace_app_from_source now a s sha p n b v ri rt ai an d")
  case (Inr d')
  then have "db_apps d' = update_rows (\<lambda>r. ar_id r = a)
             (\<lambda>r. r\<lparr>ar_sha256 := sha, ar_storage_path := p, ar_size_bytes := n, ar_bundle_id := Some b,
                    ar_app_version := v, ar_deleted_at := None\<rparr>) (db_apps d)"
    by (auto simp: replace_app_from_source_def Let_def split: if_splits)
  with Inr show ?thesis
    unfolding app_kept_def app_path_rows by (auto simp: keep_def bex_update_rows)
qed (simp add: keep_def app_kept_def)

lemma update_apps_kept:
  "(\<And>r. ar_id (f r) = ar_id r) \<Longrightarrow> (\<And>r. ar_deleted_at r = None \<Longrightarrow> ar_deleted_at (f r) = None) \<Longrightarrow>
   app_kept d (put_apps (update_rows P f (db_apps d)) d)"
  unfolding app_kept_def using app_path_update by blast

lemma store_op_kept: "\<not> job_op x \<Longrightarrow> app_kept d (apply_store_op x d)"
proof (cases x)
  case (InsertApp now i sha p n b nm v)
  then show ?thesis by (simp add: insert_app_kept)
next
  case (ReplaceApp now a s sha p n b v ri rt ai an)
  then show ?thesis by (simp add: replace_app_kept)
next
  case (MarkAppDeleted now i)
  then show ?thesis by (simp add: mark_app_deleted_kept)
qed (auto simp: set_app_bundle_id_def restore_app_def rename_app_def Let_def keep_def
    set_refresh_after_days_def forget_managed_installation_def restore_managed_installation_def
    insert_github_source_def update_github_source_def delete_github_source_def
    link_github_source_app_def set_source_automation_def record_source_check_def
    intro: update_apps_kept app_kept_same)

lemma store_op_jobs: "\<not> job_op x \<Longrightarrow> db_jobs (apply_store_op x d) = db_jobs d"
  by (cases x)
    (auto simp: insert_app_def mark_app_deleted_def replace_app_from_source_def
      set_app_bundle_id_def restore_app_def rename_app_def Let_def keep_def
      set_refresh_after_days_def forget_managed_installation_def restore_managed_installation_def
      insert_github_source_def update_github_source_def delete_github_source_def
      link_github_source_app_def set_source_automation_def record_source_check_def
      split: option.splits)

subsection \<open>Every step keeps the invariant\<close>

lemma insert_job_new:
  assumes "insert_job now job app dv label d = Inr d'" "app_path d app \<noteq> None"
  shows "\<exists>row. d' = put_jobs (db_jobs d @ [row]) d \<and> jr_id row = job \<and> jr_app_id row = app
    \<and> jr_device_id row = dv \<and> is_active row \<and> job \<notin> jr_id ` set (db_jobs d)"
proof -
  from assms(2) obtain a where a: "find (\<lambda>a. ar_id a = app \<and> ar_deleted_at a = None) (db_apps d) = Some a"
    by (auto simp: app_path_def split: option.splits)
  then have "ar_id a = app" by (auto simp: find_Some_iff)
  with assms(1) a show ?thesis
    by (auto simp: insert_job_def is_active_def active_phases_def split: if_splits)
qed

lemma task_ok_job: "task_ok A d x \<Longrightarrow> task_job x \<in> jr_id ` set (db_jobs d)"
  by (cases x rule: prod_cases3) (force simp: task_job_def image_iff)

lemma system_ok_add:
  assumes ok: "system_ok s" and ins: "insert_job now (it_job t) (it_app t) (it_device t) label (sv_db (sy_server s)) = Inr d'"
    and app: "app_path (sv_db (sy_server s)) (it_app t) \<noteq> None" and ws: "ends_job ws"
  shows "system_ok (s\<lparr>sy_server := (sy_server s)\<lparr>sv_db := d'\<rparr>, sy_tasks := sy_tasks s @ [(t, ws, late)]\<rparr>)"
proof -
  let ?d = "sv_db (sy_server s)"
  from insert_job_new [OF ins app] obtain row where d': "d' = put_jobs (db_jobs ?d @ [row]) ?d"
    and row: "jr_id row = it_job t" "jr_app_id row = it_app t" "jr_device_id row = it_device t" "is_active row"
    and new: "it_job t \<notin> jr_id ` set (db_jobs ?d)" by blast
  have path: "app_path d' a = app_path ?d a" for a by (simp add: d' app_path_def)
  have old: "task_ok (sy_astray s) d' x" if "x \<in> set (sy_tasks s)" for x
  proof -
    from that ok have "task_ok (sy_astray s) ?d x" by (simp add: system_ok_def Let_def)
    then show ?thesis using path by (cases x rule: prod_cases3) (auto simp: d')
  qed
  have "ws \<noteq> []" using ws by auto
  then have "task_ok (sy_astray s) d' (t, ws, late)" using row ws app path by (auto simp: d')
  moreover have "it_job t \<notin> task_job ` set (sy_tasks s)"
    using new ok task_ok_job by (auto simp: system_ok_def Let_def)
  moreover have "db_ok d'" using insert_job_ok [of ?d now "it_job t" "it_app t" "it_device t" label] ins ok
    by (simp add: keep_def system_ok_def Let_def)
  ultimately show ?thesis using ok old row
    by (auto simp: system_ok_def Let_def task_job_def d')
qed

lemma apply_job_write_ok: "db_ok d \<Longrightarrow> db_ok (apply_job_write now t w d)"
proof (cases w)
  case (WStatus phase progress)
  then show "db_ok d \<Longrightarrow> ?thesis"
    using apply_store_op_ok [of d "UpdateJobStatus now (it_job t) phase progress"] by simp
next
  case (WFailure code)
  then show "db_ok d \<Longrightarrow> ?thesis" using apply_store_op_ok [of d "SetJobFailure (it_job t) code"] by simp
next
  case (WInstalled b)
  then show "db_ok d \<Longrightarrow> ?thesis"
    using apply_store_op_ok [of d "SetJobInstalledBundleId (it_job t) b"]
      apply_store_op_ok [of "set_job_installed_bundle_id (it_job t) b d" "RestoreManaged (it_app t) (it_device t)"]
    by simp
qed

lemma failing_job_write_ok: "db_ok d \<Longrightarrow> db_ok (failing_job_write g h t w d)"
proof (cases w)
  case (WInstalled b)
  assume "db_ok d"
  then have "db_ok (if g then set_job_installed_bundle_id (it_job t) b d else d)"
    using apply_store_op_ok [of d "SetJobInstalledBundleId (it_job t) b"] by simp
  then show ?thesis
    using WInstalled apply_store_op_ok [of _ "RestoreManaged (it_app t) (it_device t)"]
    by (simp add: Let_def)
qed simp_all

lemma late_progress_ok: "db_ok d \<Longrightarrow> db_ok (late_progress now t p d)"
  unfolding late_progress_def by (rule apply_job_write_ok)

text \<open>A write to the row of one job, as the tasks of the others and its own task see it.\<close>

definition row_write :: "uuid \<Rightarrow> (job_row \<Rightarrow> job_row) \<Rightarrow> db \<Rightarrow> db \<Rightarrow> bool" where
  "row_write k f d d' \<longleftrightarrow> db_jobs d' = update_rows (\<lambda>j. jr_id j = k) f (db_jobs d)
     \<and> db_apps d' = db_apps d
     \<and> (\<forall>j. jr_id (f j) = jr_id j \<and> jr_app_id (f j) = jr_app_id j \<and> jr_device_id (f j) = jr_device_id j)"

lemma row_write_apply: "row_write (it_job t) (write_row now w) d (apply_job_write now t w d)"
  by (simp add: row_write_def apply_job_write_rows)

lemma row_write_late:
  "row_write (it_job t) (write_row now (WStatus (progress_phase p) (Some p))) d (late_progress now t p d)"
  unfolding late_progress_def by (rule row_write_apply)

lemma row_write_failing:
  "\<exists>f. row_write (it_job t) f d (failing_job_write g h t w d) \<and> (\<forall>j. jr_phase (f j) = jr_phase j)"
  using failing_job_write_rows [of g h t w d] by (auto simp: row_write_def failing_job_write_apps)

lemma write_other_task:
  assumes "task_ok A d x" "task_job x \<noteq> k" "row_write k f d d'" "A \<subseteq> A'"
  shows "task_ok A' d' x"
proof (cases x rule: prod_cases3)
  case (fields u vs late)
  with assms obtain j where j: "j \<in> set (db_jobs d)" "jr_id j = it_job u" "jr_app_id j = it_app u"
    "jr_device_id j = it_device u"
    "if vs = [] then terminal_phase (jr_phase j) \<or> it_job u \<in> A
     else is_active j \<and> ends_job vs \<and> app_path d (it_app u) \<noteq> None" "it_job u \<noteq> k"
    by (auto simp: task_job_def)
  moreover have "app_path d' a = app_path d a" for a
    using assms(3) by (simp add: app_path_def row_write_def)
  moreover have "db_jobs d' = update_rows (\<lambda>j. jr_id j = k) f (db_jobs d)"
    using assms(3) by (simp add: row_write_def)
  ultimately show ?thesis using assms(4)
    unfolding fields task_ok.simps by (auto simp: bex_update_rows intro!: bexI [of _ j])
qed

lemma write_own_task:
  assumes "task_ok A d (t, vs, late)" "row_write (it_job t) f d d'"
    and "\<And>j. if vs = [] then terminal_phase (jr_phase j) \<or> it_job t \<in> A else is_active j \<and> ends_job vs \<Longrightarrow>
      if ws = [] then terminal_phase (jr_phase (f j)) \<or> it_job t \<in> A'
      else vs \<noteq> [] \<and> is_active (f j) \<and> ends_job ws"
  shows "task_ok A' d' (t, ws, late')"
proof -
  from assms(1) obtain j where j: "j \<in> set (db_jobs d)" "jr_id j = it_job t" "jr_app_id j = it_app t"
    "jr_device_id j = it_device t"
    "if vs = [] then terminal_phase (jr_phase j) \<or> it_job t \<in> A
     else is_active j \<and> ends_job vs \<and> app_path d (it_app t) \<noteq> None" by auto
  then have "if vs = [] then terminal_phase (jr_phase j) \<or> it_job t \<in> A else is_active j \<and> ends_job vs"
    by (auto split: if_splits)
  note new = assms(3) [OF this]
  moreover have "app_path d' a = app_path d a" for a
    using assms(2) by (simp add: app_path_def row_write_def)
  moreover have "db_jobs d' = update_rows (\<lambda>j. jr_id j = it_job t) f (db_jobs d)"
    and "jr_id (f j) = jr_id j" "jr_app_id (f j) = jr_app_id j" "jr_device_id (f j) = jr_device_id j"
    using assms(2) by (simp_all add: row_write_def)
  ultimately show ?thesis using j
    unfolding task_ok.simps by (auto simp: bex_update_rows intro!: bexI [of _ j] split: if_splits)
qed

lemma system_ok_write:
  assumes ok: "system_ok s" and tasks: "sy_tasks s = before @ (t, vs, late) # after"
    and row: "row_write (it_job t) f (sv_db (sy_server s)) d'" and db: "db_ok d'"
    and A: "sy_astray s \<subseteq> A'"
    and own: "\<And>j. if vs = [] then terminal_phase (jr_phase j) \<or> it_job t \<in> sy_astray s
        else is_active j \<and> ends_job vs \<Longrightarrow>
      if ws = [] then terminal_phase (jr_phase (f j)) \<or> it_job t \<in> A'
      else vs \<noteq> [] \<and> is_active (f j) \<and> ends_job ws"
  shows "system_ok (s\<lparr>sy_server := (sy_server s)\<lparr>sv_db := d'\<rparr>,
    sy_tasks := before @ (t, ws, late') # after, sy_astray := A'\<rparr>)"
proof -
  let ?d = "sv_db (sy_server s)"
  from ok tasks have dist: "distinct (map task_job (before @ (t, vs, late) # after))"
    by (simp add: system_ok_def Let_def)
  have other: "task_ok A' d' x" if "x \<in> set before \<union> set after" for x
  proof (rule write_other_task [OF _ _ row A])
    show "task_ok (sy_astray s) ?d x" using that ok tasks by (auto simp: system_ok_def Let_def)
    from dist have "it_job t \<notin> task_job ` (set before \<union> set after)" by (simp add: task_job_def image_Un)
    with that show "task_job x \<noteq> it_job t" by (metis imageI)
  qed
  have "task_ok (sy_astray s) ?d (t, vs, late)" using ok tasks by (simp add: system_ok_def Let_def)
  then have mine: "task_ok A' d' (t, ws, late')" by (rule write_own_task [OF _ row own])
  have active: "jr_id j' \<in> task_job ` set (before @ (t, ws, late') # after) \<union> A'"
    if "j' \<in> set (db_jobs d')" "is_active j'" for j'
  proof -
    from row have rows: "db_jobs d' = update_rows (\<lambda>j. jr_id j = it_job t) f (db_jobs ?d)"
      and keeps: "\<forall>j. jr_id (f j) = jr_id j" by (simp_all add: row_write_def)
    from that(1) obtain j where j: "j \<in> set (db_jobs ?d)"
      and j'_def: "j' = (if jr_id j = it_job t then f j else j)"
      unfolding rows set_update_rows by blast
    note j' = j'_def spec [OF keeps, of j]
    from that(2) j j' A ok tasks show ?thesis
      by (cases "jr_id j = it_job t") (auto simp: system_ok_def Let_def task_job_def)
  qed
  show ?thesis using ok dist other mine active db
    by (simp add: system_ok_def Let_def task_job_def)
qed

lemma system_ok_finish:
  assumes ok: "system_ok s" and tasks: "sy_tasks s = before @ (t, [], late) # after"
  shows "system_ok (s\<lparr>sy_tasks := before @ after\<rparr>)"
proof -
  let ?d = "sv_db (sy_server s)"
  from ok tasks obtain j where j: "j \<in> set (db_jobs ?d)" "jr_id j = it_job t"
    "terminal_phase (jr_phase j) \<or> it_job t \<in> sy_astray s"
    by (auto simp: system_ok_def Let_def)
  from ok have dist: "distinct (map jr_id (db_jobs ?d))" by (simp add: system_ok_def Let_def db_ok_def jobs_ok_def)
  have "jr_id k \<noteq> it_job t \<or> it_job t \<in> sy_astray s" if "k \<in> set (db_jobs ?d)" "is_active k" for k
  proof -
    have "k = j" if "jr_id k = it_job t"
      using that \<open>k \<in> set (db_jobs ?d)\<close> j(1,2) dist by (metis inj_on_eq_iff distinct_map)
    with that(2) j(3) show ?thesis by (auto simp: is_active_iff active_not_terminal)
  qed
  with ok tasks show ?thesis by (auto simp: system_ok_def Let_def task_job_def)
qed

lemma ends_job_cons:
  "is_active j \<Longrightarrow> ends_job (w # ws) \<Longrightarrow>
   (if ws = [] then terminal_phase (jr_phase (write_row now w j))
    else is_active (write_row now w j) \<and> ends_job ws)"
  by (cases w; cases "ws = []") (simp_all add: is_active_iff write_row_phase del: write_row.simps)

lemma progress_active: "is_active (write_row now (WStatus (progress_phase p) q) j)"
  by (simp add: is_active_iff write_row_phase active_progress_phase del: write_row.simps)

lemma system_ok_store:
  assumes "system_ok s" "\<not> job_op x"
  shows "system_ok (s\<lparr>sy_server := (sy_server s)\<lparr>sv_db := apply_store_op x (sv_db (sy_server s)), sv_fs := files\<rparr>\<rparr>)"
  using assms task_ok_kept [OF _ store_op_jobs [OF assms(2)] store_op_kept [OF assms(2)]]
  by (simp add: system_ok_def Let_def apply_store_op_ok store_op_jobs)

lemma create_install_job_task:
  assumes "create_install_job e (\<lambda>_. srv) job app dv before = (r, srv', Some t)"
  shows "\<exists>label d'. srv' = srv\<lparr>sv_db := d'\<rparr> \<and> it_job t = job \<and> it_app t = app \<and> it_device t = dv
    \<and> app_path (sv_db srv) app \<noteq> None
    \<and> insert_job (je_now e) job app dv label (sv_db srv) = Inr d'"
  using assms
  by (auto simp: create_install_job_def write_db_def queue_job_def
      split: if_splits sum.splits option.splits prod.splits) blast

lemma system_step_ok:
  assumes "system_ok s" "system_step s s'"
  shows "system_ok s'"
  using assms(2)
proof cases
  case (queued e job app dv before r srv' t f progress result late)
  from create_install_job_task [OF queued(2)] obtain label d' where
    q: "srv' = (sy_server s)\<lparr>sv_db := d'\<rparr>" "it_job t = job" "it_app t = app" "it_device t = dv"
    "app_path (sv_db (sy_server s)) app \<noteq> None"
    "insert_job (je_now e) job app dv label (sv_db (sy_server s)) = Inr d'" by blast
  show ?thesis unfolding queued(1) q(1) spawned_task_def
    by (rule system_ok_add [OF assms(1), where now = "je_now e" and label = label])
      (use q run_install_job_ends in auto)
next
  case (refreshed now job app dv label srv' p f progress result late)
  then obtain d' where q: "srv' = (sy_server s)\<lparr>sv_db := d'\<rparr>"
    "insert_job now job app dv label (sv_db (sy_server s)) = Inr d'"
    by (auto simp: write_db_def queue_refresh_def split: if_splits sum.splits)
  show ?thesis unfolding refreshed(1) q(1) spawned_task_def
    by (rule system_ok_add [OF assms(1), where now = now and label = label])
      (use q refreshed run_install_job_ends in auto)
next
  case (worked before t w ws late after now)
  have "system_ok (s\<lparr>sy_server := (sy_server s)\<lparr>sv_db := apply_job_write now t w (sv_db (sy_server s))\<rparr>,
    sy_tasks := before @ (t, ws, late) # after, sy_astray := sy_astray s\<rparr>)"
  proof (rule system_ok_write [OF assms(1) worked(2) row_write_apply _ order.refl])
    show "db_ok (apply_job_write now t w (sv_db (sy_server s)))"
      using assms(1) apply_job_write_ok by (simp add: system_ok_def Let_def)
    fix j assume "if w # ws = [] then terminal_phase (jr_phase j) \<or> it_job t \<in> sy_astray s
      else is_active j \<and> ends_job (w # ws)"
    then have "is_active j" "ends_job (w # ws)" by simp_all
    from ends_job_cons [OF this, of now]
    show "if ws = [] then terminal_phase (jr_phase (write_row now w j)) \<or> it_job t \<in> sy_astray s
      else w # ws \<noteq> [] \<and> is_active (write_row now w j) \<and> ends_job ws"
      by (auto simp del: write_row.simps split: if_splits)
  qed
  with worked(1) show ?thesis by simp
next
  case (failed before t w ws late after g h)
  from row_write_failing obtain f where f: "row_write (it_job t) f (sv_db (sy_server s))
      (failing_job_write g h t w (sv_db (sy_server s)))" "\<forall>j. jr_phase (f j) = jr_phase j" by blast
  show ?thesis unfolding failed(1)
  proof (rule system_ok_write [OF assms(1) failed(2) f(1)])
    show "db_ok (failing_job_write g h t w (sv_db (sy_server s)))"
      using assms(1) failing_job_write_ok by (simp add: system_ok_def Let_def)
  qed (use f(2) in \<open>auto simp: is_active_iff\<close>)
next
  case (late before t ws p late after now)
  show ?thesis unfolding late(1)
  proof (rule system_ok_write [OF assms(1) late(2) row_write_late])
    show "db_ok (late_progress now t p (sv_db (sy_server s)))"
      using assms(1) late_progress_ok by (simp add: system_ok_def Let_def)
  qed (use progress_active in \<open>auto simp del: write_row.simps\<close>)
next
  case (late_failed before t ws p late after)
  have "row_write (it_job t) id (sv_db (sy_server s)) (sv_db (sy_server s))"
    by (simp add: row_write_def update_rows_id)
  from system_ok_write [OF assms(1) late_failed(2) this, of "sy_astray s" ws late] assms(1) late_failed(1)
  show ?thesis by (auto simp: system_ok_def Let_def)
next
  case (finished before t after)
  then show ?thesis using system_ok_finish [OF assms(1)] by simp
next
  case (stored x files)
  then show ?thesis using system_ok_store [OF assms(1)] by simp
qed

text \<open>A server may start on any sound database whose jobs have all ended.\<close>

definition all_ended :: "db \<Rightarrow> bool" where
  "all_ended d \<longleftrightarrow> list_all (\<lambda>j. \<not> is_active j) (db_jobs d)"

definition fresh_start :: "system \<Rightarrow> bool" where
  "fresh_start s \<longleftrightarrow> sy_tasks s = [] \<and> db_ok (sv_db (sy_server s)) \<and> \<not> sv_db_fault (sy_server s)
     \<and> all_ended (sv_db (sy_server s))"

interpretation jobsys: session_invariant system_step fresh_start system_ok
proof
  show "fresh_start s \<Longrightarrow> system_ok s" for s
    by (auto simp: fresh_start_def system_ok_def Let_def all_ended_def list_all_iff)
qed (rule system_step_ok)

section \<open>Properties\<close>

subsection \<open>A concrete run\<close>

definition demo_task :: install_task where
  "demo_task = \<lparr>it_job = 20, it_app = 1, it_device = 9, it_path = ''1.ipa''\<rparr>"

definition demo_start :: system where "demo_start = started demo_server"

definition demo_queued :: system where
  "demo_queued = (case create_install_job demo_env (\<lambda>_. demo_server) 20 1 9 demo_server of
     (r, srv', t) \<Rightarrow> \<lparr>sy_server = srv',
       sy_tasks = [spawned_task demo_task True [10] (Inl IpaSigningFailed) [40]], sy_astray = {}\<rparr>)"

lemma demo_fresh: "fresh_start demo_start"
  using reachable_db_ok [OF demo_db_reachable]
  by (simp add: fresh_start_def demo_start_def started_def demo_server_def all_ended_def is_active_def
      active_phases_def demo_db_eval del: db_ok_def)

lemma demo_created:
  "create_install_job demo_env (\<lambda>_. demo_server) 20 1 9 demo_server =
     (Response 202 (Some (install_job_body (\<lambda>i. show_nat (unat i)) 20 1)),
      demo_server\<lparr>sv_db := put_jobs (db_jobs demo_db @ [\<lparr>jr_id = 20, jr_app_id = 1, jr_device_id = 9,
        jr_phase = ''queued'', jr_created_at = 50, jr_completed_at = None, jr_progress_percent = None,
        jr_device_label = ''Phone'', jr_failure_code = None, jr_installed_bundle_id = None,
        jr_app_display_name = Some ''Example'', jr_app_version = None\<rparr>]) demo_db\<rparr>, Some demo_task)"
proof -
  have "platform_mismatch demo_lib (\<lambda>_. False) (sv_fs demo_server) ''1.ipa'' Iphone = None"
    by (simp add: platform_mismatch_def app_platform_def demo_server_def demo_inspect demo_metadata_def)
  then show ?thesis
    by (simp add: create_install_job_def demo_env_def find_device_def write_db_def read_db_def queue_job_def
        demo_server_def demo_db_eval app_path_def insert_job_def demo_task_def)
qed

lemma demo_queued_reach: "system_step\<^sup>*\<^sup>* demo_start demo_queued"
proof (rule r_into_rtranclp)
  have "create_install_job demo_env (\<lambda>_. sy_server demo_start) 20 1 9 demo_server =
    create_install_job demo_env (\<lambda>_. demo_server) 20 1 9 demo_server"
    by (simp add: demo_start_def started_def)
  from system_step.queued [OF this [unfolded demo_created], of True "[10]" "Inl IpaSigningFailed" "[40]"]
  show "system_step demo_start demo_queued"
    by (simp add: demo_queued_def demo_created demo_start_def started_def)
qed

subsection \<open>An active job has a task that will end it\<close>

lemma reachable_ok: "fresh_start s0 \<Longrightarrow> system_step\<^sup>*\<^sup>* s0 s \<Longrightarrow> system_ok s"
  by (rule jobsys.reachable_inv)

lemma system_ok_active_task:
  assumes "system_ok s" "j \<in> set (db_jobs (sv_db (sy_server s)))" "is_active j" "jr_id j \<notin> sy_astray s"
  shows "\<exists>t ws late. (t, ws, late) \<in> set (sy_tasks s) \<and> it_job t = jr_id j \<and> it_app t = jr_app_id j
    \<and> it_device t = jr_device_id j \<and> ws \<noteq> [] \<and> ends_job ws \<and> app_path (sv_db (sy_server s)) (jr_app_id j) \<noteq> None"
proof -
  let ?d = "sv_db (sy_server s)"
  from assms obtain x where x: "x \<in> set (sy_tasks s)" "task_job x = jr_id j"
    by (auto simp: system_ok_def Let_def)
  obtain t ws late where tw: "x = (t, ws, late)" by (cases x rule: prod_cases3)
  from assms(1) x(1) have "task_ok (sy_astray s) ?d x" by (auto simp: system_ok_def Let_def)
  with tw have "task_ok (sy_astray s) ?d (t, ws, late)" by blast
  moreover from x(2) tw have id: "it_job t = jr_id j" by (simp add: task_job_def)
  ultimately obtain k where k: "k \<in> set (db_jobs ?d)" "jr_id k = it_job t" "jr_app_id k = it_app t"
    "jr_device_id k = it_device t"
    "if ws = [] then terminal_phase (jr_phase k) \<or> it_job t \<in> sy_astray s
     else is_active k \<and> ends_job ws \<and> app_path ?d (it_app t) \<noteq> None" by auto
  from assms(1) have "distinct (map jr_id (db_jobs ?d))" by (simp add: system_ok_def Let_def db_ok_def jobs_ok_def)
  with k(1,2) assms(2) id have "k = j" by (metis inj_on_eq_iff distinct_map)
  moreover from this k(5) id assms(3,4) have "ws \<noteq> []" by (auto simp: is_active_iff active_not_terminal)
  ultimately show ?thesis using x tw k by auto
qed

text \<open>
  C2: While a job is active the server works on it and its app stays, unless the job went
  astray. In every state reached from a start without active jobs, each active job row has a
  spawned task for the same app and device whose remaining writes end the job as succeeded or
  failed, and the app is not deleted; the exceptions are exactly recorded: a late progress write
  of an aborted signing task came after the task's last write, or that last write failed.
\<close>

theorem active_job_has_task:
  assumes "fresh_start s0" "system_step\<^sup>*\<^sup>* s0 s"
    and "j \<in> set (db_jobs (sv_db (sy_server s)))" "is_active j" "jr_id j \<notin> sy_astray s"
  shows "\<exists>t ws late. (t, ws, late) \<in> set (sy_tasks s) \<and> it_job t = jr_id j \<and> it_app t = jr_app_id j
    \<and> it_device t = jr_device_id j \<and> ends_job ws \<and> app_path (sv_db (sy_server s)) (jr_app_id j) \<noteq> None"
  using system_ok_active_task [OF reachable_ok [OF assms(1,2)] assms(3-5)] by blast

theorem active_job_has_task_witness:
  "\<exists>ws late. (demo_task, ws, late) \<in> set (sy_tasks demo_queued) \<and> ends_job ws
    \<and> app_path (sv_db (sy_server demo_queued)) 1 \<noteq> None"
proof -
  let ?j = "\<lparr>jr_id = 20, jr_app_id = 1, jr_device_id = 9, jr_phase = ''queued'', jr_created_at = 50,
    jr_completed_at = None, jr_progress_percent = None, jr_device_label = ''Phone'',
    jr_failure_code = None, jr_installed_bundle_id = None, jr_app_display_name = Some ''Example'',
    jr_app_version = None\<rparr>"
  have j: "?j \<in> set (db_jobs (sv_db (sy_server demo_queued)))"
    by (simp add: demo_queued_def demo_created)
  have "is_active ?j" by (simp add: is_active_def active_phases_def)
  from active_job_has_task [OF demo_fresh demo_queued_reach j this]
  show ?thesis by (auto simp: demo_queued_def demo_created spawned_task_def)
qed

lemma idle_no_active:
  assumes "system_ok s" "sy_tasks s = []" "sy_astray s = {}"
  shows "\<not> active_job_exists_for_app (sv_db (sy_server s)) a" "\<not> active_job_exists (sv_db (sy_server s)) a dv"
  using assms by (auto simp: system_ok_def Let_def active_job_exists_for_app_def active_job_exists_def list_ex_iff)

text \<open>
  An idle server blocks nothing. When no task is left and no job went astray, no job is active:
  no deletion is refused for an active job, forgetting an installation always succeeds, and a
  due app on a reachable device can be queued.
\<close>

theorem idle_server_blocks_nothing:
  assumes "fresh_start s0" "system_step\<^sup>*\<^sup>* s0 s" "sy_tasks s = []" "sy_astray s = {}"
  shows "resp_status (fst (delete_ipa fault now app (sy_server s))) \<noteq> 409
    \<and> resp_status (fst (forget_managed_handler now dv app (sy_server s))) = 204
    \<and> queue_refresh now job app dv label (sv_db (sy_server s)) \<noteq> Inr (False, d)"
proof -
  have ok: "system_ok s" by (rule reachable_ok [OF assms(1,2)])
  note idle = idle_no_active [OF ok assms(3,4)]
  have "resp_status (fst (delete_ipa fault now app (sy_server s))) \<noteq> 409"
  proof (cases rule: delete_ipa_cases [of "sy_server s" fault now app])
    case (delete p d)
    then show ?thesis by (cases "fs_remove fault (sv_fs (sy_server s)) p") (auto split: io_error.splits)
  qed (use idle in auto)
  moreover have "resp_status (fst (forget_managed_handler now dv app (sy_server s))) = 204"
    using ok idle(2) by (simp add: forget_managed_handler_def write_db_def forget_managed_installation_def
        system_ok_def Let_def)
  ultimately show ?thesis using idle(2) by (simp add: queue_refresh_def)
qed

theorem idle_server_blocks_nothing_witness:
  "resp_status (fst (delete_ipa (\<lambda>_. False) 60 1 (sy_server demo_start))) \<noteq> 409
   \<and> resp_status (fst (forget_managed_handler 60 9 1 (sy_server demo_start))) = 204"
proof -
  have "sy_tasks demo_start = []" "sy_astray demo_start = {}" by (simp_all add: demo_start_def started_def)
  from idle_server_blocks_nothing [OF demo_fresh rtranclp.rtrancl_refl this, of "\<lambda>_. False" 60 1 9]
  show ?thesis by blast
qed

subsection \<open>Stranded jobs\<close>

definition stranded :: "uuid \<Rightarrow> uuid \<Rightarrow> uuid \<Rightarrow> system \<Rightarrow> bool" where
  "stranded k app dv s \<longleftrightarrow> k \<notin> task_job ` set (sy_tasks s) \<and> \<not> sv_db_fault (sy_server s)
     \<and> (\<exists>j \<in> set (db_jobs (sv_db (sy_server s))).
          jr_id j = k \<and> jr_app_id j = app \<and> jr_device_id j = dv \<and> is_active j)"

lemma stranded_job_id: "stranded k app dv s \<Longrightarrow> k \<in> jr_id ` set (db_jobs (sv_db (sy_server s)))"
  by (auto simp: stranded_def)

lemma stranded_add:
  assumes "stranded k app dv s" "insert_job now (it_job t) (it_app t) (it_device t) label (sv_db (sy_server s)) = Inr d'"
    and "app_path (sv_db (sy_server s)) (it_app t) \<noteq> None"
  shows "stranded k app dv (s\<lparr>sy_server := (sy_server s)\<lparr>sv_db := d'\<rparr>, sy_tasks := sy_tasks s @ [(t, ws, late)]\<rparr>)"
proof -
  from insert_job_new [OF assms(2,3)] obtain row where "d' = put_jobs (db_jobs (sv_db (sy_server s)) @ [row]) (sv_db (sy_server s))"
    "it_job t \<notin> jr_id ` set (db_jobs (sv_db (sy_server s)))" by blast
  moreover from this(2) stranded_job_id [OF assms(1)] have "k \<noteq> it_job t" by metis
  ultimately show ?thesis using assms(1) by (auto simp: stranded_def task_job_def)
qed

text \<open>A stranded job has no task, so no write of a task, regular or late, is to its row.\<close>

lemma stranded_write:
  assumes st: "stranded k app dv s" and tasks: "sy_tasks s = before @ (t, vs, l) # after"
    and row: "row_write (it_job t) f (sv_db (sy_server s)) d'"
  shows "stranded k app dv (s\<lparr>sy_server := (sy_server s)\<lparr>sv_db := d'\<rparr>,
    sy_tasks := before @ (t, ws, l') # after, sy_astray := A\<rparr>)"
proof -
  from st tasks have "it_job t \<noteq> k" by (auto simp: stranded_def task_job_def)
  with st tasks row show ?thesis
    by (auto simp: stranded_def task_job_def row_write_def bex_update_rows intro: rev_bexI)
qed

lemma stranded_step:
  assumes st: "stranded k app dv s" and step: "system_step s s'"
  shows "stranded k app dv s'"
  using step
proof cases
  case (queued e job a dv' before r srv' t f progress result late)
  from create_install_job_task [OF queued(2)] obtain label d' where
    q: "srv' = (sy_server s)\<lparr>sv_db := d'\<rparr>" "it_job t = job" "it_app t = a" "it_device t = dv'"
    "app_path (sv_db (sy_server s)) a \<noteq> None"
    "insert_job (je_now e) job a dv' label (sv_db (sy_server s)) = Inr d'" by blast
  show ?thesis unfolding queued(1) q(1) spawned_task_def
    by (rule stranded_add [OF st, where now = "je_now e" and label = label]) (use q in auto)
next
  case (refreshed now job a dv' label srv' p f progress result late)
  then obtain d' where q: "srv' = (sy_server s)\<lparr>sv_db := d'\<rparr>"
    "insert_job now job a dv' label (sv_db (sy_server s)) = Inr d'"
    by (auto simp: write_db_def queue_refresh_def split: if_splits sum.splits)
  show ?thesis unfolding refreshed(1) q(1) spawned_task_def
    by (rule stranded_add [OF st, where now = now and label = label]) (use q refreshed in auto)
next
  case (worked before t w ws late after now)
  from stranded_write [OF st worked(2) row_write_apply [where now = now and w = w],
      where ws = ws and l' = late and A = "sy_astray s"] worked(1)
  show ?thesis by simp
next
  case (failed before t w ws late after g h)
  from row_write_failing [of t "sv_db (sy_server s)" g h w] show ?thesis
    unfolding failed(1) using stranded_write [OF st failed(2)] by blast
next
  case (late before t ws p late after now)
  show ?thesis unfolding late(1) by (rule stranded_write [OF st late(2) row_write_late])
next
  case (late_failed before t ws p late after)
  with st show ?thesis by (auto simp: stranded_def task_job_def)
next
  case (finished before t after)
  with st show ?thesis by (auto simp: stranded_def)
next
  case (stored x files)
  with st show ?thesis by (simp add: stranded_def store_op_jobs)
qed

interpretation strand: session_invariant system_step "stranded k app dv" "stranded k app dv" for k app dv
  by unfold_locales (auto intro: stranded_step)

lemma initialize_jobs:
  "map (\<lambda>j. (jr_id j, jr_app_id j, jr_device_id j, jr_phase j)) (db_jobs (initialize show_uuid d)) =
   map (\<lambda>j. (jr_id j, jr_app_id j, jr_device_id j, jr_phase j)) (db_jobs d)"
  by (simp add: initialize_def Let_def)

lemma restart_stranded:
  assumes "j \<in> set (db_jobs (sv_db (sy_server s)))" "is_active j" "\<not> sv_db_fault (sy_server s)"
  shows "stranded (jr_id j) (jr_app_id j) (jr_device_id j) (restart show_uuid s)"
proof -
  have "(jr_id j, jr_app_id j, jr_device_id j, jr_phase j)
      \<in> set (map (\<lambda>j. (jr_id j, jr_app_id j, jr_device_id j, jr_phase j))
          (db_jobs (initialize show_uuid (sv_db (sy_server s)))))"
    unfolding initialize_jobs using assms(1) by auto
  with assms(2,3) show ?thesis
    by (auto simp: stranded_def restart_def started_def is_active_iff)
qed

text \<open>What a stranded job blocks.\<close>

lemma stranded_blocks:
  assumes "stranded k app dv s"
  shows "active_job_exists (sv_db (sy_server s)) app dv
    \<and> resp_status (fst (delete_ipa fault now app (sy_server s))) \<noteq> 204
    \<and> resp_status (fst (forget_managed_handler now dv app (sy_server s))) = 409
    \<and> queue_refresh now job app dv label (sv_db (sy_server s)) = Inr (False, sv_db (sy_server s))"
proof -
  from assms have active: "active_job_exists (sv_db (sy_server s)) app dv"
    "active_job_exists_for_app (sv_db (sy_server s)) app" "\<not> sv_db_fault (sy_server s)"
    by (auto simp: stranded_def active_job_exists_def active_job_exists_for_app_def list_ex_iff)
  have "resp_status (fst (delete_ipa fault now app (sy_server s))) \<noteq> 204"
    by (cases rule: delete_ipa_cases [of "sy_server s" fault now app]) (use active(2) in auto)
  with active show ?thesis
    by (simp add: queue_refresh_def forget_managed_handler_def write_db_def forget_managed_installation_def)
qed

text \<open>
  C24: A job that is active when the process ends is stranded. After the restart it stays active
  in every reachable state: nothing resumes it or marks it failed, so from then on its app cannot
  be deleted, its installation cannot be forgotten, and it is never refreshed again.
\<close>

theorem restart_strands_active_jobs:
  assumes "j \<in> set (db_jobs (sv_db (sy_server s)))" "is_active j" "\<not> sv_db_fault (sy_server s)"
    and run: "system_step\<^sup>*\<^sup>* (restart show_uuid s) s'"
  shows "active_job_exists (sv_db (sy_server s')) (jr_app_id j) (jr_device_id j)
    \<and> resp_status (fst (delete_ipa fault now (jr_app_id j) (sy_server s'))) \<noteq> 204
    \<and> resp_status (fst (forget_managed_handler now (jr_device_id j) (jr_app_id j) (sy_server s'))) = 409
    \<and> queue_refresh now job (jr_app_id j) (jr_device_id j) label (sv_db (sy_server s')) =
        Inr (False, sv_db (sy_server s'))"
proof -
  from strand.run_inv [OF run] restart_stranded [OF assms(1-3)]
  have "stranded (jr_id j) (jr_app_id j) (jr_device_id j) s'" by blast
  then show ?thesis by (rule stranded_blocks)
qed

theorem restart_strands_active_jobs_witness:
  "resp_status (fst (delete_ipa (\<lambda>_. False) 90 1
     (sy_server (restart (\<lambda>i. show_nat (unat i)) demo_queued)))) \<noteq> 204
   \<and> active_job_exists (sv_db (sy_server (restart (\<lambda>i. show_nat (unat i)) demo_queued))) 1 9"
proof -
  let ?j = "\<lparr>jr_id = 20, jr_app_id = 1, jr_device_id = 9, jr_phase = ''queued'', jr_created_at = 50,
    jr_completed_at = None, jr_progress_percent = None, jr_device_label = ''Phone'',
    jr_failure_code = None, jr_installed_bundle_id = None, jr_app_display_name = Some ''Example'',
    jr_app_version = None\<rparr>"
  have "?j \<in> set (db_jobs (sv_db (sy_server demo_queued)))" "\<not> sv_db_fault (sy_server demo_queued)"
    "is_active ?j"
    by (simp_all add: demo_queued_def demo_created is_active_def active_phases_def)
      (simp add: demo_server_def)
  from restart_strands_active_jobs [OF this(1,3,2) rtranclp.rtrancl_refl] show ?thesis by simp
qed

subsection \<open>A late progress write strands a job\<close>

lemma late_write_strands:
  assumes ok: "system_ok s" and tasks: "sy_tasks s = before @ (t, [], [p]) # after"
  shows "\<exists>s1. system_step\<^sup>*\<^sup>* s s1 \<and> sy_tasks s1 = before @ after
    \<and> stranded (it_job t) (it_app t) (it_device t) s1"
proof -
  let ?s1 = "s\<lparr>sy_server := (sy_server s)\<lparr>sv_db := late_progress 0 t p (sv_db (sy_server s))\<rparr>,
       sy_tasks := before @ (t, [], []) # after, sy_astray := insert (it_job t) (sy_astray s)\<rparr>"
  have "system_step s ?s1" using system_step.late [OF tasks, of 0] by simp
  moreover have "system_step ?s1 (?s1\<lparr>sy_tasks := before @ after\<rparr>)"
    by (rule system_step.finished) simp
  ultimately have run: "system_step\<^sup>*\<^sup>* s (?s1\<lparr>sy_tasks := before @ after\<rparr>)" by simp
  from ok tasks obtain j where j: "j \<in> set (db_jobs (sv_db (sy_server s)))" "jr_id j = it_job t"
    "jr_app_id j = it_app t" "jr_device_id j = it_device t" by (auto simp: system_ok_def Let_def)
  moreover have "it_job t \<notin> task_job ` set (before @ after)" "\<not> sv_db_fault (sy_server s)"
    using ok tasks by (auto simp: system_ok_def Let_def task_job_def)
  ultimately have "stranded (it_job t) (it_app t) (it_device t) (?s1\<lparr>sy_tasks := before @ after\<rparr>)"
    using progress_active [of 0 p "Some p" j]
    by (auto simp: stranded_def late_progress_rows bex_update_rows simp del: write_row.simps intro!: bexI [of _ j])
  with run show ?thesis by (intro exI [of _ "?s1\<lparr>sy_tasks := before @ after\<rparr>"]) simp
qed

text \<open>
  C23: A signing task that is given up can strand its job. Once the run has written that the
  signing timed out, the job has ended; a progress report the aborted task still makes opens it
  again. From then on, in every reachable state, the job is active without a task: its app cannot
  be deleted, its installation cannot be forgotten, and it is never refreshed again.
\<close>

theorem late_progress_strands_job:
  assumes "fresh_start s0" "system_step\<^sup>*\<^sup>* s0 s" "sy_tasks s = before @ (t, [], [p]) # after"
    and "it_job t \<notin> sy_astray s"
  shows "(\<exists>j \<in> set (db_jobs (sv_db (sy_server s))). jr_id j = it_job t \<and> terminal_phase (jr_phase j))
    \<and> (\<exists>s1. system_step\<^sup>*\<^sup>* s s1 \<and> sy_tasks s1 = before @ after \<and> (\<forall>s'. system_step\<^sup>*\<^sup>* s1 s' \<longrightarrow>
        active_job_exists (sv_db (sy_server s')) (it_app t) (it_device t)
        \<and> resp_status (fst (delete_ipa fault now (it_app t) (sy_server s'))) \<noteq> 204
        \<and> resp_status (fst (forget_managed_handler now (it_device t) (it_app t) (sy_server s'))) = 409
        \<and> queue_refresh now job (it_app t) (it_device t) label (sv_db (sy_server s'))
            = Inr (False, sv_db (sy_server s'))))"
proof -
  have ok: "system_ok s" by (rule reachable_ok [OF assms(1,2)])
  from late_write_strands [OF this assms(3)] obtain s1 where s1: "system_step\<^sup>*\<^sup>* s s1"
    "sy_tasks s1 = before @ after" "stranded (it_job t) (it_app t) (it_device t) s1" by blast
  have "stranded (it_job t) (it_app t) (it_device t) s'" if "system_step\<^sup>*\<^sup>* s1 s'" for s'
    by (rule strand.run_inv [OF that s1(3)])
  note blocks = stranded_blocks [OF this]
  have "\<exists>j \<in> set (db_jobs (sv_db (sy_server s))). jr_id j = it_job t \<and> terminal_phase (jr_phase j)"
    using ok assms(3,4) by (auto simp: system_ok_def Let_def)
  with s1(1,2) blocks show ?thesis by blast
qed

definition demo_ended :: system where
  "demo_ended = demo_queued\<lparr>sy_server := (sy_server demo_queued)\<lparr>sv_db :=
     fold (apply_job_write 60 demo_task) (run_install_job True [10] (Inl IpaSigningFailed))
       (sv_db (sy_server demo_queued))\<rparr>, sy_tasks := [(demo_task, [], [40])]\<rparr>"

lemma work_off:
  "system_step\<^sup>*\<^sup>* (s\<lparr>sy_tasks := [(t, ws, late)]\<rparr>)
     (s\<lparr>sy_server := (sy_server s)\<lparr>sv_db := fold (apply_job_write now t) ws (sv_db (sy_server s))\<rparr>,
        sy_tasks := [(t, [], late)]\<rparr>)"
proof (induction ws arbitrary: s)
  case (Cons w ws)
  have "system_step (s\<lparr>sy_tasks := [(t, w # ws, late)]\<rparr>)
      (s\<lparr>sy_server := (sy_server s)\<lparr>sv_db := apply_job_write now t w (sv_db (sy_server s))\<rparr>,
         sy_tasks := [(t, ws, late)]\<rparr>)"
    using system_step.worked [of "s\<lparr>sy_tasks := [(t, w # ws, late)]\<rparr>" "[]" t w ws late "[]" now] by simp
  then show ?case
    using Cons.IH [of "s\<lparr>sy_server := (sy_server s)\<lparr>sv_db := apply_job_write now t w (sv_db (sy_server s))\<rparr>\<rparr>"]
    by (simp add: converse_rtranclp_into_rtranclp)
qed simp

lemma demo_ended_reach: "system_step\<^sup>*\<^sup>* demo_start demo_ended"
proof -
  have "demo_queued\<lparr>sy_tasks := [(demo_task, run_install_job True [10] (Inl IpaSigningFailed), [40])]\<rparr> = demo_queued"
    by (simp add: demo_queued_def demo_created spawned_task_def)
  with work_off [where s = demo_queued and t = demo_task and late = "[40]" and now = 60
      and ws = "run_install_job True [10] (Inl IpaSigningFailed)"]
  have "system_step\<^sup>*\<^sup>* demo_queued demo_ended" by (simp add: demo_ended_def)
  with demo_queued_reach show ?thesis by (rule rtranclp_trans)
qed

theorem late_progress_strands_job_witness:
  "(\<exists>j \<in> set (db_jobs (sv_db (sy_server demo_ended))). jr_id j = 20 \<and> terminal_phase (jr_phase j))
   \<and> (\<exists>s1. system_step\<^sup>*\<^sup>* demo_ended s1 \<and> sy_tasks s1 = [] \<and> active_job_exists (sv_db (sy_server s1)) 1 9
        \<and> resp_status (fst (forget_managed_handler 90 9 1 (sy_server s1))) = 409)"
proof -
  have "sy_tasks demo_ended = [] @ (demo_task, [], [40]) # []" "it_job demo_task \<notin> sy_astray demo_ended"
    by (simp_all add: demo_ended_def demo_queued_def demo_created)
  from late_progress_strands_job [OF demo_fresh demo_ended_reach this,
    where fault = "\<lambda>_. False" and now = 90 and job = 30 and label = "''Phone''"]
  show ?thesis by (auto simp: demo_task_def)
qed

subsection \<open>Automatic refresh\<close>

definition active_count :: "db \<Rightarrow> uuid \<Rightarrow> uuid \<Rightarrow> nat" where
  "active_count d app dv =
     count_rows (\<lambda>j. jr_app_id j = app \<and> jr_device_id j = dv \<and> is_active j) (db_jobs d)"

definition adds_no_duplicate :: "(server \<Rightarrow> server) \<Rightarrow> bool" where
  "adds_no_duplicate f \<longleftrightarrow>
     (\<forall>s app dv. active_count (sv_db (f s)) app dv \<le> max 1 (active_count (sv_db s) app dv))"

lemma active_count_0: "\<not> active_job_exists d app dv \<longleftrightarrow> active_count d app dv = 0"
  by (auto simp: active_job_exists_def active_count_def count_rows_def list_ex_iff filter_empty_conv)

lemma queue_refresh_count:
  "write_db s (queue_refresh now job app dv label) = (v, s') \<Longrightarrow>
     active_count (sv_db s') a d \<le> max 1 (active_count (sv_db s) a d)"
proof -
  assume w: "write_db s (queue_refresh now job app dv label) = (v, s')"
  show ?thesis
  proof (cases "a = app \<and> d = dv \<and> \<not> active_job_exists (sv_db s) app dv")
    case True
    then have "active_count (sv_db s) a d = 0" by (simp flip: active_count_0)
    with w True show ?thesis
      by (auto simp: write_db_def queue_refresh_def insert_job_def active_count_def count_rows_def
          split: if_splits sum.splits option.splits)
  next
    case False
    have app: "find (\<lambda>r. ar_id r = app \<and> ar_deleted_at r = None) rs = Some x \<Longrightarrow> ar_id x = app" for rs x
      by (auto simp: find_Some_iff)
    from w False show ?thesis
      by (auto simp: write_db_def queue_refresh_def insert_job_def active_count_def count_rows_def
          dest!: app split: if_splits sum.splits option.splits)
  qed
qed

lemma refresh_loop_count:
  "refresh_loop e others devices ids k targets s = (s', tasks) \<Longrightarrow> adds_no_duplicate others \<Longrightarrow>
     active_count (sv_db s') a d \<le> max 1 (active_count (sv_db s) a d)"
proof (induction e others devices ids k targets s arbitrary: s' tasks rule: refresh_loop.induct)
  case (2 e others devices ids k app dv p targets srv)
  show ?case
  proof (cases "find_device dv devices")
    case None
    with 2 show ?thesis by simp
  next
    case (Some device)
    obtain v s1 where w: "write_db (others srv) (queue_refresh (je_now e) (ids k) app dv (ds_display_name device)) = (v, s1)"
      by fastforce
    obtain s2 tasks2 where r: "refresh_loop e others devices ids (Suc k) targets s1 = (s2, tasks2)" by fastforce
    have "active_count (sv_db s2) a d \<le> max 1 (active_count (sv_db s1) a d)"
      using 2(2) [OF Some w [symmetric] r 2(4)] .
    moreover have "active_count (sv_db s1) a d \<le> max 1 (active_count (sv_db (others srv)) a d)"
      by (rule queue_refresh_count [OF w])
    moreover have "active_count (sv_db (others srv)) a d \<le> max 1 (active_count (sv_db srv) a d)"
      using 2(4) unfolding adds_no_duplicate_def by blast
    moreover from 2(3) Some w r have "s' = s2" by simp
    ultimately show ?thesis by simp
  qed
qed simp

lemma refresh_loop_tasks:
  "refresh_loop e others devices ids k targets s = (s', tasks) \<Longrightarrow> t \<in> set tasks \<Longrightarrow>
     (it_app t, it_device t, it_path t) \<in> set targets \<and> find_device (it_device t) devices \<noteq> None"
proof (induction e others devices ids k targets s arbitrary: s' tasks rule: refresh_loop.induct)
  case (2 e others devices ids k app dv p targets srv)
  show ?case
  proof (cases "find_device dv devices")
    case None
    with 2 show ?thesis by simp
  next
    case (Some device)
    obtain v s1 where w: "write_db (others srv) (queue_refresh (je_now e) (ids k) app dv (ds_display_name device)) = (v, s1)"
      by fastforce
    obtain s2 tasks2 where r: "refresh_loop e others devices ids (Suc k) targets s1 = (s2, tasks2)" by fastforce
    have "t \<in> set tasks2 \<or> t = \<lparr>it_job = ids k, it_app = app, it_device = dv, it_path = p\<rparr>"
      using 2(3,4) Some w r by (auto split: if_splits)
    with 2(2) [OF Some w [symmetric] r] Some show ?thesis by auto
  qed
qed simp

text \<open>
  C36: A refresh queues only what it should and never twice. When the other requests that run
  between its rounds keep every pair of app and device at one active job, so does the refresh;
  each task it spawns is for an app that was due on a device that is listed, and nothing is
  spawned unless signing is ready.
\<close>

theorem trigger_refresh_safe:
  assumes "trigger_refresh e others ids srv = (r, srv', tasks)" "adds_no_duplicate others"
  shows "active_count (sv_db srv') app dv \<le> max 1 (active_count (sv_db srv) app dv)
    \<and> (\<forall>t \<in> set tasks. je_signing_ready e
         \<and> (it_app t, it_device t, it_path t)
             \<in> set (refresh_due_targets (je_now e) (refresh_after_days (sv_db srv)) (sv_db srv))
         \<and> (\<exists>devices. je_devices e = Inr devices \<and> find_device (it_device t) devices \<noteq> None))"
proof (cases "je_signing_ready e")
  case True
  show ?thesis
  proof (cases "je_devices e")
    case (Inr devices)
    show ?thesis
    proof (cases "sv_db_fault srv")
      case False
      let ?targets = "refresh_due_targets (je_now e) (refresh_after_days (sv_db srv)) (sv_db srv)"
      obtain s2 tasks2 where r: "refresh_loop e others devices ids 0 ?targets srv = (s2, tasks2)" by fastforce
      with assms(1) True Inr False have "srv' = s2" "tasks = tasks2"
        by (simp_all add: trigger_refresh_def read_db_def)
      with refresh_loop_count [OF r assms(2)] refresh_loop_tasks [OF r] True Inr show ?thesis by auto
    qed (use assms(1) True Inr in \<open>simp add: trigger_refresh_def read_db_def\<close>)
  qed (use assms(1) True in \<open>simp add: trigger_refresh_def\<close>)
qed (use assms(1) in \<open>simp add: trigger_refresh_def\<close>)

theorem trigger_refresh_safe_witness:
  "\<exists>r srv' t. trigger_refresh (demo_env\<lparr>je_now := 600030\<rparr>) id (\<lambda>k. 30) demo_server = (r, srv', [t])
     \<and> it_app t = 1 \<and> active_count (sv_db srv') 1 9 \<le> 1"
proof -
  have due: "refresh_due_targets 600030 (refresh_after_days demo_db) demo_db = [(1, 9, ''1.ipa'')]"
    by (simp add: refresh_due_targets_def current_installs_def demo_db_eval latest_success_def
        success_times_def map_filter_simps is_unmanaged_def elapsed_def refresh_after_days_def
        DEFAULT_REFRESH_AFTER_DAYS_def)
  obtain d where q: "queue_refresh 600030 30 1 9 ''Phone'' demo_db = Inr (True, d)"
    by (simp add: queue_refresh_def active_job_exists_def is_active_def active_phases_def
        insert_job_def demo_db_eval)
  have run: "trigger_refresh (demo_env\<lparr>je_now := 600030\<rparr>) id (\<lambda>k. 30) demo_server =
      (Response 202 (Some (JObj [(''queued'', JNum 1)])), demo_server\<lparr>sv_db := d\<rparr>,
       [\<lparr>it_job = 30, it_app = 1, it_device = 9, it_path = ''1.ipa''\<rparr>])"
    by (simp add: trigger_refresh_def demo_env_def read_db_def demo_server_def due q find_device_def write_db_def)
  have none: "active_count (sv_db demo_server) 1 9 = 0"
    by (simp add: active_count_def count_rows_def demo_server_def demo_db_eval is_active_def active_phases_def)
  have "adds_no_duplicate id" by (simp add: adds_no_duplicate_def)
  from trigger_refresh_safe [OF run this, of 1 9] none run show ?thesis by simp
qed

end
