(* ===== verification/RsdContract.thy ===== *)
theory RsdContract
  imports Jobs
begin

text \<open>
  What an installation over a remotely paired session guarantees: how many commands it sends and
  when, what its report means, and what the job records from it.
\<close>

lemmas report_simps = rsd_install_failure_def record_session_cleanup_def after_cleanup_def Let_def

lemma record_session_cleanup_keeps [simp]:
  "rp_outcome (record_session_cleanup r c) = rp_outcome r"
  "rp_install_command_count (record_session_cleanup r c) = rp_install_command_count r"
  "rp_bundle_id (record_session_cleanup r c) = rp_bundle_id r"
  "rp_cleanup (record_session_cleanup r c) = rp_cleanup r"
  "rp_session_cleanup (record_session_cleanup r c) = c"
  by (simp_all add: record_session_cleanup_def Let_def)

lemma record_session_cleanup_error:
  "rp_error_kind (record_session_cleanup r c) = '''' \<longleftrightarrow> rp_error_kind r = '''' \<and> c \<noteq> ScFailed"
  by (auto simp: record_session_cleanup_def Let_def)

lemma after_cleanup_keeps [simp]:
  "rp_outcome (after_cleanup c r) = rp_outcome r"
  "rp_install_command_count (after_cleanup c r) = rp_install_command_count r"
  "rp_bundle_id (after_cleanup c r) = rp_bundle_id r"
  "rp_cleanup (after_cleanup c r) = c"
  by (simp_all add: after_cleanup_def Let_def)

lemma after_cleanup_error:
  "rp_error_kind (after_cleanup c r) = '''' \<longleftrightarrow> rp_error_kind r = '''' \<and> c \<noteq> StFailed"
  by (auto simp: after_cleanup_def Let_def)

lemma failure_simps [simp]:
  "rp_outcome (rsd_install_failure st k p b) = NotStarted"
  "rp_install_command_count (rsd_install_failure st k p b) = 0"
  "rp_error_kind (rsd_install_failure st k p b) = k"
  "rp_bundle_id (rsd_install_failure st k p b) = b"
  by (simp_all add: rsd_install_failure_def)

lemma signing_failure_simps:
  "rp_outcome (signing_failure_report err c) = NotStarted"
  "rp_install_command_count (signing_failure_report err c) = 0"
  by (cases err; simp add: signing_failure_report_def Let_def split: signing_error.split)+

lemma signing_error_kind_nonempty: "signing_error_kind e \<noteq> ''''"
  by (cases e) simp_all

lemma signing_failure_error: "rp_error_kind (signing_failure_report err c) \<noteq> ''''"
  by (cases err) (auto simp: signing_failure_report_def Let_def record_session_cleanup_error
      signing_error_kind_nonempty split: signing_error.split)

lemma identity_failure_nonempty: "identity_failure_kind f \<noteq> ''''"
  by (cases f) simp_all

section \<open>The command\<close>

lemma install_and_verify_simps [simp]:
  "rp_install_command_count (install_and_verify e b p) = 1"
  "rp_bundle_id (install_and_verify e b p) = Some b"
  "rp_outcome (install_and_verify e b p) =
     outcome_after_install_result (send_one_install_command (ex_install_answer e)) (verification_lookup e)"
  by (simp_all add: install_and_verify_def Let_def)

lemma installed_verified:
  "outcome_after_install_result res lookup = Installed \<longleftrightarrow> lookup = Some True"
  by (cases res; cases lookup; cases "projl res")
    (auto simp: outcome_after_install_result_def split: bool.splits sum.splits install_command_failure.splits
      elim: outcome_after_install_failure.elims)

lemma execute_cases:
  obtains (before) "rp_outcome (execute_rsd_first_install e b p policy) \<in> {NotStarted, NotInstalled}"
      "rp_install_command_count (execute_rsd_first_install e b p policy) = 0"
  | (sent) "precheck e policy = None" "ex_staging e = Staged" "ex_install_client e" "\<not> ex_window_expired e"
      "execute_rsd_first_install e b p policy =
         after_cleanup (clean_staging e (ex_root_created e)) (install_and_verify e b p)"
proof (cases "precheck e policy")
  case (Some kind)
  then show ?thesis
    by (intro before) (auto simp: execute_rsd_first_install_def precheck_def split: if_splits option.splits bool.splits)
next
  case None
  show ?thesis
  proof (cases "plan_failure (ex_plan e)")
    case (Some kind)
    with None show ?thesis
      by (intro before)
        (auto simp: execute_rsd_first_install_def plan_failure_def split: plan_result.splits)
  next
    case ready: None
    show ?thesis
    proof (cases "ex_staging e")
      case Staged
      show ?thesis
      proof (cases "ex_afc_client e \<and> \<not> ex_window_expired e \<and> ex_install_client e")
        case True
        with None ready Staged show ?thesis by (intro sent) (simp_all add: execute_rsd_first_install_def Let_def)
      next
        case False
        with None ready Staged show ?thesis by (intro before) (auto simp: execute_rsd_first_install_def Let_def)
      qed
    next
      case (StagingFailed k)
      with None ready show ?thesis
        by (intro before) (auto simp: execute_rsd_first_install_def Let_def after_cleanup_error)
    next
      case StagingTimeout
      with None ready show ?thesis
        by (intro before) (auto simp: execute_rsd_first_install_def Let_def after_cleanup_error)
    qed
  qed
qed

text \<open>A report of a run that did not reach the device, for whatever reason.\<close>

definition not_started :: "install_report \<Rightarrow> bool" where
  "not_started r \<longleftrightarrow> rp_outcome r = NotStarted \<and> rp_install_command_count r = 0 \<and> rp_error_kind r \<noteq> ''''"

lemma not_started_failure [simp]:
  "not_started (rsd_install_failure st k p b) \<longleftrightarrow> k \<noteq> ''''"
  "not_started (record_session_cleanup (rsd_install_failure st k p b) c) \<longleftrightarrow> k \<noteq> '''' \<or> c = ScFailed"
  "not_started (signing_failure_report err c)"
  by (auto simp: not_started_def record_session_cleanup_error signing_failure_simps signing_failure_error)

text \<open>The first session, its identity and signing, up to the artifact.\<close>

definition signed_for ::
  "install_env \<Rightarrow> device_registration_policy \<Rightarrow> signing_device_identity \<Rightarrow> apple_account_preflight \<Rightarrow> signed_app_artifact \<Rightarrow> bool" where
  "signed_for e reg identity preflight artifact \<longleftrightarrow> ie_open1 e = SessionOpened \<and> ie_identity1 e = Some (Inr identity)
     \<and> ie_close1 e \<noteq> ScFailed \<and> ie_sign e identity reg = SigningDone (Inr (preflight, Some artifact))"

lemma install_unsigned:
  "(\<And>identity preflight artifact. \<not> signed_for e reg identity preflight artifact) \<Longrightarrow>
     not_started (install_remote_pairing_app e policy reg)"
  by (auto simp: signed_for_def install_remote_pairing_app_def Let_def identity_failure_nonempty
      split: open_result.split option.split sum.split signing_answer.split prod.split)

lemma install_other_device:
  "ie_open2 e \<noteq> SessionOpened \<or> ie_identity2 e \<noteq> Some (Inr identity) \<Longrightarrow>
     not_started (install_signed e policy identity pressure bundle_id)"
  by (auto simp: install_signed_def Let_def second_identity_error_def identity_failure_nonempty
      split: open_result.split option.split sum.split)

lemma install_cases:
  obtains (before) "not_started (install_remote_pairing_app e policy reg)"
  | (executed) identity preflight artifact c where "ie_identity1 e = Some (Inr identity)"
      "ie_identity2 e = Some (Inr identity)" "ie_sign e identity reg = SigningDone (Inr (preflight, Some artifact))"
      "install_remote_pairing_app e policy reg = record_session_cleanup
         (execute_rsd_first_install (ie_execute e) (sga_bundle_id artifact) (certificate_pressure preflight) policy) c"
proof (cases "\<exists>identity preflight artifact. signed_for e reg identity preflight artifact")
  case True
  then obtain identity preflight artifact where signed: "signed_for e reg identity preflight artifact" by blast
  then have r: "install_remote_pairing_app e policy reg =
      install_signed e policy identity (certificate_pressure preflight) (sga_bundle_id artifact)"
    by (simp add: signed_for_def install_remote_pairing_app_def)
  show ?thesis
  proof (cases "ie_open2 e = SessionOpened \<and> ie_identity2 e = Some (Inr identity)")
    case True
    with signed r show ?thesis
      by (intro executed [of identity preflight artifact "merge_session_cleanup (ie_close1 e) (ie_close2 e)"])
        (auto simp: signed_for_def install_signed_def second_identity_error_def Let_def)
  next
    case False
    with r install_other_device show ?thesis by (metis before)
  qed
qed (metis before install_unsigned)

section \<open>Properties\<close>

definition demo_identity :: signing_device_identity where
  "demo_identity = \<lparr>di_name = ''Phone'', di_udid = ''u'', di_apple_tv = False,
     di_product_type = None, di_ios_version = None\<rparr>"

definition demo_execute :: "proxy_answer \<Rightarrow> execute_env" where
  "demo_execute answer = \<lparr>ex_precheck_client = True, ex_precheck_lookup = Some False,
     ex_plan = PlanReady, ex_afc_client = True, ex_staging = Staged, ex_root_created = True,
     ex_window_expired = False, ex_install_client = True, ex_install_answer = answer,
     ex_verification_expired = False, ex_verification_client = True,
     ex_verification_lookup = Some True, ex_clean = StSucceeded\<rparr>"

definition demo_install :: "proxy_answer \<Rightarrow> install_env" where
  "demo_install answer = \<lparr>ie_open1 = SessionOpened, ie_identity1 = Some (Inr demo_identity),
     ie_close1 = ScSucceeded,
     ie_sign = (\<lambda>_ _. SigningDone (Inr (\<lparr>ap_device_registration = AlreadyPresent,
        ap_development_certificate_count = 1, ap_development_certificate_capacity = Some 2,
        ap_machine_certificate_present = True\<rparr>,
        Some \<lparr>sga_app_bundle_path = [''a''], sga_cleanup_root = [''a''], sga_extraction_root = None,
          sga_bundle_id = ''com.a.TEAM''\<rparr>))),
     ie_open2 = SessionOpened, ie_identity2 = Some (Inr demo_identity), ie_close2 = ScSucceeded,
     ie_execute = demo_execute answer\<rparr>"

lemma demo_install_run:
  "install_remote_pairing_app (demo_install answer) policy reg =
     \<lparr>rp_outcome = Installed, rp_stage = InComplete, rp_cleanup = StSucceeded,
      rp_session_cleanup = ScSucceeded, rp_install_command_count = 1, rp_error_kind = '''',
      rp_bundle_id = Some ''com.a.TEAM'', rp_certificate_pressure = False,
      rp_signing_diagnostic = None\<rparr>"
  by (cases policy)
    (simp_all add: install_remote_pairing_app_def demo_install_def install_signed_def Let_def
      second_identity_error_def execute_rsd_first_install_def demo_execute_def precheck_def
      plan_failure_def after_cleanup_def clean_staging_def install_and_verify_def
      verification_lookup_def installed_verified certificate_pressure_def
      record_session_cleanup_def merge_session_cleanup_def)

text \<open>
  C3: The device gets at most one installation command, and only the right device. A command is
  sent only after the identity read in both sessions is the same, after signing produced an
  artifact, whose bundle identifier the report carries, and after the whole bundle was staged;
  under the refusing policy only if the app was not there before.
\<close>

theorem install_command_discipline:
  assumes "r = install_remote_pairing_app e policy reg"
  shows "rp_install_command_count r \<le> 1
    \<and> (rp_install_command_count r = 1 \<longrightarrow>
        (\<exists>identity preflight artifact.
           ie_identity1 e = Some (Inr identity) \<and> ie_identity2 e = Some (Inr identity)
           \<and> ie_sign e identity reg = SigningDone (Inr (preflight, Some artifact))
           \<and> rp_bundle_id r = Some (sga_bundle_id artifact))
        \<and> ex_staging (ie_execute e) = Staged
        \<and> (policy = Refuse \<longrightarrow> ex_precheck_lookup (ie_execute e) = Some False))"
proof (cases rule: install_cases [of e policy reg])
  case before
  then show ?thesis by (simp add: assms not_started_def)
next
  case (executed identity preflight artifact c)
  show ?thesis
  proof (cases rule: execute_cases [of "ie_execute e" "sga_bundle_id artifact" "certificate_pressure preflight" policy])
    case before
    then show ?thesis by (simp add: assms executed(4))
  next
    case sent
    from sent(1) have "policy = Refuse \<longrightarrow> ex_precheck_lookup (ie_execute e) = Some False"
      by (auto simp: precheck_def split: if_splits option.splits bool.splits)
    with executed(1-3) sent(2) show ?thesis by (simp add: assms executed(4) sent(5))
  qed
qed

theorem install_command_discipline_witness:
  "rp_install_command_count (install_remote_pairing_app (demo_install ProxyOk) Refuse RequireExisting) = 1
   \<and> ex_precheck_lookup (ie_execute (demo_install ProxyOk)) = Some False"
  using install_command_discipline [OF refl, of "demo_install ProxyOk" Refuse RequireExisting]
  by (simp add: demo_install_run)

text \<open>
  A job recorded as succeeded over a remote session was verified: the bundle identifier it
  records is the signed artifact's, and a lookup after the single command found it on the device.
\<close>

theorem rsd_success_verified:
  assumes "rsd_install_result (install_remote_pairing_app e policy reg) = Inr b"
  shows "verification_lookup (ie_execute e) = Some True
    \<and> rp_install_command_count (install_remote_pairing_app e policy reg) = 1
    \<and> (\<exists>identity preflight artifact. b = sga_bundle_id artifact
         \<and> ie_sign e identity reg = SigningDone (Inr (preflight, Some artifact)))"
proof -
  from assms have out: "rp_outcome (install_remote_pairing_app e policy reg) = Installed"
    and b: "rp_bundle_id (install_remote_pairing_app e policy reg) = Some b"
    by (auto simp: rsd_install_result_def split: if_splits)
  show ?thesis
  proof (cases rule: install_cases [of e policy reg])
    case before
    with out show ?thesis by (simp add: not_started_def)
  next
    case (executed identity preflight artifact c)
    show ?thesis
    proof (cases rule: execute_cases [of "ie_execute e" "sga_bundle_id artifact" "certificate_pressure preflight" policy])
      case before
      with out show ?thesis by (simp add: executed(4))
    next
      case sent
      from out b executed(3) show ?thesis
        by (auto simp: executed(4) sent(5) installed_verified)
    qed
  qed
qed

theorem rsd_success_verified_witness:
  "rsd_install_result (install_remote_pairing_app (demo_install ProxyOk) Upgrade Ensure) = Inr ''com.a.TEAM''
   \<and> verification_lookup (ie_execute (demo_install ProxyOk)) = Some True"
proof -
  have r: "rsd_install_result (install_remote_pairing_app (demo_install ProxyOk) Upgrade Ensure) = Inr ''com.a.TEAM''"
    by (simp add: demo_install_run rsd_install_result_def)
  from rsd_success_verified [OF r] r show ?thesis by blast
qed

text \<open>
  C39: A refused upgrade is recorded as a success. Verification only asks whether the bundle is
  on the device; when a job upgrades an app that is already there and the device definitely
  rejects the command, the lookup finds the old copy, the report is clean and the job succeeds.
\<close>

theorem rejected_upgrade_reported_installed:
  assumes "policy = Upgrade" "ex_install_answer (ie_execute e) = ProxyOperationFailed"
    and "rp_install_command_count (install_remote_pairing_app e policy reg) = 1"
    and "verification_lookup (ie_execute e) = Some True"
  shows "\<exists>b. rsd_install_result (install_remote_pairing_app e policy reg) = Inr b
    \<and> last (run_install_job True progress (rsd_install_result (install_remote_pairing_app e policy reg)))
        = WStatus ''succeeded'' (Some 100)"
proof (cases rule: install_cases [of e policy reg])
  case before
  with assms show ?thesis by (simp add: not_started_def)
next
  case (executed identity preflight artifact c)
  show ?thesis
  proof (cases rule: execute_cases [of "ie_execute e" "sga_bundle_id artifact" "certificate_pressure preflight" policy])
    case before
    with assms(3) show ?thesis unfolding executed(4) by simp
  next
    case sent
    show ?thesis unfolding executed(4) sent(5)
      by (simp add: rsd_install_result_def installed_verified run_install_job_def ok_or_def assms(4))
  qed
qed

theorem rejected_upgrade_reported_installed_witness:
  "send_one_install_command ProxyOperationFailed = Inl Definitive
   \<and> (\<exists>b. rsd_install_result (install_remote_pairing_app (demo_install ProxyOperationFailed) Upgrade Ensure) = Inr b)"
proof -
  have "ex_install_answer (ie_execute (demo_install ProxyOperationFailed)) = ProxyOperationFailed"
    "rp_install_command_count (install_remote_pairing_app (demo_install ProxyOperationFailed) Upgrade Ensure) = 1"
    "verification_lookup (ie_execute (demo_install ProxyOperationFailed)) = Some True"
    by (simp_all add: demo_install_run) (simp_all add: demo_install_def demo_execute_def verification_lookup_def)
  from rejected_upgrade_reported_installed [OF refl this] show ?thesis by auto
qed

end
