(* ===== verification/Sources.thy ===== *)
theory Sources
  imports Uploads
begin

text \<open>
  The GitHub sources (\<^verbatim>\<open>src/sources.rs\<close>): configuring, previewing, checking and downloading them,
  and the automatic synchronisation. GitHub, the URL parser and the IPA libraries are the
  parameters of the client and of the validator; \<open>before\<close> and \<open>after\<close> are what other requests do
  while a handler waits for GitHub and for the mutation lock.
\<close>

section \<open>Requests and errors\<close>

record source_config =
  sc_repository :: string
  sc_asset_pattern :: string
  sc_include_prereleases :: bool
  sc_app_id :: "uuid option"

text \<open>The two headers the guard reads, when they are there and printable.\<close>

record action_headers =
  ah_action :: "string option"
  ah_content_type :: "string option"

definition action_allowed :: "action_headers \<Rightarrow> bool" where
  "action_allowed h \<longleftrightarrow> ah_action h = Some ''1''
     \<and> (case ah_content_type h of None \<Rightarrow> False | Some v \<Rightarrow> starts_with v ''application/json'')"

definition action_required :: response where
  "action_required = message 400 ''JSON action header required.''"

fun github_error_code :: "github_error \<Rightarrow> string" where
  "github_error_code InvalidRepository = ''invalid_repository''"
| "github_error_code InvalidPattern = ''invalid_asset_pattern''"
| "github_error_code (HttpStatus status) =
     (if status = 403 \<or> status = 429 then ''github_rate_limited'' else ''github_unavailable'')"
| "github_error_code NoMatchingAsset = ''no_ipa_asset''"
| "github_error_code AmbiguousAsset = ''ambiguous_asset''"
| "github_error_code AssetTooLarge = ''asset_too_large''"
| "github_error_code InvalidDownloadUrl = ''invalid_download_url''"
| "github_error_code InvalidResponse = ''github_unavailable''"
| "github_error_code InvalidVersion = ''github_unavailable''"

definition code_message :: "string \<Rightarrow> string" where
  "code_message code =
     (if code = ''ambiguous_asset''
      then ''The asset pattern matches more than one IPA; refine it before downloading.''
      else if code = ''no_ipa_asset'' then ''No eligible IPA asset matches this source pattern.''
      else if code = ''github_rate_limited'' then ''GitHub rate-limited this request; try again later.''
      else if code = ''asset_too_large'' then ''The selected IPA exceeds the upload size limit.''
      else if code = ''invalid_repository''
      then ''Only public canonical GitHub repositories are supported.''
      else if code = ''invalid_asset_pattern'' then ''The IPA asset pattern is invalid.''
      else ''The GitHub source could not be processed.'')"

definition error_response :: "github_error \<Rightarrow> response" where
  "error_response error =
     (let code = github_error_code error in
      code_message_response
        (if code = ''invalid_repository'' \<or> code = ''invalid_asset_pattern'' then 400 else 502)
        code (code_message code))"

definition record_source_error :: "timestamp \<Rightarrow> uuid \<Rightarrow> github_error \<Rightarrow> server \<Rightarrow> server" where
  "record_source_error now sid error srv =
     (if sv_db_fault srv then srv
      else srv\<lparr>sv_db := record_source_check now sid None None None None None ''error''
                         (Some (github_error_code error)) (sv_db srv)\<rparr>)"

section \<open>Configuration\<close>

definition repository_text :: "string \<Rightarrow> string \<Rightarrow> string" where
  "repository_text owner repo = owner @ ''/'' @ repo"

definition source_json :: "(uuid \<Rightarrow> string) \<Rightarrow> github_source \<Rightarrow> json" where
  "source_json show_uuid s =
     JObj [(''id'', JStr (show_uuid (sr_id s))), (''appId'', jopt (JStr \<circ> show_uuid) (sr_app_id s)),
       (''repository'', JStr (repository_text (sr_owner s) (sr_repo s))),
       (''assetPattern'', JStr (sr_asset_pattern s)),
       (''includePrereleases'', JBool (sr_include_prereleases s)),
       (''autoDownload'', JBool (sr_auto_download s)),
       (''autoAcknowledgedAt'', jopt jtime (sr_auto_acknowledged_at s)),
       (''lastCheckedAt'', jopt jtime (sr_last_checked_at s)),
       (''lastReleaseId'', jopt JNum (sr_last_release_id s)),
       (''lastReleaseTag'', jopt JStr (sr_last_release_tag s)),
       (''lastAssetId'', jopt JNum (sr_last_asset_id s)),
       (''lastAssetName'', jopt JStr (sr_last_asset_name s)),
       (''lastDownloadSha256'', jopt JStr (sr_last_download_sha256 s)),
       (''lastStatus'', jopt JStr (sr_last_status s)),
       (''lastErrorCode'', jopt JStr (sr_last_error_code s)),
       (''createdAt'', jtime (sr_created_at s)), (''updatedAt'', jtime (sr_updated_at s))]"

definition list_sources :: "(uuid \<Rightarrow> string) \<Rightarrow> server \<Rightarrow> response" where
  "list_sources show_uuid srv =
     (case read_db srv list_github_sources of
        Some sources \<Rightarrow> Response 200 (Some (JArr (map (source_json show_uuid) sources)))
      | None \<Rightarrow> message 500 ''Unable to list GitHub sources.'')"

definition preview_source :: "releases_api \<Rightarrow> source_config \<Rightarrow> response" where
  "preview_source api config =
     (case parse_public_repository (sc_repository config) of
        Inl error \<Rightarrow> error_response error
      | Inr repository \<Rightarrow>
          (case latest_release api repository (sc_include_prereleases config) of
             Inl error \<Rightarrow> error_response error
           | Inr rel \<Rightarrow>
               Response 200 (Some (JObj [
                 (''repository'', JStr (repository_text (rr_owner repository) (rr_repo repository))),
                 (''release'', JObj [(''id'', JNum (rl_id rel)), (''tag'', JStr (rl_tag_name rel)),
                    (''name'', JStr (rl_name rel)), (''prerelease'', JBool (rl_prerelease rel))]),
                 (''assets'', JArr (map (\<lambda>a. JObj [(''id'', JNum (ra_id a)), (''name'', JStr (ra_name a)),
                      (''size'', JNum (uint (ra_size a)))]) (filter is_ipa_asset (rl_assets rel)))),
                 (''matchingAssetId'', case match_ipa_asset rel (sc_asset_pattern config) of
                    Inl _ \<Rightarrow> JNull | Inr asset \<Rightarrow> JNum (ra_id asset))]))))"

text \<open>The \<^verbatim>\<open>exists\<close> check: a failing lock or statement counts as missing; a deleted app is found.\<close>

definition linked_app_missing :: "(uuid \<Rightarrow> string) \<Rightarrow> uuid option \<Rightarrow> server \<Rightarrow> bool" where
  "linked_app_missing show_uuid app_id srv \<longleftrightarrow>
     (case app_id of None \<Rightarrow> False
      | Some a \<Rightarrow> Option.bind (read_db srv (\<lambda>d. find_app show_uuid d a)) id = None)"

definition create_source ::
  "timestamp \<Rightarrow> (uuid \<Rightarrow> string) \<Rightarrow> action_headers \<Rightarrow> source_config \<Rightarrow> uuid \<Rightarrow> server \<Rightarrow> response \<times> server" where
  "create_source now show_uuid h config sid srv =
     (if \<not> action_allowed h then (action_required, srv)
      else (case parse_public_repository (sc_repository config) of
        Inl error \<Rightarrow> (error_response error, srv)
      | Inr repository \<Rightarrow>
          (case validate_asset_pattern (sc_asset_pattern config) of
             Inl error \<Rightarrow> (error_response error, srv)
           | Inr _ \<Rightarrow>
               if linked_app_missing show_uuid (sc_app_id config) srv
               then (message 404 ''The linked IPA was not found.'', srv)
               else (case write_db srv (\<lambda>d. map_sum id (Pair ())
                        (insert_github_source now sid (sc_app_id config) (rr_owner repository)
                           (rr_repo repository) (sc_asset_pattern config)
                           (sc_include_prereleases config) d)) of
                       (Some _, srv') \<Rightarrow>
                         (Response 201 (Some (JObj [(''id'', JStr (show_uuid sid))])), srv')
                     | (None, srv') \<Rightarrow>
                         (code_message_response 409 ''source_exists''
                            ''This source configuration already exists.'', srv')))))"

definition update_source ::
  "timestamp \<Rightarrow> (uuid \<Rightarrow> string) \<Rightarrow> action_headers \<Rightarrow> source_config \<Rightarrow> uuid \<Rightarrow> server \<Rightarrow> response \<times> server" where
  "update_source now show_uuid h config sid srv =
     (if \<not> action_allowed h then (action_required, srv)
      else if linked_app_missing show_uuid (sc_app_id config) srv
      then (message 404 ''The linked IPA was not found.'', srv)
      else (case parse_public_repository (sc_repository config) of
        Inl error \<Rightarrow> (error_response error, srv)
      | Inr repository \<Rightarrow>
          (case validate_asset_pattern (sc_asset_pattern config) of
             Inl error \<Rightarrow> (error_response error, srv)
           | Inr _ \<Rightarrow>
               (case write_db srv (update_github_source now sid (sc_app_id config)
                        (rr_owner repository) (rr_repo repository) (sc_asset_pattern config)
                        (sc_include_prereleases config)) of
                  (Some True, srv') \<Rightarrow> (Response 204 None, srv')
                | (Some False, srv') \<Rightarrow> (message 404 ''GitHub source was not found.'', srv')
                | (None, srv') \<Rightarrow> (message 409 ''Unable to update GitHub source.'', srv')))))"

definition remove_source :: "action_headers \<Rightarrow> uuid \<Rightarrow> server \<Rightarrow> response \<times> server" where
  "remove_source h sid srv =
     (if \<not> action_allowed h then (action_required, srv)
      else (case write_db srv (\<lambda>d. Inr (delete_github_source sid d) :: sql_error + _) of
              (Some True, srv') \<Rightarrow> (Response 204 None, srv')
            | (Some False, srv') \<Rightarrow> (message 404 ''GitHub source was not found.'', srv')
            | (None, srv') \<Rightarrow> (message 500 ''Unable to remove GitHub source.'', srv')))"

definition source_automation ::
  "timestamp \<Rightarrow> action_headers \<Rightarrow> bool \<Rightarrow> bool \<Rightarrow> uuid \<Rightarrow> server \<Rightarrow> response \<times> server" where
  "source_automation now h enabled acknowledged sid srv =
     (if \<not> action_allowed h then (action_required, srv)
      else if enabled \<and> \<not> acknowledged
      then (code_message_response 400 ''security_acknowledgement_required''
              ''Read and acknowledge the source security warning before enabling automatic downloads.'', srv)
      else (case write_db srv (\<lambda>d. Inr (set_source_automation now sid enabled acknowledged d) :: sql_error + _) of
              (Some True, srv') \<Rightarrow> (Response 204 None, srv')
            | (Some False, srv') \<Rightarrow> (message 404 ''GitHub source was not found.'', srv')
            | (None, srv') \<Rightarrow> (message 500 ''Unable to update source automation.'', srv')))"

section \<open>Checking\<close>

record 'u source_env =
  so_urls :: "'u url_lib"
  so_releases :: releases_api
  so_lib :: ipa_lib
  so_fault :: io_faults
  so_now :: timestamp
  so_show_uuid :: "uuid \<Rightarrow> string"
  so_apps_dir :: path

definition source_repository :: "github_source \<Rightarrow> repository_ref" where
  "source_repository s = \<lparr>rr_owner = sr_owner s, rr_repo = sr_repo s\<rparr>"

text \<open>The release and the asset a source points at now.\<close>

definition source_asset :: "releases_api \<Rightarrow> github_source \<Rightarrow> github_error + release \<times> release_asset" where
  "source_asset api s =
     sum_bind (latest_release api (source_repository s) (sr_include_prereleases s))
       (\<lambda>rel. map_sum id (Pair rel) (match_ipa_asset rel (sr_asset_pattern s)))"

definition source_check_status ::
  "int option \<Rightarrow> int option \<Rightarrow> string option \<Rightarrow> int \<Rightarrow> int \<Rightarrow> string" where
  "source_check_status last_release_id last_asset_id last_status release_id asset_id =
     (if last_release_id = Some release_id \<and> last_asset_id = Some asset_id
         \<and> (last_status = Some ''downloaded'' \<or> last_status = Some ''unchanged''
            \<or> last_status = Some ''up_to_date'')
      then ''up_to_date'' else ''update_available'')"

definition stored_source :: "server \<Rightarrow> uuid \<Rightarrow> github_source option" where
  "stored_source srv sid = Option.bind (read_db srv (\<lambda>d. find_github_source d sid)) id"

definition check_source ::
  "'u source_env \<Rightarrow> (server \<Rightarrow> server) \<Rightarrow> action_headers \<Rightarrow> uuid \<Rightarrow> server \<Rightarrow> response \<times> server" where
  "check_source e before h sid srv =
     (if \<not> action_allowed h then (action_required, srv)
      else (case stored_source srv sid of
        None \<Rightarrow> (message 404 ''GitHub source was not found.'', srv)
      | Some source \<Rightarrow>
          (let srv1 = before srv in
           case source_asset (so_releases e) source of
             Inl error \<Rightarrow> (error_response error, record_source_error (so_now e) sid error srv1)
           | Inr (rel, asset) \<Rightarrow>
               let status = source_check_status (sr_last_release_id source) (sr_last_asset_id source)
                     (sr_last_status source) (rl_id rel) (ra_id asset);
                   current = (status = ''up_to_date'') in
               (Response 200 (Some (JObj [(''current'', JBool current),
                  (''updateAvailable'', JBool (\<not> current)), (''releaseTag'', JStr (rl_tag_name rel)),
                  (''assetName'', JStr (ra_name asset)), (''assetSize'', JNum (uint (ra_size asset)))])),
                if sv_db_fault srv1 then srv1
                else srv1\<lparr>sv_db := record_source_check (so_now e) sid (Some (rl_id rel))
                       (Some (rl_tag_name rel)) (Some (ra_id asset)) (Some (ra_name asset))
                       (sr_last_download_sha256 source) status None (sv_db srv1)\<rparr>))))"

section \<open>Downloading\<close>

text \<open>
  What the section under the database lock ends with: the old path and whether nothing changed
  (\<^term>\<open>None\<close> for an error) and the path the download was moved to, if it was.
\<close>

record commit_result =
  cr_result :: "(path \<times> bool) option"
  cr_finalized :: "path option"
  cr_server :: server

definition commit_failed :: "path option \<Rightarrow> server \<Rightarrow> commit_result" where
  "commit_failed finalized srv = \<lparr>cr_result = None, cr_finalized = finalized, cr_server = srv\<rparr>"

definition linked_path :: "(uuid \<Rightarrow> string) \<Rightarrow> path \<Rightarrow> uuid \<Rightarrow> string \<Rightarrow> path" where
  "linked_path show_uuid apps_dir app_id sha =
     apps_dir @ ''/'' @ show_uuid app_id @ ''-'' @ take (min 12 (length sha)) sha @ ''.ipa''"

definition replace_linked ::
  "'u source_env \<Rightarrow> uuid \<Rightarrow> uuid \<Rightarrow> release \<Rightarrow> release_asset \<Rightarrow> upload_metadata \<Rightarrow> path \<Rightarrow> server
     \<Rightarrow> commit_result" where
  "replace_linked e sid app_id rel asset md tmp srv =
     (let d = sv_db srv; fs = sv_fs srv; fault = so_fault e in
      case find_app (so_show_uuid e) d app_id of
        None \<Rightarrow> commit_failed None srv
      | Some app \<Rightarrow>
          if active_job_exists_for_app d app_id then commit_failed None srv
          else if sa_bundle_id app \<noteq> Some (md_bundle_id md) then commit_failed None srv
          else if sa_sha256 app = md_sha256 md \<and> is_file fs (sa_storage_path app)
          then \<lparr>cr_result = Some ('''', True), cr_finalized = None,
                 cr_server = srv\<lparr>sv_fs := fs_remove_ignore fault fs tmp,
                   sv_db := record_source_check (so_now e) sid (Some (rl_id rel)) (Some (rl_tag_name rel))
                     (Some (ra_id asset)) (Some (ra_name asset)) (Some (md_sha256 md)) ''unchanged'' None d\<rparr>\<rparr>
          else
            let final = linked_path (so_show_uuid e) (so_apps_dir e) app_id (md_sha256 md) in
            (case fs_rename fault fs tmp final of
               Inl _ \<Rightarrow> commit_failed None srv
             | Inr fs' \<Rightarrow>
                 (case replace_app_from_source (so_now e) app_id sid (md_sha256 md) final
                         (md_size_bytes md) (md_bundle_id md) (md_app_version md) (rl_id rel)
                         (rl_tag_name rel) (ra_id asset) (ra_name asset) d of
                    Inl _ \<Rightarrow> commit_failed (Some final) (srv\<lparr>sv_fs := fs'\<rparr>)
                  | Inr d' \<Rightarrow> \<lparr>cr_result = Some (sa_storage_path app, False), cr_finalized = Some final,
                               cr_server = srv\<lparr>sv_fs := fs', sv_db := d'\<rparr>\<rparr>)))"

definition unlinked_path :: "(uuid \<Rightarrow> string) \<Rightarrow> path \<Rightarrow> uuid \<Rightarrow> path" where
  "unlinked_path show_uuid apps_dir app_id = apps_dir @ ''/'' @ show_uuid app_id @ ''.ipa''"

definition store_unlinked ::
  "'u source_env \<Rightarrow> uuid \<Rightarrow> uuid \<Rightarrow> release \<Rightarrow> release_asset \<Rightarrow> upload_metadata \<Rightarrow> path \<Rightarrow> server
     \<Rightarrow> commit_result" where
  "store_unlinked e sid app_id rel asset md tmp srv =
     (let final = unlinked_path (so_show_uuid e) (so_apps_dir e) app_id in
      case fs_rename (so_fault e) (sv_fs srv) tmp final of
        Inl _ \<Rightarrow> commit_failed None srv
      | Inr fs' \<Rightarrow>
          (let srv1 = srv\<lparr>sv_fs := fs'\<rparr> in
           case insert_app (so_now e) app_id (md_sha256 md) final (md_size_bytes md) (md_bundle_id md)
                  (md_display_name md) (md_app_version md) (sv_db srv) of
             Inl _ \<Rightarrow> commit_failed (Some final) srv1
           | Inr d1 \<Rightarrow>
               (case link_github_source_app (so_now e) sid app_id d1 of
                  Inl _ \<Rightarrow> commit_failed (Some final) (srv1\<lparr>sv_db := d1\<rparr>)
                | Inr d2 \<Rightarrow> \<lparr>cr_result = Some (final, False), cr_finalized = Some final,
                    cr_server = srv1\<lparr>sv_db := record_source_check (so_now e) sid (Some (rl_id rel))
                      (Some (rl_tag_name rel)) (Some (ra_id asset)) (Some (ra_name asset))
                      (Some (md_sha256 md)) ''downloaded'' None d2\<rparr>\<rparr>)))"

definition same_source :: "github_source \<Rightarrow> github_source \<Rightarrow> bool" where
  "same_source s t \<longleftrightarrow> sr_app_id s = sr_app_id t \<and> sr_owner s = sr_owner t \<and> sr_repo s = sr_repo t
     \<and> sr_asset_pattern s = sr_asset_pattern t \<and> sr_include_prereleases s = sr_include_prereleases t"

definition commit_download ::
  "'u source_env \<Rightarrow> github_source \<Rightarrow> uuid \<Rightarrow> uuid \<Rightarrow> release \<Rightarrow> release_asset \<Rightarrow> upload_metadata \<Rightarrow> path
     \<Rightarrow> server \<Rightarrow> commit_result" where
  "commit_download e source sid new_app rel asset md tmp srv =
     (case stored_source srv sid of
        None \<Rightarrow> commit_failed None srv
      | Some current \<Rightarrow>
          if \<not> same_source current source then commit_failed None srv
          else (case sr_app_id source of
                  Some app_id \<Rightarrow> replace_linked e sid app_id rel asset md tmp srv
                | None \<Rightarrow> store_unlinked e sid new_app rel asset md tmp srv))"

definition download_temporary :: "(uuid \<Rightarrow> string) \<Rightarrow> path \<Rightarrow> uuid \<Rightarrow> uuid \<Rightarrow> path" where
  "download_temporary show_uuid apps_dir sid unique =
     apps_dir @ ''/.source-'' @ show_uuid sid @ ''-'' @ show_uuid unique @ ''.upload''"

definition downloaded_body :: "bool \<Rightarrow> release \<Rightarrow> release_asset \<Rightarrow> upload_metadata \<Rightarrow> json" where
  "downloaded_body unchanged rel asset md =
     JObj [(''status'', JStr (if unchanged then ''unchanged'' else ''downloaded'')),
       (''releaseTag'', JStr (rl_tag_name rel)), (''assetName'', JStr (ra_name asset)),
       (''sha256'', JStr (md_sha256 md))]"

text \<open>The end of the handler: what happens to the files and which answer is given.\<close>

definition finish_download ::
  "io_faults \<Rightarrow> release \<Rightarrow> release_asset \<Rightarrow> upload_metadata \<Rightarrow> path \<Rightarrow> commit_result \<Rightarrow> response \<times> server" where
  "finish_download fault rel asset md tmp c =
     (let srv = cr_server c in
      case cr_result c of
        Some (old_path, unchanged) \<Rightarrow>
          (Response (if unchanged then 208 else 200) (Some (downloaded_body unchanged rel asset md)),
           if old_path = '''' then srv else srv\<lparr>sv_fs := fs_remove_ignore fault (sv_fs srv) old_path\<rparr>)
      | None \<Rightarrow>
          (let fs1 = fs_remove_ignore fault (sv_fs srv) tmp in
           (code_message_response 409 ''source_download_failed''
              ''The source could not replace the server IPA; it may have an active job or bundle mismatch.'',
            srv\<lparr>sv_fs := (case cr_finalized c of None \<Rightarrow> fs1 | Some p \<Rightarrow> fs_remove_ignore fault fs1 p)\<rparr>)))"

definition record_invalid_ipa ::
  "timestamp \<Rightarrow> uuid \<Rightarrow> release \<Rightarrow> release_asset \<Rightarrow> server \<Rightarrow> server" where
  "record_invalid_ipa now sid rel asset srv =
     (if sv_db_fault srv then srv
      else srv\<lparr>sv_db := record_source_check now sid (Some (rl_id rel)) (Some (rl_tag_name rel))
                 (Some (ra_id asset)) (Some (ra_name asset)) None ''error'' (Some ''invalid_ipa'') (sv_db srv)\<rparr>)"

definition download_source ::
  "'u source_env \<Rightarrow> (server \<Rightarrow> server) \<Rightarrow> (server \<Rightarrow> server) \<Rightarrow> action_headers \<Rightarrow> uuid \<Rightarrow> uuid \<Rightarrow> uuid \<Rightarrow> server
     \<Rightarrow> response \<times> server" where
  "download_source e before after h unique new_app sid srv =
     (if \<not> action_allowed h then (action_required, srv)
      else (case stored_source srv sid of
        None \<Rightarrow> (message 404 ''GitHub source was not found.'', srv)
      | Some source \<Rightarrow>
          (let srv1 = before srv; fault = so_fault e;
               tmp = download_temporary (so_show_uuid e) (so_apps_dir e) sid unique in
           case source_asset (so_releases e) source of
             Inl error \<Rightarrow> (error_response error, record_source_error (so_now e) sid error srv1)
           | Inr (rel, asset) \<Rightarrow>
               (case download_asset (so_urls e) fault (sv_fs srv1) (source_repository source) rel asset tmp of
                  (Inl error, fs1) \<Rightarrow>
                    (error_response error, record_source_error (so_now e) sid error
                       (srv1\<lparr>sv_fs := fs_remove_ignore fault fs1 tmp\<rparr>))
                | (Inr _, fs1) \<Rightarrow>
                    (case inspect_ipa (so_lib e) fault fs1 tmp of
                       Inl _ \<Rightarrow>
                         (code_message_response 400 ''invalid_ipa''
                            ''The downloaded release asset is not a valid IPA.'',
                          record_invalid_ipa (so_now e) sid rel asset
                            (srv1\<lparr>sv_fs := fs_remove_ignore fault fs1 tmp\<rparr>))
                     | Inr md \<Rightarrow>
                         finish_download fault rel asset md tmp
                           (commit_download e source sid new_app rel asset md tmp
                              (after (srv1\<lparr>sv_fs := fs1\<rparr>))))))))"

section \<open>Synchronising\<close>

text \<open>One entry per source: updated, unchanged or failed, from the status of the download.\<close>

datatype sync_outcome = Updated | Unchanged | SyncFailed

definition sync_outcome :: "response \<Rightarrow> sync_outcome" where
  "sync_outcome r = (if resp_status r = 208 then Unchanged
     else if 200 \<le> resp_status r \<and> resp_status r < 300 then Updated else SyncFailed)"

text \<open>\<open>run k sid\<close> is the \<open>k\<close>-th download of the loop, with its fresh identifiers.\<close>

fun sync_loop ::
  "(nat \<Rightarrow> uuid \<Rightarrow> server \<Rightarrow> response \<times> server) \<Rightarrow> nat \<Rightarrow> uuid list \<Rightarrow> server \<Rightarrow> sync_outcome list \<times> server" where
  "sync_loop run k [] srv = ([], srv)"
| "sync_loop run k (sid # sids) srv =
     (case run k sid srv of
        (r, srv1) \<Rightarrow> (case sync_loop run (Suc k) sids srv1 of (os, srv2) \<Rightarrow> (sync_outcome r # os, srv2)))"

definition automatic_sources :: "server \<Rightarrow> uuid list" where
  "automatic_sources srv =
     map sr_id (filter sr_auto_download (unwrap_or [] (read_db srv list_github_sources)))"

definition sync_sources ::
  "(nat \<Rightarrow> uuid \<Rightarrow> server \<Rightarrow> response \<times> server) \<Rightarrow> action_headers \<Rightarrow> bool \<Rightarrow> server \<Rightarrow> response \<times> server" where
  "sync_sources run h already_running srv =
     (if \<not> action_allowed h then (action_required, srv)
      else if already_running then (message 409 ''Source synchronization is already running.'', srv)
      else (case sync_loop run 0 (automatic_sources srv) srv of
              (os, srv') \<Rightarrow>
                let count = (\<lambda>x. int (length (filter (\<lambda>y. y = x) os))) in
                (Response 200 (Some (JObj [
                   (''checked'', JNum (count Updated + count Unchanged + count SyncFailed)),
                   (''updated'', JNum (count Updated)), (''failed'', JNum (count SyncFailed)),
                   (''unchanged'', JNum (count Unchanged)), (''skipped'', JNum 0)])), srv')))"

section \<open>What a successful download did\<close>

lemma resp_status_error [simp]: "resp_status (error_response err) \<in> {400, 502}"
  by (simp add: error_response_def Let_def)

lemma error_response_not_ok: "resp_status (error_response err) = 200 \<longleftrightarrow> False"
  by (simp add: error_response_def Let_def)

lemma download_success:
  assumes "download_source e before after h unique new_app sid srv = (r, srv')" "resp_status r = 200"
  shows "\<exists>source rel asset md fs1 old_path c. stored_source srv sid = Some source
    \<and> source_asset (so_releases e) source = Inr (rel, asset)
    \<and> download_asset (so_urls e) (so_fault e) (sv_fs (before srv)) (source_repository source) rel asset
          (download_temporary (so_show_uuid e) (so_apps_dir e) sid unique) = (Inr (), fs1)
    \<and> inspect_ipa (so_lib e) (so_fault e) fs1 (download_temporary (so_show_uuid e) (so_apps_dir e) sid unique) = Inr md
    \<and> c = commit_download e source sid new_app rel asset md
          (download_temporary (so_show_uuid e) (so_apps_dir e) sid unique) (after ((before srv)\<lparr>sv_fs := fs1\<rparr>))
    \<and> cr_result c = Some (old_path, False)
    \<and> sv_db srv' = sv_db (cr_server c)
    \<and> sv_fs srv' = (if old_path = '''' then sv_fs (cr_server c)
                     else fs_remove_ignore (so_fault e) (sv_fs (cr_server c)) old_path)"
proof -
  let ?tmp = "download_temporary (so_show_uuid e) (so_apps_dir e) sid unique"
  note run = assms(1) [unfolded download_source_def Let_def]
  have allowed: "action_allowed h" using run assms(2) by (auto simp: action_required_def split: if_splits)
  then obtain source where source: "stored_source srv sid = Some source"
    using run assms(2) by (cases "stored_source srv sid") auto
  then obtain rel asset where asset: "source_asset (so_releases e) source = Inr (rel, asset)"
    using run assms(2) allowed by (cases "source_asset (so_releases e) source") (auto simp: error_response_not_ok)
  obtain res fs1 where dl: "download_asset (so_urls e) (so_fault e) (sv_fs (before srv)) (source_repository source)
      rel asset ?tmp = (res, fs1)" by fastforce
  then obtain u where res: "res = Inr u"
    using run assms(2) allowed source asset by (cases res) (auto simp: error_response_not_ok)
  then obtain md where md: "inspect_ipa (so_lib e) (so_fault e) fs1 ?tmp = Inr md"
    using run assms(2) allowed source asset dl by (cases "inspect_ipa (so_lib e) (so_fault e) fs1 ?tmp") auto
  let ?c = "commit_download e source sid new_app rel asset md ?tmp (after ((before srv)\<lparr>sv_fs := fs1\<rparr>))"
  from run allowed source asset dl res md
  have fin: "finish_download (so_fault e) rel asset md ?tmp ?c = (r, srv')" by simp
  then obtain old_path where ok: "cr_result ?c = Some (old_path, False)"
    using assms(2) by (auto simp: finish_download_def Let_def split: option.splits if_splits)
  with fin source asset dl res md show ?thesis
    by (intro exI [of _ source] exI [of _ rel] exI [of _ asset] exI [of _ md] exI [of _ fs1]
        exI [of _ old_path] exI [of _ ?c]) (auto simp: finish_download_def Let_def)
qed

lemma commit_success:
  assumes "cr_result (commit_download e source sid new_app rel asset md tmp srv2) = Some (old_path, False)"
  shows "(case sr_app_id source of
      Some a \<Rightarrow> replace_linked e sid a rel asset md tmp srv2
    | None \<Rightarrow> store_unlinked e sid new_app rel asset md tmp srv2) = commit_download e source sid new_app rel asset md tmp srv2"
  using assms by (auto simp: commit_download_def commit_failed_def split: option.splits if_splits)

lemma replace_linked_success:
  assumes "cr_result (replace_linked e sid a rel asset md tmp srv2) = Some (old_path, False)"
  shows "\<exists>app content d'. find_app (so_show_uuid e) (sv_db srv2) a = Some app \<and> old_path = sa_storage_path app
    \<and> \<not> active_job_exists_for_app (sv_db srv2) a \<and> sa_bundle_id app = Some (md_bundle_id md)
    \<and> sv_fs srv2 tmp = Some content
    \<and> replace_app_from_source (so_now e) a sid (md_sha256 md)
        (linked_path (so_show_uuid e) (so_apps_dir e) a (md_sha256 md)) (md_size_bytes md) (md_bundle_id md)
        (md_app_version md) (rl_id rel) (rl_tag_name rel) (ra_id asset) (ra_name asset) (sv_db srv2) = Inr d'
    \<and> cr_server (replace_linked e sid a rel asset md tmp srv2) = srv2\<lparr>sv_fs := (sv_fs srv2)(tmp := None,
        linked_path (so_show_uuid e) (so_apps_dir e) a (md_sha256 md) := Some content), sv_db := d'\<rparr>"
proof -
  let ?final = "linked_path (so_show_uuid e) (so_apps_dir e) a (md_sha256 md)"
  note def = replace_linked_def commit_failed_def Let_def
  from assms obtain app where app: "find_app (so_show_uuid e) (sv_db srv2) a = Some app"
    by (cases "find_app (so_show_uuid e) (sv_db srv2) a") (auto simp: def)
  with assms have ok: "\<not> active_job_exists_for_app (sv_db srv2) a" "sa_bundle_id app = Some (md_bundle_id md)"
    "\<not> (sa_sha256 app = md_sha256 md \<and> is_file (sv_fs srv2) (sa_storage_path app))"
    by (auto simp: def split: if_splits)
  with assms app obtain fs' where ren: "fs_rename (so_fault e) (sv_fs srv2) tmp ?final = Inr fs'"
    by (cases "fs_rename (so_fault e) (sv_fs srv2) tmp ?final") (auto simp: def)
  from fs_rename_InrD [OF ren] obtain content where c: "sv_fs srv2 tmp = Some content"
    "fs' = (sv_fs srv2)(tmp := None, ?final := Some content)" by blast
  show ?thesis
  proof (cases "replace_app_from_source (so_now e) a sid (md_sha256 md) ?final (md_size_bytes md) (md_bundle_id md)
        (md_app_version md) (rl_id rel) (rl_tag_name rel) (ra_id asset) (ra_name asset) (sv_db srv2)")
    case (Inl err)
    with assms app ok ren show ?thesis by (auto simp: def)
  next
    case (Inr d')
    with assms app ok ren c show ?thesis by (auto simp: def)
  qed
qed

lemma store_unlinked_success:
  assumes "cr_result (store_unlinked e sid new_app rel asset md tmp srv2) = Some (old_path, False)"
  shows "old_path = unlinked_path (so_show_uuid e) (so_apps_dir e) new_app
    \<and> (\<exists>row \<in> set (db_apps (sv_db (cr_server (store_unlinked e sid new_app rel asset md tmp srv2)))).
         ar_id row = new_app \<and> ar_deleted_at row = None \<and> ar_storage_path row = old_path)"
  using assms
  by (auto simp: store_unlinked_def commit_failed_def Let_def insert_app_def link_github_source_app_def
      record_source_check_def split: sum.splits if_splits)

lemma replace_app_rows:
  assumes "replace_app_from_source now a sid sha p n b v ri rt ai an d = Inr d'"
  shows "list_all (\<lambda>row. ar_id row = a \<longrightarrow> ar_sha256 row = sha \<and> ar_storage_path row = p
    \<and> ar_deleted_at row = None) (db_apps d')"
proof -
  from assms have "db_apps d' = update_rows (\<lambda>r. ar_id r = a)
      (\<lambda>r. r\<lparr>ar_sha256 := sha, ar_storage_path := p, ar_size_bytes := n, ar_bundle_id := Some b,
             ar_app_version := v, ar_deleted_at := None\<rparr>) (db_apps d)"
    by (auto simp: replace_app_from_source_def Let_def split: if_splits)
  then show ?thesis by (simp add: list_all_iff ball_update_rows)
qed

lemma fs_remove_ignore_fault: "fault (IoRemove p) \<Longrightarrow> fs_remove_ignore fault fs p = fs"
  by (simp add: fs_remove_ignore_def fs_remove_def)

text \<open>
  C31: A download replaces an app only when that is safe. When a linked source answers 200, then the
  asset chosen from its releases was downloaded and what was downloaded passed the inspection. If the
  requests that run before the replacement leave the fresh temporary file alone, the app had then no
  active job and the bundle identifier of the inspected IPA; the app's row carries the hash of that
  IPA, is not deleted and names the file the handler moved the downloaded content to. That file holds
  the content, except when the app was already stored under this very name: then the handler
  removes it as the replaced file, if it can be removed.
\<close>

theorem source_replacement_safe:
  assumes run: "download_source e before after h unique new_app sid srv = (r, srv')" "resp_status r = 200"
    and linked: "stored_source srv sid = Some source" "sr_app_id source = Some a"
    and tmp: "tmp = download_temporary (so_show_uuid e) (so_apps_dir e) sid unique"
    and untouched: "\<And>s. sv_fs (after s) tmp = sv_fs s tmp"
  shows "\<exists>rel asset fs1 md app content. let srv2 = after ((before srv)\<lparr>sv_fs := fs1\<rparr>);
        final = linked_path (so_show_uuid e) (so_apps_dir e) a (md_sha256 md) in
      source_asset (so_releases e) source = Inr (rel, asset)
      \<and> download_asset (so_urls e) (so_fault e) (sv_fs (before srv)) (source_repository source) rel asset tmp
          = (Inr (), fs1)
      \<and> inspect_ipa (so_lib e) (so_fault e) fs1 tmp = Inr md \<and> fs1 tmp = Some content
      \<and> find_app (so_show_uuid e) (sv_db srv2) a = Some app
      \<and> \<not> active_job_exists_for_app (sv_db srv2) a \<and> sa_bundle_id app = Some (md_bundle_id md)
      \<and> list_all (\<lambda>row. ar_id row = a \<longrightarrow> ar_sha256 row = md_sha256 md \<and> ar_storage_path row = final
            \<and> ar_deleted_at row = None) (db_apps (sv_db srv'))
      \<and> sv_fs srv' final = (if sa_storage_path app = final \<and> \<not> so_fault e (IoRemove final) then None
                            else Some content)"
proof -
  from download_success [OF run] linked(1) obtain rel asset md fs1 old_path where
    dl: "source_asset (so_releases e) source = Inr (rel, asset)"
      "download_asset (so_urls e) (so_fault e) (sv_fs (before srv)) (source_repository source) rel asset tmp = (Inr (), fs1)"
    and md: "inspect_ipa (so_lib e) (so_fault e) fs1 tmp = Inr md"
    and c: "cr_result (commit_download e source sid new_app rel asset md tmp (after ((before srv)\<lparr>sv_fs := fs1\<rparr>)))
        = Some (old_path, False)"
    and srv': "sv_db srv' = sv_db (cr_server (commit_download e source sid new_app rel asset md tmp
        (after ((before srv)\<lparr>sv_fs := fs1\<rparr>))))"
      "sv_fs srv' = (if old_path = '''' then sv_fs (cr_server (commit_download e source sid new_app rel asset md tmp
          (after ((before srv)\<lparr>sv_fs := fs1\<rparr>)))) else fs_remove_ignore (so_fault e) (sv_fs (cr_server
          (commit_download e source sid new_app rel asset md tmp (after ((before srv)\<lparr>sv_fs := fs1\<rparr>))))) old_path)"
    unfolding tmp by auto
  note commit = commit_success [OF c, unfolded linked(2) option.case, symmetric]
  let ?srv2 = "after ((before srv)\<lparr>sv_fs := fs1\<rparr>)"
  let ?final = "linked_path (so_show_uuid e) (so_apps_dir e) a (md_sha256 md)"
  from replace_linked_success [OF c [unfolded commit]] obtain app content d' where app:
    "find_app (so_show_uuid e) (sv_db ?srv2) a = Some app"
    "old_path = sa_storage_path app" "\<not> active_job_exists_for_app (sv_db ?srv2) a"
    "sa_bundle_id app = Some (md_bundle_id md)" "sv_fs ?srv2 tmp = Some content"
    and rep: "replace_app_from_source (so_now e) a sid (md_sha256 md) ?final (md_size_bytes md) (md_bundle_id md)
        (md_app_version md) (rl_id rel) (rl_tag_name rel) (ra_id asset) (ra_name asset) (sv_db ?srv2) = Inr d'"
    and cs: "cr_server (replace_linked e sid a rel asset md tmp ?srv2) =
        ?srv2\<lparr>sv_fs := (sv_fs ?srv2)(tmp := None, ?final := Some content), sv_db := d'\<rparr>" by blast
  from app(5) untouched have content: "fs1 tmp = Some content" by simp
  have "?final \<noteq> ''''" by (simp add: linked_path_def)
  then have "sv_fs srv' ?final = (if sa_storage_path app = ?final \<and> \<not> so_fault e (IoRemove ?final) then None
      else Some content)"
    by (cases "sa_storage_path app = ?final"; cases "so_fault e (IoRemove ?final)")
      (simp_all add: srv' commit cs app(2) fs_remove_ignore_same fs_remove_ignore_fault)
  with app md dl content cs srv'(1) commit replace_app_rows [OF rep] show ?thesis
    by (intro exI [of _ rel] exI [of _ asset] exI [of _ fs1] exI [of _ md] exI [of _ app] exI [of _ content])
      (simp add: Let_def)
qed

text \<open>
  C33: The first download of an unlinked source stores an app without a file. The section under
  the lock returns the new app's own path as the path to remove, so whenever the handler answers
  200 and files can be removed, the app is recorded and its file is gone.
\<close>

theorem unlinked_download_loses_file:
  assumes run: "download_source e before after h unique new_app sid srv = (r, srv')" "resp_status r = 200"
    and unlinked: "stored_source srv sid = Some source" "sr_app_id source = None"
    and removable: "\<not> so_fault e (IoRemove (unlinked_path (so_show_uuid e) (so_apps_dir e) new_app))"
  shows "\<exists>row \<in> set (db_apps (sv_db srv')). ar_id row = new_app \<and> ar_deleted_at row = None
    \<and> sv_fs srv' (ar_storage_path row) = None"
proof -
  let ?tmp = "download_temporary (so_show_uuid e) (so_apps_dir e) sid unique"
  from download_success [OF run] unlinked(1) obtain rel asset md fs1 old_path where
    c: "cr_result (commit_download e source sid new_app rel asset md ?tmp (after ((before srv)\<lparr>sv_fs := fs1\<rparr>)))
        = Some (old_path, False)"
    and srv': "sv_db srv' = sv_db (cr_server (commit_download e source sid new_app rel asset md ?tmp
        (after ((before srv)\<lparr>sv_fs := fs1\<rparr>))))"
      "sv_fs srv' = (if old_path = '''' then sv_fs (cr_server (commit_download e source sid new_app rel asset md ?tmp
          (after ((before srv)\<lparr>sv_fs := fs1\<rparr>)))) else fs_remove_ignore (so_fault e) (sv_fs (cr_server
          (commit_download e source sid new_app rel asset md ?tmp (after ((before srv)\<lparr>sv_fs := fs1\<rparr>))))) old_path)"
    by auto
  note commit = commit_success [OF c, unfolded unlinked(2) option.case, symmetric]
  have "old_path \<noteq> ''''" if "old_path = unlinked_path (so_show_uuid e) (so_apps_dir e) new_app"
    using that by (simp add: unlinked_path_def)
  with store_unlinked_success [OF c [unfolded commit]] srv' removable show ?thesis
    unfolding commit by (auto simp: fs_remove_ignore_same)
qed

text \<open>
  Restoring a missing file by downloading it again loses it again. When a linked app is
  stored under the name a source download gives it, its file is missing and the download brings
  the same content, the handler moves the download into place, answers 200 and then removes it as
  the replaced file.
\<close>

theorem redownload_loses_file:
  assumes run: "download_source e id id h unique new_app sid srv = (r, srv')" "resp_status r = 200"
    and linked: "stored_source srv sid = Some source" "sr_app_id source = Some a"
    and app: "find_app (so_show_uuid e) (sv_db srv) a = Some app"
      "sa_storage_path app = linked_path (so_show_uuid e) (so_apps_dir e) a (sa_sha256 app)"
    and same: "row \<in> set (db_apps (sv_db srv'))" "ar_id row = a" "ar_sha256 row = sa_sha256 app"
    and removable: "\<not> so_fault e (IoRemove (sa_storage_path app))"
  shows "ar_storage_path row = sa_storage_path app \<and> sv_fs srv' (ar_storage_path row) = None"
proof -
  let ?tmp = "download_temporary (so_show_uuid e) (so_apps_dir e) sid unique"
  from download_success [OF run] linked(1) obtain rel asset md fs1 old_path where
    c: "cr_result (commit_download e source sid new_app rel asset md ?tmp (srv\<lparr>sv_fs := fs1\<rparr>)) = Some (old_path, False)"
    and srv': "sv_db srv' = sv_db (cr_server (commit_download e source sid new_app rel asset md ?tmp (srv\<lparr>sv_fs := fs1\<rparr>)))"
      "sv_fs srv' = (if old_path = '''' then sv_fs (cr_server (commit_download e source sid new_app rel asset md ?tmp
          (srv\<lparr>sv_fs := fs1\<rparr>))) else fs_remove_ignore (so_fault e) (sv_fs (cr_server
          (commit_download e source sid new_app rel asset md ?tmp (srv\<lparr>sv_fs := fs1\<rparr>)))) old_path)"
    by auto
  note commit = commit_success [OF c, unfolded linked(2) option.case, symmetric]
  from replace_linked_success [OF c [unfolded commit]] app(1) obtain content d' where
    old: "old_path = sa_storage_path app"
    and rep: "replace_app_from_source (so_now e) a sid (md_sha256 md)
        (linked_path (so_show_uuid e) (so_apps_dir e) a (md_sha256 md)) (md_size_bytes md) (md_bundle_id md)
        (md_app_version md) (rl_id rel) (rl_tag_name rel) (ra_id asset) (ra_name asset) (sv_db srv) = Inr d'"
    and cs: "sv_db (cr_server (replace_linked e sid a rel asset md ?tmp (srv\<lparr>sv_fs := fs1\<rparr>))) = d'"
    by auto
  from replace_app_rows [OF rep] same srv'(1) commit cs have
    "sa_sha256 app = md_sha256 md" "ar_storage_path row = linked_path (so_show_uuid e) (so_apps_dir e) a (md_sha256 md)"
    by (auto simp: list_all_iff)
  with app(2) have path: "ar_storage_path row = sa_storage_path app" by simp
  have "sa_storage_path app \<noteq> ''''" using app(2) by (simp add: linked_path_def)
  with srv'(2) old removable path show ?thesis by (simp add: fs_remove_ignore_same)
qed

section \<open>Concrete downloads\<close>

definition demo_headers :: action_headers where
  "demo_headers = \<lparr>ah_action = Some ''1'', ah_content_type = Some ''application/json''\<rparr>"

definition demo_latest :: release where
  "demo_latest = (demo_release 1 False)\<lparr>rl_assets := [demo_asset]\<rparr>"

definition demo_source_env :: "string source_env" where
  "demo_source_env = \<lparr>so_urls = \<lparr>ul_parse = (\<lambda>_. Some ''u''), ul_extend = (\<lambda>_ _. Some ''u''),
       ul_get = (\<lambda>_. Some \<lparr>hr_status = 200, hr_content_length = None, hr_chunks = [Some ''com.a'']\<rparr>)\<rparr>,
     so_releases = (\<lambda>_. Some (200, Some [demo_latest])), so_lib = demo_lib, so_fault = (\<lambda>_. False),
     so_now = 50, so_show_uuid = (\<lambda>_. ''i''), so_apps_dir = ''apps''\<rparr>"

definition demo_source :: "uuid option \<Rightarrow> github_source" where
  "demo_source link = \<lparr>sr_id = 3, sr_app_id = link, sr_owner = ''o'', sr_repo = ''r'',
     sr_asset_pattern = ''*'', sr_include_prereleases = False, sr_auto_download = False,
     sr_auto_acknowledged_at = None, sr_last_checked_at = None, sr_last_release_id = None,
     sr_last_release_tag = None, sr_last_asset_id = None, sr_last_asset_name = None,
     sr_last_download_sha256 = None, sr_last_status = None, sr_last_error_code = None,
     sr_created_at = 40, sr_updated_at = 40\<rparr>"

text \<open>A server with one app, number 7, of the given hash and path, and the source linked or not.\<close>

definition demo_source_server :: "string \<Rightarrow> path \<Rightarrow> uuid option \<Rightarrow> fs \<Rightarrow> server" where
  "demo_source_server sha p link files =
     \<lparr>sv_db = empty_db\<lparr>db_apps := [demo_uploaded\<lparr>ar_sha256 := sha, ar_storage_path := p\<rparr>],
        db_sources := [demo_source link]\<rparr>, sv_db_fault = False, sv_fs = files\<rparr>"

definition demo_run :: "string \<Rightarrow> path \<Rightarrow> uuid option \<Rightarrow> fs \<Rightarrow> response \<times> server" where
  "demo_run sha p link files =
     download_source demo_source_env id id demo_headers 40 41 3 (demo_source_server sha p link files)"

lemma demo_env_simps' [simp]:
  "so_lib demo_source_env = demo_lib" "so_fault demo_source_env = (\<lambda>_. False)"
  "so_show_uuid demo_source_env = (\<lambda>_. ''i'')" "so_apps_dir demo_source_env = ''apps''" "so_now demo_source_env = 50"
  by (simp_all add: demo_source_env_def)

lemma demo_source_asset: "source_asset (so_releases demo_source_env) (demo_source link) = Inr (demo_latest, demo_asset)"
proof -
  have "match_ipa_asset demo_latest ''*'' = Inr demo_asset" by code_simp
  then show ?thesis
    by (simp add: source_asset_def demo_source_env_def latest_release_def fetch_releases_def is_success_def
        ok_or_def latest_eligible_release_def select_best_def select_step_def eligible_release_def
        demo_source_def demo_latest_def demo_release_def)
qed

lemma demo_source_download:
  "download_asset (so_urls demo_source_env) (\<lambda>_. False) files (source_repository (demo_source link)) demo_latest
     demo_asset ''apps/.source-i-i.upload'' = (Inr (), files(''apps/.source-i-i.upload'' \<mapsto> ''com.a''))"
  by (simp add: download_asset_def demo_source_env_def expected_asset_url_def is_success_def
      saturating_add_u64_def MAX_COMPRESSED_BYTES_def len_u64_def Let_def)

lemma demo_stored: "stored_source (demo_source_server sha p link files) 3 = Some (demo_source link)"
  by (simp add: stored_source_def read_db_def find_github_source_def demo_source_server_def demo_source_def
      find_row_def)

lemma demo_run_eq:
  "demo_run sha p link files = finish_download (\<lambda>_. False) demo_latest demo_asset demo_metadata ''apps/.source-i-i.upload''
     (commit_download demo_source_env (demo_source link) 3 41 demo_latest demo_asset demo_metadata
        ''apps/.source-i-i.upload'' ((demo_source_server sha p link files)\<lparr>sv_fs :=
           files(''apps/.source-i-i.upload'' \<mapsto> ''com.a'')\<rparr>))"
proof -
  have "sv_fs (demo_source_server sha p link files) = files" by (simp add: demo_source_server_def)
  then show ?thesis
    by (simp add: demo_run_def download_source_def demo_headers_def action_allowed_def starts_with_def
        demo_stored demo_source_asset download_temporary_def demo_source_download demo_inspect Let_def)
qed

lemmas demo_commit = demo_run_eq commit_download_def stored_source_def read_db_def find_github_source_def find_row_def same_source_def finish_download_def Let_def
  demo_source_def demo_source_server_def empty_db_def demo_uploaded_def demo_metadata_def fs_rename_def

lemma demo_linked_200: "resp_status (fst (demo_run ''old'' ''apps/old.ipa'' (Some 7) files)) = 200"
  by (simp add: demo_commit replace_linked_def find_app_def find_row_def stored_app_of_def
      active_job_exists_for_app_def replace_app_from_source_def)

lemma demo_unlinked_200: "resp_status (fst (demo_run ''old'' ''apps/old.ipa'' None files)) = 200"
  by (simp add: demo_commit store_unlinked_def unlinked_path_def insert_app_def link_github_source_app_def)

theorem unlinked_download_loses_file_witness:
  "let (r, srv') = demo_run ''old'' ''apps/old.ipa'' None Map.empty in resp_status r = 200
     \<and> (\<exists>row \<in> set (db_apps (sv_db srv')). ar_id row = 41 \<and> sv_fs srv' (ar_storage_path row) = None)"
proof -
  obtain r srv' where run: "demo_run ''old'' ''apps/old.ipa'' None Map.empty = (r, srv')" by fastforce
  then have ok: "resp_status r = 200" using demo_unlinked_200 [of Map.empty] by simp
  have "sr_app_id (demo_source None) = None" by (simp add: demo_source_def)
  from unlinked_download_loses_file [OF run [unfolded demo_run_def] ok demo_stored this] run ok
  show ?thesis by auto
qed

theorem source_replacement_safe_witness:
  "let (r, srv') = demo_run ''old'' ''apps/old.ipa'' (Some 7) [''apps/old.ipa'' \<mapsto> ''x''] in
     resp_status r = 200 \<and> (\<exists>(md :: upload_metadata) content. sv_fs srv' (linked_path (\<lambda>_. ''i'') ''apps'' 7 (md_sha256 md)) = Some content
       \<and> list_all (\<lambda>row. ar_sha256 row = md_sha256 md) (filter (\<lambda>row. ar_id row = 7) (db_apps (sv_db srv'))))"
proof -
  let ?files = "[''apps/old.ipa'' \<mapsto> ''x'']"
  obtain r srv' where run: "demo_run ''old'' ''apps/old.ipa'' (Some 7) ?files = (r, srv')" by fastforce
  then have ok: "resp_status r = 200" using demo_linked_200 [of ?files] by simp
  have linked: "sr_app_id (demo_source (Some 7)) = Some 7" by (simp add: demo_source_def)
  from source_replacement_safe [OF run [unfolded demo_run_def] ok demo_stored linked refl]
  obtain md :: upload_metadata and fs1 app content where
    app: "find_app (\<lambda>_. ''i'') (sv_db (demo_source_server ''old'' ''apps/old.ipa'' (Some 7) ?files)) 7 = Some app"
    and rows: "list_all (\<lambda>row. ar_id row = 7 \<longrightarrow> ar_sha256 row = md_sha256 md
       \<and> ar_storage_path row = linked_path (\<lambda>_. ''i'') ''apps'' 7 (md_sha256 md) \<and> ar_deleted_at row = None)
      (db_apps (sv_db srv'))"
    and stored: "sv_fs srv' (linked_path (\<lambda>_. ''i'') ''apps'' 7 (md_sha256 md)) =
      (if sa_storage_path app = linked_path (\<lambda>_. ''i'') ''apps'' 7 (md_sha256 md) \<and> \<not> False then None else Some content)"
    unfolding demo_env_simps' Let_def by auto
  have "sa_storage_path app = ''apps/old.ipa''"
    using app by (auto simp: find_app_def find_row_def demo_source_server_def demo_uploaded_def stored_app_of_def)
  moreover have "''apps/old.ipa'' \<noteq> linked_path (\<lambda>_. ''i'') ''apps'' 7 sha" for sha
    by (simp add: linked_path_def)
  ultimately have "sv_fs srv' (linked_path (\<lambda>_. ''i'') ''apps'' 7 (md_sha256 md)) = Some content"
    using stored by simp
  moreover have "list_all (\<lambda>row. ar_sha256 row = md_sha256 md) (filter (\<lambda>row. ar_id row = 7) (db_apps (sv_db srv')))"
    using rows by (simp add: list_all_iff)
  ultimately show ?thesis using run ok by auto
qed

theorem redownload_loses_file_witness:
  "let (r, srv') = demo_run ''dcom.a'' ''apps/i-dcom.a.ipa'' (Some 7) Map.empty in
     resp_status r = 200 \<and> sv_fs srv' ''apps/i-dcom.a.ipa'' = None"
proof -
  obtain r srv' where run: "demo_run ''dcom.a'' ''apps/i-dcom.a.ipa'' (Some 7) Map.empty = (r, srv')" by fastforce
  have res: "resp_status (fst (demo_run ''dcom.a'' ''apps/i-dcom.a.ipa'' (Some 7) Map.empty)) = 200
    \<and> map (\<lambda>a. (ar_id a, ar_sha256 a)) (db_apps (sv_db (snd (demo_run ''dcom.a'' ''apps/i-dcom.a.ipa'' (Some 7) Map.empty)))) = [(7, ''dcom.a'')]"
    by (simp add: demo_commit replace_linked_def find_app_def stored_app_of_def is_file_def linked_path_def
        active_job_exists_for_app_def replace_app_from_source_def update_rows_def)
  then have ok: "resp_status r = 200" using run by simp
  from res run have "map (\<lambda>a. (ar_id a, ar_sha256 a)) (db_apps (sv_db srv')) = [(7, ''dcom.a'')]" by simp
  then obtain row where row: "row \<in> set (db_apps (sv_db srv'))" "ar_id row = 7" "ar_sha256 row = ''dcom.a''"
    by (auto simp: map_eq_Cons_conv)
  obtain app where app: "find_app (\<lambda>_. ''i'') (sv_db (demo_source_server ''dcom.a'' ''apps/i-dcom.a.ipa'' (Some 7) Map.empty)) 7 = Some app"
    "sa_sha256 app = ''dcom.a''" "sa_storage_path app = ''apps/i-dcom.a.ipa''"
    by (simp add: find_app_def find_row_def demo_source_server_def demo_uploaded_def stored_app_of_def)
  have "sr_app_id (demo_source (Some 7)) = Some 7" by (simp add: demo_source_def)
  note linked = this
  have same: "sa_storage_path app = linked_path (so_show_uuid demo_source_env) (so_apps_dir demo_source_env) 7 (sa_sha256 app)"
    "ar_sha256 row = sa_sha256 app" "\<not> so_fault demo_source_env (IoRemove (sa_storage_path app))"
    "find_app (so_show_uuid demo_source_env) (sv_db (demo_source_server ''dcom.a'' ''apps/i-dcom.a.ipa'' (Some 7) Map.empty)) 7 = Some app"
    using app row by (simp_all add: linked_path_def)
  note lost = redownload_loses_file [OF run [unfolded demo_run_def] ok demo_stored linked same(4,1) row(1,2) same(2,3)]
  from lost [THEN conjunct1] app(3) have path: "ar_storage_path row = ''apps/i-dcom.a.ipa''" by (rule trans)
  note gone = lost [THEN conjunct2]
  from gone have "sv_fs srv' ''apps/i-dcom.a.ipa'' = None" unfolding path .
  with run ok show ?thesis by simp
qed

end
