(* ===== verification/Update.thy ===== *)
theory Update
  imports Sources
begin

text \<open>
  The updater (\<^verbatim>\<open>src/update.rs\<close>): telling whether a verified official release is newer than the
  running version, and queueing the request the privileged updater picks up. The version library
  (\<^verbatim>\<open>semver\<close>) is a parameter over a linear order, the JSON encoder of the request file is one too;
  \<open>others\<close> is what other requests do while the handler waits for GitHub.
\<close>

section \<open>Verified releases\<close>

record 'v version_lib =
  vl_parse :: "string \<Rightarrow> 'v option"
  vl_show :: "'v \<Rightarrow> string"
  vl_is_prerelease :: "'v \<Rightarrow> bool"
  vl_current :: 'v

definition release_archive :: "string \<Rightarrow> string" where
  "release_archive version = ''iphoneloadly-v'' @ version @ ''-linux-amd64.tar.gz''"

definition release_considered :: "'v version_lib \<Rightarrow> release \<Rightarrow> bool" where
  "release_considered lib rel \<longleftrightarrow>
     \<not> rl_draft rel \<and> (\<not> rl_prerelease rel \<or> vl_is_prerelease lib (vl_current lib))"

definition asset_named :: "release \<Rightarrow> string \<Rightarrow> release_asset option" where
  "asset_named rel name = find (\<lambda>a. ra_name a = name) (rl_assets rel)"

definition is_sha256_hex :: "string \<Rightarrow> bool" where
  "is_sha256_hex v \<longleftrightarrow> length v = 64 \<and> list_all is_ascii_hexdigit v"

text \<open>The loop of \<^verbatim>\<open>info\<close>: the best version so far with its release.\<close>

fun info_loop :: "('v :: linorder) version_lib \<Rightarrow> release list \<Rightarrow> ('v \<times> release) option \<Rightarrow> ('v \<times> release) option" where
  "info_loop lib [] candidate = candidate"
| "info_loop lib (rel # rels) candidate =
     (if \<not> release_considered lib rel then info_loop lib rels candidate
      else case official_version (vl_parse lib) (rl_tag_name rel) of
        Inl _ \<Rightarrow> info_loop lib rels candidate
      | Inr version \<Rightarrow>
          if version \<le> vl_current lib then info_loop lib rels candidate
          else
            let archive = asset_named rel (release_archive (vl_show lib version));
                checksum = asset_named rel (release_archive (vl_show lib version) @ ''.sha256'') in
            if (case Option.bind archive ra_digest of None \<Rightarrow> False
                | Some digest \<Rightarrow> (case strip_prefix ''sha256:'' digest of
                    None \<Rightarrow> False | Some v \<Rightarrow> is_sha256_hex v))
               \<and> checksum \<noteq> None
               \<and> (case candidate of None \<Rightarrow> True | Some (old, _) \<Rightarrow> old < version)
            then info_loop lib rels (Some (version, rel)) else info_loop lib rels candidate)"

text \<open>The loop of \<^verbatim>\<open>request\<close>: the best version so far with the digest of its archive.\<close>

fun request_loop :: "('v :: linorder) version_lib \<Rightarrow> release list \<Rightarrow> ('v \<times> string) option \<Rightarrow> ('v \<times> string) option" where
  "request_loop lib [] candidate = candidate"
| "request_loop lib (rel # rels) candidate =
     (if \<not> release_considered lib rel then request_loop lib rels candidate
      else case official_version (vl_parse lib) (rl_tag_name rel) of
        Inl _ \<Rightarrow> request_loop lib rels candidate
      | Inr version \<Rightarrow>
          if version \<le> vl_current lib then request_loop lib rels candidate
          else
            let archive_name = release_archive (vl_show lib version) in
            case asset_named rel archive_name of
              None \<Rightarrow> request_loop lib rels candidate
            | Some archive \<Rightarrow>
                (case Option.bind (ra_digest archive) (strip_prefix ''sha256:'') of
                   None \<Rightarrow> request_loop lib rels candidate
                 | Some digest \<Rightarrow>
                     if is_sha256_hex digest
                        \<and> list_ex (\<lambda>a. ra_name a = archive_name @ ''.sha256'') (rl_assets rel)
                     then if (case candidate of None \<Rightarrow> False | Some (old, _) \<Rightarrow> version \<le> old)
                          then request_loop lib rels candidate
                          else request_loop lib rels (Some (version, digest))
                     else request_loop lib rels candidate))"

section \<open>The handlers\<close>

definition update_info_json :: "string \<Rightarrow> string option \<Rightarrow> bool \<Rightarrow> string option \<Rightarrow> bool \<Rightarrow> string \<Rightarrow> json" where
  "update_info_json current latest available tag prerelease text =
     JObj [(''currentVersion'', JStr current), (''latestVersion'', jopt JStr latest),
       (''available'', JBool available), (''releaseTag'', jopt JStr tag),
       (''prerelease'', JBool prerelease), (''message'', JStr text)]"

definition update_info :: "('v :: linorder) version_lib \<Rightarrow> releases_api \<Rightarrow> response" where
  "update_info lib api =
     (let current = vl_show lib (vl_current lib) in
      case fetch_releases api official_repository of
        Inl _ \<Rightarrow> Response 200 (Some (update_info_json current None False None False
          ''The official GitHub release information is temporarily unavailable.''))
      | Inr releases \<Rightarrow>
          (case info_loop lib releases None of
             None \<Rightarrow> Response 200 (Some (update_info_json current None False None False
               ''iPhoneLoadly is up to date.''))
           | Some (version, rel) \<Rightarrow> Response 200 (Some (update_info_json current
               (Some (vl_show lib version)) True (Some (rl_tag_name rel)) (rl_prerelease rel)
               ''A verified official iPhoneLoadly update is available.''))))"

definition REQUEST_PATH :: path where
  "REQUEST_PATH = ''/run/iphoneloadly/update-request.json''"

definition request_temporary :: path where
  "request_temporary = ''/run/iphoneloadly/update-request.json.tmp''"

definition request_json :: "string \<Rightarrow> string \<Rightarrow> timestamp \<Rightarrow> json" where
  "request_json version digest now =
     JObj [(''targetVersion'', JStr version), (''expectedArchiveSha256'', JStr digest),
       (''createdAt'', JStr (show_nat now))]"

definition any_active_job :: "db \<Rightarrow> bool" where
  "any_active_job d \<longleftrightarrow> list_ex is_active (db_jobs d)"

text \<open>
  Writing the request: to a temporary file, readable by the owner only, renamed at the end. A write
  that fails may leave the file it created.
\<close>

definition queue_request ::
  "(json \<Rightarrow> string option) \<Rightarrow> io_faults \<Rightarrow> timestamp \<Rightarrow> string \<Rightarrow> string \<Rightarrow> fs \<Rightarrow> response \<times> fs" where
  "queue_request to_vec fault now version digest fs =
     (let tmp = request_temporary in
      if \<not> fault (IoRead REQUEST_PATH) \<and> fs REQUEST_PATH \<noteq> None
      then (message 409 ''An update is already requested or running.'', fs)
      else if fault (IoMkdir ''/run/iphoneloadly'')
      then (message 500 ''Unable to prepare the updater request.'', fs)
      else case to_vec (request_json version digest now) of
        None \<Rightarrow> (message 500 ''Unable to serialize the updater request.'', fs)
      | Some bytes \<Rightarrow>
          if fault (IoCreate tmp)
          then (message 500 ''Unable to queue the updater request.'', fs_remove_ignore fault fs tmp)
          else if fault (IoWrite tmp)
          then (message 500 ''Unable to queue the updater request.'',
                fs_remove_ignore fault (fs(tmp := Some [])) tmp)
          else
            let fs1 = fs(tmp := Some bytes) in
            if fault (IoChmod tmp)
            then (message 500 ''Unable to secure the updater request.'', fs_remove_ignore fault fs1 tmp)
            else (case fs_rename fault fs1 tmp REQUEST_PATH of
                    Inl _ \<Rightarrow> (message 500 ''Unable to queue the updater request.'',
                              fs_remove_ignore fault fs1 tmp)
                  | Inr fs2 \<Rightarrow> (Response 202 (Some (JObj [(''status'', JStr ''requested''),
                                  (''targetVersion'', JStr version)])), fs2)))"

definition request_update ::
  "('v :: linorder) version_lib \<Rightarrow> releases_api \<Rightarrow> (json \<Rightarrow> string option) \<Rightarrow> io_faults \<Rightarrow> timestamp
     \<Rightarrow> (server \<Rightarrow> server) \<Rightarrow> action_headers \<Rightarrow> bool \<Rightarrow> server \<Rightarrow> response \<times> server" where
  "request_update lib api to_vec fault now others h sync_running srv =
     (if \<not> action_allowed h then (message 400 ''JSON action header required.'', srv)
      else if sync_running
      then (message 409 ''Source synchronization is active; try the update again later.'', srv)
      else if unwrap_or True (read_db srv any_active_job)
      then (message 409 ''An installation is active; wait before updating iPhoneLoadly.'', srv)
      else
        let srv1 = others srv in
        case fetch_releases api official_repository of
          Inl _ \<Rightarrow> (message 502 ''Unable to resolve the official update.'', srv1)
        | Inr releases \<Rightarrow>
            (case request_loop lib releases None of
               None \<Rightarrow> (message 409 ''No newer verified official release is available.'', srv1)
             | Some (version, digest) \<Rightarrow>
                 (case queue_request to_vec fault now (vl_show lib version) digest (sv_fs srv1) of
                    (r, fs') \<Rightarrow> (r, srv1\<lparr>sv_fs := fs'\<rparr>))))"

definition update_status :: "(string \<Rightarrow> json option) \<Rightarrow> io_faults \<Rightarrow> fs \<Rightarrow> response" where
  "update_status from_str fault fs =
     (let p = ''/var/lib/iphoneloadly/data/update-status.json'' in
      case (if fault (IoRead p) then None else fs p) of
        Some v \<Rightarrow> Response 200 (Some (unwrap_or (JObj [(''status'', JStr ''unknown'')]) (from_str v)))
      | None \<Rightarrow> Response 200 (Some (JObj [(''status'', JStr ''idle'')])))"

section \<open>The loops select the newest verified release\<close>

text \<open>What makes a release a verified newer one, and the digest its archive carries.\<close>

definition newer_verified :: "('v :: linorder) version_lib \<Rightarrow> release \<Rightarrow> ('v \<times> string) option" where
  "newer_verified lib rel =
     (if \<not> release_considered lib rel then None
      else case official_version (vl_parse lib) (rl_tag_name rel) of
        Inl _ \<Rightarrow> None
      | Inr version \<Rightarrow>
          let name = release_archive (vl_show lib version) in
          case Option.bind (Option.bind (asset_named rel name) ra_digest) (strip_prefix ''sha256:'') of
            None \<Rightarrow> None
          | Some digest \<Rightarrow>
              if vl_current lib < version \<and> is_sha256_hex digest
                 \<and> list_ex (\<lambda>a. ra_name a = name @ ''.sha256'') (rl_assets rel)
              then Some (version, digest) else None)"

text \<open>The verified newer releases of a list, each with its version and digest.\<close>

definition verified_list :: "('v :: linorder) version_lib \<Rightarrow> release list \<Rightarrow> ('v \<times> string \<times> release) list" where
  "verified_list lib rels =
     List.map_filter (\<lambda>rel. map_option (\<lambda>(v, dg). (v, dg, rel)) (newer_verified lib rel)) rels"

definition newer_version :: "('v :: linorder) \<times> string \<times> release \<Rightarrow> 'v \<times> string \<times> release \<Rightarrow> bool" where
  "newer_version x best \<longleftrightarrow> fst best < fst x"

interpretation newest_version: selection newer_version fst
  by unfold_locales (auto simp: newer_version_def)

lemma asset_named_None_iff: "asset_named rel name \<noteq> None \<longleftrightarrow> list_ex (\<lambda>a. ra_name a = name) (rl_assets rel)"
  by (auto simp: asset_named_def find_None_iff list_ex_iff)

lemma verified_list_simps [simp]:
  "verified_list lib [] = []"
  "verified_list lib (rel # rels) = (case newer_verified lib rel of
     None \<Rightarrow> verified_list lib rels | Some (v, dg) \<Rightarrow> (v, dg, rel) # verified_list lib rels)"
  by (auto simp: verified_list_def map_filter_simps split: option.splits)

lemma newer_verified_Some_iff:
  "newer_verified lib rel = Some (v, dg) \<longleftrightarrow>
     release_considered lib rel \<and> official_version (vl_parse lib) (rl_tag_name rel) = Inr v \<and> vl_current lib < v
     \<and> Option.bind (Option.bind (asset_named rel (release_archive (vl_show lib v))) ra_digest)
         (strip_prefix ''sha256:'') = Some dg
     \<and> is_sha256_hex dg
     \<and> list_ex (\<lambda>a. ra_name a = release_archive (vl_show lib v) @ ''.sha256'') (rl_assets rel)"
  by (auto simp: newer_verified_def Let_def split: if_splits option.splits sum.splits)

text \<open>One round of each loop, on a release that is not and on one that is a verified newer one.\<close>

lemma loop_skips:
  assumes "newer_verified lib rel = None"
  shows "info_loop lib (rel # rels) c = info_loop lib rels c" "request_loop lib (rel # rels) c' = request_loop lib rels c'"
proof -
  consider "\<not> release_considered lib rel"
    | e where "release_considered lib rel" "official_version (vl_parse lib) (rl_tag_name rel) = Inl e"
    | v where "release_considered lib rel" "official_version (vl_parse lib) (rl_tag_name rel) = Inr v"
    by (cases "official_version (vl_parse lib) (rl_tag_name rel)") auto
  then have "info_loop lib (rel # rels) c = info_loop lib rels c
    \<and> request_loop lib (rel # rels) c' = request_loop lib rels c'"
  proof cases
    case (3 v)
    define name where "name = release_archive (vl_show lib v)"
    show ?thesis
    proof (cases "v \<le> vl_current lib")
      case True
      with 3 show ?thesis by simp
    next
      case newer: False
      show ?thesis
      proof (cases "Option.bind (Option.bind (asset_named rel name) ra_digest) (strip_prefix ''sha256:'')")
        case None
        with 3 newer show ?thesis
          by (auto simp: Let_def name_def [symmetric] split: option.splits)
      next
        case (Some dg)
        with 3 newer assms have "\<not> (is_sha256_hex dg \<and> list_ex (\<lambda>a. ra_name a = name @ ''.sha256'') (rl_assets rel))"
          by (auto simp: newer_verified_def name_def not_le)
        with 3 newer Some show ?thesis
          by (auto simp: Let_def name_def [symmetric] asset_named_None_iff bind_eq_Some_conv simp del: not_None_eq)
      qed
    qed
  qed simp_all
  then show "info_loop lib (rel # rels) c = info_loop lib rels c" "request_loop lib (rel # rels) c' = request_loop lib rels c'"
    by simp_all
qed

lemma loop_takes:
  assumes "newer_verified lib rel = Some (v, dg)"
  shows "info_loop lib (rel # rels) c = info_loop lib rels
      (if (case c of None \<Rightarrow> True | Some (old, _) \<Rightarrow> old < v) then Some (v, rel) else c)"
    "request_loop lib (rel # rels) c' = request_loop lib rels
      (if (case c' of None \<Rightarrow> False | Some (old, _) \<Rightarrow> v \<le> old) then c' else Some (v, dg))"
proof -
  define name where "name = release_archive (vl_show lib v)"
  from assms have v: "release_considered lib rel" "official_version (vl_parse lib) (rl_tag_name rel) = Inr v"
    "\<not> v \<le> vl_current lib" "is_sha256_hex dg" "list_ex (\<lambda>a. ra_name a = name @ ''.sha256'') (rl_assets rel)"
    by (auto simp: newer_verified_Some_iff name_def)
  from assms obtain a dig where a: "asset_named rel name = Some a" "ra_digest a = Some dig"
    "strip_prefix ''sha256:'' dig = Some dg"
    by (auto simp: newer_verified_Some_iff bind_eq_Some_conv name_def)
  show "info_loop lib (rel # rels) c = info_loop lib rels
      (if (case c of None \<Rightarrow> True | Some (old, _) \<Rightarrow> old < v) then Some (v, rel) else c)"
    using v a by (simp add: Let_def name_def [symmetric] asset_named_None_iff del: not_None_eq)
  show "request_loop lib (rel # rels) c' = request_loop lib rels
      (if (case c' of None \<Rightarrow> False | Some (old, _) \<Rightarrow> v \<le> old) then c' else Some (v, dg))"
    using v a by (simp add: Let_def name_def [symmetric])
qed

lemma loops_select:
  "info_loop lib rels (map_option (\<lambda>(v, _, r). (v, r)) best) =
     map_option (\<lambda>(v, _, r). (v, r)) (fold (select_step newer_version) (verified_list lib rels) best)"
  "request_loop lib rels (map_option (\<lambda>(v, dg, _). (v, dg)) best) =
     map_option (\<lambda>(v, dg, _). (v, dg)) (fold (select_step newer_version) (verified_list lib rels) best)"
proof (induction rels arbitrary: best)
  case Nil
  { case 1 show ?case by simp next case 2 show ?case by simp }
next
  case (Cons rel rels)
  { case 1
    show ?case
    proof (cases "newer_verified lib rel")
      case None
      with Cons(1) [of best] show ?thesis by (simp add: loop_skips del: info_loop.simps request_loop.simps)
    next
      case (Some x)
      then obtain v dg where x: "newer_verified lib rel = Some (v, dg)" by (cases x) auto
      show ?thesis
        unfolding loop_takes [OF x] using Cons(1) [of "select_step newer_version (v, dg, rel) best"] x
        by (cases best) (auto simp: select_step_def newer_version_def split: if_splits)
    qed
  next case 2
    show ?case
    proof (cases "newer_verified lib rel")
      case None
      with Cons(2) [of best] show ?thesis by (simp add: loop_skips del: info_loop.simps request_loop.simps)
    next
      case (Some x)
      then obtain v dg where x: "newer_verified lib rel = Some (v, dg)" by (cases x) auto
      show ?thesis
        unfolding loop_takes [OF x] using Cons(2) [of "select_step newer_version (v, dg, rel) best"] x
        by (cases best) (auto simp: select_step_def newer_version_def not_less split: if_splits)
    qed }
qed

lemma loops_from_None:
  "info_loop lib rels None = map_option (\<lambda>(v, _, r). (v, r)) (select_best newer_version (verified_list lib rels))"
  "request_loop lib rels None = map_option (\<lambda>(v, dg, _). (v, dg)) (select_best newer_version (verified_list lib rels))"
  using loops_select [of lib rels None] by (simp_all add: select_best_def)

lemma set_verified_list:
  "(v, dg, rel) \<in> set (verified_list lib rels) \<longleftrightarrow> rel \<in> set rels \<and> newer_verified lib rel = Some (v, dg)"
  by (auto simp: verified_list_def List.map_filter_def image_iff split: option.splits prod.splits)

text \<open>
  C34: What the updater offers is what it installs. For the same answer of GitHub the information
  handler and the request handler settle on the same version; when there is one, it is the version
  of a listed release that is no draft, is newer than the running version and carries an archive
  with a well-formed SHA-256 digest and a checksum file, no such release has a greater version,
  and the digest of the request is that archive's; when there is none, no listed release is such.
\<close>

theorem update_choice_agrees:
  "(case request_loop lib rels None of
      None \<Rightarrow> info_loop lib rels None = None \<and> (\<forall>rel \<in> set rels. newer_verified lib rel = None)
    | Some (v, dg) \<Rightarrow> (\<exists>rel \<in> set rels. info_loop lib rels None = Some (v, rel)
          \<and> newer_verified lib rel = Some (v, dg))
        \<and> (\<forall>rel \<in> set rels. case newer_verified lib rel of None \<Rightarrow> True | Some (v', _) \<Rightarrow> v' \<le> v))"
proof (cases "select_best newer_version (verified_list lib rels)")
  case None
  then have "verified_list lib rels = []" by (simp add: newest_version.best_None_iff)
  then have "newer_verified lib rel = None" if "rel \<in> set rels" for rel
    using that set_verified_list [of _ _ rel lib rels] by (cases "newer_verified lib rel") auto
  with None show ?thesis by (simp add: loops_from_None)
next
  case (Some x)
  obtain v dg rel where x: "x = (v, dg, rel)" by (cases x) auto
  from newest_version.best_SomeD [OF Some] have m: "(v, dg, rel) \<in> set (verified_list lib rels)"
    and max: "\<And>y. y \<in> set (verified_list lib rels) \<Longrightarrow> fst y \<le> v"
    using x by auto
  have "v' \<le> v" if "rel' \<in> set rels" "newer_verified lib rel' = Some (v', dg')" for rel' v' dg'
    using max [of "(v', dg', rel')"] that by (simp add: set_verified_list)
  with m Some x show ?thesis
    by (auto simp: loops_from_None set_verified_list split: option.splits)
qed

section \<open>What a request does to the server\<close>

lemma REQUEST_PATH_neq [simp]: "REQUEST_PATH \<noteq> request_temporary" "request_temporary \<noteq> REQUEST_PATH"
  by (simp_all add: REQUEST_PATH_def request_temporary_def)

lemma queue_request_cases:
  "case queue_request to_vec fault now version digest fs of (r, fs') \<Rightarrow>
     if resp_status r = 202
     then to_vec (request_json version digest now) \<noteq> None
       \<and> fs' = fs(request_temporary := None, REQUEST_PATH := to_vec (request_json version digest now))
       \<and> (fault (IoRead REQUEST_PATH) \<or> fs REQUEST_PATH = None)
     else \<exists>c. fs' = fs \<or> fs' = fs(request_temporary := c)"
proof -
  have rem: "\<exists>c. fs_remove_ignore fault f request_temporary = f(request_temporary := c)" for f
  proof -
    have "f = f(request_temporary := f request_temporary)" by simp
    then show ?thesis unfolding fs_remove_ignore_def fs_remove_def by (metis sum.case(1,2))
  qed
  have upd: "\<exists>c. fs_remove_ignore fault (fs(request_temporary := b)) request_temporary = fs(request_temporary := c)" for b
    using rem [of "fs(request_temporary := b)"] by auto
  show ?thesis
    using rem [of fs] upd
    by (auto simp: queue_request_def Let_def fs_rename_def fun_upd_twist split: option.splits)
qed

text \<open>
  C35: A queued update request is whole, and its guards are those of the code. An answer 202 means
  that when the request came in no source synchronisation was running and no job was active (the
  code does not look again after the releases have been fetched, during which \<open>others\<close> runs), that
  the watched path held no readable request when the file was written (a path that cannot be
  examined counts as free), and that the file now holds the encoding of the selected version with
  its digest, moved there in one step. Every other answer leaves the watched path as it was, and no
  answer changes the database or any other file but the temporary.
\<close>

theorem request_update_atomic:
  "case request_update lib api to_vec fault now others h sync_running srv of (r, srv') \<Rightarrow>
     if resp_status r = 202
     then \<not> sync_running \<and> \<not> sv_db_fault srv \<and> \<not> any_active_job (sv_db srv) \<and> action_allowed h
       \<and> (fault (IoRead REQUEST_PATH) \<or> sv_fs (others srv) REQUEST_PATH = None)
       \<and> (\<exists>releases v dg bytes. fetch_releases api official_repository = Inr releases
            \<and> request_loop lib releases None = Some (v, dg)
            \<and> to_vec (request_json (vl_show lib v) dg now) = Some bytes
            \<and> srv' = (others srv)\<lparr>sv_fs := (sv_fs (others srv))
                 (request_temporary := None, REQUEST_PATH := Some bytes)\<rparr>)
     else sv_fs srv' REQUEST_PATH = sv_fs srv REQUEST_PATH \<and> sv_db srv' = sv_db srv
       \<or> sv_fs srv' REQUEST_PATH = sv_fs (others srv) REQUEST_PATH \<and> sv_db srv' = sv_db (others srv)"
proof -
  obtain r srv' where run: "request_update lib api to_vec fault now others h sync_running srv = (r, srv')" by fastforce
  show ?thesis
  proof (cases "action_allowed h \<and> \<not> sync_running \<and> \<not> unwrap_or True (read_db srv any_active_job)
      \<and> (\<exists>releases v dg. fetch_releases api official_repository = Inr releases
           \<and> request_loop lib releases None = Some (v, dg))")
    case True
    then obtain releases v dg where sel: "fetch_releases api official_repository = Inr releases"
      "request_loop lib releases None = Some (v, dg)" and ok: "action_allowed h" "\<not> sync_running"
      "\<not> unwrap_or True (read_db srv any_active_job)" by blast
    obtain r' fs' where q: "queue_request to_vec fault now (vl_show lib v) dg (sv_fs (others srv)) = (r', fs')"
      by fastforce
    have "request_update lib api to_vec fault now others h sync_running srv = (r', (others srv)\<lparr>sv_fs := fs'\<rparr>)"
      using sel ok q by (simp add: request_update_def Let_def)
    with q sel ok queue_request_cases [where to_vec = to_vec and fault = fault and now = now and version = "vl_show lib v"
        and digest = dg and fs = "sv_fs (others srv)"] show ?thesis
      by (auto simp: read_db_def unwrap_or_def split: if_splits)
  next
    case False
    then show ?thesis
      using run by (auto simp: request_update_def Let_def split: if_splits sum.splits option.splits)
  qed
qed

text \<open>The request is queued when a verified release is listed, none is pending and no write fails.\<close>

lemma queue_request_ok:
  assumes "to_vec (request_json version digest now) = Some bytes" "fs REQUEST_PATH = None"
    and "\<not> fault (IoMkdir ''/run/iphoneloadly'')" "\<not> fault (IoCreate request_temporary)"
      "\<not> fault (IoWrite request_temporary)" "\<not> fault (IoChmod request_temporary)"
      "\<not> fault (IoRename request_temporary REQUEST_PATH)"
  shows "queue_request to_vec fault now version digest fs
    = (Response 202 (Some (JObj [(''status'', JStr ''requested''), (''targetVersion'', JStr version)])),
       fs(request_temporary := None, REQUEST_PATH := Some bytes))"
  using assms by (simp add: queue_request_def Let_def fs_rename_def)

text \<open>
  C22: The handler does not look at the jobs again after it has fetched the releases. With no active
  job at the start, a verified newer release, no pending request and working file operations, the
  update is queued with 202 whatever the database has become while GitHub answered: also when a job
  has been started since, which the update then interrupts.
\<close>

theorem update_overlooks_new_job:
  assumes "action_allowed h" "\<not> sv_db_fault srv" "\<not> any_active_job (sv_db srv)"
    and "fetch_releases api official_repository = Inr releases" "request_loop lib releases None = Some (v, dg)"
    and "to_vec (request_json (vl_show lib v) dg now) = Some bytes"
    and started: "sv_fs started REQUEST_PATH = None" "any_active_job (sv_db started)"
    and "\<not> fault (IoMkdir ''/run/iphoneloadly'')" "\<not> fault (IoCreate request_temporary)"
      "\<not> fault (IoWrite request_temporary)" "\<not> fault (IoChmod request_temporary)"
      "\<not> fault (IoRename request_temporary REQUEST_PATH)"
  shows "case request_update lib api to_vec fault now (\<lambda>_. started) h False srv of (r, srv') \<Rightarrow>
    resp_status r = 202 \<and> any_active_job (sv_db srv') \<and> sv_fs srv' REQUEST_PATH = Some bytes"
  using assms queue_request_ok [of to_vec "vl_show lib v" dg now bytes "sv_fs started" fault]
  by (simp add: request_update_def Let_def read_db_def unwrap_or_def)

section \<open>A release to update to\<close>

definition demo_versions :: "nat version_lib" where
  "demo_versions = \<lparr>vl_parse = (\<lambda>s. if s = ''2'' then Some 2 else None), vl_show = (\<lambda>_. ''2''),
     vl_is_prerelease = (\<lambda>_. False), vl_current = 1\<rparr>"

definition demo_update :: release where
  "demo_update = (demo_release 1 False)\<lparr>rl_tag_name := ''v2'', rl_assets :=
     [demo_asset\<lparr>ra_name := ''iphoneloadly-v2-linux-amd64.tar.gz'',
        ra_digest := Some (''sha256:'' @ replicate 64 CHR ''a'')\<rparr>,
      demo_asset\<lparr>ra_name := ''iphoneloadly-v2-linux-amd64.tar.gz.sha256''\<rparr>]\<rparr>"

lemma demo_update_verified:
  "newer_verified demo_versions demo_update = Some (2, replicate 64 CHR ''a'')"
  by code_simp

theorem update_choice_agrees_witness:
  "info_loop demo_versions [demo_update, demo_release 2 True] None = Some (2, demo_update)
   \<and> request_loop demo_versions [demo_update, demo_release 2 True] None = Some (2, replicate 64 CHR ''a'')"
proof -
  have r: "request_loop demo_versions [demo_update, demo_release 2 True] None = Some (2, replicate 64 CHR ''a'')"
    by code_simp
  have "newer_verified demo_versions (demo_release 2 True) = None" by code_simp
  with update_choice_agrees [of demo_versions "[demo_update, demo_release 2 True]"] r show ?thesis by auto
qed

text \<open>The job of the witness is queued while the releases are fetched.\<close>

definition demo_job_started :: server where
  "demo_job_started = demo_server\<lparr>sv_db := apply_store_op (InsertJob 70 9 1 5 ''Phone'') (sv_db demo_server)\<rparr>"

theorem update_overlooks_new_job_witness:
  "case request_update demo_versions (\<lambda>_. Some (200, Some [demo_update])) (\<lambda>_. Some ''request'') (\<lambda>_. False) 60
      (\<lambda>_. demo_job_started) \<lparr>ah_action = Some ''1'', ah_content_type = Some ''application/json''\<rparr>
      False demo_server of (r, srv') \<Rightarrow>
    resp_status r = 202 \<and> any_active_job (sv_db srv') \<and> sv_fs srv' REQUEST_PATH = Some ''request''"
proof -
  have sel: "request_loop demo_versions [demo_update] None = Some (2, replicate 64 CHR ''a'')"
    by code_simp
  have "sv_fs demo_job_started REQUEST_PATH = None" "any_active_job (sv_db demo_job_started)"
    "\<not> sv_db_fault demo_server" "\<not> any_active_job (sv_db demo_server)"
    by (simp_all add: demo_job_started_def demo_server_def demo_db_eval REQUEST_PATH_def keep_def insert_job_def
        any_active_job_def is_active_def active_phases_def)
  moreover have "fetch_releases (\<lambda>_. Some (200, Some [demo_update])) official_repository = Inr [demo_update]"
    by (simp add: fetch_releases_def is_success_def ok_or_def)
  ultimately show ?thesis
    by (intro update_overlooks_new_job [OF _ _ _ _ sel]) (simp_all add: action_allowed_def starts_with_def)
qed

end
