(* ===== verification/PairingStore.thy ===== *)
theory PairingStore
  imports LoginSession
begin

text \<open>
  The encrypted store of a pairing (\<^verbatim>\<open>PairingStore\<close> in \<^verbatim>\<open>src/wireless_pairing.rs\<close>): the key file, the
  state file and the operations of the service on them. The pairing file, the JSON codec, base64
  and the cipher are parameters; random values (key, nonce, generated material) are arguments.
\<close>

section \<open>Material\<close>

datatype pairing_error =
    PairDisabled | PairBusy | PairNotFound | PairTerminal | PairConfiguration | PairStorage
  | PairCorruptedState | PairListener | PairAdvertisement

record host_info =
  hi_identifier :: string
  hi_alt_irk :: string

record 'f material =
  pm_host :: host_info
  pm_file :: 'f
  pm_peer :: "string option"

record state_payload =
  sp_host_alt_irk :: string
  sp_pairing_file :: string
  sp_peer :: "string option"

record 'f pairing_lib =
  pl_crypto :: crypto_lib
  pl_identifier :: "'f \<Rightarrow> string"
  pl_with_identifier :: "string \<Rightarrow> 'f \<Rightarrow> 'f"
  pl_alt_irk :: "'f \<Rightarrow> string option"
  pl_to_bytes :: "'f \<Rightarrow> string"
  pl_from_bytes :: "string \<Rightarrow> 'f option"
  pl_encode :: "state_payload \<Rightarrow> string option"
  pl_decode :: "string \<Rightarrow> state_payload option"
  pl_fingerprint :: "string \<Rightarrow> string"

text \<open>The random values of one run: key, nonce, a generated pairing file, host and identifier.\<close>

record 'f pairing_random =
  rn_key :: string
  rn_nonce :: string
  rn_file :: 'f
  rn_host :: host_info
  rn_identifier :: string

definition state_file :: "path \<Rightarrow> path" where
  "state_file dir = dir @ ''/pairing-state.json''"

definition key_file :: "path \<Rightarrow> path" where
  "key_file dir = dir @ ''/pairing-state.key''"

definition state_temporary :: "path \<Rightarrow> path" where
  "state_temporary dir = dir @ ''/pairing-state.json.tmp''"

section \<open>Operations\<close>

definition ensure_state_dir :: "io_faults \<Rightarrow> path \<Rightarrow> pairing_error + unit" where
  "ensure_state_dir fault dir = (if fault (IoMkdir dir) then Inl PairStorage else Inr ())"

definition load_or_create_key ::
  "io_faults \<Rightarrow> path \<Rightarrow> string \<Rightarrow> fs \<Rightarrow> (pairing_error + string) \<times> fs" where
  "load_or_create_key fault dir random_key fs =
     (case read_file fault fs (key_file dir) of
        Inr bytes \<Rightarrow> (if length bytes = 32 then Inr bytes else Inl PairCorruptedState, fs)
      | Inl NotFound \<Rightarrow>
          if fault (IoWrite (key_file dir)) then (Inl PairStorage, fs)
          else (Inr random_key, fs(key_file dir := Some random_key))
      | Inl OtherIo \<Rightarrow> (Inl PairStorage, fs))"

text \<open>\<open>generated\<close> is what \<^verbatim>\<open>PairableHostInfo::generate\<close> returns.\<close>

definition load_encrypted ::
  "'f pairing_lib \<Rightarrow> io_faults \<Rightarrow> path \<Rightarrow> string \<Rightarrow> host_info \<Rightarrow> fs \<Rightarrow> pairing_error + 'f material" where
  "load_encrypted lib fault dir key generated fs =
     (let c = pl_crypto lib in
      case read_file fault fs (state_file dir) of
        Inl _ \<Rightarrow> Inl PairStorage
      | Inr encrypted \<Rightarrow> ok_or PairCorruptedState
          (case cl_unpair c encrypted of
             None \<Rightarrow> None
           | Some (nonce64, ciphertext64) \<Rightarrow>
               Option.bind (cl_unb64 c nonce64) (\<lambda>nonce.
               Option.bind (cl_unb64 c ciphertext64) (\<lambda>ciphertext.
               if length nonce \<noteq> 12 then None
               else
                 Option.bind (cl_decrypt c key nonce ciphertext) (\<lambda>text.
                 Option.bind (pl_decode lib text) (\<lambda>payload.
                 if length (sp_host_alt_irk payload) \<noteq> 16 then None
                 else
                   Option.bind (cl_unb64 c (sp_pairing_file payload)) (\<lambda>bytes.
                   Option.bind (pl_from_bytes lib bytes) (\<lambda>file.
                   Some \<lparr>pm_host = generated\<lparr>hi_identifier := pl_identifier lib file,
                           hi_alt_irk := sp_host_alt_irk payload\<rparr>,
                         pm_file = file, pm_peer = sp_peer payload\<rparr>))))))))"

definition fresh_material :: "'f pairing_lib \<Rightarrow> 'f pairing_random \<Rightarrow> 'f material" where
  "fresh_material lib rn =
     (let file = pl_with_identifier lib (rn_identifier rn) (rn_file rn) in
      \<lparr>pm_host = (rn_host rn)\<lparr>hi_identifier := pl_identifier lib file\<rparr>, pm_file = file, pm_peer = None\<rparr>)"

definition load_or_create ::
  "'f pairing_lib \<Rightarrow> io_faults \<Rightarrow> path \<Rightarrow> 'f pairing_random \<Rightarrow> fs
     \<Rightarrow> (pairing_error + 'f material) \<times> fs" where
  "load_or_create lib fault dir rn fs =
     (case ensure_state_dir fault dir of
        Inl e \<Rightarrow> (Inl e, fs)
      | Inr _ \<Rightarrow>
          if \<not> is_file fs (state_file dir) then (Inr (fresh_material lib rn), fs)
          else (case load_or_create_key fault dir (rn_key rn) fs of
                  (Inl e, fs1) \<Rightarrow> (Inl e, fs1)
                | (Inr key, fs1) \<Rightarrow> (load_encrypted lib fault dir key (rn_host rn) fs1, fs1)))"

definition load_existing ::
  "'f pairing_lib \<Rightarrow> io_faults \<Rightarrow> path \<Rightarrow> host_info \<Rightarrow> fs \<Rightarrow> pairing_error + 'f material" where
  "load_existing lib fault dir generated fs =
     (if \<not> is_file fs (state_file dir) then Inl PairStorage
      else case read_file fault fs (key_file dir) of
        Inl _ \<Rightarrow> Inl PairStorage
      | Inr key \<Rightarrow>
          if length key \<noteq> 32 then Inl PairCorruptedState
          else load_encrypted lib fault dir key generated fs)"

definition save_with_key ::
  "'f pairing_lib \<Rightarrow> io_faults \<Rightarrow> path \<Rightarrow> string \<Rightarrow> string \<Rightarrow> 'f material \<Rightarrow> fs
     \<Rightarrow> (pairing_error + unit) \<times> fs" where
  "save_with_key lib fault dir nonce key m fs =
     (let c = pl_crypto lib in
      case pl_encode lib \<lparr>sp_host_alt_irk = hi_alt_irk (pm_host m),
             sp_pairing_file = cl_b64 c (pl_to_bytes lib (pm_file m)), sp_peer = pm_peer m\<rparr> of
        None \<Rightarrow> (Inl PairStorage, fs)
      | Some payload \<Rightarrow>
          (case cl_encrypt c key nonce payload of
             None \<Rightarrow> (Inl PairStorage, fs)
           | Some ciphertext \<Rightarrow>
               let tmp = state_temporary dir in
               if fault (IoWrite tmp) then (Inl PairStorage, fs)
               else
                 let fs1 = fs(tmp := Some (cl_pair c (cl_b64 c nonce) (cl_b64 c ciphertext))) in
                 (case fs_rename fault fs1 tmp (state_file dir) of
                    Inl _ \<Rightarrow> (Inl PairStorage, fs1)
                  | Inr fs2 \<Rightarrow> (Inr (), fs2))))"

definition save_material ::
  "'f pairing_lib \<Rightarrow> io_faults \<Rightarrow> path \<Rightarrow> 'f pairing_random \<Rightarrow> 'f material \<Rightarrow> fs
     \<Rightarrow> (pairing_error + unit) \<times> fs" where
  "save_material lib fault dir rn m fs =
     (case ensure_state_dir fault dir of
        Inl e \<Rightarrow> (Inl e, fs)
      | Inr _ \<Rightarrow>
          (case load_or_create_key fault dir (rn_key rn) fs of
             (Inl e, fs1) \<Rightarrow> (Inl e, fs1)
           | (Inr key, fs1) \<Rightarrow> save_with_key lib fault dir (rn_nonce rn) key m fs1))"

definition has_stored_pairing ::
  "'f pairing_lib \<Rightarrow> io_faults \<Rightarrow> path \<Rightarrow> host_info \<Rightarrow> fs \<Rightarrow> bool" where
  "has_stored_pairing lib fault dir generated fs =
     (case load_existing lib fault dir generated fs of
        Inl _ \<Rightarrow> False | Inr m \<Rightarrow> pm_peer m \<noteq> None)"

text \<open>The cached identity goes first, whatever happens to the file.\<close>

definition forget_pairing ::
  "io_faults \<Rightarrow> path \<Rightarrow> fs \<Rightarrow> 'i option \<Rightarrow> (pairing_error + unit) \<times> fs \<times> 'i option" where
  "forget_pairing fault dir fs cache =
     (case fs_remove fault fs (state_file dir) of
        Inr fs' \<Rightarrow> (Inr (), fs', None)
      | Inl NotFound \<Rightarrow> (Inr (), fs, None)
      | Inl OtherIo \<Rightarrow> (Inl PairStorage, fs, None))"

section \<open>What the store promises\<close>

lemma pairing_paths_differ [simp]:
  "state_file dir \<noteq> key_file dir" "key_file dir \<noteq> state_file dir"
  "state_temporary dir \<noteq> state_file dir" "state_file dir \<noteq> state_temporary dir"
  "state_temporary dir \<noteq> key_file dir" "key_file dir \<noteq> state_temporary dir"
  by (simp_all add: state_file_def key_file_def state_temporary_def)

lemma load_or_create_key_frame:
  "load_or_create_key fault dir k fs = (r, fs') \<Longrightarrow> p \<noteq> key_file dir \<Longrightarrow> fs' p = fs p"
  by (auto simp: load_or_create_key_def split: sum.splits io_error.splits if_splits)

lemma load_or_create_key_InrD:
  "load_or_create_key fault dir k fs = (Inr key, fs') \<Longrightarrow> length k = 32 \<Longrightarrow>
     \<not> fault (IoRead (key_file dir)) \<Longrightarrow> read_file fault fs' (key_file dir) = Inr key \<and> length key = 32"
  by (auto simp: load_or_create_key_def read_file_def ok_or_def
      split: sum.splits io_error.splits if_splits option.splits)

lemma save_with_key_cases:
  assumes "save_with_key lib fault dir nonce key m fs = (r, fs')"
  obtains e where "r = Inl e" "fs' (state_file dir) = fs (state_file dir)"
  | payload ciphertext where "r = Inr ()"
      "pl_encode lib \<lparr>sp_host_alt_irk = hi_alt_irk (pm_host m),
         sp_pairing_file = cl_b64 (pl_crypto lib) (pl_to_bytes lib (pm_file m)), sp_peer = pm_peer m\<rparr> = Some payload"
      "cl_encrypt (pl_crypto lib) key nonce payload = Some ciphertext"
      "fs' (state_file dir) = Some (cl_pair (pl_crypto lib) (cl_b64 (pl_crypto lib) nonce)
         (cl_b64 (pl_crypto lib) ciphertext))"
      "fs' (key_file dir) = fs (key_file dir)"
  using assms
  by (auto simp: save_with_key_def Let_def split: option.splits if_splits sum.splits dest!: fs_rename_InrD)

text \<open>
  C37: A pairing survives a restart or is not recorded at all. When saving succeeds and the
  libraries invert each other, loading it back gives the same pairing file, peer and identity key
  under the pairing file's identifier, so that the service counts as paired exactly when the
  material names a peer; when saving fails, whatever was stored before is still there.
\<close>

theorem pairing_material_roundtrip:
  assumes decrypt: "\<And>k n m c. cl_encrypt (pl_crypto lib) k n m = Some c \<Longrightarrow> cl_decrypt (pl_crypto lib) k n c = Some m"
    and b64: "\<And>b. cl_unb64 (pl_crypto lib) (cl_b64 (pl_crypto lib) b) = Some b"
    and pair: "\<And>a b. cl_unpair (pl_crypto lib) (cl_pair (pl_crypto lib) a b) = Some (a, b)"
    and bytes: "\<And>f. pl_from_bytes lib (pl_to_bytes lib f) = Some f"
    and payload: "\<And>p t. pl_encode lib p = Some t \<Longrightarrow> pl_decode lib t = Some p"
    and random: "length (rn_key rn) = 32" "length (rn_nonce rn) = 12" "length (hi_alt_irk (pm_host m)) = 16"
    and reads: "\<not> fault (IoRead (state_file dir))" "\<not> fault (IoRead (key_file dir))"
    and saved: "save_material lib fault dir rn m fs = (r, fs')"
  shows "(case r of
      Inr _ \<Rightarrow> load_existing lib fault dir generated fs' =
          Inr (m\<lparr>pm_host := generated\<lparr>hi_identifier := pl_identifier lib (pm_file m),
                 hi_alt_irk := hi_alt_irk (pm_host m)\<rparr>\<rparr>)
        \<and> (has_stored_pairing lib fault dir generated fs' \<longleftrightarrow> pm_peer m \<noteq> None)
    | Inl _ \<Rightarrow> fs' (state_file dir) = fs (state_file dir))"
proof (cases "ensure_state_dir fault dir")
  case (Inl e)
  with saved have "r = Inl e" "fs' = fs" by (simp_all add: save_material_def)
  then show ?thesis by simp
next
  case (Inr u)
  obtain k fs1 where key: "load_or_create_key fault dir (rn_key rn) fs = (k, fs1)" by fastforce
  show ?thesis
  proof (cases k)
    case Inl2: (Inl e)
    with saved Inr key show ?thesis
      by (auto simp: save_material_def dest: load_or_create_key_frame [where p = "state_file dir"])
  next
    case k: (Inr key')
    from load_or_create_key_InrD [OF key [unfolded k] random(1) reads(2)]
    have kf: "fs1 (key_file dir) = Some key'" "length key' = 32"
      using reads(2) by (auto simp: read_file_def ok_or_def split: option.splits)
    from saved Inr key k have "save_with_key lib fault dir (rn_nonce rn) key' m fs1 = (r, fs')"
      by (simp add: save_material_def)
    then show ?thesis
    proof (cases rule: save_with_key_cases)
      case (1 e)
      with load_or_create_key_frame [OF key, of "state_file dir"] show ?thesis by simp
    next
      case (2 payload' ciphertext)
      have "load_existing lib fault dir generated fs' =
          Inr (m\<lparr>pm_host := generated\<lparr>hi_identifier := pl_identifier lib (pm_file m),
                 hi_alt_irk := hi_alt_irk (pm_host m)\<rparr>\<rparr>)"
        using 2 kf reads decrypt [OF 2(3)] payload [OF 2(2)] random
        by (simp add: load_existing_def is_file_def read_file_def ok_or_def load_encrypted_def Let_def pair b64 bytes)
      with 2(1) show ?thesis by (simp add: has_stored_pairing_def)
    qed
  qed
qed

text \<open>
  Forgetting a pairing is final and complete. After a successful forget no pairing is stored,
  no cached identity remains and the next start begins with fresh material that names no peer; a
  failing one keeps the stored pairing.
\<close>

theorem forget_pairing_complete:
  "(case forget_pairing fault dir fs cache of
      (Inr _, fs', cache') \<Rightarrow> cache' = None \<and> \<not> has_stored_pairing lib fault' dir generated fs'
        \<and> (case load_or_create lib fault' dir rn fs' of
             (Inl e, fs2) \<Rightarrow> e = PairStorage \<and> fs2 = fs'
           | (Inr m, fs2) \<Rightarrow> m = fresh_material lib rn \<and> pm_peer m = None \<and> fs2 = fs')
    | (Inl e, fs', cache') \<Rightarrow> e = PairStorage \<and> fs' = fs \<and> cache' = None)"
proof -
  have gone: "fs' (state_file dir) = None" if "forget_pairing fault dir fs cache = (Inr u, fs', c)" for u fs' c
    using that by (auto simp: forget_pairing_def fs_remove_def split: if_splits)
  have err: "e = PairStorage \<and> fs' = fs \<and> c = None" if "forget_pairing fault dir fs cache = (Inl e, fs', c)" for e fs' c
    using that by (auto simp: forget_pairing_def split: sum.splits io_error.splits)
  have cache: "c = None" if "forget_pairing fault dir fs cache = (r, fs', c)" for r fs' c
    using that by (auto simp: forget_pairing_def split: sum.splits io_error.splits)
  show ?thesis
    using gone err cache
    by (auto simp: has_stored_pairing_def load_existing_def is_file_def load_or_create_def ensure_state_dir_def
        fresh_material_def Let_def split: prod.splits sum.splits)
qed

text \<open>A library that satisfies the laws, with a pairing file that is its own text.\<close>

definition demo_pairing_lib :: "string pairing_lib" where
  "demo_pairing_lib = \<lparr>pl_crypto = \<lparr>cl_encrypt = (\<lambda>k n m. Some m), cl_decrypt = (\<lambda>k n c. Some c),
       cl_pair = (\<lambda>a b. replicate (length a) CHR ''1'' @ CHR ''0'' # a @ b),
       cl_unpair = (\<lambda>s. let n = length (takeWhile (\<lambda>c. c = CHR ''1'') s); r = drop (Suc n) s
                         in Some (take n r, drop n r)),
       cl_b64 = (\<lambda>b. b), cl_unb64 = Some\<rparr>,
     pl_identifier = (\<lambda>f. ''id''), pl_with_identifier = (\<lambda>_ f. f), pl_alt_irk = (\<lambda>_. None),
     pl_to_bytes = (\<lambda>f. f), pl_from_bytes = Some,
     pl_encode = (\<lambda>p. if length (sp_host_alt_irk p) = 16 \<and> sp_peer p = None
                        then Some (sp_host_alt_irk p @ sp_pairing_file p) else None),
     pl_decode = (\<lambda>t. Some \<lparr>sp_host_alt_irk = take 16 t, sp_pairing_file = drop 16 t, sp_peer = None\<rparr>),
     pl_fingerprint = (\<lambda>s. s)\<rparr>"

definition demo_random :: "string pairing_random" where
  "demo_random = \<lparr>rn_key = replicate 32 CHR ''k'', rn_nonce = replicate 12 CHR ''n'', rn_file = ''f'',
     rn_host = \<lparr>hi_identifier = ''h'', hi_alt_irk = replicate 16 CHR ''a''\<rparr>, rn_identifier = ''id''\<rparr>"

lemma takeWhile_replicate: "takeWhile (\<lambda>c. c = x) (replicate n x @ y # s) = replicate n x" if "y \<noteq> x"
  using that by (induction n) simp_all

theorem pairing_material_roundtrip_witness:
  "\<exists>fs'. save_material demo_pairing_lib (\<lambda>_. False) ''d'' demo_random (fresh_material demo_pairing_lib demo_random)
       Map.empty = (Inr (), fs')
     \<and> \<not> has_stored_pairing demo_pairing_lib (\<lambda>_. False) ''d'' (rn_host demo_random) fs'"
proof -
  let ?m = "fresh_material demo_pairing_lib demo_random"
  have m: "pm_peer ?m = None" "length (hi_alt_irk (pm_host ?m)) = 16"
    by (simp_all add: fresh_material_def demo_random_def Let_def)
  obtain r fs' where s: "save_material demo_pairing_lib (\<lambda>_. False) ''d'' demo_random ?m Map.empty = (r, fs')" by fastforce
  then have r: "r = Inr ()"
    using m by (simp add: save_material_def ensure_state_dir_def load_or_create_key_def read_file_def ok_or_def
        save_with_key_def demo_pairing_lib_def Let_def fs_rename_def)
  have "case r of
      Inr _ \<Rightarrow> load_existing demo_pairing_lib (\<lambda>_. False) ''d'' (rn_host demo_random) fs' =
          Inr (?m\<lparr>pm_host := (rn_host demo_random)\<lparr>hi_identifier := pl_identifier demo_pairing_lib (pm_file ?m),
                 hi_alt_irk := hi_alt_irk (pm_host ?m)\<rparr>\<rparr>)
        \<and> (has_stored_pairing demo_pairing_lib (\<lambda>_. False) ''d'' (rn_host demo_random) fs' \<longleftrightarrow> pm_peer ?m \<noteq> None)
    | Inl _ \<Rightarrow> fs' (state_file ''d'') = Map.empty (state_file ''d'')"
    by (rule pairing_material_roundtrip [OF _ _ _ _ _ _ _ _ _ _ s])
      (use m in \<open>auto simp: demo_pairing_lib_def demo_random_def Let_def takeWhile_replicate split: if_splits\<close>)
  with r m s show ?thesis by auto
qed

end
