(* ===== verification/Pairing.thy ===== *)
theory Pairing
  imports PairingStore Sessions "HOL-Library.Product_Lexorder" "HOL-Library.List_Lexorder" "HOL-Library.Char_ord"
begin

text \<open>
  Wireless pairing of an iPhone (\<^verbatim>\<open>WirelessPairingService\<close> in \<^verbatim>\<open>src/wireless_pairing.rs\<close>): the
  addresses it listens on, the session the dashboard polls and the task that pairs. The TCP
  listener, the pairing protocol and the advertisement answer through the arguments of a step.
\<close>

section \<open>Configuration and addresses\<close>

datatype pairing_mode = PairingOff | PairingExperimental | PairingOn

definition parse_mode :: "string option \<Rightarrow> pairing_mode" where
  "parse_mode v = (case map_option trim v of
     Some m \<Rightarrow> if m = ''experimental'' then PairingExperimental else if m = ''on'' then PairingOn else PairingOff
   | None \<Rightarrow> PairingOff)"

definition mode_enabled :: "pairing_mode \<Rightarrow> bool" where
  "mode_enabled m \<longleftrightarrow> m \<noteq> PairingOff"

definition validate_pairing_port :: "u16 \<Rightarrow> bool" where
  "validate_pairing_port port \<longleftrightarrow> 1024 \<le> port"

text \<open>The octets of an address as one word, most significant first.\<close>

datatype ip_address = V4 "32 word" | V6 "128 word"

fun is_ipv4 :: "ip_address \<Rightarrow> bool" where
  "is_ipv4 (V4 _) = True"
| "is_ipv4 (V6 _) = False"

fun is_loopback :: "ip_address \<Rightarrow> bool" where
  "is_loopback (V4 a) = (drop_bit 24 a = 127)"
| "is_loopback (V6 a) = (a = 1)"

fun is_unspecified :: "ip_address \<Rightarrow> bool" where
  "is_unspecified (V4 a) = (a = 0)"
| "is_unspecified (V6 a) = (a = 0)"

text \<open>Private or link-local; unique local (\<^verbatim>\<open>fc00::/7\<close>) or unicast link-local (\<^verbatim>\<open>fe80::/10\<close>).\<close>

fun is_safe_default_address :: "ip_address \<Rightarrow> bool" where
  "is_safe_default_address (V4 a) =
     (drop_bit 24 a = 10 \<or> drop_bit 20 a = 0xAC1 \<or> drop_bit 16 a = 0xC0A8 \<or> drop_bit 16 a = 0xA9FE)"
| "is_safe_default_address (V6 a) = (drop_bit 121 a = 0x7E \<or> drop_bit 118 a = 0x3FA)"

record net_interface =
  ni_name :: string
  ni_ip :: ip_address

text \<open>The loop that keeps the first address of each family.\<close>

fun select_families :: "ip_address list \<Rightarrow> ip_address list \<Rightarrow> ip_address list" where
  "select_families selected [] = selected"
| "select_families selected (address # addresses) =
     (if list_ex (\<lambda>chosen. is_ipv4 chosen = is_ipv4 address) selected then select_families selected addresses
      else select_families (selected @ [address]) addresses)"

definition usable_address :: "string option \<Rightarrow> net_interface \<Rightarrow> bool" where
  "usable_address interface entry \<longleftrightarrow>
     (case interface of None \<Rightarrow> True | Some name \<Rightarrow> ni_name entry = name)
     \<and> \<not> is_loopback (ni_ip entry) \<and> \<not> is_unspecified (ni_ip entry)
     \<and> (interface \<noteq> None \<or> is_safe_default_address (ni_ip entry))"

definition pairing_addresses ::
  "(ip_address \<Rightarrow> string) \<Rightarrow> string option \<Rightarrow> net_interface list option \<Rightarrow> pairing_error + ip_address list" where
  "pairing_addresses show_ip interface interfaces =
     (case interfaces of
        None \<Rightarrow> Inl PairConfiguration
      | Some entries \<Rightarrow>
          let addresses = map ni_ip (filter (usable_address interface) entries);
              sorted = remdups_adj (sort_key (\<lambda>ip. (\<not> is_ipv4 ip, show_ip ip)) addresses);
              selected = select_families [] sorted in
          if selected = [] then Inl PairConfiguration else Inr selected)"

definition bind_listeners :: "(ip_address \<Rightarrow> bool) \<Rightarrow> ip_address list \<Rightarrow> pairing_error + unit" where
  "bind_listeners binds addresses = (if list_all binds addresses then Inr () else Inl PairListener)"

section \<open>Sessions\<close>

datatype pairing_phase =
    AwaitingDevice | AwaitingCodeEntry | VerifyingTransport
  | PairReady | PairFailed | PairCancelled | PairExpired

definition is_terminal :: "pairing_phase \<Rightarrow> bool" where
  "is_terminal ph \<longleftrightarrow> ph = PairReady \<or> ph = PairFailed \<or> ph = PairCancelled \<or> ph = PairExpired"

record session_status =
  ps_id :: uuid
  ps_phase :: pairing_phase
  ps_expires_at :: nat
  ps_message :: string
  ps_setup_code :: "string option"

text \<open>
  The task that \<^verbatim>\<open>start_wireless\<close> spawns, at the await it is suspended at. An aborted task may
  still finish the poll it is in, up to its next await.
\<close>

datatype task_stage = TaskSpawned | TaskAccepting | TaskHandshaking | TaskCommitting | TaskOver

record 'f pairing_task =
  pt_id :: uuid
  pt_stage :: task_stage
  pt_expires_at :: nat
  pt_material :: "'f material"
  pt_peer :: string
  pt_aborted :: bool

text \<open>
  \<open>pv_pending\<close> is the session between the spawning of its task and its storing, while the start
  lock is held; \<open>pv_advertised\<close> lists the sessions whose advertisement is up.
\<close>

record 'f pairing_service =
  pv_mode :: pairing_mode
  pv_session :: "session_status option"
  pv_pending :: "session_status option"
  pv_tasks :: "'f pairing_task list"
  pv_advertised :: "uuid list"
  pv_fs :: fs

definition new_service :: "pairing_mode \<Rightarrow> fs \<Rightarrow> 'f pairing_service" where
  "new_service mode fs = \<lparr>pv_mode = mode, pv_session = None, pv_pending = None, pv_tasks = [],
     pv_advertised = [], pv_fs = fs\<rparr>"

definition SESSION_LIFETIME :: nat where "SESSION_LIFETIME = 5 * 60"

definition session_expired :: "session_status \<Rightarrow> nat \<Rightarrow> bool" where
  "session_expired s now \<longleftrightarrow> ps_expires_at s \<le> now"

definition abort_task :: "uuid \<Rightarrow> 'f pairing_service \<Rightarrow> 'f pairing_service" where
  "abort_task i v = v\<lparr>pv_tasks := map (\<lambda>t. if pt_id t = i then t\<lparr>pt_aborted := True\<rparr> else t) (pv_tasks v)\<rparr>"

definition take_resources :: "uuid \<Rightarrow> 'f pairing_service \<Rightarrow> 'f pairing_service" where
  "take_resources i v = v\<lparr>pv_advertised := filter (\<lambda>j. j \<noteq> i) (pv_advertised v)\<rparr>"

text \<open>What expiry and cancellation share: the task is aborted and the advertisement goes.\<close>

definition end_session :: "pairing_phase \<Rightarrow> string \<Rightarrow> session_status \<Rightarrow> 'f pairing_service \<Rightarrow> 'f pairing_service" where
  "end_session ph text s v =
     (take_resources (ps_id s) (abort_task (ps_id s) v))
       \<lparr>pv_session := Some (s\<lparr>ps_phase := ph, ps_setup_code := None, ps_message := text\<rparr>)\<rparr>"

definition expire_session :: "session_status \<Rightarrow> 'f pairing_service \<Rightarrow> 'f pairing_service" where
  "expire_session s v = end_session PairExpired ''The wireless pairing session expired.'' s v"

section \<open>Starting\<close>

record 'f pairing_env =
  pe_lib :: "'f pairing_lib"
  pe_fault :: io_faults
  pe_dir :: path
  pe_random :: "'f pairing_random"
  pe_interface :: "string option"
  pe_interfaces :: "net_interface list option"
  pe_show_ip :: "ip_address \<Rightarrow> string"
  pe_binds :: "ip_address \<Rightarrow> bool"
  pe_advertises :: bool
  pe_now :: nat
  pe_started_at :: nat
  pe_id :: uuid

definition expire_or_busy :: "nat \<Rightarrow> 'f pairing_service \<Rightarrow> pairing_error + 'f pairing_service" where
  "expire_or_busy now v =
     (case pv_session v of
        None \<Rightarrow> Inr v
      | Some s \<Rightarrow>
          if is_terminal (ps_phase s) then Inr v
          else if session_expired s now then Inr (expire_session s v) else Inl PairBusy)"

definition new_status :: "uuid \<Rightarrow> nat \<Rightarrow> session_status" where
  "new_status i now = \<lparr>ps_id = i, ps_phase = AwaitingDevice, ps_expires_at = now + SESSION_LIFETIME,
     ps_message = ''Open pairing on the iPhone or iPad.'', ps_setup_code = None\<rparr>"

definition new_task :: "uuid \<Rightarrow> 'f material \<Rightarrow> 'f pairing_task" where
  "new_task i m = \<lparr>pt_id = i, pt_stage = TaskSpawned, pt_expires_at = 0, pt_material = m, pt_peer = [],
     pt_aborted = False\<rparr>"

definition start_spawn :: "'f pairing_env \<Rightarrow> 'f pairing_service \<Rightarrow> (pairing_error + session_status) \<times> 'f pairing_service" where
  "start_spawn e v =
     (if \<not> mode_enabled (pv_mode v) then (Inl PairDisabled, v)
      else case expire_or_busy (pe_now e) v of
        Inl er \<Rightarrow> (Inl er, v)
      | Inr v1 \<Rightarrow>
          (case load_or_create (pe_lib e) (pe_fault e) (pe_dir e) (pe_random e) (pv_fs v1) of
             (Inl er, fs1) \<Rightarrow> (Inl er, v1\<lparr>pv_fs := fs1\<rparr>)
           | (Inr m, fs1) \<Rightarrow>
               let v2 = v1\<lparr>pv_fs := fs1\<rparr> in
               (case sum_bind (pairing_addresses (pe_show_ip e) (pe_interface e) (pe_interfaces e))
                       (bind_listeners (pe_binds e)) of
                  Inl er \<Rightarrow> (Inl er, v2)
                | Inr _ \<Rightarrow>
                    if \<not> pe_advertises e then (Inl PairAdvertisement, v2)
                    else
                      let status = new_status (pe_id e) (pe_started_at e) in
                      (Inr status, v2\<lparr>pv_pending := Some status, pv_tasks := new_task (pe_id e) m # pv_tasks v2,
                         pv_advertised := pe_id e # pv_advertised v2\<rparr>))))"

definition start_store :: "'f pairing_service \<Rightarrow> 'f pairing_service" where
  "start_store v = (case pv_pending v of None \<Rightarrow> v | Some s \<Rightarrow> v\<lparr>pv_session := Some s, pv_pending := None\<rparr>)"

text \<open>The whole of \<^verbatim>\<open>start_wireless\<close>; \<open>between\<close> is what happens before the session is stored.\<close>

definition start_wireless ::
  "'f pairing_env \<Rightarrow> ('f pairing_service \<Rightarrow> 'f pairing_service) \<Rightarrow> 'f pairing_service
     \<Rightarrow> (pairing_error + session_status) \<times> 'f pairing_service" where
  "start_wireless e between v =
     (case start_spawn e v of
        (Inl er, v1) \<Rightarrow> (Inl er, v1)
      | (Inr status, v1) \<Rightarrow> (Inr status, start_store (between v1)))"

section \<open>Polling and cancelling\<close>

definition session_named :: "uuid \<Rightarrow> 'f pairing_service \<Rightarrow> session_status option" where
  "session_named i v = (case pv_session v of Some s \<Rightarrow> if ps_id s = i then Some s else None | None \<Rightarrow> None)"

definition pairing_status ::
  "uuid \<Rightarrow> nat \<Rightarrow> 'f pairing_service \<Rightarrow> (pairing_error + session_status) \<times> 'f pairing_service" where
  "pairing_status i now v =
     (case session_named i v of
        None \<Rightarrow> (Inl PairNotFound, v)
      | Some s \<Rightarrow>
          let v' = (if \<not> is_terminal (ps_phase s) \<and> session_expired s now then expire_session s v else v) in
          (ok_or PairNotFound (pv_session v'), v'))"

definition cancel_pairing :: "uuid \<Rightarrow> 'f pairing_service \<Rightarrow> (pairing_error + unit) \<times> 'f pairing_service" where
  "cancel_pairing i v =
     (case session_named i v of
        None \<Rightarrow> (Inl PairNotFound, v)
      | Some s \<Rightarrow>
          if is_terminal (ps_phase s) then (Inl PairTerminal, v)
          else (Inr (), end_session PairCancelled ''The wireless pairing session was cancelled.'' s v))"

datatype transport_kind = Lockdown | RsdCoreDevice

text \<open>\<^verbatim>\<open>record_transport_result\<close>; \<^term>\<open>None\<close> is the rejected result.\<close>

definition record_transport_result ::
  "uuid \<Rightarrow> transport_kind option \<Rightarrow> 'f pairing_service \<Rightarrow> (pairing_error + session_status) \<times> 'f pairing_service" where
  "record_transport_result i result v =
     (case session_named i v of
        None \<Rightarrow> (Inl PairNotFound, v)
      | Some s \<Rightarrow>
          if ps_phase s \<noteq> VerifyingTransport then (Inl PairTerminal, v)
          else
            let s' = (case result of
                Some Lockdown \<Rightarrow> s\<lparr>ps_setup_code := None, ps_phase := PairReady,
                  ps_message := ''RemotePairing completed and Lockdown transport was verified.''\<rparr>
              | Some RsdCoreDevice \<Rightarrow> s\<lparr>ps_setup_code := None, ps_phase := PairReady,
                  ps_message := ''RemotePairing completed and RSD/CoreDevice transport was verified.''\<rparr>
              | None \<Rightarrow> s\<lparr>ps_setup_code := None, ps_phase := PairFailed,
                  ps_message := ''RemotePairing completed but trusted transport could not be verified.''\<rparr>) in
            (Inr s', v\<lparr>pv_session := Some s'\<rparr>))"

section \<open>The task\<close>

definition set_phase ::
  "uuid \<Rightarrow> pairing_phase \<Rightarrow> string \<Rightarrow> string option \<Rightarrow> 'f pairing_service \<Rightarrow> (pairing_error + unit) \<times> 'f pairing_service" where
  "set_phase i ph text code v =
     (case session_named i v of
        None \<Rightarrow> (Inl PairNotFound, v)
      | Some s \<Rightarrow> (Inr (), v\<lparr>pv_session := Some (s\<lparr>ps_phase := ph, ps_message := text, ps_setup_code := code\<rparr>)\<rparr>))"

definition set_setup_code :: "uuid \<Rightarrow> string \<Rightarrow> 'f pairing_service \<Rightarrow> 'f pairing_service" where
  "set_setup_code i code v =
     (case session_named i v of
        None \<Rightarrow> v
      | Some s \<Rightarrow> v\<lparr>pv_session := Some (s\<lparr>ps_setup_code := Some code, ps_message :=
          ''Enter the one-time pairing code shown for this session on the iPhone or iPad.''\<rparr>)\<rparr>)"

text \<open>
  Ending a session. The code removes the resources and writes the phase under two acquisitions of
  the session lock and the resources lock, one after the other; \<open>finish_pairing\<close>, \<open>finish_if_active\<close>
  and \<open>finalize_new_pairing\<close> are one step each, so a poll between the two acquisitions, which sees
  the new phase while the advertisement is not yet withdrawn, has no state here.
\<close>

definition finish_pairing :: "uuid \<Rightarrow> pairing_phase \<Rightarrow> string \<Rightarrow> 'f pairing_service \<Rightarrow> 'f pairing_service" where
  "finish_pairing i ph text v = snd (set_phase i ph text None (take_resources i v))"

definition finish_if_active :: "uuid \<Rightarrow> pairing_phase \<Rightarrow> string \<Rightarrow> 'f pairing_service \<Rightarrow> 'f pairing_service" where
  "finish_if_active i ph text v =
     (case session_named i v of
        None \<Rightarrow> v
      | Some s \<Rightarrow>
          if is_terminal (ps_phase s) then v
          else take_resources i (v\<lparr>pv_session := Some (s\<lparr>ps_phase := ph, ps_message := text, ps_setup_code := None\<rparr>)\<rparr>))"

text \<open>\<open>committed\<close> is the outcome of \<^verbatim>\<open>commit_remote_pairing\<close>, \<open>now\<close> the time it returned.\<close>

definition finalize_new_pairing ::
  "'f pairing_env \<Rightarrow> 'f pairing_task \<Rightarrow> bool \<Rightarrow> nat \<Rightarrow> 'f pairing_service \<Rightarrow> 'f pairing_service" where
  "finalize_new_pairing e t committed now v =
     (if \<not> committed
      then finish_if_active (pt_id t) PairFailed ''Wireless pairing could not be completed.'' v
      else case session_named (pt_id t) v of
        None \<Rightarrow> v
      | Some s \<Rightarrow>
          if is_terminal (ps_phase s) then v
          else take_resources (pt_id t)
            (if pt_expires_at t \<le> now
             then v\<lparr>pv_session := Some (s\<lparr>ps_phase := PairFailed,
                    ps_message := ''Wireless pairing could not be completed.'', ps_setup_code := None\<rparr>)\<rparr>
             else case save_material (pe_lib e) (pe_fault e) (pe_dir e) (pe_random e)
                    ((pt_material t)\<lparr>pm_peer := Some (pl_fingerprint (pe_lib e) (pt_peer t))\<rparr>) (pv_fs v) of
               (Inr _, fs') \<Rightarrow> v\<lparr>pv_fs := fs', pv_session := Some (s\<lparr>ps_phase := VerifyingTransport,
                    ps_message := ''RemotePairing completed. Verifying trusted device transport.'',
                    ps_setup_code := None\<rparr>)\<rparr>
             | (Inl _, fs') \<Rightarrow> v\<lparr>pv_fs := fs', pv_session := Some (s\<lparr>ps_phase := PairFailed,
                    ps_message := ''Wireless pairing completed but its state could not be saved.'',
                    ps_setup_code := None\<rparr>)\<rparr>))"

datatype accept_outcome = Accepted | AcceptError | AcceptTimeout

text \<open>The pairing file after the handshake and the peer's identifier, or how it failed.\<close>

datatype 'f handshake_outcome = Paired 'f string | PairRejected | PairTimeout

datatype 'f task_event =
    TaskBegins nat
  | TaskAccepts accept_outcome
  | TaskShowsCode string
  | TaskHandshakes "'f handshake_outcome"
  | TaskCommits bool nat

definition expired_message :: string where
  "expired_message = ''The wireless pairing session expired.''"

text \<open>What a task does at an event: the service and the task after it.\<close>

fun run_pairing ::
  "'f pairing_env \<Rightarrow> 'f task_event \<Rightarrow> 'f pairing_task \<Rightarrow> 'f pairing_service
     \<Rightarrow> ('f pairing_task \<times> 'f pairing_service) option" where
  "run_pairing e (TaskBegins now) t v =
     (if pt_stage t \<noteq> TaskSpawned then None
      else Some (case pairing_status (pt_id t) now v of
        (Inl _, v') \<Rightarrow> (t\<lparr>pt_stage := TaskOver\<rparr>, v')
      | (Inr s, v') \<Rightarrow> (t\<lparr>pt_stage := TaskAccepting, pt_expires_at := ps_expires_at s\<rparr>, v')))"
| "run_pairing e (TaskAccepts outcome) t v =
     (if pt_stage t \<noteq> TaskAccepting then None
      else Some (case outcome of
        Accepted \<Rightarrow>
          (case set_phase (pt_id t) AwaitingCodeEntry ''The iPhone or iPad is completing wireless pairing.'' None v of
             (Inr _, v') \<Rightarrow> (t\<lparr>pt_stage := TaskHandshaking\<rparr>, v')
           | (Inl _, v') \<Rightarrow> (t\<lparr>pt_stage := TaskOver\<rparr>, v'))
      | _ \<Rightarrow> (t\<lparr>pt_stage := TaskOver\<rparr>, finish_pairing (pt_id t) PairExpired expired_message v)))"
| "run_pairing e (TaskShowsCode code) t v =
     (if pt_stage t \<noteq> TaskHandshaking then None else Some (t, set_setup_code (pt_id t) code v))"
| "run_pairing e (TaskHandshakes outcome) t v =
     (if pt_stage t \<noteq> TaskHandshaking then None
      else Some (case outcome of
        Paired file peer \<Rightarrow>
          (t\<lparr>pt_stage := TaskCommitting, pt_material := (pt_material t)\<lparr>pm_file := file\<rparr>, pt_peer := peer\<rparr>, v)
      | PairRejected \<Rightarrow> (t\<lparr>pt_stage := TaskOver\<rparr>,
          finish_pairing (pt_id t) PairFailed ''The iPhone or iPad rejected wireless pairing.'' v)
      | PairTimeout \<Rightarrow> (t\<lparr>pt_stage := TaskOver\<rparr>, finish_pairing (pt_id t) PairExpired expired_message v)))"
| "run_pairing e (TaskCommits committed now) t v =
     (if pt_stage t \<noteq> TaskCommitting then None
      else Some (t\<lparr>pt_stage := TaskOver\<rparr>, finalize_new_pairing e t committed now v))"

text \<open>
  The task of a session handles an event, during which it may have been aborted. A task that was
  aborted before is over after it: it does not get past its next await.
\<close>

definition task_step ::
  "'f pairing_env \<Rightarrow> uuid \<Rightarrow> 'f task_event \<Rightarrow> 'f pairing_service \<Rightarrow> 'f pairing_service option" where
  "task_step e i ev v =
     Option.bind (find (\<lambda>t. pt_id t = i) (pv_tasks v)) (\<lambda>t.
       case run_pairing e ev t v of
         None \<Rightarrow> None
       | Some (t', v') \<Rightarrow>
           let aborted = list_ex (\<lambda>u. pt_id u = i \<and> pt_aborted u) (pv_tasks v');
               t'' = t'\<lparr>pt_aborted := aborted, pt_stage := if pt_aborted t then TaskOver else pt_stage t'\<rparr> in
           Some (v'\<lparr>pv_tasks := map (\<lambda>u. if pt_id u = i then t'' else u) (pv_tasks v')\<rparr>))"

end
