(* ===== verification/PairingContract.thy ===== *)
theory PairingContract
  imports Pairing
begin

text \<open>
  What wireless pairing guarantees and where it falls short: the invariant of the sessions and
  their tasks, the addresses a session listens on, what becomes of a completed pairing, and the
  two windows in which a session loses its task.
\<close>

section \<open>Transitions\<close>

text \<open>
  A service moves when a request starts a session (in two steps, while it holds the start lock),
  polls or cancels one, or when a task handles an event. \<^const>\<open>record_transport_result\<close> is not
  called by any handler.
\<close>

inductive pairing_step :: "'f pairing_service \<Rightarrow> 'f pairing_service \<Rightarrow> bool" where
  spawned: "start_spawn e v = (r, v') \<Longrightarrow> pv_pending v = None \<Longrightarrow> pe_id e \<notin> pt_id ` set (pv_tasks v) \<Longrightarrow>
     pairing_step v v'"
| stored: "pairing_step v (start_store v)"
| polled: "pairing_status i now v = (r, v') \<Longrightarrow> pairing_step v v'"
| cancelled: "cancel_pairing i v = (r, v') \<Longrightarrow> pairing_step v v'"
| tasked: "task_step e i ev v = Some v' \<Longrightarrow> pairing_step v v'"

inductive_cases pairing_stepE: "pairing_step v v'"

definition idle_service :: "'f pairing_service \<Rightarrow> bool" where
  "idle_service v \<longleftrightarrow> pv_session v = None \<and> pv_pending v = None \<and> pv_tasks v = [] \<and> pv_advertised v = []"

section \<open>The invariant\<close>

text \<open>A task that can still serve its session.\<close>

definition live_task :: "'f pairing_task \<Rightarrow> bool" where
  "live_task t \<longleftrightarrow> \<not> pt_aborted t \<and> pt_stage t \<noteq> TaskOver"

definition task_ids :: "'f pairing_service \<Rightarrow> uuid list" where
  "task_ids v = map pt_id (pv_tasks v)"

definition session_shown :: "session_status \<Rightarrow> uuid list \<Rightarrow> bool" where
  "session_shown s up \<longleftrightarrow> ps_phase s \<noteq> PairReady \<and> (is_terminal (ps_phase s) \<longrightarrow> ps_id s \<notin> set up)"

text \<open>While a start is under way only its task may serve; the session is finished then.\<close>

definition owned_task :: "'f pairing_service \<Rightarrow> 'f pairing_task \<Rightarrow> bool" where
  "owned_task v t \<longleftrightarrow>
     (case pv_pending v of
        Some s \<Rightarrow> ps_id s = pt_id t
      | None \<Rightarrow> (case pv_session v of Some s \<Rightarrow> ps_id s = pt_id t \<and> \<not> is_terminal (ps_phase s) | None \<Rightarrow> False))"

definition pairing_ok :: "'f pairing_service \<Rightarrow> bool" where
  "pairing_ok v \<longleftrightarrow> distinct (task_ids v)
     \<and> (\<forall>s. pv_session v = Some s \<longrightarrow> ps_id s \<in> set (task_ids v) \<and> session_shown s (pv_advertised v))
     \<and> (\<forall>s. pv_pending v = Some s \<longrightarrow> ps_id s \<in> set (task_ids v) \<and> ps_phase s = AwaitingDevice
          \<and> (\<forall>s'. pv_session v = Some s' \<longrightarrow> ps_id s' \<noteq> ps_id s))
     \<and> (\<forall>t \<in> set (pv_tasks v). live_task t \<longrightarrow> owned_task v t)"

lemma pairing_okI:
  assumes "distinct (task_ids v)"
    and "\<And>s. pv_session v = Some s \<Longrightarrow> ps_id s \<in> set (task_ids v) \<and> session_shown s (pv_advertised v)"
    and "\<And>s. pv_pending v = Some s \<Longrightarrow> ps_id s \<in> set (task_ids v) \<and> ps_phase s = AwaitingDevice
          \<and> (\<forall>s'. pv_session v = Some s' \<longrightarrow> ps_id s' \<noteq> ps_id s)"
    and "\<And>t. t \<in> set (pv_tasks v) \<Longrightarrow> live_task t \<Longrightarrow> owned_task v t"
  shows "pairing_ok v"
  using assms unfolding pairing_ok_def by blast

lemma pairing_okD:
  assumes "pairing_ok v"
  shows "distinct (task_ids v)"
    and "pv_session v = Some s \<Longrightarrow> ps_id s \<in> set (task_ids v)"
    and "pv_session v = Some s \<Longrightarrow> session_shown s (pv_advertised v)"
    and "pv_pending v = Some s \<Longrightarrow> ps_id s \<in> set (task_ids v)"
    and "pv_pending v = Some s \<Longrightarrow> ps_phase s = AwaitingDevice"
    and "pv_pending v = Some s \<Longrightarrow> pv_session v = Some s' \<Longrightarrow> ps_id s' \<noteq> ps_id s"
    and "t \<in> set (pv_tasks v) \<Longrightarrow> live_task t \<Longrightarrow> owned_task v t"
  using assms unfolding pairing_ok_def by blast+

lemma task_ids_abort [simp]: "task_ids (abort_task i v) = task_ids v"
  by (simp add: task_ids_def abort_task_def comp_def if_distrib cong: if_cong)

lemma end_session_simps [simp]:
  "pv_session (end_session ph m s v) = Some (s\<lparr>ps_phase := ph, ps_setup_code := None, ps_message := m\<rparr>)"
  "pv_pending (end_session ph m s v) = pv_pending v"
  "pv_tasks (end_session ph m s v) = pv_tasks (abort_task (ps_id s) v)"
  "pv_advertised (end_session ph m s v) = filter (\<lambda>j. j \<noteq> ps_id s) (pv_advertised v)"
  "task_ids (end_session ph m s v) = task_ids v"
  "pv_fs (end_session ph m s v) = pv_fs v"
  "pv_mode (end_session ph m s v) = pv_mode v"
  by (simp_all add: end_session_def abort_task_def take_resources_def task_ids_def comp_def)

lemma end_session_ok:
  assumes ok: "pairing_ok v" and s: "pv_session v = Some s" and ph: "ph \<noteq> PairReady"
  shows "pairing_ok (end_session ph m s v)"
proof (rule pairing_okI)
  fix t assume t: "t \<in> set (pv_tasks (end_session ph m s v))" "live_task t"
  then obtain u where u: "u \<in> set (pv_tasks v)" "pt_id u \<noteq> ps_id s" "t = u"
    by (auto simp: abort_task_def live_task_def split: if_splits)
  from pairing_okD(7) [OF ok u(1)] t(2) u s show "owned_task (end_session ph m s v) t"
    by (auto simp: owned_task_def split: option.splits)
qed (use pairing_okD [OF ok] s ph in \<open>auto simp: session_shown_def\<close>)

lemma session_named_SomeD: "session_named i v = Some s \<Longrightarrow> pv_session v = Some s \<and> ps_id s = i"
  by (auto simp: session_named_def split: option.splits if_splits)

section \<open>Requests keep the invariant\<close>

lemma status_ok: "pairing_ok v \<Longrightarrow> pairing_status i now v = (r, v') \<Longrightarrow> pairing_ok v'"
  by (auto simp: pairing_status_def Let_def expire_session_def intro: end_session_ok
      dest!: session_named_SomeD split: option.splits if_splits)

lemma cancel_ok: "pairing_ok v \<Longrightarrow> cancel_pairing i v = (r, v') \<Longrightarrow> pairing_ok v'"
  by (auto simp: cancel_pairing_def intro: end_session_ok dest!: session_named_SomeD split: option.splits if_splits)

lemma expire_or_busy_ok:
  "pairing_ok v \<Longrightarrow> expire_or_busy now v = Inr v' \<Longrightarrow> pairing_ok v'
     \<and> pv_pending v' = pv_pending v \<and> task_ids v' = task_ids v
     \<and> (\<forall>s. pv_session v' = Some s \<longrightarrow> is_terminal (ps_phase s))"
  by (auto simp: expire_or_busy_def expire_session_def is_terminal_def intro: end_session_ok
      split: option.splits if_splits)

lemma pairing_ok_fs: "pairing_ok (v\<lparr>pv_fs := fs\<rparr>) \<longleftrightarrow> pairing_ok v"
  by (simp add: pairing_ok_def task_ids_def owned_task_def cong: option.case_cong)

lemma spawn_ok:
  assumes ok: "pairing_ok v" and run: "start_spawn e v = (r, v')"
    and free: "pv_pending v = None" "pe_id e \<notin> pt_id ` set (pv_tasks v)"
  shows "pairing_ok v'"
proof (cases "mode_enabled (pv_mode v) \<and> (\<exists>v1. expire_or_busy (pe_now e) v = Inr v1)")
  case False
  with run ok show ?thesis by (auto simp: start_spawn_def split: sum.splits if_splits)
next
  case True
  then obtain v1 where v1: "expire_or_busy (pe_now e) v = Inr v1" and mode: "mode_enabled (pv_mode v)" by blast
  from expire_or_busy_ok [OF ok v1] have ok1: "pairing_ok v1" and p1: "pv_pending v1 = None"
    and ids: "task_ids v1 = task_ids v" and ended: "\<And>s. pv_session v1 = Some s \<Longrightarrow> is_terminal (ps_phase s)"
    using free(1) by auto
  have id: "pe_id e \<notin> set (task_ids v1)" using free(2) ids by (simp add: task_ids_def)
  have new: "pairing_ok (v1\<lparr>pv_fs := fs, pv_pending := Some (new_status (pe_id e) n),
      pv_tasks := new_task (pe_id e) m # pv_tasks v1, pv_advertised := pe_id e # pv_advertised v1\<rparr>)"
    (is "pairing_ok (?new fs n m)") for fs n m
  proof (rule pairing_okI)
    fix t assume "t \<in> set (pv_tasks (?new fs n m))" "live_task t"
    moreover have "\<not> live_task t" if "t \<in> set (pv_tasks v1)" for t
      using pairing_okD(7) [OF ok1 that] p1 ended by (auto simp: owned_task_def split: option.splits)
    ultimately show "owned_task (?new fs n m) t"
      by (auto simp: owned_task_def new_status_def new_task_def)
  qed (use pairing_okD [OF ok1] id in \<open>auto simp: task_ids_def new_status_def new_task_def session_shown_def\<close>)
  show ?thesis
    using run v1 mode ok1 new
    by (auto simp: start_spawn_def Let_def pairing_ok_fs split: prod.splits sum.splits if_splits)
qed

lemma store_ok:
  assumes ok: "pairing_ok v"
  shows "pairing_ok (start_store v)"
proof (cases "pv_pending v")
  case (Some s)
  show ?thesis
  proof (rule pairing_okI)
    fix t assume "t \<in> set (pv_tasks (start_store v))" "live_task t"
    with pairing_okD(7) [OF ok, of t] Some pairing_okD(5) [OF ok Some]
    show "owned_task (start_store v) t"
      by (auto simp: owned_task_def start_store_def is_terminal_def)
  qed (use pairing_okD [OF ok] Some in \<open>auto simp: start_store_def task_ids_def session_shown_def is_terminal_def\<close>)
qed (simp add: start_store_def ok)

section \<open>Tasks keep the invariant\<close>

text \<open>What a round of the task of session \<open>i\<close> may do to the service it runs in.\<close>

definition task_effect :: "uuid \<Rightarrow> 'f pairing_service \<Rightarrow> 'f pairing_service \<Rightarrow> bool" where
  "task_effect i v v' \<longleftrightarrow> pv_pending v' = pv_pending v
     \<and> (pv_tasks v' = pv_tasks v \<or> pv_tasks v' = pv_tasks (abort_task i v))
     \<and> set (pv_advertised v') \<subseteq> set (pv_advertised v)
     \<and> (pv_session v' = pv_session v
        \<or> (\<exists>s s'. pv_session v = Some s \<and> ps_id s = i \<and> pv_session v' = Some s' \<and> ps_id s' = i
             \<and> (ps_phase s' = ps_phase s \<or> ps_phase s' \<noteq> PairReady
                \<and> (is_terminal (ps_phase s') \<longrightarrow> i \<notin> set (pv_advertised v')))))"

lemma task_effect_refl: "task_effect i v v"
  by (simp add: task_effect_def)

lemma session_named_None: "session_named i v = None \<Longrightarrow> pv_session v = Some s \<Longrightarrow> ps_id s \<noteq> i"
  by (auto simp: session_named_def split: if_splits)

lemma take_resources_simps [simp]:
  "pv_session (take_resources i v) = pv_session v" "pv_pending (take_resources i v) = pv_pending v"
  "pv_tasks (take_resources i v) = pv_tasks v" "pv_fs (take_resources i v) = pv_fs v"
  "session_named j (take_resources i v) = session_named j v" "i \<notin> set (pv_advertised (take_resources i v))"
  "set (pv_advertised (take_resources i v)) \<subseteq> set (pv_advertised v)"
  by (auto simp: take_resources_def session_named_def)

lemma status_effect: "pairing_status i now v = (r, v') \<Longrightarrow> task_effect i v v'"
  by (auto simp: pairing_status_def Let_def expire_session_def task_effect_def
      dest!: session_named_SomeD split: option.splits if_splits)

lemma set_phase_effect:
  "set_phase i ph m c v = (r, v') \<Longrightarrow> ph \<noteq> PairReady \<Longrightarrow>
     (is_terminal ph \<Longrightarrow> i \<notin> set (pv_advertised v)) \<Longrightarrow> task_effect i v v'"
  by (auto simp: set_phase_def task_effect_def dest!: session_named_SomeD split: option.splits)

lemma task_effect_take: "task_effect i (take_resources i v) v' \<Longrightarrow> task_effect i v v'"
  by (auto simp: task_effect_def abort_task_def take_resources_def)

lemma finish_effect: "ph \<noteq> PairReady \<Longrightarrow> task_effect i v (finish_pairing i ph m v)"
  unfolding finish_pairing_def
  by (rule task_effect_take, rule set_phase_effect [OF surjective_pairing]) auto

lemma finish_if_active_effect: "ph \<noteq> PairReady \<Longrightarrow> task_effect i v (finish_if_active i ph m v)"
  by (auto simp: finish_if_active_def task_effect_def take_resources_def
      dest!: session_named_SomeD split: option.splits)

lemma shown_effect:
  "session_named i v = Some s \<Longrightarrow> ps_id s' = i \<Longrightarrow> ps_phase s' \<noteq> PairReady \<Longrightarrow>
     task_effect i v (take_resources i (v\<lparr>pv_session := Some s'\<rparr>))"
  "session_named i v = Some s \<Longrightarrow> ps_id s' = i \<Longrightarrow> ps_phase s' \<noteq> PairReady \<Longrightarrow>
     task_effect i v (take_resources i (v\<lparr>pv_fs := fs, pv_session := Some s'\<rparr>))"
  by (auto simp: task_effect_def take_resources_def dest!: session_named_SomeD)

lemma finalize_effect: "task_effect (pt_id t) v (finalize_new_pairing e t committed now v)"
proof (cases "committed \<and> session_named (pt_id t) v \<noteq> None")
  case True
  then obtain s where s: "committed" "session_named (pt_id t) v = Some s" by blast
  moreover from s have "ps_id s = pt_id t" by (simp add: session_named_SomeD)
  ultimately show ?thesis
    by (auto simp: finalize_new_pairing_def task_effect_refl intro!: shown_effect
        split: sum.splits prod.splits)
next
  case False
  then show ?thesis
    by (auto simp: finalize_new_pairing_def finish_if_active_effect task_effect_refl)
qed

lemma set_setup_code_effect: "task_effect i v (set_setup_code i code v)"
  by (auto simp: set_setup_code_def task_effect_def dest!: session_named_SomeD split: option.splits)

lemma run_pairing_effect:
  "run_pairing e ev t v = Some (t', v') \<Longrightarrow> task_effect (pt_id t) v v' \<and> pt_id t' = pt_id t"
  by (cases ev; auto simp: task_effect_refl finish_effect finalize_effect set_setup_code_effect is_terminal_def
      dest: status_effect set_phase_effect
      split: if_splits prod.splits sum.splits option.splits accept_outcome.splits handshake_outcome.splits)

text \<open>A task that goes on after a round left its session open, or has been aborted meanwhile.\<close>

lemma run_pairing_goes_on:
  assumes "run_pairing e ev t v = Some (t', v')" "pt_stage t' \<noteq> TaskOver"
    and "pv_session v = Some s" "ps_id s = pt_id t" "\<not> is_terminal (ps_phase s)"
  shows "(\<exists>s'. pv_session v' = Some s' \<and> ps_id s' = pt_id t \<and> \<not> is_terminal (ps_phase s'))
    \<or> pv_tasks v' = pv_tasks (abort_task (pt_id t) v)"
  using assms
  by (cases ev; auto simp: pairing_status_def session_named_def set_phase_def set_setup_code_def expire_session_def
      Let_def is_terminal_def ok_or_def
      split: if_splits prod.splits sum.splits option.splits accept_outcome.splits handshake_outcome.splits)

lemma task_step_cases:
  assumes "task_step e i ev v = Some v'"
  obtains t t' v1 where "t \<in> set (pv_tasks v)" "pt_id t = i" "run_pairing e ev t v = Some (t', v1)"
    "v' = v1\<lparr>pv_tasks := map (\<lambda>u. if pt_id u = i
        then t'\<lparr>pt_aborted := list_ex (\<lambda>u. pt_id u = i \<and> pt_aborted u) (pv_tasks v1),
               pt_stage := if pt_aborted t then TaskOver else pt_stage t'\<rparr> else u) (pv_tasks v1)\<rparr>"
proof -
  from assms obtain t t' v1 where f: "find (\<lambda>t. pt_id t = i) (pv_tasks v) = Some t"
    and r: "run_pairing e ev t v = Some (t', v1)" "v' = v1\<lparr>pv_tasks := map (\<lambda>u. if pt_id u = i
        then t'\<lparr>pt_aborted := list_ex (\<lambda>u. pt_id u = i \<and> pt_aborted u) (pv_tasks v1),
               pt_stage := if pt_aborted t then TaskOver else pt_stage t'\<rparr> else u) (pv_tasks v1)\<rparr>"
    by (auto simp: task_step_def Let_def bind_eq_Some_conv split: option.splits)
  from f have "t \<in> set (pv_tasks v)" "pt_id t = i" by (auto simp: find_Some_iff)
  from that [OF this r] show thesis .
qed

lemma map_replace_task: "pt_id w = i \<Longrightarrow> map pt_id (map (\<lambda>u. if pt_id u = i then w else u) us) = map pt_id us"
  by (induction us) auto

lemma replaced_task: "u \<in> set (map (\<lambda>x. if pt_id x = i then w else x) us) \<Longrightarrow> pt_id u = i \<Longrightarrow> u = w"
  by auto

lemma list_ex_aborted:
  "t \<in> set (pv_tasks v) \<Longrightarrow> pt_id t = i \<Longrightarrow>
     list_ex (\<lambda>u. pt_id u = i \<and> pt_aborted u) (pv_tasks (abort_task i v))"
  by (auto simp: abort_task_def list_ex_iff intro!: bexI [of _ "t\<lparr>pt_aborted := True\<rparr>"])

text \<open>A task that goes on after its round still has a session to serve.\<close>

lemma stepped_owner:
  assumes ok: "pairing_ok v" and t: "t \<in> set (pv_tasks v)" "pt_id t = i"
    and run: "run_pairing e ev t v = Some (t', v1)" and live: "\<not> pt_aborted t" "pt_stage t' \<noteq> TaskOver"
    and un: "\<not> list_ex (\<lambda>u. pt_id u = i \<and> pt_aborted u) (pv_tasks v1)" and u: "pt_id u = i"
  shows "owned_task (v1\<lparr>pv_tasks := ts\<rparr>) u"
proof -
  note eff = run_pairing_effect [OF run, THEN conjunct1, unfolded t(2)]
  have "pt_stage t \<noteq> TaskOver" using run by (cases ev) (auto split: if_splits)
  with live(1) have "owned_task v t" using pairing_okD(7) [OF ok t(1)] by (simp add: live_task_def)
  moreover from un list_ex_aborted [OF t] have "pv_tasks v1 \<noteq> pv_tasks (abort_task i v)" by auto
  ultimately show ?thesis
    using run_pairing_goes_on [OF run live(2)] eff t(2) u
    by (auto simp: owned_task_def task_effect_def split: option.splits)
qed

lemma task_step_ok:
  assumes ok: "pairing_ok v" and step: "task_step e i ev v = Some v'"
  shows "pairing_ok v'"
  using step
proof (cases rule: task_step_cases)
  case (1 t t' v1)
  note eff = run_pairing_effect [OF 1(3), THEN conjunct1, unfolded 1(2)]
  have t': "pt_id t' = i" using run_pairing_effect [OF 1(3)] 1(2) by simp
  have ids1: "task_ids v1 = task_ids v"
    using eff task_ids_abort [of i v] unfolding task_effect_def task_ids_def by metis
  have ids: "task_ids v' = task_ids v"
    using ids1 t' by (simp add: 1(4) task_ids_def map_replace_task del: map_map)
  have others: "u \<in> set (pv_tasks v)" if "u \<in> set (pv_tasks v1)" "pt_id u \<noteq> i" for u
    using eff that by (auto simp: task_effect_def abort_task_def split: if_splits)
  have sids: "\<exists>s0. pv_session v = Some s0 \<and> ps_id s0 = ps_id s'" if "pv_session v1 = Some s'" for s'
    using eff that unfolding task_effect_def by (metis option.inject)
  show ?thesis
  proof (rule pairing_okI)
    show "distinct (task_ids v')" using ids pairing_okD(1) [OF ok] by simp
  next
    fix s assume "pv_session v' = Some s"
    then show "ps_id s \<in> set (task_ids v') \<and> session_shown s (pv_advertised v')"
      using eff pairing_okD(2,3) [OF ok] ids
      by (auto simp: 1(4) task_effect_def session_shown_def)
  next
    fix s assume "pv_pending v' = Some s"
    then have "pv_pending v = Some s" using eff by (simp add: 1(4) task_effect_def)
    then show "ps_id s \<in> set (task_ids v') \<and> ps_phase s = AwaitingDevice
        \<and> (\<forall>s'. pv_session v' = Some s' \<longrightarrow> ps_id s' \<noteq> ps_id s)"
      using pairing_okD(4,5) [OF ok] pairing_okD(6) [OF ok, of s] sids ids by (auto simp: 1(4))
  next
    fix u assume u: "u \<in> set (pv_tasks v')" "live_task u"
    show "owned_task v' u"
    proof (cases "pt_id u = i")
      case False
      with u others have "u \<in> set (pv_tasks v)" by (auto simp: 1(4) t' split: if_splits)
      with pairing_okD(7) [OF ok] u(2) have "owned_task v u" by blast
      with eff False show ?thesis
        by (auto simp: 1(4) owned_task_def task_effect_def split: option.splits)
    next
      case True
      from u(1) have "u = t'\<lparr>pt_aborted := list_ex (\<lambda>u. pt_id u = i \<and> pt_aborted u) (pv_tasks v1),
          pt_stage := if pt_aborted t then TaskOver else pt_stage t'\<rparr>"
        unfolding 1(4) using True by (intro replaced_task [where i = i and us = "pv_tasks v1"]) simp_all
      with u(2) have live: "\<not> pt_aborted t" "pt_stage t' \<noteq> TaskOver"
        and un: "\<not> list_ex (\<lambda>u. pt_id u = i \<and> pt_aborted u) (pv_tasks v1)"
        by (auto simp: live_task_def split: if_splits)
      from stepped_owner [OF ok 1(1-3) live un True] show ?thesis by (simp add: 1(4))
    qed
  qed
qed

section \<open>Every reachable service\<close>

lemma pairing_step_ok: "pairing_ok v \<Longrightarrow> pairing_step v v' \<Longrightarrow> pairing_ok v'"
  by (erule pairing_stepE) (auto intro: spawn_ok store_ok status_ok cancel_ok task_step_ok)

lemma idle_service_ok: "idle_service v \<Longrightarrow> pairing_ok v"
  by (simp add: idle_service_def pairing_ok_def task_ids_def)

interpretation pairing: session_invariant pairing_step idle_service pairing_ok
  by unfold_locales (auto intro: idle_service_ok pairing_step_ok)

section \<open>The properties\<close>

lemma one_live_task: "pairing_ok v \<Longrightarrow> length (filter live_task (pv_tasks v)) \<le> 1"
proof -
  assume ok: "pairing_ok v"
  have same: "pt_id t = pt_id u" if "t \<in> set (filter live_task (pv_tasks v))" "u \<in> set (filter live_task (pv_tasks v))" for t u
    using pairing_okD(7) [OF ok, of t] pairing_okD(7) [OF ok, of u] that
    by (auto simp: owned_task_def split: option.splits)
  have "distinct (map pt_id (filter live_task (pv_tasks v)))"
    using pairing_okD(1) [OF ok] by (simp add: task_ids_def distinct_map_filter)
  then show ?thesis
  proof (cases "filter live_task (pv_tasks v)")
    case (Cons t ts)
    with same [of t] \<open>distinct (map pt_id (filter live_task (pv_tasks v)))\<close> show ?thesis
      by (cases ts) auto
  qed simp
qed


text \<open>
  C27: A completed pairing still counts as under way. When the handshake is committed in time and
  the material is saved, the session shows \<^const>\<open>VerifyingTransport\<close> and stays there: until it
  expires every further start is refused as busy, and from then on its status is expired, although
  the pairing is stored.
\<close>

theorem completed_pairing_blocks:
  assumes "session_named (pt_id t) v = Some s" "\<not> is_terminal (ps_phase s)" "now < pt_expires_at t"
    and "save_material (pe_lib e) (pe_fault e) (pe_dir e) (pe_random e)
      ((pt_material t)\<lparr>pm_peer := Some (pl_fingerprint (pe_lib e) (pt_peer t))\<rparr>) (pv_fs v) = (Inr (), fs')"
    and "mode_enabled (pv_mode v)"
    and "v' = finalize_new_pairing e t True now v"
  shows "pv_fs v' = fs' \<and> map_option ps_phase (pv_session v') = Some VerifyingTransport
    \<and> (\<forall>e'. pe_now e' < ps_expires_at s \<longrightarrow> start_spawn e' v' = (Inl PairBusy, v'))
    \<and> (\<forall>n \<ge> ps_expires_at s. map_sum id ps_phase (fst (pairing_status (pt_id t) n v')) = Inr PairExpired)"
proof -
  have mode: "pv_mode (take_resources i u) = pv_mode u" for i u by (simp add: take_resources_def)
  from assms(1) have "ps_id s = pt_id t" by (simp add: session_named_SomeD)
  with assms show ?thesis
    by (auto simp: finalize_new_pairing_def start_spawn_def expire_or_busy_def is_terminal_def session_expired_def
        pairing_status_def session_named_def expire_session_def ok_or_def Let_def mode)
qed

text \<open>
  C28: A session can lose its task before it is stored. If the spawned task runs before
  \<open>start_wireless\<close> stores the session, it does not find it and ends; the session is then shown as
  waiting for a device although no task will ever serve it, and blocks other starts until it
  expires.
\<close>

theorem early_task_loses_session:
  assumes "idle_service v0" "pairing_step\<^sup>*\<^sup>* v0 v" "pv_pending v = None" "pe_id e \<notin> pt_id ` set (pv_tasks v)"
    and "start_spawn e v = (Inr status, v1)"
  shows "\<exists>v2. task_step e (pe_id e) (TaskBegins now) v1 = Some v2
    \<and> pv_session (start_store v2) = Some status \<and> ps_phase status = AwaitingDevice
    \<and> filter live_task (pv_tasks (start_store v2)) = []
    \<and> (\<forall>e'. pe_now e' < ps_expires_at status \<longrightarrow> fst (start_spawn e' (start_store v2)) = Inl PairBusy)"
proof -
  have ok: "pairing_ok v" using pairing.reachable_inv [OF assms(1,2)] .
  from assms(5) obtain u fs m where mode: "mode_enabled (pv_mode v)" and u: "expire_or_busy (pe_now e) v = Inr u"
    and status: "status = new_status (pe_id e) (pe_started_at e)"
    and v1: "v1 = u\<lparr>pv_fs := fs, pv_pending := Some status, pv_tasks := new_task (pe_id e) m # pv_tasks u,
       pv_advertised := pe_id e # pv_advertised u\<rparr>"
    by (auto simp: start_spawn_def Let_def split: if_splits sum.splits prod.splits)
  note e = expire_or_busy_ok [OF ok u]
  have umode: "pv_mode u = pv_mode v"
    using u by (auto simp: expire_or_busy_def expire_session_def split: option.splits if_splits)
  have fresh: "pe_id e \<notin> set (task_ids u)" using e assms(4) by (simp add: task_ids_def)
  have none: "session_named (pe_id e) v1 = None"
    using pairing_okD(2) [of u] e fresh by (auto simp: v1 session_named_def split: option.splits)
  have dead: "\<not> live_task t" if "t \<in> set (pv_tasks u)" for t
    using pairing_okD(7) [of u t] e that assms(3) by (auto simp: owned_task_def split: option.splits)
  define v2 where "v2 = v1\<lparr>pv_tasks := (new_task (pe_id e) m)\<lparr>pt_stage := TaskOver\<rparr> # pv_tasks u\<rparr>"
  have aborted: "\<not> (pt_id x = pe_id e \<and> pt_aborted x)" if "x \<in> set (pv_tasks u)" for x
    using fresh that by (metis imageI list.set_map task_ids_def)
  have "map (\<lambda>x. if pt_id x = pe_id e then w else x) (pv_tasks u) = pv_tasks u" for w
    using fresh by (intro map_idI) (metis imageI list.set_map task_ids_def)
  then have "task_step e (pe_id e) (TaskBegins now) v1 = Some v2"
    using none aborted by (auto simp: task_step_def v1 v2_def new_task_def pairing_status_def list_ex_iff)
  moreover have "filter live_task (pv_tasks v2) = []"
    using dead by (auto simp: v2_def live_task_def filter_empty_conv)
  ultimately show ?thesis
    using mode umode
    by (auto simp: v2_def v1 start_store_def status new_status_def start_spawn_def expire_or_busy_def
        is_terminal_def session_expired_def)
qed

text \<open>
  C30: A cancelled session can come back. The task that has just accepted a connection writes its
  phase without looking whether the session is finished: if the cancellation gets in first, the
  session turns from cancelled to waiting for a code, with no task to go on.
\<close>

theorem late_task_revives_session:
  assumes "idle_service v0" "pairing_step\<^sup>*\<^sup>* v0 v" "pv_session v = Some s" "\<not> is_terminal (ps_phase s)"
    and "t \<in> set (pv_tasks v)" "pt_id t = ps_id s" "pt_stage t = TaskAccepting"
  shows "\<exists>v1 v2. cancel_pairing (ps_id s) v = (Inr (), v1)
    \<and> map_option ps_phase (pv_session v1) = Some PairCancelled
    \<and> task_step e (ps_id s) (TaskAccepts Accepted) v1 = Some v2
    \<and> map_option ps_phase (pv_session v2) = Some AwaitingCodeEntry
    \<and> filter (\<lambda>t. live_task t \<and> pt_id t = ps_id s) (pv_tasks v2) = []"
proof -
  have ok: "pairing_ok v" using pairing.reachable_inv [OF assms(1,2)] .
  let ?v1 = "end_session PairCancelled ''The wireless pairing session was cancelled.'' s v"
  have c: "cancel_pairing (ps_id s) v = (Inr (), ?v1)"
    using assms(3,4) by (simp add: cancel_pairing_def session_named_def)
  have "find (\<lambda>t. pt_id t = ps_id s) (pv_tasks ?v1) \<noteq> None"
    using assms(5,6) by (auto simp: find_None_iff abort_task_def)
  then obtain a where a: "find (\<lambda>t. pt_id t = ps_id s) (pv_tasks ?v1) = Some a" by blast
  then have ain: "a \<in> set (pv_tasks ?v1)" "pt_id a = ps_id s" by (auto simp: find_Some_iff)
  then obtain b where b: "b \<in> set (pv_tasks v)" "pt_id b = ps_id s" "a = b\<lparr>pt_aborted := True\<rparr>"
    by (auto simp: abort_task_def split: if_splits)
  have "b = t"
    using pairing_okD(1) [OF ok] b(1,2) assms(5,6) by (auto simp: task_ids_def distinct_map inj_on_def)
  with b assms(7) have ab: "pt_stage a = TaskAccepting" "pt_aborted a" by simp_all
  have "\<exists>v2. task_step e (ps_id s) (TaskAccepts Accepted) ?v1 = Some v2
    \<and> map_option ps_phase (pv_session v2) = Some AwaitingCodeEntry
    \<and> filter (\<lambda>t. live_task t \<and> pt_id t = ps_id s) (pv_tasks v2) = []"
    using a ab ain(2) by (auto simp: task_step_def set_phase_def session_named_def Let_def filter_empty_conv live_task_def)
  with c show ?thesis by fastforce
qed

section \<open>The addresses of a session\<close>

lemma select_families_props:
  "set (select_families sel xs) \<subseteq> set sel \<union> set xs
   \<and> (distinct (map is_ipv4 sel) \<longrightarrow> distinct (map is_ipv4 (select_families sel xs)))
   \<and> (select_families sel xs = [] \<longleftrightarrow> sel = [] \<and> xs = [])"
proof (induction sel xs rule: select_families.induct)
  case (2 sel x xs)
  then show ?case by (auto simp: list_ex_iff)
qed simp

lemma distinct_bools: "distinct (bs :: bool list) \<Longrightarrow> length bs \<le> 2"
  using card_mono [of "UNIV :: bool set" "set bs"] by (simp add: distinct_card card_UNIV_bool)

text \<open>
  A session listens on few and local addresses. It is offered on one or two addresses, at
  most one per family, each of an interface that was asked for, none of them a loopback or
  unspecified address, and, unless an interface is configured, only private or link-local ones; it
  fails exactly when there is no such address.
\<close>

theorem pairing_addresses_local:
  "case pairing_addresses show_ip interface (Some entries) of
      Inr sel \<Rightarrow> 1 \<le> length sel \<and> length sel \<le> 2 \<and> distinct (map is_ipv4 sel)
        \<and> list_all (\<lambda>ip. \<not> is_loopback ip \<and> \<not> is_unspecified ip
             \<and> (case interface of None \<Rightarrow> is_safe_default_address ip
                | Some name \<Rightarrow> list_ex (\<lambda>en. ni_ip en = ip \<and> ni_name en = name) entries)) sel
    | Inl er \<Rightarrow> er = PairConfiguration \<and> filter (usable_address interface) entries = []"
proof -
  let ?as = "map ni_ip (filter (usable_address interface) entries)"
  let ?so = "remdups_adj (sort_key (\<lambda>ip. (\<not> is_ipv4 ip, show_ip ip)) ?as)"
  let ?sel = "select_families [] ?so"
  have so: "set ?so = set ?as" by simp
  note sel = select_families_props [of "[]" ?so]
  have sub: "set ?sel \<subseteq> set ?as" and dist: "distinct (map is_ipv4 ?sel)"
    using sel so by simp_all
  have nil: "?sel = [] \<longleftrightarrow> ?as = []"
    using sel set_empty [of ?so] unfolding so by simp
  have good: "\<not> is_loopback ip \<and> \<not> is_unspecified ip
       \<and> (case interface of None \<Rightarrow> is_safe_default_address ip
          | Some name \<Rightarrow> list_ex (\<lambda>en. ni_ip en = ip \<and> ni_name en = name) entries)" if "ip \<in> set ?sel" for ip
    using subsetD [OF sub that] by (auto simp: usable_address_def list_ex_iff split: option.splits)
  have len: "length ?sel \<le> 2" using distinct_bools [OF dist] by simp
  show ?thesis
  proof (cases "?sel = []")
    case True
    with nil show ?thesis by (simp add: pairing_addresses_def Let_def)
  next
    case False
    then have "1 \<le> length ?sel" by (simp add: Suc_le_eq)
    with False len dist good show ?thesis by (simp add: pairing_addresses_def Let_def list_all_iff)
  qed
qed

section \<open>A pairing that completes\<close>

definition demo_pairing_env :: "uuid \<Rightarrow> string pairing_env" where
  "demo_pairing_env i = \<lparr>pe_lib = demo_pairing_lib\<lparr>pl_encode := \<lambda>p. Some []\<rparr>, pe_fault = (\<lambda>_. False), pe_dir = ''d'', pe_random = demo_random,
     pe_interface = None, pe_interfaces = Some [\<lparr>ni_name = ''eth0'', ni_ip = V4 0xC0A80002\<rparr>],
     pe_show_ip = (\<lambda>_. ''ip''), pe_binds = (\<lambda>_. True), pe_advertises = True, pe_now = 100, pe_started_at = 100,
     pe_id = i\<rparr>"

definition demo_service :: "string pairing_service" where
  "demo_service = new_service PairingOn Map.empty"

definition demo_started_service :: "string pairing_service" where
  "demo_started_service = start_store (snd (start_spawn (demo_pairing_env 1) demo_service))"

lemma demo_spawn:
  "start_spawn (demo_pairing_env 1) demo_service = (Inr (new_status 1 100),
     demo_service\<lparr>pv_pending := Some (new_status 1 100),
       pv_tasks := [new_task 1 (fresh_material (pe_lib (demo_pairing_env 1)) demo_random)], pv_advertised := [1]\<rparr>)"
proof -
  have a: "pairing_addresses (\<lambda>_. ''ip'') None (Some [\<lparr>ni_name = ''eth0'', ni_ip = V4 0xC0A80002\<rparr>]) = Inr [V4 0xC0A80002]"
    by (simp add: pairing_addresses_def usable_address_def Let_def drop_bit_eq_div)
  show ?thesis
    by (simp add: start_spawn_def demo_service_def new_service_def mode_enabled_def expire_or_busy_def
        load_or_create_def ensure_state_dir_def is_file_def demo_pairing_env_def a bind_listeners_def
        sum_bind_def Let_def)
qed

lemma demo_idle: "idle_service demo_service"
  by (simp add: idle_service_def demo_service_def new_service_def)

lemma demo_pending: "pv_pending demo_service = None" "pv_tasks demo_service = []" "pv_session demo_service = None"
  by (simp_all add: demo_service_def new_service_def)

theorem early_task_loses_session_witness:
  "\<exists>v2 :: string pairing_service. pv_session v2 = Some (new_status 1 100) \<and> filter live_task (pv_tasks v2) = []"
proof -
  have free: "pe_id (demo_pairing_env 1) \<notin> pt_id ` set (pv_tasks demo_service)" by (simp add: demo_pending)
  from early_task_loses_session [OF demo_idle rtranclp.rtrancl_refl demo_pending(1) free demo_spawn, of 101]
  show ?thesis by blast
qed

lemma demo_started_reachable: "pairing_step\<^sup>*\<^sup>* demo_service demo_started_service"
proof -
  have "pairing_step demo_service (snd (start_spawn (demo_pairing_env 1) demo_service))"
    by (rule spawned [OF surjective_pairing]) (simp_all add: demo_pending)
  then show ?thesis
    unfolding demo_started_service_def by (metis stored converse_rtranclp_into_rtranclp r_into_rtranclp)
qed

lemma demo_started_eq:
  "demo_started_service = demo_service\<lparr>pv_session := Some (new_status 1 100),
     pv_tasks := [new_task 1 (fresh_material (pe_lib (demo_pairing_env 1)) demo_random)], pv_advertised := [1]\<rparr>"
  by (simp add: demo_started_service_def demo_spawn start_store_def demo_pending)


definition demo_accepting_service :: "string pairing_service" where
  "demo_accepting_service = demo_started_service\<lparr>pv_tasks :=
     [(new_task 1 (fresh_material (pe_lib (demo_pairing_env 1)) demo_random))
        \<lparr>pt_stage := TaskAccepting, pt_expires_at := 400\<rparr>]\<rparr>"

lemma demo_accepting_reachable: "pairing_step\<^sup>*\<^sup>* demo_service demo_accepting_service"
proof -
  have "task_step (demo_pairing_env 1) 1 (TaskBegins 101) demo_started_service = Some demo_accepting_service"
    by (simp add: task_step_def demo_started_eq demo_accepting_service_def new_task_def pairing_status_def
        session_named_def new_status_def is_terminal_def session_expired_def SESSION_LIFETIME_def ok_or_def Let_def)
  then show ?thesis by (metis tasked demo_started_reachable rtranclp.rtrancl_into_rtrancl)
qed

theorem late_task_revives_session_witness:
  "\<exists>v1 (v2 :: string pairing_service). cancel_pairing 1 demo_accepting_service = (Inr (), v1)
    \<and> map_option ps_phase (pv_session v1) = Some PairCancelled
    \<and> map_option ps_phase (pv_session v2) = Some AwaitingCodeEntry"
proof -
  let ?t = "(new_task 1 (fresh_material (pe_lib (demo_pairing_env 1)) demo_random))
        \<lparr>pt_stage := TaskAccepting, pt_expires_at := 400\<rparr>"
  have s: "pv_session demo_accepting_service = Some (new_status 1 100)" "\<not> is_terminal (ps_phase (new_status 1 100))"
    "?t \<in> set (pv_tasks demo_accepting_service)" "pt_id ?t = ps_id (new_status 1 100)" "pt_stage ?t = TaskAccepting"
    by (simp_all add: demo_accepting_service_def demo_started_eq new_status_def is_terminal_def new_task_def)
  have i: "ps_id (new_status 1 100) = 1" by (simp add: new_status_def)
  from late_task_revives_session [OF demo_idle demo_accepting_reachable s, of "demo_pairing_env 1"] show ?thesis
    unfolding i by blast
qed

theorem completed_pairing_blocks_witness:
  "let v' = finalize_new_pairing (demo_pairing_env 1) ((new_task 1 (fresh_material (pe_lib (demo_pairing_env 1)) demo_random))
        \<lparr>pt_stage := TaskCommitting, pt_expires_at := 400\<rparr>) True 200 demo_started_service
   in map_option ps_phase (pv_session v') = Some VerifyingTransport
     \<and> fst (start_spawn (demo_pairing_env 2) v') = Inl PairBusy"
proof -
  let ?t = "(new_task 1 (fresh_material (pe_lib (demo_pairing_env 1)) demo_random))
        \<lparr>pt_stage := TaskCommitting, pt_expires_at := 400\<rparr>"
  let ?v' = "finalize_new_pairing (demo_pairing_env 1) ?t True 200 demo_started_service"
  let ?m = "(pt_material ?t)\<lparr>pm_peer := Some (pl_fingerprint (pe_lib (demo_pairing_env 1)) (pt_peer ?t))\<rparr>"
  obtain r fs' where s: "save_material (pe_lib (demo_pairing_env 1)) (pe_fault (demo_pairing_env 1))
      (pe_dir (demo_pairing_env 1)) (pe_random (demo_pairing_env 1)) ?m (pv_fs demo_started_service) = (r, fs')"
    by fastforce
  then have r: "r = Inr ()"
    by (simp add: demo_started_eq demo_service_def new_service_def save_material_def ensure_state_dir_def
        load_or_create_key_def read_file_def ok_or_def save_with_key_def demo_pairing_lib_def Let_def fs_rename_def
        demo_pairing_env_def)
  have n: "session_named (pt_id ?t) demo_started_service = Some (new_status 1 100)"
    "\<not> is_terminal (ps_phase (new_status 1 100))" "200 < pt_expires_at ?t" "mode_enabled (pv_mode demo_started_service)"
    by (simp_all add: session_named_def demo_started_eq new_status_def is_terminal_def new_task_def demo_service_def
        new_service_def mode_enabled_def)
  have now: "pe_now (demo_pairing_env 2) < ps_expires_at (new_status 1 100)"
    by (simp add: new_status_def SESSION_LIFETIME_def demo_pairing_env_def)
  note c = completed_pairing_blocks [OF n(1-3) s [unfolded r] n(4) refl]
  from c now have "start_spawn (demo_pairing_env 2) ?v' = (Inl PairBusy, ?v')" by blast
  with c show ?thesis by simp
qed

end
