(* ===== verification/PairingHandlers.thy ===== *)
theory PairingHandlers
  imports Pairing Sources
begin

text \<open>
  The handlers over the wireless pairing service (\<^verbatim>\<open>src/main.rs\<close>), the targets a device that shows
  a PIN advertises and pairing with it (\<^verbatim>\<open>pair_with_pin\<close> in \<^verbatim>\<open>src/wireless_pairing.rs\<close>).
\<close>

section \<open>Wireless pairing sessions\<close>

fun pairing_phase_json :: "pairing_phase \<Rightarrow> string" where
  "pairing_phase_json AwaitingDevice = ''awaitingDevice''"
| "pairing_phase_json AwaitingCodeEntry = ''awaitingCodeEntry''"
| "pairing_phase_json VerifyingTransport = ''verifyingTransport''"
| "pairing_phase_json PairReady = ''ready''"
| "pairing_phase_json PairFailed = ''failed''"
| "pairing_phase_json PairCancelled = ''cancelled''"
| "pairing_phase_json PairExpired = ''expired''"

text \<open>\<open>show_time\<close> is the RFC 3339 form of a Unix time.\<close>

definition session_json :: "(uuid \<Rightarrow> string) \<Rightarrow> (nat \<Rightarrow> string) \<Rightarrow> session_status \<Rightarrow> json" where
  "session_json show_uuid show_time s = JObj
     ([(''id'', JStr (show_uuid (ps_id s))), (''phase'', JStr (pairing_phase_json (ps_phase s))),
       (''expiresAt'', JStr (show_time (ps_expires_at s))), (''publicMessage'', JStr (ps_message s))]
      @ (case ps_setup_code s of None \<Rightarrow> [] | Some c \<Rightarrow> [(''setupCode'', JStr c)]))"

definition create_pairing_session ::
  "(session_status \<Rightarrow> json) \<Rightarrow> 'f pairing_env \<Rightarrow> ('f pairing_service \<Rightarrow> 'f pairing_service) \<Rightarrow> action_headers
     \<Rightarrow> string \<Rightarrow> 'f pairing_service \<Rightarrow> response \<times> 'f pairing_service" where
  "create_pairing_session to_json e between h mode v =
     (if mode \<noteq> ''wireless''
      then (message 400 ''Only wireless pairing is available in this spike.'', v)
      else if \<not> action_allowed h then (action_required, v)
      else case start_wireless e between v of
        (Inr status, v') \<Rightarrow> (Response 202 (Some (to_json status)), v')
      | (Inl PairDisabled, v') \<Rightarrow> (message 404 ''Wireless pairing is disabled.'', v')
      | (Inl PairBusy, v') \<Rightarrow> (message 409 ''A wireless pairing session is already active.'', v')
      | (Inl _, v') \<Rightarrow> (message 503 ''Unable to start wireless pairing.'', v'))"

definition get_pairing_session ::
  "(session_status \<Rightarrow> json) \<Rightarrow> uuid \<Rightarrow> nat \<Rightarrow> 'f pairing_service \<Rightarrow> response \<times> 'f pairing_service" where
  "get_pairing_session to_json i now v =
     (case pairing_status i now v of
        (Inr status, v') \<Rightarrow> (Response 200 (Some (to_json status)), v')
      | (Inl PairNotFound, v') \<Rightarrow> (message 404 ''Wireless pairing session was not found.'', v')
      | (Inl _, v') \<Rightarrow> (message 503 ''Unable to read wireless pairing status.'', v'))"

definition cancel_pairing_session ::
  "action_headers \<Rightarrow> uuid \<Rightarrow> 'f pairing_service \<Rightarrow> response \<times> 'f pairing_service" where
  "cancel_pairing_session h i v =
     (if \<not> action_allowed h then (action_required, v)
      else case cancel_pairing i v of
        (Inr _, v') \<Rightarrow> (Response 204 None, v')
      | (Inl PairNotFound, v') \<Rightarrow> (message 404 ''Wireless pairing session was not found.'', v')
      | (Inl PairTerminal, v') \<Rightarrow> (message 409 ''Wireless pairing session is already finished.'', v')
      | (Inl _, v') \<Rightarrow> (message 503 ''Unable to cancel wireless pairing.'', v'))"

section \<open>Devices that show a PIN\<close>

record manual_target =
  mt_identifier :: string
  mt_name :: string
  mt_model :: "string option"
  mt_addresses :: "ip_address list"
  mt_port :: u16

definition nonblank :: "string option \<Rightarrow> string option" where
  "nonblank v = (case map_option trim v of Some s \<Rightarrow> if s = [] then None else Some s | None \<Rightarrow> None)"

text \<open>
  \<open>take_chars n\<close> keeps the first \<open>n\<close> characters of a UTF-8 text: the bytes before the start of the
  next character, continuation bytes being \<^verbatim>\<open>10xxxxxx\<close>.
\<close>

fun take_chars :: "nat \<Rightarrow> string \<Rightarrow> string" where
  "take_chars n [] = []"
| "take_chars n (c # s) =
     (if 128 \<le> byte_of c \<and> byte_of c < 192 then c # take_chars n s
      else case n of 0 \<Rightarrow> [] | Suc k \<Rightarrow> c # take_chars k s)"

definition manual_pairing_target ::
  "(ip_address \<Rightarrow> string) \<Rightarrow> string option \<Rightarrow> string option \<Rightarrow> string option \<Rightarrow> string \<Rightarrow> ip_address list
     \<Rightarrow> u16 \<Rightarrow> manual_target option" where
  "manual_pairing_target show_ip identifier name model fullname addresses port =
     (case nonblank identifier of
        None \<Rightarrow> None
      | Some i \<Rightarrow>
          if 256 < length i \<or> port = 0 \<or> addresses = [] then None
          else Some \<lparr>mt_identifier = i,
            mt_name = take_chars 64 (case nonblank name of Some n \<Rightarrow> n
              | None \<Rightarrow> (case split_on CHR ''.'' fullname of first # _ \<Rightarrow> first | [] \<Rightarrow> ''Apple TV'')),
            mt_model = nonblank model,
            mt_addresses = remdups_adj (sort_key (\<lambda>a. (\<not> is_ipv4 a, show_ip a)) addresses),
            mt_port = port\<rparr>)"

text \<open>A service that mDNS resolved, as the arguments of \<^const>\<open>manual_pairing_target\<close>.\<close>

record resolved_service =
  rs_identifier :: "string option"
  rs_name :: "string option"
  rs_model :: "string option"
  rs_fullname :: string
  rs_addresses :: "ip_address list"
  rs_port :: u16

text \<open>The loop of the discovery over the services resolved in time; the last of an identifier wins.\<close>

fun manual_targets :: "(ip_address \<Rightarrow> string) \<Rightarrow> resolved_service list \<Rightarrow> manual_target list \<Rightarrow> manual_target list" where
  "manual_targets show_ip [] targets = targets"
| "manual_targets show_ip (s # ss) targets =
     (case manual_pairing_target show_ip (rs_identifier s) (rs_name s) (rs_model s) (rs_fullname s)
             (rs_addresses s) (rs_port s) of
        None \<Rightarrow> manual_targets show_ip ss targets
      | Some t \<Rightarrow> manual_targets show_ip ss
          (filter (\<lambda>existing. mt_identifier existing \<noteq> mt_identifier t) targets @ [t]))"

definition discover_manual_pairing_targets ::
  "(ip_address \<Rightarrow> string) \<Rightarrow> resolved_service list option \<Rightarrow> manual_target list option" where
  "discover_manual_pairing_targets show_ip resolved = map_option (\<lambda>ss. manual_targets show_ip ss []) resolved"

section \<open>Pairing with a PIN\<close>

datatype manual_failure =
    FailConnect | FailWrongPin | FailRejected | FailHandshake | FailTimeout | FailStorage

fun manual_failure_str :: "manual_failure \<Rightarrow> string" where
  "manual_failure_str FailConnect = ''connect''"
| "manual_failure_str FailWrongPin = ''wrong_pin''"
| "manual_failure_str FailRejected = ''rejected''"
| "manual_failure_str FailHandshake = ''handshake''"
| "manual_failure_str FailTimeout = ''timeout''"
| "manual_failure_str FailStorage = ''storage''"

text \<open>What the pairing client answers: the paired file, or why not.\<close>

datatype 'f client_outcome =
    ClientConnected 'f | ClientSrpAuthFailed | ClientPairingRejected | ClientOtherError | ClientTimeout

text \<open>
  \<open>reaches\<close> tells which address accepts a connection in time, \<open>client\<close> how the exchange ends, and
  \<open>peer\<close> the identifier of the peer it reports.
\<close>

definition pair_with_pin ::
  "'f pairing_lib \<Rightarrow> io_faults \<Rightarrow> path \<Rightarrow> 'f pairing_random \<Rightarrow> (ip_address \<Rightarrow> bool) \<Rightarrow> ('f \<Rightarrow> 'f client_outcome)
     \<Rightarrow> string option \<Rightarrow> manual_target \<Rightarrow> fs \<Rightarrow> (manual_failure + unit) \<times> fs" where
  "pair_with_pin lib fault dir rn reaches client peer target fs =
     (if find reaches (mt_addresses target) = None then (Inl FailConnect, fs)
      else case client (pl_with_identifier lib (rn_identifier rn) (rn_file rn)) of
        ClientSrpAuthFailed \<Rightarrow> (Inl FailWrongPin, fs)
      | ClientPairingRejected \<Rightarrow> (Inl FailRejected, fs)
      | ClientOtherError \<Rightarrow> (Inl FailHandshake, fs)
      | ClientTimeout \<Rightarrow> (Inl FailTimeout, fs)
      | ClientConnected file \<Rightarrow>
          (case (peer, pl_alt_irk lib file) of
             (Some udid, Some alt_irk) \<Rightarrow>
               if length alt_irk \<noteq> 16 then (Inl FailHandshake, fs)
               else (case save_material lib fault dir rn
                       \<lparr>pm_host = (rn_host rn)\<lparr>hi_identifier := pl_identifier lib file\<rparr>, pm_file = file,
                         pm_peer = Some (pl_fingerprint lib udid)\<rparr> fs of
                       (Inl _, fs') \<Rightarrow> (Inl FailStorage, fs')
                     | (Inr _, fs') \<Rightarrow> (Inr (), fs'))
           | _ \<Rightarrow> (Inl FailHandshake, fs)))"

section \<open>What discovery yields\<close>

lemma replace_target_distinct:
  "distinct (map f xs) \<Longrightarrow> distinct (map f (filter (\<lambda>x. f x \<noteq> f y) xs @ [y]))"
  by (induction xs) auto

lemma manual_targets_distinct:
  "distinct (map mt_identifier targets) \<Longrightarrow> distinct (map mt_identifier (manual_targets show_ip ss targets))"
proof (induction show_ip ss targets rule: manual_targets.induct)
  case (2 show_ip s ss targets)
  then show ?case
    using replace_target_distinct [of mt_identifier targets] by (auto split: option.splits)
qed simp

lemma manual_target_ok:
  "manual_pairing_target show_ip i n m f as p = Some t \<Longrightarrow>
     mt_identifier t \<noteq> [] \<and> length (mt_identifier t) \<le> 256 \<and> mt_port t \<noteq> 0 \<and> mt_addresses t \<noteq> []
     \<and> set (mt_addresses t) = set as"
  by (auto simp: manual_pairing_target_def nonblank_def split: option.splits if_splits)

section \<open>Configuration\<close>

definition DEFAULT_PAIRING_PORT :: u16 where "DEFAULT_PAIRING_PORT = 52345"

record pairing_config =
  pc_mode :: pairing_mode
  pc_port :: u16
  pc_interface :: "string option"
  pc_state_dir :: path

datatype config_error = InvalidPort | InvalidPortNumber

text \<open>\<^verbatim>\<open>str::parse::<u16>\<close>: an optional plus sign, then digits, below 65536.\<close>

definition parse_u16 :: "string \<Rightarrow> u16 option" where
  "parse_u16 s =
     (let ds = (case s of c # rest \<Rightarrow> if c = CHR ''+'' then rest else s | [] \<Rightarrow> s) in
      if ds = [] \<or> \<not> list_all is_ascii_digit ds then None
      else if digits_value ds < 65536 then Some (of_nat (digits_value ds)) else None)"

text \<open>\<open>var\<close> is \<^verbatim>\<open>std::env::var\<close>: the value of a variable that is set and UTF-8.\<close>

definition config_from_env :: "(string \<Rightarrow> string option) \<Rightarrow> path \<Rightarrow> config_error + pairing_config" where
  "config_from_env var default_state_dir =
     (case (case var ''IPHONELOADLY_PAIRING_PORT'' of
              None \<Rightarrow> Inr DEFAULT_PAIRING_PORT
            | Some v \<Rightarrow> ok_or InvalidPortNumber (parse_u16 v)) of
        Inl err \<Rightarrow> Inl err
      | Inr port \<Rightarrow>
          if \<not> validate_pairing_port port then Inl InvalidPort
          else Inr \<lparr>pc_mode = parse_mode (var ''IPHONELOADLY_WIRELESS_PAIRING''), pc_port = port,
                    pc_interface = nonblank (var ''IPHONELOADLY_PAIRING_INTERFACE''),
                    pc_state_dir = unwrap_or default_state_dir
                      (opt_filter (\<lambda>d. d \<noteq> []) (var ''IPHONELOADLY_WIRELESS_STATE_DIR''))\<rparr>)"

definition disabled_config :: "path \<Rightarrow> pairing_config" where
  "disabled_config state_dir =
     \<lparr>pc_mode = PairingOff, pc_port = DEFAULT_PAIRING_PORT, pc_interface = None, pc_state_dir = state_dir\<rparr>"

lemma config_port: "config_from_env var dir = Inr c \<Longrightarrow> 1024 \<le> pc_port c"
  by (auto simp: config_from_env_def validate_pairing_port_def split: sum.splits if_splits)

end
