(* ===== verification/AppleTv.thy ===== *)
theory AppleTv
  imports PairingHandlers
begin

text \<open>
  Pairing an Apple TV by its PIN (\<^verbatim>\<open>src/apple_tv.rs\<close>): the session the dashboard polls, the
  one-shot channel that carries the PIN to the pairing task, and the handlers. The outcome of
  \<^const>\<open>pair_with_pin\<close> and of the identity lookup are the events of the task.
\<close>

section \<open>Sessions\<close>

definition tv_enabled :: "string option \<Rightarrow> bool" where
  "tv_enabled v \<longleftrightarrow> map_option trim v = Some ''on''"

datatype tv_phase =
    TvConnecting | TvAwaitingPin | TvVerifying | TvReady | TvFailed | TvCancelled | TvExpired

definition tv_terminal :: "tv_phase \<Rightarrow> bool" where
  "tv_terminal ph \<longleftrightarrow> ph = TvReady \<or> ph = TvFailed \<or> ph = TvCancelled \<or> ph = TvExpired"

text \<open>The status of a session and whether it still holds the sending end of the PIN channel.\<close>

record tv_session =
  ts_id :: uuid
  ts_phase :: tv_phase
  ts_device_name :: string
  ts_expires_at :: nat
  ts_failure_code :: "string option"
  ts_verified :: bool
  ts_pin :: bool

text \<open>
  The task of a session: in the pairing, about to report its outcome, looking up the identity, or
  over. \<open>tt_pin\<close> is what the channel carries; the receiving end lives while the task is pairing.
\<close>

datatype tv_stage = TvPairing | TvReporting "manual_failure + unit" | TvLookingUp | TvOver

record tv_task =
  tt_id :: uuid
  tt_stage :: tv_stage
  tt_prompts :: nat
  tt_pin :: "string option"
  tt_aborted :: bool

record apple_tv =
  tv_targets :: "manual_target list"
  tv_session :: "tv_session option"
  tv_tasks :: "tv_task list"

datatype tv_error = TvUnknownTarget | TvBusy | TvNotFound | TvTerminal | TvNotAwaitingPin

definition new_apple_tv :: apple_tv where
  "new_apple_tv = \<lparr>tv_targets = [], tv_session = None, tv_tasks = []\<rparr>"

definition TV_SESSION_LIFETIME :: nat where "TV_SESSION_LIFETIME = 5 * 60"

definition tv_abort :: "uuid \<Rightarrow> tv_task list \<Rightarrow> tv_task list" where
  "tv_abort i ts = map (\<lambda>t. if tt_id t = i then t\<lparr>tt_aborted := True\<rparr> else t) ts"

definition tv_named :: "uuid \<Rightarrow> apple_tv \<Rightarrow> tv_session option" where
  "tv_named i v = (case tv_session v of Some s \<Rightarrow> if ts_id s = i then Some s else None | None \<Rightarrow> None)"

text \<open>\<open>tv_end\<close> aborts the task, drops the PIN sender and sets the phase.\<close>

definition tv_end :: "tv_phase \<Rightarrow> tv_session \<Rightarrow> apple_tv \<Rightarrow> apple_tv" where
  "tv_end ph s v = v\<lparr>tv_tasks := tv_abort (ts_id s) (tv_tasks v),
     tv_session := Some (s\<lparr>ts_pin := False, ts_phase := ph\<rparr>)\<rparr>"

definition expire_if_due :: "nat \<Rightarrow> tv_session \<Rightarrow> apple_tv \<Rightarrow> tv_session \<times> apple_tv" where
  "expire_if_due now s v =
     (if \<not> tv_terminal (ts_phase s) \<and> ts_expires_at s \<le> now
      then (s\<lparr>ts_pin := False, ts_phase := TvExpired\<rparr>, tv_end TvExpired s v) else (s, v))"

section \<open>Operations\<close>

definition tv_discover :: "manual_target list option \<Rightarrow> apple_tv \<Rightarrow> manual_target list option \<times> apple_tv" where
  "tv_discover found v = (case found of None \<Rightarrow> (None, v) | Some targets \<Rightarrow> (Some targets, v\<lparr>tv_targets := targets\<rparr>))"

text \<open>\<open>others\<close> is what happens during the discovery; \<open>found\<close> is what it finds.\<close>

definition tv_target ::
  "manual_target list option \<Rightarrow> (apple_tv \<Rightarrow> apple_tv) \<Rightarrow> string \<Rightarrow> apple_tv \<Rightarrow> manual_target option \<times> apple_tv" where
  "tv_target found others identifier v =
     (let named = (\<lambda>t. mt_identifier t = identifier) in
      case find named (tv_targets v) of
        Some target \<Rightarrow> (Some target, v)
      | None \<Rightarrow> (case tv_discover found (others v) of
          (None, v1) \<Rightarrow> (None, v1) | (Some targets, v1) \<Rightarrow> (find named targets, v1)))"

definition new_tv_session :: "uuid \<Rightarrow> string \<Rightarrow> nat \<Rightarrow> tv_session" where
  "new_tv_session i name now = \<lparr>ts_id = i, ts_phase = TvConnecting, ts_device_name = name,
     ts_expires_at = now + TV_SESSION_LIFETIME, ts_failure_code = None, ts_verified = False, ts_pin = True\<rparr>"

definition new_tv_task :: "uuid \<Rightarrow> tv_task" where
  "new_tv_task i = \<lparr>tt_id = i, tt_stage = TvPairing, tt_prompts = 0, tt_pin = None, tt_aborted = False\<rparr>"

definition tv_start_session :: "nat \<Rightarrow> uuid \<Rightarrow> manual_target \<Rightarrow> apple_tv \<Rightarrow> (tv_error + tv_session) \<times> apple_tv" where
  "tv_start_session now i target v =
     (let (busy, v1) = (case tv_session v of
          None \<Rightarrow> (False, v)
        | Some s \<Rightarrow> (case expire_if_due now s v of (s', v') \<Rightarrow> (\<not> tv_terminal (ts_phase s'), v'))) in
      if busy then (Inl TvBusy, v1)
      else let s = new_tv_session i (mt_name target) now in
        (Inr s, v1\<lparr>tv_session := Some s, tv_tasks := new_tv_task i # tv_tasks v1\<rparr>))"

definition tv_start ::
  "nat \<Rightarrow> uuid \<Rightarrow> manual_target list option \<Rightarrow> (apple_tv \<Rightarrow> apple_tv) \<Rightarrow> string \<Rightarrow> apple_tv
     \<Rightarrow> (tv_error + tv_session) \<times> apple_tv" where
  "tv_start now i found others identifier v =
     (case tv_target found others identifier v of
        (None, v1) \<Rightarrow> (Inl TvUnknownTarget, v1)
      | (Some target, v1) \<Rightarrow> tv_start_session now i target v1)"

definition tv_status :: "nat \<Rightarrow> uuid \<Rightarrow> apple_tv \<Rightarrow> (tv_error + tv_session) \<times> apple_tv" where
  "tv_status now i v =
     (case tv_named i v of
        None \<Rightarrow> (Inl TvNotFound, v)
      | Some s \<Rightarrow> (case expire_if_due now s v of (s', v') \<Rightarrow> (Inr s', v')))"

definition tv_receiver_alive :: "uuid \<Rightarrow> tv_task list \<Rightarrow> bool" where
  "tv_receiver_alive i ts \<longleftrightarrow> list_ex (\<lambda>t. tt_id t = i \<and> tt_stage t = TvPairing) ts"

definition tv_submit_pin :: "nat \<Rightarrow> uuid \<Rightarrow> string \<Rightarrow> apple_tv \<Rightarrow> (tv_error + tv_session) \<times> apple_tv" where
  "tv_submit_pin now i pin v =
     (case tv_named i v of
        None \<Rightarrow> (Inl TvNotFound, v)
      | Some s0 \<Rightarrow>
          (case expire_if_due now s0 v of (s, v1) \<Rightarrow>
             if ts_phase s \<noteq> TvAwaitingPin \<or> \<not> ts_pin s then (Inl TvNotAwaitingPin, v1)
             else if \<not> tv_receiver_alive i (tv_tasks v1)
             then (Inl TvTerminal, v1\<lparr>tv_session := Some (s\<lparr>ts_pin := False\<rparr>)\<rparr>)
             else let s' = s\<lparr>ts_pin := False, ts_phase := TvVerifying\<rparr> in
               (Inr s', v1\<lparr>tv_session := Some s',
                  tv_tasks := map (\<lambda>t. if tt_id t = i then t\<lparr>tt_pin := Some pin\<rparr> else t) (tv_tasks v1)\<rparr>)))"

definition tv_cancel :: "uuid \<Rightarrow> apple_tv \<Rightarrow> (tv_error + unit) \<times> apple_tv" where
  "tv_cancel i v =
     (case tv_named i v of
        None \<Rightarrow> (Inl TvNotFound, v)
      | Some s \<Rightarrow> if tv_terminal (ts_phase s) then (Inl TvTerminal, v) else (Inr (), tv_end TvCancelled s v))"

section \<open>The pairing task\<close>

definition tv_set_phase :: "uuid \<Rightarrow> tv_phase \<Rightarrow> string option \<Rightarrow> apple_tv \<Rightarrow> apple_tv" where
  "tv_set_phase i ph code v =
     (case tv_named i v of
        None \<Rightarrow> v
      | Some s \<Rightarrow>
          if tv_terminal (ts_phase s) then v
          else if ph = TvAwaitingPin \<and> \<not> ts_pin s then v
          else v\<lparr>tv_session := Some (s\<lparr>ts_phase := ph, ts_failure_code := code,
                 ts_pin := (if tv_terminal ph then False else ts_pin s)\<rparr>)\<rparr>)"

text \<open>The end of \<^verbatim>\<open>run_pairing\<close>: \<open>identity\<close> is the name of the device when the lookup succeeded.\<close>

definition tv_ready :: "uuid \<Rightarrow> string option \<Rightarrow> apple_tv \<Rightarrow> apple_tv" where
  "tv_ready i identity v =
     (case tv_named i v of
        None \<Rightarrow> v
      | Some s \<Rightarrow>
          if tv_terminal (ts_phase s) then v
          else v\<lparr>tv_session := Some (s\<lparr>ts_phase := TvReady, ts_verified := (identity \<noteq> None),
                 ts_device_name := (case identity of None \<Rightarrow> ts_device_name s | Some name \<Rightarrow> name)\<rparr>)\<rparr>)"

datatype tv_event =
    TvPrompts
  | TvPairs "manual_failure + unit"
  | TvReports
  | TvIdentifies "string option"

fun tv_run_pairing :: "tv_event \<Rightarrow> tv_task \<Rightarrow> apple_tv \<Rightarrow> (tv_task \<times> apple_tv) option" where
  "tv_run_pairing TvPrompts t v =
     (if tt_stage t \<noteq> TvPairing then None
      else Some (t\<lparr>tt_prompts := Suc (tt_prompts t)\<rparr>, tv_set_phase (tt_id t) TvAwaitingPin None v))"
| "tv_run_pairing (TvPairs result) t v =
     (if tt_stage t \<noteq> TvPairing then None else Some (t\<lparr>tt_stage := TvReporting result\<rparr>, v))"
| "tv_run_pairing TvReports t v =
     (case tt_stage t of
        TvReporting (Inl failure) \<Rightarrow> Some (t\<lparr>tt_stage := TvOver\<rparr>,
          tv_set_phase (tt_id t) TvFailed (Some (manual_failure_str failure)) v)
      | TvReporting (Inr _) \<Rightarrow> Some (t\<lparr>tt_stage := TvLookingUp\<rparr>, tv_set_phase (tt_id t) TvVerifying None v)
      | _ \<Rightarrow> None)"
| "tv_run_pairing (TvIdentifies identity) t v =
     (if tt_stage t \<noteq> TvLookingUp then None
      else Some (t\<lparr>tt_stage := TvOver\<rparr>, tv_ready (tt_id t) identity v))"

text \<open>
  What the PIN callback returns to the pairing: the first call waits for the channel and takes what
  it carries, nothing when the sender is gone; every later call returns the empty PIN at once.
\<close>

definition tv_prompt_answer :: "tv_task \<Rightarrow> apple_tv \<Rightarrow> string option" where
  "tv_prompt_answer t v =
     (if tt_prompts t \<noteq> 1 then Some ''''
      else case tt_pin t of
        Some pin \<Rightarrow> Some pin
      | None \<Rightarrow> (case tv_named (tt_id t) v of
          Some s \<Rightarrow> if ts_pin s then None else Some '''' | None \<Rightarrow> Some ''''))"

text \<open>As for wireless pairing, an aborted task gets no further than its next await.\<close>

definition tv_task_step :: "uuid \<Rightarrow> tv_event \<Rightarrow> apple_tv \<Rightarrow> apple_tv option" where
  "tv_task_step i ev v =
     Option.bind (find (\<lambda>t. tt_id t = i) (tv_tasks v)) (\<lambda>t.
       map_option (\<lambda>(t', v'). v'\<lparr>tv_tasks := map (\<lambda>u. if tt_id u = i
           then t'\<lparr>tt_stage := if tt_aborted t then TvOver else tt_stage t'\<rparr> else u) (tv_tasks v')\<rparr>)
         (tv_run_pairing ev t v))"

section \<open>Handlers\<close>

definition valid_pin :: "string \<Rightarrow> bool" where
  "valid_pin pin \<longleftrightarrow> length pin = 6 \<and> list_all is_ascii_digit pin"

definition tv_disabled :: response where
  "tv_disabled = message 404 ''Apple TV support is not enabled.''"

fun tv_pairing_error :: "tv_error \<Rightarrow> response" where
  "tv_pairing_error TvUnknownTarget =
     message 404 ''The Apple TV was not found. Open Remote App and Devices on it and search again.''"
| "tv_pairing_error TvBusy = message 409 ''An Apple TV pairing is already in progress.''"
| "tv_pairing_error TvNotFound = message 404 ''Apple TV pairing session was not found.''"
| "tv_pairing_error TvTerminal = message 409 ''Apple TV pairing session is already finished.''"
| "tv_pairing_error TvNotAwaitingPin = message 409 ''The Apple TV is not waiting for a PIN.''"

fun tv_phase_json :: "tv_phase \<Rightarrow> string" where
  "tv_phase_json TvConnecting = ''connecting''"
| "tv_phase_json TvAwaitingPin = ''awaitingPin''"
| "tv_phase_json TvVerifying = ''verifying''"
| "tv_phase_json TvReady = ''ready''"
| "tv_phase_json TvFailed = ''failed''"
| "tv_phase_json TvCancelled = ''cancelled''"
| "tv_phase_json TvExpired = ''expired''"

definition tv_status_json :: "(uuid \<Rightarrow> string) \<Rightarrow> tv_session \<Rightarrow> json" where
  "tv_status_json show_uuid s = JObj
     ([(''id'', JStr (show_uuid (ts_id s))), (''phase'', JStr (tv_phase_json (ts_phase s))),
       (''deviceName'', JStr (ts_device_name s)), (''expiresAt'', JNum (int (ts_expires_at s)))]
      @ (case ts_failure_code s of None \<Rightarrow> [] | Some c \<Rightarrow> [(''failureCode'', JStr c)])
      @ [(''verified'', JBool (ts_verified s))])"

definition tv_target_json :: "manual_target \<Rightarrow> json" where
  "tv_target_json t = JObj [(''identifier'', JStr (mt_identifier t)), (''name'', JStr (mt_name t)),
     (''model'', jopt JStr (mt_model t))]"

definition tv_overview :: "bool \<Rightarrow> apple_tv option \<Rightarrow> response" where
  "tv_overview stored tv = Response 200 (Some (JObj [(''enabled'', JBool (tv \<noteq> None)),
     (''paired'', JBool (tv \<noteq> None \<and> stored))]))"

definition tv_reply :: "(tv_session \<Rightarrow> json) \<Rightarrow> nat \<Rightarrow> (tv_error + tv_session) \<times> apple_tv \<Rightarrow> response \<times> apple_tv option" where
  "tv_reply to_json status r =
     (case r of (Inr s, v) \<Rightarrow> (Response status (Some (to_json s)), Some v) | (Inl e, v) \<Rightarrow> (tv_pairing_error e, Some v))"

definition tv_discover_handler :: "manual_target list option \<Rightarrow> apple_tv option \<Rightarrow> response \<times> apple_tv option" where
  "tv_discover_handler found tv =
     (case tv of
        None \<Rightarrow> (tv_disabled, None)
      | Some v \<Rightarrow> (case tv_discover found v of
          (Some targets, v') \<Rightarrow> (Response 200 (Some (JArr (map tv_target_json targets))), Some v')
        | (None, v') \<Rightarrow> (message 503 ''Apple TV discovery is unavailable on this host.'', Some v')))"

definition tv_start_handler ::
  "(tv_session \<Rightarrow> json) \<Rightarrow> nat \<Rightarrow> uuid \<Rightarrow> manual_target list option \<Rightarrow> (apple_tv \<Rightarrow> apple_tv) \<Rightarrow> action_headers
     \<Rightarrow> string \<Rightarrow> apple_tv option \<Rightarrow> response \<times> apple_tv option" where
  "tv_start_handler to_json now i found others h identifier tv =
     (case tv of
        None \<Rightarrow> (tv_disabled, None)
      | Some v \<Rightarrow>
          if \<not> action_allowed h then (action_required, tv)
          else tv_reply to_json 202 (tv_start now i found others (trim identifier) v))"

definition tv_status_handler ::
  "(tv_session \<Rightarrow> json) \<Rightarrow> nat \<Rightarrow> uuid \<Rightarrow> apple_tv option \<Rightarrow> response \<times> apple_tv option" where
  "tv_status_handler to_json now i tv =
     (case tv of None \<Rightarrow> (tv_disabled, None) | Some v \<Rightarrow> tv_reply to_json 200 (tv_status now i v))"

definition tv_pin_handler ::
  "(tv_session \<Rightarrow> json) \<Rightarrow> nat \<Rightarrow> action_headers \<Rightarrow> uuid \<Rightarrow> string \<Rightarrow> apple_tv option \<Rightarrow> response \<times> apple_tv option" where
  "tv_pin_handler to_json now h i pin tv =
     (case tv of
        None \<Rightarrow> (tv_disabled, None)
      | Some v \<Rightarrow>
          if \<not> action_allowed h then (action_required, tv)
          else if \<not> valid_pin (trim pin) then (message 400 ''The PIN must be six digits.'', tv)
          else tv_reply to_json 202 (tv_submit_pin now i (trim pin) v))"

definition tv_cancel_handler :: "action_headers \<Rightarrow> uuid \<Rightarrow> apple_tv option \<Rightarrow> response \<times> apple_tv option" where
  "tv_cancel_handler h i tv =
     (case tv of
        None \<Rightarrow> (tv_disabled, None)
      | Some v \<Rightarrow>
          if \<not> action_allowed h then (action_required, tv)
          else (case tv_cancel i v of
            (Inr _, v') \<Rightarrow> (Response 204 None, Some v') | (Inl e, v') \<Rightarrow> (tv_pairing_error e, Some v')))"

definition tv_forget_handler ::
  "io_faults \<Rightarrow> path \<Rightarrow> action_headers \<Rightarrow> apple_tv option \<Rightarrow> fs \<Rightarrow> 'i option \<Rightarrow> response \<times> fs \<times> 'i option" where
  "tv_forget_handler fault dir h tv fs cache =
     (if tv = None then (tv_disabled, fs, cache)
      else if \<not> action_allowed h then (action_required, fs, cache)
      else case forget_pairing fault dir fs cache of
        (Inr _, fs', cache') \<Rightarrow> (Response 204 None, fs', cache')
      | (Inl _, fs', cache') \<Rightarrow> (message 500 ''The Apple TV pairing could not be removed.'', fs', cache'))"

end
