(* ===== verification/AppleTvContract.thy ===== *)
theory AppleTvContract
  imports AppleTv
begin

text \<open>
  What pairing an Apple TV guarantees: the invariant of its sessions and tasks, the stability of a
  finished session, and the single delivery of the PIN.
\<close>

section \<open>Transitions\<close>

inductive tv_step :: "apple_tv \<Rightarrow> apple_tv \<Rightarrow> bool" where
  tv_discovered: "tv_step v (v\<lparr>tv_targets := targets\<rparr>)"
| tv_started: "tv_start_session now i target v = (r, v') \<Longrightarrow> i \<notin> tt_id ` set (tv_tasks v) \<Longrightarrow> tv_step v v'"
| tv_polled: "tv_status now i v = (r, v') \<Longrightarrow> tv_step v v'"
| tv_answered: "tv_submit_pin now i pin v = (r, v') \<Longrightarrow> tv_step v v'"
| tv_cancelled: "tv_cancel i v = (r, v') \<Longrightarrow> tv_step v v'"
| tv_tasked: "tv_task_step i ev v = Some v' \<Longrightarrow> tv_step v v'"

inductive_cases tv_stepE: "tv_step v v'"

definition tv_live :: "tv_task \<Rightarrow> bool" where
  "tv_live t \<longleftrightarrow> \<not> tt_aborted t \<and> tt_stage t \<noteq> TvOver"

section \<open>The invariant\<close>

definition tv_session_ok :: "tv_session \<Rightarrow> bool" where
  "tv_session_ok s \<longleftrightarrow> (ts_failure_code s \<noteq> None \<longleftrightarrow> ts_phase s = TvFailed)
     \<and> (ts_verified s \<longrightarrow> ts_phase s = TvReady)
     \<and> (ts_phase s = TvFailed \<or> ts_phase s = TvCancelled \<or> ts_phase s = TvExpired \<longrightarrow> \<not> ts_pin s)"

text \<open>The tasks that can still act are those of the session, as long as it is not finished.\<close>

definition tv_tasks_ok :: "tv_session \<Rightarrow> tv_task list \<Rightarrow> bool" where
  "tv_tasks_ok s ts \<longleftrightarrow> (\<forall>t \<in> set ts. tv_live t \<longleftrightarrow> tt_id t = ts_id s \<and> \<not> tv_terminal (ts_phase s))
     \<and> ts_id s \<in> tt_id ` set ts"

definition tv_ok :: "apple_tv \<Rightarrow> bool" where
  "tv_ok v \<longleftrightarrow> distinct (map tt_id (tv_tasks v))
     \<and> (case tv_session v of None \<Rightarrow> tv_tasks v = [] | Some s \<Rightarrow> tv_session_ok s \<and> tv_tasks_ok s (tv_tasks v))"

lemma tv_named_SomeD: "tv_named i v = Some s \<Longrightarrow> tv_session v = Some s \<and> ts_id s = i"
  by (auto simp: tv_named_def split: option.splits if_splits)

lemma map_tv_abort [simp]: "map tt_id (tv_abort i ts) = map tt_id ts"
  by (induction ts) (auto simp: tv_abort_def)

lemma tv_tasks_abort:
  "tv_tasks_ok s ts \<Longrightarrow> ts_id s' = ts_id s \<Longrightarrow> tv_terminal (ts_phase s') \<Longrightarrow> tv_tasks_ok s' (tv_abort (ts_id s) ts)"
proof -
  let ?f = "\<lambda>t. if tt_id t = ts_id s then t\<lparr>tt_aborted := True\<rparr> else t"
  have live: "tv_live (?f t) \<longleftrightarrow> tv_live t \<and> tt_id t \<noteq> ts_id s" "tt_id (?f t) = tt_id t" for t
    by (simp_all add: tv_live_def)
  assume "tv_tasks_ok s ts" "ts_id s' = ts_id s" "tv_terminal (ts_phase s')"
  then show ?thesis unfolding tv_tasks_ok_def tv_abort_def set_map image_image ball_simps(9) live by simp
qed

lemma tv_end_ok:
  assumes "tv_ok v" "tv_session v = Some s" "\<not> tv_terminal (ts_phase s)" "ph = TvCancelled \<or> ph = TvExpired"
  shows "tv_ok (tv_end ph s v)"
proof -
  have "tv_terminal ph" using assms(4) by (auto simp: tv_terminal_def)
  with assms tv_tasks_abort [of s "tv_tasks v" "s\<lparr>ts_pin := False, ts_phase := ph\<rparr>"] show ?thesis
    by (auto simp: tv_ok_def tv_end_def tv_session_ok_def tv_terminal_def)
qed

lemma expire_if_due_ok:
  "expire_if_due now s v = (s', v') \<Longrightarrow> tv_ok v \<Longrightarrow> tv_session v = Some s \<Longrightarrow>
     tv_ok v' \<and> tv_session v' = Some s' \<and> ts_id s' = ts_id s \<and> map tt_id (tv_tasks v') = map tt_id (tv_tasks v)"
  by (auto simp: expire_if_due_def tv_end_ok split: if_splits) (simp_all add: tv_end_def)

section \<open>Every operation keeps it\<close>

lemma tv_start_session_cases:
  assumes "tv_start_session now i target v = (r, v')" "tv_ok v"
  obtains "r = Inl TvBusy" "tv_ok v'"
  | v1 where "tv_ok v1" "map tt_id (tv_tasks v1) = map tt_id (tv_tasks v)"
      "case tv_session v1 of None \<Rightarrow> True | Some s \<Rightarrow> tv_terminal (ts_phase s)"
      "r = Inr (new_tv_session i (mt_name target) now)"
      "v' = v1\<lparr>tv_session := Some (new_tv_session i (mt_name target) now), tv_tasks := new_tv_task i # tv_tasks v1\<rparr>"
proof (cases "tv_session v")
  case None
  with assms that(2) [of v] show ?thesis by (simp add: tv_start_session_def Let_def)
next
  case (Some s)
  obtain s' v1 where e: "expire_if_due now s v = (s', v1)" by fastforce
  from expire_if_due_ok [OF e assms(2) Some] have v1: "tv_ok v1" "tv_session v1 = Some s'"
    "map tt_id (tv_tasks v1) = map tt_id (tv_tasks v)" by auto
  show ?thesis
  proof (cases "tv_terminal (ts_phase s')")
    case True
    with assms(1) Some e v1 that(2) [of v1] show ?thesis by (simp add: tv_start_session_def Let_def)
  next
    case False
    with assms(1) Some e v1 that(1) show ?thesis by (simp add: tv_start_session_def)
  qed
qed

lemma tv_start_ok:
  assumes "tv_start_session now i target v = (r, v')" "tv_ok v" "i \<notin> tt_id ` set (tv_tasks v)"
  shows "tv_ok v'"
  using assms(1,2)
proof (cases rule: tv_start_session_cases)
  case (2 v1)
  have i: "i \<notin> tt_id ` set (tv_tasks v1)" using 2(2) assms(3) by (metis list.set_map)
  have dead: "\<not> tv_live t" if "t \<in> set (tv_tasks v1)" for t
    using 2(1,3) that by (auto simp: tv_ok_def tv_tasks_ok_def split: option.splits)
  have "tv_tasks_ok (new_tv_session i (mt_name target) now) (new_tv_task i # tv_tasks v1)"
    using i dead
    by (auto simp: tv_tasks_ok_def new_tv_session_def new_tv_task_def tv_live_def tv_terminal_def image_iff)
  moreover have "distinct (map tt_id (new_tv_task i # tv_tasks v1))"
    using i 2(1) by (simp add: tv_ok_def new_tv_task_def)
  ultimately show ?thesis
    by (simp add: 2(5) tv_ok_def tv_session_ok_def new_tv_session_def)
qed

lemma tv_status_ok: "tv_status now i v = (r, v') \<Longrightarrow> tv_ok v \<Longrightarrow> tv_ok v'"
  by (auto simp: tv_status_def dest!: tv_named_SomeD dest: expire_if_due_ok split: option.splits prod.splits)

lemma tv_cancel_ok: "tv_cancel i v = (r, v') \<Longrightarrow> tv_ok v \<Longrightarrow> tv_ok v'"
  by (auto simp: tv_cancel_def dest!: tv_named_SomeD intro: tv_end_ok split: option.splits if_splits)

lemma tv_tasks_pin:
  "tv_tasks_ok s (map (\<lambda>t. if tt_id t = i then t\<lparr>tt_pin := p\<rparr> else t) ts) \<longleftrightarrow> tv_tasks_ok s ts"
proof -
  let ?f = "\<lambda>t. if tt_id t = i then t\<lparr>tt_pin := p\<rparr> else t"
  have live: "tv_live (?f t) = tv_live t" "tt_id (?f t) = tt_id t" for t by (simp_all add: tv_live_def)
  show ?thesis unfolding tv_tasks_ok_def set_map image_image ball_simps(9) live by simp
qed

lemma map_tv_pin: "map tt_id (map (\<lambda>t. if tt_id t = i then t\<lparr>tt_pin := p\<rparr> else t) ts) = map tt_id ts"
  by (induction ts) auto

lemma tv_submit_cases:
  assumes "tv_submit_pin now i pin v = (r, v')" "tv_ok v"
  obtains e where "r = Inl e" "tv_ok v'"
  | v1 s where "tv_ok v1" "tv_session v1 = Some s" "ts_id s = i" "ts_phase s = TvAwaitingPin" "ts_pin s"
      "tv_receiver_alive i (tv_tasks v1)" "r = Inr (s\<lparr>ts_pin := False, ts_phase := TvVerifying\<rparr>)"
      "v' = v1\<lparr>tv_session := Some (s\<lparr>ts_pin := False, ts_phase := TvVerifying\<rparr>),
         tv_tasks := map (\<lambda>t. if tt_id t = i then t\<lparr>tt_pin := Some pin\<rparr> else t) (tv_tasks v1)\<rparr>"
proof (cases "tv_named i v")
  case None
  with assms that(1) [of TvNotFound] show ?thesis by (simp add: tv_submit_pin_def)
next
  case (Some s0)
  then have s0: "tv_session v = Some s0" "ts_id s0 = i" by (auto dest: tv_named_SomeD)
  obtain s v1 where e: "expire_if_due now s0 v = (s, v1)" by fastforce
  from expire_if_due_ok [OF e assms(2) s0(1)] s0(2) have v1: "tv_ok v1" "tv_session v1 = Some s" "ts_id s = i" by auto
  have dropped: "tv_ok (v1\<lparr>tv_session := Some (s\<lparr>ts_pin := False\<rparr>)\<rparr>)"
    using v1 by (simp add: tv_ok_def tv_session_ok_def tv_tasks_ok_def)
  show ?thesis
    using assms(1) Some e v1 dropped that(1) that(2) [of v1 s]
    by (auto simp: tv_submit_pin_def Let_def split: if_splits)
qed

lemma tv_submit_ok: "tv_submit_pin now i pin v = (r, v') \<Longrightarrow> tv_ok v \<Longrightarrow> tv_ok v'"
proof (erule tv_submit_cases, assumption)
  fix v1 s
  assume v1: "tv_ok v1" "tv_session v1 = Some s" "ts_phase s = TvAwaitingPin"
    and v': "v' = v1\<lparr>tv_session := Some (s\<lparr>ts_pin := False, ts_phase := TvVerifying\<rparr>),
         tv_tasks := map (\<lambda>t. if tt_id t = i then t\<lparr>tt_pin := Some pin\<rparr> else t) (tv_tasks v1)\<rparr>"
  then show "tv_ok v'"
    by (simp add: tv_ok_def tv_session_ok_def tv_tasks_pin map_tv_pin del: map_map)
      (simp add: tv_tasks_ok_def tv_terminal_def)
qed

text \<open>What a round of a task does to the session it belongs to.\<close>

lemma tv_run_cases:
  assumes "tv_run_pairing ev t v = Some (t', v')"
  obtains "tt_id t' = tt_id t" "tt_pin t' = tt_pin t" "tt_aborted t' = tt_aborted t" "tv_tasks v' = tv_tasks v"
    "tt_stage t \<noteq> TvOver"
    "tv_session v' = tv_session v \<or> (\<exists>s s'. tv_session v = Some s \<and> ts_id s = tt_id t \<and> \<not> tv_terminal (ts_phase s)
       \<and> tv_session v' = Some s' \<and> ts_id s' = tt_id t \<and> (tv_session_ok s \<longrightarrow> tv_session_ok s')
       \<and> (tv_terminal (ts_phase s') \<longleftrightarrow> tt_stage t' = TvOver))"
    "tt_stage t' = TvOver \<longrightarrow> (case tv_session v' of None \<Rightarrow> True | Some s \<Rightarrow> ts_id s \<noteq> tt_id t \<or> tv_terminal (ts_phase s))"
proof -
  have "tt_id t' = tt_id t \<and> tt_pin t' = tt_pin t \<and> tt_aborted t' = tt_aborted t \<and> tv_tasks v' = tv_tasks v
    \<and> tt_stage t \<noteq> TvOver"
    using assms
    by (cases ev) (auto simp: tv_set_phase_def tv_ready_def split: if_splits option.splits tv_stage.splits sum.splits)
  moreover have "tv_session v' = tv_session v \<or> (\<exists>s s'. tv_session v = Some s \<and> ts_id s = tt_id t \<and> \<not> tv_terminal (ts_phase s)
       \<and> tv_session v' = Some s' \<and> ts_id s' = tt_id t \<and> (tv_session_ok s \<longrightarrow> tv_session_ok s')
       \<and> (tv_terminal (ts_phase s') \<longleftrightarrow> tt_stage t' = TvOver))"
    using assms
    by (cases ev) (auto simp: tv_set_phase_def tv_ready_def tv_session_ok_def tv_terminal_def dest!: tv_named_SomeD
        split: if_splits option.splits tv_stage.splits sum.splits)
  moreover have "tt_stage t' = TvOver \<longrightarrow> (case tv_session v' of None \<Rightarrow> True | Some s \<Rightarrow> ts_id s \<noteq> tt_id t \<or> tv_terminal (ts_phase s))"
    using assms
    by (cases ev) (auto simp: tv_set_phase_def tv_ready_def tv_named_def tv_terminal_def
        split: if_splits option.splits tv_stage.splits sum.splits)
  ultimately show thesis by (intro that) blast+
qed

lemma tv_task_step_cases:
  assumes "tv_task_step i ev v = Some v'"
  obtains t t' v1 where "t \<in> set (tv_tasks v)" "tt_id t = i" "tv_run_pairing ev t v = Some (t', v1)"
    "v' = v1\<lparr>tv_tasks := map (\<lambda>u. if tt_id u = i
        then t'\<lparr>tt_stage := if tt_aborted t then TvOver else tt_stage t'\<rparr> else u) (tv_tasks v1)\<rparr>"
proof -
  from assms obtain t t' v1 where f: "find (\<lambda>t. tt_id t = i) (tv_tasks v) = Some t"
    and r: "tv_run_pairing ev t v = Some (t', v1)" "v' = v1\<lparr>tv_tasks := map (\<lambda>u. if tt_id u = i
        then t'\<lparr>tt_stage := if tt_aborted t then TvOver else tt_stage t'\<rparr> else u) (tv_tasks v1)\<rparr>"
    by (auto simp: tv_task_step_def bind_eq_Some_conv)
  from f have "t \<in> set (tv_tasks v)" "tt_id t = i" by (auto simp: find_Some_iff)
  from that [OF this r] show thesis .
qed

lemma map_replace_tv: "tt_id w = i \<Longrightarrow> map tt_id (map (\<lambda>u. if tt_id u = i then w else u) us) = map tt_id us"
  by (induction us) auto

lemma tv_tasks_replace:
  assumes ok: "tv_tasks_ok s ts" and w: "tt_id w = i" "t \<in> set ts" "tt_id t = i"
    and s': "ts_id s' = ts_id s"
    and live: "tv_live w \<longleftrightarrow> i = ts_id s' \<and> \<not> tv_terminal (ts_phase s')"
    and others: "ts_id s \<noteq> i \<Longrightarrow> tv_terminal (ts_phase s') = tv_terminal (ts_phase s)"
  shows "tv_tasks_ok s' (map (\<lambda>u. if tt_id u = i then w else u) ts)"
proof -
  let ?f = "\<lambda>u. if tt_id u = i then w else u"
  have ids: "tt_id (?f u) = tt_id u" for u using w(1) by simp
  have "tv_live (?f u) \<longleftrightarrow> tt_id u = ts_id s' \<and> \<not> tv_terminal (ts_phase s')" if "u \<in> set ts" for u
  proof (cases "tt_id u = i")
    case True
    with live show ?thesis by simp
  next
    case False
    with ok that have "tv_live u \<longleftrightarrow> tt_id u = ts_id s \<and> \<not> tv_terminal (ts_phase s)"
      by (simp add: tv_tasks_ok_def)
    with False others s' show ?thesis by auto
  qed
  moreover have "ts_id s' \<in> tt_id ` set ts" using ok s' by (simp add: tv_tasks_ok_def)
  ultimately show ?thesis
    unfolding tv_tasks_ok_def set_map image_image ball_simps(9) ids by blast
qed

lemma tv_task_step_ok:
  assumes step: "tv_task_step i ev v = Some v'" and ok: "tv_ok v"
  shows "tv_ok v'"
  using step
proof (cases rule: tv_task_step_cases)
  case (1 t t' v1)
  define w where "w = t'\<lparr>tt_stage := if tt_aborted t then TvOver else tt_stage t'\<rparr>"
  from 1(3) show ?thesis
  proof (cases rule: tv_run_cases)
    case run: 1
    from ok 1(1) obtain s where s: "tv_session v = Some s" "tv_session_ok s" "tv_tasks_ok s (tv_tasks v)"
      by (auto simp: tv_ok_def split: option.splits)
    have t: "tv_live t \<longleftrightarrow> i = ts_id s \<and> \<not> tv_terminal (ts_phase s)"
      using s(3) 1(1,2) by (simp add: tv_tasks_ok_def)
    obtain s' where s': "tv_session v1 = Some s'" "ts_id s' = ts_id s" "tv_session_ok s'"
      and moved: "s' = s \<or> i = ts_id s \<and> \<not> tv_terminal (ts_phase s)
        \<and> (tv_terminal (ts_phase s') \<longleftrightarrow> tt_stage t' = TvOver)"
      using run(6) s 1(2) by auto
    have w: "tt_id w = i" using run(1) 1(2) by (simp add: w_def)
    have "tv_live w \<longleftrightarrow> i = ts_id s' \<and> \<not> tv_terminal (ts_phase s')"
    proof (cases "tt_aborted t")
      case True
      then have "\<not> tv_live w" "\<not> tv_live t" by (simp_all add: w_def tv_live_def)
      with t moved s'(2) show ?thesis by auto
    next
      case False
      then have "tv_live w \<longleftrightarrow> tt_stage t' \<noteq> TvOver" "tv_live t"
        using run(3,5) by (simp_all add: w_def tv_live_def)
      with t moved s' run(7) 1(2) show ?thesis by auto
    qed
    then have "tv_tasks_ok s' (map (\<lambda>u. if tt_id u = i then w else u) (tv_tasks v))"
      using moved s'(2) by (intro tv_tasks_replace [OF s(3) w 1(1,2)]) auto
    moreover have "v' = v1\<lparr>tv_tasks := map (\<lambda>u. if tt_id u = i then w else u) (tv_tasks v1)\<rparr>"
      using 1(4) unfolding w_def .
    ultimately show ?thesis
      using ok s' run(4) w by (simp add: tv_ok_def map_replace_tv del: map_map)
  qed
qed

lemma tv_discovered_ok: "tv_ok v \<Longrightarrow> tv_ok (v\<lparr>tv_targets := targets\<rparr>)"
  by (simp add: tv_ok_def cong: option.case_cong)

lemma tv_step_ok: "tv_ok v \<Longrightarrow> tv_step v v' \<Longrightarrow> tv_ok v'"
  by (erule tv_stepE)
    (auto intro: tv_start_ok tv_status_ok tv_submit_ok tv_cancel_ok tv_task_step_ok tv_discovered_ok)

lemma new_apple_tv_ok: "tv_ok new_apple_tv"
  by (simp add: new_apple_tv_def tv_ok_def)

interpretation apple_tv: session_invariant tv_step "\<lambda>v. v = new_apple_tv" tv_ok
  by unfold_locales (auto intro: tv_step_ok new_apple_tv_ok)

section \<open>Finished sessions stay\<close>

text \<open>
  How a step may move the session: it keeps its identity, and a finished one stays as it is, or it
  is replaced by a session with an identifier no task had. No task is forgotten.
\<close>

definition tv_moves :: "apple_tv \<Rightarrow> apple_tv \<Rightarrow> bool" where
  "tv_moves v v' \<longleftrightarrow> tt_id ` set (tv_tasks v) \<subseteq> tt_id ` set (tv_tasks v')
     \<and> (\<forall>s. tv_session v = Some s \<longrightarrow> (\<exists>s'. tv_session v' = Some s'
          \<and> (ts_id s' = ts_id s \<and> (tv_terminal (ts_phase s) \<longrightarrow> s' = s) \<or> ts_id s' \<notin> tt_id ` set (tv_tasks v))))"

lemma tv_moves_same: "tv_session v' = tv_session v \<Longrightarrow> map tt_id (tv_tasks v') = map tt_id (tv_tasks v) \<Longrightarrow> tv_moves v v'"
  unfolding tv_moves_def by (metis list.set_map order_refl)

lemma tv_moves_to:
  "tv_session v = Some s \<Longrightarrow> tv_session v' = Some s' \<Longrightarrow> ts_id s' = ts_id s \<Longrightarrow> tv_terminal (ts_phase s) \<longrightarrow> s' = s \<Longrightarrow>
     map tt_id (tv_tasks v') = map tt_id (tv_tasks v) \<Longrightarrow> tv_moves v v'"
  unfolding tv_moves_def by (metis list.set_map option.inject order_refl)

lemma expire_if_due_moves:
  assumes "expire_if_due now s v = (s', v')" "tv_session v = Some s"
  shows "tv_moves v v' \<and> tv_session v' = Some s' \<and> ts_id s' = ts_id s \<and> (tv_terminal (ts_phase s) \<longrightarrow> s' = s)
    \<and> map tt_id (tv_tasks v') = map tt_id (tv_tasks v)"
proof (cases "\<not> tv_terminal (ts_phase s) \<and> ts_expires_at s \<le> now")
  case True
  with assms have e: "s' = s\<lparr>ts_pin := False, ts_phase := TvExpired\<rparr>" "v' = tv_end TvExpired s v"
    by (simp_all add: expire_if_due_def)
  with True assms(2) show ?thesis
    by (auto intro!: tv_moves_to simp: tv_end_def)
next
  case False
  with assms show ?thesis by (auto simp: expire_if_due_def intro: tv_moves_same)
qed

lemma tv_start_moves:
  assumes "tv_start_session now i target v = (r, v')" "i \<notin> tt_id ` set (tv_tasks v)"
  shows "tv_moves v v'"
proof (cases "tv_session v")
  case None
  with assms show ?thesis by (auto simp: tv_start_session_def Let_def tv_moves_def)
next
  case (Some s)
  obtain s' v1 where e: "expire_if_due now s v = (s', v1)" by fastforce
  from expire_if_due_moves [OF e Some] have m: "tv_moves v v1" "map tt_id (tv_tasks v1) = map tt_id (tv_tasks v)" by auto
  then have ids: "tt_id ` set (tv_tasks v1) = tt_id ` set (tv_tasks v)" by (metis list.set_map)
  show ?thesis
  proof (cases "tv_terminal (ts_phase s')")
    case True
    with assms(1) Some e have "v' = v1\<lparr>tv_session := Some (new_tv_session i (mt_name target) now),
        tv_tasks := new_tv_task i # tv_tasks v1\<rparr>"
      by (simp add: tv_start_session_def Let_def)
    with assms(2) ids show ?thesis by (auto simp: tv_moves_def new_tv_session_def)
  next
    case False
    with assms(1) Some e m show ?thesis by (simp add: tv_start_session_def)
  qed
qed

lemma tv_status_moves: "tv_status now i v = (r, v') \<Longrightarrow> tv_moves v v'"
  by (auto simp: tv_status_def intro: tv_moves_same dest!: tv_named_SomeD dest: expire_if_due_moves
      split: option.splits prod.splits)

lemma tv_cancel_moves: "tv_cancel i v = (r, v') \<Longrightarrow> tv_moves v v'"
  by (auto simp: tv_cancel_def tv_end_def intro: tv_moves_same tv_moves_to dest!: tv_named_SomeD
      split: option.splits if_splits)

lemma tv_moves_then:
  assumes "tv_moves v v1" "map tt_id (tv_tasks v2) = map tt_id (tv_tasks v1)"
    and "tv_session v1 = Some s" "\<not> tv_terminal (ts_phase s)" "tv_session v2 = Some s2" "ts_id s2 = ts_id s"
  shows "tv_moves v v2"
proof -
  have "tt_id ` set (tv_tasks v2) = tt_id ` set (tv_tasks v1)" using assms(2) by (metis list.set_map)
  with assms show ?thesis unfolding tv_moves_def by force
qed

lemma tv_submit_moves:
  assumes "tv_submit_pin now i pin v = (r, v')"
  shows "tv_moves v v'"
proof (cases "tv_named i v")
  case None
  with assms show ?thesis by (simp add: tv_submit_pin_def tv_moves_same)
next
  case (Some s0)
  then have s0: "tv_session v = Some s0" "ts_id s0 = i" by (auto dest: tv_named_SomeD)
  obtain s v1 where e: "expire_if_due now s0 v = (s, v1)" by fastforce
  from expire_if_due_moves [OF e s0(1)] have m: "tv_moves v v1" "tv_session v1 = Some s" by auto
  have w: "ts_phase s = TvAwaitingPin \<Longrightarrow> \<not> tv_terminal (ts_phase s)" by (simp add: tv_terminal_def)
  show ?thesis
    using assms Some e m w
    by (auto simp: tv_submit_pin_def Let_def map_tv_pin simp del: map_map split: if_splits
        intro: tv_moves_then [OF m(1) _ m(2)])
qed

lemma tv_task_moves: "tv_task_step i ev v = Some v' \<Longrightarrow> tv_moves v v'"
proof (erule tv_task_step_cases)
  fix t t' v1
  assume t: "tt_id t = i" and run: "tv_run_pairing ev t v = Some (t', v1)"
    and v': "v' = v1\<lparr>tv_tasks := map (\<lambda>u. if tt_id u = i
        then t'\<lparr>tt_stage := if tt_aborted t then TvOver else tt_stage t'\<rparr> else u) (tv_tasks v1)\<rparr>"
  from run show "tv_moves v v'"
  proof (cases rule: tv_run_cases)
    case 1
    have ids: "map tt_id (tv_tasks v') = map tt_id (tv_tasks v)"
      using 1(1,4) t by (simp add: v' map_replace_tv del: map_map)
    have "tv_session v' = tv_session v1" by (simp add: v')
    with 1(6) show ?thesis
      by (elim disjE exE conjE) (auto intro: tv_moves_same tv_moves_to ids)
  qed
qed

lemma tv_step_moves: "tv_step v v' \<Longrightarrow> tv_moves v v'"
  by (erule tv_stepE)
    (auto intro: tv_start_moves tv_status_moves tv_submit_moves tv_cancel_moves tv_task_moves tv_moves_same)

text \<open>A session that is gone does not come back, as its identifier stays in use.\<close>

definition tv_kept :: "tv_session \<Rightarrow> apple_tv \<Rightarrow> bool" where
  "tv_kept s v \<longleftrightarrow> ts_id s \<in> tt_id ` set (tv_tasks v)
     \<and> (tv_session v = Some s \<or> (\<exists>s'. tv_session v = Some s' \<and> ts_id s' \<noteq> ts_id s))"

lemma tv_step_kept: "tv_step v v' \<Longrightarrow> tv_terminal (ts_phase s) \<Longrightarrow> tv_kept s v \<Longrightarrow> tv_kept s v'"
proof -
  assume m: "tv_step v v'" and fin: "tv_terminal (ts_phase s)" and k: "tv_kept s v"
  from tv_step_moves [OF m] have ids: "tt_id ` set (tv_tasks v) \<subseteq> tt_id ` set (tv_tasks v')"
    and to: "\<And>u. tv_session v = Some u \<Longrightarrow> \<exists>u'. tv_session v' = Some u'
       \<and> (ts_id u' = ts_id u \<and> (tv_terminal (ts_phase u) \<longrightarrow> u' = u) \<or> ts_id u' \<notin> tt_id ` set (tv_tasks v))"
    by (simp_all add: tv_moves_def)
  from k have in_use: "ts_id s \<in> tt_id ` set (tv_tasks v)" by (simp add: tv_kept_def)
  from k obtain u where u: "tv_session v = Some u" "u = s \<or> ts_id u \<noteq> ts_id s" by (auto simp: tv_kept_def)
  from to [OF u(1)] obtain u' where "tv_session v' = Some u'" "u' = s \<or> ts_id u' \<noteq> ts_id s"
    using u(2) fin in_use by metis
  with in_use ids show "tv_kept s v'" by (auto simp: tv_kept_def)
qed

lemma tv_run_kept: "tv_step\<^sup>*\<^sup>* v v' \<Longrightarrow> tv_terminal (ts_phase s) \<Longrightarrow> tv_kept s v \<Longrightarrow> tv_kept s v'"
  by (induction rule: rtranclp_induct) (auto intro: tv_step_kept)

section \<open>The properties\<close>

text \<open>
  C17: An Apple TV pairing always knows where it stands. In every reachable state a session that
  is not finished has exactly one task that can still act, and a finished one none; a failure code
  is shown exactly when it failed, and it counts as verified only when it is ready.
\<close>

theorem apple_tv_sessions_sound:
  assumes "tv_step\<^sup>*\<^sup>* new_apple_tv v" "tv_session v = Some s"
  shows "length (filter tv_live (tv_tasks v)) = (if tv_terminal (ts_phase s) then 0 else 1)
    \<and> (ts_failure_code s \<noteq> None \<longleftrightarrow> ts_phase s = TvFailed)
    \<and> (if ts_verified s then ts_phase s = TvReady else True)"
proof -
  have "tv_ok v" using apple_tv.reachable_inv [OF refl assms(1)] .
  with assms(2) have ok: "tv_session_ok s" "tv_tasks_ok s (tv_tasks v)" "distinct (map tt_id (tv_tasks v))"
    by (auto simp: tv_ok_def)
  have f: "filter tv_live (tv_tasks v) = filter (\<lambda>t. tt_id t = ts_id s \<and> \<not> tv_terminal (ts_phase s)) (tv_tasks v)"
    using ok(2) by (intro filter_cong) (auto simp: tv_tasks_ok_def)
  have one: "length (filter (\<lambda>t. tt_id t = i) ts) = (if i \<in> tt_id ` set ts then 1 else 0)"
    if "distinct (map tt_id ts)" for i ts
    using that by (induction ts) auto
  have "ts_id s \<in> tt_id ` set (tv_tasks v)" using ok(2) by (simp add: tv_tasks_ok_def)
  with f one [OF ok(3), of "ts_id s"] ok(1) show ?thesis by (simp add: tv_session_ok_def)
qed

text \<open>
  A finished Apple TV pairing never changes. Once its session is ready, failed, cancelled or
  expired, polling, answering, cancelling, late rounds of its task and other sessions leave what
  is shown for it alone.
\<close>

theorem finished_apple_tv_stable:
  assumes "tv_step\<^sup>*\<^sup>* new_apple_tv v" "tv_session v = Some s" "tv_terminal (ts_phase s)"
    and "tv_step\<^sup>*\<^sup>* v v'" "tv_session v' = Some s'" "ts_id s' = ts_id s"
  shows "s' = s"
proof -
  have "tv_ok v" using apple_tv.reachable_inv [OF refl assms(1)] .
  with assms(2) have "tv_kept s v" by (auto simp: tv_ok_def tv_tasks_ok_def tv_kept_def)
  with tv_run_kept [OF assms(4,3)] assms(5,6) show ?thesis by (auto simp: tv_kept_def)
qed

text \<open>
  A PIN is delivered once. An accepted PIN is what the pairing task of its session finds in
  the channel, the session shows that it is being verified, and the next submission is refused
  whatever it carries; a refused PIN is never delivered.
\<close>

theorem pin_delivered_once:
  "(case tv_submit_pin now i pin v of
      (Inr s, v') \<Rightarrow> ts_id s = i \<and> ts_phase s = TvVerifying \<and> tv_session v' = Some s
        \<and> map tt_pin (filter (\<lambda>t. tt_id t = i) (tv_tasks v')) =
            map (\<lambda>_. Some pin) (filter (\<lambda>t. tt_id t = i) (tv_tasks v))
        \<and> (case tv_submit_pin now' i pin' v' of (Inl e, v'') \<Rightarrow> e = TvNotAwaitingPin | (Inr _, _) \<Rightarrow> False)
    | (Inl e, v') \<Rightarrow> map tt_pin (tv_tasks v') = map tt_pin (tv_tasks v))"
proof -
  have ab: "map tt_pin (tv_abort j ts) = map tt_pin ts" for j ts
    by (induction ts) (auto simp: tv_abort_def)
  have pins: "map tt_pin (filter (\<lambda>t. tt_id t = i) (map (\<lambda>t. if tt_id t = i then t\<lparr>tt_pin := Some pin\<rparr> else t) ts)) =
      map (\<lambda>_. Some pin) (filter (\<lambda>t. tt_id t = i) ts)" for ts
    by (induction ts) auto
  have nodue: "expire_if_due now s v = (s, v)" if "expire_if_due now s v = (s', v')" "ts_phase s' = TvAwaitingPin" for s s' v'
    using that by (auto simp: expire_if_due_def split: if_splits)
  show ?thesis
  proof (cases "tv_named i v")
    case (Some s)
    obtain s' v1 where e: "expire_if_due now s v = (s', v1)" by fastforce
    have s: "tv_session v = Some s" "ts_id s = i" using Some by (auto dest: tv_named_SomeD)
    show ?thesis
    proof (cases "ts_phase s' = TvAwaitingPin \<and> ts_pin s'")
      case False
      with Some e show ?thesis
        by (auto simp: tv_submit_pin_def expire_if_due_def tv_end_def ab split: if_splits)
    next
      case True
      with nodue [OF e] e have "s' = s" "v1 = v" by auto
      with True Some e s pins show ?thesis
        by (auto simp: tv_submit_pin_def tv_named_def Let_def expire_if_due_def tv_end_def)
    qed
  qed (simp add: tv_submit_pin_def)
qed

section \<open>A pairing that fails\<close>

definition demo_target :: manual_target where
  "demo_target = \<lparr>mt_identifier = ''a'', mt_name = ''TV'', mt_model = None, mt_addresses = [V4 0xC0A80002], mt_port = 1\<rparr>"

definition demo_tv_started :: apple_tv where
  "demo_tv_started = \<lparr>tv_targets = [], tv_session = Some (new_tv_session 1 ''TV'' 100), tv_tasks = [new_tv_task 1]\<rparr>"

definition demo_tv_cancelled :: apple_tv where
  "demo_tv_cancelled = tv_end TvCancelled (new_tv_session 1 ''TV'' 100) demo_tv_started"

lemma demo_tv_reachable: "tv_step\<^sup>*\<^sup>* new_apple_tv demo_tv_started" "tv_step demo_tv_started demo_tv_cancelled"
proof -
  have "tv_start_session 100 1 demo_target new_apple_tv = (Inr (new_tv_session 1 ''TV'' 100), demo_tv_started)"
    by (simp add: tv_start_session_def new_apple_tv_def demo_target_def demo_tv_started_def Let_def)
  then have "tv_step new_apple_tv demo_tv_started" by (rule tv_started) (simp add: new_apple_tv_def)
  then show "tv_step\<^sup>*\<^sup>* new_apple_tv demo_tv_started" by simp
  have "tv_cancel 1 demo_tv_started = (Inr (), demo_tv_cancelled)"
    by (simp add: tv_cancel_def tv_named_def demo_tv_started_def demo_tv_cancelled_def new_tv_session_def tv_terminal_def)
  then show "tv_step demo_tv_started demo_tv_cancelled" by (rule tv_cancelled)
qed

theorem apple_tv_sessions_sound_witness: "length (filter tv_live (tv_tasks demo_tv_started)) = 1"
proof -
  have s: "tv_session demo_tv_started = Some (new_tv_session 1 ''TV'' 100)" by (simp add: demo_tv_started_def)
  from apple_tv_sessions_sound [OF demo_tv_reachable(1) s] show ?thesis
    by (simp add: new_tv_session_def tv_terminal_def)
qed

theorem finished_apple_tv_stable_witness:
  "\<exists>s. tv_session demo_tv_cancelled = Some s \<and> tv_session (snd (tv_status 900 1 demo_tv_cancelled)) = Some s"
proof -
  have s: "tv_session demo_tv_cancelled = Some ((new_tv_session 1 ''TV'' 100)\<lparr>ts_pin := False, ts_phase := TvCancelled\<rparr>)"
    by (simp add: demo_tv_cancelled_def tv_end_def)
  have r: "tv_step\<^sup>*\<^sup>* new_apple_tv demo_tv_cancelled" using demo_tv_reachable by (rule rtranclp.rtrancl_into_rtrancl)
  have step: "tv_step demo_tv_cancelled (snd (tv_status 900 1 demo_tv_cancelled))" by (rule tv_polled [OF surjective_pairing])
  obtain s' where s': "tv_session (snd (tv_status 900 1 demo_tv_cancelled)) = Some s'" "ts_id s' = 1"
    using s by (simp add: tv_status_def tv_named_def expire_if_due_def new_tv_session_def tv_terminal_def)
  have "s' = (new_tv_session 1 ''TV'' 100)\<lparr>ts_pin := False, ts_phase := TvCancelled\<rparr>"
    by (rule finished_apple_tv_stable [OF r s _ r_into_rtranclp [of tv_step, OF step] s'(1)])
      (simp_all add: tv_terminal_def s'(2) new_tv_session_def)
  with s s' show ?thesis by simp
qed

end
