(* ===== verification/UploadPlan.thy ===== *)
theory UploadPlan
  imports RsdInstall "HOL-Library.Multiset" "HOL-Library.List_Lexorder" "HOL-Library.Char_ord"
begin

text \<open>
  The plan of what is uploaded to a device (\<^verbatim>\<open>plan_signed_bundle_until\<close> and its helpers in
  \<^verbatim>\<open>src/wireless_pairing.rs\<close>): a walk over the signed bundle that checks, bounds and hashes
  every entry. The file system answers through \<open>plan_env\<close>; \<open>pl_late n\<close> tells whether the deadline
  has passed at the \<open>n\<close>-th time it is looked at.
\<close>

section \<open>The file system of a plan\<close>

text \<open>\<^verbatim>\<open>Path::join\<close> of a directory and the name of an entry.\<close>

definition joined :: "path \<Rightarrow> path \<Rightarrow> path" where
  "joined dir name = dir @ ''/'' @ name"

datatype upload_failure =
    SourceNotDirectory | SourceSymlink | UnsupportedFileType | NonUnicodePath | UnsafePath
  | TooManyEntries | TooManyBytes | LocalIo | PfTimeout

fun upload_failure_kind :: "upload_failure \<Rightarrow> string" where
  "upload_failure_kind SourceNotDirectory = ''source_not_directory''"
| "upload_failure_kind SourceSymlink = ''source_symlink''"
| "upload_failure_kind UnsupportedFileType = ''unsupported_file_type''"
| "upload_failure_kind NonUnicodePath = ''non_unicode_path''"
| "upload_failure_kind UnsafePath = ''unsafe_path''"
| "upload_failure_kind TooManyEntries = ''entry_limit''"
| "upload_failure_kind TooManyBytes = ''byte_limit''"
| "upload_failure_kind LocalIo = ''local_io''"
| "upload_failure_kind PfTimeout = ''timeout''"

record file_identity =
  fi_volume :: u64
  fi_file :: u64
  fi_version :: u64

text \<open>The Unix identity of a file: device, inode and the modification time mixed into one word.\<close>

definition unix_file_identity :: "u64 \<Rightarrow> u64 \<Rightarrow> u64 \<Rightarrow> u64 \<Rightarrow> file_identity" where
  "unix_file_identity dev ino mtime mtime_nsec =
     \<lparr>fi_volume = dev, fi_file = ino, fi_version = xor (word_rotl 32 mtime) mtime_nsec\<rparr>"

record file_meta =
  fm_kind :: node_kind
  fm_identity :: file_identity

text \<open>The length of a regular file; other kinds are never compared by length.\<close>

definition is_regular :: "file_meta \<Rightarrow> u64 \<Rightarrow> file_identity \<Rightarrow> bool" where
  "is_regular m sz identity \<longleftrightarrow> fm_kind m = KFile sz \<and> fm_identity m = identity"

text \<open>An opened file: its metadata, what its reads return (\<^term>\<open>None\<close> an error), the metadata at the end.\<close>

record opened_file =
  of_meta :: "file_meta option"
  of_reads :: "string option list"
  of_final :: "file_meta option"

text \<open>A directory entry: its name and whether the name is UTF-8.\<close>

record dir_child =
  dc_name :: string
  dc_unicode :: bool

text \<open>
  What the file system answers while a plan is made. It does not change meanwhile, and every
  listing and every file has an end: a file that something appends to faster than the read loop
  consumes it, which the code reads without a bound on the bytes, is outside the model. The
  deadline shows in the answer \<open>pl_late\<close>.
\<close>

record plan_env =
  pl_meta :: "path \<Rightarrow> file_meta option"
  pl_chmod :: "path \<Rightarrow> bool"
  pl_canonical :: "path \<Rightarrow> string list option"
  pl_children :: "path \<Rightarrow> dir_child option list option"
  pl_open :: "path \<Rightarrow> opened_file option"
  pl_sha256 :: "string \<Rightarrow> string"
  pl_late :: "nat \<Rightarrow> bool"

section \<open>Checks\<close>

definition unsafe_component :: "string \<Rightarrow> bool" where
  "unsafe_component c \<longleftrightarrow> c = [] \<or> c = ''.'' \<or> c = ''..'' \<or> CHR ''/'' \<in> set c \<or> CHR 0x5C \<in> set c \<or> CHR 0x00 \<in> set c"

fun safe_parts :: "dir_child list \<Rightarrow> upload_failure + string list" where
  "safe_parts [] = Inr []"
| "safe_parts (c # cs) =
     (if \<not> dc_unicode c then Inl NonUnicodePath
      else if unsafe_component (dc_name c) then Inl UnsafePath
      else map_sum id ((#) (dc_name c)) (safe_parts cs))"

fun join_path :: "string list \<Rightarrow> string" where
  "join_path [] = ''''"
| "join_path [p] = p"
| "join_path (p # ps) = p @ ''/'' @ join_path ps"

definition safe_remote_relative_path :: "dir_child list \<Rightarrow> upload_failure + string" where
  "safe_remote_relative_path components =
     sum_bind (safe_parts components) (\<lambda>parts. if parts = [] then Inl UnsafePath else Inr (join_path parts))"

definition ensure_canonical_descendant :: "plan_env \<Rightarrow> string list \<Rightarrow> path \<Rightarrow> upload_failure + string list" where
  "ensure_canonical_descendant pe root p =
     (case pl_canonical pe p of
        None \<Rightarrow> Inl LocalIo
      | Some c \<Rightarrow> if path_starts_with c root then Inr c else Inl UnsafePath)"

definition FILE_LIMIT :: nat where "FILE_LIMIT = 20000"
definition BYTE_LIMIT :: u64 where "BYTE_LIMIT = 2147483648"

definition validate_upload_bounds :: "nat \<Rightarrow> u64 \<Rightarrow> upload_failure + unit" where
  "validate_upload_bounds entry_count byte_count =
     (if FILE_LIMIT < entry_count then Inl TooManyEntries
      else if BYTE_LIMIT < byte_count then Inl TooManyBytes else Inr ())"

text \<open>The deadline is looked at for the \<open>n\<close>-th time; the count goes on.\<close>

definition ensure_plan_deadline :: "plan_env \<Rightarrow> nat \<Rightarrow> upload_failure + nat" where
  "ensure_plan_deadline pe n = (if pl_late pe n then Inl PfTimeout else Inr (Suc n))"

section \<open>Hashing\<close>

fun read_planned :: "plan_env \<Rightarrow> string option list \<Rightarrow> string \<Rightarrow> nat \<Rightarrow> upload_failure + string \<times> nat" where
  "read_planned pe [] acc n = map_sum id (Pair acc) (ensure_plan_deadline pe n)"
| "read_planned pe (r # rs) acc n =
     sum_bind (ensure_plan_deadline pe n) (\<lambda>n1.
       case r of
         None \<Rightarrow> Inl LocalIo
       | Some chunk \<Rightarrow> if chunk = [] then Inr (acc, n1) else read_planned pe rs (acc @ chunk) n1)"

definition hash_planned_file ::
  "plan_env \<Rightarrow> path \<Rightarrow> u64 \<Rightarrow> file_identity \<Rightarrow> nat \<Rightarrow> upload_failure + string \<times> nat" where
  "hash_planned_file pe p sz identity n =
     sum_bind (ensure_plan_deadline pe n) (\<lambda>n1.
       case pl_open pe p of
         None \<Rightarrow> Inl LocalIo
       | Some f \<Rightarrow>
           (case of_meta f of
              None \<Rightarrow> Inl LocalIo
            | Some m \<Rightarrow>
                if \<not> is_regular m sz identity then Inl LocalIo
                else sum_bind (read_planned pe (of_reads f) [] n1) (\<lambda>(content, n2).
                  sum_bind (ensure_plan_deadline pe n2) (\<lambda>n3.
                    case of_final f of
                      None \<Rightarrow> Inl LocalIo
                    | Some m' \<Rightarrow>
                        if \<not> is_regular m' sz identity then Inl LocalIo
                        else Inr (pl_sha256 pe content, n3)))))"

section \<open>The walk\<close>

datatype entry_kind = PlanDir file_identity | PlanFile u64 file_identity string

record upload_entry =
  ue_local_path :: path
  ue_remote_path :: string
  ue_kind :: entry_kind

record upload_plan =
  up_canonical_root :: "string list"
  up_entries :: "upload_entry list"
  up_byte_count :: u64

text \<open>
  The state of the walk: the entries so far, their bytes, the directories to visit (each with its
  components below the root) and the count of looks at the deadline.
\<close>

type_synonym walk_state = "upload_entry list \<times> u64 \<times> (path \<times> dir_child list) list \<times> nat"

definition plan_file ::
  "plan_env \<Rightarrow> path \<Rightarrow> u64 \<Rightarrow> file_meta \<Rightarrow> nat \<Rightarrow> u64 \<Rightarrow> nat \<Rightarrow> upload_failure + entry_kind \<times> u64 \<times> nat" where
  "plan_file pe p sz m entries bytes n =
     (if \<not> pl_chmod pe p then Inl LocalIo
      else case checked_add_u64 bytes sz of
        None \<Rightarrow> Inl TooManyBytes
      | Some bytes' \<Rightarrow>
          sum_bind (validate_upload_bounds entries bytes') (\<lambda>_.
          sum_bind (hash_planned_file pe p sz (fm_identity m) n) (\<lambda>(digest, n').
          Inr (PlanFile sz (fm_identity m) digest, bytes', n'))))"

definition plan_kind ::
  "plan_env \<Rightarrow> path \<Rightarrow> file_meta \<Rightarrow> nat \<Rightarrow> u64 \<Rightarrow> nat \<Rightarrow> upload_failure + entry_kind \<times> u64 \<times> nat" where
  "plan_kind pe p m entries bytes n =
     (case fm_kind m of
        KDir \<Rightarrow> if pl_chmod pe p then Inr (PlanDir (fm_identity m), bytes, n) else Inl LocalIo
      | KFile sz \<Rightarrow> plan_file pe p sz m entries bytes n
      | _ \<Rightarrow> Inl UnsupportedFileType)"

text \<open>One entry whose metadata is known, with its place below the root.\<close>

definition plan_entry ::
  "plan_env \<Rightarrow> string list \<Rightarrow> path \<Rightarrow> dir_child list \<Rightarrow> file_meta \<Rightarrow> walk_state \<Rightarrow> upload_failure + walk_state" where
  "plan_entry pe root p rel m st =
     (case st of (entries, bytes, pending, n) \<Rightarrow>
        if fm_kind m = KSymlink then Inl SourceSymlink
        else
          sum_bind (ensure_canonical_descendant pe root p) (\<lambda>_.
          sum_bind (safe_remote_relative_path rel) (\<lambda>remote.
          sum_bind (plan_kind pe p m (length entries) bytes n) (\<lambda>(kind, bytes', n').
          let entries' = entries @ [\<lparr>ue_local_path = p, ue_remote_path = remote, ue_kind = kind\<rparr>];
              pending' = (if fm_kind m = KDir then pending @ [(p, rel)] else pending) in
          sum_bind (validate_upload_bounds (length entries') bytes') (\<lambda>_.
          Inr (entries', bytes', pending', n'))))))"

definition plan_child ::
  "plan_env \<Rightarrow> string list \<Rightarrow> path \<Rightarrow> dir_child list \<Rightarrow> dir_child option \<Rightarrow> walk_state \<Rightarrow> upload_failure + walk_state" where
  "plan_child pe root dir rel child st =
     (case st of (entries, bytes, pending, n) \<Rightarrow>
        sum_bind (ensure_plan_deadline pe n) (\<lambda>n1.
          case child of
            None \<Rightarrow> Inl LocalIo
          | Some c \<Rightarrow>
              (case pl_meta pe (joined dir (dc_name c)) of
                 None \<Rightarrow> Inl LocalIo
               | Some m \<Rightarrow>
                   plan_entry pe root (joined dir (dc_name c)) (rel @ [c]) m (entries, bytes, pending, n1))))"

fun plan_children ::
  "plan_env \<Rightarrow> string list \<Rightarrow> path \<Rightarrow> dir_child list \<Rightarrow> dir_child option list \<Rightarrow> walk_state \<Rightarrow> upload_failure + walk_state" where
  "plan_children pe root dir rel [] st = Inr st"
| "plan_children pe root dir rel (c # cs) st =
     sum_bind (plan_child pe root dir rel c st) (plan_children pe root dir rel cs)"

definition enter_directory ::
  "plan_env \<Rightarrow> string list \<Rightarrow> path \<Rightarrow> nat \<Rightarrow> upload_failure + dir_child option list \<times> nat" where
  "enter_directory pe root dir n =
     sum_bind (ensure_plan_deadline pe n) (\<lambda>n1.
       case pl_meta pe dir of
         None \<Rightarrow> Inl LocalIo
       | Some m \<Rightarrow>
           if fm_kind m \<noteq> KDir then Inl SourceSymlink
           else if \<not> pl_chmod pe dir then Inl LocalIo
           else sum_bind (ensure_canonical_descendant pe root dir) (\<lambda>_.
             map_sum id (\<lambda>cs. (cs, n1)) (ok_or LocalIo (pl_children pe dir))))"

text \<open>Every directory taken from the queue was counted as an entry, and the entries are bounded.\<close>

lemma validate_upload_bounds_Inr [simp]:
  "validate_upload_bounds k b = Inr u \<longleftrightarrow> k \<le> FILE_LIMIT \<and> b \<le> BYTE_LIMIT"
  by (auto simp: validate_upload_bounds_def)

text \<open>How a check that can fail succeeds.\<close>

lemma case_option_eq_Inr:
  "(case x of None \<Rightarrow> Inl e | Some v \<Rightarrow> f v) = Inr y \<longleftrightarrow> (\<exists>v. x = Some v \<and> f v = Inr y)"
  by (cases x) auto

lemma guard_eq_Inr: "(if c then Inl e else x) = Inr y \<longleftrightarrow> \<not> c \<and> x = Inr y"
  by simp

lemmas succeeds = sum_bind_eq_Inr case_option_eq_Inr guard_eq_Inr

lemma plan_entry_InrD:
  assumes "plan_entry pe root p rel m (es, b, q, n) = Inr (es', b', q', n')"
  shows "\<exists>remote kind c. ensure_canonical_descendant pe root p = Inr c
    \<and> safe_remote_relative_path rel = Inr remote
    \<and> plan_kind pe p m (length es) b n = Inr (kind, b', n')
    \<and> es' = es @ [\<lparr>ue_local_path = p, ue_remote_path = remote, ue_kind = kind\<rparr>]
    \<and> length es' \<le> FILE_LIMIT \<and> b' \<le> BYTE_LIMIT
    \<and> q' = (if fm_kind m = KDir then q @ [(p, rel)] else q)"
  using assms by (cases "fm_kind m = KSymlink") (auto simp: plan_entry_def Let_def sum_bind_eq_Inr)

lemma plan_child_InrD:
  assumes "plan_child pe root dir rel child (es, b, q, n) = Inr st"
  shows "\<exists>c m. child = Some c \<and> pl_meta pe (joined dir (dc_name c)) = Some m
    \<and> plan_entry pe root (joined dir (dc_name c)) (rel @ [c]) m (es, b, q, Suc n) = Inr st"
  using assms
  by (auto simp: plan_child_def sum_bind_eq_Inr ensure_plan_deadline_def split: option.splits if_splits)

lemma plan_child_counts:
  assumes "plan_child pe root dir rel child (es, b, q, n) = Inr (es', b', q', n')"
  shows "length es' = Suc (length es) \<and> length es' \<le> FILE_LIMIT \<and> length q' \<le> Suc (length q)"
proof -
  from plan_child_InrD [OF assms] obtain c m where
    "plan_entry pe root (joined dir (dc_name c)) (rel @ [c]) m (es, b, q, Suc n) = Inr (es', b', q', n')" by blast
  from plan_entry_InrD [OF this] show ?thesis by auto
qed

lemma plan_children_counts:
  "plan_children pe root dir rel cs (es, b, q, n) = Inr (es', b', q', n') \<Longrightarrow>
     length es' = length es + length cs \<and> (cs \<noteq> [] \<longrightarrow> length es' \<le> FILE_LIMIT)
     \<and> length q' \<le> length q + length cs"
proof (induction cs arbitrary: es b q n)
  case (Cons c cs)
  then obtain es1 b1 q1 n1 where "plan_child pe root dir rel c (es, b, q, n) = Inr (es1, b1, q1, n1)"
    "plan_children pe root dir rel cs (es1, b1, q1, n1) = Inr (es', b', q', n')"
    by (auto simp: sum_bind_eq_Inr)
  with Cons.IH [of es1 b1 q1 n1] plan_child_counts [of pe root dir rel c es b q n es1 b1 q1 n1]
  show ?case by (cases cs) auto
qed simp

function plan_loop :: "plan_env \<Rightarrow> string list \<Rightarrow> walk_state \<Rightarrow> upload_failure + upload_entry list \<times> u64 \<times> nat" where
  "plan_loop pe root (es, b, [], n) = Inr (es, b, n)"
| "plan_loop pe root (es, b, (dir, rel) # pending, n) =
     (case enter_directory pe root dir n of
        Inl f \<Rightarrow> Inl f
      | Inr (cs, n1) \<Rightarrow>
          (case plan_children pe root dir rel cs (es, b, pending, n1) of
             Inl f \<Rightarrow> Inl f | Inr st \<Rightarrow> plan_loop pe root st))"
  by pat_completeness auto
termination
proof (relation "measure (\<lambda>(pe, root, es, b, q, n). 2 * (FILE_LIMIT - length es) + length q)")
  fix pe root es b dir rel pending n z st cs n1
  assume "(cs, n1) = z" "plan_children pe root dir rel cs (es, b, pending, n1) = Inr st"
  moreover obtain es' b' q' n' where "st = (es', b', q', n')" by (cases st)
  ultimately have "plan_children pe root dir rel cs (es, b, pending, n1) = Inr (es', b', q', n')" by simp
  from plan_children_counts [OF this] \<open>st = (es', b', q', n')\<close>
  show "((pe, root, st), pe, root, es, b, (dir, rel) # pending, n)
      \<in> measure (\<lambda>(pe, root, es, b, q, n). 2 * (FILE_LIMIT - length es) + length q)"
    by (cases cs) auto
qed simp

declare plan_loop.simps [simp del]

definition plan_signed_bundle_until :: "plan_env \<Rightarrow> path \<Rightarrow> upload_failure + upload_plan" where
  "plan_signed_bundle_until pe root =
     sum_bind (ensure_plan_deadline pe 0) (\<lambda>n0.
       case pl_meta pe root of
         None \<Rightarrow> Inl LocalIo
       | Some m \<Rightarrow>
           if fm_kind m = KSymlink then Inl SourceSymlink
           else if fm_kind m \<noteq> KDir then Inl SourceNotDirectory
           else if \<not> pl_chmod pe root then Inl LocalIo
           else (case pl_canonical pe root of
             None \<Rightarrow> Inl LocalIo
           | Some canonical_root \<Rightarrow>
               sum_bind (plan_loop pe canonical_root ([], 0, [(root, [])], n0)) (\<lambda>(es, b, n).
               sum_bind (ensure_plan_deadline pe n) (\<lambda>_.
               Inr \<lparr>up_canonical_root = canonical_root, up_entries = sort_key ue_remote_path es,
                    up_byte_count = b\<rparr>))))"

section \<open>What a plan guarantees\<close>

text \<open>What the reads of a file return up to its end: \<^verbatim>\<open>read\<close> answering zero bytes.\<close>

fun read_content :: "string option list \<Rightarrow> string" where
  "read_content (Some (c # cs) # rs) = (c # cs) @ read_content rs"
| "read_content _ = []"

definition safe_remote :: "string \<Rightarrow> bool" where
  "safe_remote p \<longleftrightarrow> (\<exists>parts. p = join_path parts \<and> parts \<noteq> [] \<and> (\<forall>c \<in> set parts. \<not> unsafe_component c))"

definition kind_checked :: "plan_env \<Rightarrow> path \<Rightarrow> file_meta \<Rightarrow> entry_kind \<Rightarrow> bool" where
  "kind_checked pe p m k \<longleftrightarrow> pl_chmod pe p \<and>
     (case k of
        PlanDir i \<Rightarrow> fm_kind m = KDir \<and> i = fm_identity m
      | PlanFile sz i digest \<Rightarrow> fm_kind m = KFile sz \<and> i = fm_identity m
          \<and> (\<exists>f. pl_open pe p = Some f \<and> of_meta f = Some m \<and> of_final f = Some m
               \<and> digest = pl_sha256 pe (read_content (of_reads f))))"

definition entry_checked :: "plan_env \<Rightarrow> string list \<Rightarrow> upload_entry \<Rightarrow> bool" where
  "entry_checked pe root e \<longleftrightarrow> safe_remote (ue_remote_path e)
     \<and> (\<exists>c. pl_canonical pe (ue_local_path e) = Some c \<and> path_starts_with c root)
     \<and> (\<exists>m. pl_meta pe (ue_local_path e) = Some m \<and> kind_checked pe (ue_local_path e) m (ue_kind e))"

definition entry_bytes :: "upload_entry \<Rightarrow> nat" where
  "entry_bytes e = (case ue_kind e of PlanDir _ \<Rightarrow> 0 | PlanFile sz _ _ \<Rightarrow> unat sz)"

definition dir_entry :: "upload_entry \<Rightarrow> bool" where
  "dir_entry e \<longleftrightarrow> (case ue_kind e of PlanDir _ \<Rightarrow> True | PlanFile _ _ _ \<Rightarrow> False)"

definition entries_ok :: "plan_env \<Rightarrow> string list \<Rightarrow> upload_entry list \<Rightarrow> u64 \<Rightarrow> bool" where
  "entries_ok pe root es b \<longleftrightarrow> length es \<le> FILE_LIMIT \<and> b \<le> BYTE_LIMIT
     \<and> unat b = sum_list (map entry_bytes es) \<and> (\<forall>e \<in> set es. entry_checked pe root e)"

text \<open>All that a directory lists is among the entries.\<close>

definition covered :: "plan_env \<Rightarrow> upload_entry list \<Rightarrow> path \<Rightarrow> bool" where
  "covered pe es d \<longleftrightarrow> (\<exists>cs. pl_children pe d = Some (map Some cs)
     \<and> (\<forall>c \<in> set cs. joined d (dc_name c) \<in> ue_local_path ` set es))"

lemma read_planned_content:
  "read_planned pe rs acc n = Inr (content, n') \<Longrightarrow> content = acc @ read_content rs"
proof (induction rs arbitrary: acc n)
  case (Cons r rs)
  then obtain chunk n1 where r: "r = Some chunk" and step:
    "(if chunk = [] then Inr (acc, n1) else read_planned pe rs (acc @ chunk) n1) = Inr (content, n')"
    by (auto simp: succeeds)
  show ?case
  proof (cases chunk)
    case (Cons c cs)
    with step have "read_planned pe rs (acc @ chunk) n1 = Inr (content, n')" by simp
    from Cons.IH [OF this] show ?thesis by (simp add: r Cons)
  qed (use step r in simp)
qed auto

lemma safe_parts_ok: "safe_parts cs = Inr ps \<Longrightarrow> \<forall>c \<in> set ps. \<not> unsafe_component c"
  by (induction cs arbitrary: ps) (auto split: if_splits)

lemma safe_remote_ok: "safe_remote_relative_path cs = Inr p \<Longrightarrow> safe_remote p"
  by (auto simp: safe_remote_relative_path_def sum_bind_eq_Inr safe_remote_def dest: safe_parts_ok
      split: if_splits)

lemma is_regular_iff: "is_regular m sz i \<longleftrightarrow> m = \<lparr>fm_kind = KFile sz, fm_identity = i\<rparr>"
  by (cases m) (auto simp: is_regular_def)

lemma hash_planned_file_ok:
  assumes "hash_planned_file pe p sz i n = Inr (digest, n')"
  shows "\<exists>f. pl_open pe p = Some f \<and> of_meta f = Some \<lparr>fm_kind = KFile sz, fm_identity = i\<rparr>
    \<and> of_final f = Some \<lparr>fm_kind = KFile sz, fm_identity = i\<rparr>
    \<and> digest = pl_sha256 pe (read_content (of_reads f))"
  using assms
  by (auto simp: hash_planned_file_def succeeds is_regular_iff dest!: read_planned_content)

lemma plan_kind_ok:
  assumes "plan_kind pe p m k b n = Inr (kind, b', n')"
  shows "kind_checked pe p m kind
    \<and> unat b' = unat b + (case kind of PlanDir _ \<Rightarrow> 0 | PlanFile sz _ _ \<Rightarrow> unat sz)
    \<and> (case kind of PlanDir _ \<Rightarrow> True | PlanFile _ _ _ \<Rightarrow> False) = (fm_kind m = KDir)"
proof (cases m)
  case (fields node identity)
  with assms show ?thesis
    by (cases node)
      (auto simp: plan_kind_def plan_file_def succeeds kind_checked_def
        dest!: hash_planned_file_ok checked_add_u64_SomeD split: if_splits)
qed

text \<open>The directories the walk still has to visit.\<close>

definition dir_paths :: "upload_entry list \<Rightarrow> path set" where
  "dir_paths es = ue_local_path ` {e \<in> set es. dir_entry e}"

lemma dir_paths_simps [simp]:
  "dir_paths [] = {}"
  "dir_paths (e # es) = (if dir_entry e then {ue_local_path e} else {}) \<union> dir_paths es"
  "dir_paths (es @ fs) = dir_paths es \<union> dir_paths fs"
  by (auto simp: dir_paths_def)

lemma plan_child_ok:
  assumes "plan_child pe root dir rel child (es, b, q, n) = Inr (es', b', q', n')"
    and ok: "entries_ok pe root es b"
  shows "\<exists>c e. child = Some c \<and> es' = es @ [e] \<and> ue_local_path e = joined dir (dc_name c)
    \<and> entries_ok pe root es' b' \<and> fst ` set q' = fst ` set q \<union> dir_paths [e]"
proof -
  from plan_child_InrD [OF assms(1)] obtain c m where c: "child = Some c"
    and m: "pl_meta pe (joined dir (dc_name c)) = Some m"
    and e: "plan_entry pe root (joined dir (dc_name c)) (rel @ [c]) m (es, b, q, Suc n) = Inr (es', b', q', n')"
    by blast
  from plan_entry_InrD [OF e] obtain remote kind cp where
    cp: "ensure_canonical_descendant pe root (joined dir (dc_name c)) = Inr cp"
    and remote: "safe_remote_relative_path (rel @ [c]) = Inr remote"
    and kind: "plan_kind pe (joined dir (dc_name c)) m (length es) b (Suc n) = Inr (kind, b', n')"
    and es': "es' = es @ [\<lparr>ue_local_path = joined dir (dc_name c), ue_remote_path = remote, ue_kind = kind\<rparr>]"
    and lim: "length es' \<le> FILE_LIMIT" "b' \<le> BYTE_LIMIT"
    and q': "q' = (if fm_kind m = KDir then q @ [(joined dir (dc_name c), rel @ [c])] else q)" by blast
  note k = plan_kind_ok [OF kind]
  from cp have "pl_canonical pe (joined dir (dc_name c)) = Some cp" "path_starts_with cp root"
    by (auto simp: ensure_canonical_descendant_def succeeds split: option.splits if_splits)
  with k remote m have "entry_checked pe root (last es')"
    by (auto simp: es' entry_checked_def dest: safe_remote_ok)
  with ok lim k show ?thesis
    by (auto simp: c es' q' entries_ok_def entry_bytes_def dir_entry_def)
qed

lemma plan_children_ok:
  assumes "plan_children pe root dir rel cs (es, b, q, n) = Inr (es', b', q', n')"
    and "entries_ok pe root es b"
  shows "\<exists>new names. cs = map Some names \<and> es' = es @ new
    \<and> map ue_local_path new = map (\<lambda>c. joined dir (dc_name c)) names
    \<and> entries_ok pe root es' b' \<and> fst ` set q' = fst ` set q \<union> dir_paths new"
  using assms
proof (induction cs arbitrary: es b q n)
  case Nil
  then show ?case by (intro exI [of _ "[]"]) simp
next
  case (Cons child cs)
  then obtain es1 b1 q1 n1 where one: "plan_child pe root dir rel child (es, b, q, n) = Inr (es1, b1, q1, n1)"
    and rest: "plan_children pe root dir rel cs (es1, b1, q1, n1) = Inr (es', b', q', n')"
    by (auto simp: sum_bind_eq_Inr)
  from plan_child_ok [OF one Cons.prems(2)] obtain c e where e: "child = Some c" "es1 = es @ [e]"
    "ue_local_path e = joined dir (dc_name c)" "entries_ok pe root es1 b1"
    "fst ` set q1 = fst ` set q \<union> dir_paths [e]" by blast
  from Cons.IH [OF rest e(4)] obtain new names where "cs = map Some names" "es' = es1 @ new"
    "map ue_local_path new = map (\<lambda>c. joined dir (dc_name c)) names" "entries_ok pe root es' b'"
    "fst ` set q' = fst ` set q1 \<union> dir_paths new" by blast
  with e show ?case
    by (intro exI [of _ "e # new"] exI [of _ "c # names"]) auto
qed

lemma covered_mono: "covered pe es d \<Longrightarrow> set es \<subseteq> set es' \<Longrightarrow> covered pe es' d"
  unfolding covered_def by blast

lemma enter_directory_Inr:
  "enter_directory pe root dir n = Inr (cs, n1) \<Longrightarrow> pl_children pe dir = Some cs"
  by (auto simp: enter_directory_def succeeds)

lemma plan_loop_ok:
  assumes "plan_loop pe root (es, b, q, n) = Inr (es', b', n')" "entries_ok pe root es b"
  shows "\<exists>new. es' = es @ new \<and> entries_ok pe root es' b'
    \<and> (\<forall>d \<in> fst ` set q \<union> dir_paths new. covered pe es' d)"
  using assms
proof (induction pe root "(es, b, q, n)" arbitrary: es b q n rule: plan_loop.induct)
  case (1 pe root es b n)
  then show ?case by (simp add: plan_loop.simps)
next
  case (2 pe root es b dir rel pending n)
  from "2.prems"(1) obtain cs n1 where d: "enter_directory pe root dir n = Inr (cs, n1)"
    by (auto simp: plan_loop.simps split: sum.splits)
  with "2.prems"(1) obtain es1 b1 q1 n2 where
    ch: "plan_children pe root dir rel cs (es, b, pending, n1) = Inr (es1, b1, q1, n2)"
    and rest: "plan_loop pe root (es1, b1, q1, n2) = Inr (es', b', n')"
    by (auto simp: plan_loop.simps split: sum.splits)
  from plan_children_ok [OF ch "2.prems"(2)] obtain new names where new: "cs = map Some names"
    "es1 = es @ new" "map ue_local_path new = map (\<lambda>c. joined dir (dc_name c)) names"
    "entries_ok pe root es1 b1" "fst ` set q1 = fst ` set pending \<union> dir_paths new" by blast
  from "2.hyps" [OF d refl ch rest new(4)] obtain more where more: "es' = es1 @ more"
    "entries_ok pe root es' b'" "\<forall>d \<in> fst ` set q1 \<union> dir_paths more. covered pe es' d" by blast
  have "joined dir (dc_name c) \<in> ue_local_path ` set new" if "c \<in> set names" for c
    using that new(3) by (metis image_eqI image_set list.set_map)
  then have "covered pe es' dir"
    using enter_directory_Inr [OF d] new(1,2) more(1) by (auto simp: covered_def)
  with more new show ?case
    by (intro exI [of _ "new @ more"]) auto
qed

section \<open>Properties\<close>

lemma plan_until_InrD:
  assumes "plan_signed_bundle_until pe root = Inr plan"
  shows "\<exists>es b n n0. plan_loop pe (up_canonical_root plan) ([], 0, [(root, [])], n0) = Inr (es, b, n)
    \<and> pl_canonical pe root = Some (up_canonical_root plan)
    \<and> up_entries plan = sort_key ue_remote_path es \<and> up_byte_count plan = b"
  using assms unfolding plan_signed_bundle_until_def by (clarsimp simp: succeeds) blast

lemma plan_until_ok:
  assumes "plan_signed_bundle_until pe root = Inr plan"
  shows "entries_ok pe (up_canonical_root plan) (up_entries plan) (up_byte_count plan)
    \<and> (\<forall>d \<in> insert root (dir_paths (up_entries plan)). covered pe (up_entries plan) d)"
proof -
  from plan_until_InrD [OF assms] obtain es n n0 where
    loop: "plan_loop pe (up_canonical_root plan) ([], 0, [(root, [])], n0) = Inr (es, up_byte_count plan, n)"
    and es: "up_entries plan = sort_key ue_remote_path es" by blast
  have "entries_ok pe (up_canonical_root plan) [] 0" by (simp add: entries_ok_def)
  from plan_loop_ok [OF loop this] have "entries_ok pe (up_canonical_root plan) es (up_byte_count plan)"
    "\<forall>d \<in> insert root (dir_paths es). covered pe es d" by auto
  moreover have "sum_list (map entry_bytes (sort_key ue_remote_path es)) = sum_list (map entry_bytes es)"
    by (metis mset_map mset_sort sum_mset_sum_list)
  ultimately show ?thesis by (auto simp: es entries_ok_def dir_paths_def covered_def)
qed

definition demo_file :: file_meta where
  "demo_file = \<lparr>fm_kind = KFile 2, fm_identity = unix_file_identity 1 7 100 0\<rparr>"

definition demo_dir :: file_meta where
  "demo_dir = \<lparr>fm_kind = KDir, fm_identity = unix_file_identity 1 6 100 0\<rparr>"

text \<open>A bundle \<^verbatim>\<open>a\<close> with one file \<^verbatim>\<open>x\<close>.\<close>

definition demo_plan_env :: plan_env where
  "demo_plan_env = \<lparr>
     pl_meta = (\<lambda>p. if p = ''a'' then Some demo_dir else if p = ''a/x'' then Some demo_file else None),
     pl_chmod = (\<lambda>_. True),
     pl_canonical = (\<lambda>p. if p = ''a'' then Some [''a''] else Some [''a'', ''x'']),
     pl_children = (\<lambda>p. if p = ''a'' then Some [Some \<lparr>dc_name = ''x'', dc_unicode = True\<rparr>] else None),
     pl_open = (\<lambda>_. Some \<lparr>of_meta = Some demo_file, of_reads = [Some ''hi'', Some ''''], of_final = Some demo_file\<rparr>),
     pl_sha256 = (\<lambda>s. ''#'' @ s), pl_late = (\<lambda>_. False)\<rparr>"

lemma demo_plan_run:
  "plan_signed_bundle_until demo_plan_env ''a'' = Inr \<lparr>up_canonical_root = [''a''],
     up_entries = [\<lparr>ue_local_path = ''a/x'', ue_remote_path = ''x'',
       ue_kind = PlanFile 2 (fm_identity demo_file) ''#hi''\<rparr>], up_byte_count = 2\<rparr>"
  by (simp add: plan_signed_bundle_until_def plan_loop.simps enter_directory_def plan_child_def
      plan_entry_def plan_kind_def plan_file_def hash_planned_file_def is_regular_def
      ensure_plan_deadline_def ensure_canonical_descendant_def path_starts_with_def
      safe_remote_relative_path_def unsafe_component_def validate_upload_bounds_def
      FILE_LIMIT_def BYTE_LIMIT_def checked_add_u64_def joined_def ok_or_def
      demo_plan_env_def demo_dir_def demo_file_def)

text \<open>
  C18: A plan that is accepted is within its limits and complete. It has at most 20000 entries and
  2 GiB, the byte count is the sum of the sizes, the entries are sorted by a safe remote path,
  each lies below the bundle's real directory and is neither a symlink nor a special file, each
  digest is the one of the file's content, and everything the bundle's directories list is in it.
\<close>

theorem upload_plan_sound:
  assumes "plan_signed_bundle_until pe root = Inr plan"
  shows "length (up_entries plan) \<le> FILE_LIMIT \<and> up_byte_count plan \<le> BYTE_LIMIT
    \<and> unat (up_byte_count plan) = sum_list (map entry_bytes (up_entries plan))
    \<and> sorted (map ue_remote_path (up_entries plan))
    \<and> (\<forall>e \<in> set (up_entries plan). entry_checked pe (up_canonical_root plan) e)
    \<and> (\<forall>d \<in> insert root (dir_paths (up_entries plan)). covered pe (up_entries plan) d)"
  using plan_until_ok [OF assms] plan_until_InrD [OF assms] by (auto simp: entries_ok_def)

theorem upload_plan_sound_witness:
  "\<exists>plan. plan_signed_bundle_until demo_plan_env ''a'' = Inr plan
     \<and> length (up_entries plan) = 1 \<and> covered demo_plan_env (up_entries plan) ''a''"
  using upload_plan_sound [OF demo_plan_run] by (simp add: demo_plan_run)

text \<open>
  C29: A bundle nested without end is refused. On a file system where every directory that can be
  listed has a further subdirectory, planning returns an error: the limits on the entries cut the
  walk off, and no prefix of such a tree is accepted as a plan. The listings and file contents of the
  model are finite and do not change during the walk; reading one file that keeps growing is not
  bounded by the code and not covered here.
\<close>

theorem endless_bundle_refused:
  assumes endless: "\<And>d cs. pl_children pe d = Some cs \<Longrightarrow> \<exists>c m. Some c \<in> set cs
    \<and> dc_name c \<noteq> [] \<and> pl_meta pe (joined d (dc_name c)) = Some m \<and> fm_kind m = KDir"
  shows "\<exists>f. plan_signed_bundle_until pe root = Inl f"
proof (cases "plan_signed_bundle_until pe root")
  case (Inr plan)
  let ?es = "up_entries plan" let ?D = "insert root (dir_paths ?es)"
  note ok = plan_until_ok [OF Inr]
  have fin: "finite (length ` ?D)" by (simp add: dir_paths_def)
  then have "Max (length ` ?D) \<in> length ` ?D" by (rule Max_in) simp
  then obtain d where d: "d \<in> ?D" "length d = Max (length ` ?D)" unfolding image_iff by metis
  from ok d(1) obtain cs where cs: "pl_children pe d = Some (map Some cs)"
    "\<forall>c \<in> set cs. joined d (dc_name c) \<in> ue_local_path ` set ?es" unfolding covered_def by blast
  from endless [OF cs(1)] obtain c m where c: "c \<in> set cs" "dc_name c \<noteq> []"
    "pl_meta pe (joined d (dc_name c)) = Some m" "fm_kind m = KDir" by auto
  with cs(2) obtain e where e: "e \<in> set ?es" "ue_local_path e = joined d (dc_name c)" by force
  with ok have "entry_checked pe (up_canonical_root plan) e" by (simp add: entries_ok_def)
  with e c(3,4) have "dir_entry e"
    by (auto simp: entry_checked_def kind_checked_def dir_entry_def split: entry_kind.splits)
  with e have "joined d (dc_name c) \<in> ?D" by (force simp: dir_paths_def)
  with fin d(2) have "length (joined d (dc_name c)) \<le> length d" by (metis Max_ge image_eqI)
  with c(2) show ?thesis by (simp add: joined_def split: if_splits)
qed simp

text \<open>A bundle whose every directory holds another one.\<close>

definition endless_env :: plan_env where
  "endless_env = demo_plan_env\<lparr>pl_meta := (\<lambda>_. Some demo_dir), pl_canonical := (\<lambda>_. Some []),
     pl_children := (\<lambda>_. Some [Some \<lparr>dc_name = ''d'', dc_unicode = True\<rparr>])\<rparr>"

theorem endless_bundle_refused_witness:
  "fm_kind demo_dir = KDir \<and> (\<exists>f. plan_signed_bundle_until endless_env ''a'' = Inl f)"
  using endless_bundle_refused [of endless_env "''a''"] by (simp add: endless_env_def demo_dir_def)

end
