(* ===== verification/Staging.thy ===== *)
theory Staging
  imports UploadPlan
begin

text \<open>
  Staging of a signed bundle on a device (\<^verbatim>\<open>TaskAfcClient\<close>, \<^verbatim>\<open>stage_signed_bundle\<close> and
  \<^verbatim>\<open>clean_exact_task_staging\<close> in \<^verbatim>\<open>src/wireless_pairing.rs\<close>). The device answers each packet
  through \<open>af_answer\<close>, which sees all that was sent before; the client keeps the packets it sent, so
  that what reaches the device can be stated. A deadline that stops staging leaves a prefix of them.
\<close>

section \<open>The file client\<close>

datatype afc_op = GetFileInfo | MakeDir | RemovePathAndContents | FileOpen | AfcWrite | FileClose

record afc_packet =
  pk_magic :: u64
  pk_entire_len :: u64
  pk_header_payload_len :: u64
  pk_packet_num :: u64
  pk_operation :: afc_op
  pk_header_payload :: string
  pk_payload :: string

datatype afc_answer = AfcReply string string | AfcNotFound | AfcFailed | AfcNoAnswer
datatype afc_error = EObjectNotFound | EOther | ETimeout | EUnexpected

text \<open>
  The constants of the protocol library (the magic number, the length of a packet header, the mode
  \<^verbatim>\<open>AfcFopenMode::Wr\<close>) and the device's answers.
\<close>

record afc_env =
  af_magic :: u64
  af_header_len :: u64
  af_wr :: u64
  af_answer :: "afc_packet list \<Rightarrow> afc_packet \<Rightarrow> afc_answer"

record task_afc =
  tc_packet_number :: u64
  tc_timed_out :: bool
  tc_sent :: "afc_packet list"

definition new_afc :: task_afc where
  "new_afc = \<lparr>tc_packet_number = 0, tc_timed_out = False, tc_sent = []\<rparr>"

definition afc_packet_of :: "afc_env \<Rightarrow> task_afc \<Rightarrow> afc_op \<Rightarrow> string \<Rightarrow> string \<Rightarrow> afc_packet" where
  "afc_packet_of e c operation header body =
     (let header_payload_len = af_header_len e + len_u64 header in
      \<lparr>pk_magic = af_magic e, pk_entire_len = header_payload_len + len_u64 body,
       pk_header_payload_len = header_payload_len, pk_packet_num = tc_packet_number c,
       pk_operation = operation, pk_header_payload = header, pk_payload = body\<rparr>)"

fun afc_result :: "afc_answer \<Rightarrow> afc_error + string \<times> string" where
  "afc_result (AfcReply header body) = Inr (header, body)"
| "afc_result AfcNotFound = Inl EObjectNotFound"
| "afc_result AfcFailed = Inl EOther"
| "afc_result AfcNoAnswer = Inl ETimeout"

definition afc_request ::
  "afc_env \<Rightarrow> afc_op \<Rightarrow> string \<Rightarrow> string \<Rightarrow> task_afc \<Rightarrow> (afc_error + string \<times> string) \<times> task_afc" where
  "afc_request e operation header body c =
     (if tc_timed_out c then (Inl ETimeout, c)
      else
        let packet = afc_packet_of e c operation header body;
            answer = af_answer e (tc_sent c) packet in
        (afc_result answer,
         c\<lparr>tc_packet_number := tc_packet_number c + 1, tc_sent := tc_sent c @ [packet],
           tc_timed_out := (answer = AfcNoAnswer)\<rparr>))"

definition path_request ::
  "afc_env \<Rightarrow> afc_op \<Rightarrow> path \<Rightarrow> task_afc \<Rightarrow> (afc_error + string \<times> string) \<times> task_afc" where
  "path_request e operation p c = afc_request e operation p [] c"

definition path_exists :: "afc_env \<Rightarrow> path \<Rightarrow> task_afc \<Rightarrow> (afc_error + bool) \<times> task_afc" where
  "path_exists e p c =
     (case path_request e GetFileInfo p c of
        (Inr _, c') \<Rightarrow> (Inr True, c')
      | (Inl EObjectNotFound, c') \<Rightarrow> (Inr False, c')
      | (Inl err, c') \<Rightarrow> (Inl err, c'))"

text \<open>The fields of a reply in pairs, a last one without a partner left out.\<close>

fun field_pairs :: "string list \<Rightarrow> (string \<times> string) list" where
  "field_pairs (a # b # rest) = (a, b) # field_pairs rest"
| "field_pairs _ = []"

definition says_directory :: "string \<Rightarrow> bool" where
  "says_directory body \<longleftrightarrow>
     (''st_ifmt'', ''S_IFDIR'') \<in> set (field_pairs (filter (\<lambda>f. f \<noteq> []) (split_on CHR 0x00 body)))"

definition is_directory :: "afc_env \<Rightarrow> path \<Rightarrow> task_afc \<Rightarrow> (afc_error + bool) \<times> task_afc" where
  "is_directory e p c = map_prod (map_sum id (\<lambda>(_, body). says_directory body)) id (path_request e GetFileInfo p c)"

definition make_directory :: "afc_env \<Rightarrow> path \<Rightarrow> task_afc \<Rightarrow> (afc_error + unit) \<times> task_afc" where
  "make_directory e p c = map_prod (map_sum id (\<lambda>_. ())) id (path_request e MakeDir p c)"

definition remove_all :: "afc_env \<Rightarrow> path \<Rightarrow> task_afc \<Rightarrow> (afc_error + unit) \<times> task_afc" where
  "remove_all e p c = map_prod (map_sum id (\<lambda>_. ())) id (path_request e RemovePathAndContents p c)"

definition to_le_bytes :: "u64 \<Rightarrow> string" where
  "to_le_bytes w = map (\<lambda>i. char_of (unat (drop_bit (8 * i) w) mod 256)) [0..<8]"

definition from_le_bytes :: "string \<Rightarrow> u64" where
  "from_le_bytes s = of_nat (horner_sum byte_of 256 s)"

definition open_for_write :: "afc_env \<Rightarrow> path \<Rightarrow> task_afc \<Rightarrow> (afc_error + u64) \<times> task_afc" where
  "open_for_write e p c =
     (case afc_request e FileOpen (to_le_bytes (af_wr e) @ p) [] c of
        (Inl err, c') \<Rightarrow> (Inl err, c')
      | (Inr (header, _), c') \<Rightarrow>
          if length header < 8 then (Inl EUnexpected, c') else (Inr (from_le_bytes (take 8 header)), c'))"

definition afc_write :: "afc_env \<Rightarrow> u64 \<Rightarrow> string \<Rightarrow> task_afc \<Rightarrow> (afc_error + unit) \<times> task_afc" where
  "afc_write e fd bytes c =
     map_prod (map_sum id (\<lambda>_. ())) id (afc_request e AfcWrite (to_le_bytes fd) bytes c)"

definition afc_close :: "afc_env \<Rightarrow> u64 \<Rightarrow> task_afc \<Rightarrow> (afc_error + unit) \<times> task_afc" where
  "afc_close e fd c = map_prod (map_sum id (\<lambda>_. ())) id (afc_request e FileClose (to_le_bytes fd) [] c)"

section \<open>The staging area of a task\<close>

record task_staging =
  tg_root :: path
  tg_app :: path

definition STAGING_PREFIX :: string where "STAGING_PREFIX = ''PublicStaging/iphoneloadly-spike-''"

definition new_staging :: "(uuid \<Rightarrow> string) \<Rightarrow> uuid \<Rightarrow> task_staging" where
  "new_staging show_uuid task_id =
     (let root = STAGING_PREFIX @ show_uuid task_id in \<lparr>tg_root = root, tg_app = root @ ''/Signed.app''\<rparr>)"

definition is_exact_task_root :: "(string \<Rightarrow> uuid option) \<Rightarrow> task_staging \<Rightarrow> path \<Rightarrow> bool" where
  "is_exact_task_root parse_uuid staging candidate \<longleftrightarrow>
     candidate = tg_root staging
     \<and> (case strip_prefix STAGING_PREFIX candidate of None \<Rightarrow> False | Some uuid_text \<Rightarrow> parse_uuid uuid_text \<noteq> None)"

definition open_verified_upload_file ::
  "plan_env \<Rightarrow> path \<Rightarrow> string list \<Rightarrow> u64 \<Rightarrow> file_identity \<Rightarrow> string + opened_file" where
  "open_verified_upload_file pe p canonical_root sz identity =
     (case pl_meta pe p of
        None \<Rightarrow> Inl ''source_changed''
      | Some m \<Rightarrow>
          (case ensure_canonical_descendant pe canonical_root p of
             Inl _ \<Rightarrow> Inl ''source_changed''
           | Inr _ \<Rightarrow>
               if \<not> is_regular m sz identity then Inl ''source_changed''
               else (case pl_open pe p of
                       None \<Rightarrow> Inl ''source_changed''
                     | Some f \<Rightarrow>
                         (case of_meta f of
                            None \<Rightarrow> Inl ''source_changed''
                          | Some m' \<Rightarrow> if \<not> is_regular m' sz identity then Inl ''source_changed'' else Inr f))))"

definition upload_progress_percent :: "u64 \<Rightarrow> u64 \<Rightarrow> u8" where
  "upload_progress_percent bytes_sent total_bytes =
     (if total_bytes = 0 then 40
      else 40 + of_nat ((unat (min bytes_sent total_bytes) * 45) div unat total_bytes))"

section \<open>Staging a bundle\<close>

record stage_state =
  sg_client :: task_afc
  sg_bytes_sent :: u64
  sg_last_percent :: u8
  sg_progress :: "u8 list"
  sg_root_created :: bool

type_synonym 'a staged = "(string + 'a) \<times> stage_state"

text \<open>An operation of the client with the failure its error is turned into, and what comes after.\<close>

definition afc_step :: "string \<Rightarrow> (task_afc \<Rightarrow> (afc_error + 'a) \<times> task_afc) \<Rightarrow> stage_state \<Rightarrow> 'a staged" where
  "afc_step kind operation st =
     (case operation (sg_client st) of (r, c) \<Rightarrow> (map_sum (\<lambda>_. kind) id r, st\<lparr>sg_client := c\<rparr>))"

definition stage_bind :: "'a staged \<Rightarrow> ('a \<Rightarrow> stage_state \<Rightarrow> 'b staged) \<Rightarrow> 'b staged" where
  "stage_bind r f = (case r of (Inl kind, st) \<Rightarrow> (Inl kind, st) | (Inr v, st) \<Rightarrow> f v st)"

text \<open>\<^verbatim>\<open>bytes_sent += count\<close> and the call of the progress callback.\<close>

definition count_sent :: "u64 \<Rightarrow> nat \<Rightarrow> stage_state \<Rightarrow> stage_state" where
  "count_sent total_bytes cnt st =
     (let sent = sg_bytes_sent st + of_nat cnt; percent = upload_progress_percent sent total_bytes in
      if sg_last_percent st < percent
      then st\<lparr>sg_bytes_sent := sent, sg_progress := sg_progress st @ [percent], sg_last_percent := percent\<rparr>
      else st\<lparr>sg_bytes_sent := sent\<rparr>)"

fun stage_reads ::
  "afc_env \<Rightarrow> u64 \<Rightarrow> u64 \<Rightarrow> u64 \<Rightarrow> string option list \<Rightarrow> u64 \<Rightarrow> string \<Rightarrow> stage_state \<Rightarrow> (u64 \<times> string) staged" where
  "stage_reads e fd sz total_bytes [] written acc st = (Inr (written, acc), st)"
| "stage_reads e fd sz total_bytes (None # rs) written acc st = (Inl ''source_read'', st)"
| "stage_reads e fd sz total_bytes (Some chunk # rs) written acc st =
     (if chunk = [] then (Inr (written, acc), st)
      else case checked_add_u64 written (len_u64 chunk) of
        None \<Rightarrow> (Inl ''source_changed'', st)
      | Some written' \<Rightarrow>
          if sz < written' then (Inl ''source_changed'', st)
          else stage_bind (afc_step ''staging_file_write'' (afc_write e fd chunk) st) (\<lambda>_ st1.
            stage_reads e fd sz total_bytes rs written' (acc @ chunk) (count_sent total_bytes (length chunk) st1)))"

definition stage_content ::
  "afc_env \<Rightarrow> plan_env \<Rightarrow> u64 \<Rightarrow> u64 \<Rightarrow> u64 \<Rightarrow> file_identity \<Rightarrow> string \<Rightarrow> opened_file \<Rightarrow> stage_state \<Rightarrow> unit staged" where
  "stage_content e pe fd total_bytes sz identity digest f st =
     stage_bind (stage_reads e fd sz total_bytes (of_reads f) 0 [] st) (\<lambda>(written, content) st1.
       (case of_final f of
          None \<Rightarrow> Inl ''source_changed''
        | Some m \<Rightarrow>
            if written \<noteq> sz \<or> \<not> is_regular m sz identity \<or> pl_sha256 pe content \<noteq> digest
            then Inl ''source_changed'' else Inr (), st1))"

definition stage_file ::
  "afc_env \<Rightarrow> plan_env \<Rightarrow> upload_plan \<Rightarrow> path \<Rightarrow> path \<Rightarrow> u64 \<Rightarrow> file_identity \<Rightarrow> string \<Rightarrow> stage_state \<Rightarrow> unit staged" where
  "stage_file e pe plan local remote sz identity digest st =
     (case open_verified_upload_file pe local (up_canonical_root plan) sz identity of
        Inl kind \<Rightarrow> (Inl kind, st)
      | Inr f \<Rightarrow>
          stage_bind (afc_step ''staging_file_open'' (open_for_write e remote) st) (\<lambda>fd st1.
            case stage_content e pe fd (up_byte_count plan) sz identity digest f st1 of
              (write_result, st2) \<Rightarrow>
                (case afc_step ''staging_file_close'' (afc_close e fd) st2 of
                   (close_result, st3) \<Rightarrow>
                     (case write_result of Inl kind \<Rightarrow> (Inl kind, st3) | Inr _ \<Rightarrow> (close_result, st3)))))"

definition stage_directory ::
  "afc_env \<Rightarrow> plan_env \<Rightarrow> upload_plan \<Rightarrow> path \<Rightarrow> path \<Rightarrow> file_identity \<Rightarrow> stage_state \<Rightarrow> unit staged" where
  "stage_directory e pe plan local remote identity st =
     (case pl_meta pe local of
        None \<Rightarrow> (Inl ''source_changed'', st)
      | Some m \<Rightarrow>
          (case ensure_canonical_descendant pe (up_canonical_root plan) local of
             Inl _ \<Rightarrow> (Inl ''source_changed'', st)
           | Inr _ \<Rightarrow>
               if fm_kind m \<noteq> KDir \<or> fm_identity m \<noteq> identity then (Inl ''source_changed'', st)
               else afc_step ''staging_directory_create'' (make_directory e remote) st))"

definition stage_entry ::
  "afc_env \<Rightarrow> plan_env \<Rightarrow> task_staging \<Rightarrow> upload_plan \<Rightarrow> upload_entry \<Rightarrow> stage_state \<Rightarrow> unit staged" where
  "stage_entry e pe staging plan entry st =
     (let remote = tg_app staging @ ''/'' @ ue_remote_path entry in
      case ue_kind entry of
        PlanDir identity \<Rightarrow> stage_directory e pe plan (ue_local_path entry) remote identity st
      | PlanFile sz identity digest \<Rightarrow>
          stage_file e pe plan (ue_local_path entry) remote sz identity digest st)"

fun stage_entries ::
  "afc_env \<Rightarrow> plan_env \<Rightarrow> task_staging \<Rightarrow> upload_plan \<Rightarrow> upload_entry list \<Rightarrow> stage_state \<Rightarrow> unit staged" where
  "stage_entries e pe staging plan [] st = (Inr (), st)"
| "stage_entries e pe staging plan (x # xs) st =
     stage_bind (stage_entry e pe staging plan x st) (\<lambda>_. stage_entries e pe staging plan xs)"

definition start_stage :: "task_afc \<Rightarrow> stage_state" where
  "start_stage c = \<lparr>sg_client = c, sg_bytes_sent = 0, sg_last_percent = 40, sg_progress = [40],
     sg_root_created = False\<rparr>"

definition stage_signed_bundle ::
  "afc_env \<Rightarrow> plan_env \<Rightarrow> task_staging \<Rightarrow> upload_plan \<Rightarrow> task_afc \<Rightarrow> unit staged" where
  "stage_signed_bundle e pe staging plan c =
     stage_bind (afc_step ''public_staging_query'' (is_directory e ''PublicStaging'') (start_stage c)) (\<lambda>public st1.
     if \<not> public then (Inl ''public_staging_invalid'', st1)
     else
     stage_bind (afc_step ''staging_precheck'' (path_exists e (tg_root staging)) st1) (\<lambda>exists st2.
     if exists then (Inl ''staging_root_exists'', st2)
     else
     stage_bind (afc_step ''staging_root_create'' (make_directory e (tg_root staging))
         (st2\<lparr>sg_root_created := True\<rparr>)) (\<lambda>_ st3.
     stage_bind (afc_step ''staging_app_create'' (make_directory e (tg_app staging)) st3) (\<lambda>_ st4.
     stage_bind (stage_entries e pe staging plan (up_entries plan) st4) (\<lambda>_ st5.
     (Inr (), st5\<lparr>sg_progress := sg_progress st5 @ [85]\<rparr>))))))"

text \<open>
  \<^verbatim>\<open>clean_exact_task_staging\<close>, over its own client: \<open>client\<close> is what opening it gave, with the
  deadline over both.
\<close>

definition clean_exact_task_staging ::
  "afc_env \<Rightarrow> (string \<Rightarrow> uuid option) \<Rightarrow> task_afc option \<Rightarrow> task_staging \<Rightarrow> bool \<Rightarrow> staging_cleanup \<times> afc_packet list" where
  "clean_exact_task_staging e parse_uuid client staging root_created =
     (if \<not> root_created then (StNotNeeded, [])
      else if \<not> is_exact_task_root parse_uuid staging (tg_root staging) then (StFailed, [])
      else case client of
        None \<Rightarrow> (StFailed, [])
      | Some c \<Rightarrow>
          (case remove_all e (tg_root staging) c of
             (Inr _, c') \<Rightarrow> (StSucceeded, tc_sent c')
           | (Inl EObjectNotFound, c') \<Rightarrow> (StSucceeded, tc_sent c')
           | (Inl _, c') \<Rightarrow> (StFailed, tc_sent c')))"

end
