(* ===== verification/StagingContract.thy ===== *)
theory StagingContract
  imports Staging
begin

text \<open>
  What staging guarantees. \<open>staging_invariant\<close> is the interface between staging and the file client:
  whatever every allowed request and every count of bytes preserves holds at the end of staging,
  wherever it stops. It is interpreted for the sequence of packets, for the paths that are named and
  for the reported progress.
\<close>

section \<open>Invariants of staging\<close>

text \<open>The requests staging makes.\<close>

definition staging_requests ::
  "(afc_op \<Rightarrow> string \<Rightarrow> string \<Rightarrow> bool) \<Rightarrow> afc_env \<Rightarrow> task_staging \<Rightarrow> upload_entry list \<Rightarrow> bool" where
  "staging_requests allowed e staging es \<longleftrightarrow>
     allowed GetFileInfo ''PublicStaging'' [] \<and> allowed GetFileInfo (tg_root staging) []
     \<and> allowed MakeDir (tg_root staging) [] \<and> allowed MakeDir (tg_app staging) []
     \<and> (\<forall>x \<in> set es. allowed MakeDir (tg_app staging @ ''/'' @ ue_remote_path x) []
          \<and> allowed FileOpen (to_le_bytes (af_wr e) @ tg_app staging @ ''/'' @ ue_remote_path x) [])
     \<and> (\<forall>fd bytes. allowed AfcWrite fd bytes) \<and> (\<forall>fd. allowed FileClose fd [])"

locale staging_invariant =
  fixes e :: afc_env
    and allowed :: "afc_op \<Rightarrow> string \<Rightarrow> string \<Rightarrow> bool"
    and good :: "stage_state \<Rightarrow> bool"
  assumes request_keeps: "good st \<Longrightarrow> allowed operation header body \<Longrightarrow>
      good (st\<lparr>sg_client := snd (afc_request e operation header body (sg_client st))\<rparr>)"
    and count_keeps: "good st \<Longrightarrow> good (count_sent total_bytes n st)"
    and created_keeps: "good st \<Longrightarrow> good (st\<lparr>sg_root_created := True\<rparr>)"
begin

lemma bind_keeps:
  "good (snd r) \<Longrightarrow> (\<And>v st. r = (Inr v, st) \<Longrightarrow> good st \<Longrightarrow> good (snd (f v st))) \<Longrightarrow>
     good (snd (stage_bind r f))"
  by (cases r) (auto simp: stage_bind_def split: sum.splits)

lemma step_keeps:
  "good st \<Longrightarrow> allowed operation header body \<Longrightarrow>
     (\<And>c. snd (act c) = snd (afc_request e operation header body c)) \<Longrightarrow>
     good (snd (afc_step kind act st))"
  using request_keeps [of st operation header body]
  by (simp add: afc_step_def split: prod.splits) (metis snd_conv)

lemma open_snd: "snd (open_for_write e p c) = snd (afc_request e FileOpen (to_le_bytes (af_wr e) @ p) [] c)"
  by (auto simp: open_for_write_def split: prod.splits sum.splits)

lemma exists_snd: "snd (path_exists e p c) = snd (afc_request e GetFileInfo p [] c)"
  by (auto simp: path_exists_def path_request_def split: prod.splits sum.splits afc_error.splits)

lemma reads_keep:
  "good st \<Longrightarrow> (\<And>bytes. allowed AfcWrite (to_le_bytes fd) bytes) \<Longrightarrow>
     good (snd (stage_reads e fd sz total_bytes rs written acc st))"
proof (induction rs arbitrary: written acc st)
  case (Cons r rs)
  show ?case
  proof (cases r)
    case (Some chunk)
    have "good (snd (afc_step ''staging_file_write'' (afc_write e fd chunk) st))"
      by (rule step_keeps [OF Cons.prems(1) Cons.prems(2)]) (simp add: afc_write_def)
    then show ?thesis
      using Cons.prems(1)
      by (auto simp: Some split: option.splits intro!: bind_keeps Cons.IH Cons.prems(2) count_keeps)
  qed (simp add: Cons.prems)
qed simp

lemma content_keeps:
  "good st \<Longrightarrow> (\<And>bytes. allowed AfcWrite (to_le_bytes fd) bytes) \<Longrightarrow>
     good (snd (stage_content e pe fd total_bytes sz identity digest f st))"
  unfolding stage_content_def by (rule bind_keeps) (auto intro: reads_keep)

lemma entry_keeps:
  assumes "good st" "staging_requests allowed e staging es" "x \<in> set es"
  shows "good (snd (stage_entry e pe staging plan x st))"
proof -
  let ?remote = "tg_app staging @ ''/'' @ ue_remote_path x"
  from assms(2,3) have ok: "allowed MakeDir ?remote []" "allowed FileOpen (to_le_bytes (af_wr e) @ ?remote) []"
    "\<And>fd bytes. allowed AfcWrite fd bytes" "\<And>fd. allowed FileClose fd []"
    by (auto simp: staging_requests_def)
  show ?thesis
  proof (cases "ue_kind x")
    case (PlanDir identity)
    have "good (snd (afc_step ''staging_directory_create'' (make_directory e ?remote) st))"
      by (rule step_keeps [OF assms(1) ok(1)]) (simp add: make_directory_def path_request_def)
    with assms(1) show ?thesis
      by (auto simp: stage_entry_def PlanDir stage_directory_def Let_def split: option.splits sum.splits)
  next
    case (PlanFile sz identity digest)
    have close: "good (snd (afc_step ''staging_file_close'' (afc_close e fd) st'))" if "good st'" for fd st'
      by (rule step_keeps [OF that ok(4)]) (simp add: afc_close_def)
    have "good (snd (afc_step ''staging_file_open'' (open_for_write e ?remote) st))"
      by (rule step_keeps [OF assms(1) ok(2)]) (rule open_snd)
    then have "good (snd (stage_bind (afc_step ''staging_file_open'' (open_for_write e ?remote) st) (\<lambda>fd st1.
        case stage_content e pe fd (up_byte_count plan) sz identity digest f st1 of
          (write_result, st2) \<Rightarrow>
            (case afc_step ''staging_file_close'' (afc_close e fd) st2 of
               (close_result, st3) \<Rightarrow>
                 (case write_result of Inl kind \<Rightarrow> (Inl kind, st3) | Inr _ \<Rightarrow> (close_result, st3))))))" for f
    proof (rule bind_keeps)
      fix fd st1 assume g: "good st1"
      from close [OF content_keeps [OF g ok(3), of pe fd "up_byte_count plan" sz identity digest f]]
      show "good (snd (case stage_content e pe fd (up_byte_count plan) sz identity digest f st1 of
          (write_result, st2) \<Rightarrow>
            (case afc_step ''staging_file_close'' (afc_close e fd) st2 of
               (close_result, st3) \<Rightarrow>
                 (case write_result of Inl kind \<Rightarrow> (Inl kind, st3) | Inr _ \<Rightarrow> (close_result, st3)))))"
        by (auto split: prod.splits sum.splits) (metis snd_conv)+
    qed
    with assms(1) show ?thesis
      by (simp add: stage_entry_def PlanFile stage_file_def Let_def split: sum.splits)
  qed
qed

lemma entries_keep:
  "good st \<Longrightarrow> staging_requests allowed e staging es \<Longrightarrow> set xs \<subseteq> set es \<Longrightarrow>
     good (snd (stage_entries e pe staging plan xs st))"
  by (induction xs arbitrary: st) (auto intro!: bind_keeps entry_keeps)

text \<open>Staging ends in a good state, or in one with the last report of progress added.\<close>

lemma bundle_keeps:
  assumes "good (start_stage c)" "staging_requests allowed e staging (up_entries plan)"
  shows "\<exists>st. good st \<and> (case stage_signed_bundle e pe staging plan c of
      (Inl kind, st') \<Rightarrow> st' = st | (Inr _, st') \<Rightarrow> st' = st\<lparr>sg_progress := sg_progress st @ [85]\<rparr>)"
proof -
  let ?P = "\<lambda>r. \<exists>st. good st \<and> (case r of (Inl (kind :: string), st') \<Rightarrow> st' = st
      | (Inr (_ :: unit), st') \<Rightarrow> st' = st\<lparr>sg_progress := sg_progress st @ [85]\<rparr>)"
  have bind: "?P (stage_bind r f)" if "good (snd r)" "\<And>v st. good st \<Longrightarrow> ?P (f v st)" for r :: "'x staged" and f
  proof (cases r)
    case (Pair a st)
    with that show ?thesis by (cases a) (auto simp: stage_bind_def)
  qed
  from assms(2) have ok: "allowed GetFileInfo ''PublicStaging'' []" "allowed GetFileInfo (tg_root staging) []"
    "allowed MakeDir (tg_root staging) []" "allowed MakeDir (tg_app staging) []"
    by (simp_all add: staging_requests_def)
  have 1: "good (snd (afc_step k (is_directory e ''PublicStaging'') st))" if "good st" for k st
    by (rule step_keeps [OF that ok(1)]) (simp add: is_directory_def path_request_def)
  have 2: "good (snd (afc_step k (path_exists e (tg_root staging)) st))" if "good st" for k st
    by (rule step_keeps [OF that ok(2)]) (rule exists_snd)
  have 3: "good (snd (afc_step k (make_directory e (tg_root staging)) st))" if "good st" for k st
    by (rule step_keeps [OF that ok(3)]) (simp add: make_directory_def path_request_def)
  have 4: "good (snd (afc_step k (make_directory e (tg_app staging)) st))" if "good st" for k st
    by (rule step_keeps [OF that ok(4)]) (simp add: make_directory_def path_request_def)
  have fin: "?P (Inr (), st\<lparr>sg_progress := sg_progress st @ [85]\<rparr>)" if "good st" for st
    using that by auto
  show ?thesis
    unfolding stage_signed_bundle_def
    by (intro bind 1 assms(1))
      (auto intro!: bind 2 3 4 created_keeps entries_keep [OF _ assms(2)] fin [simplified])
qed

lemma bundle_state:
  assumes "good (start_stage c)" "staging_requests allowed e staging (up_entries plan)"
    and "stage_signed_bundle e pe staging plan c = (result, st)"
  shows "\<exists>st1. good st1 \<and> st = (case result of Inl _ \<Rightarrow> st1 | Inr _ \<Rightarrow> st1\<lparr>sg_progress := sg_progress st1 @ [85]\<rparr>)"
  using bundle_keeps [OF assms(1,2), of pe] by (cases result) (auto simp: assms(3))

end

section \<open>The sequence of packets\<close>

text \<open>
  Packets are numbered from 0 in the order they are sent, and a packet that is not answered is the
  last one of its client.
\<close>

definition client_sound :: "afc_env \<Rightarrow> task_afc \<Rightarrow> bool" where
  "client_sound e c \<longleftrightarrow>
     tc_packet_number c = of_nat (length (tc_sent c))
     \<and> map pk_packet_num (tc_sent c) = map of_nat [0..<length (tc_sent c)]
     \<and> (\<forall>i < length (tc_sent c). af_answer e (take i (tc_sent c)) (tc_sent c ! i) = AfcNoAnswer \<longrightarrow>
          Suc i = length (tc_sent c) \<and> tc_timed_out c)"

lemma client_sound_new: "client_sound e new_afc"
  by (simp add: client_sound_def new_afc_def)

lemma client_sound_request:
  "client_sound e c \<Longrightarrow> client_sound e (snd (afc_request e operation header body c))"
  by (auto simp: client_sound_def afc_request_def Let_def afc_packet_of_def nth_append less_Suc_eq)

interpretation sequence: staging_invariant e "\<lambda>_ _ _. True" "\<lambda>st. client_sound e (sg_client st)" for e
  by unfold_locales (simp_all add: client_sound_request count_sent_def Let_def)

section \<open>The paths that are named\<close>

definition in_task :: "task_staging \<Rightarrow> path \<Rightarrow> bool" where
  "in_task staging p \<longleftrightarrow> p = tg_root staging
     \<or> (\<exists>parts. parts \<noteq> [] \<and> p = tg_root staging @ ''/'' @ join_path parts \<and> (\<forall>c \<in> set parts. \<not> unsafe_component c))"

definition confined :: "u64 \<Rightarrow> task_staging \<Rightarrow> afc_op \<Rightarrow> string \<Rightarrow> string \<Rightarrow> bool" where
  "confined wr staging operation header body \<longleftrightarrow>
     (case operation of
        GetFileInfo \<Rightarrow> header = ''PublicStaging'' \<or> header = tg_root staging
      | MakeDir \<Rightarrow> in_task staging header
      | FileOpen \<Rightarrow> (\<exists>p. header = to_le_bytes wr @ p \<and> in_task staging p)
      | RemovePathAndContents \<Rightarrow> False
      | AfcWrite \<Rightarrow> True
      | FileClose \<Rightarrow> True)"

definition sent_calls :: "task_afc \<Rightarrow> (afc_op \<times> string \<times> string) list" where
  "sent_calls c = map (\<lambda>k. (pk_operation k, pk_header_payload k, pk_payload k)) (tc_sent c)"

lemma sent_calls_request:
  "sent_calls (snd (afc_request e operation header body c)) =
     (if tc_timed_out c then sent_calls c else sent_calls c @ [(operation, header, body)])"
  by (simp add: sent_calls_def afc_request_def Let_def afc_packet_of_def)

interpretation paths: staging_invariant e "confined (af_wr e) staging"
  "\<lambda>st. \<forall>(operation, header, body) \<in> set (sent_calls (sg_client st)). confined (af_wr e) staging operation header body"
  for e staging
  by unfold_locales (auto simp: sent_calls_request count_sent_def Let_def)

lemma join_path_Cons: "ps \<noteq> [] \<Longrightarrow> join_path (p # ps) = p @ ''/'' @ join_path ps"
  by (cases ps) auto

lemma in_task_app:
  assumes "tg_app staging = tg_root staging @ ''/Signed.app''"
  shows "in_task staging (tg_app staging)"
    and "safe_remote p \<Longrightarrow> in_task staging (tg_app staging @ ''/'' @ p)"
proof -
  have s: "\<not> unsafe_component ''Signed.app''" by (simp add: unsafe_component_def)
  with assms show "in_task staging (tg_app staging)"
    unfolding in_task_def by (intro disjI2 exI [of _ "[''Signed.app'']"]) simp
  assume "safe_remote p"
  then obtain parts where "p = join_path parts" "parts \<noteq> []" "\<forall>c \<in> set parts. \<not> unsafe_component c"
    by (auto simp: safe_remote_def)
  with s assms show "in_task staging (tg_app staging @ ''/'' @ p)"
    unfolding in_task_def by (intro disjI2 exI [of _ "''Signed.app'' # parts"]) (simp add: join_path_Cons)
qed

lemma confined_requests:
  assumes "tg_app staging = tg_root staging @ ''/Signed.app''" "\<forall>x \<in> set es. safe_remote (ue_remote_path x)"
  shows "staging_requests (confined (af_wr e) staging) e staging es"
  using assms in_task_app [OF assms(1)]
  by (auto simp: staging_requests_def confined_def in_task_def)

section \<open>The reported progress\<close>

lemma upload_progress_bounds: "40 \<le> upload_progress_percent b t \<and> upload_progress_percent b t \<le> 85"
proof (cases "t = 0")
  case False
  let ?q = "(unat (min b t) * 45) div unat t"
  from False have t: "0 < unat t" by (simp add: unat_gt_0)
  have "unat (min b t) \<le> unat t" by (simp add: min_def word_le_nat_alt)
  then have "unat (min b t) * 45 \<le> 45 * unat t" by simp
  with t have q: "?q \<le> 45" by (metis div_le_mono nonzero_mult_div_cancel_right not_gr_zero)
  then have "unat (40 + of_nat ?q :: u8) = 40 + ?q"
    by (simp add: unat_word_ariths take_bit_eq_mod unat_of_nat)
  with False q show ?thesis by (simp add: upload_progress_percent_def word_le_nat_alt)
qed (simp add: upload_progress_percent_def)

definition progress_ok :: "stage_state \<Rightarrow> bool" where
  "progress_ok st \<longleftrightarrow> sg_progress st \<noteq> [] \<and> hd (sg_progress st) = 40 \<and> sorted (sg_progress st)
     \<and> last (sg_progress st) = sg_last_percent st \<and> (\<forall>p \<in> set (sg_progress st). 40 \<le> p \<and> p \<le> 85)"

lemma sorted_snoc: "sorted (xs @ [x]) \<longleftrightarrow> sorted xs \<and> (xs = [] \<or> last xs \<le> x)"
  by (cases xs rule: rev_cases) (auto simp: sorted_append dest: order_trans)

interpretation progress: staging_invariant e "\<lambda>_ _ _. True" progress_ok for e
  by unfold_locales
    (auto simp: progress_ok_def count_sent_def Let_def sorted_snoc upload_progress_bounds)

section \<open>What was sent when staging succeeds\<close>

lemma afc_request_InrD:
  "afc_request e operation header body c = (Inr v, c') \<Longrightarrow>
     sent_calls c' = sent_calls c @ [(operation, header, body)]"
  using sent_calls_request [of e operation header body c]
  by (auto simp: afc_request_def split: if_splits)

lemma afc_step_Inr:
  "afc_step kind act st = (Inr v, st') \<longleftrightarrow>
     (\<exists>c. act (sg_client st) = (Inr v, c) \<and> st' = st\<lparr>sg_client := c\<rparr>)"
  by (cases "act (sg_client st)"; cases "fst (act (sg_client st))") (auto simp: afc_step_def)

lemma stage_bind_Inr: "stage_bind r f = (Inr v, st') \<longleftrightarrow> (\<exists>u st. r = (Inr u, st) \<and> f u st = (Inr v, st'))"
  by (cases r; cases "fst r") (auto simp: stage_bind_def)

lemma client_op_InrD:
  "make_directory e p c = (Inr u, c') \<Longrightarrow> sent_calls c' = sent_calls c @ [(MakeDir, p, [])]"
  "is_directory e p c = (Inr b, c') \<Longrightarrow> sent_calls c' = sent_calls c @ [(GetFileInfo, p, [])]"
  "afc_write e fd bytes c = (Inr u, c') \<Longrightarrow> sent_calls c' = sent_calls c @ [(AfcWrite, to_le_bytes fd, bytes)]"
  "afc_close e fd c = (Inr u, c') \<Longrightarrow> sent_calls c' = sent_calls c @ [(FileClose, to_le_bytes fd, [])]"
  "open_for_write e p c = (Inr fd, c') \<Longrightarrow> sent_calls c' = sent_calls c @ [(FileOpen, to_le_bytes (af_wr e) @ p, [])]"
  by (auto simp: make_directory_def is_directory_def afc_write_def afc_close_def open_for_write_def
      path_request_def map_prod_def dest!: afc_request_InrD split: prod.splits sum.splits if_splits)

text \<open>\<^const>\<open>path_exists\<close> also answers when the request fails, but then the device was asked.\<close>

lemma path_exists_InrD:
  assumes "path_exists e p c = (Inr b, c')"
  shows "sent_calls c' = sent_calls c @ [(GetFileInfo, p, [])]"
proof -
  have "c' = snd (path_exists e p c)" using assms by simp
  then have c': "c' = snd (afc_request e GetFileInfo p [] c)" using paths.exists_snd by metis
  have "\<not> tc_timed_out c"
    using assms by (auto simp: path_exists_def path_request_def afc_request_def split: if_splits)
  with c' show ?thesis by (simp add: sent_calls_request)
qed

definition file_calls :: "u64 \<Rightarrow> path \<Rightarrow> u64 \<Rightarrow> string list \<Rightarrow> (afc_op \<times> string \<times> string) list" where
  "file_calls wr p fd chunks =
     [(FileOpen, to_le_bytes wr @ p, [])] @ map (\<lambda>c. (AfcWrite, to_le_bytes fd, c)) chunks
     @ [(FileClose, to_le_bytes fd, [])]"

text \<open>The packets that put one entry on the device.\<close>

definition entry_uploaded ::
  "u64 \<Rightarrow> (string \<Rightarrow> string) \<Rightarrow> task_staging \<Rightarrow> upload_entry \<Rightarrow> (afc_op \<times> string \<times> string) list \<Rightarrow> bool" where
  "entry_uploaded wr sha256 staging x calls \<longleftrightarrow>
     (let remote = tg_app staging @ ''/'' @ ue_remote_path x in
      case ue_kind x of
        PlanDir _ \<Rightarrow> calls = [(MakeDir, remote, [])]
      | PlanFile sz _ digest \<Rightarrow> (\<exists>fd chunks. calls = file_calls wr remote fd chunks
          \<and> len_u64 (concat chunks) = sz \<and> sha256 (concat chunks) = digest))"

lemma count_sent_client [simp]: "sg_client (count_sent t n st) = sg_client st"
  by (simp add: count_sent_def Let_def)

lemma len_u64_append:
  assumes "unat (len_u64 xs) + unat (len_u64 ys) < 2 ^ 64"
  shows "len_u64 (xs @ ys) = len_u64 xs + len_u64 ys"
proof (rule word_unat_eq_iff [THEN iffD2])
  have "unat (len_u64 xs + len_u64 ys) = unat (len_u64 xs) + unat (len_u64 ys)"
    using assms by (simp add: unat_word_ariths)
  with assms show "unat (len_u64 (xs @ ys)) = unat (len_u64 xs + len_u64 ys)"
    by (auto simp: unat_len_u64 min_def split: if_splits)
qed

lemma len_u64_Nil [simp]: "len_u64 [] = 0"
  by (simp add: len_u64_def)

lemma stage_reads_InrD:
  "stage_reads e fd sz total_bytes rs written acc st = (Inr (written', acc'), st') \<Longrightarrow> written = len_u64 acc \<Longrightarrow>
     \<exists>chunks. acc' = acc @ concat chunks \<and> written' = len_u64 acc'
       \<and> sent_calls (sg_client st') = sent_calls (sg_client st) @ map (\<lambda>c. (AfcWrite, to_le_bytes fd, c)) chunks"
proof (induction rs arbitrary: written acc st)
  case Nil
  then show ?case by (intro exI [of _ "[]"]) auto
next
  case (Cons r rs)
  then obtain chunk where r: "r = Some chunk" by (cases r) auto
  show ?case
  proof (cases "chunk = []")
    case True
    with Cons.prems r show ?thesis by (intro exI [of _ "[]"]) auto
  next
    case False
    with Cons.prems(1) r obtain c where
      sum: "unat written + unat (len_u64 chunk) < 2 ^ 64" and
      w: "afc_write e fd chunk (sg_client st) = (Inr (), c)" and
      rest: "stage_reads e fd sz total_bytes rs (written + len_u64 chunk) (acc @ chunk)
        (count_sent total_bytes (length chunk) (st\<lparr>sg_client := c\<rparr>)) = (Inr (written', acc'), st')"
      by (auto simp: stage_bind_Inr afc_step_Inr checked_add_u64_def split: option.splits if_splits)
    have "written + len_u64 chunk = len_u64 (acc @ chunk)"
      using Cons.prems(2) sum by (simp add: len_u64_append)
    from Cons.IH [OF rest this] obtain chunks where "acc' = (acc @ chunk) @ concat chunks"
      "written' = len_u64 acc'"
      "sent_calls (sg_client st') = sent_calls c @ map (\<lambda>c. (AfcWrite, to_le_bytes fd, c)) chunks" by auto
    with client_op_InrD(3) [OF w] show ?thesis by (intro exI [of _ "chunk # chunks"]) simp
  qed
qed

lemma close_after_Inr:
  "(case w of (write_result, st2) \<Rightarrow>
      (case close st2 of (close_result, st3) \<Rightarrow>
         (case write_result of Inl kind \<Rightarrow> (Inl kind, st3) | Inr _ \<Rightarrow> (close_result, st3)))) = (Inr u, st')
   \<longleftrightarrow> (\<exists>v st2. w = (Inr v, st2) \<and> close st2 = (Inr u, st'))"
  by (cases w; cases "fst w"; cases "close (snd w)") auto

lemma stage_entry_InrD:
  assumes "stage_entry e pe staging plan x st = (Inr u, st')"
  shows "\<exists>calls. entry_uploaded (af_wr e) (pl_sha256 pe) staging x calls
    \<and> sent_calls (sg_client st') = sent_calls (sg_client st) @ calls"
proof (cases "ue_kind x")
  case (PlanDir identity)
  with assms show ?thesis
    by (auto simp: stage_entry_def stage_directory_def entry_uploaded_def Let_def afc_step_Inr
        dest!: client_op_InrD(1) split: option.splits sum.splits if_splits)
next
  case (PlanFile sz identity digest)
  let ?remote = "tg_app staging @ ''/'' @ ue_remote_path x"
  from assms obtain f fd c1 st2 c3 where
    o: "open_for_write e ?remote (sg_client st) = (Inr fd, c1)" and
    w: "stage_content e pe fd (up_byte_count plan) sz identity digest f (st\<lparr>sg_client := c1\<rparr>) = (Inr (), st2)" and
    c: "afc_close e fd (sg_client st2) = (Inr u, c3)" and st': "st' = st2\<lparr>sg_client := c3\<rparr>"
    by (auto simp: stage_entry_def PlanFile stage_file_def Let_def stage_bind_Inr close_after_Inr afc_step_Inr
        split: sum.split_asm)
  from w obtain written content where
    "stage_reads e fd sz (up_byte_count plan) (of_reads f) 0 [] (st\<lparr>sg_client := c1\<rparr>) = (Inr (written, content), st2)"
    "written = sz" "pl_sha256 pe content = digest"
    by (auto simp: stage_content_def stage_bind_Inr split: option.splits if_splits)
  from stage_reads_InrD [OF this(1)] this(2,3) len_u64_Nil obtain chunks where
    "len_u64 (concat chunks) = sz" "pl_sha256 pe (concat chunks) = digest"
    "sent_calls (sg_client st2) = sent_calls c1 @ map (\<lambda>c. (AfcWrite, to_le_bytes fd, c)) chunks" by auto
  with client_op_InrD(5) [OF o] client_op_InrD(4) [OF c] show ?thesis
    by (intro exI [of _ "file_calls (af_wr e) ?remote fd chunks"])
      (auto simp: entry_uploaded_def PlanFile st' file_calls_def Let_def)
qed

lemma stage_entries_InrD:
  "stage_entries e pe staging plan xs st = (Inr u, st') \<Longrightarrow>
     \<exists>calls. list_all2 (entry_uploaded (af_wr e) (pl_sha256 pe) staging) xs calls
       \<and> sent_calls (sg_client st') = sent_calls (sg_client st) @ concat calls"
proof (induction xs arbitrary: st)
  case (Cons x xs)
  then obtain u1 st1 where x: "stage_entry e pe staging plan x st = (Inr u1, st1)"
    and xs: "stage_entries e pe staging plan xs st1 = (Inr u, st')" by (auto simp: stage_bind_Inr)
  from stage_entry_InrD [OF x] Cons.IH [OF xs] obtain calls rest where
    "entry_uploaded (af_wr e) (pl_sha256 pe) staging x calls"
    "sent_calls (sg_client st1) = sent_calls (sg_client st) @ calls"
    "list_all2 (entry_uploaded (af_wr e) (pl_sha256 pe) staging) xs rest"
    "sent_calls (sg_client st') = sent_calls (sg_client st1) @ concat rest" by blast
  then show ?case by (intro exI [of _ "calls # rest"]) simp
qed (auto intro: exI [of _ "[]"])

section \<open>Properties\<close>

lemma stage_bundle_InrD:
  assumes "stage_signed_bundle e pe staging plan c = (Inr u, st)"
  shows "\<exists>uploads. list_all2 (entry_uploaded (af_wr e) (pl_sha256 pe) staging) (up_entries plan) uploads
    \<and> sent_calls (sg_client st) = sent_calls c @ [(GetFileInfo, ''PublicStaging'', []),
        (GetFileInfo, tg_root staging, []), (MakeDir, tg_root staging, []), (MakeDir, tg_app staging, [])]
        @ concat uploads"
proof -
  from assms obtain c1 c2 c3 c4 st4 st5 where
    1: "is_directory e ''PublicStaging'' c = (Inr True, c1)" and
    2: "path_exists e (tg_root staging) c1 = (Inr False, c2)" and
    3: "make_directory e (tg_root staging) c2 = (Inr (), c3)" and
    4: "make_directory e (tg_app staging) c3 = (Inr (), c4)" and
    5: "stage_entries e pe staging plan (up_entries plan) st4 = (Inr (), st5)" "sg_client st4 = c4" and
    st: "st = st5\<lparr>sg_progress := sg_progress st5 @ [85]\<rparr>"
    by (auto simp: stage_signed_bundle_def stage_bind_Inr afc_step_Inr start_stage_def split: if_split_asm)
  from stage_entries_InrD [OF 5(1)] 5(2) client_op_InrD(2) [OF 1] path_exists_InrD [OF 2]
    client_op_InrD(1) [OF 3] client_op_InrD(1) [OF 4]
  show ?thesis by (auto simp: st)
qed

definition demo_afc :: afc_env where
  "demo_afc = \<lparr>af_magic = 1, af_header_len = 40, af_wr = 3,
     af_answer = (\<lambda>_ k. if pk_operation k \<noteq> GetFileInfo then AfcReply ''12345678'' []
       else if pk_header_payload k = ''PublicStaging''
       then AfcReply [] (''st_ifmt'' @ CHR 0x00 # ''S_IFDIR'') else AfcNotFound)\<rparr>"

definition demo_staging :: task_staging where
  "demo_staging = new_staging (\<lambda>_. ''u'') 7"

definition demo_upload :: upload_plan where
  "demo_upload = \<lparr>up_canonical_root = [''a''],
     up_entries = [\<lparr>ue_local_path = ''a/x'', ue_remote_path = ''x'',
       ue_kind = PlanFile 2 (fm_identity demo_file) ''#hi''\<rparr>], up_byte_count = 2\<rparr>"

lemma demo_staging_run:
  "\<exists>st. stage_signed_bundle demo_afc demo_plan_env demo_staging demo_upload new_afc = (Inr (), st)"
proof -
  have dir: "says_directory (''st_ifmt'' @ CHR 0x00 # ''S_IFDIR'')"
    by (simp add: says_directory_def)
  have open_ok: "open_verified_upload_file demo_plan_env ''a/x'' [''a''] 2 (fm_identity demo_file) =
      Inr \<lparr>of_meta = Some demo_file, of_reads = [Some ''hi'', Some ''''], of_final = Some demo_file\<rparr>"
    by (simp add: open_verified_upload_file_def demo_plan_env_def ensure_canonical_descendant_def
        path_starts_with_def is_regular_def demo_file_def)
  show ?thesis
    using dir
    by (simp add: stage_signed_bundle_def stage_bind_def afc_step_def start_stage_def is_directory_def
        path_exists_def path_request_def make_directory_def afc_request_def afc_packet_of_def Let_def
        demo_upload_def stage_entry_def stage_file_def open_ok demo_staging_def new_staging_def
        STAGING_PREFIX_def open_for_write_def stage_content_def afc_write_def afc_close_def
        count_sent_def checked_add_u64_def len_u64_def demo_afc_def new_afc_def)
      (simp add: is_regular_def demo_file_def demo_plan_env_def)
qed

text \<open>
  C7: Staging stays within the task's own directory. Every packet it sends, also when it fails or is
  stopped, either asks about the public staging directory or the task's root, or creates a
  directory or opens a file at the root or below it, by a path without empty, dot or separator
  components; nothing is removed. The cleanup afterwards removes exactly the task's root.
\<close>

theorem staging_confined:
  assumes "plan_signed_bundle_until pe0 root = Inr plan" "staging = new_staging show_uuid task_id"
  shows "(\<forall>(operation, header, body)
      \<in> set (sent_calls (sg_client (snd (stage_signed_bundle e pe staging plan new_afc)))).
        confined (af_wr e) staging operation header body)
    \<and> (\<forall>k \<in> set (snd (clean_exact_task_staging e parse_uuid (Some new_afc) staging created)).
        pk_operation k = RemovePathAndContents \<and> pk_header_payload k = tg_root staging)"
proof
  have app: "tg_app staging = tg_root staging @ ''/Signed.app''"
    by (simp add: assms(2) new_staging_def Let_def)
  have safe: "\<forall>x \<in> set (up_entries plan). safe_remote (ue_remote_path x)"
    using plan_until_ok [OF assms(1)] by (simp add: entries_ok_def entry_checked_def)
  have start: "\<forall>(operation, header, body) \<in> set (sent_calls (sg_client (start_stage new_afc))).
      confined (af_wr e) staging operation header body"
    by (simp add: start_stage_def new_afc_def sent_calls_def)
  obtain result st where run: "stage_signed_bundle e pe staging plan new_afc = (result, st)" by fastforce
  from paths.bundle_state [OF start confined_requests [OF app safe] run]
  show "\<forall>(operation, header, body)
      \<in> set (sent_calls (sg_client (snd (stage_signed_bundle e pe staging plan new_afc)))).
        confined (af_wr e) staging operation header body"
    by (cases result) (auto simp: run)
  show "\<forall>k \<in> set (snd (clean_exact_task_staging e parse_uuid (Some new_afc) staging created)).
      pk_operation k = RemovePathAndContents \<and> pk_header_payload k = tg_root staging"
    by (auto simp: clean_exact_task_staging_def remove_all_def path_request_def afc_request_def
        afc_packet_of_def new_afc_def Let_def split: sum.splits afc_error.splits)
qed

theorem staging_confined_witness:
  "\<exists>plan. plan_signed_bundle_until demo_plan_env ''a'' = Inr plan
     \<and> (\<forall>(operation, header, body)
          \<in> set (sent_calls (sg_client (snd (stage_signed_bundle demo_afc demo_plan_env demo_staging plan new_afc)))).
          confined 3 demo_staging operation header body)"
  using staging_confined [OF demo_plan_run demo_staging_def, of demo_afc demo_plan_env]
  by (simp add: demo_plan_run demo_afc_def)

text \<open>
  The packets of a staging client are numbered 0, 1, 2, ... and once one is not answered in time
  none is sent after it, wherever staging stops.
\<close>

theorem staging_packets_in_order:
  "client_sound e (sg_client (snd (stage_signed_bundle e pe staging plan new_afc)))"
proof -
  have start: "client_sound e (sg_client (start_stage new_afc))"
    by (simp add: start_stage_def client_sound_new)
  obtain result st where run: "stage_signed_bundle e pe staging plan new_afc = (result, st)" by fastforce
  from sequence.bundle_state [OF start _ run] show ?thesis
    by (cases result) (auto simp: run staging_requests_def)
qed

text \<open>
  The progress reported while staging starts at 40, never decreases and stays within 40 and 85,
  the part of the scale reserved for the upload; a completed upload ends at 85.
\<close>

theorem staging_progress_bounds:
  "case stage_signed_bundle e pe staging plan new_afc of (result, st) \<Rightarrow>
     hd (sg_progress st) = 40 \<and> sorted (sg_progress st) \<and> set (sg_progress st) \<subseteq> {40..85}
     \<and> (case result of Inl _ \<Rightarrow> True | Inr _ \<Rightarrow> last (sg_progress st) = 85)"
proof -
  have start: "progress_ok (start_stage new_afc)" by (simp add: progress_ok_def start_stage_def)
  obtain result st where run: "stage_signed_bundle e pe staging plan new_afc = (result, st)" by fastforce
  from progress.bundle_state [OF start _ run] show ?thesis
    by (cases result) (auto simp: run staging_requests_def progress_ok_def sorted_snoc dest: last_in_set)
qed

text \<open>
  When staging succeeds the device has received the planned bundle. After the two questions and
  the two directories come, entry by entry and in the order of the plan, the creation of the
  directory or the opening, the writes and the closing of the file, whose written bytes have the
  planned length and digest; nothing else was sent.
\<close>

theorem staged_bundle_matches_plan:
  assumes "stage_signed_bundle e pe staging plan new_afc = (Inr (), st)"
  shows "\<exists>uploads. list_all2 (entry_uploaded (af_wr e) (pl_sha256 pe) staging) (up_entries plan) uploads
    \<and> sent_calls (sg_client st) =
        [(GetFileInfo, ''PublicStaging'', []), (GetFileInfo, tg_root staging, []),
         (MakeDir, tg_root staging, []), (MakeDir, tg_app staging, [])] @ concat uploads"
  using stage_bundle_InrD [OF assms] by (simp add: sent_calls_def new_afc_def)

theorem staged_bundle_matches_plan_witness:
  "\<exists>st. stage_signed_bundle demo_afc demo_plan_env demo_staging demo_upload new_afc = (Inr (), st)
     \<and> (\<exists>uploads. length uploads = 1 \<and> drop 4 (sent_calls (sg_client st)) = concat uploads)"
proof -
  from demo_staging_run obtain st where
    st: "stage_signed_bundle demo_afc demo_plan_env demo_staging demo_upload new_afc = (Inr (), st)" ..
  from staged_bundle_matches_plan [OF st] obtain uploads where
    "length uploads = length (up_entries demo_upload)" "drop 4 (sent_calls (sg_client st)) = concat uploads"
    by (auto dest: list_all2_lengthD)
  with st show ?thesis by (auto simp: demo_upload_def)
qed

end
