(* ===== verification/RemoteSession.thy ===== *)
theory RemoteSession
  imports PairingStore Pairing RsdInstall
begin

text \<open>
  Sessions over a stored pairing and the commitment of a new one (\<^verbatim>\<open>src/wireless_pairing.rs\<close>:
  discovery and verification of the paired device, \<^verbatim>\<open>RemoteRsdSession::open\<close>,
  \<^verbatim>\<open>commit_remote_pairing\<close>, the identity of the device and the read-only probes). Time is explicit: a
  call of the network or of the protocol library is a duration and a result, and every step takes
  the time it starts at and returns the time it ends at, in milliseconds.
\<close>

section \<open>Errors of the protocol library\<close>

datatype net_error =
    ConnectionRefused | ConnectionReset | ConnectionAborted | NotConnected | AddrNotAvailable
  | NetTimedOut | NetInvalidInput | NetBrokenPipe | NetworkUnreachable | OtherIoKind

fun io_error_kind :: "net_error \<Rightarrow> string" where
  "io_error_kind ConnectionRefused = ''connection_refused''"
| "io_error_kind ConnectionReset = ''connection_reset''"
| "io_error_kind ConnectionAborted = ''connection_aborted''"
| "io_error_kind NotConnected = ''not_connected''"
| "io_error_kind AddrNotAvailable = ''address_not_available''"
| "io_error_kind NetTimedOut = ''timed_out''"
| "io_error_kind NetInvalidInput = ''invalid_input''"
| "io_error_kind _ = ''other''"

text \<open>
  The variants the code distinguishes; \<open>RpOther\<close> and \<open>IdOther\<close> stand for the others. What a variant
  carries, a text of the device or of another library, is here as the text it prints.
\<close>

datatype rp_error =
    UnknownTlv string | MalformedTlv | PairingRejected string | Base64DecodeError string | PairVerifyFailed
  | SrpAuthFailed | ChachaEncryption string | RpOther string

datatype idevice_error =
    IdSocket net_error | IdTimeout | IdPlist string | IdUtf8 string | IdNotEnoughBytes nat nat
  | IdUnexpectedResponse string | IdInternalError string | IdSessionInactive | IdNoEstablishedConnection
  | IdRemotePairing rp_error | IdServiceNotFound | IdXpc string | IdCoreDevice string | IdOther string

fun remote_pairing_error_kind :: "rp_error \<Rightarrow> string" where
  "remote_pairing_error_kind (UnknownTlv _) = ''remote_pairing_unknown_tlv''"
| "remote_pairing_error_kind MalformedTlv = ''remote_pairing_malformed_tlv''"
| "remote_pairing_error_kind (PairingRejected _) = ''remote_pairing_rejected''"
| "remote_pairing_error_kind (Base64DecodeError _) = ''remote_pairing_base64_decode''"
| "remote_pairing_error_kind PairVerifyFailed = ''remote_pairing_pair_verify_failed''"
| "remote_pairing_error_kind SrpAuthFailed = ''remote_pairing_srp_auth_failed''"
| "remote_pairing_error_kind (ChachaEncryption _) = ''remote_pairing_encryption''"
| "remote_pairing_error_kind (RpOther _) = ''remote_pairing_other''"

fun idevice_error_kind :: "idevice_error \<Rightarrow> string" where
  "idevice_error_kind (IdSocket _) = ''socket''"
| "idevice_error_kind IdTimeout = ''timeout''"
| "idevice_error_kind (IdPlist _) = ''plist''"
| "idevice_error_kind (IdUtf8 _) = ''utf8''"
| "idevice_error_kind (IdNotEnoughBytes _ _) = ''not_enough_bytes''"
| "idevice_error_kind (IdUnexpectedResponse _) = ''unexpected_response''"
| "idevice_error_kind (IdInternalError _) = ''internal_error''"
| "idevice_error_kind IdSessionInactive = ''session_inactive''"
| "idevice_error_kind IdNoEstablishedConnection = ''no_established_connection''"
| "idevice_error_kind (IdRemotePairing err) = remote_pairing_error_kind err"
| "idevice_error_kind _ = ''other''"

text \<open>The error of the pairing protocol whose library-defined subcode is logged.\<close>

fun remote_pairing_subcode :: "idevice_error \<Rightarrow> rp_error option" where
  "remote_pairing_subcode (IdRemotePairing err) = Some err"
| "remote_pairing_subcode _ = None"

section \<open>Calls with a time limit\<close>

text \<open>A call that answers after a duration, and what \<^verbatim>\<open>timeout\<close> makes of it.\<close>

datatype ('e, 'a) call = Call nat "'e + 'a"
datatype ('e, 'a) timed = Done 'a | Broken 'e | Late

fun within :: "nat \<Rightarrow> ('e, 'a) call \<Rightarrow> nat \<Rightarrow> ('e, 'a) timed \<times> nat" where
  "within limit (Call d r) now =
     (if d \<le> limit then (case r of Inl err \<Rightarrow> Broken err | Inr v \<Rightarrow> Done v, now + d) else (Late, now + limit))"

definition REMOTE_CONNECT_TIMEOUT :: nat where "REMOTE_CONNECT_TIMEOUT = 10 * 1000"
definition REMOTE_DISCOVERY_TIMEOUT :: nat where "REMOTE_DISCOVERY_TIMEOUT = 10 * 1000"

definition remaining :: "nat \<Rightarrow> nat \<Rightarrow> nat" where
  "remaining deadline now = min (deadline - now) REMOTE_CONNECT_TIMEOUT"

section \<open>The device\<close>

record tunnel_info =
  ti_server_rsd_port :: u16
  ti_client_address :: string
  ti_server_address :: string

text \<open>
  What the device at an address answers when it is asked at a time: the connection to a port, the
  two verification steps of a client, the listener of the tunnel, the tunnel, the RSD connection and
  handshake (the services with their ports and the properties), and the steps of the tunnel service.
\<close>

record remote_device =
  rd_connect :: "ip_address \<Rightarrow> u16 \<Rightarrow> nat \<Rightarrow> (net_error, unit) call"
  rd_attempt :: "ip_address \<Rightarrow> bool \<Rightarrow> nat \<Rightarrow> (idevice_error, unit) call"
  rd_validate :: "ip_address \<Rightarrow> bool \<Rightarrow> nat \<Rightarrow> (idevice_error, unit) call"
  rd_listener :: "ip_address \<Rightarrow> nat \<Rightarrow> (idevice_error, u16) call"
  rd_tunnel :: "ip_address \<Rightarrow> nat \<Rightarrow> (idevice_error, tunnel_info) call"
  rd_rsd_connect :: "ip_address \<Rightarrow> u16 \<Rightarrow> nat \<Rightarrow> (net_error, unit) call"
  rd_handshake :: "ip_address \<Rightarrow> nat \<Rightarrow> (idevice_error, (string \<rightharpoonup> u16) \<times> (string \<rightharpoonup> plist)) call"
  rd_xpc_new :: "ip_address \<Rightarrow> nat \<Rightarrow> (idevice_error, unit) call"
  rd_xpc_handshake :: "ip_address \<Rightarrow> nat \<Rightarrow> (idevice_error, unit) call"
  rd_xpc_root :: "ip_address \<Rightarrow> nat \<Rightarrow> (idevice_error, unit) call"
  rd_parse_ip :: "string \<Rightarrow> ip_address option"

section \<open>Discovery\<close>

record remote_endpoint =
  ep_addresses :: "ip_address list"
  ep_port :: u16

record resolved_pairing =
  rv_identifier :: "string option"
  rv_auth_tag :: "string option"
  rv_addresses :: "ip_address list"
  rv_port :: u16

text \<open>\<open>valid irk identifier tag\<close> is the library's check that the advertiser holds the paired device's key.\<close>

definition authenticated_endpoint ::
  "(string \<Rightarrow> string \<Rightarrow> string \<Rightarrow> bool) \<Rightarrow> (ip_address \<Rightarrow> string) \<Rightarrow> string \<Rightarrow> string \<Rightarrow> string
     \<Rightarrow> ip_address list \<Rightarrow> u16 \<Rightarrow> remote_endpoint option" where
  "authenticated_endpoint valid show_ip irk identifier tag addresses port =
     (if port = 0 \<or> addresses = [] \<or> \<not> valid irk identifier tag then None
      else Some \<lparr>ep_addresses = sort_key (\<lambda>ip. (\<not> is_ipv4 ip, show_ip ip)) addresses, ep_port = port\<rparr>)"

definition resolved_endpoint ::
  "(string \<Rightarrow> string \<Rightarrow> string \<Rightarrow> bool) \<Rightarrow> (ip_address \<Rightarrow> string) \<Rightarrow> string \<Rightarrow> resolved_pairing \<Rightarrow> remote_endpoint option" where
  "resolved_endpoint valid show_ip irk info =
     (case (rv_identifier info, rv_auth_tag info) of
        (Some identifier, Some tag) \<Rightarrow>
          authenticated_endpoint valid show_ip irk identifier tag (rv_addresses info) (rv_port info)
      | _ \<Rightarrow> None)"

text \<open>
  The loop over the browser's events: each comes after a delay, \<^term>\<open>None\<close> is an event of another
  kind and an error the end of the channel. Without a further event the loop waits for its deadline.
\<close>

fun discover_loop ::
  "(resolved_pairing \<Rightarrow> remote_endpoint option) \<Rightarrow> nat \<Rightarrow> (unit, resolved_pairing option) call list
     \<Rightarrow> remote_endpoint list \<Rightarrow> nat \<Rightarrow> remote_endpoint list \<times> nat" where
  "discover_loop resolve deadline [] found now = (found, max now deadline)"
| "discover_loop resolve deadline (event # events) found now =
     (if deadline - now = 0 then (found, now)
      else (case within (deadline - now) event now of
              (Done (Some info), t) \<Rightarrow>
                discover_loop resolve deadline events
                  (case resolve info of
                     None \<Rightarrow> found
                   | Some endpoint \<Rightarrow> if endpoint \<in> set found then found else found @ [endpoint]) t
            | (Done None, t) \<Rightarrow> discover_loop resolve deadline events found t
            | (_, t) \<Rightarrow> (found, t)))"

record discovery_env =
  de_valid :: "string \<Rightarrow> string \<Rightarrow> string \<Rightarrow> bool"
  de_show_ip :: "ip_address \<Rightarrow> string"
  de_browses :: bool
  de_events :: "(unit, resolved_pairing option) call list"

definition discover_endpoints_until ::
  "discovery_env \<Rightarrow> string option \<Rightarrow> nat \<Rightarrow> nat \<Rightarrow> remote_endpoint list option \<times> nat" where
  "discover_endpoints_until de alt_irk deadline now =
     (case alt_irk of
        None \<Rightarrow> (None, now)
      | Some irk \<Rightarrow>
          if \<not> de_browses de then (None, now)
          else (case discover_loop (resolved_endpoint (de_valid de) (de_show_ip de) irk) deadline
                       (de_events de) [] now of
                  (found, t) \<Rightarrow> (if found = [] then None else Some found, t)))"

text \<open>The addresses to try, endpoint by endpoint.\<close>

definition endpoint_candidates :: "remote_endpoint list \<Rightarrow> (ip_address \<times> u16) list" where
  "endpoint_candidates endpoints = concat (map (\<lambda>ep. map (\<lambda>a. (a, ep_port ep)) (ep_addresses ep)) endpoints)"

section \<open>Verifying an established pairing\<close>

datatype verification_stage = AttemptPairVerify | ValidatePairing

record verification_failure =
  vf_stage :: verification_stage
  vf_result :: string
  vf_kind :: string
  vf_subcode :: "rp_error option"

definition verification_error :: "verification_stage \<Rightarrow> idevice_error \<Rightarrow> verification_failure" where
  "verification_error stage err = \<lparr>vf_stage = stage, vf_result = ''error'', vf_kind = idevice_error_kind err,
     vf_subcode = remote_pairing_subcode err\<rparr>"

definition verification_late :: "verification_stage \<Rightarrow> verification_failure" where
  "verification_late stage = \<lparr>vf_stage = stage, vf_result = ''timeout'', vf_kind =
     (case stage of AttemptPairVerify \<Rightarrow> ''attempt_pair_verify_timeout'' | ValidatePairing \<Rightarrow> ''validate_pairing_timeout''),
     vf_subcode = None\<rparr>"

definition verification_expired :: "verification_stage \<Rightarrow> verification_failure" where
  "verification_expired stage = \<lparr>vf_stage = stage, vf_result = ''timeout'', vf_kind = ''session_expired'',
     vf_subcode = None\<rparr>"

datatype verification_timing = Deadline nat | PerStep nat

fun timeout_for :: "verification_timing \<Rightarrow> verification_stage \<Rightarrow> nat \<Rightarrow> verification_failure + nat" where
  "timeout_for (Deadline deadline) stage now =
     (if remaining deadline now = 0 then Inl (verification_expired stage) else Inr (remaining deadline now))"
| "timeout_for (PerStep duration) stage now = Inr duration"

definition verification_step ::
  "verification_timing \<Rightarrow> verification_stage \<Rightarrow> (nat \<Rightarrow> (idevice_error, unit) call) \<Rightarrow> nat \<Rightarrow> (verification_failure + unit) \<times> nat" where
  "verification_step timing stage ask now =
     (case timeout_for timing stage now of
        Inl failure \<Rightarrow> (Inl failure, now)
      | Inr limit \<Rightarrow>
          (case within limit (ask now) now of
             (Done _, t) \<Rightarrow> (Inr (), t)
           | (Broken err, t) \<Rightarrow> (Inl (verification_error stage err), t)
           | (Late, t) \<Rightarrow> (Inl (verification_late stage), t)))"

text \<open>\<open>follow_up\<close> tells the client over the tunnel service from the one of the bootstrap.\<close>

definition verify_established_pairing ::
  "remote_device \<Rightarrow> ip_address \<Rightarrow> bool \<Rightarrow> verification_timing \<Rightarrow> nat \<Rightarrow> (verification_failure + unit) \<times> nat" where
  "verify_established_pairing rd address follow_up timing now =
     (case verification_step timing AttemptPairVerify (rd_attempt rd address follow_up) now of
        (Inl failure, t) \<Rightarrow> (Inl failure, t)
      | (Inr _, t) \<Rightarrow> verification_step timing ValidatePairing (rd_validate rd address follow_up) t)"

section \<open>Committing a new pairing\<close>

record commit_failure =
  cf_stage :: string
  cf_kind :: string

text \<open>
  A step of the commitment goes on, turns to the next address (\<^verbatim>\<open>continue\<close>) or ends the whole
  commitment (\<^verbatim>\<open>return\<close>).
\<close>

datatype 'a attempt = Got 'a | Next commit_failure | Stop commit_failure

definition attempt_then :: "'a attempt \<times> nat \<Rightarrow> ('a \<Rightarrow> nat \<Rightarrow> 'b attempt \<times> nat) \<Rightarrow> 'b attempt \<times> nat" where
  "attempt_then r f = (case r of (Got v, t) \<Rightarrow> f v t | (Next k, t) \<Rightarrow> (Next k, t) | (Stop k, t) \<Rightarrow> (Stop k, t))"

definition deadline_step ::
  "nat \<Rightarrow> string \<Rightarrow> string \<Rightarrow> ('e \<Rightarrow> string) \<Rightarrow> (nat \<Rightarrow> ('e, 'a) call) \<Rightarrow> nat \<Rightarrow> 'a attempt \<times> nat" where
  "deadline_step deadline stage late_kind error_kind ask now =
     (if remaining deadline now = 0 then (Stop \<lparr>cf_stage = stage, cf_kind = ''session_expired''\<rparr>, now)
      else (case within (remaining deadline now) (ask now) now of
              (Done v, t) \<Rightarrow> (Got v, t)
            | (Broken err, t) \<Rightarrow> (Next \<lparr>cf_stage = stage, cf_kind = error_kind err\<rparr>, t)
            | (Late, t) \<Rightarrow> (Next \<lparr>cf_stage = stage, cf_kind = late_kind\<rparr>, t)))"

definition verify_step ::
  "remote_device \<Rightarrow> ip_address \<Rightarrow> bool \<Rightarrow> string \<Rightarrow> nat \<Rightarrow> nat \<Rightarrow> unit attempt \<times> nat" where
  "verify_step rd address follow_up stage deadline now =
     (case verify_established_pairing rd address follow_up (Deadline deadline) now of
        (Inr _, t) \<Rightarrow> (Got (), t)
      | (Inl failure, t) \<Rightarrow>
          ((if vf_kind failure = ''session_expired'' then Stop else Next) \<lparr>cf_stage = stage, cf_kind = vf_kind failure\<rparr>, t))"

definition POST_PAIR_BOOTSTRAP_STAGE :: string where "POST_PAIR_BOOTSTRAP_STAGE = ''post_pair_bootstrap''"
definition POST_PAIR_TUNNEL_STAGE :: string where "POST_PAIR_TUNNEL_STAGE = ''post_pair_tunnel''"
definition POST_PAIR_RSD_STAGE :: string where "POST_PAIR_RSD_STAGE = ''post_pair_rsd''"
definition POST_PAIR_TUNNEL_SERVICE_STAGE :: string where
  "POST_PAIR_TUNNEL_SERVICE_STAGE = ''post_pair_tunnel_service''"
definition POST_PAIR_COMMIT_STAGE :: string where "POST_PAIR_COMMIT_STAGE = ''post_pair_commit''"
definition TUNNEL_SERVICE_NAME :: string where
  "TUNNEL_SERVICE_NAME = ''com.apple.internal.dt.coredevice.untrusted.tunnelservice''"

definition tunnel_checked :: "remote_device \<Rightarrow> tunnel_info \<Rightarrow> commit_failure option" where
  "tunnel_checked rd info =
     (let failed = (\<lambda>kind. Some \<lparr>cf_stage = POST_PAIR_TUNNEL_STAGE, cf_kind = kind\<rparr>) in
      if ti_server_rsd_port info = 0 then failed ''missing_rsd_port''
      else if rd_parse_ip rd (ti_client_address info) = None then failed ''invalid_host_address''
      else if rd_parse_ip rd (ti_server_address info) = None then failed ''invalid_peer_address''
      else None)"

text \<open>One address: connect and verify.\<close>

definition bootstrap_address ::
  "remote_device \<Rightarrow> ip_address \<Rightarrow> u16 \<Rightarrow> nat \<Rightarrow> nat \<Rightarrow> unit attempt \<times> nat" where
  "bootstrap_address rd address port deadline now =
     attempt_then (deadline_step deadline POST_PAIR_BOOTSTRAP_STAGE ''tcp_connect_timeout'' io_error_kind
         (rd_connect rd address port) now) (\<lambda>_ t.
     verify_step rd address False POST_PAIR_BOOTSTRAP_STAGE deadline t)"

text \<open>Its tunnel: create and connect the listener, set the tunnel up and check what it says.\<close>

definition connect_tunnel :: "remote_device \<Rightarrow> ip_address \<Rightarrow> nat \<Rightarrow> nat \<Rightarrow> tunnel_info attempt \<times> nat" where
  "connect_tunnel rd address deadline now =
     attempt_then (deadline_step deadline POST_PAIR_TUNNEL_STAGE ''create_tcp_listener_timeout'' idevice_error_kind
         (rd_listener rd address) now) (\<lambda>listener_port t1.
     attempt_then (deadline_step deadline POST_PAIR_TUNNEL_STAGE ''tunnel_listener_connect_timeout'' io_error_kind
         (rd_connect rd address listener_port) t1) (\<lambda>_ t2.
     attempt_then (deadline_step deadline POST_PAIR_TUNNEL_STAGE ''tunnel_timeout'' idevice_error_kind
         (rd_tunnel rd address) t2) (\<lambda>info t3.
     (case tunnel_checked rd info of None \<Rightarrow> Got info | Some k \<Rightarrow> Next k, t3))))"

text \<open>
  The \<^verbatim>\<open>commitment\<close> block inside the tunnel: the port of the tunnel service, the connection to it
  and the verification over it. None of its failures ends the whole loop.
\<close>

definition tunnel_service_port ::
  "remote_device \<Rightarrow> ip_address \<Rightarrow> tunnel_info \<Rightarrow> nat \<Rightarrow> nat \<Rightarrow> u16 attempt \<times> nat" where
  "tunnel_service_port rd address info deadline now =
     attempt_then (deadline_step deadline POST_PAIR_RSD_STAGE ''rsd_connect_timeout'' io_error_kind
         (rd_rsd_connect rd address (ti_server_rsd_port info)) now) (\<lambda>_ t1.
     attempt_then (deadline_step deadline POST_PAIR_RSD_STAGE ''rsd_handshake_timeout'' idevice_error_kind
         (rd_handshake rd address) t1) (\<lambda>(services, _) t2.
     (case services TUNNEL_SERVICE_NAME of
        None \<Rightarrow> Next \<lparr>cf_stage = POST_PAIR_TUNNEL_SERVICE_STAGE, cf_kind = ''service_not_found''\<rparr>
      | Some service_port \<Rightarrow> Got service_port, t2)))"

definition connect_tunnel_service ::
  "remote_device \<Rightarrow> ip_address \<Rightarrow> u16 \<Rightarrow> nat \<Rightarrow> nat \<Rightarrow> unit attempt \<times> nat" where
  "connect_tunnel_service rd address service_port deadline now =
     attempt_then (deadline_step deadline POST_PAIR_TUNNEL_SERVICE_STAGE ''service_connect_timeout'' io_error_kind
         (rd_rsd_connect rd address service_port) now) (\<lambda>_ t1.
     attempt_then (deadline_step deadline POST_PAIR_TUNNEL_SERVICE_STAGE ''remote_xpc_new_timeout'' idevice_error_kind
         (rd_xpc_new rd address) t1) (\<lambda>_ t2.
     attempt_then (deadline_step deadline POST_PAIR_TUNNEL_SERVICE_STAGE ''remote_xpc_handshake_timeout''
         idevice_error_kind (rd_xpc_handshake rd address) t2) (\<lambda>_ t3.
     deadline_step deadline POST_PAIR_TUNNEL_SERVICE_STAGE ''remote_xpc_root_timeout''
         idevice_error_kind (rd_xpc_root rd address) t3)))"

definition commit_in_tunnel ::
  "remote_device \<Rightarrow> ip_address \<Rightarrow> tunnel_info \<Rightarrow> nat \<Rightarrow> nat \<Rightarrow> unit attempt \<times> nat" where
  "commit_in_tunnel rd address info deadline now =
     attempt_then (tunnel_service_port rd address info deadline now) (\<lambda>service_port t1.
     attempt_then (connect_tunnel_service rd address service_port deadline t1) (\<lambda>_ t2.
     verify_step rd address True POST_PAIR_COMMIT_STAGE deadline t2))"

fun never_stops :: "'a attempt \<Rightarrow> 'a attempt" where
  "never_stops (Stop k) = Next k"
| "never_stops r = r"

definition commit_address ::
  "remote_device \<Rightarrow> ip_address \<Rightarrow> u16 \<Rightarrow> nat \<Rightarrow> nat \<Rightarrow> unit attempt \<times> nat" where
  "commit_address rd address port deadline now =
     attempt_then (bootstrap_address rd address port deadline now) (\<lambda>_ t1.
     attempt_then (connect_tunnel rd address deadline t1) (\<lambda>info t2.
     map_prod never_stops id (commit_in_tunnel rd address info deadline t2)))"

fun commit_candidates ::
  "remote_device \<Rightarrow> nat \<Rightarrow> (ip_address \<times> u16) list \<Rightarrow> commit_failure \<Rightarrow> nat \<Rightarrow> (commit_failure + unit) \<times> nat" where
  "commit_candidates rd deadline [] last_failure now = (Inl last_failure, now)"
| "commit_candidates rd deadline ((address, port) # rest) last_failure now =
     (case commit_address rd address port deadline now of
        (Got _, t) \<Rightarrow> (Inr (), t)
      | (Next k, t) \<Rightarrow> commit_candidates rd deadline rest k t
      | (Stop k, t) \<Rightarrow> (Inl k, t))"

definition commit_remote_pairing_endpoints ::
  "remote_device \<Rightarrow> remote_endpoint list \<Rightarrow> nat \<Rightarrow> nat \<Rightarrow> (commit_failure + unit) \<times> nat" where
  "commit_remote_pairing_endpoints rd endpoints deadline now =
     commit_candidates rd deadline (endpoint_candidates endpoints)
       \<lparr>cf_stage = POST_PAIR_BOOTSTRAP_STAGE, cf_kind = ''no_candidate''\<rparr> now"

definition commit_remote_pairing ::
  "discovery_env \<Rightarrow> remote_device \<Rightarrow> string option \<Rightarrow> nat \<Rightarrow> nat \<Rightarrow> (commit_failure + unit) \<times> nat" where
  "commit_remote_pairing de rd alt_irk deadline now =
     (case discover_endpoints_until de alt_irk (min deadline (now + REMOTE_DISCOVERY_TIMEOUT)) now of
        (None, t) \<Rightarrow>
          (Inl \<lparr>cf_stage = POST_PAIR_BOOTSTRAP_STAGE,
             cf_kind = (if deadline - t = 0 then ''discovery_timeout'' else ''discovery'')\<rparr>, t)
      | (Some endpoints, t) \<Rightarrow> commit_remote_pairing_endpoints rd endpoints deadline t)"

section \<open>Opening a session\<close>

record rsd_probe_failure =
  pf_stage :: rsd_probe_stage
  pf_cleanup :: session_cleanup

definition probe_failure :: "rsd_probe_stage \<Rightarrow> rsd_probe_failure" where
  "probe_failure stage = \<lparr>pf_stage = stage, pf_cleanup = ScNotNeeded\<rparr>"

record rsd_session =
  rs_address :: ip_address
  rs_services :: "string \<rightharpoonup> u16"
  rs_properties :: "string \<rightharpoonup> plist"

text \<open>
  The adapter of a session: shutting it down, and the connection that is tried afterwards and has to
  be refused.
\<close>

record rsd_adapter =
  ra_close :: "nat \<Rightarrow> (net_error, unit) call"
  ra_connect_closed :: "nat \<Rightarrow> (net_error, unit) call"

definition close_provider :: "rsd_adapter \<Rightarrow> nat \<Rightarrow> (net_error, unit) call" where
  "close_provider ad now =
     (case ra_close ad now of
        Call d (Inl err) \<Rightarrow> Call d (Inl err)
      | Call d (Inr _) \<Rightarrow>
          (case ra_connect_closed ad (now + d) of
             Call d' (Inl err) \<Rightarrow>
               Call (d + d') (if err = NetBrokenPipe \<or> err = NetworkUnreachable then Inr () else Inl err)
           | Call d' (Inr _) \<Rightarrow> Call (d + d') (Inl OtherIoKind)))"

definition close_install_session :: "rsd_adapter \<Rightarrow> nat \<Rightarrow> session_cleanup \<times> nat" where
  "close_install_session ad now =
     (case within RSD_INSTALL_SESSION_CLEANUP_TIMEOUT (close_provider ad now) now of
        (Done _, t) \<Rightarrow> (ScSucceeded, t)
      | (_, t) \<Rightarrow> (ScFailed, t))"

text \<open>A step limited by \<^verbatim>\<open>REMOTE_CONNECT_TIMEOUT\<close> whose failures all become one value.\<close>

definition limited :: "nat \<Rightarrow> 'k \<Rightarrow> (nat \<Rightarrow> ('e, 'a) call) \<Rightarrow> nat \<Rightarrow> ('k + 'a) \<times> nat" where
  "limited limit failure ask now =
     (case within limit (ask now) now of (Done v, t) \<Rightarrow> (Inr v, t) | (_, t) \<Rightarrow> (Inl failure, t))"

definition timed_bind :: "('k + 'a) \<times> nat \<Rightarrow> ('a \<Rightarrow> nat \<Rightarrow> ('k + 'b) \<times> nat) \<Rightarrow> ('k + 'b) \<times> nat" where
  "timed_bind r f = (case r of (Inl k, t) \<Rightarrow> (Inl k, t) | (Inr v, t) \<Rightarrow> f v t)"

fun validate_candidates ::
  "remote_device \<Rightarrow> nat \<Rightarrow> (ip_address \<times> u16) list \<Rightarrow> nat \<Rightarrow> ip_address option \<times> nat" where
  "validate_candidates rd limit [] now = (None, now)"
| "validate_candidates rd limit ((address, port) # rest) now =
     (case within limit (rd_connect rd address port now) now of
        (Done _, t) \<Rightarrow>
          (case verify_established_pairing rd address False (PerStep limit) t of
             (Inr _, t') \<Rightarrow> (Some address, t')
           | (Inl _, t') \<Rightarrow> validate_candidates rd limit rest t')
      | (_, t) \<Rightarrow> validate_candidates rd limit rest t)"

definition connect_and_validate ::
  "remote_device \<Rightarrow> remote_endpoint list \<Rightarrow> nat \<Rightarrow> (rsd_probe_failure + ip_address) \<times> nat" where
  "connect_and_validate rd endpoints now =
     (case validate_candidates rd REMOTE_CONNECT_TIMEOUT (endpoint_candidates endpoints) now of
        (Some address, t) \<Rightarrow> (Inr address, t)
      | (None, t) \<Rightarrow> (Inl (probe_failure PrValidatePairing), t))"

definition session_tunnel :: "remote_device \<Rightarrow> ip_address \<Rightarrow> nat \<Rightarrow> (rsd_probe_failure + tunnel_info) \<times> nat" where
  "session_tunnel rd address now =
     (let failure = probe_failure PrTunnel in
      timed_bind (limited REMOTE_CONNECT_TIMEOUT failure (rd_listener rd address) now) (\<lambda>port t1.
      timed_bind (limited REMOTE_CONNECT_TIMEOUT failure (rd_connect rd address port) t1) (\<lambda>_ t2.
      timed_bind (limited REMOTE_CONNECT_TIMEOUT failure (rd_tunnel rd address) t2) (\<lambda>info t3.
      (if ti_server_rsd_port info = 0 \<or> rd_parse_ip rd (ti_client_address info) = None
          \<or> rd_parse_ip rd (ti_server_address info) = None
       then Inl failure else Inr info, t3)))))"

text \<open>The handshake; when it fails the session that already owns an adapter is closed.\<close>

definition session_handshake ::
  "remote_device \<Rightarrow> rsd_adapter \<Rightarrow> ip_address \<Rightarrow> tunnel_info \<Rightarrow> nat \<Rightarrow> (rsd_probe_failure + rsd_session) \<times> nat" where
  "session_handshake rd ad address info now =
     (let failure = probe_failure PrRsdHandshake in
      case timed_bind (limited REMOTE_CONNECT_TIMEOUT failure
             (rd_rsd_connect rd address (ti_server_rsd_port info)) now) (\<lambda>_ t1.
           limited REMOTE_CONNECT_TIMEOUT failure (rd_handshake rd address) t1) of
        (Inr (services, properties), t) \<Rightarrow>
          (Inr \<lparr>rs_address = address, rs_services = services, rs_properties = properties\<rparr>, t)
      | (Inl k, t) \<Rightarrow>
          (case close_install_session ad t of (cleanup, t') \<Rightarrow> (Inl (k\<lparr>pf_cleanup := cleanup\<rparr>), t')))"

text \<open>What an attempt to open a session reads: the store, the browser, the device and its adapter.\<close>

record 'f open_env =
  oe_lib :: "'f pairing_lib"
  oe_fault :: io_faults
  oe_dir :: path
  oe_host :: host_info
  oe_discovery :: discovery_env
  oe_device :: remote_device
  oe_adapter :: rsd_adapter

definition usable_material :: "'f open_env \<Rightarrow> fs \<Rightarrow> string option" where
  "usable_material oe fs =
     (case load_existing (oe_lib oe) (oe_fault oe) (oe_dir oe) (oe_host oe) fs of
        Inl _ \<Rightarrow> None
      | Inr m \<Rightarrow>
          if pm_peer m = None then None
          else opt_filter (\<lambda>irk. length irk = 16) (pl_alt_irk (oe_lib oe) (pm_file m)))"

text \<open>
  \<^verbatim>\<open>RemoteRsdSession::open\<close>. Besides its result it returns when each stage was entered, so that a
  caller's deadline finds the stage it stopped at.
\<close>

definition open_session ::
  "'f open_env \<Rightarrow> fs \<Rightarrow> nat \<Rightarrow> (rsd_probe_failure + rsd_session) \<times> nat \<times> (nat \<times> read_only_stage) list" where
  "open_session oe fs now =
     (let rd = oe_device oe; m0 = [(now, RoDiscovery)] in
      case usable_material oe fs of
        None \<Rightarrow> (Inl (probe_failure PrDiscovery), now, m0)
      | Some irk \<Rightarrow>
          (case discover_endpoints_until (oe_discovery oe) (Some irk) (now + REMOTE_DISCOVERY_TIMEOUT) now of
             (None, t1) \<Rightarrow> (Inl (probe_failure PrDiscovery), t1, m0)
           | (Some endpoints, t1) \<Rightarrow>
               let m1 = m0 @ [(t1, RoValidatePairing)] in
               (case connect_and_validate rd endpoints t1 of
                  (Inl k, t2) \<Rightarrow> (Inl k, t2, m1)
                | (Inr address, t2) \<Rightarrow>
                    let m2 = m1 @ [(t2, RoTunnel)] in
                    (case session_tunnel rd address t2 of
                       (Inl k, t3) \<Rightarrow> (Inl k, t3, m2)
                     | (Inr info, t3) \<Rightarrow>
                         (case session_handshake rd (oe_adapter oe) address info t3 of
                            (r, t4) \<Rightarrow> (r, t4, m2 @ [(t3, RoRsdHandshake)]))))))"

definition stage_at :: "nat \<Rightarrow> (nat \<times> read_only_stage) list \<Rightarrow> read_only_stage" where
  "stage_at deadline marks =
     (case filter (\<lambda>(t, _). t \<le> deadline) marks of [] \<Rightarrow> RoDiscovery | ms \<Rightarrow> snd (last ms))"

text \<open>\<^verbatim>\<open>timeout_at(deadline, RemoteRsdSession::open(...))\<close>, as the installation reads it.\<close>

datatype opened_session = Opened rsd_session nat | OpenFailed rsd_probe_failure nat | OpenLate read_only_stage

definition open_within :: "'f open_env \<Rightarrow> fs \<Rightarrow> nat \<Rightarrow> nat \<Rightarrow> opened_session" where
  "open_within oe fs deadline now =
     (case open_session oe fs now of
        (r, t, marks) \<Rightarrow>
          if deadline < t then OpenLate (stage_at deadline marks)
          else (case r of Inl k \<Rightarrow> OpenFailed k t | Inr s \<Rightarrow> Opened s t))"

fun install_open_result :: "opened_session \<Rightarrow> open_result" where
  "install_open_result (Opened _ _) = SessionOpened"
| "install_open_result (OpenFailed k _) = SessionFailed (pf_stage k) (pf_cleanup k)"
| "install_open_result (OpenLate stage) = SessionTimeout stage"

section \<open>The device's identity\<close>

definition LOCKDOWN_SERVICE_NAME :: string where
  "LOCKDOWN_SERVICE_NAME = ''com.apple.mobile.lockdown.remote.trusted''"

record lockdown_answers =
  la_connect :: "u16 \<Rightarrow> nat \<Rightarrow> (idevice_error, unit) call"
  la_client :: "nat \<Rightarrow> (idevice_error, unit) call"
  la_value :: "string \<Rightarrow> nat \<Rightarrow> (idevice_error, plist) call"

definition verified_signing_identity ::
  "lockdown_answers \<Rightarrow> rsd_session \<Rightarrow> nat \<Rightarrow> (rsd_identity_failure + signing_device_identity) \<times> nat" where
  "verified_signing_identity la s now =
     (let properties = rs_properties s;
          text_of = (\<lambda>v. Option.bind v plist_string) in
      case exact_rsd_service_port (rs_services s) LOCKDOWN_SERVICE_NAME of
        None \<Rightarrow> (Inl IdServiceLookup, now)
      | Some port \<Rightarrow>
          timed_bind (limited REMOTE_CONNECT_TIMEOUT IdServiceConnect (la_connect la port) now) (\<lambda>_ t1.
          timed_bind (limited REMOTE_CONNECT_TIMEOUT IdClientInit (la_client la) t1) (\<lambda>_ t2.
          timed_bind (limited REMOTE_CONNECT_TIMEOUT LockdownIdentity (la_value la ''UniqueDeviceID'') t2) (\<lambda>udid t3.
          timed_bind (limited REMOTE_CONNECT_TIMEOUT DeviceName (la_value la ''DeviceName'') t3) (\<lambda>name t4.
          (map_sum id
             (\<lambda>i. with_device_metadata (text_of (properties ''ProductType''))
                (text_of (case properties ''OSVersion'' of
                            Some v \<Rightarrow> Some v | None \<Rightarrow> properties ''ProductVersion''))
                (with_device_class (text_of (properties ''DeviceClass'')) i))
             (validate_rsd_identity (properties ''UniqueDeviceID'') (Some udid) (Some name)), t4))))))"

definition RSD_IDENTITY_LOOKUP_TIMEOUT :: nat where "RSD_IDENTITY_LOOKUP_TIMEOUT = 30 * 1000"

text \<open>
  The lookup of the identity over a new session, as far as it returns it; closing the session does
  not change the result.
\<close>

definition lookup_identity ::
  "'f open_env \<Rightarrow> lockdown_answers \<Rightarrow> fs \<Rightarrow> nat \<Rightarrow> signing_device_identity option" where
  "lookup_identity oe la fs now =
     (case open_within oe fs (now + RSD_IDENTITY_LOOKUP_TIMEOUT) now of
        Opened s t \<Rightarrow>
          (case verified_signing_identity la s t of
             (Inr i, t') \<Rightarrow> if t' \<le> t + RSD_IDENTITY_LOOKUP_TIMEOUT then Some i else None
           | (Inl _, _) \<Rightarrow> None)
      | _ \<Rightarrow> None)"

text \<open>
  The stored pairing and the cached identity. \<open>others\<close> is what other requests do to them while the
  lookup waits for the device.
\<close>

type_synonym identity_state = "fs \<times> signing_device_identity option"

definition remote_pairing_device_identity ::
  "'f open_env \<Rightarrow> lockdown_answers \<Rightarrow> nat \<Rightarrow> (identity_state \<Rightarrow> identity_state) \<Rightarrow> identity_state
     \<Rightarrow> signing_device_identity option \<times> identity_state" where
  "remote_pairing_device_identity oe la now others st =
     (case snd st of
        Some i \<Rightarrow> (Some i, st)
      | None \<Rightarrow>
          (case lookup_identity oe la (fst st) now of
             None \<Rightarrow> (None, others st)
           | Some i \<Rightarrow> (Some i, (fst (others st), Some i))))"

end
