(* ===== verification/Probes.thy ===== *)
theory Probes
  imports RemoteSession Staging Sources
begin

text \<open>
  The read-only probes and the installed apps of the paired device (\<^verbatim>\<open>src/wireless_pairing.rs\<close>), and
  the handlers of the diagnostic routes over them (\<^verbatim>\<open>spike_*\<close> in \<^verbatim>\<open>src/main.rs\<close>), among them the
  first installation on a paired device.
\<close>

section \<open>Read-only probes\<close>

datatype probe_service = ProbeAfc | ProbeInstallationProxy

fun probe_service_str :: "probe_service \<Rightarrow> string" where
  "probe_service_str ProbeAfc = ''afc''"
| "probe_service_str ProbeInstallationProxy = ''installationProxy''"

text \<open>The service a probe looks up and the stage and call of its one query.\<close>

fun probe_service_name :: "probe_service \<Rightarrow> string" where
  "probe_service_name ProbeAfc = AFC_SERVICE_NAME"
| "probe_service_name ProbeInstallationProxy = INSTALLATION_PROXY_SERVICE_NAME"

fun probe_query_stage :: "probe_service \<Rightarrow> read_only_stage" where
  "probe_query_stage ProbeAfc = RoAfcQuery"
| "probe_query_stage ProbeInstallationProxy = RoAppLookup"

record 'a service_answers =
  va_connect :: "u16 \<Rightarrow> nat \<Rightarrow> (idevice_error, unit) call"
  va_client :: "nat \<Rightarrow> (idevice_error, unit) call"
  va_query :: "nat \<Rightarrow> (idevice_error, 'a) call"

definition READ_ONLY_QUERY_TIMEOUT :: nat where "READ_ONLY_QUERY_TIMEOUT = 20 * 1000"
definition READ_ONLY_ENDPOINT_TIMEOUT :: nat where "READ_ONLY_ENDPOINT_TIMEOUT = 60 * 1000"

text \<open>A step of a probe; its failure is its stage, the kind of the error is only logged.\<close>

definition probe_step :: "read_only_stage \<Rightarrow> nat \<Rightarrow> (nat \<Rightarrow> (idevice_error, 'a) call) \<Rightarrow> nat \<Rightarrow> (read_only_stage + 'a) \<times> nat" where
  "probe_step stage limit ask now = limited limit stage ask now"

text \<open>The three steps over the session, with the times the stages were entered at.\<close>

definition probe_steps ::
  "probe_service \<Rightarrow> 'a service_answers \<Rightarrow> rsd_session \<Rightarrow> nat
     \<Rightarrow> (read_only_stage + unit) \<times> nat \<times> (nat \<times> read_only_stage) list" where
  "probe_steps service va s now =
     (let m0 = [(now, RoServiceLookup)] in
      case exact_rsd_service_port (rs_services s) (probe_service_name service) of
        None \<Rightarrow> (Inl RoServiceLookup, now, m0)
      | Some port \<Rightarrow>
          let m1 = m0 @ [(now, RoServiceConnect)] in
          (case probe_step RoServiceConnect REMOTE_CONNECT_TIMEOUT (va_connect va port) now of
             (Inl k, t1) \<Rightarrow> (Inl k, t1, m1)
           | (Inr _, t1) \<Rightarrow>
               let m2 = m1 @ [(t1, RoClientInit)] in
               (case probe_step RoClientInit REMOTE_CONNECT_TIMEOUT (va_client va) t1 of
                  (Inl k, t2) \<Rightarrow> (Inl k, t2, m2)
                | (Inr _, t2) \<Rightarrow>
                    (case probe_step (probe_query_stage service) READ_ONLY_QUERY_TIMEOUT (va_query va) t2 of
                       (r, t3) \<Rightarrow> (map_sum id (\<lambda>_. ()) r, t3, m2 @ [(t2, probe_query_stage service)])))))"

definition complete_read_only_probe ::
  "rsd_adapter \<Rightarrow> read_only_stage + unit \<Rightarrow> nat \<Rightarrow> nat \<Rightarrow> read_only_stage + unit" where
  "complete_read_only_probe ad primary limit now =
     (let cleanup = (case within limit (close_provider ad now) now of (Done _, _) \<Rightarrow> Inr () | _ \<Rightarrow> Inl RoCleanup) in
      case primary of Inl k \<Rightarrow> Inl k | Inr _ \<Rightarrow> cleanup)"

definition read_only_probe ::
  "probe_service \<Rightarrow> 'f open_env \<Rightarrow> 'a service_answers \<Rightarrow> fs \<Rightarrow> nat \<Rightarrow> read_only_stage + unit" where
  "read_only_probe service oe va fs now =
     (let deadline = now + READ_ONLY_ENDPOINT_TIMEOUT in
      case open_within oe fs deadline now of
        OpenFailed k _ \<Rightarrow> Inl (read_only_of_probe (pf_stage k))
      | OpenLate stage \<Rightarrow> Inl stage
      | Opened s t \<Rightarrow>
          (case probe_steps service va s t of
             (r, t', marks) \<Rightarrow>
               let (primary, end) = (if t' \<le> deadline then (r, t') else (Inl (stage_at deadline marks), deadline)) in
               complete_read_only_probe (oe_adapter oe) primary (deadline - end) end))"

definition probe_remote_pairing_afc :: "'f open_env \<Rightarrow> 'a service_answers \<Rightarrow> fs \<Rightarrow> nat \<Rightarrow> read_only_stage + unit" where
  "probe_remote_pairing_afc = read_only_probe ProbeAfc"

definition probe_remote_pairing_installation_proxy ::
  "'f open_env \<Rightarrow> 'a service_answers \<Rightarrow> fs \<Rightarrow> nat \<Rightarrow> read_only_stage + unit" where
  "probe_remote_pairing_installation_proxy = read_only_probe ProbeInstallationProxy"

text \<open>The result of closing the session is dropped.\<close>

definition probe_remote_pairing_rsd :: "'f open_env \<Rightarrow> fs \<Rightarrow> nat \<Rightarrow> rsd_probe_failure + unit" where
  "probe_remote_pairing_rsd oe fs now =
     (case open_session oe fs now of
        (Inl k, _) \<Rightarrow> Inl k
      | (Inr s, _) \<Rightarrow>
          if required_install_path_services_present (rs_services s) then Inr ()
          else Inl (probe_failure PrCoreDeviceService))"

section \<open>Clients of a session\<close>

text \<open>
  \<^verbatim>\<open>task_afc_client\<close> and \<^verbatim>\<open>installation_proxy_client\<close>: the service's port, the connection and the
  client, each before the deadline.
\<close>

definition service_client ::
  "string \<Rightarrow> 'a service_answers \<Rightarrow> rsd_session \<Rightarrow> nat \<Rightarrow> nat \<Rightarrow> (unit + unit) \<times> nat" where
  "service_client name va s deadline now =
     (case exact_rsd_service_port (rs_services s) name of
        None \<Rightarrow> (Inl (), now)
      | Some port \<Rightarrow>
          timed_bind (limited (deadline - now) () (va_connect va port) now) (\<lambda>_ t1.
          limited (deadline - t1) () (va_client va) t1))"

definition task_afc_client ::
  "'a service_answers \<Rightarrow> rsd_session \<Rightarrow> nat \<Rightarrow> nat \<Rightarrow> task_afc option \<times> nat" where
  "task_afc_client va s deadline now =
     map_prod (\<lambda>r. case r of Inl _ \<Rightarrow> None | Inr _ \<Rightarrow> Some new_afc) id (service_client AFC_SERVICE_NAME va s deadline now)"

definition installation_proxy_client ::
  "'a service_answers \<Rightarrow> rsd_session \<Rightarrow> nat \<Rightarrow> nat \<Rightarrow> (unit + unit) \<times> nat" where
  "installation_proxy_client = service_client INSTALLATION_PROXY_SERVICE_NAME"

definition installed_bundle_lookup ::
  "(nat \<Rightarrow> (idevice_error, (string \<times> plist) list) call) \<Rightarrow> string \<Rightarrow> nat \<Rightarrow> nat \<Rightarrow> bool option" where
  "installed_bundle_lookup apps bundle_id deadline now =
     (case limited (deadline - now) () apps now of
        (Inl _, _) \<Rightarrow> None | (Inr found, _) \<Rightarrow> Some (bundle_id \<in> fst ` set found))"

definition RSD_APP_LIST_TIMEOUT :: nat where "RSD_APP_LIST_TIMEOUT = 60 * 1000"

definition remote_pairing_user_apps ::
  "'f open_env \<Rightarrow> (string \<times> plist) list service_answers \<Rightarrow> fs \<Rightarrow> nat \<Rightarrow> (string \<times> plist) list option" where
  "remote_pairing_user_apps oe va fs now =
     (let deadline = now + RSD_APP_LIST_TIMEOUT in
      case open_within oe fs deadline now of
        Opened s t \<Rightarrow>
          (case installation_proxy_client va s deadline t of
             (Inl _, _) \<Rightarrow> None
           | (Inr _, t') \<Rightarrow> (case limited (deadline - t') () (va_query va) t' of (Inl _, _) \<Rightarrow> None | (Inr apps, _) \<Rightarrow> Some apps))
      | _ \<Rightarrow> None)"

section \<open>The diagnostic routes\<close>

text \<open>\<open>afc\<close> is the outcome of the network transport's own probe.\<close>

definition spike_afc_probe :: "transport_error + unit \<Rightarrow> response" where
  "spike_afc_probe afc =
     (case afc of
        Inr _ \<Rightarrow> Response 200 (Some (JObj [(''transport'', JStr ''lockdown''), (''afc'', JStr ''ok'')]))
      | Inl _ \<Rightarrow> Response 503 (Some (JObj [(''transport'', JStr ''lockdown''), (''afc'', JStr ''unavailable'')])))"

definition spike_remote_pairing_rsd_probe :: "'f open_env \<Rightarrow> fs \<Rightarrow> nat \<Rightarrow> response" where
  "spike_remote_pairing_rsd_probe oe fs now =
     (case probe_remote_pairing_rsd oe fs now of
        Inr _ \<Rightarrow> Response 200 (Some (JObj [(''transport'', JStr ''rsdCoreDevice''), (''remotePairing'', JStr ''ok''),
          (''rsd'', JStr ''ok''), (''coreDevice'', JStr ''ok'')]))
      | Inl k \<Rightarrow> Response 503 (Some (JObj [(''transport'', JStr ''rsdCoreDevice''), (''status'', JStr ''unavailable''),
          (''stage'', JStr (rsd_probe_stage_str (pf_stage k)))])))"

definition read_only_response :: "probe_service \<Rightarrow> read_only_stage + unit \<Rightarrow> response" where
  "read_only_response service r =
     (case r of
        Inr _ \<Rightarrow> Response 200 (Some (JObj [(''transport'', JStr ''rsd''), (''service'', JStr (probe_service_str service)),
          (''status'', JStr ''ok'')]))
      | Inl stage \<Rightarrow> Response 503 (Some (JObj [(''transport'', JStr ''rsd''), (''service'', JStr (probe_service_str service)),
          (''status'', JStr ''unavailable''), (''stage'', JStr (read_only_stage_str stage))])))"

definition spike_remote_pairing_afc_probe :: "'f open_env \<Rightarrow> 'a service_answers \<Rightarrow> fs \<Rightarrow> nat \<Rightarrow> response" where
  "spike_remote_pairing_afc_probe oe va fs now = read_only_response ProbeAfc (probe_remote_pairing_afc oe va fs now)"

definition spike_remote_pairing_installation_proxy_probe ::
  "'f open_env \<Rightarrow> 'a service_answers \<Rightarrow> fs \<Rightarrow> nat \<Rightarrow> response" where
  "spike_remote_pairing_installation_proxy_probe oe va fs now =
     read_only_response ProbeInstallationProxy (probe_remote_pairing_installation_proxy oe va fs now)"

datatype spike_execution = SpikeAppNotFound | SpikeReport install_report

definition run_spike_remote_pairing_install :: "install_env \<Rightarrow> uuid \<Rightarrow> server \<Rightarrow> spike_execution" where
  "run_spike_remote_pairing_install e app_id srv =
     (case opt_filter (is_file (sv_fs srv)) (Option.bind (read_db srv (\<lambda>d. app_path d app_id)) id) of
        None \<Rightarrow> SpikeAppNotFound
      | Some _ \<Rightarrow> SpikeReport (install_remote_pairing_app e Refuse RequireExisting))"

definition spike_install_status :: "install_report \<Rightarrow> nat" where
  "spike_install_status r =
     (if rp_outcome r = Installed then 200
      else if rp_error_kind r \<in> {''device_registration_required'', ''app_already_installed'', ''signing_not_ready''} then 409
      else if rp_outcome r = NotStarted then 503
      else 502)"

text \<open>\<open>diagnostic\<close> renders the signing diagnostic, which is left out when there is none.\<close>

definition spike_install_response :: "(signing_failure_diagnostic \<Rightarrow> json) \<Rightarrow> install_report \<Rightarrow> json" where
  "spike_install_response diagnostic r =
     JObj ([(''transport'', JStr ''rsd''), (''outcome'', JStr (install_outcome_str (rp_outcome r))),
        (''stage'', JStr (install_stage_str (rp_stage r))), (''cleanup'', JStr (staging_cleanup_str (rp_cleanup r))),
        (''sessionCleanup'', JStr (session_cleanup_str (rp_session_cleanup r))),
        (''installCommandCount'', JNum (int (rp_install_command_count r))),
        (''errorKind'', if rp_error_kind r = '''' then JNull else JStr (rp_error_kind r)),
        (''bundleId'', jopt JStr (rp_bundle_id r)), (''certificatePressure'', JBool (rp_certificate_pressure r))]
      @ (case rp_signing_diagnostic r of None \<Rightarrow> [] | Some d \<Rightarrow> [(''signingDiagnostic'', diagnostic d)]))"

text \<open>
  \<open>request\<close> is the parsed body, \<open>busy\<close> whether another installation holds the single flight and
  \<open>crashed\<close> whether the spawned task was lost.
\<close>

definition spike_remote_pairing_install ::
  "(signing_failure_diagnostic \<Rightarrow> json) \<Rightarrow> install_env \<Rightarrow> action_headers \<Rightarrow> nat \<Rightarrow> uuid option \<Rightarrow> bool \<Rightarrow> bool
     \<Rightarrow> server \<Rightarrow> response" where
  "spike_remote_pairing_install diagnostic e h body_len request busy crashed srv =
     (if \<not> action_allowed h then action_required
      else if 1024 < body_len then message 400 ''Invalid installation request.''
      else (case request of
        None \<Rightarrow> message 400 ''Invalid installation request.''
      | Some app_id \<Rightarrow>
          if busy then message 409 ''An RSD installation is already in progress.''
          else if crashed then message 500 ''Installation request failed.''
          else (case run_spike_remote_pairing_install e app_id srv of
                  SpikeAppNotFound \<Rightarrow> message 404 ''Uploaded IPA was not found.''
                | SpikeReport r \<Rightarrow> Response (spike_install_status r) (Some (spike_install_response diagnostic r)))))"

end
