(* ===== verification/RemoteSessionContract.thy ===== *)
theory RemoteSessionContract
  imports Probes
begin

text \<open>
  What sessions over a stored pairing guarantee: the commitment of a new pairing keeps its deadline
  and verifies the device twice, a session is only opened with an authenticated and verified device,
  and what a lookup of the device's identity leaves behind.
\<close>

section \<open>Steps in time\<close>

text \<open>A step that goes forward in time, and past its deadline only if it starts there.\<close>

definition in_time :: "nat \<Rightarrow> (nat \<Rightarrow> 'a \<times> nat) \<Rightarrow> bool" where
  "in_time deadline step \<longleftrightarrow> (\<forall>now. now \<le> snd (step now) \<and> snd (step now) \<le> max now deadline)"

lemma in_timeD: "in_time deadline step \<Longrightarrow> step now = (r, t) \<Longrightarrow> now \<le> t \<and> t \<le> max now deadline"
  unfolding in_time_def by (metis snd_conv)

lemma within_time: "within limit c now = (r, t) \<Longrightarrow> now \<le> t \<and> t \<le> now + limit"
  by (cases c) (auto split: if_splits)

lemma remaining_late: "now + remaining deadline now \<le> max now deadline"
  by (auto simp: remaining_def)

lemma in_time_deadline_step: "in_time deadline (deadline_step deadline stage late kind ask)"
  using remaining_late
  by (auto simp: in_time_def deadline_step_def split: prod.splits timed.splits
      dest!: within_time intro: order_trans)

lemma in_time_then:
  assumes "in_time deadline f" "\<And>v. in_time deadline (g v)"
  shows "in_time deadline (\<lambda>now. attempt_then (f now) g)"
  unfolding in_time_def
proof
  fix now
  obtain r t where f: "f now = (r, t)" by fastforce
  note f' = in_timeD [OF assms(1) f]
  show "now \<le> snd (attempt_then (f now) g) \<and> snd (attempt_then (f now) g) \<le> max now deadline"
  proof (cases r)
    case (Got v)
    obtain r' t' where g: "g v t = (r', t')" by fastforce
    from in_timeD [OF assms(2) g] f' show ?thesis by (auto simp: f Got attempt_then_def g)
  qed (use f' in \<open>simp_all add: f attempt_then_def\<close>)
qed

lemma in_time_option:
  "in_time deadline f \<Longrightarrow> (\<And>v. in_time deadline (g v)) \<Longrightarrow>
     in_time deadline (\<lambda>now. case x of None \<Rightarrow> f now | Some v \<Rightarrow> g v now)"
  by (cases x) simp_all

lemma in_time_pair:
  "(\<And>a b. in_time deadline (f a b)) \<Longrightarrow> in_time deadline (case p of (a, b) \<Rightarrow> f a b)"
  by (cases p) simp

lemma in_time_stay: "in_time deadline (\<lambda>t. (r, t))"
  by (simp add: in_time_def)

lemma in_time_verification_step:
  "in_time deadline (verification_step (Deadline deadline) stage ask)"
  using remaining_late
  by (auto simp: in_time_def verification_step_def split: prod.splits timed.splits sum.splits
      dest!: within_time intro: order_trans)

lemma in_time_verify_established:
  "in_time deadline (verify_established_pairing rd address follow_up (Deadline deadline))"
  unfolding in_time_def verify_established_pairing_def
proof
  fix now
  obtain r t where a: "verification_step (Deadline deadline) AttemptPairVerify (rd_attempt rd address follow_up) now = (r, t)"
    by fastforce
  obtain r' t' where v: "verification_step (Deadline deadline) ValidatePairing (rd_validate rd address follow_up) t = (r', t')"
    by fastforce
  show "now \<le> snd (case verification_step (Deadline deadline) AttemptPairVerify (rd_attempt rd address follow_up) now of
        (Inl failure, t) \<Rightarrow> (Inl failure, t)
      | (Inr _, t) \<Rightarrow> verification_step (Deadline deadline) ValidatePairing (rd_validate rd address follow_up) t)
    \<and> snd (case verification_step (Deadline deadline) AttemptPairVerify (rd_attempt rd address follow_up) now of
        (Inl failure, t) \<Rightarrow> (Inl failure, t)
      | (Inr _, t) \<Rightarrow> verification_step (Deadline deadline) ValidatePairing (rd_validate rd address follow_up) t)
      \<le> max now deadline"
    using in_timeD [OF in_time_verification_step a] in_timeD [OF in_time_verification_step v]
    by (cases r) (auto simp: a v)
qed

lemma in_time_verify_step: "in_time deadline (verify_step rd address follow_up stage deadline)"
  using in_timeD [OF in_time_verify_established [of deadline rd address follow_up]]
  by (auto simp: in_time_def verify_step_def split: prod.splits sum.splits)

lemmas in_time_intros =
  in_time_then in_time_option in_time_pair in_time_stay in_time_deadline_step in_time_verify_step

lemma in_time_commit_in_tunnel: "in_time deadline (commit_in_tunnel rd address info deadline)"
  unfolding commit_in_tunnel_def tunnel_service_port_def connect_tunnel_service_def
  by (intro in_time_intros)

lemma in_time_commit_address: "in_time deadline (commit_address rd address port deadline)"
proof -
  have "in_time deadline (\<lambda>t. map_prod never_stops id (commit_in_tunnel rd address info deadline t))" for info
    using in_time_commit_in_tunnel by (simp add: in_time_def map_prod_def split_beta)
  then show ?thesis
    unfolding commit_address_def bootstrap_address_def connect_tunnel_def by (intro in_time_intros)
qed

lemma commit_candidates_time:
  "commit_candidates rd deadline cs k now = (r, t) \<Longrightarrow> now \<le> t \<and> t \<le> max now deadline"
proof (induction cs arbitrary: k now)
  case (Cons c cs)
  obtain address port where c: "c = (address, port)" by fastforce
  obtain a t1 where a: "commit_address rd address port deadline now = (a, t1)" by fastforce
  from in_timeD [OF in_time_commit_address a] Cons show ?case
    by (cases a) (fastforce simp: c a)+
qed simp

lemma discover_loop_time:
  "discover_loop resolve deadline events found now = (r, t) \<Longrightarrow> now \<le> t \<and> t \<le> max now deadline"
proof (induction events arbitrary: found now)
  case (Cons event events)
  obtain w t1 where w: "within (deadline - now) event now = (w, t1)" by fastforce
  from within_time [OF w] have "now \<le> t1" "t1 \<le> max now deadline" by auto
  with Cons w show ?case
    by (fastforce split: if_splits timed.splits option.splits)
qed auto

lemma discover_time:
  "discover_endpoints_until de irk deadline now = (r, t) \<Longrightarrow> now \<le> t \<and> t \<le> max now deadline"
  by (auto simp: discover_endpoints_until_def split: option.splits if_splits prod.splits dest!: discover_loop_time)

section \<open>What a success means\<close>

text \<open>Both verification steps of a client at the address were answered with success.\<close>

definition verified :: "remote_device \<Rightarrow> ip_address \<Rightarrow> bool \<Rightarrow> bool" where
  "verified rd address follow_up \<longleftrightarrow>
     (\<exists>t d. rd_attempt rd address follow_up t = Call d (Inr ()))
     \<and> (\<exists>t d. rd_validate rd address follow_up t = Call d (Inr ()))"

text \<open>The endpoint was advertised with a tag that the paired device's key validates.\<close>

definition endpoint_trusted :: "discovery_env \<Rightarrow> string \<Rightarrow> remote_endpoint \<Rightarrow> bool" where
  "endpoint_trusted de irk ep \<longleftrightarrow> ep_port ep \<noteq> 0 \<and> ep_addresses ep \<noteq> []
     \<and> (\<exists>(info :: resolved_pairing) identifier tag. rv_identifier info = Some identifier \<and> rv_auth_tag info = Some tag
          \<and> de_valid de irk identifier tag \<and> set (ep_addresses ep) = set (rv_addresses info)
          \<and> ep_port ep = rv_port info)"

lemma resolved_endpoint_trusted:
  assumes "resolved_endpoint (de_valid de) show_ip irk (info :: resolved_pairing) = Some ep"
  shows "endpoint_trusted de irk ep"
proof -
  from assms obtain ident tag where "rv_identifier info = Some ident" "rv_auth_tag info = Some tag"
    "de_valid de irk ident tag" "rv_port info \<noteq> 0" "rv_addresses info \<noteq> []"
    "ep = \<lparr>ep_addresses = sort_key (\<lambda>ip. (\<not> is_ipv4 ip, show_ip ip)) (rv_addresses info), ep_port = rv_port info\<rparr>"
    by (auto simp: resolved_endpoint_def authenticated_endpoint_def split: option.splits if_splits)
  then show ?thesis
    unfolding endpoint_trusted_def
    by (intro conjI exI [of _ info] exI [of _ ident] exI [of _ tag]) simp_all
qed

lemma discover_loop_found:
  "discover_loop resolve deadline events found now = (r, t) \<Longrightarrow>
     \<forall>ep \<in> set found. P ep \<Longrightarrow> (\<And>info ep. resolve info = Some ep \<Longrightarrow> P ep) \<Longrightarrow> \<forall>ep \<in> set r. P ep"
proof (induction events arbitrary: found now)
  case (Cons event events)
  obtain w t1 where w: "within (deadline - now) event now = (w, t1)" by fastforce
  show ?case
  proof (cases "deadline - now = 0")
    case True
    with Cons.prems show ?thesis by simp
  next
    case False
    show ?thesis
    proof (cases w)
      case (Done info)
      show ?thesis
      proof (cases info)
        case None
        with Cons False w Done show ?thesis by simp
      next
        case (Some i)
        let ?found = "case resolve i of None \<Rightarrow> found
          | Some endpoint \<Rightarrow> if endpoint \<in> set found then found else found @ [endpoint]"
        from False w Done Some Cons.prems(1)
        have rest: "discover_loop resolve deadline events ?found t1 = (r, t)" by simp
        have "\<forall>ep \<in> set ?found. P ep" using Cons.prems(2,3) by (auto split: option.splits)
        from Cons.IH [OF rest this Cons.prems(3)] show ?thesis .
      qed
    qed (use Cons.prems False w in simp_all)
  qed
qed simp

lemma discover_trusted:
  assumes "discover_endpoints_until de irk deadline now = (Some endpoints, t)"
  shows "\<exists>k. irk = Some k \<and> endpoints \<noteq> [] \<and> (\<forall>ep \<in> set endpoints. endpoint_trusted de k ep)"
  using assms
  by (auto simp: discover_endpoints_until_def split: option.splits if_splits prod.splits
      dest!: discover_loop_found [where P = "endpoint_trusted de (the irk)"] resolved_endpoint_trusted)

lemma deadline_step_Got:
  "deadline_step deadline stage late kind ask now = (Got v, t) \<Longrightarrow> \<exists>d. ask now = Call d (Inr v)"
  by (cases "ask now") (auto simp: deadline_step_def split: if_splits sum.splits)

lemma attempt_then_Got:
  "attempt_then r f = (Got v, t) \<longleftrightarrow> (\<exists>u t'. r = (Got u, t') \<and> f u t' = (Got v, t))"
  by (cases r; cases "fst r") (auto simp: attempt_then_def)

lemma verification_step_Inr:
  "verification_step timing stage ask now = (Inr u, t) \<Longrightarrow> \<exists>d. ask now = Call d (Inr ())"
  by (cases "ask now") (auto simp: verification_step_def split: if_splits sum.splits)

lemma verify_established_Inr:
  "verify_established_pairing rd address follow_up timing now = (Inr u, t) \<Longrightarrow> verified rd address follow_up"
  by (auto simp: verify_established_pairing_def verified_def split: prod.splits sum.splits
      dest!: verification_step_Inr)

lemma verify_step_Got:
  "verify_step rd address follow_up stage deadline now = (Got u, t) \<Longrightarrow> verified rd address follow_up"
  by (auto simp: verify_step_def split: prod.splits sum.splits if_splits dest: verify_established_Inr)

lemma commit_address_Got:
  assumes "commit_address rd address port deadline now = (Got u, t)"
  shows "verified rd address False \<and> verified rd address True"
proof -
  from assms obtain v t0 info t1 where o: "bootstrap_address rd address port deadline now = (Got v, t0)"
    and c: "map_prod never_stops id (commit_in_tunnel rd address info deadline t1) = (Got u, t)"
    by (auto simp: commit_address_def attempt_then_Got)
  from o have "verified rd address False"
    by (auto simp: bootstrap_address_def attempt_then_Got dest: verify_step_Got)
  moreover from c have "commit_in_tunnel rd address info deadline t1 = (Got u, t)"
    by (cases "commit_in_tunnel rd address info deadline t1"; cases "fst (commit_in_tunnel rd address info deadline t1)") auto
  then have "verified rd address True"
    by (auto simp: commit_in_tunnel_def attempt_then_Got split: option.splits dest: verify_step_Got)
  ultimately show ?thesis ..
qed

lemma commit_candidates_Inr:
  "commit_candidates rd deadline cs k now = (Inr u, t) \<Longrightarrow>
     \<exists>address port. (address, port) \<in> set cs \<and> verified rd address False \<and> verified rd address True"
proof (induction cs arbitrary: k now)
  case (Cons c cs)
  obtain address port where c: "c = (address, port)" by fastforce
  obtain a t1 where a: "commit_address rd address port deadline now = (a, t1)" by fastforce
  show ?case
  proof (cases a)
    case (Got v)
    with a commit_address_Got [of rd address port deadline now v t1] show ?thesis by (auto simp: c)
  qed (use Cons a in \<open>fastforce simp: c\<close>)+
qed simp

lemma validate_candidates_Some:
  "validate_candidates rd limit cs now = (Some address, t) \<Longrightarrow>
     (\<exists>port. (address, port) \<in> set cs) \<and> verified rd address False"
proof (induction cs arbitrary: now)
  case (Cons c cs)
  obtain a port where c: "c = (a, port)" by fastforce
  from Cons show ?case
    by (auto simp: c split: prod.splits timed.splits sum.splits dest: verify_established_Inr)
qed simp

lemma candidate_endpoint:
  "(address, port) \<in> set (endpoint_candidates endpoints) \<longleftrightarrow>
     (\<exists>ep \<in> set endpoints. address \<in> set (ep_addresses ep) \<and> port = ep_port ep)"
  by (auto simp: endpoint_candidates_def)

lemma usable_material_Some:
  "usable_material oe fs = Some irk \<Longrightarrow>
     has_stored_pairing (oe_lib oe) (oe_fault oe) (oe_dir oe) (oe_host oe) fs \<and> length irk = 16"
  by (auto simp: usable_material_def has_stored_pairing_def opt_filter_def split: sum.splits if_splits option.splits)

lemma open_session_InrD:
  assumes "open_session oe fs now = (Inr s, r)"
  shows "\<exists>irk ep. usable_material oe fs = Some irk \<and> endpoint_trusted (oe_discovery oe) irk ep
    \<and> rs_address s \<in> set (ep_addresses ep) \<and> verified (oe_device oe) (rs_address s) False"
proof -
  from assms obtain irk endpoints t1 address t2 info t3 t4 where
    irk: "usable_material oe fs = Some irk" and
    d: "discover_endpoints_until (oe_discovery oe) (Some irk) (now + REMOTE_DISCOVERY_TIMEOUT) now = (Some endpoints, t1)" and
    v: "connect_and_validate (oe_device oe) endpoints t1 = (Inr address, t2)" and
    h: "session_handshake (oe_device oe) (oe_adapter oe) address info t3 = (Inr s, t4)"
    by (auto simp: open_session_def Let_def split: option.splits sum.splits prod.splits)
  from h have s: "rs_address s = address"
    by (auto simp: session_handshake_def Let_def split: prod.splits sum.splits)
  from v obtain port where "(address, port) \<in> set (endpoint_candidates endpoints)" "verified (oe_device oe) address False"
    by (auto simp: connect_and_validate_def split: prod.splits option.splits dest!: validate_candidates_Some)
  with discover_trusted [OF d] irk show ?thesis by (auto simp: candidate_endpoint s)
qed

lemma limited_Inl: "limited limit k ask now = (Inl k', t) \<Longrightarrow> k' = k"
  by (auto simp: limited_def split: prod.splits timed.splits)

lemma timed_bind_Inl:
  "timed_bind r f = (Inl k, t) \<longleftrightarrow> r = (Inl k, t) \<or> (\<exists>v t'. r = (Inr v, t') \<and> f v t' = (Inl k, t))"
  by (cases r; cases "fst r") (auto simp: timed_bind_def)

lemma close_install_session_needed: "close_install_session ad now = (c, t) \<Longrightarrow> c \<noteq> ScNotNeeded"
  by (auto simp: close_install_session_def split: prod.splits timed.splits)

lemma session_tunnel_Inl: "session_tunnel rd address now = (Inl k, t) \<Longrightarrow> k = probe_failure PrTunnel"
  by (auto simp: session_tunnel_def Let_def timed_bind_Inl dest: limited_Inl split: if_splits)

lemma session_handshake_Inl:
  assumes "session_handshake rd ad address info now = (Inl k, t)"
  shows "pf_stage k = PrRsdHandshake \<and> pf_cleanup k \<noteq> ScNotNeeded"
proof -
  let ?r = "timed_bind (limited REMOTE_CONNECT_TIMEOUT (probe_failure PrRsdHandshake)
    (rd_rsd_connect rd address (ti_server_rsd_port info)) now) (\<lambda>_ t1.
    limited REMOTE_CONNECT_TIMEOUT (probe_failure PrRsdHandshake) (rd_handshake rd address) t1)"
  from assms obtain k1 t1 c t2 where r: "?r = (Inl k1, t1)"
    and c: "close_install_session ad t1 = (c, t2)" and k: "k = k1\<lparr>pf_cleanup := c\<rparr>"
    by (auto simp: session_handshake_def Let_def split: prod.splits sum.splits)
  from r have "k1 = probe_failure PrRsdHandshake"
    by (auto simp: timed_bind_Inl dest: limited_Inl)
  with close_install_session_needed [OF c] show ?thesis by (simp add: k probe_failure_def)
qed

section \<open>Properties\<close>

definition demo_info :: resolved_pairing where
  "demo_info = \<lparr>rv_identifier = Some ''i'', rv_auth_tag = Some ''t'', rv_addresses = [V4 1], rv_port = 5\<rparr>"

definition demo_discovery :: discovery_env where
  "demo_discovery = \<lparr>de_valid = (\<lambda>_ _ _. True), de_show_ip = (\<lambda>_. ''''), de_browses = True,
     de_events = [Call 1 (Inr (Some demo_info))]\<rparr>"

text \<open>A device that answers every call after a millisecond.\<close>

definition demo_device :: remote_device where
  "demo_device = \<lparr>rd_connect = (\<lambda>_ _ _. Call 1 (Inr ())), rd_attempt = (\<lambda>_ _ _. Call 1 (Inr ())),
     rd_validate = (\<lambda>_ _ _. Call 1 (Inr ())), rd_listener = (\<lambda>_ _. Call 1 (Inr 6)),
     rd_tunnel = (\<lambda>_ _. Call 1 (Inr \<lparr>ti_server_rsd_port = 7, ti_client_address = ''h'', ti_server_address = ''p''\<rparr>)),
     rd_rsd_connect = (\<lambda>_ _ _. Call 1 (Inr ())),
     rd_handshake = (\<lambda>_ _. Call 1 (Inr ([TUNNEL_SERVICE_NAME \<mapsto> 9, LOCKDOWN_SERVICE_NAME \<mapsto> 10],
       [''UniqueDeviceID'' \<mapsto> PString ''u'']))),
     rd_xpc_new = (\<lambda>_ _. Call 1 (Inr ())), rd_xpc_handshake = (\<lambda>_ _. Call 1 (Inr ())),
     rd_xpc_root = (\<lambda>_ _. Call 1 (Inr ())), rd_parse_ip = (\<lambda>_. Some (V4 2))\<rparr>"

lemma demo_discover:
  "now + 1 < deadline \<Longrightarrow> discover_endpoints_until demo_discovery (Some irk) deadline now =
     (Some [\<lparr>ep_addresses = [V4 1], ep_port = 5\<rparr>], deadline)"
  by (simp add: discover_endpoints_until_def demo_discovery_def demo_info_def resolved_endpoint_def
      authenticated_endpoint_def)

lemma demo_commit_run: "commit_remote_pairing demo_discovery demo_device (Some irk) 50000 0 = (Inr (), 10014)"
  by (simp add: commit_remote_pairing_def REMOTE_DISCOVERY_TIMEOUT_def demo_discover
      commit_remote_pairing_endpoints_def endpoint_candidates_def commit_address_def bootstrap_address_def
      connect_tunnel_def tunnel_service_port_def connect_tunnel_service_def commit_in_tunnel_def attempt_then_def deadline_step_def verify_step_def verify_established_pairing_def
      verification_step_def remaining_def REMOTE_CONNECT_TIMEOUT_def tunnel_checked_def demo_device_def
      TUNNEL_SERVICE_NAME_def LOCKDOWN_SERVICE_NAME_def)

text \<open>
  C25: The commitment of a new pairing ends by its deadline, whatever the network and the device do
  and however many addresses were discovered, or at once when it starts after the deadline.
\<close>

theorem commit_within_deadline:
  "now \<le> snd (commit_remote_pairing de rd alt_irk deadline now)
   \<and> snd (commit_remote_pairing de rd alt_irk deadline now) \<le> max now deadline"
proof -
  obtain r t where d: "discover_endpoints_until de alt_irk (min deadline (now + REMOTE_DISCOVERY_TIMEOUT)) now = (r, t)"
    by fastforce
  have t: "now \<le> t" "t \<le> max now deadline" using discover_time [OF d] by auto
  show ?thesis
  proof (cases r)
    case (Some endpoints)
    obtain r' t' where c: "commit_remote_pairing_endpoints rd endpoints deadline t = (r', t')" by fastforce
    then have "t \<le> t' \<and> t' \<le> max t deadline"
      unfolding commit_remote_pairing_endpoints_def by (rule commit_candidates_time)
    with t show ?thesis by (auto simp: commit_remote_pairing_def d Some c)
  qed (use t in \<open>simp add: commit_remote_pairing_def d\<close>)
qed

text \<open>
  C13: A pairing that is committed was verified twice with the paired device: at an address it
  advertised with a tag its key validates, first directly and then through the tunnel's service.
\<close>

theorem committed_pairing_verified:
  assumes "commit_remote_pairing de rd alt_irk deadline now = (Inr (), t)"
  shows "\<exists>irk ep address. alt_irk = Some irk \<and> endpoint_trusted de irk ep \<and> address \<in> set (ep_addresses ep)
    \<and> verified rd address False \<and> verified rd address True"
proof -
  from assms obtain endpoints t1 where
    d: "discover_endpoints_until de alt_irk (min deadline (now + REMOTE_DISCOVERY_TIMEOUT)) now = (Some endpoints, t1)" and
    c: "commit_remote_pairing_endpoints rd endpoints deadline t1 = (Inr (), t)"
    by (auto simp: commit_remote_pairing_def split: prod.splits option.splits)
  from commit_candidates_Inr [OF c [unfolded commit_remote_pairing_endpoints_def]] discover_trusted [OF d]
  show ?thesis by (auto simp: candidate_endpoint)
qed

theorem committed_pairing_verified_witness:
  "commit_remote_pairing demo_discovery demo_device (Some ''k'') 50000 0 = (Inr (), 10014)
   \<and> (\<exists>address. verified demo_device address False \<and> verified demo_device address True)"
  using committed_pairing_verified [OF demo_commit_run] demo_commit_run by blast

text \<open>A stored pairing with the key of the demonstration device.\<close>

definition paired_lib :: "string pairing_lib" where
  "paired_lib = demo_pairing_lib\<lparr>
     pl_crypto := (pl_crypto demo_pairing_lib)\<lparr>cl_unpair := (\<lambda>_. Some (replicate 12 CHR ''n'', ''c''))\<rparr>,
     pl_alt_irk := (\<lambda>_. Some (replicate 16 CHR ''k'')),
     pl_decode := (\<lambda>_. Some \<lparr>sp_host_alt_irk = replicate 16 CHR ''k'', sp_pairing_file = ''f'', sp_peer = Some ''p''\<rparr>)\<rparr>"

definition paired_fs :: fs where
  "paired_fs = [state_file ''d'' \<mapsto> ''s'', key_file ''d'' \<mapsto> replicate 32 CHR ''k'']"

definition paired_env :: "string open_env" where
  "paired_env = \<lparr>oe_lib = paired_lib, oe_fault = (\<lambda>_. False), oe_dir = ''d'', oe_host = rn_host demo_random,
     oe_discovery = demo_discovery, oe_device = demo_device,
     oe_adapter = \<lparr>ra_close = (\<lambda>_. Call 1 (Inr ())), ra_connect_closed = (\<lambda>_. Call 1 (Inl NetBrokenPipe))\<rparr>\<rparr>"

lemma paired_material: "usable_material paired_env paired_fs = Some (replicate 16 CHR ''k'')"
  by (simp add: usable_material_def load_existing_def load_encrypted_def read_file_def is_file_def
      paired_env_def paired_fs_def paired_lib_def demo_pairing_lib_def opt_filter_def ok_or_def)

lemma paired_open:
  "\<exists>t marks. open_session paired_env paired_fs now =
     (Inr \<lparr>rs_address = V4 1, rs_services = [TUNNEL_SERVICE_NAME \<mapsto> 9, LOCKDOWN_SERVICE_NAME \<mapsto> 10],
        rs_properties = [''UniqueDeviceID'' \<mapsto> PString ''u'']\<rparr>, t, marks) \<and> t \<le> now + 20000"
  unfolding open_session_def Let_def paired_material
  by (simp add: paired_env_def REMOTE_DISCOVERY_TIMEOUT_def demo_discover connect_and_validate_def
      endpoint_candidates_def session_tunnel_def session_handshake_def timed_bind_def limited_def
      verify_established_pairing_def verification_step_def REMOTE_CONNECT_TIMEOUT_def demo_device_def)

text \<open>
  A session is opened only with the device that was paired: the pairing is stored with its peer
  and a 16-byte key, the session's address was advertised with a tag this key validates, and the
  device there passed both verification steps.
\<close>

theorem session_only_with_paired_device:
  assumes "open_session oe fs now = (Inr s, t, marks)"
  shows "has_stored_pairing (oe_lib oe) (oe_fault oe) (oe_dir oe) (oe_host oe) fs
    \<and> (\<exists>irk ep. length irk = 16 \<and> endpoint_trusted (oe_discovery oe) irk ep
         \<and> rs_address s \<in> set (ep_addresses ep) \<and> verified (oe_device oe) (rs_address s) False)"
  using open_session_InrD [OF assms] by (blast dest: usable_material_Some)

theorem session_only_with_paired_device_witness:
  "\<exists>s t marks. open_session paired_env paired_fs 0 = (Inr s, t, marks)
     \<and> verified demo_device (rs_address s) False"
proof -
  from paired_open [of 0] obtain s t marks where s: "open_session paired_env paired_fs 0 = (Inr s, t, marks)" by blast
  have dev: "oe_device paired_env = demo_device" by (simp add: paired_env_def)
  from session_only_with_paired_device [OF s] have "verified demo_device (rs_address s) False"
    unfolding dev by blast
  with s show ?thesis by blast
qed

text \<open>
  A failure to open a session says whether a session was left to close: it reports a cleanup,
  done or failed, exactly when it failed in the handshake, which is the stage in which the adapter
  already exists. The installation relies on this when it stops at its deadline.
\<close>

theorem open_failure_reports_cleanup:
  "case open_session oe fs now of
     (Inl k, _) \<Rightarrow> (pf_cleanup k \<noteq> ScNotNeeded) = (pf_stage k = PrRsdHandshake)
   | (Inr _, _) \<Rightarrow> True"
proof -
  have "(pf_cleanup k \<noteq> ScNotNeeded) = (pf_stage k = PrRsdHandshake)"
    if "open_session oe fs now = (Inl k, t, marks)" for k t marks
    using that
    by (auto simp: open_session_def Let_def connect_and_validate_def probe_failure_def
        dest!: session_tunnel_Inl session_handshake_Inl split: option.splits sum.splits prod.splits)
  then show ?thesis by (auto split: prod.splits sum.splits)
qed

text \<open>
  C26: A forgotten pairing can come back in the list of devices. A lookup of the identity that is
  under way while the pairing is forgotten stores the identity after the forgetting has cleared it;
  from then on every lookup returns the forgotten device without asking it, although no pairing is
  stored.
\<close>

theorem forgotten_identity_returns:
  assumes "lookup_identity oe la fs now = Some i"
    and "forget_pairing fault (oe_dir oe) fs None = (Inr (), fs', cache')"
    and "remote_pairing_device_identity oe la now (\<lambda>_. (fs', cache')) (fs, None) = (r, st)"
  shows "\<not> has_stored_pairing (oe_lib oe) (oe_fault oe) (oe_dir oe) (oe_host oe) (fst st)
    \<and> remote_pairing_device_identity oe la later id st = (Some i, st)"
proof -
  have "fs' (state_file (oe_dir oe)) = None"
    using assms(2) by (auto simp: forget_pairing_def fs_remove_def split: if_splits)
  moreover have "st = (fs', Some i)"
    using assms(1,3) by (auto simp: remote_pairing_device_identity_def)
  ultimately show ?thesis
    by (simp add: remote_pairing_device_identity_def has_stored_pairing_def load_existing_def is_file_def)
qed

definition demo_lockdown :: lockdown_answers where
  "demo_lockdown = \<lparr>la_connect = (\<lambda>_ _. Call 1 (Inr ())), la_client = (\<lambda>_. Call 1 (Inr ())),
     la_value = (\<lambda>_ _. Call 1 (Inr (PString ''u'')))\<rparr>"

lemma trim_u: "trim ''u'' = ''u''"
  by (simp add: trim_def trim_start.simps trim_end.simps ws_len_def ws_suffix_len_def byte_of_def)

lemma demo_lookup: "\<exists>i. lookup_identity paired_env demo_lockdown paired_fs 0 = Some i"
proof -
  from paired_open [of 0] obtain t marks where s: "open_session paired_env paired_fs 0 =
     (Inr \<lparr>rs_address = V4 1, rs_services = [TUNNEL_SERVICE_NAME \<mapsto> 9, LOCKDOWN_SERVICE_NAME \<mapsto> 10],
        rs_properties = [''UniqueDeviceID'' \<mapsto> PString ''u'']\<rparr>, t, marks)" and t: "t \<le> 0 + 20000" by blast
  show ?thesis
    using t
    by (simp add: lookup_identity_def open_within_def s RSD_IDENTITY_LOOKUP_TIMEOUT_def
        verified_signing_identity_def exact_rsd_service_port_def TUNNEL_SERVICE_NAME_def LOCKDOWN_SERVICE_NAME_def
        timed_bind_def limited_def demo_lockdown_def REMOTE_CONNECT_TIMEOUT_def validate_rsd_identity_def
        opt_filter_def new_identity_def trim_u Let_def)
qed

theorem forgotten_identity_returns_witness:
  "\<exists>i st. \<not> has_stored_pairing paired_lib (\<lambda>_. False) ''d'' (rn_host demo_random) (fst st)
     \<and> remote_pairing_device_identity paired_env demo_lockdown 99 id st = (Some i, st)"
proof -
  from demo_lookup obtain i where i: "lookup_identity paired_env demo_lockdown paired_fs 0 = Some i" ..
  have f: "forget_pairing (\<lambda>_. False) (oe_dir paired_env) paired_fs None =
      (Inr (), paired_fs(state_file ''d'' := None), None)"
    by (simp add: forget_pairing_def fs_remove_def paired_env_def paired_fs_def)
  obtain r st where run: "remote_pairing_device_identity paired_env demo_lockdown 0
      (\<lambda>_. (paired_fs(state_file ''d'' := None), None)) (paired_fs, None) = (r, st)" by (rule prod.exhaust)
  have env: "oe_lib paired_env = paired_lib" "oe_fault paired_env = (\<lambda>_. False)" "oe_dir paired_env = ''d''"
    "oe_host paired_env = rn_host demo_random" by (simp_all add: paired_env_def)
  from forgotten_identity_returns [OF i f run, of 99] show ?thesis unfolding env by blast
qed

end
