(* ===== verification/SigningCleanup.thy ===== *)
theory SigningCleanup
  imports SigningRun
begin

text \<open>
  A signing run leaves no file behind. The theory follows the disk through a whole run
  (\<^verbatim>\<open>src/signing.rs\<close>, \<^verbatim>\<open>sign_for_device_with_sideloader\<close> and its callers): the private link,
  what the signer extracts, the move of the signed application, and what each drop removes.
\<close>

section \<open>What a snapshot changes\<close>

text \<open>
  \<open>kept_at\<close>: a path is as before, or was absent and is now one of the directories leading to the
  storage, or is one of \<open>left\<close>, the paths given up to the signer.
\<close>

definition kept_at :: "components set \<Rightarrow> components \<Rightarrow> disk \<Rightarrow> disk \<Rightarrow> components \<Rightarrow> bool" where
  "kept_at left storage d d' q \<longleftrightarrow> dk_nodes d' q = dk_nodes d q
     \<or> prefix q storage \<and> dk_nodes d q = None \<and> dk_nodes d' q = Some DirNode
     \<or> q \<in> left"

lemma take_frame_quarantined:
  assumes "take_signed_app h force fresh source storage cs d = (r, d')"
    "\<And>owned root expected. r = Inr (owned, root, expected) \<Longrightarrow> root \<noteq> direct_path fresh storage"
    "\<not> prefix source q" "\<not> prefix (quarantine_path fresh (butlast source)) q"
  shows "dk_nodes d' q = dk_nodes d q"
  using assms quarantine_frame [OF _ assms(3,4), of h storage d]
  by (auto simp: take_signed_app_def Let_def split: rename_result.splits prod.splits sum.splits if_splits)

lemma direct_not_below_storage [simp]: "\<not> prefix (direct_path fresh storage) storage"
  by (auto simp: direct_path_def dest: prefix_length_le)

lemma snapshot_data:
  "snapshot_signed_app h fresh source storage d = (r, d') \<Longrightarrow> dk_data d' = dk_data d"
  by (erule snapshot_cases) (auto simp: take_data dest: create_dir_all_frame(1))

lemma snapshot_frame:
  assumes run: "snapshot_signed_app h fresh source storage d = (r, d')"
    and q: "\<not> prefix source q" "\<not> prefix (quarantine_path fresh (butlast source)) q"
      "\<not> prefix (direct_path fresh storage) q"
    and dir: "dk_nodes d source = Some DirNode"
  shows "kept_at {} storage d d' q"
  using run
proof (cases rule: snapshot_cases)
  case (refused e)
  then show ?thesis by (auto simp: kept_at_def dest: create_dir_all_frame(2) [where q = q])
next
  case (not_taken e d1 cs)
  with take_frame [OF not_taken(4) q] create_dir_all_frame(2) [OF not_taken(2), of q] show ?thesis
    by (auto simp: kept_at_def)
next
  case (rejected e d1 cs owned root expected d2)
  from take_InrD [OF rejected(5) create_keeps_directory [OF rejected(3) dir]] q have "\<not> prefix root q"
    by auto
  with rejected(6) take_frame [OF rejected(5) q] create_dir_all_frame(2) [OF rejected(3), of q]
  show ?thesis by (auto simp: kept_at_def)
next
  case (owned a d1 cs expected)
  with take_frame [OF owned(4) q] create_dir_all_frame(2) [OF owned(2), of q] show ?thesis
    by (auto simp: kept_at_def)
qed

text \<open>
  What is known after a snapshot whose source lies strictly below a directory \<open>root\<close>, when the
  storage and \<open>root\<close> do not contain each other: outside \<open>root\<close> only the directory the artifact
  owns is new, and only if there is an artifact.
\<close>

lemma snapshot_outside:
  assumes run: "snapshot_signed_app h fresh source storage d = (r, d')"
    and "removes_all h" "dk_nodes d source = Some DirNode" "strict_prefix root source"
    and free: "\<And>q. prefix (direct_path fresh storage) q \<Longrightarrow> dk_nodes d q = None"
    and q: "\<not> prefix root q"
    and own: "\<And>a. r = Inr a \<Longrightarrow> \<not> prefix (sga_cleanup_root a) q"
  shows "kept_at {} storage d d' q"
proof -
  have src: "\<not> prefix source q" using assms(4) q by (meson prefix_order.less_le prefix_order.trans)
  have par: "prefix root (butlast source)"
    using assms(4) by (cases source rule: rev_cases) (auto simp: strict_prefix_def)
  then have qua: "\<not> prefix (quarantine_path fresh (butlast source)) q"
    using q unfolding quarantine_path_def by (meson append_prefixD prefix_order.trans)
  show ?thesis
  proof (cases "prefix (direct_path fresh storage) q")
    case False
    from snapshot_frame [OF run src qua False assms(3)] show ?thesis .
  next
    case below: True
    then have old: "dk_nodes d q = None" by (rule free)
    have "\<not> prefix q storage" using below direct_not_below_storage prefix_order.trans by blast
    then have made: "dk_nodes d1 q = None" if "create_dir_all h storage d = (ok, d1)" for ok d1
      using create_dir_all_frame(2) [OF that, of q] old by auto
    note dir = create_keeps_directory [OF _ assms(3)]
    have "dk_nodes d' q = None"
      using run
    proof (cases rule: snapshot_cases)
      case (refused e)
      with made old show ?thesis by auto
    next
      case (not_taken e d1 cs)
      with take_frame_quarantined [OF not_taken(4) _ src qua] made show ?thesis by auto
    next
      case (rejected e d1 cs owned rt expected d2)
      show ?thesis
      proof (cases "rt = direct_path fresh storage")
        case True
        with take_InrD [OF rejected(5) dir [OF rejected(3)]] below rejected(6)
          remove_directory [OF assms(2)] show ?thesis by auto
      next
        case False
        with take_frame_quarantined [OF rejected(5) _ src qua] made [OF rejected(3)] rejected(6)
        show ?thesis by auto
      qed
    next
      case (owned a d1 cs expected)
      with own below have "sga_cleanup_root a \<noteq> direct_path fresh storage" by auto
      with take_frame_quarantined [OF owned(4) _ src qua] made [OF owned(2)] show ?thesis by auto
    qed
    with old show ?thesis by (simp add: kept_at_def)
  qed
qed

lemma snapshot_keeps_root:
  assumes run: "snapshot_signed_app h fresh source storage d = (r, d')"
    and "dk_nodes d source = Some DirNode" "strict_prefix root source" "\<not> prefix storage root"
      "dk_nodes d root = Some DirNode"
  shows "dk_nodes d' root = Some DirNode"
proof -
  have par: "prefix root (butlast source)"
    using assms(3) by (cases source rule: rev_cases) (auto simp: strict_prefix_def)
  have "\<not> prefix source root" using assms(3) by (auto simp: strict_prefix_def)
  moreover have "\<not> prefix (quarantine_path fresh (butlast source)) root"
    using par quarantine_not_above prefix_order.trans by blast
  moreover have "\<not> prefix (direct_path fresh storage) root"
    using assms(4) unfolding direct_path_def by (auto dest: append_prefixD)
  ultimately have "kept_at {} storage d d' root" using snapshot_frame [OF run _ _ _ assms(2)] by blast
  with assms(5) show ?thesis by (auto simp: kept_at_def)
qed

lemma snapshot_cleanup_root:
  assumes run: "snapshot_signed_app h fresh source storage d = (Inr a, d')"
    and "dk_nodes d source = Some DirNode" "strict_prefix root source"
  shows "sga_extraction_root a = None \<and> dk_nodes d' (sga_cleanup_root a) = Some DirNode
    \<and> (sga_cleanup_root a = direct_path fresh storage \<or> strict_prefix root (sga_cleanup_root a))"
proof -
  have par: "prefix root (butlast source)"
    using assms(3) by (cases source rule: rev_cases) (auto simp: strict_prefix_def)
  show ?thesis
    using run
  proof (cases rule: snapshot_cases)
    case (owned a' d1 cs expected)
    from par have "strict_prefix root (quarantine_path fresh (butlast source))"
      by (auto simp: quarantine_path_def strict_prefix_def)
    with owned(1,6) take_InrD [OF owned(4) create_keeps_directory [OF owned(2) assms(2)], where q = root]
    show ?thesis by auto
  qed auto
qed

section \<open>A signing run leaves no trace\<close>

definition input_path :: "(nat \<Rightarrow> string) \<Rightarrow> components \<Rightarrow> components" where
  "input_path fresh ipa = butlast ipa @ [input_name (fresh 0)]"

definition extraction_root :: "signing_host \<Rightarrow> (nat \<Rightarrow> string) \<Rightarrow> components" where
  "extraction_root h fresh = sh_temp_dir h @ [input_name (fresh 0) @ ''_extracted'']"

text \<open>
  The signer has a place of its own: \<^verbatim>\<open>FsStorage::new(provider.signing_storage_path)\<close>, where it
  keeps its signing key (\<^verbatim>\<open>docs/INSTALL.md\<close>). \<open>storage\<close> is the \<^verbatim>\<open>signed-artifacts\<close> directory below
  that path, which is the program's.
\<close>

definition signer_store :: "components \<Rightarrow> components \<Rightarrow> bool" where
  "signer_store storage q \<longleftrightarrow> strict_prefix (butlast storage) q \<and> \<not> prefix storage q"

text \<open>
  What the run relies on the signer for: it writes only below its extraction directory and in its
  own storage (making the directories that lead there), leaves the contents of all other files
  of the disk alone (the private input shares those of the IPA), and returns a path strictly
  inside the extraction directory.
\<close>

definition signer_confined ::
  "developer_service \<Rightarrow> developer_device_type option \<Rightarrow> components \<Rightarrow> components \<Rightarrow> components \<Rightarrow> disk \<Rightarrow> bool" where
  "signer_confined dv t storage input root d \<longleftrightarrow> (case dv_sign dv t input d of (r, d') \<Rightarrow>
     (\<forall>q. \<not> prefix root q \<longrightarrow> \<not> signer_store storage q \<longrightarrow> kept_at {} storage d d' q)
     \<and> dk_nodes d' root \<noteq> Some OtherNode
     \<and> (\<forall>q. strict_prefix root q \<longrightarrow> dk_nodes d' root \<noteq> Some DirNode \<longrightarrow> dk_nodes d' q = None)
     \<and> (\<forall>q i. \<not> signer_store storage q \<longrightarrow> dk_nodes d q = Some (FileNode i) \<longrightarrow> dk_data d' i = dk_data d i)
     \<and> (\<forall>app. r = Inr app \<longrightarrow> strict_prefix root app))"

text \<open>The paths of its storage the signer changed, in what they are or in their contents.\<close>

definition signer_changes ::
  "developer_service \<Rightarrow> developer_device_type option \<Rightarrow> components \<Rightarrow> components \<Rightarrow> disk \<Rightarrow> components set" where
  "signer_changes dv t storage input d = (let d' = snd (dv_sign dv t input d) in
     {q. signer_store storage q \<and> (dk_nodes d' q \<noteq> dk_nodes d q
        \<or> (\<exists>i. dk_nodes d q = Some (FileNode i) \<and> dk_data d' i \<noteq> dk_data d i))})"

text \<open>
  The fresh names are new; the storage, the extraction directory and the private input lie apart,
  and the last two outside of what the signer keeps.
\<close>

definition workspace_fresh ::
  "signing_host \<Rightarrow> (nat \<Rightarrow> string) \<Rightarrow> components \<Rightarrow> components \<Rightarrow> disk \<Rightarrow> bool" where
  "workspace_fresh h fresh storage ipa d \<longleftrightarrow>
     dk_nodes d (extraction_root h fresh) = None \<and> dk_nodes d (direct_path fresh storage) = None
     \<and> \<not> prefix (extraction_root h fresh) storage \<and> \<not> prefix storage (extraction_root h fresh)
     \<and> \<not> prefix (input_path fresh ipa) storage
     \<and> \<not> signer_store storage (extraction_root h fresh) \<and> \<not> signer_store storage (input_path fresh ipa)"

text \<open>What is left of a run in the signer's own storage; the run made the private input before.\<close>

definition signer_left ::
  "developer_service \<Rightarrow> developer_device_type option \<Rightarrow> (nat \<Rightarrow> string) \<Rightarrow> components \<Rightarrow> components
     \<Rightarrow> disk_node \<Rightarrow> disk \<Rightarrow> components set" where
  "signer_left dv t fresh storage ipa n d =
     signer_changes dv t storage (input_path fresh ipa) (put_node (input_path fresh ipa) (Some n) d)"

text \<open>
  \<open>restored\<close>: the disk is as it was, and so are the contents of every file, up to directories made
  on the way to the storage and the paths \<open>left\<close> to the signer.
\<close>

definition restored :: "components set \<Rightarrow> components \<Rightarrow> disk \<Rightarrow> disk \<Rightarrow> bool" where
  "restored left storage d d' \<longleftrightarrow> (\<forall>q. kept_at left storage d d' q)
     \<and> (\<forall>q i. q \<notin> left \<longrightarrow> dk_nodes d q = Some (FileNode i) \<longrightarrow> dk_data d' i = dk_data d i)"

lemma restored_refl [simp]: "restored left storage d d"
  by (simp add: restored_def kept_at_def)

lemma absent_below:
  "dirs_closed d \<Longrightarrow> dk_nodes d p = None \<Longrightarrow> p \<noteq> [] \<Longrightarrow> prefix p q \<Longrightarrow> dk_nodes d q = None"
  using closed_absent [of d p q] by (cases "p = q") (auto simp: strict_prefix_def)

text \<open>The private input is a file or a link, and removing it changes nothing else.\<close>

lemma drop_leaf:
  "removes_all h \<Longrightarrow> dk_nodes d p = Some n \<Longrightarrow> n \<noteq> DirNode \<Longrightarrow> n \<noteq> OtherNode \<Longrightarrow>
     remove_signed_artifact_path h p d = put_node p None d"
  by (cases n) (auto simp: remove_signed_artifact_path_def symlink_metadata_def removes_all_def)

text \<open>Dropping the extraction directory removes it and everything below it.\<close>

lemma drop_root:
  assumes "removes_all h" "dk_nodes d root \<noteq> Some OtherNode" "prefix root q"
    "dk_nodes d root = Some DirNode \<or> (\<forall>q. strict_prefix root q \<longrightarrow> dk_nodes d q = None)"
  shows "dk_nodes (remove_signed_artifact_path h root d) q = None"
proof (cases "dk_nodes d root = Some DirNode")
  case True
  from remove_directory [OF assms(1) True assms(3)] show ?thesis .
next
  case False
  with assms remove_leaf [OF assms(1,2)] show ?thesis by (cases "q = root") (auto simp: strict_prefix_def)
qed

lemma drop_workspace:
  assumes "removes_all h" "dirs_closed d"
    and root: "dk_nodes d root = None" "root \<noteq> []"
    and input: "dk_nodes d input = None" "\<not> prefix root input"
    and leaf: "dk_nodes d3 input = Some n" "n \<noteq> DirNode" "n \<noteq> OtherNode"
    and rt: "dk_nodes d3 root \<noteq> Some OtherNode"
      "dk_nodes d3 root = Some DirNode \<or> (\<forall>q. strict_prefix root q \<longrightarrow> dk_nodes d3 q = None)"
    and rest: "\<And>q. \<not> prefix root q \<Longrightarrow> q \<noteq> input \<Longrightarrow> kept_at left storage d d3 q"
  shows "kept_at left storage d (remove_signed_artifact_path h input (remove_signed_artifact_path h root d3)) q"
proof -
  have "dk_nodes (remove_signed_artifact_path h root d3) input = Some n" using leaf(1) input(2) by simp
  note r = drop_leaf [OF assms(1) this leaf(2,3)]
  consider "prefix root q" | "\<not> prefix root q" "q = input" | "\<not> prefix root q" "q \<noteq> input" by blast
  then show ?thesis
  proof cases
    case 1
    with absent_below [OF assms(2) root 1] drop_root [OF assms(1) rt(1) 1 rt(2)] show ?thesis
      by (simp add: kept_at_def r)
  next
    case 2
    with input show ?thesis by (simp add: kept_at_def r)
  next
    case 3
    with rest [OF 3] show ?thesis by (simp add: kept_at_def r)
  qed
qed

text \<open>The same once an artifact was made: leaving the call drops the input, the artifact the rest.\<close>

lemma drop_artifact_workspace:
  assumes "removes_all h" "dirs_closed d"
    and root: "dk_nodes d root = None" "root \<noteq> []"
    and input: "dk_nodes d input = None" "\<not> prefix root input" "\<not> prefix (sga_cleanup_root a) input"
    and leaf: "dk_nodes d3 input = Some n" "n \<noteq> DirNode" "n \<noteq> OtherNode"
    and rt: "dk_nodes d3 root = Some DirNode" "sga_extraction_root a = Some root"
      "\<not> prefix (sga_cleanup_root a) root"
    and own: "dk_nodes d3 (sga_cleanup_root a) = Some DirNode"
      "prefix root (sga_cleanup_root a) \<or> dk_nodes d (sga_cleanup_root a) = None \<and> sga_cleanup_root a \<noteq> []"
    and rest: "\<And>q. \<not> prefix root q \<Longrightarrow> q \<noteq> input \<Longrightarrow> \<not> prefix (sga_cleanup_root a) q \<Longrightarrow> kept_at left storage d d3 q"
  shows "kept_at left storage d (drop_artifact h a (remove_signed_artifact_path h input d3)) q"
proof -
  let ?d4 = "remove_signed_artifact_path h input d3"
  let ?d5 = "remove_signed_artifact_path h (sga_cleanup_root a) ?d4"
  note r = drop_leaf [OF assms(1) leaf]
  have ne: "root \<noteq> input" "sga_cleanup_root a \<noteq> input" using input(2,3) by auto
  have d5: "dk_nodes ?d5 root = Some DirNode" using rt(1,3) ne by (simp add: r)
  have d4: "dk_nodes ?d4 (sga_cleanup_root a) = Some DirNode" using own(1) ne by (simp add: r)
  have drop: "drop_artifact h a ?d4 = remove_signed_artifact_path h root ?d5"
    by (simp add: drop_artifact_def rt(2))
  consider "prefix root q" | "\<not> prefix root q" "prefix (sga_cleanup_root a) q"
    | "\<not> prefix root q" "\<not> prefix (sga_cleanup_root a) q" "q = input"
    | "\<not> prefix root q" "\<not> prefix (sga_cleanup_root a) q" "q \<noteq> input" by blast
  then show ?thesis
  proof cases
    case 1
    with absent_below [OF assms(2) root 1] remove_directory [OF assms(1) d5 1] show ?thesis
      unfolding drop by (simp add: kept_at_def)
  next
    case 2
    then have "\<not> prefix root (sga_cleanup_root a)" using prefix_order.trans by blast
    with own(2) absent_below [OF assms(2)] 2 have "dk_nodes d q = None" by auto
    moreover from remove_directory [OF assms(1) d4 2(2)] have "dk_nodes ?d5 q = None" .
    ultimately show ?thesis unfolding drop by (simp add: kept_at_def)
  next
    case 3
    with input(1) show ?thesis unfolding drop by (simp add: kept_at_def r)
  next
    case 4
    with rest [OF 4(1,3,2)] show ?thesis unfolding drop by (simp add: kept_at_def r)
  qed
qed

lemma extraction_cleanup_input [simp]:
  "extraction_cleanup h (input_path fresh ipa) = Inr (extraction_root h fresh)"
  by (simp add: extraction_cleanup_def path_file_name_def input_path_def input_name_def extraction_root_def)

lemma existing_above:
  assumes "dirs_closed d" "dk_nodes d ipa \<noteq> None" "dk_nodes d p = None" "p \<noteq> []"
  shows "\<not> prefix p (butlast ipa)"
proof
  assume "prefix p (butlast ipa)"
  moreover have "prefix (butlast ipa) ipa" by (cases ipa rule: rev_cases) auto
  ultimately have "prefix p ipa" by (rule prefix_order.trans)
  with absent_below [OF assms(1,3,4)] assms(2) show False by simp
qed

text \<open>The facts about the paths of a run that its freshness gives.\<close>

lemma workspace_paths:
  assumes "workspace_fresh h fresh storage ipa d" "dirs_closed d" "dk_nodes d ipa \<noteq> None"
  shows "\<not> prefix (extraction_root h fresh) (input_path fresh ipa)"
    and "\<not> prefix (direct_path fresh storage) (input_path fresh ipa)"
    and "\<not> prefix (direct_path fresh storage) (extraction_root h fresh)"
    and "\<not> prefix (extraction_root h fresh) (direct_path fresh storage)"
    and "extraction_root h fresh \<noteq> []" "direct_path fresh storage \<noteq> []"
proof -
  show ne: "extraction_root h fresh \<noteq> []" "direct_path fresh storage \<noteq> []"
    by (simp_all add: extraction_root_def direct_path_def)
  have names: "extraction_root h fresh \<noteq> input_path fresh ipa"
    "direct_path fresh storage \<noteq> input_path fresh ipa" "direct_path fresh storage \<noteq> extraction_root h fresh"
    by (simp_all add: extraction_root_def direct_path_def input_path_def input_name_def)
  have "\<not> prefix (extraction_root h fresh) (butlast ipa)" "\<not> prefix (direct_path fresh storage) (butlast ipa)"
    using existing_above [OF assms(2,3)] assms(1) ne by (auto simp: workspace_fresh_def)
  with names show "\<not> prefix (extraction_root h fresh) (input_path fresh ipa)"
    "\<not> prefix (direct_path fresh storage) (input_path fresh ipa)"
    by (auto simp: input_path_def)
  have st: "\<not> prefix (extraction_root h fresh) storage" "\<not> prefix storage (extraction_root h fresh)"
    using assms(1) by (auto simp: workspace_fresh_def)
  from st(2) show "\<not> prefix (direct_path fresh storage) (extraction_root h fresh)"
    unfolding direct_path_def by (auto dest: append_prefixD)
  from st(1) names(3) show "\<not> prefix (extraction_root h fresh) (direct_path fresh storage)"
    unfolding direct_path_def by auto
qed

lemma snapshot_no_source:
  "dk_nodes d source \<noteq> Some DirNode \<Longrightarrow> snapshot_signed_app h fresh source storage d = (snap_failed, d)"
  by (auto simp: snapshot_signed_app_def snapshot_signed_app_inner_def dest: metadata_KDir)

text \<open>
  The disk while the run owns its two places: the private input \<open>input\<close> with the node \<open>n\<close>, and
  whatever lies below \<open>root\<close>; everything else is as before.
\<close>

definition in_workspace ::
  "components set \<Rightarrow> components \<Rightarrow> components \<Rightarrow> components \<Rightarrow> disk_node \<Rightarrow> disk \<Rightarrow> disk \<Rightarrow> bool" where
  "in_workspace left storage root input n d d' \<longleftrightarrow>
     left \<subseteq> Collect (signer_store storage) \<and> dk_nodes d' input = Some n
     \<and> (\<forall>q. \<not> prefix root q \<longrightarrow> q \<noteq> input \<longrightarrow> kept_at left storage d d' q)
     \<and> dk_nodes d' root \<noteq> Some OtherNode
     \<and> (dk_nodes d' root = Some DirNode \<or> (\<forall>q. strict_prefix root q \<longrightarrow> dk_nodes d' q = None))
     \<and> (\<forall>q i. q \<notin> left \<longrightarrow> dk_nodes d q = Some (FileNode i) \<longrightarrow> dk_data d' i = dk_data d i)"

text \<open>What a run may assume of the disk it starts on.\<close>

definition signing_workspace ::
  "signing_host \<Rightarrow> (nat \<Rightarrow> string) \<Rightarrow> components \<Rightarrow> components \<Rightarrow> disk_node \<Rightarrow> disk \<Rightarrow> bool" where
  "signing_workspace h fresh storage ipa n d \<longleftrightarrow> removes_all h \<and> dirs_closed d
     \<and> dk_nodes d ipa = Some n \<and> n \<noteq> DirNode \<and> n \<noteq> OtherNode
     \<and> workspace_fresh h fresh storage ipa d \<and> dk_nodes d (input_path fresh ipa) = None"

lemma workspaceD:
  assumes "signing_workspace h fresh storage ipa n d"
  shows "removes_all h" "dirs_closed d" "dk_nodes d ipa \<noteq> None" "n \<noteq> DirNode" "n \<noteq> OtherNode"
    "workspace_fresh h fresh storage ipa d" "dk_nodes d (input_path fresh ipa) = None"
    "dk_nodes d (extraction_root h fresh) = None" "dk_nodes d (direct_path fresh storage) = None"
    "\<not> prefix storage (extraction_root h fresh)" "\<not> prefix (input_path fresh ipa) storage"
    "\<not> signer_store storage (extraction_root h fresh)" "\<not> signer_store storage (input_path fresh ipa)"
  using assms by (auto simp: signing_workspace_def workspace_fresh_def)

lemmas workspace_apart = workspace_paths [OF workspaceD(6) workspaceD(2) workspaceD(3)]

lemma drop_both:
  assumes sw: "signing_workspace h fresh storage ipa n d"
    and "in_workspace left storage (extraction_root h fresh) (input_path fresh ipa) n d d3"
  shows "restored left storage d (remove_signed_artifact_path h (input_path fresh ipa)
    (remove_signed_artifact_path h (extraction_root h fresh) d3))"
proof -
  note w = workspaceD [OF sw] and p = workspace_apart [OF sw sw sw]
  have "kept_at left storage d (remove_signed_artifact_path h (input_path fresh ipa)
    (remove_signed_artifact_path h (extraction_root h fresh) d3)) q" for q
    using assms(2) by (intro drop_workspace [OF w(1,2,8) p(5) w(7) p(1) _ w(4,5)])
      (auto simp: in_workspace_def)
  with assms show ?thesis by (simp add: restored_def in_workspace_def)
qed

lemma signed_in_workspace:
  assumes sw: "signing_workspace h fresh storage ipa n d"
    and sc: "signer_confined dv t storage (input_path fresh ipa) (extraction_root h fresh)
      (put_node (input_path fresh ipa) (Some n) d)"
    and sign: "dv_sign dv t (input_path fresh ipa) (put_node (input_path fresh ipa) (Some n) d) = (s, d2)"
  shows "in_workspace (signer_left dv t fresh storage ipa n d) storage (extraction_root h fresh)
    (input_path fresh ipa) n d d2"
proof -
  let ?d0 = "put_node (input_path fresh ipa) (Some n) d" and ?left = "signer_left dv t fresh storage ipa n d"
  note w = workspaceD [OF sw]
  have left: "q \<in> ?left \<longleftrightarrow> signer_store storage q \<and> (dk_nodes d2 q \<noteq> dk_nodes ?d0 q
      \<or> (\<exists>i. dk_nodes ?d0 q = Some (FileNode i) \<and> dk_data d2 i \<noteq> dk_data ?d0 i))" for q
    by (simp add: signer_left_def signer_changes_def sign Let_def)
  have frame: "kept_at {} storage ?d0 d2 q" if "\<not> prefix (extraction_root h fresh) q" "\<not> signer_store storage q" for q
    using sc sign that by (simp add: signer_confined_def)
  have "dk_nodes d2 (input_path fresh ipa) = Some n"
    using frame [OF workspace_apart(1) [OF sw sw sw] w(13)] by (simp add: kept_at_def)
  moreover have "kept_at ?left storage d d2 q"
    if "\<not> prefix (extraction_root h fresh) q" "q \<noteq> input_path fresh ipa" for q
    using frame [OF that(1)] left [of q] that(2) by (auto simp: kept_at_def)
  moreover have "dk_data d2 i = dk_data d i" if "q \<notin> ?left" "dk_nodes d q = Some (FileNode i)" for q i
  proof -
    have q: "dk_nodes ?d0 q = Some (FileNode i)" using that(2) w(7) by auto
    show ?thesis
    proof (cases "signer_store storage q")
      case True
      with left [of q] that(1) q show ?thesis by auto
    next
      case False
      with sc sign q show ?thesis by (fastforce simp: signer_confined_def)
    qed
  qed
  moreover have "?left \<subseteq> Collect (signer_store storage)" using left by blast
  ultimately show ?thesis using sc sign by (auto simp: in_workspace_def signer_confined_def)
qed

lemma direct_free:
  assumes sw: "signing_workspace h fresh storage ipa n d"
    and "in_workspace left storage (extraction_root h fresh) (input_path fresh ipa) n d d2"
    and "prefix (direct_path fresh storage) q"
  shows "dk_nodes d2 q = None"
proof -
  note w = workspaceD [OF sw] and p = workspace_apart [OF sw sw sw]
  have "\<not> prefix (extraction_root h fresh) q"
    using assms(3) p(3,4) by (meson prefix_same_cases)
  moreover have "q \<noteq> input_path fresh ipa" using assms(3) p(2) by auto
  moreover have "\<not> prefix q storage"
    using assms(3) direct_not_below_storage prefix_order.trans by blast
  moreover have "q \<notin> left"
  proof -
    have "prefix storage q" using assms(3) unfolding direct_path_def by (rule append_prefixD)
    then have "\<not> signer_store storage q" by (simp add: signer_store_def)
    with assms(2) show ?thesis unfolding in_workspace_def by blast
  qed
  ultimately have "dk_nodes d2 q = dk_nodes d q" using assms(2) by (auto simp: in_workspace_def kept_at_def)
  with absent_below [OF w(2,9) p(6) assms(3)] show ?thesis by simp
qed

lemma kept_trans: "kept_at left storage d d1 q \<Longrightarrow> kept_at {} storage d1 d2 q \<Longrightarrow> kept_at left storage d d2 q"
  by (auto simp: kept_at_def)

text \<open>A snapshot stays in the workspace, apart from the directory its artifact owns.\<close>

lemma snapshot_in_workspace:
  assumes sw: "signing_workspace h fresh storage ipa n d"
    and ws: "in_workspace left storage (extraction_root h fresh) (input_path fresh ipa) n d d2"
    and app: "strict_prefix (extraction_root h fresh) app" "dk_nodes d2 app = Some DirNode"
    and run: "snapshot_signed_app h fresh app storage d2 = (r, d3)"
  shows "dk_nodes d3 (extraction_root h fresh) = Some DirNode"
    and "\<And>q. \<not> prefix (extraction_root h fresh) q \<Longrightarrow>
      (\<And>a. r = Inr a \<Longrightarrow> \<not> prefix (sga_cleanup_root a) q) \<Longrightarrow> kept_at {} storage d2 d3 q"
proof -
  note w = workspaceD [OF sw]
  show "kept_at {} storage d2 d3 q" if "\<not> prefix (extraction_root h fresh) q"
    "\<And>a. r = Inr a \<Longrightarrow> \<not> prefix (sga_cleanup_root a) q" for q
    using snapshot_outside [OF run w(1) app(2,1) direct_free [OF sw ws] that] by simp
  from ws app have "dk_nodes d2 (extraction_root h fresh) = Some DirNode" by (auto simp: in_workspace_def)
  from snapshot_keeps_root [OF run app(2,1) w(10) this]
  show "dk_nodes d3 (extraction_root h fresh) = Some DirNode" .
qed

lemma snapshot_fails:
  assumes sw: "signing_workspace h fresh storage ipa n d"
    and ws: "in_workspace left storage (extraction_root h fresh) (input_path fresh ipa) n d d2"
    and app: "strict_prefix (extraction_root h fresh) app"
    and run: "snapshot_signed_app h fresh app storage d2 = (Inl e, d3)"
  shows "in_workspace left storage (extraction_root h fresh) (input_path fresh ipa) n d d3"
proof (cases "dk_nodes d2 app = Some DirNode")
  case False
  with run ws show ?thesis by (simp add: snapshot_no_source)
next
  case True
  note s = snapshot_in_workspace [OF sw ws app True run]
  have "dk_nodes d3 (input_path fresh ipa) = Some n"
    using s(2) [OF workspace_apart(1) [OF sw sw sw]] ws by (auto simp: in_workspace_def kept_at_def)
  with ws s kept_trans snapshot_data [OF run] show ?thesis by (auto simp: in_workspace_def)
qed

lemma snapshot_succeeds:
  assumes sw: "signing_workspace h fresh storage ipa n d"
    and ws: "in_workspace left storage (extraction_root h fresh) (input_path fresh ipa) n d d2"
    and app: "strict_prefix (extraction_root h fresh) app"
    and run: "snapshot_signed_app h fresh app storage d2 = (Inr a, d3)"
    and a': "a' = a\<lparr>sga_extraction_root := Some (extraction_root h fresh)\<rparr>"
    and d4: "d4 = remove_signed_artifact_path h (input_path fresh ipa) d3"
  shows "restored left storage d (drop_artifact h a' d4)"
    and "\<not> prefix (sga_cleanup_root a') q \<Longrightarrow> \<not> prefix (extraction_root h fresh) q \<Longrightarrow> kept_at left storage d d4 q"
proof -
  note w = workspaceD [OF sw] and p = workspace_apart [OF sw sw sw]
  have dir: "dk_nodes d2 app = Some DirNode" using run snapshot_no_source by fastforce
  note s = snapshot_in_workspace [OF sw ws app dir run] and c = snapshot_cleanup_root [OF run dir app]
  have ci: "\<not> prefix (sga_cleanup_root a) (input_path fresh ipa)"
    using c p(1,2) by (metis prefix_order.less_imp_le prefix_order.trans)
  have cr: "\<not> prefix (sga_cleanup_root a) (extraction_root h fresh)"
    using c p(3) by (metis prefix_order.leD)
  have leaf: "dk_nodes d3 (input_path fresh ipa) = Some n"
    using s(2) [OF p(1)] ci ws by (auto simp: in_workspace_def kept_at_def)
  have rest: "kept_at left storage d d3 q"
    if "\<not> prefix (extraction_root h fresh) q" "q \<noteq> input_path fresh ipa" "\<not> prefix (sga_cleanup_root a) q" for q
    using s(2) [OF that(1)] that ws kept_trans by (auto simp: in_workspace_def)
  have own: "prefix (extraction_root h fresh) (sga_cleanup_root a)
      \<or> dk_nodes d (sga_cleanup_root a) = None \<and> sga_cleanup_root a \<noteq> []"
    using c w(9) p(6) by auto
  have "kept_at left storage d (drop_artifact h a' d4) q" for q
    unfolding a' d4
    by (rule drop_artifact_workspace [OF w(1,2,8) p(5) w(7) p(1) _ leaf w(4,5)])
      (use ci cr c own rest s(1) in auto)
  moreover have "dk_data (drop_artifact h a' d4) = dk_data d2"
    using snapshot_data [OF run] by (simp add: drop_artifact_def a' d4 split: option.split)
  ultimately show "restored left storage d (drop_artifact h a' d4)"
    using ws by (simp add: restored_def in_workspace_def)
  show "kept_at left storage d d4 q"
    if "\<not> prefix (sga_cleanup_root a') q" "\<not> prefix (extraction_root h fresh) q"
    using that rest drop_leaf [OF w(1) leaf w(4,5)] w(7)
    by (cases "q = input_path fresh ipa") (simp_all add: d4 a' kept_at_def)
qed

text \<open>
  The whole run: what a failure leaves, and what a success leaves before and after its artifact
  is dropped.
\<close>

definition no_trace ::
  "signing_host \<Rightarrow> (nat \<Rightarrow> string) \<Rightarrow> components \<Rightarrow> components set \<Rightarrow> disk \<Rightarrow> signed_app_artifact option \<Rightarrow> disk \<Rightarrow> bool" where
  "no_trace h fresh storage left d artifact d' =
     (case artifact of
        None \<Rightarrow> restored left storage d d'
      | Some a \<Rightarrow> restored left storage d (drop_artifact h a d')
          \<and> (\<forall>q. \<not> prefix (sga_cleanup_root a) q \<longrightarrow> \<not> prefix (extraction_root h fresh) q
               \<longrightarrow> kept_at left storage d d' q))"

lemma sign_app_no_trace:
  assumes sw: "signing_workspace h fresh storage ipa n d"
    and sc: "signer_confined dv (developer_device_type identity) storage (input_path fresh ipa)
      (extraction_root h fresh) (put_node (input_path fresh ipa) (Some n) d)"
    and run: "sign_app h dv fresh storage ipa identity d = (r, d')"
  shows "no_trace h fresh storage (signer_left dv (developer_device_type identity) fresh storage ipa n d) d (case r of Inl _ \<Rightarrow> None | Inr a \<Rightarrow> Some a) d'"
proof (cases "sideload_input h (fresh 0) ipa d")
  case (Inl e)
  with run show ?thesis by (auto simp: sign_app_def no_trace_def)
next
  case (Inr id1)
  then obtain input d1 where id1: "sideload_input h (fresh 0) ipa d = Inr (input, d1)" by (cases id1) auto
  with sideload_input_InrD [OF this] sw have i: "input = input_path fresh ipa"
    "d1 = put_node (input_path fresh ipa) (Some n) d"
    by (auto simp: input_path_def signing_workspace_def)
  obtain s d2 where sign: "dv_sign dv (developer_device_type identity) input d1 = (s, d2)"
    by (cases "dv_sign dv (developer_device_type identity) input d1")
  note ws = signed_in_workspace [OF sw sc sign [unfolded i]]
  show ?thesis
  proof (cases s)
    case (Inl report)
    with run id1 sign drop_both [OF sw ws] i(1) show ?thesis
      by (auto simp: sign_app_def no_trace_def)
  next
    case s: (Inr app)
    from sc sign s have app: "strict_prefix (extraction_root h fresh) app"
      by (simp add: signer_confined_def i)
    obtain t d3 where snap: "snapshot_signed_app h fresh app storage d2 = (t, d3)"
      by (cases "snapshot_signed_app h fresh app storage d2")
    show ?thesis
    proof (cases t)
      case (Inl e)
      with run id1 sign s snap drop_both [OF sw snapshot_fails [OF sw ws app]] i(1) show ?thesis
        by (auto simp: sign_app_def no_trace_def)
    next
      case (Inr a)
      with snapshot_succeeds [OF sw ws app snap [unfolded Inr] refl refl] run id1 sign s snap i(1)
      show ?thesis by (auto simp: sign_app_def no_trace_def)
    qed
  qed
qed

lemma preflight_no_trace:
  assumes "signing_workspace h fresh storage ipa n d"
    and "signer_confined dv (developer_device_type identity) storage (input_path fresh ipa)
      (extraction_root h fresh) (put_node (input_path fresh ipa) (Some n) d)"
    and "preflight_and_sign_for_device h (Some dv) fresh storage ipa identity policy d = (r, d')"
  shows "no_trace h fresh storage (signer_left dv (developer_device_type identity) fresh storage ipa n d) d (case r of Inl _ \<Rightarrow> None | Inr (_, a) \<Rightarrow> a) d'"
proof (cases "sign_app h dv fresh storage ipa identity d")
  case (Pair t d2)
  have same: "no_trace h fresh storage left d None d" for left by (simp add: no_trace_def)
  from sign_app_no_trace [OF assms(1,2) Pair] Pair assms(3) same show ?thesis
    by (auto simp: preflight_and_sign_for_device_def sign_for_device_with_sideloader_def
        split: if_splits sum.splits option.splits prod.splits)
qed

text \<open>
  C9: A signing run leaves no file behind except in the signer's own storage. Suppose the signer
  writes only below its extraction directory and in the storage the program gave it for its key,
  and removals succeed. Then a run that yields no artifact leaves the disk as it found it (the IPA,
  its contents and every other file included), directories leading to the storage and what the
  signer itself changed in its storage apart; with an artifact only the directory it owns and the
  extraction directory differ besides, and dropping the artifact removes both.
\<close>

theorem signing_leaves_no_trace:
  assumes "signing_workspace h fresh storage ipa n d"
    and "signer_confined dv (developer_device_type identity) storage (input_path fresh ipa)
      (extraction_root h fresh) (put_node (input_path fresh ipa) (Some n) d)"
    and "preflight_and_sign_for_device h (Some dv) fresh storage ipa identity policy d = (r, d')"
  shows "no_trace h fresh storage (signer_left dv (developer_device_type identity) fresh storage ipa n d) d (case r of Inl _ \<Rightarrow> None | Inr (_, a) \<Rightarrow> a) d'"
  by (rule preflight_no_trace [OF assms])

text \<open>A signer that saves a key and unpacks one application into the extraction directory.\<close>

definition demo_disk :: disk where
  "demo_disk = \<lparr>dk_nodes = [[''tmp''] \<mapsto> DirNode, [''s''] \<mapsto> DirNode, [''u''] \<mapsto> DirNode,
     [''u'', ''a.ipa''] \<mapsto> FileNode 0], dk_data = (\<lambda>_. ''com.a'')\<rparr>"

definition demo_fresh :: "nat \<Rightarrow> string" where
  "demo_fresh i = replicate i CHR ''x''"

definition demo_app :: components where
  "demo_app = extraction_root demo_host demo_fresh @ [''A.app'']"

definition demo_signer :: developer_service where
  "demo_signer = \<lparr>dv_team = Some ''T'', dv_devices = (\<lambda>_. Some [''udid'']), dv_certificates = Some [],
     dv_register = (\<lambda>_ _ _. True),
     dv_sign = (\<lambda>_ _ d. (Inr demo_app, put_node (demo_app @ [''Info.plist'']) (Some (FileNode 1))
        (put_node demo_app (Some DirNode)
          (put_node (extraction_root demo_host demo_fresh) (Some DirNode)
            (put_node [''s'', ''k''] (Some (FileNode 2)) d)))))\<rparr>"

definition demo_device_identity :: signing_device_identity where
  "demo_device_identity = \<lparr>di_name = ''n'', di_udid = ''udid'', di_apple_tv = False,
     di_product_type = None, di_ios_version = None\<rparr>"

lemma demo_signing_paths:
  "extraction_root demo_host demo_fresh = [''tmp'', input_name (demo_fresh 0) @ ''_extracted'']"
  "input_path demo_fresh [''u'', ''a.ipa''] = [''u'', input_name (demo_fresh 0)]"
  by (simp_all add: extraction_root_def demo_host_def input_path_def)

lemma demo_store: "signer_store [''s'', ''a''] q \<longleftrightarrow> (\<exists>c r. q = ''s'' # c # r \<and> c \<noteq> ''a'')"
  by (cases q; cases "tl q") (auto simp: signer_store_def strict_prefix_def)

lemma demo_workspace:
  "signing_workspace demo_host demo_fresh [''s'', ''a''] [''u'', ''a.ipa''] (FileNode 0) demo_disk"
proof -
  have "workspace_fresh demo_host demo_fresh [''s'', ''a''] [''u'', ''a.ipa''] demo_disk"
    by (simp add: workspace_fresh_def demo_signing_paths demo_store demo_disk_def direct_path_def)
  moreover have "dk_nodes demo_disk (input_path demo_fresh [''u'', ''a.ipa'']) = None"
    by (simp add: demo_signing_paths demo_disk_def input_name_def)
  moreover have "dirs_closed demo_disk"
    by (auto simp: dirs_closed_def demo_disk_def append_eq_Cons_conv split: if_splits)
  ultimately show ?thesis
    by (simp add: signing_workspace_def) (simp add: removes_all_def demo_host_def demo_disk_def)
qed

lemma demo_confined:
  "signer_confined demo_signer t [''s'', ''a''] (input_path demo_fresh [''u'', ''a.ipa''])
     (extraction_root demo_host demo_fresh)
     (put_node (input_path demo_fresh [''u'', ''a.ipa'']) (Some (FileNode 0)) demo_disk)"
  by (auto simp: signer_confined_def demo_signer_def demo_app_def strict_prefix_def kept_at_def demo_store)

lemma demo_left:
  "signer_left demo_signer t demo_fresh [''s'', ''a''] [''u'', ''a.ipa''] (FileNode 0) demo_disk = {[''s'', ''k'']}"
  by (auto simp: signer_left_def signer_changes_def demo_store demo_signer_def demo_app_def demo_signing_paths Let_def
      split: if_splits) (simp_all add: demo_disk_def)

text \<open>The whole signing run of the demonstration, by evaluation.\<close>

lemmas demo_run_defs = path_is_file_def symlink_metadata_def
  sign_for_device_with_sideloader_def registered_for_def sign_app_def sideload_input_def path_parent_def
  extraction_cleanup_def path_file_name_def demo_signer_def demo_app_def demo_disk_def demo_host_def
  demo_device_identity_def demo_fresh_def input_name_def snapshot_signed_app_def snapshot_signed_app_inner_def
  create_dir_all_def restrict_signed_artifact_path_def take_signed_app_def direct_path_def move_tree_def
  inspect_owned_def canonical_parent_is_def validate_private_signed_tree_def disk_tree_def tree_loop.simps
  extraction_root_def remove_signed_artifact_path_def ok_or_def Let_def sum_bind_def opt_filter_def
  as_dictionary.simps get_string_def put_node_def

theorem signing_leaves_no_trace_witness:
  "\<exists>pre (a :: signed_app_artifact) d'.
     preflight_and_sign_for_device demo_host (Some demo_signer) demo_fresh [''s'', ''a''] [''u'', ''a.ipa'']
       demo_device_identity Ensure demo_disk = (Inr (pre, Some a), d')
     \<and> dk_nodes d' (sga_app_bundle_path a) = Some DirNode
     \<and> restored {[''s'', ''k'']} [''s'', ''a''] demo_disk (drop_artifact demo_host a d')"
proof -
  let ?run = "preflight_and_sign_for_device demo_host (Some demo_signer) demo_fresh [''s'', ''a''] [''u'', ''a.ipa'']
    demo_device_identity Ensure demo_disk"
  obtain pre and a :: signed_app_artifact and d' where run: "?run = (Inr (pre, Some a), d')"
    "dk_nodes d' (sga_app_bundle_path a) = Some DirNode"
    by (simp add: preflight_and_sign_for_device_def account_preflight_def demo_run_defs)
  from signing_leaves_no_trace [OF demo_workspace demo_confined run(1)] run show ?thesis by (auto simp: no_trace_def demo_left)
qed

end
