(* ===== verification/Transport.thy ===== *)
theory Transport
  imports Devices SigningCleanup Jobs
begin

text \<open>
  The operations of \<^verbatim>\<open>NetmuxTransport\<close> (\<^verbatim>\<open>src/main.rs\<close>) on one device: installing an IPA,
  listing its apps, the AFC probe; and the device list of the API. A device is looked up by its
  identifier among the reachable ones and spoken to with its stored pairing record. What its
  services answer is a record of functions of the connection; a timeout is an error answer.
\<close>

section \<open>Connections\<close>

text \<open>\<^verbatim>\<open>Path::join\<close>: an absolute second path replaces the first.\<close>

definition path_join :: "path \<Rightarrow> path \<Rightarrow> path" where
  "path_join dir name =
     (if starts_with name ''/'' \<or> dir = [] then name
      else if last dir = CHR ''/'' then dir @ name else dir @ ''/'' @ name)"

definition pairing_record_path :: "path \<Rightarrow> string \<Rightarrow> path" where
  "pairing_record_path pairing_dir udid = path_join pairing_dir (udid @ ''.plist'')"

record tcp_provider =
  tp_address :: ip_addr
  tp_pairing_file :: string

text \<open>\<open>read_pairing\<close> is \<^verbatim>\<open>PairingFile::read_from_file\<close>.\<close>

definition provider_for ::
  "(path \<Rightarrow> string option) \<Rightarrow> path \<Rightarrow> string \<Rightarrow> ip_addr \<Rightarrow> transport_error + tcp_provider" where
  "provider_for read_pairing pairing_dir udid address =
     (case read_pairing (pairing_record_path pairing_dir udid) of
        None \<Rightarrow> Inl TransportUnavailable
      | Some pairing_file \<Rightarrow> Inr \<lparr>tp_address = address, tp_pairing_file = pairing_file\<rparr>)"

text \<open>
  The network, the stored pairing records, and the services of a device behind a connection: its
  name and UDID, the transfer and installation of an application bundle, the installation proxy
  (connecting, then browsing the user applications) and AFC (connecting, then a request).
\<close>

record transport_env =
  nt_mux :: "(string \<times> mux_connection) list option"
  nt_bonjour :: "ip_addr list option"
  nt_pairing_entries :: "string list option"
  nt_lockdown :: lockdown
  nt_sha16 :: "string \<Rightarrow> uuid"
  nt_pairing_dir :: path
  nt_read_pairing :: "path \<Rightarrow> string option"
  nt_info :: "tcp_provider \<Rightarrow> (string \<times> string) option"
  nt_install :: "tcp_provider \<Rightarrow> components \<Rightarrow> bool"
  nt_proxy :: "tcp_provider \<Rightarrow> bool"
  nt_browse :: "tcp_provider \<Rightarrow> plist list option"
  nt_afc :: "tcp_provider \<Rightarrow> bool"
  nt_afc_info :: "tcp_provider \<Rightarrow> bool"

definition transport_network :: "transport_env \<Rightarrow> network_env" where
  "transport_network e = \<lparr>ne_mux = nt_mux e, ne_bonjour = nt_bonjour e, ne_pairing_dir = nt_pairing_entries e,
     ne_describe = describe_device (nt_sha16 e) (nt_lockdown e)\<rparr>"

text \<open>The connection to the device with an identifier.\<close>

definition connect_device :: "transport_env \<Rightarrow> uuid \<Rightarrow> transport_error + tcp_provider" where
  "connect_device e device_id =
     sum_bind (reachable_network_devices (transport_network e)) (\<lambda>devices.
     sum_bind (ok_or TransportUnavailable
         (find (\<lambda>(udid, _, _). device_id_for_udid (nt_sha16 e) udid = device_id) devices))
       (\<lambda>(udid, address, _). provider_for (nt_read_pairing e) (nt_pairing_dir e) udid address))"

section \<open>Operations\<close>

definition netmux_install_ipa ::
  "transport_env \<Rightarrow> signing_host \<Rightarrow> developer_service option \<Rightarrow> (nat \<Rightarrow> string) \<Rightarrow> components
     \<Rightarrow> uuid \<Rightarrow> components \<Rightarrow> disk \<Rightarrow> (transport_error + string) \<times> disk" where
  "netmux_install_ipa e h session fresh storage device_id ipa d =
     (case connect_device e device_id of
        Inl err \<Rightarrow> (Inl err, d)
      | Inr p \<Rightarrow>
          (case signing_install_ipa h session fresh storage ipa (nt_info e p) (nt_install e p) d of
             (r, d') \<Rightarrow> (map_sum install_error id r, d')))"

definition netmux_list_installed_apps ::
  "transport_env \<Rightarrow> uuid \<Rightarrow> transport_error + installed_app_summary list" where
  "netmux_list_installed_apps e device_id =
     sum_bind (connect_device e device_id) (\<lambda>p.
       if \<not> nt_proxy e p then Inl TransportUnavailable
       else sum_bind (ok_or TransportUnavailable (nt_browse e p)) (\<lambda>values.
         Inr (List.map_filter installed_app values)))"

definition netmux_probe_afc :: "transport_env \<Rightarrow> uuid \<Rightarrow> transport_error + unit" where
  "netmux_probe_afc e device_id =
     sum_bind (connect_device e device_id) (\<lambda>p.
       if nt_afc e p \<and> nt_afc_info e p then Inr () else Inl TransportUnavailable)"

section \<open>The device list\<close>

definition install_devices ::
  "transport_env \<Rightarrow> device_summary list \<Rightarrow> transport_error + device_summary list" where
  "install_devices e rsd = merge_install_devices (list_network_devices (transport_network e)) rsd"

definition device_json :: "(uuid \<Rightarrow> string) \<Rightarrow> device_summary \<Rightarrow> json" where
  "device_json show_uuid d =
     JObj [(''id'', JStr (show_uuid (ds_id d))), (''displayName'', JStr (ds_display_name d)),
       (''productType'', JStr (ds_product_type d)), (''iosVersion'', JStr (ds_ios_version d)),
       (''connectionType'', JStr ''network''), (''status'', JStr ''online''),
       (''installEligible'', JBool (ds_install_eligible d)),
       (''deviceClass'', JStr (case ds_device_class d of Iphone \<Rightarrow> ''iphone'' | AppleTvClass \<Rightarrow> ''appleTv''))]"

definition list_devices ::
  "(uuid \<Rightarrow> string) \<Rightarrow> transport_error + device_summary list \<Rightarrow> response" where
  "list_devices show_uuid devices =
     (case devices of
        Inr ds \<Rightarrow> Response 200 (Some (JArr (map (device_json show_uuid) ds)))
      | Inl _ \<Rightarrow> message 503
          ''Wi-Fi device discovery is unavailable. Check netmuxd and the dedicated mux socket.'')"

definition rescan_devices ::
  "(uuid \<Rightarrow> string) \<Rightarrow> transport_error + device_summary list \<Rightarrow> response" where
  "rescan_devices = list_devices"

section \<open>What a transport promises\<close>

text \<open>
  \<^verbatim>\<open>trait DeviceTransport\<close>: operations on a device the transport does not list fail and change
  nothing. \<open>'a\<close> is the type of what the operation acts on.
\<close>

locale device_transport =
  fixes listed :: "transport_error + device_summary list"
    and run :: "uuid \<Rightarrow> 'a \<Rightarrow> (transport_error + 'b) \<times> 'a"
  assumes unlisted: "listed = Inr ds \<Longrightarrow> device_id \<notin> ds_id ` set ds \<Longrightarrow> run device_id x = (Inl TransportUnavailable, x)"
    and unavailable: "listed = Inl err \<Longrightarrow> run device_id x = (Inl err, x)"
begin

lemma success_listed: "run device_id x = (Inr b, y) \<Longrightarrow> \<exists>ds. listed = Inr ds \<and> device_id \<in> ds_id ` set ds"
  using unlisted [of _ device_id x] unavailable [of _ device_id x] by (cases listed) force+

lemma change_listed: "run device_id x = (r, y) \<Longrightarrow> y \<noteq> x \<Longrightarrow> \<exists>ds. listed = Inr ds \<and> device_id \<in> ds_id ` set ds"
  using unlisted [of _ device_id x] unavailable [of _ device_id x] by (cases listed) force+

end

lemma reachable_loop_described:
  "(udid, address, s) \<in> set (reachable_loop describe cs attempted identified) \<Longrightarrow> describe udid address = Inr s"
  by (induction describe cs attempted identified rule: reachable_loop.induct) (auto split: if_splits sum.splits)

lemma describe_device_id:
  "describe_device sha16 lockdown udid address = Inr s \<Longrightarrow> ds_id s = device_id_for_udid sha16 udid"
  by (auto simp: describe_device_def split: option.splits)

lemma reachable_ids:
  assumes "reachable_network_devices (transport_network e) = Inr devices" "(udid, address, s) \<in> set devices"
  shows "ds_id s = device_id_for_udid (nt_sha16 e) udid"
proof -
  have "ne_describe (transport_network e) udid address = Inr s"
    using assms
    by (auto simp: reachable_network_devices_def reachable_candidates_def Let_def sum_bind_eq_Inr
        dest: reachable_loop_described split: if_splits sum.splits)
  then show ?thesis by (simp add: transport_network_def describe_device_id)
qed

text \<open>Every operation starts with the lookup, so all of them keep the contract.\<close>

lemma connect_unlisted:
  assumes "list_network_devices (transport_network e) = Inr ds" "device_id \<notin> ds_id ` set ds"
  shows "connect_device e device_id = Inl TransportUnavailable"
proof -
  from assms(1) obtain devices where dv: "reachable_network_devices (transport_network e) = Inr devices"
    "ds = map (\<lambda>(_, _, summary). summary) devices"
    by (auto simp: list_network_devices_def sum_bind_eq_Inr)
  have "find (\<lambda>(udid, _, _). device_id_for_udid (nt_sha16 e) udid = device_id) devices = None"
    using assms(2) reachable_ids [OF dv(1)] by (fastforce simp: find_None_iff dv(2) image_iff)
  then show ?thesis by (simp add: connect_device_def dv(1) ok_or_def sum_bind_def)
qed

lemma connect_unavailable:
  "list_network_devices (transport_network e) = Inl err \<Longrightarrow> connect_device e device_id = Inl err"
  by (simp add: list_network_devices_def connect_device_def sum_bind_def split: sum.splits)

interpretation netmux_install: device_transport "list_network_devices (transport_network e)"
    "\<lambda>device_id. netmux_install_ipa e h session fresh storage device_id ipa"
  by unfold_locales (simp_all add: netmux_install_ipa_def connect_unlisted connect_unavailable)

interpretation netmux_apps: device_transport "list_network_devices (transport_network e)"
    "\<lambda>device_id (_ :: unit). (netmux_list_installed_apps e device_id, ())"
  by unfold_locales
    (simp_all add: netmux_list_installed_apps_def connect_unlisted connect_unavailable sum_bind_def)

interpretation netmux_afc: device_transport "list_network_devices (transport_network e)"
    "\<lambda>device_id (_ :: unit). (netmux_probe_afc e device_id, ())"
  by unfold_locales (simp_all add: netmux_probe_afc_def connect_unlisted connect_unavailable sum_bind_def)

section \<open>An installation over the network leaves no trace\<close>

lemma new_identity_type: "new_identity name udid = Inr i \<Longrightarrow> developer_device_type i = None"
  by (auto simp: new_identity_def developer_device_type_def split: if_splits)

lemma signing_install_restores:
  assumes sw: "signing_workspace h fresh storage ipa n d"
    and sc: "signer_confined dv None storage (input_path fresh ipa) (extraction_root h fresh)
      (put_node (input_path fresh ipa) (Some n) d)"
    and run: "signing_install_ipa h (Some dv) fresh storage ipa info install d = (r, d')"
  shows "restored (signer_left dv None fresh storage ipa n d) storage d d' \<and> (\<forall>b. r = Inr b \<longrightarrow> (\<exists>app. install app))"
proof (cases info)
  case (Some nu)
  then obtain name udid where info: "info = Some (name, udid)" by (cases nu) auto
  show ?thesis
  proof (cases "new_identity name udid")
    case (Inr i)
    obtain t d2 where app: "sign_app h dv fresh storage ipa i d = (t, d2)" by (rule prod.exhaust)
    from sc new_identity_type [OF Inr] have "signer_confined dv (developer_device_type i) storage (input_path fresh ipa)
      (extraction_root h fresh) (put_node (input_path fresh ipa) (Some n) d)" by simp
    from sign_app_no_trace [OF sw this app] new_identity_type [OF Inr] app run info Inr show ?thesis
      by (auto simp: signing_install_ipa_def sign_for_device_def sign_for_device_with_sideloader_def
          no_trace_def split: if_splits sum.splits prod.splits)
  qed (use run info in \<open>auto simp: signing_install_ipa_def\<close>)
qed (use run in \<open>auto simp: signing_install_ipa_def\<close>)

text \<open>
  C21: An installation over the network goes to a listed device and cleans up. Under the same
  reliance on the signer as a signing run (it keeps to its extraction directory and its own
  storage, and removals succeed), whatever \<^const>\<open>netmux_install_ipa\<close> answers, the disk is afterwards
  as it was, except for what the signer changed in its storage and directories leading there; a
  success means that the device is one of those listed and that its application was transferred
  and installed over a connection made with its pairing record.
\<close>

theorem network_install_restores:
  assumes "signing_workspace h fresh storage ipa n d"
    and "signer_confined dv None storage (input_path fresh ipa) (extraction_root h fresh)
      (put_node (input_path fresh ipa) (Some n) d)"
    and "netmux_install_ipa e h (Some dv) fresh storage device_id ipa d = (r, d')"
  shows "restored (signer_left dv None fresh storage ipa n d) storage d d'
    \<and> (\<forall>b. r = Inr b \<longrightarrow>
         (\<exists>ds. list_network_devices (transport_network e) = Inr ds \<and> device_id \<in> ds_id ` set ds)
         \<and> (\<exists>p app. connect_device e device_id = Inr p \<and> nt_install e p app))"
proof (cases "connect_device e device_id")
  case (Inl err)
  with assms(3) show ?thesis by (auto simp: netmux_install_ipa_def)
next
  case (Inr p)
  then obtain r' where "signing_install_ipa h (Some dv) fresh storage ipa (nt_info e p) (nt_install e p) d = (r', d')"
    "r = map_sum install_error id r'"
    using assms(3) by (auto simp: netmux_install_ipa_def split: prod.splits)
  moreover have "\<exists>ds. list_network_devices (transport_network e) = Inr ds \<and> device_id \<in> ds_id ` set ds"
    if "r = Inr b" for b
    using netmux_install.success_listed assms(3) that by blast
  ultimately show ?thesis using signing_install_restores [OF assms(1,2)] Inr by (cases r') fastforce+
qed

text \<open>One listed phone whose connection answers everything, and a run on it.\<close>

definition demo_transport :: transport_env where
  "demo_transport = \<lparr>nt_mux = Some [(''udid'', NetworkConnection ''ip'')], nt_bonjour = None,
     nt_pairing_entries = None, nt_lockdown = (\<lambda>_ _. Some (Some ''n'', None, None)),
     nt_sha16 = (\<lambda>_. 7), nt_pairing_dir = ''p'', nt_read_pairing = (\<lambda>_. Some ''key''),
     nt_info = (\<lambda>_. Some (''n'', ''udid'')), nt_install = (\<lambda>_ _. True), nt_proxy = (\<lambda>_. True),
     nt_browse = (\<lambda>_. Some []), nt_afc = (\<lambda>_. True), nt_afc_info = (\<lambda>_. True)\<rparr>"

lemma demo_services: "nt_info demo_transport p = Some (''n'', ''udid'')" "nt_install demo_transport p app"
  by (simp_all add: demo_transport_def)

theorem network_install_restores_witness:
  "\<exists>b d'. netmux_install_ipa demo_transport demo_host (Some demo_signer) demo_fresh [''s'', ''a''] 7
      [''u'', ''a.ipa''] demo_disk = (Inr b, d')
    \<and> restored {[''s'', ''k'']} [''s'', ''a''] demo_disk d'"
proof -
  obtain r d' where run: "netmux_install_ipa demo_transport demo_host (Some demo_signer) demo_fresh [''s'', ''a''] 7
      [''u'', ''a.ipa''] demo_disk = (r, d')" by (rule prod.exhaust)
  moreover have c: "connect_device demo_transport 7 = Inr \<lparr>tp_address = ''ip'', tp_pairing_file = ''key''\<rparr>"
    by (simp add: demo_transport_def connect_device_def transport_network_def reachable_network_devices_def
        netmux_network_devices_def reachable_candidates_def describe_device_def device_id_for_udid_def
        provider_for_def ok_or_def Let_def sum_bind_def map_filter_simps)
  have "new_identity ''n'' ''udid'' = Inr demo_device_identity"
    by (simp add: new_identity_def demo_device_identity_def trim_nonempty_graphic is_ascii_graphic_def
        byte_of_def)
  then have "\<exists>b. r = Inr b"
    using run demo_services by (auto simp: netmux_install_ipa_def c signing_install_ipa_def
        sign_for_device_def demo_run_defs)
  ultimately show ?thesis using network_install_restores [OF demo_workspace demo_confined run] by (auto simp: demo_left)
qed

end
