(* ===== verification/Server.thy ===== *)
theory Server
  imports Transport PairingHandlers AppleTv Uploads LoginSession StoreInvariant
begin

text \<open>
  Starting the server (\<^verbatim>\<open>main\<close>, \<^verbatim>\<open>src/main.rs\<close>): the command line and the environment, the data
  directory and the database with its migration, the configuration of the optional features, the
  route table and the address. Panics of \<^verbatim>\<open>expect\<close> are errors. axum's dispatch, the listener and
  logging are libraries; the route table, its body limits and the log filter are the program's.
\<close>

section \<open>Routes\<close>

datatype http_method = GET | POST | PUT | PATCH | DELETE

datatype handler =
    HDashboard | HHealthz
  | HStartAppleLogin | HSavedAppleLogin | HDeleteSavedAppleLogin | HCertificateRecovery
  | HGetAppleLogin | HSubmitTwoFactor
  | HListDevices | HListDeviceApps | HRescanDevices
  | HCreatePairing | HGetPairing | HCancelPairing
  | HTvOverview | HTvForget | HTvDiscover | HTvStart | HTvStatus | HTvCancel | HTvPin
  | HManaged | HForgetManaged
  | HSourcePreview | HSourceList | HSourceCreate | HSourceUpdate | HSourceRemove | HSourceCheck
  | HSourceDownload | HSourceAutomation | HSourceSync
  | HUpdateInfo | HUpdateRequest | HUpdateStatus
  | HListApps | HUploadIpa | HRenameApp | HDeleteIpa
  | HCreateJob | HListJobs | HGetJob | HTriggerRefresh | HRefreshAttention
  | HGetRefreshSettings | HPutRefreshSettings | HValidity
  | HSpikeAfc | HSpikeRsd | HSpikeRemoteAfc | HSpikeProxy | HSpikeInstall

text \<open>A route with the body limit of its own layer, if it has one.\<close>

record route =
  rt_path :: string
  rt_method :: http_method
  rt_handler :: handler
  rt_layer :: "nat option"

definition on :: "string \<Rightarrow> (http_method \<times> handler) list \<Rightarrow> route list" where
  "on path hs = map (\<lambda>(m, h). \<lparr>rt_path = path, rt_method = m, rt_handler = h, rt_layer = None\<rparr>) hs"

definition api_routes :: "route list" where
  "api_routes = concat
    [on ''/'' [(GET, HDashboard)],
     on ''/healthz'' [(GET, HHealthz)],
     on ''/api/signing/sessions'' [(POST, HStartAppleLogin)],
     on ''/api/signing/saved-session'' [(GET, HSavedAppleLogin), (DELETE, HDeleteSavedAppleLogin)],
     on ''/api/signing/certificate-recovery'' [(POST, HCertificateRecovery)],
     on ''/api/signing/sessions/{id}'' [(GET, HGetAppleLogin)],
     on ''/api/signing/sessions/{id}/two-factor'' [(POST, HSubmitTwoFactor)],
     on ''/api/devices'' [(GET, HListDevices)],
     on ''/api/devices/{id}/apps'' [(GET, HListDeviceApps)],
     on ''/api/devices/rescan'' [(POST, HRescanDevices)],
     on ''/api/pairing-sessions'' [(POST, HCreatePairing)],
     on ''/api/apple-tv'' [(GET, HTvOverview), (DELETE, HTvForget)],
     on ''/api/apple-tv/discover'' [(POST, HTvDiscover)],
     on ''/api/apple-tv/pairing'' [(POST, HTvStart)],
     on ''/api/apple-tv/pairing/{id}'' [(GET, HTvStatus), (DELETE, HTvCancel)],
     on ''/api/apple-tv/pairing/{id}/pin'' [(POST, HTvPin)],
     on ''/api/pairing-sessions/{id}'' [(GET, HGetPairing), (DELETE, HCancelPairing)],
     on ''/api/managed-installations'' [(GET, HManaged)],
     on ''/api/devices/{device_id}/managed-apps/{app_id}'' [(DELETE, HForgetManaged)],
     on ''/api/sources/preview'' [(POST, HSourcePreview)],
     on ''/api/sources'' [(GET, HSourceList), (POST, HSourceCreate)],
     on ''/api/sources/{id}'' [(PUT, HSourceUpdate), (DELETE, HSourceRemove)],
     on ''/api/sources/{id}/check'' [(POST, HSourceCheck)],
     on ''/api/sources/{id}/download'' [(POST, HSourceDownload)],
     on ''/api/sources/{id}/automation'' [(PUT, HSourceAutomation)],
     on ''/api/sources/sync'' [(POST, HSourceSync)],
     on ''/api/update'' [(GET, HUpdateInfo), (POST, HUpdateRequest)],
     on ''/api/update/status'' [(GET, HUpdateStatus)],
     on ''/api/apps'' [(GET, HListApps), (POST, HUploadIpa)],
     on ''/api/apps/{id}'' [(PATCH, HRenameApp), (DELETE, HDeleteIpa)],
     on ''/api/install-jobs'' [(POST, HCreateJob)],
     on ''/api/install-jobs'' [(GET, HListJobs)],
     on ''/api/install-jobs/{id}'' [(GET, HGetJob)],
     on ''/api/refresh'' [(POST, HTriggerRefresh)],
     on ''/api/refresh-attention'' [(GET, HRefreshAttention)],
     on ''/api/settings/refresh'' [(GET, HGetRefreshSettings), (PUT, HPutRefreshSettings)],
     on ''/api/installation-validity'' [(GET, HValidity)]]"

definition SPIKE_AFC_PROBE_PATH :: string where
  "SPIKE_AFC_PROBE_PATH = ''/api/spike/devices/{id}/afc-probe''"
definition SPIKE_RSD_PROBE_PATH :: string where
  "SPIKE_RSD_PROBE_PATH = ''/api/spike/remote-pairing/rsd-probe''"
definition SPIKE_REMOTE_AFC_PROBE_PATH :: string where
  "SPIKE_REMOTE_AFC_PROBE_PATH = ''/api/spike/remote-pairing/afc-probe''"
definition SPIKE_INSTALLATION_PROXY_PROBE_PATH :: string where
  "SPIKE_INSTALLATION_PROXY_PROBE_PATH = ''/api/spike/remote-pairing/installation-proxy-probe''"
definition SPIKE_RSD_INSTALL_PATH :: string where
  "SPIKE_RSD_INSTALL_PATH = ''/api/spike/remote-pairing/install''"

definition spike_route_paths :: "bool \<Rightarrow> string list" where
  "spike_route_paths spike_mode =
     (if spike_mode then [SPIKE_AFC_PROBE_PATH, SPIKE_RSD_PROBE_PATH, SPIKE_REMOTE_AFC_PROBE_PATH,
        SPIKE_INSTALLATION_PROXY_PROBE_PATH, SPIKE_RSD_INSTALL_PATH] else [])"

definition with_spike_routes :: "route list \<Rightarrow> bool \<Rightarrow> route list" where
  "with_spike_routes app spike_mode =
     (if spike_route_paths spike_mode = [] then app
      else app @ concat
        [on SPIKE_AFC_PROBE_PATH [(GET, HSpikeAfc)],
         on SPIKE_RSD_PROBE_PATH [(GET, HSpikeRsd)],
         on SPIKE_REMOTE_AFC_PROBE_PATH [(GET, HSpikeRemoteAfc)],
         on SPIKE_INSTALLATION_PROXY_PROBE_PATH [(GET, HSpikeProxy)],
         [\<lparr>rt_path = SPIKE_RSD_INSTALL_PATH, rt_method = POST, rt_handler = HSpikeInstall,
           rt_layer = Some 1024\<rparr>]])"

text \<open>The limit of every other route is that of the outer layer.\<close>

definition BODY_LIMIT :: nat where "BODY_LIMIT = 2 * 1024 * 1024 * 1024"

definition body_limit :: "route \<Rightarrow> nat" where
  "body_limit r = (case rt_layer r of None \<Rightarrow> BODY_LIMIT | Some n \<Rightarrow> n)"

section \<open>The log filter\<close>

definition DEFAULT_DIRECTIVE :: string where "DEFAULT_DIRECTIVE = ''idevice=info''"

text \<open>
  A filter is its directives; \<open>from_env\<close> is \<^verbatim>\<open>EnvFilter::from_default_env\<close>.
\<close>

definition operator_env_filter :: "string list \<Rightarrow> string option \<Rightarrow> string list" where
  "operator_env_filter from_env explicit =
     (case explicit of Some filter_text \<Rightarrow> [filter_text] | None \<Rightarrow> from_env @ [DEFAULT_DIRECTIVE])"

definition SPIKE_DIAGNOSTICS_TARGET :: string where
  "SPIKE_DIAGNOSTICS_TARGET = ''iphoneloadly_api::spike_diagnostics''"

text \<open>
  The target filter of the subscriber. The level directives of \<^const>\<open>operator_env_filter\<close> are applied
  besides it, so an event that passes here may still be dropped for its level.
\<close>

definition spike_target_allowed :: "bool \<Rightarrow> string \<Rightarrow> bool" where
  "spike_target_allowed spike_mode target \<longleftrightarrow> \<not> spike_mode \<or> target = SPIKE_DIAGNOSTICS_TARGET"

section \<open>Addresses\<close>

text \<open>\<^verbatim>\<open>str::parse::<SocketAddr>\<close>, for IPv4: four octets without leading zeros and a port.\<close>

definition parse_octet :: "string \<Rightarrow> nat option" where
  "parse_octet s =
     (if s = [] \<or> 3 < length s \<or> \<not> list_all is_ascii_digit s \<or> (1 < length s \<and> hd s = CHR ''0'') then None
      else if digits_value s \<le> 255 then Some (digits_value s) else None)"

definition parse_port :: "string \<Rightarrow> u16 option" where
  "parse_port s =
     (if s = [] \<or> \<not> list_all is_ascii_digit s \<or> 65536 \<le> digits_value s then None
      else Some (of_nat (digits_value s)))"

definition parse_ipv4 :: "string \<Rightarrow> ip_address option" where
  "parse_ipv4 s =
     (case map parse_octet (split_on (CHR ''.'') s) of
        [Some a, Some b, Some c, Some d] \<Rightarrow> Some (V4 (of_nat (((a * 256 + b) * 256 + c) * 256 + d)))
      | _ \<Rightarrow> None)"

definition parse_socket_addr_v4 :: "string \<Rightarrow> (ip_address \<times> u16) option" where
  "parse_socket_addr_v4 s =
     (case split_on (CHR '':'') s of
        [host, port] \<Rightarrow>
          (case (parse_ipv4 host, parse_port port) of (Some ip, Some p) \<Rightarrow> Some (ip, p) | _ \<Rightarrow> None)
      | _ \<Rightarrow> None)"

section \<open>The isolated anisette diagnostic\<close>

text \<open>
  The steps of the provisioning, as the library answers them, and whether they took longer than
  45 seconds; the events it reported, of which the program keeps 64.
\<close>

record anisette_env =
  ae_provider :: bool
  ae_client_info :: bool
  ae_grandslam :: bool
  ae_provision :: bool
  ae_headers :: bool
  ae_timeout :: bool
  ae_events :: "string list"

definition anisette_result :: "anisette_env \<Rightarrow> string" where
  "anisette_result a =
     (if ae_timeout a then ''TIMEOUT''
      else if \<not> ae_provider a then ''PROVIDER_BUILD_FAILED''
      else if \<not> ae_client_info a then ''CLIENT_INFO_FAILED''
      else if \<not> ae_grandslam a then ''URL_BAG_FAILED''
      else if \<not> ae_provision a then ''PROVISION_FAILED''
      else if \<not> ae_headers a then ''HEADERS_FAILED''
      else ''SUCCESS'')"

text \<open>The lines it prints.\<close>

definition anisette_diagnostic :: "(string \<Rightarrow> string option) \<Rightarrow> anisette_env \<Rightarrow> string list" where
  "anisette_diagnostic var a =
     (case opt_filter (\<lambda>url. url \<noteq> []) (var ''IPHONELOADLY_ANISETTE_URL'') of
        None \<Rightarrow> [''ANISETTE_DIAGNOSTIC_RESULT=CONFIG_MISSING'']
      | Some _ \<Rightarrow>
          let events = take 64 (ae_events a) in
          [''ANISETTE_DIAGNOSTIC_RESULT='' @ anisette_result a,
           ''ANISETTE_EVENT_COUNT='' @ show_nat (length events)]
          @ map (\<lambda>(i, event). ''ANISETTE_EVENT_'' @ show_nat i @ ''='' @ event) (enumerate 0 events)
          @ [''SAVED_CREDENTIALS_READ=False'', ''APPLE_ACCOUNT_LOGIN_EXECUTED=False'',
             ''TWO_FACTOR_SUBMITTED=False'', ''PHONE_CONTACTED=False'', ''PAIRING_EXECUTED=False'',
             ''SIGNING_EXECUTED=False'', ''INSTALL_EXECUTED=False'', ''PRODUCTION_CHANGED=False''])"

section \<open>Starting\<close>

text \<open>
  What the server starts in: the command line, the environment variables, the libraries'
  initialisation, the directories that can be made, the database in a file, the statements SQLite
  refuses, the files of the stored IPAs with the libraries that read them, the libraries, random
  key and identifier of a restored sign-in, IPv6 addresses, and the addresses that can be bound.
\<close>

record launch_env =
  la_args :: "string list"
  la_var :: "string \<Rightarrow> string option"
  la_crypto :: bool
  la_isideload :: bool
  la_mkdir :: "path \<Rightarrow> bool"
  la_open_store :: "path \<Rightarrow> db option"
  la_sql_refuses :: "uuid \<Rightarrow> bool"
  la_github :: bool
  la_fs :: fs
  la_fault :: io_faults
  la_ipa_lib :: ipa_lib
  la_crypto_lib :: crypto_lib
  la_random_key :: string
  la_login_id :: uuid
  la_parse_v6 :: "string \<Rightarrow> (ip_address \<times> u16) option"
  la_bind :: "ip_address \<times> u16 \<Rightarrow> bool"

datatype launch_failure =
    CryptoProvider | SideloadInit | CreateDataDirectory | InitializeStore | CreateGitHubClient
  | CreateAppStorage | InvalidSocketAddress | SpikeNotLoopback | BindListener

record 'p app_state =
  as_signing :: "'p provider"
  as_signing_dir :: path
  as_mux_socket :: string
  as_pairing_dir :: path
  as_wireless_pairing :: pairing_config
  as_apple_tv :: "pairing_config option"
  as_rsd_install :: bool
  as_apps_dir :: path
  as_database :: db
  as_fs :: fs

record 'p running_server =
  rn_state :: "'p app_state"
  rn_routes :: "route list"
  rn_address :: "ip_address \<times> u16"

datatype 'p launch = AnisetteDiagnostic | Panicked launch_failure | Serving "'p running_server"

definition spike_mode :: "launch_env \<Rightarrow> bool" where
  "spike_mode e \<longleftrightarrow> List.member (la_args e) ''--wireless-pairing-spike''"

definition data_dir :: "launch_env \<Rightarrow> path" where
  "data_dir e = (if spike_mode e then unwrap_or ''spike-data'' (la_var e ''IPHONELOADLY_SPIKE_DATA_DIR'')
     else ''data'')"

text \<open>
  The migration: apps without a bundle identifier get that of their IPA; an unreadable IPA or a
  refused statement is logged and skipped.
\<close>

fun migrate_bundle_ids :: "launch_env \<Rightarrow> (uuid \<times> string) list \<Rightarrow> db \<Rightarrow> db" where
  "migrate_bundle_ids e [] d = d"
| "migrate_bundle_ids e ((i, p) # apps) d =
     (case bundle_identifier (la_ipa_lib e) (la_fault e) (la_fs e) p of
        Inr bundle_id \<Rightarrow>
          migrate_bundle_ids e apps (if la_sql_refuses e i then d else set_app_bundle_id i bundle_id d)
      | Inl _ \<Rightarrow> migrate_bundle_ids e apps d)"

text \<open>
  In the normal mode only the mode on is turned off: the mode experimental, which pairs in the same
  way, stays enabled.
\<close>

definition wireless_config :: "launch_env \<Rightarrow> pairing_config" where
  "wireless_config e =
     (case config_from_env (la_var e) (path_join (data_dir e) ''wireless-pairing'') of
        Inr config \<Rightarrow>
          if \<not> spike_mode e \<and> pc_mode config = PairingOn then config\<lparr>pc_mode := PairingOff\<rparr> else config
      | Inl _ \<Rightarrow> disabled_config (path_join (data_dir e) ''wireless-pairing''))"

text \<open>
  The installs over RSD of the dashboard. The diagnostic mode has a route of its own that installs over
  RSD, \<^const>\<open>SPIKE_RSD_INSTALL_PATH\<close>, whatever this flag says.
\<close>

definition rsd_install :: "launch_env \<Rightarrow> bool" where
  "rsd_install e \<longleftrightarrow> \<not> spike_mode e \<and> rsd_install_enabled (la_var e ''IPHONELOADLY_RSD_INSTALL'')"

definition apple_tv_config :: "launch_env \<Rightarrow> pairing_config option" where
  "apple_tv_config e =
     (if rsd_install e \<and> tv_enabled (la_var e ''IPHONELOADLY_APPLE_TV'')
      then Some (disabled_config (path_join (pc_state_dir (wireless_config e)) ''apple-tv'')) else None)"

definition initial_state :: "launch_env \<Rightarrow> db \<Rightarrow> 'p app_state" where
  "initial_state e d =
     \<lparr>as_signing = new_provider (la_var e ''IPHONELOADLY_ANISETTE_URL''),
      as_signing_dir = path_join (data_dir e) ''signing'',
      as_mux_socket = unwrap_or ''/run/iphoneloadly/mux.sock'' (la_var e ''IPHONELOADLY_MUX_SOCKET''),
      as_pairing_dir = unwrap_or ''/var/lib/lockdown'' (la_var e ''IPHONELOADLY_PAIRING_DIR''),
      as_wireless_pairing = wireless_config e, as_apple_tv = apple_tv_config e,
      as_rsd_install = rsd_install e, as_apps_dir = path_join (data_dir e) ''apps'',
      as_database = d, as_fs = la_fs e\<rparr>"

text \<open>The saved sign-in is restored; a failure to do so is logged.\<close>

definition restore_login :: "launch_env \<Rightarrow> 'p app_state \<Rightarrow> 'p app_state" where
  "restore_login e st =
     (case restore_saved_login (la_crypto_lib e) (la_fault e) (as_signing_dir st) (la_random_key e)
             (la_login_id e) (as_fs st) (as_signing st) of
        (_, fs', p) \<Rightarrow> st\<lparr>as_signing := p, as_fs := fs'\<rparr>)"

definition api_address :: "launch_env \<Rightarrow> launch_failure + ip_address \<times> u16" where
  "api_address e =
     (let text = if spike_mode e
                 then unwrap_or ''127.0.0.1:18080'' (la_var e ''IPHONELOADLY_SPIKE_API_ADDRESS'')
                 else ''127.0.0.1:8080'' in
      case (case parse_socket_addr_v4 text of None \<Rightarrow> la_parse_v6 e text | Some a \<Rightarrow> Some a) of
        None \<Rightarrow> Inl InvalidSocketAddress
      | Some address \<Rightarrow>
          if spike_mode e \<and> \<not> is_loopback (fst address) then Inl SpikeNotLoopback else Inr address)"

definition launch :: "launch_env \<Rightarrow> 'p launch" where
  "launch e =
     (if \<not> la_crypto e then Panicked CryptoProvider
      else if \<not> la_isideload e then Panicked SideloadInit
      else if List.member (la_args e) ''--isolated-anisette-provisioning-diagnostic''
      then AnisetteDiagnostic
      else if \<not> la_mkdir e (data_dir e) then Panicked CreateDataDirectory
      else case la_open_store e (path_join (data_dir e) ''iphoneloadly.db'') of
        None \<Rightarrow> Panicked InitializeStore
      | Some d \<Rightarrow>
          if \<not> la_github e then Panicked CreateGitHubClient
          else let st = initial_state e (migrate_bundle_ids e (apps_missing_bundle_id d) d) in
            if \<not> la_mkdir e (as_apps_dir st) then Panicked CreateAppStorage
            else (case api_address e of
                    Inl failure \<Rightarrow> Panicked failure
                  | Inr address \<Rightarrow>
                      if \<not> la_bind e address then Panicked BindListener
                      else Serving \<lparr>rn_state = restore_login e st,
                             rn_routes = with_spike_routes api_routes (spike_mode e),
                             rn_address = address\<rparr>))"

end
