(* ===== verification/ServerContract.thy ===== *)
theory ServerContract
  imports Server LoginContract
begin

text \<open>
  What starting the server guarantees (\<open>Server\<close>): the route table has one handler for each path
  and method, the diagnostic mode and the normal mode are isolated, the migration changes what it
  means to change, and what the body limit of the router makes of the upload limit.
\<close>

section \<open>Every route has one handler\<close>

text \<open>axum refuses a second handler for a path and method; the table has none.\<close>

lemma api_routes_distinct: "distinct (map (\<lambda>r. (rt_path r, rt_method r)) api_routes)"
  by (simp add: api_routes_def on_def)

lemma no_spike_route: "list_all (\<lambda>r. \<not> starts_with (rt_path r) ''/api/spike/'') api_routes"
  by (simp add: api_routes_def on_def starts_with_def)

lemma spike_paths: "p \<in> set (spike_route_paths spike) \<Longrightarrow> starts_with p ''/api/spike/''"
  by (cases spike)
    (auto simp: spike_route_paths_def SPIKE_AFC_PROBE_PATH_def SPIKE_RSD_PROBE_PATH_def
      SPIKE_REMOTE_AFC_PROBE_PATH_def SPIKE_INSTALLATION_PROXY_PROBE_PATH_def SPIKE_RSD_INSTALL_PATH_def
      starts_with_def)

lemma routes_off_spike:
  "rt \<in> set (with_spike_routes api_routes False) \<Longrightarrow> rt_path rt \<notin> set (spike_route_paths True)"
  using no_spike_route spike_paths [of _ True]
  by (auto simp: with_spike_routes_def spike_route_paths_def list_all_iff)

lemma spike_routes_distinct: "distinct (spike_route_paths spike)"
  by (simp add: spike_route_paths_def SPIKE_AFC_PROBE_PATH_def SPIKE_RSD_PROBE_PATH_def
      SPIKE_REMOTE_AFC_PROBE_PATH_def SPIKE_INSTALLATION_PROXY_PROBE_PATH_def SPIKE_RSD_INSTALL_PATH_def)

section \<open>The two modes are isolated\<close>

lemma local_address: "parse_socket_addr_v4 ''127.0.0.1:8080'' = Some (V4 0x7F000001, 8080)"
  by (simp add: parse_socket_addr_v4_def parse_ipv4_def parse_octet_def parse_port_def digits_value_def
      is_ascii_digit_def byte_of_def)

lemma path_join_longer: "name \<noteq> [] \<Longrightarrow> \<not> starts_with name ''/'' \<Longrightarrow> path_join dir name \<noteq> dir"
  by (auto simp: path_join_def)

lemma restore_login_config [simp]:
  "as_wireless_pairing (restore_login e st) = as_wireless_pairing st"
  "as_apple_tv (restore_login e st) = as_apple_tv st"
  "as_rsd_install (restore_login e st) = as_rsd_install st"
  "as_database (restore_login e st) = as_database st"
  "as_apps_dir (restore_login e st) = as_apps_dir st"
  by (simp_all add: restore_login_def split: prod.split)

lemma launch_Serving:
  assumes "launch e = Serving r"
  shows "\<exists>d. la_open_store e (path_join (data_dir e) ''iphoneloadly.db'') = Some d
    \<and> rn_state r = restore_login e (initial_state e (migrate_bundle_ids e (apps_missing_bundle_id d) d))
    \<and> rn_routes r = with_spike_routes api_routes (spike_mode e)
    \<and> api_address e = Inr (rn_address r)"
  using assms by (auto simp: launch_def Let_def split: if_splits option.splits sum.splits)

lemma spike_routes_served:
  "(\<exists>rt \<in> set (with_spike_routes api_routes spike). rt_path rt \<in> set (spike_route_paths True)) \<longleftrightarrow> spike"
proof (cases spike)
  case True
  have "\<lparr>rt_path = SPIKE_RSD_INSTALL_PATH, rt_method = POST, rt_handler = HSpikeInstall, rt_layer = Some 1024\<rparr>
      \<in> set (with_spike_routes api_routes True)"
    by (simp add: with_spike_routes_def spike_route_paths_def)
  with True show ?thesis by (auto simp: spike_route_paths_def intro: rev_bexI)
qed (use routes_off_spike in auto)

text \<open>
  C14: What a start in each mode serves. A server that serves is bound to a loopback address. It
  has the diagnostic routes, the installation over RSD among them, exactly in the diagnostic mode,
  and the installs over RSD of the dashboard exactly in the normal mode with the variable set to
  on. Wireless pairing is enabled in the diagnostic mode as configured, but in the normal mode only
  if it is configured as experimental: the mode on is turned off there, the mode experimental is
  not. The normal mode serves 127.0.0.1:8080 and keeps its data in \<^verbatim>\<open>data\<close>. The Apple TV
  needs the installs over RSD, and its pairing service advertises nothing and keeps its state in a
  directory of its own.
\<close>

theorem launch_by_mode:
  assumes "launch e = Serving r"
  shows "is_loopback (fst (rn_address r))
    \<and> ((\<exists>rt \<in> set (rn_routes r). rt_path rt \<in> set (spike_route_paths True)) \<longleftrightarrow> spike_mode e)
    \<and> (as_rsd_install (rn_state r) \<longleftrightarrow>
         \<not> spike_mode e \<and> rsd_install_enabled (la_var e ''IPHONELOADLY_RSD_INSTALL''))
    \<and> (mode_enabled (pc_mode (as_wireless_pairing (rn_state r))) \<longleftrightarrow>
         (\<exists>c. config_from_env (la_var e) (path_join (data_dir e) ''wireless-pairing'') = Inr c
            \<and> (pc_mode c = PairingExperimental \<or> spike_mode e \<and> pc_mode c = PairingOn)))
    \<and> (\<not> spike_mode e \<longrightarrow> rn_address r = (V4 0x7F000001, 8080) \<and> as_apps_dir (rn_state r) = ''data/apps'')
    \<and> (\<forall>c. as_apple_tv (rn_state r) = Some c \<longrightarrow> as_rsd_install (rn_state r) \<and> pc_mode c = PairingOff
         \<and> pc_state_dir c \<noteq> pc_state_dir (as_wireless_pairing (rn_state r)))"
proof -
  from launch_Serving [OF assms] obtain d where
    st: "rn_state r = restore_login e (initial_state e (migrate_bundle_ids e (apps_missing_bundle_id d) d))"
    and rt: "rn_routes r = with_spike_routes api_routes (spike_mode e)"
    and ad: "api_address e = Inr (rn_address r)" by auto
  have normal: "\<not> spike_mode e \<Longrightarrow> rn_address r = (V4 0x7F000001, 8080)"
    using ad by (simp add: api_address_def Let_def local_address)
  moreover have "is_loopback (V4 0x7F000001)" by simp
  ultimately have loop: "is_loopback (fst (rn_address r))"
    using ad by (cases "spike_mode e") (auto simp: api_address_def Let_def split: option.splits if_splits)
  have mode: "mode_enabled (pc_mode (wireless_config e)) \<longleftrightarrow>
      (\<exists>c. config_from_env (la_var e) (path_join (data_dir e) ''wireless-pairing'') = Inr c
         \<and> (pc_mode c = PairingExperimental \<or> spike_mode e \<and> pc_mode c = PairingOn))"
    by (auto simp: wireless_config_def disabled_config_def mode_enabled_def split: sum.splits) (metis pairing_mode.exhaust)+
  have dir: "\<not> spike_mode e \<Longrightarrow> path_join (data_dir e) ''apps'' = ''data/apps''"
    by (simp add: data_dir_def path_join_def starts_with_def)
  have fields: "as_wireless_pairing (rn_state r) = wireless_config e" "as_rsd_install (rn_state r) = rsd_install e"
    "as_apps_dir (rn_state r) = path_join (data_dir e) ''apps''" "as_apple_tv (rn_state r) = apple_tv_config e"
    by (simp_all add: st initial_state_def)
  have tv: "\<forall>c. apple_tv_config e = Some c \<longrightarrow> rsd_install e \<and> pc_mode c = PairingOff
      \<and> pc_state_dir c \<noteq> pc_state_dir (wireless_config e)"
    by (auto simp: apple_tv_config_def disabled_config_def path_join_longer starts_with_def)
  show ?thesis
    unfolding fields rt spike_routes_served using loop normal mode dir tv by (simp add: rsd_install_def)
qed

text \<open>
  A start in the normal mode, configured for the experimental pairing, on a database whose only
  app lacks its bundle identifier.
\<close>

definition demo_old_app :: app_row where
  "demo_old_app = \<lparr>ar_id = 1, ar_sha256 = ''h'', ar_storage_path = ''a.ipa'', ar_size_bytes = 5,
     ar_uploaded_at = 0, ar_deleted_at = None, ar_bundle_id = None, ar_display_name = None,
     ar_app_version = None\<rparr>"

definition demo_launch :: launch_env where
  "demo_launch = \<lparr>la_args = [], la_var = [''IPHONELOADLY_WIRELESS_PAIRING'' \<mapsto> ''experimental''], la_crypto = True, la_isideload = True,
     la_mkdir = (\<lambda>_. True), la_open_store = (\<lambda>_. Some (empty_db\<lparr>db_apps := [demo_old_app]\<rparr>)),
     la_sql_refuses = (\<lambda>_. False), la_github = True, la_fs = [''a.ipa'' \<mapsto> ''com.a''],
     la_fault = (\<lambda>_. False), la_ipa_lib = demo_lib, la_crypto_lib = demo_crypto,
     la_random_key = ''k'', la_login_id = 3, la_parse_v6 = (\<lambda>_. None), la_bind = (\<lambda>_. True)\<rparr>"

lemma demo_pairing:
  "\<exists>c. config_from_env (la_var demo_launch) dir = Inr c \<and> pc_mode c = PairingExperimental"
proof -
  have "parse_mode (Some ''experimental'') = PairingExperimental" by code_simp
  then show ?thesis
    by (simp add: demo_launch_def config_from_env_def validate_pairing_port_def DEFAULT_PAIRING_PORT_def nonblank_def)
qed

lemma demo_launch_serves: "\<exists>r :: 'p running_server. launch demo_launch = Serving r"
proof -
  have "api_address demo_launch = Inr (V4 0x7F000001, 8080)"
    by (simp add: api_address_def spike_mode_def demo_launch_def local_address)
  moreover have "la_mkdir demo_launch = (\<lambda>_. True)" "la_bind demo_launch = (\<lambda>_. True)"
    "la_open_store demo_launch = (\<lambda>_. Some (empty_db\<lparr>db_apps := [demo_old_app]\<rparr>))"
    "la_args demo_launch = []" "la_crypto demo_launch" "la_isideload demo_launch" "la_github demo_launch"
    by (simp_all add: demo_launch_def)
  ultimately show ?thesis by (simp add: launch_def Let_def)
qed

theorem launch_by_mode_witness:
  "\<exists>r :: unit running_server. launch demo_launch = Serving r
     \<and> rn_address r = (V4 0x7F000001, 8080) \<and> mode_enabled (pc_mode (as_wireless_pairing (rn_state r)))"
proof -
  obtain r :: "unit running_server" where r: "launch demo_launch = Serving r"
    using demo_launch_serves by blast
  have normal: "\<not> spike_mode demo_launch" by (simp add: spike_mode_def demo_launch_def)
  have "mode_enabled (pc_mode (wireless_config demo_launch))"
    using demo_pairing [of "path_join (data_dir demo_launch) ''wireless-pairing''"]
    by (auto simp: wireless_config_def normal mode_enabled_def)
  moreover have "as_wireless_pairing (rn_state r) = wireless_config demo_launch"
    using launch_Serving [OF r] by (auto simp: initial_state_def)
  ultimately show ?thesis using launch_by_mode [OF r] normal r by auto
qed

section \<open>The migration\<close>

text \<open>What the migration makes of one app.\<close>

definition migrated_row :: "launch_env \<Rightarrow> app_row \<Rightarrow> app_row" where
  "migrated_row e a =
     (if ar_bundle_id a \<noteq> None \<or> ar_deleted_at a \<noteq> None \<or> la_sql_refuses e (ar_id a) then a
      else (case bundle_identifier (la_ipa_lib e) (la_fault e) (la_fs e) (ar_storage_path a) of
              Inl _ \<Rightarrow> a | Inr b \<Rightarrow> a\<lparr>ar_bundle_id := Some b\<rparr>))"

lemma update_rows_other: "i \<notin> key ` set rows \<Longrightarrow> update_rows (\<lambda>r. key r = i) f rows = rows"
  by (induction rows) (auto simp: update_rows_def)

lemma update_rows_append_Cons:
  "update_rows P f (xs @ a # ys) = update_rows P f xs @ (if P a then f a else a) # update_rows P f ys"
  by (simp add: update_rows_def)

lemma set_bundle_id_middle:
  assumes "distinct (map ar_id (done_rows @ a # rest))"
  shows "set_app_bundle_id (ar_id a) b (put_apps (done_rows @ a # rest) d)
    = put_apps (done_rows @ a\<lparr>ar_bundle_id := Some b\<rparr> # rest) d"
  using assms by (simp add: set_app_bundle_id_def update_rows_append_Cons update_rows_other)

lemma migrate_rows:
  "distinct (map ar_id (done_rows @ rows)) \<Longrightarrow>
     migrate_bundle_ids e (apps_missing_bundle_id (put_apps rows d)) (put_apps (done_rows @ rows) d)
     = put_apps (done_rows @ map (migrated_row e) rows) d"
proof (induction rows arbitrary: done_rows)
  case (Cons a rows)
  have next_row: "migrate_bundle_ids e (apps_missing_bundle_id (put_apps rows d)) (put_apps (done_rows @ a' # rows) d)
    = put_apps (done_rows @ a' # map (migrated_row e) rows) d" if "ar_id a' = ar_id a" for a'
    using Cons.IH [of "done_rows @ [a']"] Cons.prems that by simp
  show ?case
    using next_row [of a] next_row [of "migrated_row e a"] Cons.prems
    by (auto simp: apps_missing_bundle_id_def migrated_row_def set_bundle_id_middle split: sum.splits)
qed (simp add: apps_missing_bundle_id_def)

lemma migrate_ok: "db_ok d \<Longrightarrow> db_ok (migrate_bundle_ids e apps d)"
  by (induction e apps d rule: migrate_bundle_ids.induct)
    (auto simp: set_app_bundle_id_ok split: sum.splits)

text \<open>
  Starting migrates exactly the apps that lack a bundle identifier. The database the server
  starts with is the stored one, with the identifier of its IPA given to every app that had none
  and is not deleted, when the IPA can be inspected and the statement is not refused; nothing else
  differs, and a consistent database stays consistent.
\<close>

theorem launch_migrates_exactly:
  assumes "launch e = Serving r" "la_open_store e (path_join (data_dir e) ''iphoneloadly.db'') = Some d"
    "db_ok d"
  shows "as_database (rn_state r) = put_apps (map (migrated_row e) (db_apps d)) d
    \<and> db_ok (as_database (rn_state r))"
proof -
  have "as_database (rn_state r) = migrate_bundle_ids e (apps_missing_bundle_id d) d"
    using launch_Serving [OF assms(1)] assms(2) by (auto simp: initial_state_def)
  moreover have "migrate_bundle_ids e (apps_missing_bundle_id d) d
      = put_apps (map (migrated_row e) (db_apps d)) d"
    using migrate_rows [of "[]" "db_apps d" e d] assms(3) by (simp add: db_ok_def apps_ok_def)
  ultimately show ?thesis using migrate_ok [OF assms(3)] by metis
qed

theorem launch_migrates_exactly_witness:
  "\<exists>r :: unit running_server. launch demo_launch = Serving r
     \<and> db_apps (as_database (rn_state r)) = [demo_old_app\<lparr>ar_bundle_id := Some ''com.a''\<rparr>]"
proof -
  obtain r :: "unit running_server" where r: "launch demo_launch = Serving r"
    using demo_launch_serves by blast
  have st: "la_open_store demo_launch (path_join (data_dir demo_launch) ''iphoneloadly.db'')
      = Some (empty_db\<lparr>db_apps := [demo_old_app]\<rparr>)"
    by (simp add: demo_launch_def)
  have ok: "db_ok (empty_db\<lparr>db_apps := [demo_old_app]\<rparr>)"
    by (simp add: db_ok_defs db_ok_def empty_db_def)
  have "migrated_row demo_launch demo_old_app = demo_old_app\<lparr>ar_bundle_id := Some ''com.a''\<rparr>"
    by (simp add: migrated_row_def demo_old_app_def demo_launch_def bundle_identifier_def demo_inspect
        demo_metadata_def)
  with launch_migrates_exactly [OF r st ok] r show ?thesis by simp
qed

section \<open>An upload over the limit\<close>

definition part_bytes :: "part \<Rightarrow> nat" where
  "part_bytes p = sum_list (map (\<lambda>c. case c of None \<Rightarrow> 0 | Some s \<Rightarrow> length s) (pt_chunks p))"

definition body_bytes :: "part list \<Rightarrow> nat" where
  "body_bytes parts = sum_list (map part_bytes parts)"

lemma saturating_small:
  assumes "unat written + length chunk \<le> 2147483648"
  shows "unat (saturating_add_u64 written (len_u64 chunk)) = unat written + length chunk"
proof -
  have "unat (len_u64 chunk) = length chunk" using assms by (simp add: unat_len_u64)
  with assms show ?thesis by (simp add: unat_saturating_add_u64)
qed

lemma receive_chunks_small:
  assumes "receive_chunks fault tmp chunks written fs = (res, fs')"
    "unat written + sum_list (map (\<lambda>c. case c of None \<Rightarrow> 0 | Some s \<Rightarrow> length s) chunks) \<le> 2147483648"
  shows "case res of Inl r \<Rightarrow> resp_status r \<noteq> 413
    | Inr written' \<Rightarrow> unat written' =
        unat written + sum_list (map (\<lambda>c. case c of None \<Rightarrow> 0 | Some s \<Rightarrow> length s) chunks)"
  using assms
proof (induction fault tmp chunks written fs arbitrary: res fs' rule: receive_chunks.induct)
  case (3 fault tmp chunk chunks written fs)
  have small: "unat written + length chunk \<le> 2147483648" using 3(3) by simp
  have "\<not> MAX_COMPRESSED_BYTES < saturating_add_u64 written (len_u64 chunk)"
    using saturating_small [OF small] small by (simp add: word_less_nat_alt MAX_COMPRESSED_BYTES_def)
  note fits = this saturating_small [OF small]
  show ?case
  proof (cases "fault (IoWrite tmp)")
    case True
    with 3(2) fits show ?thesis by (auto simp: Let_def)
  next
    case False
    with 3(2) fits have "receive_chunks fault tmp chunks (saturating_add_u64 written (len_u64 chunk))
        (fs(tmp \<mapsto> (case fs tmp of None \<Rightarrow> [] | Some old \<Rightarrow> old) @ chunk)) = (res, fs')"
      by (simp add: Let_def)
    from 3(1) [OF refl fits(1) False this] 3(3) fits(2) show ?thesis by (cases res) simp_all
  qed
qed auto

lemma receive_parts_small:
  assumes "receive_parts fault tmp parts dn seen written fs = (Inl r, fs')"
    "unat written + body_bytes parts \<le> 2147483648"
  shows "resp_status r \<noteq> 413"
  using assms
proof (induction fault tmp parts dn seen written fs arbitrary: r fs' rule: receive_parts.induct)
  case (2 fault tmp p ps dn seen written fs)
  obtain res fs1 where chunks: "receive_chunks fault tmp (pt_chunks p) written fs = (res, fs1)"
    by (rule prod.exhaust)
  have "unat written + part_bytes p \<le> 2147483648" using 2(4) by (simp add: body_bytes_def)
  note small = receive_chunks_small [OF chunks this [unfolded part_bytes_def]]
  from 2 chunks small show ?case
    by (auto simp: body_bytes_def part_bytes_def split: option.splits if_splits sum.splits)
qed simp

text \<open>
  The size limit of the handler is out of reach. The outer body limit of the router is the
  limit of the handler, so the chunks an upload receives never add up to more: an IPA that is too
  large is answered like an upload that could not be read, and the answer 413 the handler has for
  it is never given.
\<close>

theorem upload_limit_unreachable:
  assumes "rt \<in> set (with_spike_routes api_routes spike)" "rt_handler rt = HUploadIpa"
    and "body_bytes parts \<le> body_limit rt"
  shows "resp_status (fst (upload_ipa e apps_dir aid parts srv)) \<noteq> 413"
proof -
  from assms(1,2) have "rt_layer rt = None"
    by (auto simp: with_spike_routes_def api_routes_def on_def split: if_splits)
  with assms(3) have small: "unat (0 :: u64) + body_bytes parts \<le> 2147483648"
    by (simp add: body_limit_def BODY_LIMIT_def)
  show ?thesis
    by (auto simp: upload_ipa_def finish_upload_def Let_def dest: receive_parts_small [OF _ small]
        split: prod.splits sum.splits option.splits)
qed

theorem upload_limit_unreachable_witness:
  "resp_status (fst (upload_ipa demo_env ''apps'' 7 demo_upload_parts demo_server)) \<noteq> 413"
proof -
  let ?rt = "\<lparr>rt_path = ''/api/apps'', rt_method = POST, rt_handler = HUploadIpa, rt_layer = None\<rparr>"
  have "?rt \<in> set (with_spike_routes api_routes False)" "rt_handler ?rt = HUploadIpa"
    by (simp_all add: with_spike_routes_def spike_route_paths_def api_routes_def on_def)
  moreover have "body_bytes demo_upload_parts \<le> body_limit ?rt"
    by (simp add: body_bytes_def part_bytes_def demo_upload_parts_def body_limit_def BODY_LIMIT_def)
  ultimately show ?thesis by (rule upload_limit_unreachable)
qed

end
