(* ===== verification/Advertising.thy ===== *)
theory Advertising
  imports Pairing
begin

text \<open>
  Announcing the pairing service over mDNS (\<^verbatim>\<open>advertise\<close>, \<^verbatim>\<open>local_hostname\<close>,
  \<^verbatim>\<open>MdnsAdvertisement\<close> and \<^verbatim>\<open>MdnsShutdownGuard\<close> in \<^verbatim>\<open>src/wireless_pairing.rs\<close>). The mDNS library
  is a record of its answers; which of its daemons run and what they have registered is explicit,
  so that no daemon is left behind can be stated. Times are milliseconds.
\<close>

section \<open>The host name\<close>

definition SERVICE_NAME :: string where "SERVICE_NAME = ''iPhoneLoadly''"

text \<open>\<^verbatim>\<open>trim_end_matches\<close> of a pattern that is not empty.\<close>

function trim_end_matches :: "string \<Rightarrow> string \<Rightarrow> string" where
  "trim_end_matches pat s =
     (if pat = [] then s
      else case strip_suffix pat s of None \<Rightarrow> s | Some t \<Rightarrow> trim_end_matches pat t)"
  by pat_completeness auto
termination
  by (relation "measure (\<lambda>(_, s). length s)") (auto simp: strip_suffix_eq_Some)

declare trim_end_matches.simps [simp del]

text \<open>One character of the label; a character beyond ASCII is one lead byte and its continuation.\<close>

definition host_char :: "char \<Rightarrow> char option" where
  "host_char c =
     (if 128 \<le> byte_of c \<and> byte_of c < 192 then None
      else if is_ascii_alphanumeric c \<or> c = CHR ''-'' then Some (ascii_lower_char c)
      else Some (CHR ''-''))"

definition local_hostname :: "string option \<Rightarrow> string" where
  "local_hostname hostname =
     (let raw = (case hostname of None \<Rightarrow> SERVICE_NAME | Some h \<Rightarrow> h);
          sanitized = List.map_filter host_char (trim_end_matches ''.local'' (trim raw)) in
      (if sanitized = [] then ''iphoneloadly'' else sanitized) @ ''.local.'')"

text \<open>The announced name is one label of letters, digits and hyphens below the local domain.\<close>

lemma host_char_plain: "host_char c = Some d \<Longrightarrow> is_ascii_alphanumeric d \<or> d = CHR ''-''"
  by (auto simp: host_char_def ascii_lower_char_def is_ascii_alphanumeric_def is_ascii_upper_def byte_of_def split: if_splits)

lemma local_hostname_label:
  "\<exists>label. local_hostname hostname = label @ ''.local.'' \<and> label \<noteq> []
     \<and> list_all (\<lambda>c. is_ascii_alphanumeric c \<or> c = CHR ''-'') label"
proof -
  define sanitized where
    "sanitized = List.map_filter host_char (trim_end_matches ''.local'' (trim (case hostname of None \<Rightarrow> SERVICE_NAME | Some h \<Rightarrow> h)))"
  have "list_all (\<lambda>c. is_ascii_alphanumeric c \<or> c = CHR ''-'') sanitized"
    by (auto simp: sanitized_def list_all_iff List.map_filter_def dest: host_char_plain)
  moreover have "list_all (\<lambda>c. is_ascii_alphanumeric c \<or> c = CHR ''-'') ''iphoneloadly''" by code_simp
  ultimately show ?thesis
    by (cases "sanitized = []") (auto simp: local_hostname_def Let_def simp flip: sanitized_def)
qed

section \<open>Daemons\<close>

text \<open>The running daemons, their registrations, and the next daemon to be made.\<close>

record mdns_world =
  mw_running :: "nat list"
  mw_registered :: "(nat \<times> string) list"
  mw_next :: nat

definition daemon_new :: "bool \<Rightarrow> mdns_world \<Rightarrow> nat option \<times> mdns_world" where
  "daemon_new starts w =
     (if starts then (Some (mw_next w), w\<lparr>mw_running := mw_next w # mw_running w, mw_next := mw_next w + 1\<rparr>)
      else (None, w))"

definition daemon_register :: "nat \<Rightarrow> string \<Rightarrow> mdns_world \<Rightarrow> mdns_world" where
  "daemon_register daemon fullname w = w\<lparr>mw_registered := (daemon, fullname) # mw_registered w\<rparr>"

definition daemon_unregister :: "nat \<Rightarrow> string \<Rightarrow> mdns_world \<Rightarrow> mdns_world" where
  "daemon_unregister daemon fullname w =
     w\<lparr>mw_registered := filter (\<lambda>r. r \<noteq> (daemon, fullname)) (mw_registered w)\<rparr>"

text \<open>A daemon that stops takes its registrations along. A full queue refuses the request.\<close>

definition daemon_shutdown :: "bool \<Rightarrow> nat \<Rightarrow> mdns_world \<Rightarrow> mdns_world" where
  "daemon_shutdown accepts daemon w =
     (if accepts then w\<lparr>mw_running := filter (\<lambda>d. d \<noteq> daemon) (mw_running w),
        mw_registered := filter (\<lambda>r. fst r \<noteq> daemon) (mw_registered w)\<rparr> else w)"

section \<open>Waiting for the announcement\<close>

definition MDNS_ANNOUNCE_TIMEOUT :: nat where "MDNS_ANNOUNCE_TIMEOUT = 5000"

datatype daemon_event = Announced string | DaemonError | ChannelClosed | OtherEvent

text \<open>
  The events of the monitor, each with the time it takes to come; after the last one the monitor
  stays silent. The loop gives whether the name was announced, and when it ended.
\<close>

fun announce_loop :: "nat \<Rightarrow> string \<Rightarrow> (nat \<times> daemon_event) list \<Rightarrow> nat \<Rightarrow> bool \<times> nat" where
  "announce_loop deadline fullname [] now = (False, max deadline now)"
| "announce_loop deadline fullname ((delay, event) # events) now =
     (if deadline \<le> now then (False, now)
      else if deadline - now < delay then (False, deadline)
      else let now' = now + delay in
        (case event of
           Announced name \<Rightarrow>
             if eq_ignore_ascii_case name fullname then (True, now')
             else announce_loop deadline fullname events now'
         | DaemonError \<Rightarrow> (False, now')
         | ChannelClosed \<Rightarrow> (False, now')
         | OtherEvent \<Rightarrow> announce_loop deadline fullname events now'))"

section \<open>Advertising\<close>

text \<open>
  The answers of the mDNS library to one advertisement: the service description with its full
  name, the daemon, its name limit, its monitor and the registration; the events; whether a
  shutdown is accepted.
\<close>

record mdns_answers =
  ma_service :: "string option"
  ma_daemon :: bool
  ma_name_limit :: bool
  ma_monitor :: bool
  ma_register :: bool
  ma_events :: "(nat \<times> daemon_event) list"
  ma_shutdown :: bool

record mdns_advertisement =
  md_daemon :: "nat option"
  md_fullname :: string

definition advertise ::
  "mdns_answers \<Rightarrow> nat \<Rightarrow> mdns_world \<Rightarrow> (pairing_error + mdns_advertisement) \<times> mdns_world" where
  "advertise a now w =
     (case ma_service a of
        None \<Rightarrow> (Inl PairAdvertisement, w)
      | Some fullname \<Rightarrow>
          (case daemon_new (ma_daemon a) w of
             (None, w1) \<Rightarrow> (Inl PairAdvertisement, w1)
           | (Some daemon, w1) \<Rightarrow>
               let fail = (\<lambda>w. (Inl PairAdvertisement, daemon_shutdown (ma_shutdown a) daemon w)) in
               if \<not> ma_name_limit a then fail w1
               else if \<not> ma_monitor a then fail w1
               else if \<not> ma_register a then fail w1
               else let w2 = daemon_register daemon fullname w1 in
                 (case announce_loop (now + MDNS_ANNOUNCE_TIMEOUT) fullname (ma_events a) now of
                    (announced, _) \<Rightarrow>
                      if \<not> announced then fail w2
                      else (Inr \<lparr>md_daemon = Some daemon, md_fullname = fullname\<rparr>, w2))))"

definition drop_advertisement :: "bool \<Rightarrow> mdns_advertisement \<Rightarrow> mdns_world \<Rightarrow> mdns_world" where
  "drop_advertisement accepts ad w =
     (case md_daemon ad of
        None \<Rightarrow> w
      | Some daemon \<Rightarrow> daemon_shutdown accepts daemon (daemon_unregister daemon (md_fullname ad) w))"

text \<open>The guard around the daemon of a discovery.\<close>

definition guard_new :: "bool \<Rightarrow> mdns_world \<Rightarrow> (unit + nat) \<times> mdns_world" where
  "guard_new starts w =
     (case daemon_new starts w of (None, w1) \<Rightarrow> (Inl (), w1) | (Some daemon, w1) \<Rightarrow> (Inr daemon, w1))"

definition drop_guard :: "bool \<Rightarrow> nat \<Rightarrow> mdns_world \<Rightarrow> mdns_world" where
  "drop_guard accepts daemon w = daemon_shutdown accepts daemon w"

section \<open>Owned daemons\<close>

text \<open>
  What owning a resource means: a failing acquisition leaves nothing behind, a successful one is
  undone by dropping what it returned. \<open>ok\<close> is the invariant of the world, \<open>same\<close> equality up to
  what does not count.
\<close>

locale owned_resource =
  fixes ok :: "'w \<Rightarrow> bool" and same :: "'w \<Rightarrow> 'w \<Rightarrow> bool"
    and acquire :: "'w \<Rightarrow> ('e + 'r) \<times> 'w" and release :: "'r \<Rightarrow> 'w \<Rightarrow> 'w"
  assumes acquire_ok: "ok w \<Longrightarrow> acquire w = (r, w') \<Longrightarrow> ok w'"
    and failed: "ok w \<Longrightarrow> acquire w = (Inl e, w') \<Longrightarrow> same w w'"
    and released: "ok w \<Longrightarrow> acquire w = (Inr x, w') \<Longrightarrow> same w (release x w')"
begin

definition scoped :: "'w \<Rightarrow> 'w" where
  "scoped w = (case acquire w of (Inl _, w') \<Rightarrow> w' | (Inr x, w') \<Rightarrow> release x w')"

lemma scoped_same: "ok w \<Longrightarrow> same w (scoped w)"
  using failed released by (auto simp: scoped_def split: prod.split sum.split)

end

text \<open>Daemons are numbered in the order they start.\<close>

definition mdns_ok :: "mdns_world \<Rightarrow> bool" where
  "mdns_ok w \<longleftrightarrow> (\<forall>d \<in> set (mw_running w). d < mw_next w) \<and> (\<forall>(d, _) \<in> set (mw_registered w). d < mw_next w)"

definition same_daemons :: "mdns_world \<Rightarrow> mdns_world \<Rightarrow> bool" where
  "same_daemons w w' \<longleftrightarrow> mw_running w' = mw_running w \<and> mw_registered w' = mw_registered w"

lemma filter_old [simp]:
  "mdns_ok w \<Longrightarrow> filter (\<lambda>d. d \<noteq> mw_next w) (mw_running w) = mw_running w"
  "mdns_ok w \<Longrightarrow> filter (\<lambda>r. fst r \<noteq> mw_next w) (mw_registered w) = mw_registered w"
  "mdns_ok w \<Longrightarrow> filter (\<lambda>r. r \<noteq> (mw_next w, name)) (mw_registered w) = mw_registered w"
  "mdns_ok w \<Longrightarrow>
     filter (\<lambda>r. r \<noteq> (mw_next w, name) \<and> fst r \<noteq> mw_next w) (mw_registered w) = mw_registered w"
  by (auto simp: mdns_ok_def intro!: filter_True)

lemmas daemon_defs = daemon_new_def daemon_register_def daemon_unregister_def daemon_shutdown_def

lemma shut_down_again:
  "mdns_ok w \<Longrightarrow> daemon_new starts w = (Some d, w1) \<Longrightarrow> same_daemons w (daemon_shutdown True d w1)"
  "mdns_ok w \<Longrightarrow> daemon_new starts w = (Some d, w1) \<Longrightarrow>
     same_daemons w (daemon_shutdown True d (daemon_register d name w1))"
  "mdns_ok w \<Longrightarrow> daemon_new starts w = (Some d, w1) \<Longrightarrow>
     same_daemons w (daemon_shutdown True d (daemon_unregister d name (daemon_register d name w1)))"
  by (auto simp: daemon_defs same_daemons_def split: if_splits)

lemma daemon_keeps_ok:
  "mdns_ok w \<Longrightarrow> daemon_new starts w = (r, w1) \<Longrightarrow> mdns_ok w1"
  "mdns_ok w \<Longrightarrow> mdns_ok (daemon_shutdown accepts d w)"
  "mdns_ok w \<Longrightarrow> d < mw_next w \<Longrightarrow> mdns_ok (daemon_register d name w)"
  by (fastforce simp: daemon_defs mdns_ok_def intro: less_SucI split: if_splits)+

lemma daemon_new_some:
  "daemon_new starts w = (Some d, w1) \<Longrightarrow> d = mw_next w \<and> mw_next w1 = mw_next w + 1
     \<and> mw_running w1 = mw_next w # mw_running w \<and> mw_registered w1 = mw_registered w"
  by (auto simp: daemon_new_def split: if_splits)

lemma daemon_new_none: "daemon_new starts w = (None, w1) \<Longrightarrow> w1 = w"
  by (auto simp: daemon_new_def split: if_splits)

lemma same_daemons_refl [simp]: "same_daemons w w"
  by (simp add: same_daemons_def)

lemma advertise_failed:
  assumes "advertise a now w = (Inl e, w')" "ma_shutdown a" "mdns_ok w"
  shows "e = PairAdvertisement \<and> same_daemons w w'"
  using assms
  by (auto simp: advertise_def Let_def shut_down_again dest: daemon_new_none
      split: option.splits prod.splits if_splits)

lemma advertise_succeeded:
  assumes "advertise a now w = (Inr ad, w')" "mdns_ok w"
  obtains w1 where "daemon_new True w = (Some (mw_next w), w1)"
    and "w' = daemon_register (mw_next w) (md_fullname ad) w1"
    and "md_daemon ad = Some (mw_next w)" and "ma_service a = Some (md_fullname ad)"
    and "fst (announce_loop (now + MDNS_ANNOUNCE_TIMEOUT) (md_fullname ad) (ma_events a) now)"
  using assms
  by (auto simp: advertise_def Let_def daemon_new_def split: option.splits prod.splits if_splits)

lemma advertise_ok:
  assumes "advertise a now w = (r, w')" "mdns_ok w"
  shows "mdns_ok w'"
  using assms
  by (auto simp: advertise_def Let_def split: option.splits prod.splits if_splits
      dest: daemon_new_some intro: daemon_keeps_ok(1) intro!: daemon_keeps_ok(2,3))

lemma drop_after_advertise:
  assumes "advertise a now w = (Inr ad, w')" "mdns_ok w"
  shows "same_daemons w (drop_advertisement True ad w')"
  using assms by (auto elim!: advertise_succeeded simp: drop_advertisement_def shut_down_again)

text \<open>The advertisement and the guard of a discovery own their daemon, where shutdowns are accepted.\<close>

interpretation advertisement: owned_resource mdns_ok same_daemons
    "advertise (a\<lparr>ma_shutdown := True\<rparr>) now" "drop_advertisement True" for a now
  by unfold_locales (auto dest: advertise_ok advertise_failed drop_after_advertise)

interpretation discovery: owned_resource mdns_ok same_daemons "guard_new starts" "drop_guard True" for starts
proof unfold_locales
  show "mdns_ok w \<Longrightarrow> guard_new starts w = (r, w') \<Longrightarrow> mdns_ok w'" for w r w'
    by (auto simp: guard_new_def split: prod.splits option.splits intro: daemon_keeps_ok(1))
  show "mdns_ok w \<Longrightarrow> guard_new starts w = (Inl e, w') \<Longrightarrow> same_daemons w w'" for w e w'
    by (auto simp: guard_new_def split: prod.splits option.splits dest: daemon_new_none)
  show "mdns_ok w \<Longrightarrow> guard_new starts w = (Inr x, w') \<Longrightarrow> same_daemons w (drop_guard True x w')" for w x w'
    by (auto simp: guard_new_def drop_guard_def shut_down_again split: prod.splits option.splits)
qed

lemma announce_loop_by_deadline:
  "now \<le> deadline \<Longrightarrow> now \<le> snd (announce_loop deadline fullname events now)
     \<and> snd (announce_loop deadline fullname events now) \<le> deadline"
proof (induction events arbitrary: now)
  case (Cons ev events)
  obtain delay event where ev: "ev = (delay, event)" by (rule prod.exhaust)
  show ?case
  proof (cases "deadline \<le> now \<or> deadline - now < delay")
    case False
    with Cons.prems have "now + delay \<le> deadline" by linarith
    with Cons.IH [of "now + delay"] False show ?thesis by (cases event) (auto simp: ev Let_def)
  qed (use Cons.prems ev in auto)
qed simp

text \<open>Only a name that was announced ends the wait with success.\<close>

lemma announce_loop_announced:
  "fst (announce_loop deadline fullname events now) \<Longrightarrow>
     \<exists>name. Announced name \<in> snd ` set events \<and> eq_ignore_ascii_case name fullname"
proof (induction events arbitrary: now)
  case (Cons ev events)
  obtain delay event where ev: "ev = (delay, event)" by (rule prod.exhaust)
  show ?case
  proof (cases "deadline \<le> now \<or> deadline - now < delay")
    case False
    with Cons.prems show ?thesis
      using Cons.IH [of "now + delay"] by (cases event) (auto simp: ev Let_def split: if_splits)
  qed (use Cons.prems ev in \<open>auto split: if_splits\<close>)
qed simp

theorem advertising_leaves_no_daemon:
  assumes "advertise a now w = (r, w')" "ma_shutdown a" "mdns_ok w"
  shows "case r of
      Inl e \<Rightarrow> e = PairAdvertisement \<and> same_daemons w w'
    | Inr ad \<Rightarrow> (\<exists>name. Announced name \<in> snd ` set (ma_events a) \<and> eq_ignore_ascii_case name (md_fullname ad))
        \<and> mw_registered w' = (mw_next w, md_fullname ad) # mw_registered w
        \<and> same_daemons w (drop_advertisement True ad w')"
proof (cases r)
  case (Inr ad)
  with assms have run: "advertise a now w = (Inr ad, w')" by simp
  from run assms(3) show ?thesis
    using announce_loop_announced drop_after_advertise [OF run assms(3)] Inr
    by (auto elim!: advertise_succeeded dest!: daemon_new_some simp: daemon_register_def)
qed (use assms advertise_failed in auto)

theorem advertising_leaves_no_daemon_witness:
  "let a = \<lparr>ma_service = Some ''Mac'', ma_daemon = True, ma_name_limit = True, ma_monitor = True,
         ma_register = True, ma_events = [(100, OtherEvent), (20, Announced ''mAC'')], ma_shutdown = True\<rparr>;
       w = \<lparr>mw_running = [], mw_registered = [], mw_next = 0\<rparr> in
     \<exists>ad w'. advertise a 0 w = (Inr ad, w') \<and> mw_registered w' = [(0, ''Mac'')]
       \<and> same_daemons w (drop_advertisement True ad w')"
proof -
  define a where "a = \<lparr>ma_service = Some ''Mac'', ma_daemon = True, ma_name_limit = True, ma_monitor = True,
    ma_register = True, ma_events = [(100, OtherEvent), (20, Announced ''mAC'')], ma_shutdown = True\<rparr>"
  define w where "w = \<lparr>mw_running = [], mw_registered = [], mw_next = 0\<rparr>"
  have "eq_ignore_ascii_case ''mAC'' ''Mac''" by code_simp
  then have run: "advertise a 0 w = (Inr \<lparr>md_daemon = Some 0, md_fullname = ''Mac''\<rparr>,
      \<lparr>mw_running = [0], mw_registered = [(0, ''Mac'')], mw_next = 1\<rparr>)"
    by (simp add: a_def w_def advertise_def daemon_defs MDNS_ANNOUNCE_TIMEOUT_def)
  from advertising_leaves_no_daemon [OF run] run show ?thesis
    by (fold a_def w_def) (simp add: a_def w_def mdns_ok_def)
qed

end
