(* ===== verification/Diagnostics.thy ===== *)
theory Diagnostics
  imports Probes Server
begin

text \<open>
  What the program logs about a paired device and about a failed sign-in (the events of opening a
  session, the CoreDevice failures, the service summary and the \<^verbatim>\<open>report_*\<close> functions of
  \<^verbatim>\<open>src/wireless_pairing.rs\<close>, \<^verbatim>\<open>log_auth_failure\<close> of \<^verbatim>\<open>src/signing.rs\<close>), as events with their
  fields. The errors of the libraries carry texts of the device and of Apple; the words of an event
  come from a fixed vocabulary.
\<close>

section \<open>Events\<close>

datatype log_level = LogDebug | LogInfo | LogWarn

text \<open>\<open>LogCode\<close> is an optional number logged in its debug form.\<close>

datatype log_value = LogStr string | LogNum int | LogBool bool | LogCode "int option"

record log_event =
  ev_level :: log_level
  ev_target :: string
  ev_fields :: "(string \<times> log_value) list"
  ev_message :: string

definition diagnostic_event :: "log_level \<Rightarrow> (string \<times> log_value) list \<Rightarrow> string \<Rightarrow> log_event" where
  "diagnostic_event level entries msg =
     \<lparr>ev_level = level, ev_target = SPIKE_DIAGNOSTICS_TARGET, ev_fields = entries, ev_message = msg\<rparr>"

section \<open>CoreDevice services\<close>

definition CORE_DEVICE_APP_SERVICE_NAME :: string where
  "CORE_DEVICE_APP_SERVICE_NAME = ''com.apple.coredevice.appservice''"

definition CORE_DEVICE_INFO_SERVICE_NAME :: string where
  "CORE_DEVICE_INFO_SERVICE_NAME = ''com.apple.coredevice.deviceinfo''"

definition MOBILE_IMAGE_MOUNTER_SERVICE_NAME :: string where
  "MOBILE_IMAGE_MOUNTER_SERVICE_NAME = ''com.apple.mobile.mobile_image_mounter.shim.remote''"

datatype core_device_operation = CdServiceLookup | CdServiceConnect | CdClientInit | CdListApps

fun core_device_operation_str :: "core_device_operation \<Rightarrow> string" where
  "core_device_operation_str CdServiceLookup = ''service_lookup''"
| "core_device_operation_str CdServiceConnect = ''service_connect''"
| "core_device_operation_str CdClientInit = ''client_init''"
| "core_device_operation_str CdListApps = ''list_apps''"

record core_device_failure =
  cf_operation :: core_device_operation
  cf_result :: string
  cf_error_kind :: string
  cf_appservice_present :: bool

definition missing_service :: core_device_failure where
  "missing_service = \<lparr>cf_operation = CdServiceLookup, cf_result = ''missing'',
     cf_error_kind = ''service_not_found'', cf_appservice_present = False\<rparr>"

definition core_device_timeout :: "core_device_operation \<Rightarrow> bool \<Rightarrow> core_device_failure" where
  "core_device_timeout operation present = \<lparr>cf_operation = operation, cf_result = ''timeout'',
     cf_error_kind = ''timeout'', cf_appservice_present = present\<rparr>"

fun core_device_error_kind :: "idevice_error \<Rightarrow> string" where
  "core_device_error_kind (IdSocket err) = io_error_kind err"
| "core_device_error_kind IdServiceNotFound = ''service_not_found''"
| "core_device_error_kind (IdXpc _) = ''xpc''"
| "core_device_error_kind (IdCoreDevice _) = ''core_device''"
| "core_device_error_kind err = idevice_error_kind err"

definition core_device_from_error ::
  "core_device_operation \<Rightarrow> bool \<Rightarrow> idevice_error \<Rightarrow> core_device_failure" where
  "core_device_from_error operation present err = \<lparr>cf_operation = operation, cf_result = ''error'',
     cf_error_kind = core_device_error_kind err, cf_appservice_present = present\<rparr>"

definition core_device_appservice_port :: "(string \<rightharpoonup> u16) \<Rightarrow> core_device_failure + u16" where
  "core_device_appservice_port services =
     (case services CORE_DEVICE_APP_SERVICE_NAME of None \<Rightarrow> Inl missing_service | Some port \<Rightarrow> Inr port)"

definition run_core_device_service_operation ::
  "core_device_operation \<Rightarrow> bool \<Rightarrow> nat \<Rightarrow> (nat \<Rightarrow> (idevice_error, 'a) call) \<Rightarrow> nat
     \<Rightarrow> (core_device_failure + 'a) \<times> nat" where
  "run_core_device_service_operation operation present limit ask now =
     (case within limit (ask now) now of
        (Done v, t) \<Rightarrow> (Inr v, t)
      | (Broken err, t) \<Rightarrow> (Inl (core_device_from_error operation present err), t)
      | (Late, t) \<Rightarrow> (Inl (core_device_timeout operation present), t))"

section \<open>The service summary\<close>

record service_summary =
  sm_appservice :: bool
  sm_deviceinfo :: bool
  sm_tunnelservice :: bool
  sm_image_mounter :: bool
  sm_installation_proxy :: bool
  sm_afc :: bool

definition parsed_rsd_service_summary :: "(string \<rightharpoonup> u16) \<Rightarrow> service_summary" where
  "parsed_rsd_service_summary services =
     \<lparr>sm_appservice = services CORE_DEVICE_APP_SERVICE_NAME \<noteq> None,
      sm_deviceinfo = services CORE_DEVICE_INFO_SERVICE_NAME \<noteq> None,
      sm_tunnelservice = services TUNNEL_SERVICE_NAME \<noteq> None,
      sm_image_mounter = services MOBILE_IMAGE_MOUNTER_SERVICE_NAME \<noteq> None,
      sm_installation_proxy = services INSTALLATION_PROXY_SERVICE_NAME \<noteq> None,
      sm_afc = services AFC_SERVICE_NAME \<noteq> None\<rparr>"

section \<open>Reporting\<close>

definition report_parsed_rsd_service_summary :: "service_summary \<Rightarrow> log_event" where
  "report_parsed_rsd_service_summary s = diagnostic_event LogWarn
     [(''stage'', LogStr (rsd_probe_stage_str PrCoreDeviceService)),
      (''operation'', LogStr ''service_summary''), (''result'', LogStr ''observed''),
      (''source'', LogStr ''parsed_rsd_services''),
      (''parsed_appservice_present'', LogBool (sm_appservice s)),
      (''parsed_deviceinfo_present'', LogBool (sm_deviceinfo s)),
      (''parsed_untrusted_tunnelservice_present'', LogBool (sm_tunnelservice s)),
      (''parsed_image_mounter_present'', LogBool (sm_image_mounter s)),
      (''parsed_installation_proxy_present'', LogBool (sm_installation_proxy s)),
      (''parsed_afc_present'', LogBool (sm_afc s))]
     ''remote pairing parsed RSD service summary''"

definition report_appservice_setup_failure :: "rsd_probe_failure \<Rightarrow> rsd_probe_failure \<times> log_event" where
  "report_appservice_setup_failure k = (k, diagnostic_event LogDebug
     [(''stage'', LogStr (rsd_probe_stage_str (pf_stage k)))] ''remote pairing RSD probe failed'')"

definition report_core_device_service_failure :: "core_device_failure \<Rightarrow> rsd_probe_failure \<times> log_event" where
  "report_core_device_service_failure k =
     (\<lparr>pf_stage = PrCoreDeviceService, pf_cleanup = ScNotNeeded\<rparr>,
      diagnostic_event LogWarn
        [(''stage'', LogStr (rsd_probe_stage_str PrCoreDeviceService)),
         (''operation'', LogStr (core_device_operation_str (cf_operation k))),
         (''result'', LogStr (cf_result k)), (''error_kind'', LogStr (cf_error_kind k)),
         (''appservice_present'', LogBool (cf_appservice_present k))]
        ''remote pairing CoreDevice service probe failed'')"

definition read_only_probe_failure ::
  "probe_service \<Rightarrow> read_only_stage \<Rightarrow> string \<Rightarrow> string \<Rightarrow> string \<Rightarrow> read_only_stage \<times> log_event" where
  "read_only_probe_failure service stage operation result error_kind =
     (stage, diagnostic_event LogWarn
        [(''transport'', LogStr ''rsd''), (''service'', LogStr (probe_service_str service)),
         (''stage'', LogStr (read_only_stage_str stage)), (''operation'', LogStr operation),
         (''result'', LogStr result), (''error_kind'', LogStr error_kind)]
        ''remote pairing read-only probe failed'')"

section \<open>Opening a session\<close>

text \<open>
  The events of \<^verbatim>\<open>connect_and_validate_remote_pairing_with_timeout\<close>. They have the target of the
  module. The numbers of an operating system error and of a pairing error are the libraries'.
\<close>

definition WIRELESS_TARGET :: string where "WIRELESS_TARGET = ''iphoneloadly_api::wireless_pairing''"

record error_codes =
  ec_os :: "net_error \<Rightarrow> int option"
  ec_sub :: "rp_error \<Rightarrow> int"

definition address_family :: "ip_address \<Rightarrow> string" where
  "address_family address = (if is_ipv4 address then ''ipv4'' else ''ipv6'')"

fun verification_stage_str :: "verification_stage \<Rightarrow> string" where
  "verification_stage_str AttemptPairVerify = ''attempt_pair_verify''"
| "verification_stage_str ValidatePairing = ''validate_pairing''"

definition candidate_event ::
  "log_level \<Rightarrow> nat \<Rightarrow> nat \<Rightarrow> ip_address \<Rightarrow> (string \<times> log_value) list \<Rightarrow> string \<Rightarrow> log_event" where
  "candidate_event level candidate_index address_index address entries msg =
     \<lparr>ev_level = level, ev_target = WIRELESS_TARGET,
      ev_fields = [(''candidate_index'', LogNum (int candidate_index)), (''address_index'', LogNum (int address_index)),
        (''address_family'', LogStr (address_family address))] @ entries,
      ev_message = msg\<rparr>"

definition tcp_failed :: "error_codes \<Rightarrow> net_error \<Rightarrow> (string \<times> log_value) list" where
  "tcp_failed codes err = [(''stage'', LogStr ''tcp_connect''), (''result'', LogStr ''tcp_connect_error''),
     (''error_kind'', LogStr (io_error_kind err)), (''os_error'', LogCode (ec_os codes err))]"

definition tcp_late :: "(string \<times> log_value) list" where
  "tcp_late = [(''stage'', LogStr ''tcp_connect''), (''result'', LogStr ''tcp_connect_timeout'')]"

definition verified_entries :: "(string \<times> log_value) list" where
  "verified_entries = [(''stage'', LogStr ''validate_pairing''), (''result'', LogStr ''validate_pairing_success'')]"

definition unverified_entries :: "error_codes \<Rightarrow> verification_failure \<Rightarrow> (string \<times> log_value) list" where
  "unverified_entries codes k = [(''stage'', LogStr (verification_stage_str (vf_stage k))),
     (''result'', LogStr (vf_result k)), (''error_kind'', LogStr (vf_kind k)),
     (''remote_pairing_subcode'', LogCode (map_option (ec_sub codes) (vf_subcode k)))]"

text \<open>The candidates with their two indices.\<close>

definition indexed_candidates :: "remote_endpoint list \<Rightarrow> (nat \<times> nat \<times> ip_address \<times> u16) list" where
  "indexed_candidates endpoints = concat (map (\<lambda>(i, ep).
     map (\<lambda>(j, a). (i, j, a, ep_port ep)) (enumerate 0 (ep_addresses ep))) (enumerate 0 endpoints))"

fun validate_candidates_logged ::
  "error_codes \<Rightarrow> remote_device \<Rightarrow> nat \<Rightarrow> (nat \<times> nat \<times> ip_address \<times> u16) list \<Rightarrow> nat
     \<Rightarrow> ip_address option \<times> log_event list \<times> nat" where
  "validate_candidates_logged codes rd limit [] now = (None, [], now)"
| "validate_candidates_logged codes rd limit ((i, j, address, port) # rest) now =
     (let go_on = (\<lambda>entries msg t. case validate_candidates_logged codes rd limit rest t of
            (r, evs, t') \<Rightarrow> (r, candidate_event LogWarn i j address entries msg # evs, t')) in
      case within limit (rd_connect rd address port now) now of
        (Done _, t) \<Rightarrow>
          (case verify_established_pairing rd address False (PerStep limit) t of
             (Inr _, t') \<Rightarrow> (Some address, [candidate_event LogInfo i j address verified_entries
                ''remote pairing established verification succeeded''], t')
           | (Inl k, t') \<Rightarrow> go_on (unverified_entries codes k) ''remote pairing established verification failed'' t')
      | (Broken err, t) \<Rightarrow> go_on (tcp_failed codes err) ''remote pairing candidate TCP connection failed'' t
      | (Late, t) \<Rightarrow> go_on tcp_late ''remote pairing candidate TCP connection timed out'' t)"

text \<open>What \<^verbatim>\<open>RemoteRsdSession::open\<close> logs; its other steps log nothing.\<close>

definition session_events :: "error_codes \<Rightarrow> 'f open_env \<Rightarrow> fs \<Rightarrow> nat \<Rightarrow> log_event list" where
  "session_events codes oe fs now =
     (case usable_material oe fs of
        None \<Rightarrow> []
      | Some irk \<Rightarrow>
          (case discover_endpoints_until (oe_discovery oe) (Some irk) (now + REMOTE_DISCOVERY_TIMEOUT) now of
             (None, _) \<Rightarrow> []
           | (Some endpoints, t1) \<Rightarrow>
               fst (snd (validate_candidates_logged codes (oe_device oe) REMOTE_CONNECT_TIMEOUT
                 (indexed_candidates endpoints) t1))))"

section \<open>The probes\<close>

text \<open>What the probe of the paired device reports once it has, or has not, a session.\<close>

definition probe_reports :: "rsd_probe_failure + rsd_session \<Rightarrow> (rsd_probe_failure + unit) \<times> log_event list" where
  "probe_reports opened =
     (case opened of
        Inl k \<Rightarrow> (case report_appservice_setup_failure k of (k', ev) \<Rightarrow> (Inl k', [ev]))
      | Inr s \<Rightarrow>
          let summary = report_parsed_rsd_service_summary (parsed_rsd_service_summary (rs_services s)) in
          if required_install_path_services_present (rs_services s) then (Inr (), [summary])
          else (case report_core_device_service_failure missing_service of (k, ev) \<Rightarrow> (Inl k, [summary, ev])))"

text \<open>The probe with all the events it logs, in their order.\<close>

definition probe_rsd_logged ::
  "error_codes \<Rightarrow> 'f open_env \<Rightarrow> fs \<Rightarrow> nat \<Rightarrow> (rsd_probe_failure + unit) \<times> log_event list" where
  "probe_rsd_logged codes oe fs now =
     (case probe_reports (fst (open_session oe fs now)) of
        (r, evs) \<Rightarrow> (r, session_events codes oe fs now @ evs))"

text \<open>One step of a read-only probe: its failure says how far it came, its event also why.\<close>

definition run_read_only_probe_step ::
  "probe_service \<Rightarrow> read_only_stage \<Rightarrow> string \<Rightarrow> nat \<Rightarrow> (nat \<Rightarrow> (idevice_error, 'a) call) \<Rightarrow> nat
     \<Rightarrow> (read_only_stage + 'a) \<times> log_event list \<times> nat" where
  "run_read_only_probe_step service stage operation limit ask now =
     (let failed = (\<lambda>result kind t.
            case read_only_probe_failure service stage operation result kind of (k, ev) \<Rightarrow> (Inl k, [ev], t)) in
      case within limit (ask now) now of
        (Done v, t) \<Rightarrow> (Inr v, [], t)
      | (Broken err, t) \<Rightarrow> failed ''error'' (idevice_error_kind err) t
      | (Late, t) \<Rightarrow> failed ''timeout'' ''timeout'' t)"

section \<open>A failed sign-in\<close>

fun auth_stage_str :: "auth_diagnostic_stage \<Rightarrow> string" where
  "auth_stage_str AnisetteInit = ''ANISSETTE_INIT''"
| "auth_stage_str AppleAccountBuild = ''APPLE_ACCOUNT_BUILD''"
| "auth_stage_str AppleAccountLogin = ''APPLE_ACCOUNT_LOGIN''"
| "auth_stage_str AppleAccountLoginTimeout = ''APPLE_ACCOUNT_LOGIN_TIMEOUT''"
| "auth_stage_str DeveloperSession = ''DEVELOPER_SESSION''"

fun network_class_str :: "auth_network_class \<Rightarrow> string" where
  "network_class_str NcAppleAuth = ''APPLE_AUTH''"
| "network_class_str NcHttp = ''HTTP''"
| "network_class_str NcNetwork = ''NETWORK''"
| "network_class_str NcTimeout = ''TIMEOUT''"
| "network_class_str NcUnknown = ''UNKNOWN''"

definition SIGNING_TARGET :: string where "SIGNING_TARGET = ''iphoneloadly_api::signing''"

definition log_auth_failure :: "auth_failure_diagnostic \<Rightarrow> log_event" where
  "log_auth_failure d =
     (let stage = (''AUTH_STAGE'', LogStr (auth_stage_str (ad_auth_stage d)));
          rest = [(''NETWORK_CLASS'', LogStr (network_class_str (ad_network_class d))),
            (''TIMEOUT'', LogBool (ad_timeout d))];
          entries = (case (ad_http_status d, ad_apple_auth_code d) of
              (Some status, Some code) \<Rightarrow>
                [stage, (''HTTP_STATUS'', LogNum (uint status)), (''APPLE_AUTH_CODE'', LogNum code)] @ rest
            | (Some status, None) \<Rightarrow> [stage, (''HTTP_STATUS'', LogNum (uint status))] @ rest
            | (None, Some code) \<Rightarrow> [stage, (''APPLE_AUTH_CODE'', LogNum code)] @ rest
            | (None, None) \<Rightarrow> stage # rest) in
      \<lparr>ev_level = LogWarn, ev_target = SIGNING_TARGET, ev_fields = entries,
       ev_message = ''Apple authentication failed''\<rparr>)"

section \<open>The vocabulary of the events\<close>

definition error_words :: "string list" where
  "error_words =
     [''connection_refused'', ''connection_reset'', ''connection_aborted'', ''not_connected'',
      ''address_not_available'', ''timed_out'', ''invalid_input'', ''other'', ''socket'', ''timeout'',
      ''plist'', ''utf8'', ''not_enough_bytes'', ''unexpected_response'', ''internal_error'',
      ''session_inactive'', ''no_established_connection'', ''remote_pairing_unknown_tlv'',
      ''remote_pairing_malformed_tlv'', ''remote_pairing_rejected'', ''remote_pairing_base64_decode'',
      ''remote_pairing_pair_verify_failed'', ''remote_pairing_srp_auth_failed'',
      ''remote_pairing_encryption'', ''remote_pairing_other'', ''service_not_found'', ''xpc'', ''core_device'']"

definition stage_words :: "string list" where
  "stage_words = map rsd_probe_stage_str [PrDiscovery, PrValidatePairing, PrTunnel, PrRsdHandshake, PrCoreDeviceService]
     @ map read_only_stage_str [RoDiscovery, RoValidatePairing, RoTunnel, RoRsdHandshake, RoServiceLookup,
         RoServiceConnect, RoClientInit, RoAfcQuery, RoAppLookup, RoCleanup]"

definition session_words :: "string list" where
  "session_words = [''ipv4'', ''ipv6'', ''tcp_connect'', ''tcp_connect_error'', ''tcp_connect_timeout'',
     ''validate_pairing_success'', ''attempt_pair_verify'', ''validate_pairing'',
     ''attempt_pair_verify_timeout'', ''validate_pairing_timeout'', ''session_expired'']"

definition auth_words :: "string list" where
  "auth_words = map auth_stage_str [AnisetteInit, AppleAccountBuild, AppleAccountLogin, AppleAccountLoginTimeout, DeveloperSession]
     @ map network_class_str [NcAppleAuth, NcHttp, NcNetwork, NcTimeout, NcUnknown]"

definition vocabulary :: "string list" where
  "vocabulary = error_words @ stage_words @ session_words @ auth_words
     @ [''missing'', ''error'', ''observed'', ''parsed_rsd_services'', ''service_summary'', ''service_lookup'',
        ''service_connect'', ''client_init'', ''list_apps'', ''afc_query'', ''app_lookup'', ''cleanup'',
        ''setup'', ''rsd'', ''afc'', ''installationProxy'']"

text \<open>An event of words, numbers and flags, with only words of the vocabulary.\<close>

definition redacted :: "log_event \<Rightarrow> bool" where
  "redacted ev \<longleftrightarrow> (\<forall>w. LogStr w \<in> snd ` set (ev_fields ev) \<longrightarrow> w \<in> set vocabulary)"

section \<open>Words of the events\<close>

lemma error_kinds_in_vocabulary:
  "io_error_kind err \<in> set error_words"
  "remote_pairing_error_kind rp \<in> set error_words"
  "idevice_error_kind ide \<in> set error_words"
  "core_device_error_kind ide \<in> set error_words"
proof -
  show io: "io_error_kind err \<in> set error_words" for err by (cases err) (simp_all add: error_words_def)
  show rp: "remote_pairing_error_kind rp \<in> set error_words" for rp by (cases rp) (simp_all add: error_words_def)
  show ide: "idevice_error_kind ide \<in> set error_words" for ide
  proof (cases ide)
    case (IdRemotePairing rp)
    then show ?thesis using rp by simp
  qed (simp_all add: error_words_def)
  show "core_device_error_kind ide \<in> set error_words" for ide
  proof (cases ide)
    case (IdSocket err)
    then show ?thesis using io by simp
  next
    case (IdRemotePairing rp)
    then show ?thesis using rp by simp
  qed (simp_all add: error_words_def)
qed

lemma stage_words_complete:
  "rsd_probe_stage_str stage \<in> set stage_words" "read_only_stage_str ro \<in> set stage_words"
  by (cases stage; simp add: stage_words_def) (cases ro; simp add: stage_words_def)

lemma auth_words_complete:
  "auth_stage_str stage \<in> set auth_words" "network_class_str nc \<in> set auth_words"
  by (cases stage; simp add: auth_words_def) (cases nc; simp add: auth_words_def)

lemma words_in_vocabulary:
  "w \<in> set error_words \<Longrightarrow> w \<in> set vocabulary"
  "w \<in> set stage_words \<Longrightarrow> w \<in> set vocabulary"
  "w \<in> set auth_words \<Longrightarrow> w \<in> set vocabulary"
  "w \<in> set session_words \<Longrightarrow> w \<in> set vocabulary"
  by (simp_all add: vocabulary_def)

lemma literal_words:
  "set [''missing'', ''error'', ''observed'', ''parsed_rsd_services'', ''service_summary'', ''service_lookup'',
     ''service_connect'', ''client_init'', ''list_apps'', ''afc_query'', ''app_lookup'', ''cleanup'',
     ''setup'', ''rsd'', ''afc'', ''installationProxy''] \<subseteq> set vocabulary"
  by (auto simp: vocabulary_def)

lemma timeout_word:
  "''timeout'' \<in> set vocabulary" "''service_not_found'' \<in> set vocabulary"
  "''coreDeviceService'' \<in> set vocabulary"
  by (simp_all add: vocabulary_def error_words_def stage_words_def)

lemma operation_words:
  "core_device_operation_str cd \<in> set vocabulary" "read_only_operation stage \<in> set vocabulary"
  "probe_service_str service \<in> set vocabulary"
proof -
  show "core_device_operation_str cd \<in> set vocabulary" using literal_words by (cases cd) simp_all
  show "read_only_operation stage \<in> set vocabulary" using literal_words by (cases stage) simp_all
  show "probe_service_str service \<in> set vocabulary" using literal_words by (cases service) simp_all
qed

lemmas vocabulary_intros =
  error_kinds_in_vocabulary [THEN words_in_vocabulary(1)]
  stage_words_complete [THEN words_in_vocabulary(2)]
  auth_words_complete [THEN words_in_vocabulary(3)]
  operation_words timeout_word

lemma redacted_events:
  "redacted (report_parsed_rsd_service_summary sm)"
  "redacted (snd (report_appservice_setup_failure k))"
  "cf_result cd \<in> set vocabulary \<Longrightarrow> cf_error_kind cd \<in> set vocabulary \<Longrightarrow>
     redacted (snd (report_core_device_service_failure cd))"
  "operation \<in> set vocabulary \<Longrightarrow> result \<in> set vocabulary \<Longrightarrow> kind \<in> set vocabulary \<Longrightarrow>
     redacted (snd (read_only_probe_failure service stage operation result kind))"
  "redacted (log_auth_failure d)"
  using literal_words
  by (auto simp: redacted_def diagnostic_event_def report_parsed_rsd_service_summary_def
      report_appservice_setup_failure_def report_core_device_service_failure_def
      read_only_probe_failure_def log_auth_failure_def vocabulary_intros Let_def split: option.splits)

text \<open>The texts an error report carries do not reach the diagnostics.\<close>

fun erase_texts :: "report_context \<Rightarrow> report_context" where
  "erase_texts (CtxSideload (AuthWithMessage code _)) = CtxSideload (AuthWithMessage code '''')"
| "erase_texts (CtxSideload (PlistParseError _)) = CtxSideload (PlistParseError '''')"
| "erase_texts (CtxSideload (DeveloperError code _)) = CtxSideload (DeveloperError code '''')"
| "erase_texts (CtxSideload (InvalidBundle _)) = CtxSideload (InvalidBundle '''')"
| "erase_texts (CtxSideload (IdeviceError _)) = CtxSideload (IdeviceError '''')"
| "erase_texts (CtxOther _) = CtxOther ''''"
| "erase_texts c = c"

lemma report_loop_erased: "report_loop (map erase_texts report) d = report_loop report d"
  by (induction report d rule: report_loop.induct) simp_all

lemma signing_context_erased: "signing_context (erase_texts c) d = signing_context c d"
  by (cases c rule: erase_texts.cases) simp_all

lemma fold_signing_erased: "fold signing_context (map erase_texts report) d = fold signing_context report d"
  by (induction report arbitrary: d) (simp_all add: signing_context_erased)

lemma reports_erased:
  "auth_from_report stage (map erase_texts report) = auth_from_report stage report"
  "signing_from_report (map erase_texts report) = signing_from_report report"
  by (simp_all add: auth_from_report_def signing_from_report_def report_loop_erased fold_signing_erased)

section \<open>Properties\<close>

text \<open>Logging changes no answer: neither of opening a session, nor of the probe or of one of its steps.\<close>

lemma map_enumerate_snd: "map (f \<circ> snd) (enumerate n xs) = map f xs"
  by (metis map_map map_snd_enumerate)

lemma indexed_candidates_addresses: "map (\<lambda>(_, _, c). c) (indexed_candidates endpoints) = endpoint_candidates endpoints"
proof -
  have inner: "map (\<lambda>(_, _, c). c) (map (\<lambda>(j, a). (i, j, a, p)) (enumerate n xs)) = map (\<lambda>a. (a, p)) xs"
    for i :: nat and n and p :: u16 and xs :: "ip_address list"
    using map_enumerate_snd [of "\<lambda>a. (a, p)" n xs] by (simp add: comp_def case_prod_beta)
  show ?thesis
    unfolding indexed_candidates_def endpoint_candidates_def map_concat map_map comp_def case_prod_beta
    using map_enumerate_snd [of "\<lambda>ep. map (\<lambda>a. (a, ep_port ep)) (ep_addresses ep)" 0 endpoints] inner
    by (simp add: comp_def case_prod_beta)
qed

lemma validate_candidates_logged_result:
  "validate_candidates_logged codes rd limit cs now = (r, evs, t) \<Longrightarrow>
     validate_candidates rd limit (map (\<lambda>(_, _, c). c) cs) now = (r, t)"
  by (induction cs arbitrary: now evs)
    (auto simp: Let_def split: prod.splits timed.splits sum.splits)

lemma probe_reports_result:
  "fst (probe_rsd_logged codes oe fs now) = probe_remote_pairing_rsd oe fs now"
  by (simp add: probe_rsd_logged_def probe_reports_def probe_remote_pairing_rsd_def report_appservice_setup_failure_def
      report_core_device_service_failure_def probe_failure_def Let_def split: prod.split sum.split)

lemma probe_step_logged_result:
  "run_read_only_probe_step service stage operation limit ask now = (r, evs, t) \<Longrightarrow>
     probe_step stage limit ask now = (r, t) \<and> (evs = [] \<longleftrightarrow> \<not> isl r)"
  by (auto simp: run_read_only_probe_step_def probe_step_def limited_def read_only_probe_failure_def Let_def
      split: prod.splits timed.splits)

lemma missing_service_words:
  "cf_result missing_service \<in> set vocabulary" "cf_error_kind missing_service \<in> set vocabulary"
  using literal_words timeout_word by (simp_all add: missing_service_def)

lemma report_targets:
  "ev_target (report_parsed_rsd_service_summary sm) = SPIKE_DIAGNOSTICS_TARGET"
  "ev_target (snd (report_appservice_setup_failure k)) = SPIKE_DIAGNOSTICS_TARGET"
  "ev_target (snd (report_core_device_service_failure cd)) = SPIKE_DIAGNOSTICS_TARGET"
  "ev_target (snd (read_only_probe_failure service stage operation result kind)) = SPIKE_DIAGNOSTICS_TARGET"
  "ev_target (candidate_event level i j address entries msg) = WIRELESS_TARGET"
  "ev_target (log_auth_failure failed) = SIGNING_TARGET"
  by (simp_all add: diagnostic_event_def report_parsed_rsd_service_summary_def candidate_event_def log_auth_failure_def
      report_appservice_setup_failure_def report_core_device_service_failure_def read_only_probe_failure_def Let_def)

lemma other_targets: "WIRELESS_TARGET \<noteq> SPIKE_DIAGNOSTICS_TARGET" "SIGNING_TARGET \<noteq> SPIKE_DIAGNOSTICS_TARGET"
  by (simp_all add: WIRELESS_TARGET_def SIGNING_TARGET_def SPIKE_DIAGNOSTICS_TARGET_def)

text \<open>What the subscriber lets through because of the target alone.\<close>

definition passes_targets :: "bool \<Rightarrow> log_event list \<Rightarrow> log_event list" where
  "passes_targets spike evs = filter (\<lambda>ev. spike_target_allowed spike (ev_target ev)) evs"

lemma candidate_event_redacted:
  "(\<And>w. LogStr w \<in> snd ` set entries \<Longrightarrow> w \<in> set vocabulary) \<Longrightarrow>
     redacted (candidate_event level i j address entries msg)"
  using words_in_vocabulary(4) [of "''ipv4''"] words_in_vocabulary(4) [of "''ipv6''"]
  by (auto simp: redacted_def candidate_event_def address_family_def session_words_def)

lemma session_literals: "set session_words \<subseteq> set vocabulary"
  using words_in_vocabulary(4) by blast

lemma verification_words:
  assumes "verify_established_pairing rd address follow_up timing now = (Inl k, t)"
  shows "vf_result k \<in> set vocabulary" "vf_kind k \<in> set vocabulary"
    "verification_stage_str (vf_stage k) \<in> set vocabulary"
proof -
  have lits: "''attempt_pair_verify_timeout'' \<in> set vocabulary" "''validate_pairing_timeout'' \<in> set vocabulary"
    "''session_expired'' \<in> set vocabulary" "''attempt_pair_verify'' \<in> set vocabulary"
    "''validate_pairing'' \<in> set vocabulary"
    by (rule subsetD [OF session_literals], simp add: session_words_def)+
  have err: "''error'' \<in> set vocabulary" using literal_words by simp
  have step: "vf_result k \<in> set vocabulary \<and> vf_kind k \<in> set vocabulary"
    if "verification_step timing stage ask now = (Inl k, t)" for timing stage ask now k t
    using that lits err vocabulary_intros(3) timeout_word(1)
    by (cases timing; cases stage)
      (auto simp: verification_step_def verification_error_def verification_late_def verification_expired_def
        split: timed.splits prod.splits if_splits)
  from assms step show "vf_result k \<in> set vocabulary" "vf_kind k \<in> set vocabulary"
    by (auto simp: verify_established_pairing_def split: prod.splits sum.splits)
  show "verification_stage_str (vf_stage k) \<in> set vocabulary" using lits by (cases "vf_stage k") simp_all
qed

lemma candidates_logged_ok:
  "validate_candidates_logged codes rd limit cs now = (r, evs, t) \<Longrightarrow>
     list_all (\<lambda>ev. redacted ev \<and> ev_target ev = WIRELESS_TARGET) evs"
proof (induction cs arbitrary: now evs)
  case (Cons c cs)
  obtain i j address port where c: "c = (i, j, address, port)" by (metis prod_cases4)
  have lits: "''tcp_connect'' \<in> set vocabulary" "''tcp_connect_error'' \<in> set vocabulary"
    "''tcp_connect_timeout'' \<in> set vocabulary" "''validate_pairing'' \<in> set vocabulary"
    "''validate_pairing_success'' \<in> set vocabulary"
    by (rule subsetD [OF session_literals], simp add: session_words_def)+
  have tcp: "redacted (candidate_event l i j address (tcp_failed codes err) m)" for l err m
    using lits(1,2) vocabulary_intros(1) by (intro candidate_event_redacted) (auto simp: tcp_failed_def)
  have late: "redacted (candidate_event l i j address tcp_late m)" for l m
    using lits(1,3) by (intro candidate_event_redacted) (auto simp: tcp_late_def)
  have good: "redacted (candidate_event l i j address verified_entries m)" for l m
    using lits(4,5) by (intro candidate_event_redacted) (auto simp: verified_entries_def)
  have bad: "redacted (candidate_event l i j address (unverified_entries codes k) m)"
    if "verify_established_pairing rd address False (PerStep limit) t' = (Inl k, t'')" for l k m t' t''
    using verification_words [OF that] by (intro candidate_event_redacted) (auto simp: unverified_entries_def)
  from Cons show ?case
    unfolding c by (auto simp: Let_def report_targets intro: tcp late good bad split: prod.splits timed.splits sum.splits)
qed simp

lemma session_events_ok:
  "list_all (\<lambda>ev. redacted ev \<and> ev_target ev = WIRELESS_TARGET) (session_events codes oe fs now)"
  using candidates_logged_ok
  by (auto simp: session_events_def split: option.split prod.split) (metis prod.collapse)

definition report_ok :: "log_event \<Rightarrow> bool" where
  "report_ok ev \<longleftrightarrow> redacted ev \<and> ev_target ev = SPIKE_DIAGNOSTICS_TARGET"

lemma reports_ok:
  "report_ok (report_parsed_rsd_service_summary sm)"
  "report_ok (snd (report_appservice_setup_failure k))"
  "report_ok (snd (report_core_device_service_failure missing_service))"
  "operation \<in> set vocabulary \<Longrightarrow> result \<in> set vocabulary \<Longrightarrow> kind \<in> set vocabulary \<Longrightarrow>
     report_ok (snd (read_only_probe_failure service stage operation result kind))"
  by (simp_all add: report_ok_def report_targets redacted_events missing_service_words)

lemma probe_reports_ok: "list_all report_ok (snd (probe_reports opened))"
  by (simp add: probe_reports_def reports_ok Let_def case_prod_beta split: sum.split)

lemma step_events_ok:
  "list_all report_ok
     (fst (snd (run_read_only_probe_step service stage (read_only_operation stage) limit ask now)))"
proof -
  have "report_ok (snd (read_only_probe_failure service stage (read_only_operation stage) ''error''
      (idevice_error_kind err)))" for err
    using literal_words by (intro reports_ok(4)) (auto simp: vocabulary_intros)
  moreover have "report_ok (snd (read_only_probe_failure service stage (read_only_operation stage)
      ''timeout'' ''timeout''))"
    by (intro reports_ok(4)) (auto simp: vocabulary_intros)
  ultimately show ?thesis
    by (simp add: run_read_only_probe_step_def Let_def case_prod_beta split: timed.split)
qed

lemma passes_all: "list_all report_ok evs \<Longrightarrow> passes_targets spike evs = evs"
  by (auto simp: passes_targets_def report_ok_def spike_target_allowed_def list_all_iff filter_id_conv)

lemma passes_none:
  "list_all (\<lambda>ev. redacted ev \<and> ev_target ev = WIRELESS_TARGET) evs \<Longrightarrow> passes_targets True evs = []"
  using other_targets by (auto simp: passes_targets_def spike_target_allowed_def list_all_iff filter_empty_conv)

text \<open>
  C15: What is logged about a paired device and about a failed sign-in is redacted. Whatever texts the
  device puts into its errors, every event of a probe, those of opening its session included, has
  only words of a fixed vocabulary besides numbers and flags, and so have the event of a step of the
  read-only probes and that of a failed sign-in; the texts of an error report change neither its
  diagnostic nor that of a signing run. The target filter of the diagnostic mode lets exactly the
  reports of a probe and of a step through and drops the events of the session and of the sign-in,
  which have other targets (the level directives of the operator apply besides).
\<close>

theorem log_events_redacted:
  "list_all redacted (snd (probe_rsd_logged codes oe fs now))
   \<and> passes_targets True (snd (probe_rsd_logged codes oe fs now)) = snd (probe_reports (fst (open_session oe fs now)))
   \<and> (let evs = fst (snd (run_read_only_probe_step service stage (read_only_operation stage) limit ask now)) in
        list_all redacted evs \<and> passes_targets True evs = evs)
   \<and> redacted (log_auth_failure (auth_from_report auth_stage report))
   \<and> passes_targets True [log_auth_failure (auth_from_report auth_stage report)] = []
   \<and> auth_from_report auth_stage (map erase_texts report) = auth_from_report auth_stage report
   \<and> signing_from_report (map erase_texts report) = signing_from_report report"
proof -
  note s = session_events_ok [of codes oe fs now] and p = probe_reports_ok [of "fst (open_session oe fs now)"]
    and o = step_events_ok [of service stage limit ask now]
  have "snd (probe_rsd_logged codes oe fs now)
      = session_events codes oe fs now @ snd (probe_reports (fst (open_session oe fs now)))"
    by (simp add: probe_rsd_logged_def split: prod.split)
  moreover have "passes_targets spike (as @ bs) = passes_targets spike as @ passes_targets spike bs" for spike as bs
    by (simp add: passes_targets_def)
  moreover have "list_all redacted evs" if "list_all report_ok evs" for evs
    using that by (auto simp: report_ok_def list_all_iff)
  moreover have "list_all redacted (session_events codes oe fs now)" using s by (auto simp: list_all_iff)
  moreover have "passes_targets True [log_auth_failure (auth_from_report auth_stage report)] = []"
    using other_targets by (simp add: passes_targets_def spike_target_allowed_def report_targets)
  ultimately show ?thesis
    using passes_none [OF s] passes_all [OF p] passes_all [OF o] p o redacted_events(5) reports_erased
    by (simp add: Let_def)
qed

text \<open>
  The failure of a probe denies the app service without looking: with an app service and no file
  service the summary shows it and the failure logged next says that it is absent.
\<close>

lemma missing_service_contradicts_summary:
  assumes "open_session oe fs now = (Inr s, rest)"
    and "rs_services s CORE_DEVICE_APP_SERVICE_NAME = Some port" and "rs_services s AFC_SERVICE_NAME = None"
  obtains ev1 ev2 where "passes_targets True (snd (probe_rsd_logged codes oe fs now)) = [ev1, ev2]"
    and "(''parsed_appservice_present'', LogBool True) \<in> set (ev_fields ev1)"
    and "(''appservice_present'', LogBool False) \<in> set (ev_fields ev2)"
proof -
  have "snd (probe_rsd_logged codes oe fs now)
      = session_events codes oe fs now @ snd (probe_reports (fst (open_session oe fs now)))"
    by (simp add: probe_rsd_logged_def split: prod.split)
  then have "passes_targets True (snd (probe_rsd_logged codes oe fs now)) = snd (probe_reports (Inr s))"
    using passes_none [OF session_events_ok [of codes oe fs now]] passes_all [OF probe_reports_ok [of "Inr s"]] assms(1)
    by (simp add: passes_targets_def)
  with assms(2,3) that show thesis
    by (simp add: probe_reports_def Let_def required_install_path_services_present_def exact_rsd_service_port_def
        report_core_device_service_failure_def missing_service_def report_parsed_rsd_service_summary_def
        parsed_rsd_service_summary_def diagnostic_event_def)
qed

end
