(* ===== verification/StoreRows.thy ===== *)
theory StoreRows
  imports Store
begin

text \<open>
  How the store reads its rows back (\<^verbatim>\<open>source_from_row\<close> and the closures of \<^verbatim>\<open>list_apps\<close>,
  \<^verbatim>\<open>find_app\<close>, \<^verbatim>\<open>find_job\<close> and \<^verbatim>\<open>list_recent_jobs\<close> in \<^verbatim>\<open>src/store.rs\<close>): the cells of a row, their
  conversion with its errors, and that reading undoes writing. The text of an identifier and its
  parser are parameters; a timestamp is a text cell of its own, which is read without looking into it.
\<close>

section \<open>Cells\<close>

datatype cell = CNull | CInt int | CText string | CTime timestamp

datatype row_error = InvalidColumnType nat | InvalidIdentifier

definition get_cell :: "cell list \<Rightarrow> nat \<Rightarrow> (cell \<Rightarrow> 'a option) \<Rightarrow> row_error + 'a" where
  "get_cell row i as =
     (if i < length row then case as (row ! i) of None \<Rightarrow> Inl (InvalidColumnType i) | Some v \<Rightarrow> Inr v
      else Inl (InvalidColumnType i))"

fun as_text :: "cell \<Rightarrow> string option" where
  "as_text (CText s) = Some s"
| "as_text _ = None"

fun as_int :: "cell \<Rightarrow> int option" where
  "as_int (CInt n) = Some n"
| "as_int _ = None"

fun as_time :: "cell \<Rightarrow> timestamp option" where
  "as_time (CTime t) = Some t"
| "as_time _ = None"

definition nullable :: "(cell \<Rightarrow> 'a option) \<Rightarrow> cell \<Rightarrow> 'a option option" where
  "nullable as c = (if c = CNull then Some None else map_option Some (as c))"

definition parse_id :: "(string \<Rightarrow> uuid option) \<Rightarrow> string \<Rightarrow> row_error + uuid" where
  "parse_id parse_uuid s = (case parse_uuid s of None \<Rightarrow> Inl InvalidIdentifier | Some u \<Rightarrow> Inr u)"

definition parse_id_option :: "(string \<Rightarrow> uuid option) \<Rightarrow> string option \<Rightarrow> row_error + uuid option" where
  "parse_id_option parse_uuid s =
     (case s of None \<Rightarrow> Inr None | Some t \<Rightarrow> map_sum id Some (parse_id parse_uuid t))"

section \<open>Reading\<close>

text \<open>The columns in the order of \<^verbatim>\<open>SOURCE_SELECT\<close>.\<close>

definition source_from_row :: "(string \<Rightarrow> uuid option) \<Rightarrow> cell list \<Rightarrow> row_error + github_source" where
  "source_from_row parse_uuid row =
     sum_bind (get_cell row 0 as_text) (\<lambda>id_text.
     sum_bind (get_cell row 1 (nullable as_text)) (\<lambda>app_text.
     sum_bind (parse_id parse_uuid id_text) (\<lambda>sid.
     sum_bind (parse_id_option parse_uuid app_text) (\<lambda>app_id.
     sum_bind (get_cell row 2 as_text) (\<lambda>owner.
     sum_bind (get_cell row 3 as_text) (\<lambda>repo.
     sum_bind (get_cell row 4 as_text) (\<lambda>pattern.
     sum_bind (get_cell row 5 as_int) (\<lambda>include_prereleases.
     sum_bind (get_cell row 6 as_int) (\<lambda>auto_download.
     sum_bind (get_cell row 7 (nullable as_time)) (\<lambda>acknowledged.
     sum_bind (get_cell row 8 (nullable as_time)) (\<lambda>checked.
     sum_bind (get_cell row 9 (nullable as_int)) (\<lambda>release_id.
     sum_bind (get_cell row 10 (nullable as_text)) (\<lambda>release_tag.
     sum_bind (get_cell row 11 (nullable as_int)) (\<lambda>asset_id.
     sum_bind (get_cell row 12 (nullable as_text)) (\<lambda>asset_name.
     sum_bind (get_cell row 13 (nullable as_text)) (\<lambda>download_sha256.
     sum_bind (get_cell row 14 (nullable as_text)) (\<lambda>status.
     sum_bind (get_cell row 15 (nullable as_text)) (\<lambda>error_code.
     sum_bind (get_cell row 16 as_time) (\<lambda>created_at.
     sum_bind (get_cell row 17 as_time) (\<lambda>updated_at.
       Inr \<lparr>sr_id = sid, sr_app_id = app_id, sr_owner = owner, sr_repo = repo,
         sr_asset_pattern = pattern, sr_include_prereleases = (include_prereleases \<noteq> 0),
         sr_auto_download = (auto_download \<noteq> 0), sr_auto_acknowledged_at = acknowledged,
         sr_last_checked_at = checked, sr_last_release_id = release_id,
         sr_last_release_tag = release_tag, sr_last_asset_id = asset_id,
         sr_last_asset_name = asset_name, sr_last_download_sha256 = download_sha256,
         sr_last_status = status, sr_last_error_code = error_code,
         sr_created_at = created_at, sr_updated_at = updated_at\<rparr>))))))))))))))))))))"

definition app_from_row :: "(string \<Rightarrow> uuid option) \<Rightarrow> cell list \<Rightarrow> row_error + stored_app" where
  "app_from_row parse_uuid row =
     sum_bind (get_cell row 0 as_text) (\<lambda>id_text.
     sum_bind (parse_id parse_uuid id_text) (\<lambda>aid.
     sum_bind (get_cell row 1 as_text) (\<lambda>sha256.
     sum_bind (get_cell row 2 as_int) (\<lambda>size_bytes.
     sum_bind (get_cell row 3 (nullable as_text)) (\<lambda>display_name.
     sum_bind (get_cell row 4 (nullable as_text)) (\<lambda>app_version.
     sum_bind (get_cell row 5 (nullable as_text)) (\<lambda>bundle_id.
     sum_bind (get_cell row 6 as_text) (\<lambda>storage_path.
       Inr \<lparr>sa_id = aid, sa_sha256 = sha256, sa_size_bytes = word_of_int size_bytes,
         sa_display_name = (case display_name of Some n \<Rightarrow> n | None \<Rightarrow> id_text),
         sa_app_version = app_version, sa_bundle_id = bundle_id, sa_storage_path = storage_path\<rparr>))))))))"

definition job_from_row :: "(string \<Rightarrow> uuid option) \<Rightarrow> cell list \<Rightarrow> row_error + stored_job" where
  "job_from_row parse_uuid row =
     sum_bind (get_cell row 0 as_text) (\<lambda>id_text.
     sum_bind (get_cell row 1 as_text) (\<lambda>app_text.
     sum_bind (get_cell row 2 as_text) (\<lambda>device_text.
     sum_bind (parse_id parse_uuid id_text) (\<lambda>jid.
     sum_bind (parse_id parse_uuid app_text) (\<lambda>app_id.
     sum_bind (parse_id parse_uuid device_text) (\<lambda>device_id.
     sum_bind (get_cell row 3 as_text) (\<lambda>phase.
     sum_bind (get_cell row 4 (nullable as_int)) (\<lambda>progress.
     sum_bind (get_cell row 5 as_text) (\<lambda>device_label.
     sum_bind (get_cell row 6 as_time) (\<lambda>created_at.
     sum_bind (get_cell row 7 (nullable as_time)) (\<lambda>completed_at.
     sum_bind (get_cell row 8 (nullable as_text)) (\<lambda>failure_code.
     sum_bind (get_cell row 9 (nullable as_text)) (\<lambda>display_name.
     sum_bind (get_cell row 10 (nullable as_text)) (\<lambda>app_version.
       Inr \<lparr>sj_id = jid, sj_app_id = app_id, sj_device_id = device_id, sj_phase = phase,
         sj_progress_percent = map_option word_of_int progress, sj_device_label = device_label,
         sj_created_at = created_at, sj_completed_at = completed_at, sj_failure_code = failure_code,
         sj_app_display_name = (case display_name of Some n \<Rightarrow> n | None \<Rightarrow> app_text),
         sj_app_version = app_version\<rparr>))))))))))))))"

text \<open>\<^verbatim>\<open>query_map(...)?.collect()\<close>: the first row that cannot be read fails the whole listing.\<close>

fun collect_rows :: "(cell list \<Rightarrow> row_error + 'a) \<Rightarrow> cell list list \<Rightarrow> row_error + 'a list" where
  "collect_rows read [] = Inr []"
| "collect_rows read (row # rows) =
     sum_bind (read row) (\<lambda>x. sum_bind (collect_rows read rows) (\<lambda>xs. Inr (x # xs)))"

section \<open>Writing\<close>

definition null_or :: "('a \<Rightarrow> cell) \<Rightarrow> 'a option \<Rightarrow> cell" where
  "null_or f x = (case x of None \<Rightarrow> CNull | Some v \<Rightarrow> f v)"

text \<open>The rows the three \<^verbatim>\<open>SELECT\<close> statements give; \<^verbatim>\<open>size_bytes as i64\<close> reinterprets the size.\<close>

definition source_cells :: "(uuid \<Rightarrow> string) \<Rightarrow> github_source \<Rightarrow> cell list" where
  "source_cells show_uuid s =
     [CText (show_uuid (sr_id s)), null_or (\<lambda>u. CText (show_uuid u)) (sr_app_id s), CText (sr_owner s),
      CText (sr_repo s), CText (sr_asset_pattern s), CInt (of_bool (sr_include_prereleases s)),
      CInt (of_bool (sr_auto_download s)), null_or CTime (sr_auto_acknowledged_at s),
      null_or CTime (sr_last_checked_at s), null_or CInt (sr_last_release_id s),
      null_or CText (sr_last_release_tag s), null_or CInt (sr_last_asset_id s),
      null_or CText (sr_last_asset_name s), null_or CText (sr_last_download_sha256 s),
      null_or CText (sr_last_status s), null_or CText (sr_last_error_code s),
      CTime (sr_created_at s), CTime (sr_updated_at s)]"

definition app_cells :: "(uuid \<Rightarrow> string) \<Rightarrow> app_row \<Rightarrow> cell list" where
  "app_cells show_uuid a =
     [CText (show_uuid (ar_id a)), CText (ar_sha256 a), CInt (sint (ar_size_bytes a)),
      null_or CText (ar_display_name a), null_or CText (ar_app_version a),
      null_or CText (ar_bundle_id a), CText (ar_storage_path a)]"

definition job_cells :: "(uuid \<Rightarrow> string) \<Rightarrow> job_row \<Rightarrow> cell list" where
  "job_cells show_uuid j =
     [CText (show_uuid (jr_id j)), CText (show_uuid (jr_app_id j)), CText (show_uuid (jr_device_id j)),
      CText (jr_phase j), null_or (\<lambda>n. CInt (uint n)) (jr_progress_percent j), CText (jr_device_label j),
      CTime (jr_created_at j), null_or CTime (jr_completed_at j), null_or CText (jr_failure_code j),
      null_or CText (jr_app_display_name j), null_or CText (jr_app_version j)]"

section \<open>Reading undoes writing\<close>

lemma nullable_cells [simp]:
  "nullable as_text (null_or CText x) = Some x"
  "nullable as_time (null_or CTime t) = Some t"
  "nullable as_int (null_or CInt n) = Some n"
  "nullable as_text (null_or (\<lambda>v. CText (f v)) y) = Some (map_option f y)"
  "nullable as_int (null_or (\<lambda>v. CInt (g v)) z) = Some (map_option g z)"
  by (simp_all add: nullable_def null_or_def split: option.split)

text \<open>Identifiers whose text parses back.\<close>

definition codec :: "(uuid \<Rightarrow> string) \<Rightarrow> (string \<Rightarrow> uuid option) \<Rightarrow> uuid \<Rightarrow> bool" where
  "codec show_uuid parse_uuid u \<longleftrightarrow> parse_uuid (show_uuid u) = Some u"

lemma parse_id_shown:
  "codec show_uuid parse_uuid u \<Longrightarrow> parse_id parse_uuid (show_uuid u) = Inr u"
  "pred_option (codec show_uuid parse_uuid) x \<Longrightarrow>
     parse_id_option parse_uuid (map_option show_uuid x) = Inr x"
  by (cases x; simp add: codec_def parse_id_def parse_id_option_def)+

lemma source_row_read:
  assumes "codec show_uuid parse_uuid (sr_id s)" "pred_option (codec show_uuid parse_uuid) (sr_app_id s)"
  shows "source_from_row parse_uuid (source_cells show_uuid s) = Inr s"
  using assms by (simp add: source_from_row_def source_cells_def get_cell_def parse_id_shown option.map_ident)

lemma app_row_read:
  assumes "codec show_uuid parse_uuid (ar_id a)"
  shows "app_from_row parse_uuid (app_cells show_uuid a) = Inr (stored_app_of show_uuid a)"
  using assms
  by (simp add: app_from_row_def app_cells_def get_cell_def parse_id_shown stored_app_of_def
      option.map_ident comp_def)

lemma job_row_read:
  assumes "codec show_uuid parse_uuid (jr_id j)" "codec show_uuid parse_uuid (jr_app_id j)"
    "codec show_uuid parse_uuid (jr_device_id j)"
  shows "job_from_row parse_uuid (job_cells show_uuid j) = Inr (stored_job_of show_uuid j)"
  using assms
  by (simp add: job_from_row_def job_cells_def get_cell_def parse_id_shown stored_job_of_def
      option.map_comp comp_def option.map_ident)

lemma collect_rows_map:
  "(\<And>x. x \<in> set xs \<Longrightarrow> read (write x) = Inr (f x)) \<Longrightarrow>
     collect_rows read (map write xs) = Inr (map f xs)"
  by (induction xs) simp_all

lemma collect_rows_fails:
  "row \<in> set rows \<Longrightarrow> read row = Inl e \<Longrightarrow> \<exists>e'. collect_rows read rows = Inl e'"
proof (induction rows)
  case (Cons r rows)
  then show ?case by (cases "read r"; cases "collect_rows read rows") auto
qed simp

section \<open>Properties\<close>

text \<open>What the listings select, as cells.\<close>

definition app_rows :: "(uuid \<Rightarrow> string) \<Rightarrow> db \<Rightarrow> cell list list" where
  "app_rows show_uuid d = map (app_cells show_uuid)
     (sort_key (\<lambda>a. - int (ar_uploaded_at a)) (filter (\<lambda>a. ar_deleted_at a = None) (db_apps d)))"

definition job_rows :: "(uuid \<Rightarrow> string) \<Rightarrow> db \<Rightarrow> nat \<Rightarrow> cell list list" where
  "job_rows show_uuid d limit = map (job_cells show_uuid)
     (take limit (sort_key (\<lambda>j. - int (jr_created_at j)) (db_jobs d)))"

definition source_rows :: "(uuid \<Rightarrow> string) \<Rightarrow> db \<Rightarrow> cell list list" where
  "source_rows show_uuid d = map (source_cells show_uuid) (list_github_sources d)"

text \<open>An identifier that cannot be parsed in one row of a listing fails the whole listing.\<close>

lemma bad_source_row_fails:
  assumes "s \<in> set (db_sources d)" "parse_uuid (show_uuid (sr_id s)) = None"
  shows "\<exists>e. collect_rows (source_from_row parse_uuid) (source_rows show_uuid d) = Inl e"
proof (rule collect_rows_fails)
  show "source_cells show_uuid s \<in> set (source_rows show_uuid d)"
    using assms(1) by (simp add: source_rows_def list_github_sources_def)
  show "source_from_row parse_uuid (source_cells show_uuid s) = Inl InvalidIdentifier"
    using assms(2) by (simp add: source_from_row_def source_cells_def get_cell_def parse_id_def)
qed

text \<open>
  Reading the rows of the apps, the jobs and the sources gives what the listings return, sizes beyond
  the signed range and absent names included, when identifiers parse back from their text.
\<close>

theorem stored_rows_roundtrip:
  assumes "\<And>u. codec show_uuid parse_uuid u"
  shows "collect_rows (app_from_row parse_uuid) (app_rows show_uuid d) = Inr (list_apps show_uuid d)
    \<and> collect_rows (job_from_row parse_uuid) (job_rows show_uuid d limit) = Inr (list_recent_jobs show_uuid d limit)
    \<and> collect_rows (source_from_row parse_uuid) (source_rows show_uuid d) = Inr (list_github_sources d)"
proof (intro conjI)
  show "collect_rows (app_from_row parse_uuid) (app_rows show_uuid d) = Inr (list_apps show_uuid d)"
    unfolding app_rows_def list_apps_def by (intro collect_rows_map app_row_read assms)
  show "collect_rows (job_from_row parse_uuid) (job_rows show_uuid d limit) = Inr (list_recent_jobs show_uuid d limit)"
    unfolding job_rows_def list_recent_jobs_def by (intro collect_rows_map job_row_read assms)
  have "pred_option (codec show_uuid parse_uuid) x" for x using assms by (cases x) simp_all
  then show "collect_rows (source_from_row parse_uuid) (source_rows show_uuid d) = Inr (list_github_sources d)"
    using collect_rows_map [of _ _ "source_cells show_uuid" "\<lambda>s. s"] source_row_read assms
    by (simp add: source_rows_def)
qed

text \<open>Identifiers in unary, and an app of a size beyond the signed range.\<close>

theorem stored_rows_roundtrip_witness:
  "let show_uuid = (\<lambda>u :: uuid. replicate (unat u) CHR ''1''); parse_uuid = (\<lambda>s. Some (word_of_nat (length s)));
       d = empty_db\<lparr>db_apps := [\<lparr>ar_id = 1, ar_sha256 = ''ab'', ar_storage_path = ''/p'',
         ar_size_bytes = - 1, ar_uploaded_at = 0, ar_deleted_at = None, ar_bundle_id = None,
         ar_display_name = None, ar_app_version = None\<rparr>]\<rparr> in
     app_rows show_uuid d = [[CText ''1'', CText ''ab'', CInt (- 1), CNull, CNull, CNull, CText ''/p'']]
     \<and> collect_rows (app_from_row parse_uuid) (app_rows show_uuid d) = Inr (list_apps show_uuid d)"
proof -
  define show_uuid where "show_uuid = (\<lambda>u :: uuid. replicate (unat u) CHR ''1'')"
  define parse_uuid :: "string \<Rightarrow> uuid option" where "parse_uuid = (\<lambda>s. Some (word_of_nat (length s)))"
  have "codec show_uuid parse_uuid u" for u by (simp add: codec_def show_uuid_def parse_uuid_def)
  note read = stored_rows_roundtrip [OF this, THEN conjunct1]
  define d where "d = empty_db\<lparr>db_apps := [\<lparr>ar_id = 1, ar_sha256 = ''ab'', ar_storage_path = ''/p'',
    ar_size_bytes = - 1, ar_uploaded_at = 0, ar_deleted_at = None, ar_bundle_id = None,
    ar_display_name = None, ar_app_version = None\<rparr>]\<rparr>"
  have "app_rows show_uuid d = [[CText ''1'', CText ''ab'', CInt (- 1), CNull, CNull, CNull, CText ''/p'']]"
    by (simp add: d_def show_uuid_def app_rows_def app_cells_def null_or_def empty_db_def)
  with read [of d] show ?thesis
    unfolding Let_def d_def show_uuid_def parse_uuid_def by simp
qed

end
