(* ===== verification/Requests.thy ===== *)
theory Requests
  imports Sources LoginSession
begin

text \<open>
  The bodies of the requests (the \<^verbatim>\<open>Deserialize\<close> structs of \<^verbatim>\<open>src/main.rs\<close>, \<^verbatim>\<open>src/sources.rs\<close> and
  \<^verbatim>\<open>src/apple_tv.rs\<close>) as what serde derives for them: an object with each field at most once, unknown
  fields ignored unless they are denied, or an array with the fields in their order. An absent optional
  field is null in an object and an error in an array; \<^verbatim>\<open>serde(default)\<close> supplies absent fields in both.
  The parser of an identifier is a parameter.
\<close>

section \<open>Derived deserialisation\<close>

text \<open>The values of the named fields, and whether they came from an object.\<close>

fun struct_fields :: "bool \<Rightarrow> string list \<Rightarrow> json \<Rightarrow> (bool \<times> json option list) option" where
  "struct_fields strict names (JObj es) =
     (if list_ex (\<lambda>n. 1 < count_list (map fst es) n) names
         \<or> strict \<and> list_ex (\<lambda>(k, _). k \<notin> set names) es then None
      else Some (True, map (map_of es) names))"
| "struct_fields strict names (JArr vs) =
     (if length names < length vs then None
      else Some (False, map Some vs @ replicate (length names - length vs) None))"
| "struct_fields strict names _ = None"

definition required :: "(json \<Rightarrow> 'a option) \<Rightarrow> json option \<Rightarrow> 'a option" where
  "required read v = Option.bind v read"

definition defaulted :: "'a \<Rightarrow> (json \<Rightarrow> 'a option) \<Rightarrow> json option \<Rightarrow> 'a option" where
  "defaulted dflt read v = (case v of None \<Rightarrow> Some dflt | Some j \<Rightarrow> read j)"

definition optional :: "bool \<Rightarrow> (json \<Rightarrow> 'a option) \<Rightarrow> json option \<Rightarrow> 'a option option" where
  "optional in_object read v =
     (case v of None \<Rightarrow> if in_object then Some None else None
      | Some j \<Rightarrow> if j = JNull then Some None else map_option Some (read j))"

fun read_string :: "json \<Rightarrow> string option" where
  "read_string (JStr s) = Some s"
| "read_string _ = None"

fun read_bool :: "json \<Rightarrow> bool option" where
  "read_bool (JBool b) = Some b"
| "read_bool _ = None"

text \<open>A number that fits the unsigned type.\<close>

fun read_unsigned :: "json \<Rightarrow> 'l::len word option" where
  "read_unsigned (JNum n) = (if 0 \<le> n \<and> n < 2 ^ LENGTH('l) then Some (word_of_int n) else None)"
| "read_unsigned _ = None"

definition read_uuid :: "(string \<Rightarrow> uuid option) \<Rightarrow> json \<Rightarrow> uuid option" where
  "read_uuid parse_uuid j = Option.bind (read_string j) parse_uuid"

section \<open>The requests\<close>

record login_request =
  lq_email :: string
  lq_password :: string
  lq_save_credentials :: bool

definition login_request_of :: "json \<Rightarrow> login_request option" where
  "login_request_of body =
     (case struct_fields False [''email'', ''password'', ''saveCredentials''] body of
        Some (_, [email, password, save]) \<Rightarrow>
          Option.bind (required read_string email) (\<lambda>e.
          Option.bind (required read_string password) (\<lambda>p.
          Option.bind (defaulted False read_bool save) (\<lambda>s.
            Some \<lparr>lq_email = e, lq_password = p, lq_save_credentials = s\<rparr>)))
      | _ \<Rightarrow> None)"

record two_factor_request =
  tq_action :: string
  tq_code :: "string option"
  tq_number_id :: "32 word option"

definition two_factor_request_of :: "json \<Rightarrow> two_factor_request option" where
  "two_factor_request_of body =
     (case struct_fields False [''action'', ''code'', ''numberId''] body of
        Some (in_object, [action, code, number]) \<Rightarrow>
          Option.bind (required read_string action) (\<lambda>a.
          Option.bind (optional in_object read_string code) (\<lambda>c.
          Option.bind (optional in_object read_unsigned number) (\<lambda>n.
            Some \<lparr>tq_action = a, tq_code = c, tq_number_id = n\<rparr>)))
      | _ \<Rightarrow> None)"

text \<open>The body of the diagnostic installation; it denies unknown fields.\<close>

definition spike_install_request_of :: "(string \<Rightarrow> uuid option) \<Rightarrow> json \<Rightarrow> uuid option" where
  "spike_install_request_of parse_uuid body =
     (case struct_fields True [''appId''] body of
        Some (_, [app_id]) \<Rightarrow> required (read_uuid parse_uuid) app_id
      | _ \<Rightarrow> None)"

record install_job_request =
  iq_app_id :: uuid
  iq_device_id :: uuid

definition install_job_request_of :: "(string \<Rightarrow> uuid option) \<Rightarrow> json \<Rightarrow> install_job_request option" where
  "install_job_request_of parse_uuid body =
     (case struct_fields False [''appId'', ''deviceId''] body of
        Some (_, [app_id, device_id]) \<Rightarrow>
          Option.bind (required (read_uuid parse_uuid) app_id) (\<lambda>a.
          Option.bind (required (read_uuid parse_uuid) device_id) (\<lambda>d.
            Some \<lparr>iq_app_id = a, iq_device_id = d\<rparr>))
      | _ \<Rightarrow> None)"

definition source_config_of :: "(string \<Rightarrow> uuid option) \<Rightarrow> json \<Rightarrow> source_config option" where
  "source_config_of parse_uuid body =
     (case struct_fields False [''repository'', ''assetPattern'', ''includePrereleases'', ''appId''] body of
        Some (in_object, [repository, pattern, include, app_id]) \<Rightarrow>
          Option.bind (required read_string repository) (\<lambda>r.
          Option.bind (required read_string pattern) (\<lambda>p.
          Option.bind (defaulted False read_bool include) (\<lambda>i.
          Option.bind (optional in_object (read_uuid parse_uuid) app_id) (\<lambda>a.
            Some \<lparr>sc_repository = r, sc_asset_pattern = p, sc_include_prereleases = i, sc_app_id = a\<rparr>))))
      | _ \<Rightarrow> None)"

text \<open>A flattened struct is read from an object only.\<close>

definition preview_request_of :: "(string \<Rightarrow> uuid option) \<Rightarrow> json \<Rightarrow> source_config option" where
  "preview_request_of parse_uuid body =
     (case body of JObj _ \<Rightarrow> source_config_of parse_uuid body | _ \<Rightarrow> None)"

record automation_request =
  aq_enabled :: bool
  aq_acknowledged :: bool

definition automation_request_of :: "json \<Rightarrow> automation_request option" where
  "automation_request_of body =
     (case struct_fields False [''enabled'', ''acknowledgedSecurityWarning''] body of
        Some (_, [enabled, acknowledged]) \<Rightarrow>
          Option.bind (required read_bool enabled) (\<lambda>e.
          Option.bind (defaulted False read_bool acknowledged) (\<lambda>a.
            Some \<lparr>aq_enabled = e, aq_acknowledged = a\<rparr>))
      | _ \<Rightarrow> None)"

text \<open>Bodies with one field: \<^verbatim>\<open>afterDays\<close>, \<^verbatim>\<open>displayName\<close>, \<^verbatim>\<open>mode\<close>, \<^verbatim>\<open>identifier\<close> and \<^verbatim>\<open>pin\<close>.\<close>

definition single_field_of :: "string \<Rightarrow> (json \<Rightarrow> 'a option) \<Rightarrow> json \<Rightarrow> 'a option" where
  "single_field_of name read body =
     (case struct_fields False [name] body of Some (_, [v]) \<Rightarrow> required read v | _ \<Rightarrow> None)"

definition refresh_settings_of :: "json \<Rightarrow> u8 option" where
  "refresh_settings_of = single_field_of ''afterDays'' read_unsigned"

definition rename_request_of :: "json \<Rightarrow> string option" where
  "rename_request_of = single_field_of ''displayName'' read_string"

definition pairing_request_of :: "json \<Rightarrow> string option" where
  "pairing_request_of = single_field_of ''mode'' read_string"

definition start_pairing_request_of :: "json \<Rightarrow> string option" where
  "start_pairing_request_of = single_field_of ''identifier'' read_string"

definition pin_request_of :: "json \<Rightarrow> string option" where
  "pin_request_of = single_field_of ''pin'' read_string"

section \<open>Handlers behind their bodies\<close>

text \<open>\<open>rejected\<close> is the framework's answer to a body it cannot read; the handler does not run then.\<close>

definition source_automation_route ::
  "response \<Rightarrow> timestamp \<Rightarrow> action_headers \<Rightarrow> uuid \<Rightarrow> json \<Rightarrow> server \<Rightarrow> response \<times> server" where
  "source_automation_route rejected now h sid body srv =
     (case automation_request_of body of
        None \<Rightarrow> (rejected, srv)
      | Some r \<Rightarrow> source_automation now h (aq_enabled r) (aq_acknowledged r) sid srv)"

definition start_apple_login_route ::
  "response \<Rightarrow> ('p login_status \<Rightarrow> json) \<Rightarrow> crypto_lib \<Rightarrow> io_faults \<Rightarrow> path \<Rightarrow> string \<Rightarrow> string \<Rightarrow> uuid
     \<Rightarrow> json \<Rightarrow> fs \<Rightarrow> 'p provider \<Rightarrow> response \<times> fs \<times> 'p provider" where
  "start_apple_login_route rejected status_json lib fault dir random_key nonce new_id body fs p =
     (case login_request_of body of
        None \<Rightarrow> (rejected, fs, p)
      | Some r \<Rightarrow> start_apple_login status_json lib fault dir random_key nonce new_id
          (lq_email r) (lq_password r) (lq_save_credentials r) fs p)"

section \<open>What a body must say\<close>

lemma struct_fields_object:
  "struct_fields strict names (JObj es) = Some (in_object, vs) \<Longrightarrow> in_object \<and> vs = map (map_of es) names"
  by (auto split: if_splits)

lemma read_bool_eq_Some: "read_bool j = Some b \<longleftrightarrow> j = JBool b"
  by (cases j) auto

lemma read_string_eq_Some: "read_string j = Some s \<longleftrightarrow> j = JStr s"
  by (cases j) auto

lemma required_eq_Some: "required read v = Some x \<longleftrightarrow> (\<exists>j. v = Some j \<and> read j = Some x)"
  by (cases v) (auto simp: required_def)

lemma defaulted_eq_Some:
  "defaulted dflt read v = Some x \<longleftrightarrow> (v = None \<and> x = dflt) \<or> (\<exists>j. v = Some j \<and> read j = Some x)"
  by (cases v) (auto simp: defaulted_def)

lemma single_field_object:
  "single_field_of name read (JObj es) = Some x \<Longrightarrow> \<exists>j. (name, j) \<in> set es \<and> read j = Some x"
  by (auto simp: single_field_of_def required_eq_Some dest: map_of_SomeD split: if_splits)

text \<open>What a body says when it switches automatic downloads on.\<close>

fun consents :: "json \<Rightarrow> bool" where
  "consents (JObj es) \<longleftrightarrow> (''enabled'', JBool True) \<in> set es
     \<and> (''acknowledgedSecurityWarning'', JBool True) \<in> set es"
| "consents (JArr vs) \<longleftrightarrow> vs = [JBool True, JBool True]"
| "consents _ \<longleftrightarrow> False"

lemma automation_request_consents:
  assumes "automation_request_of body = Some r" "aq_enabled r" "aq_acknowledged r"
  shows "consents body"
proof (cases body)
  case (JObj es)
  with assms show ?thesis
    by (auto simp: automation_request_of_def required_eq_Some defaulted_eq_Some read_bool_eq_Some
        bind_eq_Some_conv dest: map_of_SomeD split: if_splits)
next
  case (JArr vs)
  with assms show ?thesis
    by (cases vs; cases "tl vs"; cases "tl (tl vs)")
       (auto simp: automation_request_of_def required_eq_Some defaulted_eq_Some read_bool_eq_Some
         bind_eq_Some_conv numeral_2_eq_2 split: if_splits)
qed (use assms in \<open>simp_all add: automation_request_of_def\<close>)

lemma source_automation_switches_on:
  assumes run: "source_automation now h enabled acknowledged sid srv = (resp, srv')"
    and on: "s' \<in> set (db_sources (sv_db srv'))" "sr_auto_download s'"
    and off: "\<And>s. s \<in> set (db_sources (sv_db srv)) \<Longrightarrow> sr_id s = sr_id s' \<Longrightarrow> \<not> sr_auto_download s"
  shows "action_allowed h \<and> enabled \<and> acknowledged \<and> sr_id s' = sid \<and> sr_auto_acknowledged_at s' = Some now"
proof -
  have kept: "sv_db srv' \<noteq> sv_db srv" using on off by auto
  with run have ran: "action_allowed h" "\<not> (enabled \<and> \<not> acknowledged)"
      "sv_db srv' = snd (set_source_automation now sid enabled acknowledged (sv_db srv))"
    by (auto simp: source_automation_def write_db_def split: if_splits bool.splits option.splits prod.splits)
  then obtain s where s: "s \<in> set (db_sources (sv_db srv))"
      "s' = (if sr_id s = sid then s\<lparr>sr_auto_download := enabled,
          sr_auto_acknowledged_at := (if enabled then Some now else None), sr_updated_at := now\<rparr> else s)"
    using on(1) by (auto simp: set_source_automation_def set_update_rows split: if_splits)
  with on(2) off [of s] ran show ?thesis by (auto split: if_splits)
qed

section \<open>Properties\<close>

text \<open>
  C32: Automatic downloads need consent in so many words: after a request to the automation route a source
  downloads by itself that did not before only when the request passed the guard, named that source, and
  its body says both that it is enabled and that the warning was acknowledged; the time is recorded.
\<close>

theorem automatic_download_needs_consent:
  assumes "source_automation_route rejected now h sid body srv = (resp, srv')"
    and "s' \<in> set (db_sources (sv_db srv'))" "sr_auto_download s'"
    and "\<And>s. s \<in> set (db_sources (sv_db srv)) \<Longrightarrow> sr_id s = sr_id s' \<Longrightarrow> \<not> sr_auto_download s"
  shows "action_allowed h \<and> sr_id s' = sid \<and> consents body \<and> sr_auto_acknowledged_at s' = Some now"
proof (cases "automation_request_of body")
  case None
  with assms show ?thesis by (auto simp: source_automation_route_def)
next
  case (Some r)
  with assms(1) have "source_automation now h (aq_enabled r) (aq_acknowledged r) sid srv = (resp, srv')"
    by (simp add: source_automation_route_def)
  from source_automation_switches_on [OF this assms(2-4)] automation_request_consents [OF Some]
  show ?thesis by blast
qed

theorem automatic_download_needs_consent_witness:
  "let body = JObj [(''acknowledgedSecurityWarning'', JBool True), (''enabled'', JBool True)];
       srv = demo_source_server ''s'' ''p'' None Map.empty;
       srv' = snd (source_automation_route (message 422 '''') 60 demo_headers 3 body srv) in
     consents body \<and> map sr_auto_download (db_sources (sv_db srv')) = [True]
     \<and> (\<forall>s' \<in> set (db_sources (sv_db srv')). sr_auto_acknowledged_at s' = Some 60)"
proof -
  define body where "body = JObj [(''acknowledgedSecurityWarning'', JBool True), (''enabled'', JBool True)]"
  define srv where "srv = demo_source_server ''s'' ''p'' None Map.empty"
  define s' where "s' = (demo_source None)\<lparr>sr_auto_download := True, sr_auto_acknowledged_at := Some 60, sr_updated_at := 60\<rparr>"
  have "action_allowed demo_headers" by code_simp
  then have run: "source_automation_route (message 422 '''') 60 demo_headers 3 body srv
      = (Response 204 None, srv\<lparr>sv_db := (sv_db srv)\<lparr>db_sources := [s']\<rparr>\<rparr>)"
    by (simp add: source_automation_route_def automation_request_of_def body_def srv_def required_def
        defaulted_def source_automation_def write_db_def set_source_automation_def demo_source_server_def
        demo_source_def count_rows_def update_rows_def s'_def)
  have "sr_id s' = 3 \<and> consents body \<and> sr_auto_acknowledged_at s' = Some 60"
    using automatic_download_needs_consent [OF run, of s']
    by (auto simp: s'_def srv_def demo_source_server_def demo_source_def)
  with run show ?thesis by (fold body_def srv_def) (simp add: s'_def)
qed

text \<open>Credentials are saved only when the body asks for it.\<close>

lemma login_request_saves:
  assumes "login_request_of (JObj es) = Some r" "lq_save_credentials r"
  shows "(''saveCredentials'', JBool True) \<in> set es"
  using assms
  by (auto simp: login_request_of_def required_eq_Some defaulted_eq_Some read_bool_eq_Some
      bind_eq_Some_conv dest: map_of_SomeD split: if_splits)

lemma begin_login_keeps_saved: "begin_login i email p = Inr (st, p') \<Longrightarrow> pr_saved_login_id p' = pr_saved_login_id p"
  by (auto simp: begin_login_def Let_def split: option.splits if_splits)

lemma unsaved_login:
  "fst (snd (start_apple_login status_json lib fault dir random_key nonce new_id email password False fs p)) = fs
   \<and> pr_saved_login_id (snd (snd (start_apple_login status_json lib fault dir random_key nonce new_id email password
       False fs p))) = pr_saved_login_id p"
proof (cases "begin_login new_id email p")
  case (Inl e)
  then show ?thesis by (cases e) (simp_all add: start_apple_login_def case_unit_Unity)
next
  case (Inr r)
  obtain st p' where "r = (st, p')" by (rule prod.exhaust)
  with Inr begin_login_keeps_saved [of new_id email p st p'] show ?thesis
    by (simp add: start_apple_login_def case_unit_Unity)
qed

theorem login_stores_nothing_unasked:
  assumes "(''saveCredentials'', JBool True) \<notin> set es"
  shows "fst (snd (start_apple_login_route rejected status_json lib fault dir random_key nonce new_id (JObj es) fs p)) = fs
    \<and> pr_saved_login_id (snd (snd (start_apple_login_route rejected status_json lib fault dir random_key nonce new_id
        (JObj es) fs p))) = pr_saved_login_id p"
proof (cases "login_request_of (JObj es)")
  case (Some r)
  with assms login_request_saves have "\<not> lq_save_credentials r" by blast
  with Some show ?thesis
    using unsaved_login by (simp add: start_apple_login_route_def)
qed (simp add: start_apple_login_route_def)

theorem login_stores_nothing_unasked_witness:
  "fst (snd (start_apple_login_route (message 422 '''') (\<lambda>_. JNull) undefined (\<lambda>_. False) ''d'' ''k'' ''n'' 5
       (JObj [(''email'', JStr ''a''), (''password'', JStr ''b'')]) Map.empty
       (new_provider None :: unit provider))) = Map.empty"
  by (rule login_stores_nothing_unasked [THEN conjunct1]) simp

end
