(* ===== verification/RsdPipeline.thy ===== *)
theory RsdPipeline
  imports RsdContract StagingContract
begin

text \<open>
  An installation from its plan to its command (\<^verbatim>\<open>execute_rsd_first_install\<close> in
  \<^verbatim>\<open>src/wireless_pairing.rs\<close> with \<^verbatim>\<open>plan_signed_bundle_until\<close>, \<^verbatim>\<open>stage_signed_bundle\<close>,
  \<^verbatim>\<open>send_one_install_command\<close> and \<^verbatim>\<open>clean_exact_task_staging\<close>). \<open>RsdInstall\<close> takes the answers of the plan,
  of staging and of the cleanup as given; here they come from the definitions of \<open>UploadPlan\<close> and
  \<open>Staging\<close>, and everything the device is asked to do is one list of events.
\<close>

section \<open>The installation command\<close>

datatype install_mutation = InstallMutation path plist

definition installation_proxy_install_mutation :: "path \<Rightarrow> install_mutation" where
  "installation_proxy_install_mutation staging_app =
     InstallMutation staging_app (PDict [(''PackageType'', PString ''Developer'')])"

section \<open>A run\<close>

text \<open>
  What a run meets besides the answers of \<open>RsdInstall\<close>: the signed bundle, the file system while
  planning and while staging, how the blocking task of the plan ended, the device's file service, the
  number of packets after which the deadline stopped staging, and the client of the cleanup.
\<close>

datatype plan_task = PlanFinished | PlanPanicked | PlanAborted | PlanLate

record pipeline =
  pp_install :: install_env
  pp_root :: path
  pp_plan_env :: plan_env
  pp_plan_task :: plan_task
  pp_stage_env :: plan_env
  pp_afc :: afc_env
  pp_staging :: task_staging
  pp_cut :: "nat option"
  pp_clean_client :: "task_afc option"
  pp_parse_uuid :: "string \<Rightarrow> uuid option"

definition pipeline_plan :: "pipeline \<Rightarrow> upload_failure + upload_plan" where
  "pipeline_plan p = plan_signed_bundle_until (pp_plan_env p) (pp_root p)"

definition plan_answer :: "pipeline \<Rightarrow> plan_result" where
  "plan_answer p =
     (case pp_plan_task p of
        PlanFinished \<Rightarrow>
          (case pipeline_plan p of Inl failure \<Rightarrow> PlanFailed (upload_failure_kind failure) | Inr _ \<Rightarrow> PlanReady)
      | PlanPanicked \<Rightarrow> PlanFailed (upload_failure_kind LocalIo)
      | PlanAborted \<Rightarrow> PlanTaskLost
      | PlanLate \<Rightarrow> PlanTimeout)"

definition staging_run :: "pipeline \<Rightarrow> unit staged" where
  "staging_run p =
     (case pipeline_plan p of
        Inl _ \<Rightarrow> (Inl '''', start_stage new_afc)
      | Inr plan \<Rightarrow> stage_signed_bundle (pp_afc p) (pp_stage_env p) (pp_staging p) plan new_afc)"

text \<open>
  A deadline stops staging while the answer to a packet or a read of a file is awaited. The flag that
  the root was created is set before the third packet.
\<close>

definition staging_answer :: "pipeline \<Rightarrow> staging_result" where
  "staging_answer p =
     (case pp_cut p of
        Some _ \<Rightarrow> StagingTimeout
      | None \<Rightarrow> (case fst (staging_run p) of Inl kind \<Rightarrow> StagingFailed kind | Inr () \<Rightarrow> Staged))"

definition staging_sent :: "pipeline \<Rightarrow> (afc_op \<times> string \<times> string) list" where
  "staging_sent p =
     (let sent = sent_calls (sg_client (snd (staging_run p))) in
      case pp_cut p of None \<Rightarrow> sent | Some n \<Rightarrow> take n sent)"

definition root_created :: "pipeline \<Rightarrow> bool" where
  "root_created p \<longleftrightarrow> sg_root_created (snd (staging_run p)) \<and> (case pp_cut p of None \<Rightarrow> True | Some n \<Rightarrow> 3 \<le> n)"

definition cleanup_run :: "pipeline \<Rightarrow> staging_cleanup \<times> afc_packet list" where
  "cleanup_run p =
     clean_exact_task_staging (pp_afc p) (pp_parse_uuid p) (pp_clean_client p) (pp_staging p) (root_created p)"

text \<open>The answers \<open>RsdInstall\<close> takes, from the run.\<close>

definition pipeline_execute :: "pipeline \<Rightarrow> execute_env" where
  "pipeline_execute p = (ie_execute (pp_install p))\<lparr>ex_plan := plan_answer p, ex_staging := staging_answer p,
     ex_root_created := root_created p, ex_clean := fst (cleanup_run p)\<rparr>"

definition pipeline_report :: "pipeline \<Rightarrow> existing_app_policy \<Rightarrow> device_registration_policy \<Rightarrow> install_report" where
  "pipeline_report p policy registration =
     install_remote_pairing_app ((pp_install p)\<lparr>ie_execute := pipeline_execute p\<rparr>) policy registration"

section \<open>What the device is asked\<close>

datatype device_event = FileRequest "afc_op \<times> string \<times> string" | InstallCommand install_mutation

definition install_events :: "pipeline \<Rightarrow> device_event list" where
  "install_events p =
     (let e = pipeline_execute p in
      if ex_staging e = Staged \<and> \<not> ex_window_expired e \<and> ex_install_client e
      then [InstallCommand (installation_proxy_install_mutation (tg_app (pp_staging p)))] else [])"

text \<open>
  The file requests and the installation commands of one run, in order. The lookups that the
  installation proxy answers before and after them, which change nothing on the device, are
  environment answers (\<open>ex_precheck_lookup\<close>, \<open>ex_verification_lookup\<close>) and not events.
\<close>

definition execute_events :: "pipeline \<Rightarrow> existing_app_policy \<Rightarrow> device_event list" where
  "execute_events p policy =
     (let e = pipeline_execute p in
      if precheck e policy \<noteq> None \<or> plan_failure (ex_plan e) \<noteq> None \<or> \<not> ex_afc_client e then []
      else map FileRequest (staging_sent p) @ install_events p
        @ map (\<lambda>k. FileRequest (pk_operation k, pk_header_payload k, pk_payload k)) (snd (cleanup_run p)))"

text \<open>Both sessions and the signing before the run decide whether it happens at all.\<close>

definition reaches_device :: "install_env \<Rightarrow> device_registration_policy \<Rightarrow> bool" where
  "reaches_device e registration \<longleftrightarrow>
     ie_open1 e = SessionOpened \<and> ie_close1 e \<noteq> ScFailed \<and> ie_open2 e = SessionOpened
     \<and> (\<exists>identity preflight artifact. ie_identity1 e = Some (Inr identity)
          \<and> ie_identity2 e = Some (Inr identity)
          \<and> ie_sign e identity registration = SigningDone (Inr (preflight, Some artifact)))"

definition pipeline_events :: "pipeline \<Rightarrow> existing_app_policy \<Rightarrow> device_registration_policy \<Rightarrow> device_event list" where
  "pipeline_events p policy registration =
     (if reaches_device (pp_install p) registration then execute_events p policy else [])"

fun is_command :: "device_event \<Rightarrow> bool" where
  "is_command (InstallCommand _) = True"
| "is_command (FileRequest _) = False"

section \<open>The events against the report\<close>

lemma filter_requests [simp]: "filter is_command (map (\<lambda>k. FileRequest (f k)) xs) = []"
  by (induction xs) simp_all

lemma filter_install_events [simp]: "filter is_command (install_events p) = install_events p"
  by (simp add: install_events_def Let_def)

lemma commands_of_run:
  "length (filter is_command (execute_events p policy)) =
     rp_install_command_count (execute_rsd_first_install (pipeline_execute p) bundle_id pressure policy)"
  by (simp add: execute_events_def execute_rsd_first_install_def Let_def install_events_def after_cleanup_def
      install_and_verify_def rsd_install_failure_def split: option.split staging_result.split prod.split)

lemma count_of_report [simp]:
  "rp_install_command_count (record_session_cleanup r c) = rp_install_command_count r"
  "rp_install_command_count (rsd_install_failure stage kind pressure bundle_id) = 0"
  "rp_install_command_count (signing_failure_report err c) = 0"
  by (simp_all add: record_session_cleanup_def rsd_install_failure_def signing_failure_report_def Let_def
      split: prod.split signing_error.split)

lemma report_runs:
  assumes "reaches_device e registration"
  obtains bundle_id pressure c where "install_remote_pairing_app e policy registration =
    record_session_cleanup (execute_rsd_first_install (ie_execute e) bundle_id pressure policy) c"
  using assms
  by (auto simp: reaches_device_def install_remote_pairing_app_def install_signed_def Let_def second_identity_error_def)

lemma report_stops:
  assumes "\<not> reaches_device e registration"
  shows "not_started (install_remote_pairing_app e policy registration)"
proof (cases "\<exists>identity preflight artifact. signed_for e registration identity preflight artifact")
  case True
  then obtain identity preflight artifact where signed: "signed_for e registration identity preflight artifact" by blast
  with assms have "ie_open2 e \<noteq> SessionOpened \<or> ie_identity2 e \<noteq> Some (Inr identity)"
    by (auto simp: reaches_device_def signed_for_def)
  from install_other_device [OF this] signed show ?thesis
    by (simp add: signed_for_def install_remote_pairing_app_def)
qed (metis install_unsigned)

lemma reaches_device_execute [simp]: "reaches_device (e\<lparr>ie_execute := x\<rparr>) registration = reaches_device e registration"
  by (simp add: reaches_device_def)

lemma cleanup_only_root:
  "k \<in> set (snd (cleanup_run p)) \<Longrightarrow> pp_clean_client p \<in> {None, Some new_afc} \<Longrightarrow>
     pk_operation k = RemovePathAndContents \<and> pk_header_payload k = tg_root (pp_staging p) \<and> pk_payload k = []"
  by (auto simp: cleanup_run_def clean_exact_task_staging_def remove_all_def path_request_def afc_request_def
      afc_packet_of_def new_afc_def Let_def split: if_splits option.splits sum.splits afc_error.splits)

lemma staged_answer:
  assumes "staging_answer p = Staged" "plan_answer p = PlanReady"
  obtains plan st where "pipeline_plan p = Inr plan" "pp_cut p = None"
    and "stage_signed_bundle (pp_afc p) (pp_stage_env p) (pp_staging p) plan new_afc = (Inr (), st)"
    and "staging_sent p = sent_calls (sg_client st)"
proof -
  from assms(1) have cut: "pp_cut p = None" by (cases "pp_cut p") (simp_all add: staging_answer_def)
  from assms(2) obtain plan where plan: "pipeline_plan p = Inr plan"
    by (cases "pp_plan_task p"; cases "pipeline_plan p") (simp_all add: plan_answer_def)
  obtain r st where run: "stage_signed_bundle (pp_afc p) (pp_stage_env p) (pp_staging p) plan new_afc = (r, st)"
    by (rule prod.exhaust)
  with assms(1) cut plan have "r = Inr ()"
    by (cases r) (simp_all add: staging_answer_def staging_run_def)
  with run cut plan that show ?thesis by (simp add: staging_sent_def staging_run_def)
qed

lemma command_executed:
  assumes "InstallCommand m \<in> set (execute_events p policy)"
  shows "plan_answer p = PlanReady \<and> staging_answer p = Staged
    \<and> m = installation_proxy_install_mutation (tg_app (pp_staging p))
    \<and> execute_events p policy = map FileRequest (staging_sent p) @ [InstallCommand m]
        @ map (\<lambda>k. FileRequest (pk_operation k, pk_header_payload k, pk_payload k)) (snd (cleanup_run p))"
  using assms
  by (auto simp: execute_events_def install_events_def pipeline_execute_def Let_def plan_failure_def
      split: if_splits plan_result.splits)

section \<open>Properties\<close>

text \<open>
  The report counts exactly the installation commands the device gets, whatever the plan, staging, the
  deadline and the sessions do.
\<close>

theorem report_counts_commands:
  "rp_install_command_count (pipeline_report p policy registration) =
     length (filter is_command (pipeline_events p policy registration))"
proof (cases "reaches_device (pp_install p) registration")
  case True
  then have "reaches_device ((pp_install p)\<lparr>ie_execute := pipeline_execute p\<rparr>) registration" by simp
  then obtain bundle_id pressure c where "pipeline_report p policy registration =
      record_session_cleanup (execute_rsd_first_install (pipeline_execute p) bundle_id pressure policy) c"
    unfolding pipeline_report_def by (rule report_runs [where policy = policy]) simp
  with True commands_of_run show ?thesis by (simp add: pipeline_events_def)
qed (simp add: pipeline_report_def pipeline_events_def report_stops [unfolded not_started_def])

text \<open>
  C4: An installation command is preceded by the whole plan. If the device gets one, planning accepted the
  bundle, the command names the task's own directory with the developer package type, and the events
  are: the two questions and two directories, entry by entry the planned directories and files with the
  planned lengths and digests, the one command, and then at most the removal of the task's root.
\<close>

theorem installed_is_planned:
  assumes "InstallCommand m \<in> set (pipeline_events p policy registration)"
    and "pp_clean_client p \<in> {None, Some new_afc}"
  shows "\<exists>plan uploads cleanup. pipeline_plan p = Inr plan
    \<and> m = InstallMutation (tg_app (pp_staging p)) (PDict [(''PackageType'', PString ''Developer'')])
    \<and> list_all2 (entry_uploaded (af_wr (pp_afc p)) (pl_sha256 (pp_stage_env p)) (pp_staging p))
        (up_entries plan) uploads
    \<and> pipeline_events p policy registration =
        map FileRequest ([(GetFileInfo, ''PublicStaging'', []), (GetFileInfo, tg_root (pp_staging p), []),
          (MakeDir, tg_root (pp_staging p), []), (MakeDir, tg_app (pp_staging p), [])] @ concat uploads)
        @ [InstallCommand m] @ map FileRequest cleanup
    \<and> set cleanup \<subseteq> {(RemovePathAndContents, tg_root (pp_staging p), [])}"
proof -
  from assms(1) have m: "InstallCommand m \<in> set (execute_events p policy)"
    and evs: "pipeline_events p policy registration = execute_events p policy"
    by (auto simp: pipeline_events_def split: if_splits)
  note run = command_executed [OF m]
  then obtain plan st where plan: "pipeline_plan p = Inr plan"
    and st: "stage_signed_bundle (pp_afc p) (pp_stage_env p) (pp_staging p) plan new_afc = (Inr (), st)"
    and sent: "staging_sent p = sent_calls (sg_client st)" by (auto elim: staged_answer)
  from stage_bundle_InrD [OF st] obtain uploads where
    uploads: "list_all2 (entry_uploaded (af_wr (pp_afc p)) (pl_sha256 (pp_stage_env p)) (pp_staging p))
      (up_entries plan) uploads"
    "sent_calls (sg_client st) = [(GetFileInfo, ''PublicStaging'', []), (GetFileInfo, tg_root (pp_staging p), []),
       (MakeDir, tg_root (pp_staging p), []), (MakeDir, tg_app (pp_staging p), [])] @ concat uploads"
    by (auto simp: sent_calls_def new_afc_def)
  define cleanup where
    "cleanup = map (\<lambda>k. (pk_operation k, pk_header_payload k, pk_payload k)) (snd (cleanup_run p))"
  have "set cleanup \<subseteq> {(RemovePathAndContents, tg_root (pp_staging p), [])}"
    using cleanup_only_root [OF _ assms(2)] by (auto simp: cleanup_def)
  with plan uploads run sent evs show ?thesis
    by (intro exI [of _ plan] exI [of _ uploads] exI [of _ cleanup])
       (simp add: cleanup_def installation_proxy_install_mutation_def comp_def)
qed

definition demo_pipeline :: pipeline where
  "demo_pipeline = \<lparr>pp_install = demo_install ProxyOk, pp_root = ''a'', pp_plan_env = demo_plan_env,
     pp_plan_task = PlanFinished, pp_stage_env = demo_plan_env, pp_afc = demo_afc,
     pp_staging = demo_staging, pp_cut = None, pp_clean_client = Some new_afc,
     pp_parse_uuid = (\<lambda>_. Some 7)\<rparr>"

lemma demo_pipeline_command:
  "InstallCommand (installation_proxy_install_mutation (tg_app demo_staging))
     \<in> set (pipeline_events demo_pipeline Refuse RequireExisting)"
proof -
  obtain st where "stage_signed_bundle demo_afc demo_plan_env demo_staging demo_upload new_afc = (Inr (), st)"
    using demo_staging_run by blast
  then have "plan_answer demo_pipeline = PlanReady" "staging_answer demo_pipeline = Staged"
    by (simp_all add: plan_answer_def staging_answer_def staging_run_def pipeline_plan_def demo_pipeline_def
        demo_plan_run demo_upload_def case_unit_Unity)
  moreover have "reaches_device (demo_install ProxyOk) RequireExisting"
    by (simp add: reaches_device_def demo_install_def)
  ultimately show ?thesis
    by (simp add: pipeline_events_def execute_events_def install_events_def pipeline_execute_def Let_def
        plan_failure_def precheck_def)
       (simp add: demo_pipeline_def demo_install_def demo_execute_def)
qed

theorem installed_is_planned_witness:
  "\<exists>plan uploads. pipeline_plan demo_pipeline = Inr plan
     \<and> list_all2 (entry_uploaded 3 (pl_sha256 demo_plan_env) demo_staging) (up_entries plan) uploads
     \<and> take 4 (pipeline_events demo_pipeline Refuse RequireExisting)
         = map FileRequest [(GetFileInfo, ''PublicStaging'', []), (GetFileInfo, tg_root demo_staging, []),
             (MakeDir, tg_root demo_staging, []), (MakeDir, tg_app demo_staging, [])]"
proof -
  have "pp_clean_client demo_pipeline \<in> {None, Some new_afc}" by (simp add: demo_pipeline_def)
  from installed_is_planned [OF demo_pipeline_command this] obtain plan uploads cleanup where
    "pipeline_plan demo_pipeline = Inr plan"
    "list_all2 (entry_uploaded 3 (pl_sha256 demo_plan_env) demo_staging) (up_entries plan) uploads"
    "pipeline_events demo_pipeline Refuse RequireExisting =
      map FileRequest ([(GetFileInfo, ''PublicStaging'', []), (GetFileInfo, tg_root demo_staging, []),
          (MakeDir, tg_root demo_staging, []), (MakeDir, tg_app demo_staging, [])] @ concat uploads)
        @ [InstallCommand (installation_proxy_install_mutation (tg_app demo_staging))] @ map FileRequest cleanup"
    unfolding demo_pipeline_def pipeline.simps demo_afc_def afc_env.simps by blast
  then show ?thesis
    by (intro exI [of _ plan] exI [of _ uploads]) simp
qed

end
