(* ===== verification/RsdRun.thy ===== *)
theory RsdRun
  imports RsdPipeline RemoteSessionContract SigningCleanup
begin

text \<open>
  A whole installation over a stored pairing (\<^verbatim>\<open>install_remote_pairing_app\<close> in
  \<^verbatim>\<open>src/wireless_pairing.rs\<close>), with nothing left open that another theory models: both sessions and
  the identities read over them come from \<open>RemoteSession\<close>, the signing run and its files from
  \<open>SigningRun\<close>, planning, staging and the cleanup from \<open>RsdPipeline\<close>. What is left are the answers of
  the installation proxy and the time signing takes.
\<close>

section \<open>The parts of a run\<close>

text \<open>How long signing takes, and whether its task panics then.\<close>

datatype signing_timing = SignsAfter nat | SignerLost nat

record 'f run_env =
  ru_open :: "'f open_env"
  ru_lockdown :: lockdown_answers
  ru_fs :: fs
  ru_host :: signing_host
  ru_developer :: "developer_service option"
  ru_fresh :: "nat \<Rightarrow> string"
  ru_storage :: components
  ru_ipa :: components
  ru_signing :: signing_timing
  ru_unfinished :: disk
  ru_executed_at :: nat
  ru_pipeline :: pipeline

text \<open>\<^verbatim>\<open>timeout_at(limit, session.verified_signing_identity())\<close>.\<close>

definition identity_until ::
  "lockdown_answers \<Rightarrow> rsd_session \<Rightarrow> nat \<Rightarrow> nat \<Rightarrow> identity_answer \<times> nat" where
  "identity_until la s limit now =
     (case verified_signing_identity la s now of
        (r, t) \<Rightarrow> if t \<le> limit then (Some r, t) else (None, limit))"

text \<open>A session with the identity read over it, and when that was done.\<close>

definition session_identity :: "'f run_env \<Rightarrow> nat \<Rightarrow> nat \<Rightarrow> opened_session \<times> identity_answer \<times> nat" where
  "session_identity r limit now =
     (case open_within (ru_open r) (ru_fs r) limit now of
        Opened s t \<Rightarrow> (case identity_until (ru_lockdown r) s limit t of (i, t') \<Rightarrow> (Opened s t, i, t'))
      | OpenFailed k t \<Rightarrow> (OpenFailed k t, None, t)
      | OpenLate stage \<Rightarrow> (OpenLate stage, None, limit))"

text \<open>
  Signing as its own task. A task that is lost, or aborted because the limit passed, leaves
  \<open>ru_unfinished\<close>.
\<close>

definition run_signing ::
  "'f run_env \<Rightarrow> nat \<Rightarrow> nat \<Rightarrow> disk \<Rightarrow> signing_device_identity \<Rightarrow> device_registration_policy
     \<Rightarrow> signing_answer \<times> disk \<times> nat" where
  "run_signing r limit now d identity registration =
     (case ru_signing r of
        SignsAfter dur \<Rightarrow>
          if limit < now + dur then (SigningTimeout, ru_unfinished r, limit)
          else (case preflight_and_sign_for_device (ru_host r) (ru_developer r) (ru_fresh r) (ru_storage r)
                  (ru_ipa r) identity registration d of
                  (result, d') \<Rightarrow> (SigningDone result, d', now + dur))
      | SignerLost dur \<Rightarrow>
          if limit < now + dur then (SigningTimeout, ru_unfinished r, limit)
          else (SigningTaskLost, ru_unfinished r, now + dur))"

definition work_limit :: "existing_app_policy \<Rightarrow> nat \<Rightarrow> nat" where
  "work_limit policy now = install_work_deadline (now + rsd_install_timeout policy) now"

text \<open>The first session up to its closing.\<close>

definition first_session ::
  "'f run_env \<Rightarrow> existing_app_policy \<Rightarrow> nat \<Rightarrow> opened_session \<times> identity_answer \<times> session_cleanup \<times> nat" where
  "first_session r policy now =
     (case session_identity r (work_limit policy now) now of
        (o1, i1, t1) \<Rightarrow> (case close_install_session (oe_adapter (ru_open r)) t1 of (c1, t1') \<Rightarrow> (o1, i1, c1, t1')))"

text \<open>Signing after the first session, where its identity was read and it was closed.\<close>

definition signing_phase ::
  "'f run_env \<Rightarrow> existing_app_policy \<Rightarrow> device_registration_policy \<Rightarrow> nat \<Rightarrow> disk
     \<Rightarrow> (signing_answer \<times> disk \<times> nat) option" where
  "signing_phase r policy registration now d =
     (case first_session r policy now of
        (Opened _ _, Some (Inr identity), c1, t) \<Rightarrow>
          if c1 = ScFailed then None
          else Some (run_signing r (work_limit policy now) t d identity registration)
      | _ \<Rightarrow> None)"

definition signed_artifact ::
  "'f run_env \<Rightarrow> existing_app_policy \<Rightarrow> device_registration_policy \<Rightarrow> nat \<Rightarrow> disk
     \<Rightarrow> signed_app_artifact option" where
  "signed_artifact r policy registration now d =
     (case signing_phase r policy registration now d of
        Some (SigningDone (Inr (_, artifact)), _) \<Rightarrow> artifact | _ \<Rightarrow> None)"

section \<open>The run\<close>

text \<open>The answers the report is made from; the second session starts when signing has ended.\<close>

definition run_install_env ::
  "'f run_env \<Rightarrow> existing_app_policy \<Rightarrow> device_registration_policy \<Rightarrow> nat \<Rightarrow> disk \<Rightarrow> install_env" where
  "run_install_env r policy registration now d =
     (case first_session r policy now of
        (o1, i1, c1, t1) \<Rightarrow>
          let limit = work_limit policy now;
              start2 = (case signing_phase r policy registration now d of Some (_, _, t) \<Rightarrow> t | None \<Rightarrow> t1) in
          (case session_identity r limit start2 of
             (o2, i2, t2) \<Rightarrow>
               let end2 = (if i2 = i1 then ru_executed_at r else t2) in
               \<lparr>ie_open1 = install_open_result o1, ie_identity1 = i1, ie_close1 = c1,
                ie_sign = (\<lambda>identity reg. fst (run_signing r limit t1 d identity reg)),
                ie_open2 = install_open_result o2, ie_identity2 = i2,
                ie_close2 = fst (close_install_session (oe_adapter (ru_open r)) end2),
                ie_execute = ie_execute (pp_install (ru_pipeline r))\<rparr>))"

text \<open>The path of the artifact as the file functions of the plan see it.\<close>

definition path_text :: "components \<Rightarrow> path" where
  "path_text p = concat (map (\<lambda>c. CHR ''/'' # c) p)"

text \<open>
  The plan is made of the directory the signed artifact names: its path is the root handed to the
  planning task, and without an artifact there is none to plan.
\<close>

definition run_pipeline ::
  "'f run_env \<Rightarrow> existing_app_policy \<Rightarrow> device_registration_policy \<Rightarrow> nat \<Rightarrow> disk \<Rightarrow> pipeline" where
  "run_pipeline r policy registration now d =
     (ru_pipeline r)\<lparr>pp_install := run_install_env r policy registration now d,
       pp_root := (case signed_artifact r policy registration now d of
                     None \<Rightarrow> '''' | Some artifact \<Rightarrow> path_text (sga_app_bundle_path artifact))\<rparr>"

text \<open>
  Every path after signing hands the artifact to \<^verbatim>\<open>schedule_artifact_cleanup\<close>, or leaves it to the
  planning task, which drops it: the disk when that has happened.
\<close>

definition run_disk ::
  "'f run_env \<Rightarrow> existing_app_policy \<Rightarrow> device_registration_policy \<Rightarrow> nat \<Rightarrow> disk \<Rightarrow> disk" where
  "run_disk r policy registration now d =
     (case signing_phase r policy registration now d of
        None \<Rightarrow> d
      | Some (_, d', _) \<Rightarrow>
          (case signed_artifact r policy registration now d of
             None \<Rightarrow> d' | Some artifact \<Rightarrow> drop_artifact (ru_host r) artifact d'))"

definition run_install ::
  "'f run_env \<Rightarrow> existing_app_policy \<Rightarrow> device_registration_policy \<Rightarrow> nat \<Rightarrow> disk
     \<Rightarrow> install_report \<times> device_event list \<times> disk" where
  "run_install r policy registration now d =
     (let p = run_pipeline r policy registration now d in
      (pipeline_report p policy registration, pipeline_events p policy registration,
       run_disk r policy registration now d))"

section \<open>What a command says about the run\<close>

text \<open>A session with the paired device: a stored pairing, a trusted address and both verifications.\<close>

definition paired_session :: "'f open_env \<Rightarrow> fs \<Rightarrow> rsd_session \<Rightarrow> bool" where
  "paired_session oe fs s \<longleftrightarrow> has_stored_pairing (oe_lib oe) (oe_fault oe) (oe_dir oe) (oe_host oe) fs
     \<and> (\<exists>irk ep. length irk = 16 \<and> endpoint_trusted (oe_discovery oe) irk ep
          \<and> rs_address s \<in> set (ep_addresses ep) \<and> verified (oe_device oe) (rs_address s) False)"

lemma open_within_paired: "open_within oe fs limit now = Opened s t \<Longrightarrow> paired_session oe fs s"
  by (auto simp: open_within_def paired_session_def split: prod.splits sum.splits if_splits
      dest!: open_session_InrD dest: usable_material_Some)

lemma session_identity_read:
  assumes "session_identity r limit now = (Opened s t, Some (Inr i), t')"
  shows "paired_session (ru_open r) (ru_fs r) s \<and> fst (verified_signing_identity (ru_lockdown r) s t) = Inr i"
  using assms
  by (auto simp: session_identity_def identity_until_def open_within_paired
      split: opened_session.splits prod.splits if_splits)

lemma install_open_result_opened: "install_open_result o1 = SessionOpened \<longleftrightarrow> (\<exists>s t. o1 = Opened s t)"
  by (cases o1) simp_all

lemma signed_device_registered:
  assumes "preflight_and_sign_for_device h (Some dv) fresh storage ipa identity policy d = (Inr (preflight, Some a), d')"
  shows "\<exists>devices. dv_devices dv (developer_device_type identity) = Some devices
    \<and> (di_udid identity \<in> set devices \<or> policy = Ensure
        \<and> dv_register dv (di_name identity) (di_udid identity) (developer_device_type identity))"
  using assms
  by (cases policy)
     (auto simp: preflight_and_sign_for_device_def account_preflight_def ok_or_def Let_def
       sign_for_device_with_sideloader_def registered_for_def
       split: option.splits sum.splits prod.splits if_splits)

lemma run_signing_done:
  assumes "run_signing r limit now d identity registration = (SigningDone (Inr (preflight, a)), d', t)"
  shows "preflight_and_sign_for_device (ru_host r) (ru_developer r) (ru_fresh r) (ru_storage r) (ru_ipa r)
    identity registration d = (Inr (preflight, a), d')"
  using assms by (auto simp: run_signing_def split: signing_timing.splits if_splits prod.splits)

text \<open>
  A run that reaches the device: the first session, the signing done for its identity, and the second
  session, which is opened when that signing has ended.
\<close>

lemma reaches_device_run:
  assumes "reaches_device (run_install_env r policy registration now d) registration"
  obtains s1 t1 i t1' t1'' c1 preflight artifact d' t s2 t2 t2' where
    "first_session r policy now = (Opened s1 t1, Some (Inr i), c1, t1'')" "c1 \<noteq> ScFailed"
    "session_identity r (work_limit policy now) now = (Opened s1 t1, Some (Inr i), t1')"
    "run_signing r (work_limit policy now) t1'' d i registration = (SigningDone (Inr (preflight, Some artifact)), d', t)"
    "signing_phase r policy registration now d = Some (SigningDone (Inr (preflight, Some artifact)), d', t)"
    "session_identity r (work_limit policy now) t = (Opened s2 t2, Some (Inr i), t2')"
proof -
  obtain o1 i1 c1 t1'' where fs: "first_session r policy now = (o1, i1, c1, t1'')" by (metis prod_cases4)
  define start2 where "start2 = (case signing_phase r policy registration now d of Some (_, _, t) \<Rightarrow> t | None \<Rightarrow> t1'')"
  obtain o2 i2 t2' where si: "session_identity r (work_limit policy now) start2 = (o2, i2, t2')" by (metis prod_cases3)
  from assms obtain s1 t1 s2 t2 i preflight artifact where
    ids: "o1 = Opened s1 t1" "o2 = Opened s2 t2" "i1 = Some (Inr i)" "i2 = Some (Inr i)" "c1 \<noteq> ScFailed"
      "fst (run_signing r (work_limit policy now) t1'' d i registration) = SigningDone (Inr (preflight, Some artifact))"
    by (auto simp: reaches_device_def run_install_env_def fs si start2_def [symmetric] Let_def
        install_open_result_opened)
  then obtain d' t where run: "run_signing r (work_limit policy now) t1'' d i registration
      = (SigningDone (Inr (preflight, Some artifact)), d', t)"
    by (metis prod.collapse)
  have phase: "signing_phase r policy registration now d = Some (SigningDone (Inr (preflight, Some artifact)), d', t)"
    using ids run by (simp add: signing_phase_def fs)
  obtain t1' where "session_identity r (work_limit policy now) now = (o1, i1, t1')"
    using fs by (auto simp: first_session_def split: prod.splits)
  with that [of s1 t1 i c1 t1'' t1' preflight artifact d' t s2 t2 t2'] fs si ids run phase
  show thesis by (simp add: start2_def)
qed

section \<open>Properties\<close>

text \<open>
  C5: An installation command goes to the paired device alone and carries what was signed for it. If
  a run sends one, then the session it opened first was with the device of the stored pairing, its
  lockdown answers gave an identity and it was closed; signing for this identity ended with an
  artifact, the identity being registered with the team (or registered now, as the caller allowed);
  and the session the run opened when signing had ended was again with the paired device and gave the
  same identity.
\<close>

theorem command_reaches_paired_device:
  assumes "InstallCommand m \<in> set (fst (snd (run_install r policy registration now d)))"
    and "ru_developer r = Some dv"
  shows "\<exists>s1 t1 t1' identity c1 preflight artifact d' t s2 t2 t2' devices.
    first_session r policy now = (Opened s1 t1, Some (Inr identity), c1, t1') \<and> c1 \<noteq> ScFailed
    \<and> paired_session (ru_open r) (ru_fs r) s1
    \<and> fst (verified_signing_identity (ru_lockdown r) s1 t1) = Inr identity
    \<and> signing_phase r policy registration now d = Some (SigningDone (Inr (preflight, Some artifact)), d', t)
    \<and> dv_devices dv (developer_device_type identity) = Some devices
    \<and> (di_udid identity \<in> set devices \<or> registration = Ensure
        \<and> dv_register dv (di_name identity) (di_udid identity) (developer_device_type identity))
    \<and> session_identity r (work_limit policy now) t = (Opened s2 t2, Some (Inr identity), t2')
    \<and> paired_session (ru_open r) (ru_fs r) s2
    \<and> fst (verified_signing_identity (ru_lockdown r) s2 t2) = Inr identity"
proof -
  have "reaches_device (run_install_env r policy registration now d) registration"
    using assms(1) by (auto simp: run_install_def pipeline_events_def run_pipeline_def Let_def split: if_splits)
  then obtain s1 t1 i t1' t1'' c1 preflight artifact d' t s2 t2 t2' where
    fs: "first_session r policy now = (Opened s1 t1, Some (Inr i), c1, t1'')" "c1 \<noteq> ScFailed" and
    s1: "session_identity r (work_limit policy now) now = (Opened s1 t1, Some (Inr i), t1')" and
    run: "run_signing r (work_limit policy now) t1'' d i registration
      = (SigningDone (Inr (preflight, Some artifact)), d', t)" and
    phase: "signing_phase r policy registration now d = Some (SigningDone (Inr (preflight, Some artifact)), d', t)" and
    s2: "session_identity r (work_limit policy now) t = (Opened s2 t2, Some (Inr i), t2')"
    by (rule reaches_device_run)
  from signed_device_registered run_signing_done [OF run] assms(2) obtain devices where
    "dv_devices dv (developer_device_type i) = Some devices"
    "di_udid i \<in> set devices \<or> registration = Ensure
      \<and> dv_register dv (di_name i) (di_udid i) (developer_device_type i)" by metis
  with fs phase s2 session_identity_read [OF s1] session_identity_read [OF s2] show ?thesis by blast
qed

text \<open>A file system that holds the demonstration bundle at a given path.\<close>

definition plan_env_at :: "path \<Rightarrow> plan_env" where
  "plan_env_at root = demo_plan_env\<lparr>
     pl_meta := (\<lambda>p. if p = root then Some demo_dir else Some demo_file),
     pl_canonical := (\<lambda>p. if p = root then Some [''a''] else Some [''a'', ''x'']),
     pl_children := (\<lambda>p. if p = root then Some [Some \<lparr>dc_name = ''x'', dc_unicode = True\<rparr>] else None)\<rparr>"

lemma plan_env_at_fields [simp]:
  "pl_meta (plan_env_at root) p = (if p = root then Some demo_dir else Some demo_file)"
  "pl_canonical (plan_env_at root) p = (if p = root then Some [''a''] else Some [''a'', ''x''])"
  "pl_children (plan_env_at root) p = (if p = root then Some [Some \<lparr>dc_name = ''x'', dc_unicode = True\<rparr>] else None)"
  "pl_chmod (plan_env_at root) p"
  "\<not> pl_late (plan_env_at root) n"
  "pl_sha256 (plan_env_at root) s = ''#'' @ s"
  "pl_open (plan_env_at root) p = Some \<lparr>of_meta = Some demo_file, of_reads = [Some ''hi'', Some ''''], of_final = Some demo_file\<rparr>"
  by (simp_all add: plan_env_at_def demo_plan_env_def)

definition upload_at :: "path \<Rightarrow> upload_plan" where
  "upload_at root = \<lparr>up_canonical_root = [''a''],
     up_entries = [\<lparr>ue_local_path = joined root ''x'', ue_remote_path = ''x'',
       ue_kind = PlanFile 2 (fm_identity demo_file) ''#hi''\<rparr>], up_byte_count = 2\<rparr>"

lemma joined_longer [simp]: "joined root x \<noteq> root"
  by (simp add: joined_def)

lemma plan_run_at: "plan_signed_bundle_until (plan_env_at root) root = Inr (upload_at root)"
  by (simp add: upload_at_def plan_signed_bundle_until_def plan_loop.simps enter_directory_def plan_child_def
      plan_entry_def plan_kind_def plan_file_def hash_planned_file_def is_regular_def
      ensure_plan_deadline_def ensure_canonical_descendant_def path_starts_with_def
      safe_remote_relative_path_def unsafe_component_def validate_upload_bounds_def
      FILE_LIMIT_def BYTE_LIMIT_def checked_add_u64_def ok_or_def demo_dir_def demo_file_def)

lemma staging_run_at:
  "\<exists>st. stage_signed_bundle demo_afc (plan_env_at root) demo_staging (upload_at root) new_afc = (Inr (), st)"
proof -
  have dir: "says_directory (''st_ifmt'' @ CHR 0x00 # ''S_IFDIR'')"
    by (simp add: says_directory_def)
  have open_ok: "open_verified_upload_file (plan_env_at root) (joined root ''x'') [''a''] 2 (fm_identity demo_file) =
      Inr \<lparr>of_meta = Some demo_file, of_reads = [Some ''hi'', Some ''''], of_final = Some demo_file\<rparr>"
    by (simp add: open_verified_upload_file_def ensure_canonical_descendant_def
        path_starts_with_def is_regular_def demo_file_def)
  show ?thesis
    using dir
    by (simp add: stage_signed_bundle_def stage_bind_def afc_step_def start_stage_def is_directory_def
        path_exists_def path_request_def make_directory_def afc_request_def afc_packet_of_def Let_def
        upload_at_def stage_entry_def stage_file_def open_ok demo_staging_def new_staging_def
        STAGING_PREFIX_def open_for_write_def stage_content_def afc_write_def afc_close_def
        count_sent_def checked_add_u64_def len_u64_def demo_afc_def new_afc_def)
      (simp add: is_regular_def demo_file_def)
qed

definition demo_read_identity :: signing_device_identity where
  "demo_read_identity = \<lparr>di_name = ''u'', di_udid = ''u'', di_apple_tv = False,
     di_product_type = None, di_ios_version = None\<rparr>"

text \<open>The artifact of this signing, and a run that plans and stages it.\<close>

definition demo_root :: path where
  "demo_root =
     (case preflight_and_sign_for_device demo_host (Some demo_signer) demo_fresh [''s'', ''a''] [''u'', ''a.ipa'']
        demo_read_identity Ensure demo_disk of
        (Inr (_, Some a), _) \<Rightarrow> path_text (sga_app_bundle_path (a :: signed_app_artifact)) | _ \<Rightarrow> '''')"

definition demo_run :: "string run_env" where
  "demo_run = \<lparr>ru_open = paired_env, ru_lockdown = demo_lockdown, ru_fs = paired_fs, ru_host = demo_host,
     ru_developer = Some demo_signer, ru_fresh = demo_fresh, ru_storage = [''s'', ''a''], ru_ipa = [''u'', ''a.ipa''],
     ru_signing = SignsAfter 1, ru_unfinished = demo_disk, ru_executed_at = 0,
     ru_pipeline = demo_pipeline\<lparr>pp_plan_env := plan_env_at demo_root, pp_stage_env := plan_env_at demo_root\<rparr>\<rparr>"

lemma demo_session:
  assumes "now + 25000 < limit"
  shows "\<exists>s t t'. session_identity demo_run limit now = (Opened s t, Some (Inr demo_read_identity), t') \<and> t' \<le> now + 25000"
proof -
  from paired_open [of now] obtain t marks where s: "open_session paired_env paired_fs now =
     (Inr \<lparr>rs_address = V4 1, rs_services = [TUNNEL_SERVICE_NAME \<mapsto> 9, LOCKDOWN_SERVICE_NAME \<mapsto> 10],
        rs_properties = [''UniqueDeviceID'' \<mapsto> PString ''u'']\<rparr>, t, marks)" and t: "t \<le> now + 20000" by blast
  show ?thesis
    using t assms
    by (simp add: session_identity_def identity_until_def demo_run_def open_within_def s
        verified_signing_identity_def exact_rsd_service_port_def TUNNEL_SERVICE_NAME_def LOCKDOWN_SERVICE_NAME_def
        timed_bind_def limited_def demo_lockdown_def REMOTE_CONNECT_TIMEOUT_def validate_rsd_identity_def
        opt_filter_def new_identity_def trim_u Let_def with_device_class_def with_device_metadata_def bounded_def demo_read_identity_def)
qed

lemma demo_limit: "work_limit Refuse 0 = RSD_INSTALL_TIMEOUT - install_cleanup_reserve"
  by (simp add: work_limit_def install_work_deadline_def checked_sub_def install_cleanup_reserve_def
      RSD_INSTALL_TIMEOUT_def RSD_INSTALL_CLEANUP_TIMEOUT_def RSD_INSTALL_SESSION_CLEANUP_TIMEOUT_def)

lemma demo_close: "\<exists>t'. close_install_session (oe_adapter (ru_open demo_run)) t = (ScSucceeded, t') \<and> t' \<le> t + 5000"
  by (simp add: demo_run_def paired_env_def close_install_session_def close_provider_def RSD_INSTALL_SESSION_CLEANUP_TIMEOUT_def)

lemma demo_signing:
  "\<exists>pre (a :: signed_app_artifact) d'.
     preflight_and_sign_for_device demo_host (Some demo_signer) demo_fresh [''s'', ''a''] [''u'', ''a.ipa'']
       demo_read_identity Ensure demo_disk = (Inr (pre, Some a), d')"
  by (simp add: preflight_and_sign_for_device_def account_preflight_def demo_run_defs demo_read_identity_def)

lemma demo_run_signed:
  "reaches_device (run_install_env demo_run Refuse Ensure 0 demo_disk) Ensure
   \<and> pp_root (run_pipeline demo_run Refuse Ensure 0 demo_disk) = demo_root
   \<and> (\<exists>result d' t. signing_phase demo_run Refuse Ensure 0 demo_disk = Some (SigningDone result, d', t))"
proof -
  let ?limit = "work_limit Refuse 0"
  have far: "200000 \<le> ?limit"
    by (simp add: demo_limit RSD_INSTALL_TIMEOUT_def install_cleanup_reserve_def
        RSD_INSTALL_CLEANUP_TIMEOUT_def RSD_INSTALL_SESSION_CLEANUP_TIMEOUT_def)
  with demo_session [of 0 ?limit] obtain s1 t1 t1' where
    s1: "session_identity demo_run ?limit 0 = (Opened s1 t1, Some (Inr demo_read_identity), t1')" "t1' \<le> 25000" by auto
  from demo_close [of t1'] s1(2) obtain c where
    c: "close_install_session (oe_adapter (ru_open demo_run)) t1' = (ScSucceeded, c)" "c \<le> 30000" by auto
  have first: "first_session demo_run Refuse 0 = (Opened s1 t1, Some (Inr demo_read_identity), ScSucceeded, c)"
    by (simp add: first_session_def s1 c)
  from demo_signing obtain pre d' and a :: signed_app_artifact where
    run: "preflight_and_sign_for_device demo_host (Some demo_signer) demo_fresh [''s'', ''a''] [''u'', ''a.ipa'']
       demo_read_identity Ensure demo_disk = (Inr (pre, Some a), d')" by blast
  then have signed: "run_signing demo_run ?limit c demo_disk demo_read_identity Ensure = (SigningDone (Inr (pre, Some a)), d', Suc c)"
    using c(2) far by (simp add: run_signing_def demo_run_def)
  have phase: "signing_phase demo_run Refuse Ensure 0 demo_disk = Some (SigningDone (Inr (pre, Some a)), d', Suc c)"
    by (simp add: signing_phase_def first signed)
  from demo_session [of "Suc c" ?limit] c(2) far obtain s2 t2 t2' where
    s2: "session_identity demo_run ?limit (Suc c) = (Opened s2 t2, Some (Inr demo_read_identity), t2')" by auto
  show ?thesis
    by (simp add: reaches_device_def run_install_env_def first phase s2 signed Let_def
        run_pipeline_def signed_artifact_def demo_root_def run)
qed

lemma demo_run_command:
  "InstallCommand (installation_proxy_install_mutation (tg_app demo_staging))
     \<in> set (fst (snd (run_install demo_run Refuse Ensure 0 demo_disk)))"
proof -
  let ?p = "run_pipeline demo_run Refuse Ensure 0 demo_disk"
  have p [simp]: "pp_plan_env ?p = plan_env_at demo_root" "pp_stage_env ?p = plan_env_at demo_root"
    "pp_plan_task ?p = PlanFinished" "pp_cut ?p = None" "pp_afc ?p = demo_afc" "pp_staging ?p = demo_staging"
    "ie_execute (run_install_env demo_run Refuse Ensure 0 demo_disk) = demo_execute ProxyOk"
    "pp_install ?p = run_install_env demo_run Refuse Ensure 0 demo_disk" "pp_root ?p = demo_root"
    using demo_run_signed
    by (simp_all add: run_pipeline_def demo_run_def demo_pipeline_def run_install_env_def Let_def
        demo_install_def split: prod.split)
  from staging_run_at obtain st where
    "stage_signed_bundle demo_afc (plan_env_at demo_root) demo_staging (upload_at demo_root) new_afc = (Inr (), st)" by blast
  then have "plan_answer ?p = PlanReady" "staging_answer ?p = Staged"
    by (simp_all add: plan_answer_def staging_answer_def staging_run_def pipeline_plan_def plan_run_at case_unit_Unity)
  with demo_run_signed show ?thesis
    by (simp add: run_install_def Let_def pipeline_events_def execute_events_def install_events_def
        pipeline_execute_def plan_failure_def precheck_def demo_execute_def)
qed

theorem command_reaches_paired_device_witness:
  "\<exists>s1 t1 t1' c1 identity artifact t s2 t2 t2'.
     first_session demo_run Refuse 0 = (Opened s1 t1, Some (Inr identity), c1, t1')
     \<and> paired_session paired_env paired_fs s1
     \<and> signed_artifact demo_run Refuse Ensure 0 demo_disk = Some artifact
     \<and> session_identity demo_run (work_limit Refuse 0) t = (Opened s2 t2, Some (Inr identity), t2')
     \<and> paired_session paired_env paired_fs s2
     \<and> fst (verified_signing_identity demo_lockdown s2 t2) = Inr identity"
proof -
  have fields: "ru_open demo_run = paired_env" "ru_fs demo_run = paired_fs" "ru_lockdown demo_run = demo_lockdown"
    "ru_developer demo_run = Some demo_signer" by (simp_all add: demo_run_def)
  from command_reaches_paired_device [OF demo_run_command fields(4)]
  obtain s1 t1 t1' identity c1 preflight artifact d' t s2 t2 t2' where run:
    "first_session demo_run Refuse 0 = (Opened s1 t1, Some (Inr identity), c1, t1')"
    "paired_session paired_env paired_fs s1"
    "signing_phase demo_run Refuse Ensure 0 demo_disk = Some (SigningDone (Inr (preflight, Some artifact)), d', t)"
    "session_identity demo_run (work_limit Refuse 0) t = (Opened s2 t2, Some (Inr identity), t2')"
    "paired_session paired_env paired_fs s2"
    "fst (verified_signing_identity demo_lockdown s2 t2) = Inr identity"
    unfolding fields by blast
  from run(3) have "signed_artifact demo_run Refuse Ensure 0 demo_disk = Some artifact"
    by (simp add: signed_artifact_def)
  with run show ?thesis by blast
qed

text \<open>
  C10: A whole installation leaves no file behind except in the signer's own storage. Suppose the
  signer writes only below its extraction directory and in the storage it was given, and removals
  succeed. However the sessions, planning, staging and the installation end, the disk is afterwards
  as it was before, but for what the signer changed in its storage and directories leading there;
  only a signing that was lost or overran its deadline leaves what its task had done.
\<close>

theorem run_leaves_no_trace:
  assumes "signing_workspace (ru_host r) (ru_fresh r) (ru_storage r) (ru_ipa r) n d"
    and "ru_developer r = Some dv"
    and "\<And>t. signer_confined dv t (ru_storage r) (input_path (ru_fresh r) (ru_ipa r))
      (extraction_root (ru_host r) (ru_fresh r)) (put_node (input_path (ru_fresh r) (ru_ipa r)) (Some n) d)"
  shows "case signing_phase r policy registration now d of
      Some (SigningDone _, _) \<Rightarrow>
        \<exists>t. restored (signer_left dv t (ru_fresh r) (ru_storage r) (ru_ipa r) n d) (ru_storage r) d
              (snd (snd (run_install r policy registration now d)))
    | Some _ \<Rightarrow> snd (snd (run_install r policy registration now d)) = ru_unfinished r
    | None \<Rightarrow> snd (snd (run_install r policy registration now d)) = d"
proof (cases "signing_phase r policy registration now d")
  case (Some phase)
  then obtain answer d' t where phase: "phase = (answer, d', t)" by (cases phase) auto
  from Some phase obtain identity start where
    run: "run_signing r (work_limit policy now) start d identity registration = (answer, d', t)"
    by (auto simp: signing_phase_def split: prod.splits opened_session.splits option.splits sum.splits if_splits)
  show ?thesis
  proof (cases answer)
    case (SigningDone result)
    with run have "preflight_and_sign_for_device (ru_host r) (Some dv) (ru_fresh r) (ru_storage r) (ru_ipa r)
        identity registration d = (result, d')"
      using assms(2) by (auto simp: run_signing_def split: signing_timing.splits if_splits prod.splits)
    from preflight_no_trace [OF assms(1,3) this] Some phase SigningDone show ?thesis
      by (auto simp: run_install_def Let_def run_disk_def signed_artifact_def no_trace_def
          split: sum.splits option.splits)
  qed (use run Some phase in \<open>auto simp: run_install_def Let_def run_disk_def signed_artifact_def run_signing_def
        split: signing_timing.splits if_splits prod.splits\<close>)
qed (simp add: run_install_def Let_def run_disk_def)

theorem run_leaves_no_trace_witness:
  "signing_phase demo_run Refuse Ensure 0 demo_disk \<noteq> None
   \<and> restored {[''s'', ''k'']} [''s'', ''a''] demo_disk (snd (snd (run_install demo_run Refuse Ensure 0 demo_disk)))"
proof -
  have "signing_workspace (ru_host demo_run) (ru_fresh demo_run) (ru_storage demo_run) (ru_ipa demo_run) (FileNode 0) demo_disk"
    "ru_developer demo_run = Some demo_signer"
    "\<And>t. signer_confined demo_signer t (ru_storage demo_run) (input_path (ru_fresh demo_run) (ru_ipa demo_run))
      (extraction_root (ru_host demo_run) (ru_fresh demo_run))
      (put_node (input_path (ru_fresh demo_run) (ru_ipa demo_run)) (Some (FileNode 0)) demo_disk)"
    using demo_workspace demo_confined by (simp_all add: demo_run_def)
  from run_leaves_no_trace [OF this, of Refuse Ensure 0] demo_run_signed show ?thesis
    by (auto simp: demo_run_def demo_left)
qed

end
