(* ===== verification/LoginJson.thy ===== *)
theory LoginJson
  imports LoginContract
begin

text \<open>
  What a browser is told about a sign-in: the derived serialisation of \<^verbatim>\<open>LoginStatus\<close> and of the
  diagnostics in \<^verbatim>\<open>src/signing.rs\<close>, with the names the \<^verbatim>\<open>serde\<close> attributes give to fields and
  variants. Apple's challenge parameters are a type of the signing library, \<open>params\<close> renders them.
\<close>

section \<open>Names\<close>

fun login_phase_json :: "login_phase \<Rightarrow> string" where
  "login_phase_json Authenticating = ''authenticating''"
| "login_phase_json AwaitingTwoFactor = ''awaitingTwoFactor''"
| "login_phase_json Ready = ''ready''"
| "login_phase_json Failed = ''failed''"

fun auth_stage_json :: "auth_diagnostic_stage \<Rightarrow> string" where
  "auth_stage_json AnisetteInit = ''ANISETTE_INIT''"
| "auth_stage_json AppleAccountBuild = ''APPLE_ACCOUNT_BUILD''"
| "auth_stage_json AppleAccountLogin = ''APPLE_ACCOUNT_LOGIN''"
| "auth_stage_json AppleAccountLoginTimeout = ''APPLE_ACCOUNT_LOGIN_TIMEOUT''"
| "auth_stage_json DeveloperSession = ''DEVELOPER_SESSION''"

fun network_class_json :: "auth_network_class \<Rightarrow> string" where
  "network_class_json NcAppleAuth = ''APPLE_AUTH''"
| "network_class_json NcHttp = ''HTTP''"
| "network_class_json NcNetwork = ''NETWORK''"
| "network_class_json NcTimeout = ''TIMEOUT''"
| "network_class_json NcUnknown = ''UNKNOWN''"

fun failure_kind_json :: "auth_failure_kind \<Rightarrow> string" where
  "failure_kind_json FkAppleAuth = ''APPLE_AUTH''"
| "failure_kind_json FkPlistParse = ''PLIST_PARSE''"
| "failure_kind_json FkAnisetteNotProvisioned = ''ANISETTE_NOT_PROVISIONED''"
| "failure_kind_json FkDeveloperService = ''DEVELOPER_SERVICE''"
| "failure_kind_json FkInvalidBundle = ''INVALID_BUNDLE''"
| "failure_kind_json FkDevice = ''DEVICE''"
| "failure_kind_json FkHttp = ''HTTP''"
| "failure_kind_json FkNetwork = ''NETWORK''"
| "failure_kind_json FkTimeout = ''TIMEOUT''"
| "failure_kind_json FkUnknown = ''UNKNOWN''"

fun event_kind_json :: "post_event_kind \<Rightarrow> string" where
  "event_kind_json TrustedDeviceVerifyBegin = ''TRUSTED_DEVICE_VERIFY_BEGIN''"
| "event_kind_json TrustedDeviceVerifySuccess = ''TRUSTED_DEVICE_VERIFY_SUCCESS''"
| "event_kind_json TrustedDeviceVerifyRejected = ''TRUSTED_DEVICE_VERIFY_REJECTED''"
| "event_kind_json TrustedDeviceVerifyFailure = ''TRUSTED_DEVICE_VERIFY_FAILURE''"
| "event_kind_json TransitionToNeedsLogin = ''TRANSITION_TO_NEEDS_LOGIN''"
| "event_kind_json TransitionToNeedsDevice2FAVerification = ''TRANSITION_TO_NEEDS_DEVICE_2FA_VERIFICATION''"
| "event_kind_json PostTwoFactorInitialLoginBegin = ''POST_2FA_INITIAL_LOGIN_BEGIN''"
| "event_kind_json PostTwoFactorInitialLoginResponseResult = ''POST_2FA_INITIAL_LOGIN_RESPONSE_RESULT''"
| "event_kind_json PostTwoFactorProofLoginBegin = ''POST_2FA_PROOF_LOGIN_BEGIN''"
| "event_kind_json PostTwoFactorProofLoginResponseResult = ''POST_2FA_PROOF_LOGIN_RESPONSE_RESULT''"
| "event_kind_json TransitionToNeedsDevice2FA = ''TRANSITION_TO_NEEDS_DEVICE_2FA''"

fun request_stage_json :: "post_request_stage \<Rightarrow> string" where
  "request_stage_json TrustedDeviceVerify = ''TRUSTED_DEVICE_VERIFY''"
| "request_stage_json InitialLogin = ''INITIAL_LOGIN''"
| "request_stage_json ProofLogin = ''PROOF_LOGIN''"

fun auth_state_json :: "post_auth_state \<Rightarrow> string" where
  "auth_state_json NeedsLogin = ''NEEDS_LOGIN''"
| "auth_state_json NeedsDevice2FA = ''NEEDS_DEVICE_2FA''"
| "auth_state_json NeedsDevice2FAVerification = ''NEEDS_DEVICE_2FA_VERIFICATION''"

fun result_class_json :: "post_result_class \<Rightarrow> string" where
  "result_class_json RcSuccess = ''SUCCESS''"
| "result_class_json RcHttpFailure = ''HTTP_FAILURE''"
| "result_class_json RcAppleServiceFailure = ''APPLE_SERVICE_FAILURE''"
| "result_class_json RcResponseBodyFailure = ''RESPONSE_BODY_FAILURE''"
| "result_class_json RcPlistParseFailure = ''PLIST_PARSE_FAILURE''"
| "result_class_json RcTransportFailure = ''TRANSPORT_FAILURE''"

section \<open>Objects\<close>

text \<open>A field that is left out when there is no value (\<^verbatim>\<open>skip_serializing_if\<close>).\<close>

definition skip_none :: "string \<Rightarrow> ('a \<Rightarrow> json) \<Rightarrow> 'a option \<Rightarrow> (string \<times> json) list" where
  "skip_none key f v = (case v of None \<Rightarrow> [] | Some x \<Rightarrow> [(key, f x)])"

abbreviation jword :: "'a::len word \<Rightarrow> json" where
  "jword w \<equiv> JNum (uint w)"

definition post_event_json :: "post_event \<Rightarrow> json" where
  "post_event_json e = JObj ((''EVENT_KIND'', JStr (event_kind_json (pe_event_kind e)))
     # skip_none ''HTTP_STATUS'' jword (pe_http_status e)
     @ skip_none ''APPLE_SERVICE_CODE'' JNum (pe_apple_service_code e)
     @ skip_none ''FROM_AUTH_STATE'' (JStr \<circ> auth_state_json) (pe_from_auth_state e)
     @ skip_none ''TO_AUTH_STATE'' (JStr \<circ> auth_state_json) (pe_to_auth_state e)
     @ skip_none ''REQUEST_STAGE'' (JStr \<circ> request_stage_json) (pe_request_stage e)
     @ skip_none ''RESULT_CLASS'' (JStr \<circ> result_class_json) (pe_result_class e))"

definition auth_diagnostic_json :: "auth_failure_diagnostic \<Rightarrow> json" where
  "auth_diagnostic_json d = JObj ((''AUTH_STAGE'', JStr (auth_stage_json (ad_auth_stage d)))
     # skip_none ''HTTP_STATUS'' jword (ad_http_status d)
     @ skip_none ''APPLE_AUTH_CODE'' JNum (ad_apple_auth_code d)
     @ [(''NETWORK_CLASS'', JStr (network_class_json (ad_network_class d))),
        (''ERROR_CLASS'', JStr (failure_kind_json (ad_error_class d))), (''TIMEOUT'', JBool (ad_timeout d))])"

definition signing_diagnostic_json :: "signing_failure_diagnostic \<Rightarrow> json" where
  "signing_diagnostic_json d = JObj [(''stage'', JStr (sf_stage d)),
     (''errorClass'', JStr (failure_kind_json (sf_error_class d))), (''httpStatus'', jopt jword (sf_http_status d)),
     (''appleCode'', jopt JNum (sf_apple_code d)), (''localIo'', jopt JStr (sf_local_io d))]"

definition login_status_json :: "(uuid \<Rightarrow> string) \<Rightarrow> ('p \<Rightarrow> json) \<Rightarrow> 'p login_status \<Rightarrow> json" where
  "login_status_json show_uuid params s = JObj ([(''id'', JStr (show_uuid (ls_id s))), (''phase'', JStr (login_phase_json (ls_phase s))),
       (''twoFactor'', jopt params (ls_two_factor s)), (''message'', JStr (ls_message s))]
     @ skip_none ''diagnostic'' auth_diagnostic_json (ls_diagnostic s)
     @ skip_none ''postTwoFactorDiagnostics'' (\<lambda>es. JObj [(''events'', JArr (map post_event_json es))])
         (ls_post_two_factor_diagnostics s))"

section \<open>Arming the certificate recovery\<close>

definition certificate_recovery_route :: "'p provider \<Rightarrow> response \<times> 'p provider" where
  "certificate_recovery_route p = (message 202
     (''Certificate recovery is armed for one new Apple sign-in. Sign in again; if Apple reports ''
      @ ''a certificate limit, iPhoneLoadly will revoke one older development certificate and continue.''),
     request_certificate_recovery p)"

section \<open>Health\<close>

definition healthz :: "string \<Rightarrow> 'p provider \<Rightarrow> response" where
  "healthz version p = Response 200 (Some (JObj [(''status'', JStr ''ok''), (''version'', JStr version),
     (''signing'', case readiness p of (available, text) \<Rightarrow>
        JObj [(''available'', JBool available), (''message'', JStr text)])]))"

text \<open>The health route says that signing is available exactly where an installation finds a session.\<close>

lemma healthz_available:
  "healthz version p = Response 200 (Some (JObj [(''status'', JStr ''ok''), (''version'', JStr version),
     (''signing'', JObj [(''available'', JBool (pr_sideloader p \<noteq> None)), (''message'', JStr (snd (readiness p)))])]))"
  by (simp add: healthz_def readiness_def is_ready_def split: prod.split)

section \<open>What is told\<close>

text \<open>The texts in a value, without the names of its fields.\<close>

fun json_texts :: "json \<Rightarrow> string list" where
  "json_texts (JStr s) = [s]"
| "json_texts (JArr vs) = concat (map json_texts vs)"
| "json_texts (JObj kvs) = concat (map (\<lambda>(_, v). json_texts v) kvs)"
| "json_texts _ = []"

definition login_messages :: "string list" where
  "login_messages = [''Authenticating with Apple.'', ''Preparing the local anisette provider.'',
     ''Contacting Apple through the local anisette provider.'',
     ''Apple requires a two-factor authentication response.'', ''Verifying the two-factor code with Apple.'',
     ''Apple signing session is ready.'',
     ''Apple authentication failed. Check the server logs for redacted diagnostics.'']"

definition login_words :: "string list" where
  "login_words = map login_phase_json [Authenticating, AwaitingTwoFactor, Ready, Failed]
     @ map auth_stage_json [AnisetteInit, AppleAccountBuild, AppleAccountLogin, AppleAccountLoginTimeout, DeveloperSession]
     @ map network_class_json [NcAppleAuth, NcHttp, NcNetwork, NcTimeout, NcUnknown]
     @ map failure_kind_json [FkAppleAuth, FkPlistParse, FkAnisetteNotProvisioned, FkDeveloperService,
         FkInvalidBundle, FkDevice, FkHttp, FkNetwork, FkTimeout, FkUnknown]
     @ map event_kind_json [TrustedDeviceVerifyBegin, TrustedDeviceVerifySuccess, TrustedDeviceVerifyRejected,
         TrustedDeviceVerifyFailure, TransitionToNeedsLogin, TransitionToNeedsDevice2FAVerification,
         PostTwoFactorInitialLoginBegin, PostTwoFactorInitialLoginResponseResult, PostTwoFactorProofLoginBegin,
         PostTwoFactorProofLoginResponseResult, TransitionToNeedsDevice2FA]
     @ map request_stage_json [TrustedDeviceVerify, InitialLogin, ProofLogin]
     @ map auth_state_json [NeedsLogin, NeedsDevice2FA, NeedsDevice2FAVerification]
     @ map result_class_json [RcSuccess, RcHttpFailure, RcAppleServiceFailure, RcResponseBodyFailure,
         RcPlistParseFailure, RcTransportFailure]"

lemma login_phase_json_word [simp]: "login_phase_json x \<in> set login_words"
  by (cases x) (simp_all add: login_words_def)

lemma auth_stage_json_word [simp]: "auth_stage_json x \<in> set login_words"
  by (cases x) (simp_all add: login_words_def)

lemma network_class_json_word [simp]: "network_class_json x \<in> set login_words"
  by (cases x) (simp_all add: login_words_def)

lemma failure_kind_json_word [simp]: "failure_kind_json x \<in> set login_words"
  by (cases x) (simp_all add: login_words_def)

lemma event_kind_json_word [simp]: "event_kind_json x \<in> set login_words"
  by (cases x) (simp_all add: login_words_def)

lemma request_stage_json_word [simp]: "request_stage_json x \<in> set login_words"
  by (cases x) (simp_all add: login_words_def)

lemma auth_state_json_word [simp]: "auth_state_json x \<in> set login_words"
  by (cases x) (simp_all add: login_words_def)

lemma result_class_json_word [simp]: "result_class_json x \<in> set login_words"
  by (cases x) (simp_all add: login_words_def)

lemma skip_none_texts [simp]:
  "concat (map (\<lambda>(_, v). json_texts v) (skip_none key f x)) = (case x of None \<Rightarrow> [] | Some v \<Rightarrow> json_texts (f v))"
  by (simp add: skip_none_def split: option.split)

lemma post_event_texts: "set (json_texts (post_event_json e)) \<subseteq> set login_words"
  by (auto simp: post_event_json_def split: option.splits)

lemma auth_diagnostic_texts: "set (json_texts (auth_diagnostic_json d)) \<subseteq> set login_words"
  by (auto simp: auth_diagnostic_json_def split: option.splits)

lemma login_messages_in [simp]:
  "''Authenticating with Apple.'' \<in> set login_messages"
  "''Preparing the local anisette provider.'' \<in> set login_messages"
  "''Contacting Apple through the local anisette provider.'' \<in> set login_messages"
  "''Apple requires a two-factor authentication response.'' \<in> set login_messages"
  "''Verifying the two-factor code with Apple.'' \<in> set login_messages"
  "''Apple signing session is ready.'' \<in> set login_messages"
  "''Apple authentication failed. Check the server logs for redacted diagnostics.'' \<in> set login_messages"
  by (simp_all add: login_messages_def)

text \<open>Every message a status can carry is one of the fixed ones.\<close>

definition messages_fixed :: "'p provider \<Rightarrow> bool" where
  "messages_fixed p \<longleftrightarrow> (\<forall>i a. pr_attempts p i = Some a \<longrightarrow> ls_message (la_state a) \<in> set login_messages)"

lemma task_event_message:
  "task_event e t a = Some (t', a') \<Longrightarrow> ls_message (la_state a) \<in> set login_messages \<Longrightarrow>
     ls_message (la_state a') \<in> set login_messages"
  by (cases e; clarsimp simp: attempt_defs split: if_splits)

lemma login_step_messages: "login_step p p' \<Longrightarrow> messages_fixed p \<Longrightarrow> messages_fixed p'"
proof (induction rule: login_step.induct)
  case (submit p i action code number_id)
  with submit_two_factor_cases [of i action code number_id p] show ?case
    by (auto simp: messages_fixed_def submit_response_def split: if_splits)
qed (auto simp: messages_fixed_def begin_login_def new_attempt_def request_certificate_recovery_def
    apply_login_event_def Let_def dest: task_event_message split: option.splits if_splits)

interpretation login_texts: session_invariant login_step "\<lambda>p. \<exists>url. p = new_provider url" messages_fixed
  by unfold_locales (auto intro: login_step_messages, simp add: messages_fixed_def new_provider_def)

lemma status_texts:
  assumes "ls_message s \<in> set login_messages"
  shows "set (json_texts (login_status_json show_uuid params s))
    \<subseteq> {show_uuid (ls_id s)} \<union> set login_words \<union> set login_messages \<union> (case ls_two_factor s of None \<Rightarrow> {} | Some c \<Rightarrow> set (json_texts (params c)))"
  using assms post_event_texts auth_diagnostic_texts
  by (fastforce simp: login_status_json_def jopt_def split: option.splits)

section \<open>The answers\<close>

definition answer_texts :: "response \<Rightarrow> string set" where
  "answer_texts r = (case resp_body r of None \<Rightarrow> {} | Some body \<Rightarrow> set (json_texts body))"

lemma answer_texts_message [simp]: "answer_texts (message status text) = {text}"
  by (simp add: answer_texts_def message_def)

lemma answer_texts_response [simp]:
  "answer_texts (Response status (Some body)) = set (json_texts body)" "answer_texts (Response status None) = {}"
  by (simp_all add: answer_texts_def)

definition handler_texts :: "string list" where
  "handler_texts = [''Email and password are required.'', ''Unable to save encrypted credentials.'',
     ''Configure IPHONELOADLY_ANISETTE_URL with a trusted anisette service before signing in.'',
     ''Unable to start Apple sign-in.'', ''Unable to read saved sign-in state.'',
     ''Unable to remove saved credentials.'', ''Apple login session was not found.'',
     ''Two-factor response accepted.'', ''Apple is not currently requesting a two-factor response.'',
     ''Invalid two-factor response.'']"

definition known_text :: "string \<Rightarrow> bool" where
  "known_text t \<longleftrightarrow> t \<in> set login_words \<union> set login_messages \<union> set handler_texts"

lemma handler_texts_known [simp]:
  "known_text ''Email and password are required.''"
  "known_text ''Unable to save encrypted credentials.''"
  "known_text ''Configure IPHONELOADLY_ANISETTE_URL with a trusted anisette service before signing in.''"
  "known_text ''Unable to start Apple sign-in.''"
  "known_text ''Unable to read saved sign-in state.''"
  "known_text ''Unable to remove saved credentials.''"
  "known_text ''Apple login session was not found.''"
  "known_text ''Two-factor response accepted.''"
  "known_text ''Apple is not currently requesting a two-factor response.''"
  "known_text ''Invalid two-factor response.''"
  by (simp_all add: known_text_def handler_texts_def)

text \<open>
  What the answers about a session may contain besides: its identifier and, while the session waits
  for the two-factor answer, the parameters of Apple's challenge, which the browser needs to show it.
\<close>

definition session_text :: "(uuid \<Rightarrow> string) \<Rightarrow> ('p \<Rightarrow> json) \<Rightarrow> 'p provider \<Rightarrow> string \<Rightarrow> bool" where
  "session_text show_uuid params p t \<longleftrightarrow> known_text t
     \<or> (\<exists>i s. login_status i p = Inr s \<and> (t = show_uuid i
          \<or> ls_phase s = AwaitingTwoFactor \<and> (\<exists>c. ls_two_factor s = Some c \<and> t \<in> set (json_texts (params c)))))"

lemma reachable_status:
  "login_step\<^sup>*\<^sup>* (new_provider url) p \<Longrightarrow> login_status i p = Inr s \<Longrightarrow> ls_message s \<in> set login_messages"
  using login_texts.reachable_inv [of "new_provider url" p]
  by (auto simp: login_status_def ok_or_def messages_fixed_def attempt_status_def split: option.splits)

lemma status_answer:
  assumes "login_step\<^sup>*\<^sup>* (new_provider url) p" "login_status i p = Inr s"
    and "t \<in> set (json_texts (login_status_json show_uuid params s))"
  shows "session_text show_uuid params p t"
proof -
  note facts = login_status_facts [OF assms(1,2)]
  from status_texts [OF reachable_status [OF assms(1,2)], of show_uuid params] assms(3)
  consider "t = show_uuid (ls_id s)" | "known_text t"
    | c where "ls_two_factor s = Some c" "t \<in> set (json_texts (params c))"
    by (fastforce simp: known_text_def split: option.splits)
  then show ?thesis
  proof cases
    case 1
    with assms(2) facts show ?thesis unfolding session_text_def by blast
  next
    case 2
    then show ?thesis by (simp add: session_text_def)
  next
    case (3 c)
    with facts have "ls_phase s = AwaitingTwoFactor" by auto
    with assms(2) 3 show ?thesis unfolding session_text_def by blast
  qed
qed

lemma started_answer:
  assumes run: "start_apple_login (login_status_json show_uuid params) lib fault dir random_key nonce
      new_id email password save fs p = (r, fs', p')"
  shows "Ball (answer_texts r) (session_text show_uuid params p')"
proof (cases "trim email = [] \<or> password = []")
  case True
  with run have "r = message 400 ''Email and password are required.''"
    unfolding start_apple_login_def by (simp only: if_True prod.inject)
  then show ?thesis by (simp add: session_text_def)
next
  case False
  obtain saved fs1 where saved: "(if save then save_credentials lib fault dir random_key nonce email password fs
      else (Inr (), fs)) = (saved, fs1)" by fastforce
  show ?thesis
  proof (cases saved)
    case (Inl e)
    with run saved False have "r = message 500 ''Unable to save encrypted credentials.''"
      by (simp add: start_apple_login_def)
    then show ?thesis by (simp add: session_text_def)
  next
    case (Inr u)
    show ?thesis
    proof (cases "begin_login new_id email p")
      case (Inl e)
      with False saved Inr run show ?thesis
        by (cases e) (simp_all add: start_apple_login_def case_unit_Unity, auto simp: session_text_def)
    next
      case started: (Inr sp)
      obtain status p1 where sp: "sp = (status, p1)" by fastforce
      from run False saved Inr started sp
      have r: "r = Response 202 (Some (login_status_json show_uuid params status))"
        and p': "p' = (if save then p1\<lparr>pr_saved_login_id := Some (ls_id status)\<rparr> else p1)"
        by (simp_all add: start_apple_login_def case_unit_Unity)
      have s: "login_status new_id p' = Inr status" "ls_two_factor status = None" "ls_id status = new_id"
        "ls_message status \<in> set login_messages"
        using started sp p' by (auto simp: begin_login_def new_attempt_def attempt_status_def login_status_def ok_or_def
            Let_def split: option.splits)
      have "session_text show_uuid params p' t"
        if "t \<in> set (json_texts (login_status_json show_uuid params status))" for t
      proof -
        from status_texts [OF s(4), of show_uuid params] that s(2) have "t = show_uuid (ls_id status) \<or> known_text t"
          by (auto simp: known_text_def)
        with s(1,3) show ?thesis unfolding session_text_def by blast
      qed
      with r show ?thesis by simp
    qed
  qed
qed

lemma submitted_answer: "Ball (answer_texts (fst (submit_apple_two_factor i action code number_id p))) known_text"
proof -
  obtain r p' where sub: "submit_two_factor i action code number_id p = (r, p')" by fastforce
  show ?thesis
  proof (cases r)
    case (Inl e)
    then show ?thesis by (cases e) (simp_all add: submit_apple_two_factor_def sub)
  next
    case (Inr u)
    then show ?thesis by (simp add: submit_apple_two_factor_def sub case_unit_Unity)
  qed
qed


text \<open>A signed-in session, polled, and a second sign-in started beside it.\<close>

abbreviation demo_login_json :: "unit login_status \<Rightarrow> json" where
  "demo_login_json \<equiv> login_status_json (\<lambda>i. show_nat (unat i)) (\<lambda>_. JStr ''phone'')"


end
