(* ===== verification/TestsUploads.thy ===== *)
theory TestsUploads
  imports Sources
begin

text \<open>
  The unit tests of \<^verbatim>\<open>src/ipa.rs\<close>, \<^verbatim>\<open>src/github.rs\<close> and \<^verbatim>\<open>src/sources.rs\<close>: a test is the conjunction
  of its assertions over the model, and the lemma after it says that the model passes it.
\<close>

section \<open>IPA validation\<close>

definition detects_tvos_and_ios_bundles :: bool where
  "detects_tvos_and_ios_bundles \<longleftrightarrow>
     from_info_plist [(''DTPlatformName'', PString ''appletvos'')] = Tvos
   \<and> from_info_plist [(''CFBundleSupportedPlatforms'', PArray [PString ''AppleTVOS''])] = Tvos
   \<and> from_info_plist [(''DTPlatformName'', PString ''iphoneos'')] = Ios
   \<and> from_info_plist [(''UIDeviceFamily'', PArray [PUnsigned 3])] = Tvos
   \<and> from_info_plist [(''UIDeviceFamily'', PArray [PUnsigned 1, PUnsigned 2])] = Ios
   \<and> from_info_plist [] = UnknownPlatform"

lemma detects_tvos_and_ios_bundles_passes: detects_tvos_and_ios_bundles
  by code_simp

text \<open>
  What the helper writes, as the archive reader sees it: the information list and a file of zeros,
  which the compressor makes about a thousand times smaller.
\<close>

definition write_ipa :: "u64 \<Rightarrow> ipa_lib" where
  "write_ipa padding_bytes = \<lparr>lib_sha256 = (\<lambda>s. ''#'' @ s),
     lib_zip = (\<lambda>_. Some
       [Some \<lparr>ze_name = ''Payload/Example.app/Info.plist'', ze_size = 300, ze_compressed_size = 200,
          ze_data = Some ''<plist>''\<rparr>,
        Some \<lparr>ze_name = ''Payload/Example.app/silent.mp4'', ze_size = padding_bytes,
          ze_compressed_size = padding_bytes div 1000, ze_data = Some ''''\<rparr>]),
     lib_plist = (\<lambda>s. if s = ''<plist>''
       then Some (PDict [(''CFBundleIdentifier'', PString ''com.example.tv''), (''DTPlatformName'', PString ''appletvos'')])
       else None)\<rparr>"

definition small_highly_compressed_entries_are_accepted :: bool where
  "small_highly_compressed_entries_are_accepted \<longleftrightarrow>
     map_sum id md_platform (inspect_ipa (write_ipa 194229) (\<lambda>_. False) [''small.ipa'' \<mapsto> ''zip''] ''small.ipa'') = Inr Tvos
   \<and> inspect_ipa (write_ipa (8 * 1024 * 1024)) (\<lambda>_. False) [''large.ipa'' \<mapsto> ''zip''] ''large.ipa'' = Inl ExpansionLimit"

lemma small_highly_compressed_entries_are_accepted_passes: small_highly_compressed_entries_are_accepted
  by (simp add: small_highly_compressed_entries_are_accepted_def write_ipa_def
      inspect_ipa_def inspect_init_def inspect_entry_def sum_bind_def
      validate_archive_path_def starts_with_def ends_with_def choose_bundle_def
      main_bundle_from_entry_def Let_def saturating_add_u64_def read_info_plist_def ok_or_def
      finish_inspection_def get_string_def opt_or_else_def opt_filter_def not_blank_def
      trim_nonempty_graphic is_ascii_graphic_def byte_of_def from_info_plist_def
      platform_names_def device_families_def MAX_ENTRIES_def MAX_EXPANDED_BYTES_def
      RATIO_CHECK_MIN_BYTES_def MAX_INFO_PLIST_BYTES_def MAX_COMPRESSION_RATIO_def
      to_ascii_lowercase_def ascii_lower_char_def is_ascii_upper_def)

definition platform_gates_device_class :: bool where
  "platform_gates_device_class \<longleftrightarrow>
     installable_on_apple_tv Tvos True \<and> \<not> installable_on_apple_tv Tvos False
   \<and> installable_on_apple_tv Ios False \<and> \<not> installable_on_apple_tv Ios True
   \<and> installable_on_apple_tv UnknownPlatform True \<and> installable_on_apple_tv UnknownPlatform False"

lemma platform_gates_device_class_passes: platform_gates_device_class
  by (simp add: platform_gates_device_class_def)

section \<open>GitHub\<close>

definition test_release :: "int \<Rightarrow> string \<Rightarrow> bool \<Rightarrow> string list \<Rightarrow> release" where
  "test_release i tag pre names = \<lparr>rl_id = i, rl_tag_name = tag, rl_name = tag, rl_draft = False,
     rl_prerelease = pre, rl_published_at = Some (show_nat (nat i)),
     rl_assets = map (\<lambda>(index, name). \<lparr>ra_id = int index, ra_name = name, ra_size = 1, ra_digest = None,
       ra_browser_download_url = ''''\<rparr>) (enumerate 0 names)\<rparr>"

definition repository_parser_rejects_noncanonical_inputs :: bool where
  "repository_parser_rejects_noncanonical_inputs \<longleftrightarrow>
     map_sum id rr_repo (parse_public_repository ''owner/repo'') = Inr ''repo''
   \<and> list_all (\<lambda>raw. case parse_public_repository raw of Inl _ \<Rightarrow> True | Inr _ \<Rightarrow> False)
       [''http://github.com/owner/repo'', ''https://evil.example/owner/repo'',
        ''https://github.com/owner/repo/issues'', ''https://github.com/owner/repo?x=1'']"

lemma repository_parser_rejects_noncanonical_inputs_passes: repository_parser_rejects_noncanonical_inputs
  by code_simp

definition asset_matching_is_case_insensitive_and_deterministic :: bool where
  "asset_matching_is_case_insensitive_and_deterministic \<longleftrightarrow>
     (let first = test_release 1 ''v1'' False [''other.zip'', ''MyApp.IPA''];
          ambiguous = test_release 2 ''v2'' False [''a.ipa'', ''b.ipa''] in
      map_sum id ra_name (match_ipa_asset first ''myapp.ipa'') = Inr ''MyApp.IPA''
    \<and> (case match_ipa_asset first ''*.ipa'' of Inl _ \<Rightarrow> False | Inr _ \<Rightarrow> True)
    \<and> match_ipa_asset ambiguous ''*.ipa'' = Inl AmbiguousAsset)"

lemma asset_matching_is_case_insensitive_and_deterministic_passes:
  asset_matching_is_case_insensitive_and_deterministic
  by code_simp

definition release_selection_excludes_drafts_and_prereleases_by_default :: bool where
  "release_selection_excludes_drafts_and_prereleases_by_default \<longleftrightarrow>
     (let releases = [test_release 1 ''v1'' False [], test_release 2 ''v2'' True [],
            (test_release 3 ''v3'' False [])\<lparr>rl_draft := True\<rparr>] in
      map_option rl_id (latest_eligible_release releases False) = Some 1
    \<and> map_option rl_id (latest_eligible_release releases True) = Some 2)"

lemma release_selection_excludes_drafts_and_prereleases_by_default_passes:
  release_selection_excludes_drafts_and_prereleases_by_default
  by code_simp

section \<open>Sources\<close>

definition repeated_checks_keep_pending_release_available_until_downloaded :: bool where
  "repeated_checks_keep_pending_release_available_until_downloaded \<longleftrightarrow>
     source_check_status None None None 1 10 = ''update_available''
   \<and> source_check_status (Some 1) (Some 10) (Some ''downloaded'') 2 20 = ''update_available''
   \<and> source_check_status (Some 2) (Some 20) (Some ''update_available'') 2 20 = ''update_available''
   \<and> source_check_status (Some 2) (Some 20) (Some ''downloaded'') 2 20 = ''up_to_date''
   \<and> source_check_status (Some 2) (Some 20) (Some ''unchanged'') 2 20 = ''up_to_date''"

lemma repeated_checks_keep_pending_release_available_until_downloaded_passes:
  repeated_checks_keep_pending_release_available_until_downloaded
  by (simp add: repeated_checks_keep_pending_release_available_until_downloaded_def source_check_status_def)

end
