(* ===== verification/TestsStore.thy ===== *)
theory TestsStore
  imports StoreRows
begin

text \<open>
  The unit tests of \<^verbatim>\<open>src/store.rs\<close>: a test is the conjunction of its assertions over the model, and the
  lemma after it says that the model passes it. Statements a test executes itself are updates of the rows;
  times are seconds and a test runs at \<^term>\<open>10 * 86400\<close>.
\<close>

definition test_now :: timestamp where "test_now = 10 * 86400"

definition test_app :: "uuid \<Rightarrow> string \<Rightarrow> string \<Rightarrow> string \<Rightarrow> app_row" where
  "test_app i hash file bundle = \<lparr>ar_id = i, ar_sha256 = hash, ar_storage_path = file, ar_size_bytes = 1,
     ar_uploaded_at = test_now, ar_deleted_at = None, ar_bundle_id = Some bundle, ar_display_name = None,
     ar_app_version = None\<rparr>"

definition test_job :: "uuid \<Rightarrow> timestamp \<Rightarrow> timestamp option \<Rightarrow> string option \<Rightarrow> job_row" where
  "test_job i created completed installed = \<lparr>jr_id = i, jr_app_id = 1, jr_device_id = 2, jr_phase = ''succeeded'',
     jr_created_at = created, jr_completed_at = completed, jr_progress_percent = None, jr_device_label = ''iPhone'',
     jr_failure_code = None, jr_installed_bundle_id = installed, jr_app_display_name = None, jr_app_version = None\<rparr>"

text \<open>A row of the older tables has \<^verbatim>\<open>NULL\<close> in the columns \<open>initialize\<close> adds.\<close>

definition initialize_adds_managed_app_columns_to_existing_database :: bool where
  "initialize_adds_managed_app_columns_to_existing_database \<longleftrightarrow>
     (let migrated = initialize (\<lambda>_. ''id'') empty_db;
          d1 = migrated\<lparr>db_apps := [test_app 1 ''hash'' ''app.ipa'' ''com.example.app''],
                 db_jobs := [test_job 3 test_now None None]\<rparr>;
          d2 = d1\<lparr>db_jobs := db_jobs d1 @ [test_job 4 test_now None (Some ''com.example.app.TEAM'')]\<rparr> in
      map mi_installed_bundle_id (managed_app_identities d1 2) = [None]
    \<and> map mi_installed_bundle_id (managed_app_identities d2 2) = [Some ''com.example.app.TEAM''])"

lemma initialize_adds_managed_app_columns_to_existing_database_passes:
  initialize_adds_managed_app_columns_to_existing_database
  by (simp add: initialize_adds_managed_app_columns_to_existing_database_def Let_def initialize_def empty_db_def
      update_rows_def managed_app_identities_def test_app_def test_job_def is_unmanaged_def)

definition refresh_day_setting_persists_and_controls_due_targets :: bool where
  "refresh_day_setting_persists_and_controls_due_targets \<longleftrightarrow>
     refresh_after_days empty_db = DEFAULT_REFRESH_AFTER_DAYS
   \<and> (case set_refresh_after_days 4 empty_db of
        Inl _ \<Rightarrow> False
      | Inr d \<Rightarrow>
          let installed = d\<lparr>db_apps := [test_app 1 ''settings-hash'' ''settings.ipa'' ''com.example.settings''],
                 db_jobs := [test_job 3 (test_now - 5 * 86400) (Some (test_now - 5 * 86400)) None]\<rparr> in
          refresh_after_days d = 4
        \<and> (case set_refresh_after_days 7 d of Inl _ \<Rightarrow> True | Inr _ \<Rightarrow> False)
        \<and> length (refresh_due_targets test_now 4 installed) = 1
        \<and> refresh_due_targets test_now 6 installed = [])"

lemma refresh_day_setting_persists_and_controls_due_targets_passes:
  refresh_day_setting_persists_and_controls_due_targets
  by (simp add: refresh_day_setting_persists_and_controls_due_targets_def Let_def empty_db_def
      refresh_after_days_def set_refresh_after_days_def refresh_day_ok_def MIN_REFRESH_AFTER_DAYS_def
      MAX_REFRESH_AFTER_DAYS_def opt_filter_def parse_show_u8 refresh_due_targets_def current_installs_def
      latest_success_def success_times_def List.map_filter_def is_unmanaged_def test_app_def test_job_def
      test_now_def elapsed_def)

definition forgotten_installation_is_hidden_and_restored_after_success :: bool where
  "forgotten_installation_is_hidden_and_restored_after_success \<longleftrightarrow>
     (let show_uuid = (\<lambda>_. ''id'');
          d = empty_db\<lparr>db_apps := [(test_app 1 ''managed-hash'' ''managed.ipa'' ''com.example.managed'')
                    \<lparr>ar_display_name := Some ''Managed''\<rparr>],
                 db_jobs := [(test_job 3 test_now (Some test_now) None)\<lparr>jr_app_display_name := Some ''Managed''\<rparr>]\<rparr>;
          (forgotten, d1) = forget_managed_installation test_now 1 2 d;
          d2 = restore_managed_installation 1 2 d1 in
      length (list_managed_installations show_uuid d) = 1 \<and> forgotten
    \<and> managed_app_identities d1 2 = [] \<and> list_managed_installations show_uuid d1 = []
    \<and> length (list_managed_installations show_uuid d2) = 1)"

lemma forgotten_installation_is_hidden_and_restored_after_success_passes:
  forgotten_installation_is_hidden_and_restored_after_success
  by (simp add: forgotten_installation_is_hidden_and_restored_after_success_def Let_def empty_db_def
      forget_managed_installation_def restore_managed_installation_def active_job_exists_def is_active_def
      active_phases_def managed_app_identities_def list_managed_installations_def current_installs_def
      latest_success_def success_times_def List.map_filter_def is_unmanaged_def test_app_def test_job_def)

definition insert_job_snapshots_historical_app_version :: bool where
  "insert_job_snapshots_historical_app_version \<longleftrightarrow>
     (case insert_app test_now 1 ''version-hash'' ''version.ipa'' 1 ''com.example.version'' ''Versioned App''
             (Some ''0.4.3'') empty_db of
        Inl _ \<Rightarrow> False
      | Inr d1 \<Rightarrow>
          (case insert_job test_now 3 1 2 ''Test iPhone'' d1 of
             Inl _ \<Rightarrow> False
           | Inr d2 \<Rightarrow>
               let d3 = d2\<lparr>db_apps := update_rows (\<lambda>a. ar_id a = 1) (\<lambda>a. a\<lparr>ar_app_version := Some ''0.4.4''\<rparr>) (db_apps d2)\<rparr> in
               map_option sj_app_version (find_job (\<lambda>_. ''id'') d3 3) = Some (Some ''0.4.3'')
             \<and> (case insert_app test_now 5 ''unversioned-hash'' ''unversioned.ipa'' 1 ''com.example.unversioned''
                       ''Unversioned App'' None d3 of
                  Inl _ \<Rightarrow> False
                | Inr d4 \<Rightarrow>
                    (case insert_job test_now 6 5 2 ''Test iPhone'' d4 of
                       Inl _ \<Rightarrow> False
                     | Inr d5 \<Rightarrow> map_option sj_app_version (find_job (\<lambda>_. ''id'') d5 6) = Some None))))"

lemma insert_job_snapshots_historical_app_version_passes: insert_job_snapshots_historical_app_version
  by (simp add: insert_job_snapshots_historical_app_version_def insert_app_def insert_job_def empty_db_def Let_def
      update_rows_def find_job_def find_row_def stored_job_of_def)

end
