(* ===== verification/TestsSigning.thy ===== *)
theory TestsSigning
  imports Diagnostics LoginJson SigningCleanup
begin

text \<open>
  The unit tests of \<^verbatim>\<open>src/signing.rs\<close> and \<^verbatim>\<open>src/registration_diagnostic.rs\<close>: a test is the
  conjunction of its assertions over the model, and the lemma after it says that the model passes it.
  A test that works on files starts from the disk it creates.
\<close>

section \<open>Registration\<close>

definition registration_policy_allows_normal_install_to_renew_missing_device :: bool where
  "registration_policy_allows_normal_install_to_renew_missing_device \<longleftrightarrow>
     registration_policy_after_preflight NewRequired Ensure = Some Ensure"

definition registration_policy_keeps_diagnostic_install_from_registering_device :: bool where
  "registration_policy_keeps_diagnostic_install_from_registering_device \<longleftrightarrow>
     registration_policy_after_preflight NewRequired RequireExisting = None"

definition registration_policy_reuses_existing_device_in_both_flows :: bool where
  "registration_policy_reuses_existing_device_in_both_flows \<longleftrightarrow>
     list_all (\<lambda>requested. registration_policy_after_preflight AlreadyPresent requested = Some RequireExisting)
       [Ensure, RequireExisting]"

lemma registration_policies_pass:
  "registration_policy_allows_normal_install_to_renew_missing_device"
  "registration_policy_keeps_diagnostic_install_from_registering_device"
  "registration_policy_reuses_existing_device_in_both_flows"
  by (simp_all add: registration_policy_allows_normal_install_to_renew_missing_device_def
      registration_policy_keeps_diagnostic_install_from_registering_device_def
      registration_policy_reuses_existing_device_in_both_flows_def)

definition distinguishes_exact_case_and_whitespace_matches :: bool where
  "distinguishes_exact_case_and_whitespace_matches \<longleftrightarrow>
     (let result = registration_matches ''00008110-ABCDEF0123456789''
        [''00008110-ABCDEF0123456789'', ''00008110-abcdef0123456789'',
         '' 00008110-abcdef0123456789'' @ [CHR 0x0A], ''00008110-1111111111111111''] in
      rm_listed_devices result = 4 \<and> rm_exact result = 1 \<and> rm_ascii_case_insensitive result = 2
    \<and> rm_trimmed_ascii_case_insensitive result = 3 \<and> \<not> rm_target_has_outer_whitespace result)"

lemma distinguishes_exact_case_and_whitespace_matches_passes: distinguishes_exact_case_and_whitespace_matches
  by code_simp

definition detects_outer_whitespace_on_phone_identifier :: bool where
  "detects_outer_whitespace_on_phone_identifier \<longleftrightarrow>
     (let result = registration_matches ('' ABC123'' @ [CHR 0x0A]) [''abc123''] in
      rm_exact result = 0 \<and> rm_ascii_case_insensitive result = 0
    \<and> rm_trimmed_ascii_case_insensitive result = 1 \<and> rm_target_has_outer_whitespace result)"

lemma detects_outer_whitespace_on_phone_identifier_passes: detects_outer_whitespace_on_phone_identifier
  by code_simp

definition distinguishes_missing_identifier_and_empty_device_list :: bool where
  "distinguishes_missing_identifier_and_empty_device_list \<longleftrightarrow>
     (let missing = registration_matches ''ABC123'' [''DEF456''] in
      rm_listed_devices missing = 1 \<and> rm_exact missing = 0 \<and> rm_trimmed_ascii_case_insensitive missing = 0)
   \<and> registration_matches ''ABC123'' [] = \<lparr>rm_listed_devices = 0, rm_exact = 0, rm_ascii_case_insensitive = 0,
       rm_trimmed_ascii_case_insensitive = 0, rm_target_has_outer_whitespace = False\<rparr>"

lemma distinguishes_missing_identifier_and_empty_device_list_passes:
  distinguishes_missing_identifier_and_empty_device_list
  by code_simp

definition excludes_unexpected_team_payloads_from_logs :: bool where
  "excludes_unexpected_team_payloads_from_logs \<longleftrightarrow>
     diagnostic_team_id ''TEAMID1234'' = ''TEAMID1234''
   \<and> list_all (\<lambda>invalid. diagnostic_team_id invalid = ''<redacted-invalid-team-id>'')
       ['''', ''TEAMID1234'' @ [CHR 0x0A], ''unexpected secret payload'', ''TEAMID123!'']"

lemma excludes_unexpected_team_payloads_from_logs_passes: excludes_unexpected_team_payloads_from_logs
  by code_simp

section \<open>Device identities\<close>

definition transfer_identity_metadata_is_optional_bounded_and_preserves_identity :: bool where
  "transfer_identity_metadata_is_optional_bounded_and_preserves_identity \<longleftrightarrow>
     (case new_identity ''Phone'' ''stable-udid'' of
        Inl _ \<Rightarrow> False
      | Inr new \<Rightarrow>
          let identity = with_device_metadata (Some ''iPhone17,1'') (Some ''26.0'') new;
              other = with_device_metadata (Some (''bad'' @ CHR 0x0A # ''value'')) (Some (replicate 129 CHR ''x'')) identity in
          di_product_type identity = Some ''iPhone17,1'' \<and> di_ios_version identity = Some ''26.0''
        \<and> di_udid identity = ''stable-udid''
        \<and> di_product_type other = None \<and> di_ios_version other = None \<and> di_udid other = ''stable-udid'')"

lemma transfer_identity_metadata_is_optional_bounded_and_preserves_identity_passes:
  transfer_identity_metadata_is_optional_bounded_and_preserves_identity
  by code_simp

section \<open>Diagnostics\<close>

fun json_field :: "string \<Rightarrow> json \<Rightarrow> json option" where
  "json_field key (JObj kvs) = map_of kvs key"
| "json_field _ _ = None"

fun json_keys :: "json \<Rightarrow> string list" where
  "json_keys (JObj kvs) = map fst kvs"
| "json_keys _ = []"

definition auth_diagnostic_redacts_typed_apple_auth_messages :: bool where
  "auth_diagnostic_redacts_typed_apple_auth_messages \<longleftrightarrow>
     (let diagnostic = auth_from_report AppleAccountLogin
            [CtxSideload (AuthWithMessage (-22406) ''sensitive Apple response text'')];
          serialized = auth_diagnostic_json diagnostic in
      ad_apple_auth_code diagnostic = Some (-22406) \<and> ad_network_class diagnostic = NcAppleAuth
    \<and> ad_error_class diagnostic = FkAppleAuth
    \<and> json_field ''APPLE_AUTH_CODE'' serialized = Some (JNum (-22406))
    \<and> \<not> List.member (json_texts serialized) ''sensitive Apple response text'')"

definition signing_diagnostic_exposes_only_typed_stage_and_developer_code :: bool where
  "signing_diagnostic_exposes_only_typed_stage_and_developer_code \<longleftrightarrow>
     (let secret = ''secret account, token, certificate and response'';
          diagnostic = signing_from_report [CtxSigningStage ''certificateIdentity'', CtxSideload (DeveloperError 7460 secret)];
          value = signing_diagnostic_json diagnostic in
      sf_stage diagnostic = ''certificateIdentity'' \<and> sf_apple_code diagnostic = Some 7460
    \<and> sf_error_class diagnostic = FkDeveloperService
    \<and> length (json_keys value) = 5 \<and> \<not> List.member (json_texts value) secret)"

definition signing_diagnostic_classifies_local_io_without_path_or_message :: bool where
  "signing_diagnostic_classifies_local_io_without_path_or_message \<longleftrightarrow>
     (let diagnostic = signing_from_report [CtxSigningStage ''applicationInput'', CtxIo PermissionDenied] in
      sf_stage diagnostic = ''applicationInput'' \<and> sf_local_io diagnostic = Some ''permissionDenied''
    \<and> json_texts (signing_diagnostic_json diagnostic) = [''applicationInput'', ''UNKNOWN'', ''permissionDenied''])"

definition signing_diagnostic_does_not_infer_categories_from_untrusted_strings :: bool where
  "signing_diagnostic_does_not_infer_categories_from_untrusted_strings \<longleftrightarrow>
     signing_from_report [CtxOther ''certificateIdentity HTTP 503 secret-token -80045''] =
       \<lparr>sf_stage = ''unknown'', sf_error_class = FkUnknown, sf_http_status = None, sf_apple_code = None,
        sf_local_io = None\<rparr>"

definition auth_diagnostic_classifies_plist_failure_without_exposing_payload :: bool where
  "auth_diagnostic_classifies_plist_failure_without_exposing_payload \<longleftrightarrow>
     (let diagnostic = auth_from_report AppleAccountLogin [CtxSideload (PlistParseError ''sensitive response payload'')];
          serialized = auth_diagnostic_json diagnostic in
      ad_network_class diagnostic = NcUnknown \<and> ad_error_class diagnostic = FkPlistParse
    \<and> json_field ''ERROR_CLASS'' serialized = Some (JStr ''PLIST_PARSE'')
    \<and> \<not> List.member (json_texts serialized) ''sensitive response payload'')"

definition auth_diagnostic_classifies_unprovisioned_anisette :: bool where
  "auth_diagnostic_classifies_unprovisioned_anisette \<longleftrightarrow>
     (let diagnostic = auth_from_report AppleAccountLogin [CtxSideload AnisetteNotProvisioned] in
      ad_network_class diagnostic = NcUnknown \<and> ad_error_class diagnostic = FkAnisetteNotProvisioned)"

text \<open>The report of a request that was answered with the status 503.\<close>

definition auth_diagnostic_captures_http_status_without_response_data :: bool where
  "auth_diagnostic_captures_http_status_without_response_data \<longleftrightarrow>
     (let report = [CtxHttp (Some 503) False]; diagnostic = auth_from_report AppleAccountLogin report;
          signing = signing_from_report (CtxSigningStage ''appIdentifiers'' # report) in
      ad_http_status diagnostic = Some 503 \<and> ad_network_class diagnostic = NcHttp \<and> \<not> ad_timeout diagnostic
    \<and> sf_stage signing = ''appIdentifiers'' \<and> sf_http_status signing = Some 503 \<and> sf_error_class signing = FkHttp)"

lemma diagnostics_pass:
  "auth_diagnostic_redacts_typed_apple_auth_messages"
  "signing_diagnostic_exposes_only_typed_stage_and_developer_code"
  "signing_diagnostic_classifies_local_io_without_path_or_message"
  "signing_diagnostic_does_not_infer_categories_from_untrusted_strings"
  "auth_diagnostic_classifies_plist_failure_without_exposing_payload"
  "auth_diagnostic_classifies_unprovisioned_anisette"
  "auth_diagnostic_captures_http_status_without_response_data"
  by code_simp+

text \<open>
  The stage of the anisette provider is spelt in two ways: the log says \<^verbatim>\<open>ANISSETTE_INIT\<close>, the answer
  to the browser \<^verbatim>\<open>ANISETTE_INIT\<close>. The other stages agree.
\<close>

theorem anisette_stage_spelt_twice:
  "auth_stage_str stage = auth_stage_json stage \<longleftrightarrow> stage \<noteq> AnisetteInit"
  by (cases stage) simp_all

section \<open>Sign-in\<close>

definition failed_status :: "unit login_status" where
  "failed_status = \<lparr>ls_id = 7, ls_phase = Failed, ls_two_factor = None, ls_message = ''Apple authentication failed.'',
     ls_diagnostic = Some \<lparr>ad_auth_stage = AppleAccountLogin, ad_http_status = Some 503,
       ad_apple_auth_code = Some (-22406), ad_network_class = NcHttp, ad_error_class = FkHttp, ad_timeout = False\<rparr>,
     ls_post_two_factor_diagnostics = None\<rparr>"

definition failed_login_status_serializes_only_bounded_diagnostic_fields :: bool where
  "failed_login_status_serializes_only_bounded_diagnostic_fields \<longleftrightarrow>
     json_field ''diagnostic'' (login_status_json (\<lambda>i. show_nat (unat i)) (\<lambda>_. JNull) failed_status) =
       Some (JObj [(''AUTH_STAGE'', JStr ''APPLE_ACCOUNT_LOGIN''), (''HTTP_STATUS'', JNum 503),
         (''APPLE_AUTH_CODE'', JNum (-22406)), (''NETWORK_CLASS'', JStr ''HTTP''), (''ERROR_CLASS'', JStr ''HTTP''),
         (''TIMEOUT'', JBool False)])"

definition successful_login_status_omits_diagnostic :: bool where
  "successful_login_status_omits_diagnostic \<longleftrightarrow>
     (let status = failed_status\<lparr>ls_phase := Ready, ls_message := ''Apple signing session is ready.'', ls_diagnostic := None\<rparr> in
      json_field ''diagnostic'' (login_status_json (\<lambda>i. show_nat (unat i)) (\<lambda>_. JNull) status) = None)"

text \<open>
  The provider holds one attempt, whose callback waits for an answer: \<open>wait_for_two_factor\<close> publishes the
  challenge and \<open>take_response\<close> consumes the answer.
\<close>

definition two_factor_bridge_consumes_one_response_without_synthesizing_callback :: bool where
  "two_factor_bridge_consumes_one_response_without_synthesizing_callback \<longleftrightarrow>
     (let attempt = wait_for_two_factor () (new_attempt 7);
          provider = (new_provider None)\<lparr>pr_attempts := [7 \<mapsto> attempt]\<rparr>;
          (accepted, p1) = submit_two_factor 7 ''submitCode'' (Some ''123456'') None provider in
      ls_phase (attempt_status attempt) = AwaitingTwoFactor \<and> ls_two_factor (attempt_status attempt) = Some ()
    \<and> accepted = Inr ()
    \<and> (case Option.bind (pr_attempts p1 7) take_response of
         None \<Rightarrow> False
       | Some (response, after) \<Rightarrow>
           response = SubmitCode ''123456'' \<and> la_response after = None
         \<and> ls_phase (attempt_status after) = Authenticating \<and> ls_two_factor (attempt_status after) = None
         \<and> fst (submit_two_factor 7 ''submitCode'' (Some ''123456'') None (p1\<lparr>pr_attempts := [7 \<mapsto> after]\<rparr>)) =
             Inl NoTwoFactorChallenge))"

definition post_two_factor_history_is_bounded_and_redacted :: bool where
  "post_two_factor_history_is_bounded_and_redacted \<longleftrightarrow>
     (let attempt = ((record_post_two_factor_event (SePostTwoFactorProofLoginResponseResult (SrHttpStatus 503))) ^^ 40)
            (new_attempt 7 :: unit login_attempt);
          status = attempt_status attempt in
      (case ls_post_two_factor_diagnostics status of
         None \<Rightarrow> False
       | Some events \<Rightarrow> length events = MAX_POST_TWO_FACTOR_DIAGNOSTIC_EVENTS
         \<and> list_all (\<lambda>e. pe_event_kind e = PostTwoFactorProofLoginResponseResult \<and> pe_http_status e = Some 503) events)
    \<and> List.member (json_texts (login_status_json (\<lambda>i. show_nat (unat i)) (\<lambda>_. JNull) status)) ''POST_2FA_PROOF_LOGIN_RESPONSE_RESULT'')"

definition post_two_factor_status_exposes_typed_reentry_stage :: bool where
  "post_two_factor_status_exposes_typed_reentry_stage \<longleftrightarrow>
     (let events = [SePostTwoFactorInitialLoginBegin, SePostTwoFactorInitialLoginResponseResult SrSuccess,
            SePostTwoFactorProofLoginBegin, SePostTwoFactorProofLoginResponseResult SrSuccess,
            SeTransitionToNeedsDevice2FA SsProofLogin];
          attempt = fold record_post_two_factor_event events (new_attempt 7 :: unit login_attempt) in
      (case json_field ''postTwoFactorDiagnostics'' (login_status_json (\<lambda>i. show_nat (unat i)) (\<lambda>_. JNull) (attempt_status attempt)) of
         Some diagnostics \<Rightarrow> (case json_field ''events'' diagnostics of
             Some (JArr values) \<Rightarrow> length values = 5 \<and> values ! 4 = JObj
               [(''EVENT_KIND'', JStr ''TRANSITION_TO_NEEDS_DEVICE_2FA''), (''FROM_AUTH_STATE'', JStr ''NEEDS_LOGIN''),
                (''TO_AUTH_STATE'', JStr ''NEEDS_DEVICE_2FA''), (''REQUEST_STAGE'', JStr ''PROOF_LOGIN'')]
           | _ \<Rightarrow> False)
       | None \<Rightarrow> False))"

definition post_two_factor_status_preserves_typed_failure_classes :: bool where
  "post_two_factor_status_preserves_typed_failure_classes \<longleftrightarrow>
     (let attempt = fold record_post_two_factor_event
            [SeTrustedDeviceVerifyFailure SrResponseBodyFailure, SeTrustedDeviceVerifyFailure SrPlistParseFailure]
            (new_attempt 7 :: unit login_attempt) in
      (case ls_post_two_factor_diagnostics (attempt_status attempt) of
         Some [first, second] \<Rightarrow>
           json_field ''EVENT_KIND'' (post_event_json first) = Some (JStr ''TRUSTED_DEVICE_VERIFY_FAILURE'')
         \<and> json_field ''RESULT_CLASS'' (post_event_json first) = Some (JStr ''RESPONSE_BODY_FAILURE'')
         \<and> json_field ''RESULT_CLASS'' (post_event_json second) = Some (JStr ''PLIST_PARSE_FAILURE'')
       | _ \<Rightarrow> False))"

lemma failed_login_status_serializes_only_bounded_diagnostic_fields_passes: failed_login_status_serializes_only_bounded_diagnostic_fields
  by code_simp

lemma successful_login_status_omits_diagnostic_passes: successful_login_status_omits_diagnostic
  by code_simp

lemma two_factor_bridge_consumes_one_response_without_synthesizing_callback_passes: two_factor_bridge_consumes_one_response_without_synthesizing_callback
  by code_simp

lemma repeated_events:
  "la_events ((record_post_two_factor_event e ^^ n) (new_attempt i)) = replicate (min n 32) (post_two_factor_source_event e)"
proof (induction n)
  case (Suc n)
  have full: "x # replicate 31 x = replicate 32 x" for x :: post_event
    by (simp add: numeral_eq_Suc)
  from Suc show ?case
    by (auto simp: record_post_two_factor_event_def push_event_def MAX_POST_TWO_FACTOR_DIAGNOSTIC_EVENTS_def
        full min_def replicate_append_same not_le le_Suc_eq)
qed (simp add: new_attempt_def)

lemma repeated_state: "la_state ((record_post_two_factor_event e ^^ n) a) = la_state a"
  by (induction n) (simp_all add: record_post_two_factor_event_def)

lemma post_two_factor_history_is_bounded_and_redacted_passes: post_two_factor_history_is_bounded_and_redacted
  by (simp add: post_two_factor_history_is_bounded_and_redacted_def attempt_status_def post_two_factor_snapshot_def
      repeated_events repeated_state post_two_factor_result_event_def Let_def list_all_iff
      MAX_POST_TWO_FACTOR_DIAGNOSTIC_EVENTS_def login_status_json_def post_event_json_def)

lemma post_two_factor_status_exposes_typed_reentry_stage_passes: post_two_factor_status_exposes_typed_reentry_stage
  by code_simp

lemma post_two_factor_status_preserves_typed_failure_classes_passes: post_two_factor_status_preserves_typed_failure_classes
  by code_simp

section \<open>Files\<close>

text \<open>
  The hosts of the tests: every operation succeeds, a directory lists what \<open>listing\<close> says, and a
  property list is its bundle identifier.
\<close>

definition test_host :: "(components \<Rightarrow> components list) \<Rightarrow> signing_host" where
  "test_host listing = demo_host\<lparr>sh_list := (\<lambda>_ p. Some (map Some (listing p)))\<rparr>"

definition sideload_inputs_use_unique_hardlinks_and_cleanup_independently :: bool where
  "sideload_inputs_use_unique_hardlinks_and_cleanup_independently \<longleftrightarrow>
     (let h = test_host (\<lambda>_. []); source = [''root'', ''source.ipa''];
          d0 = \<lparr>dk_nodes = [[''root''] \<mapsto> DirNode, source \<mapsto> FileNode 0], dk_data = (\<lambda>_. ''ipa'')\<rparr> in
      case sideload_input h ''1'' source d0 of
        Inl _ \<Rightarrow> False
      | Inr (first, d1) \<Rightarrow>
          (case sideload_input h ''2'' source d1 of
             Inl _ \<Rightarrow> False
           | Inr (second, d2) \<Rightarrow>
               let d3 = drop_sideload_input h first d2; d4 = drop_sideload_input h second d3 in
               first \<noteq> second
             \<and> dk_nodes d2 first = Some (FileNode 0) \<and> dk_nodes d2 second = Some (FileNode 0) \<and> dk_data d2 0 = ''ipa''
             \<and> (case (extraction_cleanup h first, extraction_cleanup h second) of
                  (Inr r1, Inr r2) \<Rightarrow> r1 \<noteq> r2 | _ \<Rightarrow> False)
             \<and> dk_nodes d3 first = None \<and> dk_nodes d3 second = Some (FileNode 0) \<and> dk_nodes d3 source = Some (FileNode 0)
             \<and> dk_nodes d4 second = None \<and> dk_nodes d4 source = Some (FileNode 0)))"

lemma sideload_inputs_use_unique_hardlinks_and_cleanup_independently_passes:
  sideload_inputs_use_unique_hardlinks_and_cleanup_independently
  by code_simp

definition sideloader_extraction_guard_removes_untransferred_root :: bool where
  "sideloader_extraction_guard_removes_untransferred_root \<longleftrightarrow>
     (let h = test_host (\<lambda>_. []) in
      case extraction_cleanup h [''tmp'', ''extraction-guard.ipa''] of
        Inl _ \<Rightarrow> False
      | Inr root \<Rightarrow>
          let d = \<lparr>dk_nodes = [[''tmp''] \<mapsto> DirNode, root \<mapsto> DirNode, root @ [''extra.bin''] \<mapsto> FileNode 0], dk_data = (\<lambda>_. ''extra'')\<rparr> in
          dk_nodes (drop_extraction_cleanup h (Some root) d) root = None
        \<and> dk_nodes (drop_extraction_cleanup h None d) root = Some DirNode)"

lemma sideloader_extraction_guard_removes_untransferred_root_passes:
  sideloader_extraction_guard_removes_untransferred_root
  by code_simp

text \<open>A signed application below the root of a test, with what its bundle holds.\<close>

definition app_disk :: "components \<Rightarrow> (string \<times> disk_node) list \<Rightarrow> disk" where
  "app_disk source children =
     \<lparr>dk_nodes = map_of ([([''root''], DirNode), ([''root'', ''Payload''], DirNode), (source, DirNode),
          ([''root'', ''outside.plist''], FileNode 1)]
        @ map (\<lambda>(name, node). (source @ [name], node)) children),
      dk_data = (\<lambda>i. if i = 0 then ''com.example.signed'' else ''outside'')\<rparr>"

definition names_of :: "nat \<Rightarrow> string" where
  "names_of i = replicate i CHR ''x''"

lemmas snapshot_eval = test_host_def app_disk_def names_of_def demo_run_defs check_tree_entry_def checked_add_u64_def
  MAX_TREE_ENTRIES_def MAX_TREE_BYTES_def path_starts_with_def quarantine_signed_app_def quarantine_path_def
  remove_dir_all_def drop_artifact_def

lemma test_host_simps [simp]:
  "sh_stat (test_host l) p" "sh_canonical (test_host l) d p = Some p" "sh_create_dir (test_host l) p"
  "sh_rename (test_host l) p q = Renamed" "sh_owner (test_host l) p = 0" "\<not> sh_keeps (test_host l) p"
  "sh_plist (test_host l) b = Some (PDict [(''CFBundleIdentifier'', PString b)])"
  "sh_list (test_host l) d p = Some (map Some (l p))" "restrict_signed_artifact_path (test_host l) p dir"
  by (simp_all add: test_host_def demo_host_def restrict_signed_artifact_path_def Let_def)

lemma gone: "dk_nodes d p = Some DirNode \<Longrightarrow> dk_nodes (remove_signed_artifact_path (test_host l) p d) p = None"
  by (intro remove_directory) (simp_all add: removes_all_def)

lemma inspect_passes:
  assumes "dk_nodes d owned = Some DirNode" "dk_nodes d (owned @ [''Info.plist'']) = Some (FileNode 0)"
    "dk_data d 0 = ''com.example.signed''" "owned \<noteq> []"
  shows "inspect_owned (test_host (\<lambda>p. [p @ [''Info.plist'']])) d owned (butlast owned) = Inr ''com.example.signed''"
  using assms
  by (simp add: inspect_owned_def symlink_metadata_def canonical_parent_is_def validate_private_signed_tree_def
      disk_tree_def tree_loop.simps check_tree_entry_def checked_add_u64_def MAX_TREE_ENTRIES_def MAX_TREE_BYTES_def
      path_starts_with_def sum_bind_def ok_or_def opt_filter_def get_string_def)

definition signed_artifact_owns_unique_bundle_and_removes_only_it_on_drop :: bool where
  "signed_artifact_owns_unique_bundle_and_removes_only_it_on_drop \<longleftrightarrow>
     (let h = test_host (\<lambda>p. [p @ [''Info.plist'']]); source = [''root'', ''Signed.app'']; storage = [''root'', ''storage''];
          extraction = [''root'', ''ipa-extracted''] in
      case snapshot_signed_app h names_of source storage (app_disk source [(''Info.plist'', FileNode 0)]) of
        (Inl _, _) \<Rightarrow> False
      | (Inr artifact, d1) \<Rightarrow>
          let owned = sga_app_bundle_path artifact;
              d2 = put_node (extraction @ [''extra.bin'']) (Some (FileNode 2)) (put_node extraction (Some DirNode) d1);
              d3 = drop_artifact h (artifact\<lparr>sga_extraction_root := Some extraction\<rparr>) d2 in
          sga_bundle_id artifact = ''com.example.signed'' \<and> dk_nodes d1 source = None
        \<and> dk_nodes d1 owned = Some DirNode \<and> path_parent owned = Some storage
        \<and> dk_nodes d3 owned = None \<and> dk_nodes d3 extraction = None
        \<and> dk_nodes d3 storage = Some DirNode \<and> dk_nodes d3 [''root''] = Some DirNode)"

lemma signed_artifact_owns_unique_bundle_and_removes_only_it_on_drop_passes:
  signed_artifact_owns_unique_bundle_and_removes_only_it_on_drop
proof -
  define d1 where "d1 = put_node [''root'', ''storage''] (Some DirNode)
    (app_disk [''root'', ''Signed.app''] [(''Info.plist'', FileNode 0)])"
  define owned where "owned = [''root'', ''storage'', ''iphoneloadly-signed-x.app'']"
  define d2 where "d2 = move_tree [''root'', ''Signed.app''] owned d1"
  have direct: "direct_path names_of [''root'', ''storage''] = owned"
    by (simp add: owned_def direct_path_def names_of_def)
  have made: "create_dir_all (test_host l) [''root'', ''storage'']
      (app_disk [''root'', ''Signed.app''] [(''Info.plist'', FileNode 0)]) = (True, d1)" for l
    by (simp add: create_dir_all_def app_disk_def d1_def)
  have d1: "dk_nodes d1 [''root'', ''storage''] = Some DirNode" by (simp add: d1_def)
  have d2: "dk_nodes d2 owned = Some DirNode" "dk_nodes d2 (owned @ [''Info.plist'']) = Some (FileNode 0)"
    "dk_data d2 0 = ''com.example.signed''" "dk_nodes d2 [''root'', ''Signed.app''] = None"
    "dk_nodes d2 [''root'', ''storage''] = Some DirNode" "dk_nodes d2 [''root''] = Some DirNode"
    by (simp_all add: d2_def d1_def owned_def move_tree_def app_disk_def)
  have "inspect_owned (test_host (\<lambda>p. [p @ [''Info.plist'']])) d2 owned [''root'', ''storage''] = Inr ''com.example.signed''"
    using inspect_passes [OF d2(1-3)] by (simp add: owned_def)
  then have run: "snapshot_signed_app (test_host (\<lambda>p. [p @ [''Info.plist'']])) names_of [''root'', ''Signed.app'']
      [''root'', ''storage''] (app_disk [''root'', ''Signed.app''] [(''Info.plist'', FileNode 0)]) =
      (Inr \<lparr>sga_app_bundle_path = owned, sga_cleanup_root = owned, sga_extraction_root = None,
         sga_bundle_id = ''com.example.signed''\<rparr>, d2)"
    by (simp add: snapshot_signed_app_def snapshot_signed_app_inner_def symlink_metadata_def made d1 take_signed_app_def
        direct Let_def d2_def [symmetric]) (simp add: app_disk_def)
  show ?thesis
    unfolding signed_artifact_owns_unique_bundle_and_removes_only_it_on_drop_def Let_def run using d2
    by (simp add: drop_artifact_def gone path_parent_def owned_def)
qed

definition cross_device_fallback_owns_and_cleans_the_source_filesystem_quarantine :: bool where
  "cross_device_fallback_owns_and_cleans_the_source_filesystem_quarantine \<longleftrightarrow>
     (let h = test_host (\<lambda>p. [p @ [''Info.plist'']]); parent = [''root'', ''Payload'']; source = parent @ [''Signed.app''] in
      case snapshot_signed_app_inner h True names_of source [''root'', ''storage'']
             (app_disk source [(''Info.plist'', FileNode 0)]) of
        (Inl _, _) \<Rightarrow> False
      | (Inr artifact, d1) \<Rightarrow>
          (case path_parent (sga_app_bundle_path artifact) of
             None \<Rightarrow> False
           | Some quarantine \<Rightarrow>
               let d2 = drop_artifact h artifact d1 in
               sga_bundle_id artifact = ''com.example.signed'' \<and> path_parent quarantine = Some parent
             \<and> dk_nodes d1 source = None \<and> dk_nodes d2 quarantine = None \<and> dk_nodes d2 parent = Some DirNode))"

lemma cross_device_fallback_owns_and_cleans_the_source_filesystem_quarantine_passes:
  cross_device_fallback_owns_and_cleans_the_source_filesystem_quarantine
proof -
  define d1 where "d1 = put_node [''root'', ''storage''] (Some DirNode)
    (app_disk [''root'', ''Payload'', ''Signed.app''] [(''Info.plist'', FileNode 0)])"
  define quarantine where "quarantine = [''root'', ''Payload'', ''.iphoneloadly-owned-xx'']"
  define d2 where "d2 = move_tree [''root'', ''Payload'', ''Signed.app''] (quarantine @ [''Signed.app''])
    (put_node quarantine (Some DirNode) d1)"
  have quarantine: "quarantine_path names_of [''root'', ''Payload''] = quarantine"
    by (simp add: quarantine_def quarantine_path_def names_of_def numeral_2_eq_2)
  have made: "create_dir_all (test_host l) [''root'', ''storage'']
      (app_disk [''root'', ''Payload'', ''Signed.app''] [(''Info.plist'', FileNode 0)]) = (True, d1)" for l
    by (simp add: create_dir_all_def app_disk_def d1_def)
  have d1: "dk_nodes d1 [''root'', ''storage''] = Some DirNode" "dk_nodes d1 [''root'', ''Payload''] = Some DirNode"
    "dk_nodes d1 quarantine = None"
    by (simp_all add: d1_def app_disk_def quarantine_def)
  have d2: "dk_nodes d2 (quarantine @ [''Signed.app'']) = Some DirNode"
    "dk_nodes d2 ((quarantine @ [''Signed.app'']) @ [''Info.plist'']) = Some (FileNode 0)"
    "dk_data d2 0 = ''com.example.signed''" "dk_nodes d2 [''root'', ''Payload'', ''Signed.app''] = None"
    "dk_nodes d2 [''root'', ''Payload''] = Some DirNode" "dk_nodes d2 quarantine = Some DirNode"
    by (simp_all add: d2_def d1_def quarantine_def move_tree_def app_disk_def)
  have "inspect_owned (test_host (\<lambda>p. [p @ [''Info.plist'']])) d2 (quarantine @ [''Signed.app'']) quarantine
      = Inr ''com.example.signed''"
    using inspect_passes [OF d2(1-3)] by simp
  then have run: "snapshot_signed_app_inner (test_host (\<lambda>p. [p @ [''Info.plist'']])) True names_of
      [''root'', ''Payload'', ''Signed.app''] [''root'', ''storage'']
      (app_disk [''root'', ''Payload'', ''Signed.app''] [(''Info.plist'', FileNode 0)]) =
      (Inr \<lparr>sga_app_bundle_path = quarantine @ [''Signed.app''], sga_cleanup_root = quarantine,
         sga_extraction_root = None, sga_bundle_id = ''com.example.signed''\<rparr>, d2)"
    by (simp add: snapshot_signed_app_inner_def symlink_metadata_def made d1 take_signed_app_def Let_def
        quarantine_signed_app_def path_parent_def quarantine canonical_parent_is_def d2_def [symmetric])
      (simp add: app_disk_def quarantine_def)
  show ?thesis
    unfolding cross_device_fallback_owns_and_cleans_the_source_filesystem_quarantine_def Let_def append.simps run using d2
    by (simp add: drop_artifact_def gone path_parent_def quarantine_def)
qed

text \<open>Here the bundle is empty; below its parent nothing is left.\<close>

definition cross_device_fallback_cleans_quarantine_after_post_move_validation_failure :: bool where
  "cross_device_fallback_cleans_quarantine_after_post_move_validation_failure \<longleftrightarrow>
     (let h = test_host (\<lambda>_. []); parent = [''root'', ''Payload'']; source = parent @ [''Signed.app''] in
      case snapshot_signed_app_inner h True names_of source [''root'', ''storage''] (app_disk source []) of
        (r, d) \<Rightarrow> (case r of Inl _ \<Rightarrow> True | Inr _ \<Rightarrow> False) \<and> dk_nodes d source = None
          \<and> dk_nodes d (quarantine_path names_of parent) = None
          \<and> dk_nodes d (quarantine_path names_of parent @ [''Signed.app'']) = None)"

lemma cross_device_fallback_cleans_quarantine_after_post_move_validation_failure_passes:
  cross_device_fallback_cleans_quarantine_after_post_move_validation_failure
  by (simp add: cross_device_fallback_cleans_quarantine_after_post_move_validation_failure_def snapshot_eval)

definition invalid_signed_metadata_removes_the_unowned_source_bundle :: bool where
  "invalid_signed_metadata_removes_the_unowned_source_bundle \<longleftrightarrow>
     (let h = test_host (\<lambda>_. []); source = [''root'', ''Signed.app''] in
      case snapshot_signed_app h names_of source [''root'', ''storage''] (app_disk source []) of
        (r, d) \<Rightarrow> (case r of Inl _ \<Rightarrow> True | Inr _ \<Rightarrow> False) \<and> dk_nodes d source = None
          \<and> dk_nodes d [''root''] = Some DirNode)"

lemma invalid_signed_metadata_removes_the_unowned_source_bundle_passes:
  invalid_signed_metadata_removes_the_unowned_source_bundle
  by (simp add: invalid_signed_metadata_removes_the_unowned_source_bundle_def snapshot_eval)

definition signed_snapshot_rejects_descendant_symlinks_before_metadata_read :: bool where
  "signed_snapshot_rejects_descendant_symlinks_before_metadata_read \<longleftrightarrow>
     (let h = test_host (\<lambda>p. [p @ [''Info.plist'']]); source = [''root'', ''Signed.app''] in
      case snapshot_signed_app h names_of source [''root'', ''storage''] (app_disk source [(''Info.plist'', LinkNode)]) of
        (r, d) \<Rightarrow> (case r of Inl _ \<Rightarrow> True | Inr _ \<Rightarrow> False) \<and> dk_nodes d source = None
          \<and> dk_nodes d [''root'', ''outside.plist''] = Some (FileNode 1))"

lemma signed_snapshot_rejects_descendant_symlinks_before_metadata_read_passes:
  signed_snapshot_rejects_descendant_symlinks_before_metadata_read
  by (simp add: signed_snapshot_rejects_descendant_symlinks_before_metadata_read_def snapshot_eval)

end
