(* ===== verification/TestsInstall.thy ===== *)
theory TestsInstall
  imports RsdPipeline
begin

text \<open>
  The unit tests of \<^verbatim>\<open>src/wireless_pairing.rs\<close> about an installation: identities, plans, staging, the
  command and its outcome, deadlines. A test is the conjunction of its assertions over the model, and
  the lemma after it says that the model passes it. Times are milliseconds, and a test that reads the
  clock starts at \<^term>\<open>1000000\<close>.
\<close>

definition test_start :: nat where "test_start = 1000000"

section \<open>Identity and services\<close>

definition rsd_identity_requires_matching_bounded_lockdown_values :: bool where
  "rsd_identity_requires_matching_bounded_lockdown_values \<longleftrightarrow>
     (let handshake = PString ''device-identity''; lockdown = PString ''device-identity''; name = PString ''Test iPhone'' in
      \<not> isl (validate_rsd_identity (Some handshake) (Some lockdown) (Some name))
    \<and> validate_rsd_identity None (Some lockdown) (Some name) = Inl HandshakeIdentity
    \<and> validate_rsd_identity (Some handshake) (Some (PUnsigned 1)) (Some name) = Inl LockdownIdentity
    \<and> validate_rsd_identity (Some handshake) (Some (PString ''other-device'')) (Some name) = Inl IdentityMismatch
    \<and> validate_rsd_identity (Some handshake) (Some lockdown) (Some (PString '''')) = Inl DeviceName)"

lemma rsd_identity_requires_matching_bounded_lockdown_values_passes:
  rsd_identity_requires_matching_bounded_lockdown_values
  by code_simp

definition read_only_service_lookup_requires_exact_nonzero_entries :: bool where
  "read_only_service_lookup_requires_exact_nonzero_entries \<longleftrightarrow>
     list_all (\<lambda>(service_name, near_match).
        exact_rsd_service_port [near_match \<mapsto> 62000] service_name = None
      \<and> exact_rsd_service_port [near_match \<mapsto> 62000, service_name \<mapsto> 0] service_name = None
      \<and> exact_rsd_service_port [near_match \<mapsto> 62000, service_name \<mapsto> 62001] service_name = Some 62001)
     [(AFC_SERVICE_NAME, ''com.apple.afc.shim.remote.unexpected''),
      (INSTALLATION_PROXY_SERVICE_NAME, ''com.apple.mobile.installation_proxy.shim.remote.unexpected'')]"

lemma read_only_service_lookup_requires_exact_nonzero_entries_passes:
  read_only_service_lookup_requires_exact_nonzero_entries
  by (simp add: read_only_service_lookup_requires_exact_nonzero_entries_def exact_rsd_service_port_def
      AFC_SERVICE_NAME_def INSTALLATION_PROXY_SERVICE_NAME_def)

definition rsd_readiness_requires_both_install_path_services :: bool where
  "rsd_readiness_requires_both_install_path_services \<longleftrightarrow>
     \<not> required_install_path_services_present Map.empty
   \<and> \<not> required_install_path_services_present [AFC_SERVICE_NAME \<mapsto> 62010]
   \<and> required_install_path_services_present [AFC_SERVICE_NAME \<mapsto> 62010, INSTALLATION_PROXY_SERVICE_NAME \<mapsto> 62011]
   \<and> \<not> required_install_path_services_present [AFC_SERVICE_NAME \<mapsto> 62010, INSTALLATION_PROXY_SERVICE_NAME \<mapsto> 0]"

lemma rsd_readiness_requires_both_install_path_services_passes: rsd_readiness_requires_both_install_path_services
  by (simp add: rsd_readiness_requires_both_install_path_services_def required_install_path_services_present_def
      exact_rsd_service_port_def AFC_SERVICE_NAME_def INSTALLATION_PROXY_SERVICE_NAME_def)

definition read_only_probe_stages_are_static_and_service_specific :: bool where
  "read_only_probe_stages_are_static_and_service_specific \<longleftrightarrow>
     map read_only_stage_str [RoDiscovery, RoValidatePairing, RoTunnel, RoRsdHandshake, RoServiceLookup,
       RoServiceConnect, RoClientInit, RoAfcQuery, RoAppLookup, RoCleanup]
     = [''discovery'', ''validatePairing'', ''tunnel'', ''rsdHandshake'', ''serviceLookup'',
        ''serviceConnect'', ''clientInit'', ''afcQuery'', ''appLookup'', ''cleanup'']"

lemma read_only_probe_stages_are_static_and_service_specific_passes:
  read_only_probe_stages_are_static_and_service_specific
  by (simp add: read_only_probe_stages_are_static_and_service_specific_def)

definition read_only_probe_preserves_existing_setup_stages :: bool where
  "read_only_probe_preserves_existing_setup_stages \<longleftrightarrow>
     list_all (\<lambda>(setup, read_only). read_only_of_probe setup = read_only)
       [(PrDiscovery, RoDiscovery), (PrValidatePairing, RoValidatePairing), (PrTunnel, RoTunnel),
        (PrRsdHandshake, RoRsdHandshake)]"

lemma read_only_probe_preserves_existing_setup_stages_passes: read_only_probe_preserves_existing_setup_stages
  by (simp add: read_only_probe_preserves_existing_setup_stages_def)

section \<open>Planning and staging\<close>

definition transfer_progress_is_bounded_monotonic_and_reserves_verification :: bool where
  "transfer_progress_is_bounded_monotonic_and_reserves_verification \<longleftrightarrow>
     upload_progress_percent 0 0 = 40
   \<and> upload_progress_percent 0 100 = 40
   \<and> upload_progress_percent 50 100 = 62
   \<and> upload_progress_percent 100 100 = 85
   \<and> upload_progress_percent (- 1) (- 1) = 85
   \<and> upload_progress_percent (- 1) 1 = 85
   \<and> (let values = map (\<lambda>v. upload_progress_percent (of_nat v) 100) [0..<101] in
      list_all (\<lambda>(a, b). a \<le> b) (zip values (tl values)))"

lemma percent_of_100:
  assumes "v \<le> 100"
  shows "unat (upload_progress_percent (of_nat v) 100) = 40 + v * 45 div 100"
proof -
  from assms have "unat (min (of_nat v) 100 :: u64) = v"
    by (auto simp: min_def word_le_nat_alt unat_of_nat)
  then have "upload_progress_percent (of_nat v) 100 = 40 + of_nat (v * 45 div 100)"
    by (simp add: upload_progress_percent_def)
  with assms show ?thesis by (simp add: unat_word_ariths take_bit_eq_mod unat_of_nat)
qed

lemma percent_windows:
  "list_all (\<lambda>(a, b). a \<le> b) (zip (map (\<lambda>v. upload_progress_percent (of_nat v) 100) [0..<101])
     (tl (map (\<lambda>v. upload_progress_percent (of_nat v) 100) [0..<101])))"
proof -
  have "upload_progress_percent (of_nat v) 100 \<le> upload_progress_percent (of_nat (Suc v)) 100" if "v < 100" for v
    using that percent_of_100 [of v] percent_of_100 [of "Suc v"] by (simp add: word_le_nat_alt del: of_nat_Suc)
  then show ?thesis by (auto simp: list_all_iff set_zip nth_tl simp del: upt_Suc of_nat_Suc)
qed

lemma transfer_progress_is_bounded_monotonic_and_reserves_verification_passes:
  transfer_progress_is_bounded_monotonic_and_reserves_verification
  unfolding transfer_progress_is_bounded_monotonic_and_reserves_verification_def Let_def
  by (intro conjI percent_windows) (simp_all add: upload_progress_percent_def unat_gt_0)

text \<open>The two identifiers of the test and how they are written.\<close>

definition test_task_uuid :: "uuid \<Rightarrow> string" where
  "test_task_uuid i = ''00000000-0000-0000-0000-00000000000'' @ (if i = 1 then ''1'' else ''2'')"

definition task_staging_path_is_fixed_unique_and_cleanup_scoped :: bool where
  "task_staging_path_is_fixed_unique_and_cleanup_scoped \<longleftrightarrow>
     (let first = new_staging test_task_uuid 1; second = new_staging test_task_uuid 2;
          parse = (\<lambda>s. if s = test_task_uuid 1 then Some 1 else if s = test_task_uuid 2 then Some 2 else None) in
      tg_root first = ''PublicStaging/iphoneloadly-spike-00000000-0000-0000-0000-000000000001''
    \<and> tg_app first = tg_root first @ ''/Signed.app''
    \<and> tg_root first \<noteq> tg_root second
    \<and> is_exact_task_root parse first (tg_root first)
    \<and> \<not> is_exact_task_root parse first ''PublicStaging''
    \<and> \<not> is_exact_task_root parse first ''PublicStaging/iphoneloadly-spike-../../escape'')"

lemma task_staging_path_is_fixed_unique_and_cleanup_scoped_passes:
  task_staging_path_is_fixed_unique_and_cleanup_scoped
  by (simp add: task_staging_path_is_fixed_unique_and_cleanup_scoped_def Let_def new_staging_def
      is_exact_task_root_def test_task_uuid_def STAGING_PREFIX_def strip_prefix_def starts_with_def)

definition upload_paths_and_resource_bounds_reject_unsafe_or_oversized_trees :: bool where
  "upload_paths_and_resource_bounds_reject_unsafe_or_oversized_trees \<longleftrightarrow>
     (let name = (\<lambda>s. \<lparr>dc_name = s, dc_unicode = True\<rparr>) in
      safe_remote_relative_path [name ''Frameworks'', name ''Library.dylib''] = Inr ''Frameworks/Library.dylib''
    \<and> safe_remote_relative_path [name ''..'', name ''escape''] = Inl UnsafePath
    \<and> \<not> isl (validate_upload_bounds FILE_LIMIT BYTE_LIMIT)
    \<and> validate_upload_bounds (FILE_LIMIT + 1) 0 = Inl TooManyEntries
    \<and> validate_upload_bounds 0 (BYTE_LIMIT + 1) = Inl TooManyBytes)"

lemma upload_paths_and_resource_bounds_reject_unsafe_or_oversized_trees_passes:
  upload_paths_and_resource_bounds_reject_unsafe_or_oversized_trees
  by (simp add: upload_paths_and_resource_bounds_reject_unsafe_or_oversized_trees_def Let_def
      safe_remote_relative_path_def unsafe_component_def validate_upload_bounds_def FILE_LIMIT_def BYTE_LIMIT_def)

text \<open>
  The directory \<^verbatim>\<open>Signed.app\<close> of a test with the files and links the test creates in it; a file is
  known by its inode.
\<close>

definition test_meta :: "node_kind \<Rightarrow> u64 \<Rightarrow> file_meta" where
  "test_meta k ino = \<lparr>fm_kind = k, fm_identity = unix_file_identity 1 ino 100 0\<rparr>"

definition signed_app_env :: "(string \<times> file_meta) list \<Rightarrow> plan_env" where
  "signed_app_env files = \<lparr>
     pl_meta = (\<lambda>p. if p = ''Signed.app'' then Some (test_meta KDir 1) else map_of files p),
     pl_chmod = (\<lambda>_. True),
     pl_canonical = (\<lambda>p. if p = ''Signed.app'' then Some [''Signed.app''] else Some [''Signed.app'', drop 11 p]),
     pl_children = (\<lambda>_. Some (map (\<lambda>(p, _). Some \<lparr>dc_name = drop 11 p, dc_unicode = True\<rparr>) files)),
     pl_open = (\<lambda>p. map_option (\<lambda>m. \<lparr>of_meta = Some m, of_reads = [Some ''original'', Some ''''], of_final = Some m\<rparr>)
        (map_of files p)),
     pl_sha256 = (\<lambda>s. ''#'' @ s), pl_late = (\<lambda>_. False)\<rparr>"

definition upload_plan_honors_expired_deadline :: bool where
  "upload_plan_honors_expired_deadline \<longleftrightarrow>
     plan_signed_bundle_until (signed_app_env []\<lparr>pl_late := (\<lambda>_. True)\<rparr>) ''Signed.app'' = Inl PfTimeout"

lemmas plan_eval = plan_signed_bundle_until_def plan_loop.simps enter_directory_def plan_child_def
  plan_entry_def plan_kind_def plan_file_def hash_planned_file_def is_regular_def ensure_plan_deadline_def
  ensure_canonical_descendant_def path_starts_with_def safe_remote_relative_path_def unsafe_component_def
  validate_upload_bounds_def FILE_LIMIT_def BYTE_LIMIT_def checked_add_u64_def joined_def ok_or_def
  signed_app_env_def test_meta_def

lemma upload_plan_honors_expired_deadline_passes: upload_plan_honors_expired_deadline
  by (simp add: upload_plan_honors_expired_deadline_def plan_eval)

definition upload_plan_rejects_a_replaced_file_before_follow_open :: bool where
  "upload_plan_rejects_a_replaced_file_before_follow_open \<longleftrightarrow>
     (let original = signed_app_env [(''Signed.app/Executable'', test_meta (KFile 8) 7)];
          replaced = signed_app_env [(''Signed.app/Original'', test_meta (KFile 8) 7),
            (''Signed.app/Executable'', test_meta (KFile 11) 8)] in
      case plan_signed_bundle_until original ''Signed.app'' of
        Inl _ \<Rightarrow> False
      | Inr plan \<Rightarrow> (case find (\<lambda>entry. ue_remote_path entry = ''Executable'') (up_entries plan) of
          None \<Rightarrow> False
        | Some entry \<Rightarrow> (case ue_kind entry of
            PlanDir _ \<Rightarrow> False
          | PlanFile sz identity _ \<Rightarrow>
              \<not> isl (open_verified_upload_file original (ue_local_path entry) (up_canonical_root plan) sz identity)
            \<and> open_verified_upload_file replaced (ue_local_path entry) (up_canonical_root plan) sz identity
                = Inl ''source_changed'')))"

lemma upload_plan_rejects_a_replaced_file_before_follow_open_passes:
  upload_plan_rejects_a_replaced_file_before_follow_open
  by (simp add: upload_plan_rejects_a_replaced_file_before_follow_open_def Let_def plan_eval open_verified_upload_file_def)

definition upload_plan_rejects_symlinks :: bool where
  "upload_plan_rejects_symlinks \<longleftrightarrow>
     (let target = (''Signed.app/Target'', test_meta (KFile 8) 7); link = (''Signed.app/Link'', test_meta KSymlink 8) in
      plan_signed_bundle_until (signed_app_env [target, link]) ''Signed.app'' = Inl SourceSymlink
    \<and> plan_signed_bundle_until (signed_app_env [link, target]) ''Signed.app'' = Inl SourceSymlink)"

lemma upload_plan_rejects_symlinks_passes: upload_plan_rejects_symlinks
  by (simp add: upload_plan_rejects_symlinks_def Let_def plan_eval)

text \<open>The client of a test: a header of 40 bytes, and the answer to every request.\<close>

definition test_afc :: "afc_answer \<Rightarrow> afc_env" where
  "test_afc answer = \<lparr>af_magic = 1, af_header_len = 40, af_wr = 3, af_answer = (\<lambda>_ _. answer)\<rparr>"

definition transfer_timeout_stops_an_unanswered_request_without_resubmitting :: bool where
  "transfer_timeout_stops_an_unanswered_request_without_resubmitting \<longleftrightarrow>
     (case path_request (test_afc AfcNoAnswer) GetFileInfo ''fixture'' new_afc of (result, client) \<Rightarrow>
        result = Inl ETimeout
      \<and> (case afc_close (test_afc AfcNoAnswer) 123 client of (closed, client') \<Rightarrow>
           closed = Inl ETimeout \<and> tc_packet_number client' = 1
         \<and> map pk_entire_len (tc_sent client') = [47] \<and> map pk_header_payload (tc_sent client') = [''fixture'']))"

definition transfer_timeout_still_accepts_a_response_before_deadline :: bool where
  "transfer_timeout_still_accepts_a_response_before_deadline \<longleftrightarrow>
     (case path_request (test_afc (AfcReply '''' '''')) GetFileInfo ''fixture'' new_afc of (result, client) \<Rightarrow>
        \<not> isl result \<and> tc_packet_number client = 1)"

definition transfer_afc_waits_for_one_response_without_resubmitting :: bool where
  "transfer_afc_waits_for_one_response_without_resubmitting \<longleftrightarrow>
     (case path_exists (test_afc (AfcReply '''' '''')) ''fixture'' new_afc of (result, client) \<Rightarrow>
        result = Inr True \<and> tc_packet_number client = 1
      \<and> map pk_entire_len (tc_sent client) = [47] \<and> map pk_header_payload (tc_sent client) = [''fixture''])"

lemma transfer_requests_pass:
  transfer_timeout_stops_an_unanswered_request_without_resubmitting
  transfer_timeout_still_accepts_a_response_before_deadline
  transfer_afc_waits_for_one_response_without_resubmitting
  by (simp_all add: transfer_timeout_stops_an_unanswered_request_without_resubmitting_def
      transfer_timeout_still_accepts_a_response_before_deadline_def
      transfer_afc_waits_for_one_response_without_resubmitting_def path_request_def path_exists_def afc_close_def
      afc_request_def afc_packet_of_def test_afc_def new_afc_def Let_def len_u64_def)

section \<open>The command and its outcome\<close>

definition spike_install_mutation_is_install_only_and_developer_typed :: bool where
  "spike_install_mutation_is_install_only_and_developer_typed \<longleftrightarrow>
     (case installation_proxy_install_mutation ''PublicStaging/iphoneloadly-spike-task/Signed.app'' of
        InstallMutation package_path options \<Rightarrow>
          package_path = ''PublicStaging/iphoneloadly-spike-task/Signed.app''
        \<and> (case options of PDict d \<Rightarrow> Option.bind (map_of d ''PackageType'') plist_string = Some ''Developer'' | _ \<Rightarrow> False))"

definition possible_install_acceptance_is_classified_without_retry :: bool where
  "possible_install_acceptance_is_classified_without_retry \<longleftrightarrow>
     outcome_after_install_failure PossiblyAccepted (Some True) = Installed
   \<and> outcome_after_install_failure PossiblyAccepted (Some False) = OutcomeUnknown
   \<and> outcome_after_install_failure PossiblyAccepted None = OutcomeUnknown
   \<and> outcome_after_install_failure Definitive (Some False) = NotInstalled
   \<and> rp_install_command_count (rsd_install_failure InInstall ''send_failed'' False None) = 0"

definition every_install_result_requires_exact_bundle_verification :: bool where
  "every_install_result_requires_exact_bundle_verification \<longleftrightarrow>
     outcome_after_install_result (Inr ()) (Some True) = Installed
   \<and> outcome_after_install_result (Inr ()) (Some False) = NotInstalled
   \<and> outcome_after_install_result (Inr ()) None = OutcomeUnknown
   \<and> outcome_after_install_result (Inl Definitive) (Some True) = Installed
   \<and> outcome_after_install_result (Inl PossiblyAccepted) (Some True) = Installed"

lemma install_outcomes_pass:
  spike_install_mutation_is_install_only_and_developer_typed
  possible_install_acceptance_is_classified_without_retry
  every_install_result_requires_exact_bundle_verification
  by (simp_all add: spike_install_mutation_is_install_only_and_developer_typed_def
      possible_install_acceptance_is_classified_without_retry_def installation_proxy_install_mutation_def
      every_install_result_requires_exact_bundle_verification_def outcome_after_install_result_def rsd_install_failure_def)

definition post_install_verification_deadline_is_bounded_by_timeout_and_reserve :: bool where
  "post_install_verification_deadline_is_bounded_by_timeout_and_reserve \<longleftrightarrow>
     (let start = test_start; delayed_start = start + 5000 in
      install_cleanup_reserve = 20000
    \<and> install_verification_deadline (start + 60000) start = start + RSD_INSTALL_VERIFICATION_TIMEOUT
    \<and> install_verification_deadline (start + 28000) start = start + 8000
    \<and> install_verification_deadline (start + 15000) start < start
    \<and> install_verification_deadline (start + 60000) delayed_start = delayed_start + RSD_INSTALL_VERIFICATION_TIMEOUT)"

definition transfer_timeout_budget_preserves_diagnostic_and_bounds_normal_installs :: bool where
  "transfer_timeout_budget_preserves_diagnostic_and_bounds_normal_installs \<longleftrightarrow>
     rsd_install_timeout Refuse = 900000 \<and> rsd_install_timeout Upgrade = 3600000
   \<and> list_all (\<lambda>policy. let start = test_start; until = start + rsd_install_timeout policy in
       until - install_work_deadline until start = install_cleanup_reserve) [Refuse, Upgrade]"

lemma deadlines_pass:
  post_install_verification_deadline_is_bounded_by_timeout_and_reserve
  transfer_timeout_budget_preserves_diagnostic_and_bounds_normal_installs
  by (simp_all add: post_install_verification_deadline_is_bounded_by_timeout_and_reserve_def Let_def
      transfer_timeout_budget_preserves_diagnostic_and_bounds_normal_installs_def install_verification_deadline_def
      install_work_deadline_def checked_sub_def install_cleanup_reserve_def RSD_INSTALL_CLEANUP_TIMEOUT_def
      RSD_INSTALL_SESSION_CLEANUP_TIMEOUT_def RSD_INSTALL_VERIFICATION_TIMEOUT_def RSD_INSTALL_TIMEOUT_def
      RSD_NORMAL_INSTALL_TIMEOUT_def test_start_def)

definition session_cleanup_failure_preserves_staging_cleanup_diagnostic :: bool where
  "session_cleanup_failure_preserves_staging_cleanup_diagnostic \<longleftrightarrow>
     (let report = record_session_cleanup \<lparr>rp_outcome = Installed, rp_stage = InCleanup, rp_cleanup = StFailed,
          rp_session_cleanup = ScNotNeeded, rp_install_command_count = 1, rp_error_kind = ''staging_cleanup'',
          rp_bundle_id = Some ''com.example.test'', rp_certificate_pressure = False,
          rp_signing_diagnostic = None\<rparr> ScFailed in
      rp_outcome report = Installed \<and> rp_cleanup report = StFailed \<and> rp_session_cleanup report = ScFailed
    \<and> rp_error_kind report = ''staging_cleanup'')"

definition multiple_session_cleanup_attempts_preserve_any_failure :: bool where
  "multiple_session_cleanup_attempts_preserve_any_failure \<longleftrightarrow>
     merge_session_cleanup ScSucceeded ScNotNeeded = ScSucceeded
   \<and> merge_session_cleanup ScSucceeded ScFailed = ScFailed
   \<and> merge_session_cleanup ScNotNeeded ScNotNeeded = ScNotNeeded"

lemma cleanups_pass:
  session_cleanup_failure_preserves_staging_cleanup_diagnostic
  multiple_session_cleanup_attempts_preserve_any_failure
  by (simp_all add: session_cleanup_failure_preserves_staging_cleanup_diagnostic_def record_session_cleanup_def
      multiple_session_cleanup_attempts_preserve_any_failure_def merge_session_cleanup_def)

end
