(* ===== verification/TestsPairing.thy ===== *)
theory TestsPairing
  imports PairingContract AppleTvContract Diagnostics
begin

text \<open>
  The unit tests of \<^verbatim>\<open>src/wireless_pairing.rs\<close> about pairing, sessions and diagnostics, and those of
  \<^verbatim>\<open>src/apple_tv.rs\<close>. A test is the conjunction of its assertions over the model, and the lemma after it
  says that the model passes it. The libraries of a test are concrete: a pairing file is its own text
  and the cipher shifts every byte.
\<close>

section \<open>The store\<close>

text \<open>Texts one after the other, each behind its length in unary.\<close>

definition test_pair :: "string \<Rightarrow> string \<Rightarrow> string" where
  "test_pair a b = replicate (length a) CHR ''1'' @ CHR ''0'' # a @ b"

definition test_unpair :: "string \<Rightarrow> string \<times> string" where
  "test_unpair s = (let n = length (takeWhile (\<lambda>c. c = CHR ''1'') s); r = drop (Suc n) s in (take n r, drop n r))"

definition test_shift :: "string \<Rightarrow> string" where
  "test_shift = map (\<lambda>c. char_of ((byte_of c + 128) mod 256))"

definition test_encode :: "state_payload \<Rightarrow> string" where
  "test_encode p = test_pair (sp_host_alt_irk p) (test_pair (sp_pairing_file p)
     (case sp_peer p of None \<Rightarrow> '''' | Some peer \<Rightarrow> CHR ''p'' # peer))"

definition test_decode :: "string \<Rightarrow> state_payload" where
  "test_decode t = (case test_unpair t of (irk, t1) \<Rightarrow> (case test_unpair t1 of (file, t2) \<Rightarrow>
     \<lparr>sp_host_alt_irk = irk, sp_pairing_file = file, sp_peer = (case t2 of [] \<Rightarrow> None | _ # peer \<Rightarrow> Some peer)\<rparr>))"

definition test_crypto :: crypto_lib where
  "test_crypto = \<lparr>cl_encrypt = (\<lambda>k n m. Some (test_shift m)), cl_decrypt = (\<lambda>k n c. Some (test_shift c)),
     cl_pair = test_pair, cl_unpair = (\<lambda>s. if CHR ''0'' \<in> set s then Some (test_unpair s) else None),
     cl_b64 = (\<lambda>b. b), cl_unb64 = Some\<rparr>"

definition test_lib :: "string pairing_lib" where
  "test_lib = \<lparr>pl_crypto = test_crypto, pl_identifier = (\<lambda>f. ''id''), pl_with_identifier = (\<lambda>_ f. f),
     pl_alt_irk = (\<lambda>_. None), pl_to_bytes = (\<lambda>f. f), pl_from_bytes = Some,
     pl_encode = (\<lambda>p. Some (test_encode p)), pl_decode = (\<lambda>t. Some (test_decode t)),
     pl_fingerprint = (\<lambda>s. ''fp:'' @ s)\<rparr>"

lemma test_lib_simps [simp]:
  "pl_crypto test_lib = test_crypto" "pl_identifier test_lib f = ''id''" "pl_with_identifier test_lib i f = f"
  "pl_to_bytes test_lib f = f" "pl_from_bytes test_lib t = Some t" "pl_encode test_lib p = Some (test_encode p)"
  "pl_decode test_lib t = Some (test_decode t)" "pl_fingerprint test_lib t = ''fp:'' @ t"
  "cl_encrypt test_crypto k n t = Some (test_shift t)" "cl_decrypt test_crypto k n t = Some (test_shift t)"
  "cl_pair test_crypto = test_pair" "cl_b64 test_crypto t = t" "cl_unb64 test_crypto t = Some t"
  "cl_unpair test_crypto t = (if CHR ''0'' \<in> set t then Some (test_unpair t) else None)"
  by (simp_all add: test_lib_def test_crypto_def)

lemma test_unpair_pair [simp]: "test_unpair (test_pair a b) = (a, b)" "CHR ''0'' \<in> set (test_pair a b)"
  by (simp_all add: test_unpair_def test_pair_def Let_def takeWhile_replicate)

lemma test_shift_back [simp]: "test_shift (test_shift t) = t"
proof -
  have "(byte_of c + 128 + 128) mod 256 = byte_of c" for c :: char by (simp add: byte_of_def)
  then have "char_of ((byte_of (char_of ((byte_of c + 128) mod 256)) + 128) mod 256) = c" for c :: char
    by (simp add: byte_of_def mod_simps)
  then show ?thesis by (simp add: test_shift_def comp_def map_idI)
qed

lemma test_decode_encode [simp]: "test_decode (test_encode p) = p"
  by (cases p) (simp add: test_decode_def test_encode_def split: option.split)

abbreviation no_fault :: io_faults where "no_fault \<equiv> \<lambda>_. False"

definition test_load :: "fs \<Rightarrow> (pairing_error + string material) \<times> fs" where
  "test_load = load_or_create test_lib no_fault ''d'' demo_random"

definition test_save :: "string material \<Rightarrow> fs \<Rightarrow> (pairing_error + unit) \<times> fs" where
  "test_save = save_material test_lib no_fault ''d'' demo_random"

definition fresh_pairing_material_is_not_persisted_until_saved :: bool where
  "fresh_pairing_material_is_not_persisted_until_saved \<longleftrightarrow>
     (case test_load Map.empty of
        (Inl _, _) \<Rightarrow> False
      | (Inr m, fs) \<Rightarrow>
          \<not> is_file fs (state_file ''d'') \<and> \<not> is_file fs (key_file ''d'')
        \<and> (case test_save m fs of
             (Inl _, _) \<Rightarrow> False
           | (Inr _, fs') \<Rightarrow> is_file fs' (state_file ''d'') \<and> is_file fs' (key_file ''d'')))"

text \<open>The keys of the pairing file are in its text, which comes back and is not in the state file.\<close>

definition persistence_round_trip_preserves_verification_inputs_without_plaintext_secrets :: bool where
  "persistence_round_trip_preserves_verification_inputs_without_plaintext_secrets \<longleftrightarrow>
     (case test_load Map.empty of
        (Inl _, _) \<Rightarrow> False
      | (Inr m, fs) \<Rightarrow>
          (case test_save m fs of
             (Inl _, _) \<Rightarrow> False
           | (Inr _, fs1) \<Rightarrow>
               (case (test_load fs1, fs1 (state_file ''d'')) of
                  ((Inr reloaded, _), Some bytes) \<Rightarrow>
                    pm_file reloaded = pm_file m
                  \<and> hi_alt_irk (pm_host reloaded) = hi_alt_irk (pm_host m)
                  \<and> list_all (\<lambda>i. take (length (pm_file m)) (drop i bytes) \<noteq> pm_file m) [0..<length bytes]
                | _ \<Rightarrow> False)))"

definition corrupted_state_fails_closed :: bool where
  "corrupted_state_fails_closed \<longleftrightarrow>
     (case test_load Map.empty of
        (Inl _, _) \<Rightarrow> False
      | (Inr m, fs) \<Rightarrow>
          (case test_save m fs of
             (Inl _, _) \<Rightarrow> False
           | (Inr _, fs1) \<Rightarrow>
               fst (test_load (fs1(state_file ''d'' := Some ''not pairing state''))) = Inl PairCorruptedState))"

text \<open>The key, the material of a first start and the content of a state file.\<close>

definition test_key :: string where "test_key = rn_key demo_random"

definition test_material :: "string material" where "test_material = fresh_material test_lib demo_random"

definition test_state :: "string material \<Rightarrow> string" where
  "test_state m = test_pair (rn_nonce demo_random) (test_shift (test_encode \<lparr>sp_host_alt_irk = hi_alt_irk (pm_host m),
     sp_pairing_file = pm_file m, sp_peer = pm_peer m\<rparr>))"

lemma test_values [simp]:
  "length test_key = 32" "length (rn_nonce demo_random) = 12" "length (hi_alt_irk (pm_host test_material)) = 16"
  "rn_key demo_random = test_key" "pm_file test_material = ''f''" "hi_identifier (pm_host test_material) = ''id''"
  by (simp_all add: test_key_def test_material_def demo_random_def fresh_material_def Let_def)

lemma load_fresh [simp]: "fs (state_file ''d'') = None \<Longrightarrow> test_load fs = (Inr test_material, fs)"
  by (simp add: test_load_def load_or_create_def ensure_state_dir_def is_file_def test_material_def)

lemma save_test:
  assumes "fs (key_file ''d'') \<in> {None, Some test_key}"
  shows "\<exists>fs'. test_save m fs = (Inr (), fs') \<and> fs' (state_file ''d'') = Some (test_state m) \<and> fs' (key_file ''d'') = Some test_key"
  using assms by (auto simp: test_save_def save_material_def ensure_state_dir_def load_or_create_key_def read_file_def
      ok_or_def save_with_key_def Let_def fs_rename_def test_state_def)

lemma load_encrypted_test:
  assumes "fs (state_file ''d'') = Some (test_state m)" "length (hi_alt_irk (pm_host m)) = 16"
  shows "load_encrypted test_lib no_fault ''d'' key host fs = Inr (m\<lparr>pm_host := host\<lparr>hi_identifier := ''id'',
    hi_alt_irk := hi_alt_irk (pm_host m)\<rparr>\<rparr>)"
  using assms by (cases m) (simp add: load_encrypted_def read_file_def ok_or_def Let_def test_state_def)

lemma load_saved:
  assumes "fs (state_file ''d'') = Some (test_state m)" "fs (key_file ''d'') = Some test_key"
    "length (hi_alt_irk (pm_host m)) = 16"
  shows "\<exists>m'. test_load fs = (Inr m', fs) \<and> load_existing test_lib no_fault ''d'' host fs = Inr (m'\<lparr>pm_host := host\<lparr>hi_identifier := ''id'',
      hi_alt_irk := hi_alt_irk (pm_host m)\<rparr>\<rparr>) \<and> pm_file m' = pm_file m \<and> pm_peer m' = pm_peer m
    \<and> hi_alt_irk (pm_host m') = hi_alt_irk (pm_host m)"
  using assms load_encrypted_test [of fs m]
  by (simp add: test_load_def load_or_create_def load_existing_def ensure_state_dir_def is_file_def
      load_or_create_key_def read_file_def ok_or_def)

lemma fresh_pairing_material_is_not_persisted_until_saved_passes:
  fresh_pairing_material_is_not_persisted_until_saved
  using save_test [of Map.empty test_material]
  by (auto simp: fresh_pairing_material_is_not_persisted_until_saved_def is_file_def)

lemma load_corrupted:
  assumes "fs (state_file ''d'') = Some ''not pairing state''" "fs (key_file ''d'') = Some test_key"
  shows "test_load fs = (Inl PairCorruptedState, fs)"
  using assms by (simp add: test_load_def load_or_create_def ensure_state_dir_def is_file_def
      load_or_create_key_def read_file_def ok_or_def load_encrypted_def Let_def)

lemma corrupted_state_fails_closed_passes: corrupted_state_fails_closed
  using save_test [of Map.empty test_material] by (auto simp: corrupted_state_fails_closed_def load_corrupted)

lemma test_shift_not_ascii:
  assumes "byte_of c < 128"
  shows "c \<notin> set (test_shift t) \<or> (\<exists>d \<in> set t. 128 \<le> byte_of d)"
proof (rule ccontr)
  assume "\<not> ?thesis"
  then obtain d where d: "c = char_of ((byte_of d + 128) mod 256)" "byte_of d < 128"
    by (auto simp: test_shift_def not_le)
  then have "byte_of c = byte_of d + 128" by (simp add: byte_of_def)
  with assms show False by simp
qed

lemma no_plaintext: "CHR ''f'' \<notin> set (test_state test_material)"
proof -
  let ?p = "test_encode \<lparr>sp_host_alt_irk = hi_alt_irk (pm_host test_material),
     sp_pairing_file = pm_file test_material, sp_peer = pm_peer test_material\<rparr>"
  have "\<forall>d \<in> set ?p. byte_of d < 128"
    by (auto simp: test_encode_def test_pair_def test_material_def fresh_material_def demo_random_def Let_def byte_of_def
        split: if_splits)
  then have "CHR ''f'' \<notin> set (test_shift ?p)"
    using test_shift_not_ascii [of "CHR ''f''" ?p] by (auto simp: byte_of_def not_le [symmetric])
  then show ?thesis by (auto simp: test_state_def test_pair_def demo_random_def)
qed

lemma persistence_round_trip_preserves_verification_inputs_without_plaintext_secrets_passes:
  persistence_round_trip_preserves_verification_inputs_without_plaintext_secrets
proof -
  obtain fs1 where fs1: "test_save test_material Map.empty = (Inr (), fs1)"
    "fs1 (state_file ''d'') = Some (test_state test_material)" "fs1 (key_file ''d'') = Some test_key"
    using save_test [of Map.empty test_material] by auto
  from load_saved [OF fs1(2,3)] obtain m' where "test_load fs1 = (Inr m', fs1)" "pm_file m' = ''f''"
    "hi_alt_irk (pm_host m') = hi_alt_irk (pm_host test_material)" by auto
  moreover have "take 1 (drop i (test_state test_material)) \<noteq> ''f''" for i
    using no_plaintext by (metis in_set_dropD in_set_takeD list.set_intros(1))
  ultimately show ?thesis
    by (simp add: persistence_round_trip_preserves_verification_inputs_without_plaintext_secrets_def fs1 list_all_iff)
qed

section \<open>The configuration\<close>

definition missing_or_unknown_mode_is_off :: bool where
  "missing_or_unknown_mode_is_off \<longleftrightarrow>
     parse_mode None = PairingOff \<and> parse_mode (Some ''unknown'') = PairingOff
   \<and> parse_mode (Some ''experimental'') = PairingExperimental \<and> parse_mode (Some ''on'') = PairingOn"

definition invalid_ports_are_rejected_without_binding :: bool where
  "invalid_ports_are_rejected_without_binding \<longleftrightarrow> \<not> validate_pairing_port 80"

definition session_expiry_uses_controlled_time :: bool where
  "session_expiry_uses_controlled_time \<longleftrightarrow>
     (let now = 1000; status = \<lparr>ps_id = 7, ps_phase = AwaitingDevice, ps_expires_at = 1300, ps_message = '''',
        ps_setup_code = None\<rparr> in
      \<not> session_expired status (now + 299) \<and> session_expired status (now + 300))"

definition terminal_phases_are_not_resumable :: bool where
  "terminal_phases_are_not_resumable \<longleftrightarrow>
     list_all is_terminal [PairReady, PairFailed, PairCancelled, PairExpired]
   \<and> \<not> is_terminal AwaitingDevice \<and> \<not> is_terminal VerifyingTransport"

lemma configuration_tests_pass:
  missing_or_unknown_mode_is_off invalid_ports_are_rejected_without_binding
  session_expiry_uses_controlled_time terminal_phases_are_not_resumable
  by code_simp+

section \<open>Sessions and their commitment\<close>

definition only_one_session_can_be_active :: bool where
  "only_one_session_can_be_active \<longleftrightarrow>
     (let service = (new_service PairingExperimental Map.empty)\<lparr>pv_session := Some \<lparr>ps_id = 7, ps_phase = AwaitingDevice,
            ps_expires_at = 100 + SESSION_LIFETIME, ps_message = '''', ps_setup_code = None\<rparr>\<rparr> in
      fst (start_wireless (demo_pairing_env 8) (\<lambda>v. v) service) = Inl PairBusy)"

lemma only_one_session_can_be_active_passes: only_one_session_can_be_active
  by (simp add: only_one_session_can_be_active_def start_wireless_def start_spawn_def new_service_def mode_enabled_def
      expire_or_busy_def is_terminal_def session_expired_def SESSION_LIFETIME_def demo_pairing_env_def)

text \<open>A service over the given files whose session waits for the code, at the time 100.\<close>

definition test_service_with_session :: "fs \<Rightarrow> string pairing_service" where
  "test_service_with_session fs = (new_service PairingExperimental fs)\<lparr>pv_advertised := [7],
     pv_session := Some \<lparr>ps_id = 7, ps_phase = AwaitingCodeEntry, ps_expires_at = 100 + SESSION_LIFETIME,
       ps_message = '''', ps_setup_code = Some ''123456''\<rparr>\<rparr>"

definition test_env :: "string pairing_env" where
  "test_env = (demo_pairing_env 7)\<lparr>pe_lib := test_lib\<rparr>"

text \<open>
  \<^verbatim>\<open>finalize_new_pairing\<close> for the peer of the tests, with the material loaded from the files, a
  deadline and the outcome of the commitment; and the phase of the session afterwards.
\<close>

definition test_finalize :: "nat \<Rightarrow> bool \<Rightarrow> fs \<Rightarrow> (string material \<times> string pairing_service) option" where
  "test_finalize deadline committed fs =
     (case test_load fs of
        (Inl _, _) \<Rightarrow> None
      | (Inr m, fs') \<Rightarrow> Some (m, finalize_new_pairing test_env
          \<lparr>pt_id = 7, pt_stage = TaskCommitting, pt_expires_at = deadline, pt_material = m, pt_peer = ''test-peer'',
           pt_aborted = False\<rparr> committed 100 (test_service_with_session fs')))"

definition phase_of :: "string pairing_service \<Rightarrow> pairing_error + pairing_phase" where
  "phase_of v = map_sum id ps_phase (fst (pairing_status 7 100 v))"

definition pairing_does_not_enter_verifying_before_commitment :: bool where
  "pairing_does_not_enter_verifying_before_commitment \<longleftrightarrow>
     phase_of (test_service_with_session Map.empty) = Inr AwaitingCodeEntry
   \<and> map_option (phase_of \<circ> snd) (test_finalize 105 True Map.empty) = Some (Inr VerifyingTransport)"

definition successful_commitment_persists_final_pairing_state :: bool where
  "successful_commitment_persists_final_pairing_state \<longleftrightarrow>
     (case test_finalize 105 True Map.empty of
        None \<Rightarrow> False
      | Some (m, v) \<Rightarrow>
          map_sum id pm_peer (load_existing test_lib no_fault ''d'' (rn_host demo_random) (pv_fs v))
            = Inr (Some (pl_fingerprint test_lib ''test-peer''))
        \<and> phase_of v = Inr VerifyingTransport)"

definition expired_commitment_does_not_persist_final_pairing_state :: bool where
  "expired_commitment_does_not_persist_final_pairing_state \<longleftrightarrow>
     (case test_finalize 99 True Map.empty of
        None \<Rightarrow> False
      | Some (m, v) \<Rightarrow> phase_of v = Inr PairFailed \<and> \<not> is_file (pv_fs v) (state_file ''d''))"

definition commitment_failure_prevents_verifying_transport_or_ready :: bool where
  "commitment_failure_prevents_verifying_transport_or_ready \<longleftrightarrow>
     (case test_finalize 105 False Map.empty of
        None \<Rightarrow> False
      | Some (m, v) \<Rightarrow> phase_of v = Inr PairFailed \<and> phase_of v \<noteq> Inr VerifyingTransport
        \<and> phase_of v \<noteq> Inr PairReady \<and> \<not> is_file (pv_fs v) (state_file ''d''))"

definition commitment_failure_preserves_previous_valid_state :: bool where
  "commitment_failure_preserves_previous_valid_state \<longleftrightarrow>
     (case test_load Map.empty of
        (Inl _, _) \<Rightarrow> False
      | (Inr previous, fs) \<Rightarrow>
          (case test_save previous fs of
             (Inl _, _) \<Rightarrow> False
           | (Inr _, fs1) \<Rightarrow>
               (case test_finalize 105 False fs1 of
                  None \<Rightarrow> False
                | Some (m, v) \<Rightarrow> pv_fs v (state_file ''d'') = fs1 (state_file ''d'') \<and> phase_of v = Inr PairFailed)))"

definition post_pair_commit_reuses_new_pairing_file :: bool where
  "post_pair_commit_reuses_new_pairing_file \<longleftrightarrow>
     (case test_finalize 105 True Map.empty of
        None \<Rightarrow> False
      | Some (m, v) \<Rightarrow>
          map_sum id pm_file (load_existing test_lib no_fault ''d'' (rn_host demo_random) (pv_fs v)) = Inr (pm_file m))"

lemma finalize_expired:
  assumes "fs (state_file ''d'') = None" "deadline \<le> 100"
  shows "\<exists>v. test_finalize deadline True fs = Some (test_material, v) \<and> phase_of v = Inr PairFailed \<and> pv_fs v = fs"
  using assms
  by (simp add: test_finalize_def finalize_new_pairing_def session_named_def test_service_with_session_def
      take_resources_def new_service_def is_terminal_def phase_of_def pairing_status_def ok_or_def)

lemma finalize_failed:
  assumes "test_load fs = (Inr m, fs)"
  shows "\<exists>v. test_finalize deadline False fs = Some (m, v) \<and> phase_of v = Inr PairFailed \<and> pv_fs v = fs"
  using assms
  by (simp add: test_finalize_def finalize_new_pairing_def finish_if_active_def session_named_def
      test_service_with_session_def take_resources_def new_service_def is_terminal_def phase_of_def
      pairing_status_def ok_or_def)

lemma finalize_committed:
  "\<exists>v. test_finalize 105 True Map.empty = Some (test_material, v) \<and> phase_of v = Inr VerifyingTransport
     \<and> (\<exists>m'. load_existing test_lib no_fault ''d'' (rn_host demo_random) (pv_fs v) = Inr m'
          \<and> pm_file m' = pm_file test_material \<and> pm_peer m' = Some ''fp:test-peer'')"
proof -
  let ?m = "test_material\<lparr>pm_peer := Some ''fp:test-peer''\<rparr>"
  obtain fs1 where fs1: "test_save ?m Map.empty = (Inr (), fs1)"
    "fs1 (state_file ''d'') = Some (test_state ?m)" "fs1 (key_file ''d'') = Some test_key"
    using save_test [of Map.empty ?m] by auto
  from load_saved [OF fs1(2,3), of "rn_host demo_random"] obtain m' where
    m': "load_existing test_lib no_fault ''d'' (rn_host demo_random) fs1 = Inr m'"
    "pm_file m' = pm_file test_material" "pm_peer m' = Some ''fp:test-peer''" by auto
  have e: "pe_lib test_env = test_lib" "pe_fault test_env = no_fault" "pe_dir test_env = ''d''"
    "pe_random test_env = demo_random" by (simp_all add: test_env_def demo_pairing_env_def)
  show ?thesis
    using fs1(1) m' by (simp add: test_finalize_def finalize_new_pairing_def session_named_def test_save_def e
      test_service_with_session_def take_resources_def new_service_def is_terminal_def phase_of_def
      pairing_status_def ok_or_def session_expired_def SESSION_LIFETIME_def)
qed

lemma commitment_tests_pass:
  pairing_does_not_enter_verifying_before_commitment
  successful_commitment_persists_final_pairing_state
  expired_commitment_does_not_persist_final_pairing_state
  commitment_failure_prevents_verifying_transport_or_ready
  post_pair_commit_reuses_new_pairing_file
proof -
  have waiting: "phase_of (test_service_with_session Map.empty) = Inr AwaitingCodeEntry"
    by (simp add: phase_of_def test_service_with_session_def pairing_status_def session_named_def new_service_def
        session_expired_def SESSION_LIFETIME_def ok_or_def)
  show pairing_does_not_enter_verifying_before_commitment
    using finalize_committed waiting by (auto simp: pairing_does_not_enter_verifying_before_commitment_def)
  show successful_commitment_persists_final_pairing_state post_pair_commit_reuses_new_pairing_file
    using finalize_committed
    by (auto simp: successful_commitment_persists_final_pairing_state_def post_pair_commit_reuses_new_pairing_file_def)
  show expired_commitment_does_not_persist_final_pairing_state
    using finalize_expired [of Map.empty 99]
    by (auto simp: expired_commitment_does_not_persist_final_pairing_state_def is_file_def)
  show commitment_failure_prevents_verifying_transport_or_ready
    using finalize_failed [OF load_fresh, of Map.empty 105]
    by (auto simp: commitment_failure_prevents_verifying_transport_or_ready_def is_file_def)
qed

text \<open>Whatever stage the commitment failed at, it failed; the stage is logged only.\<close>

definition every_commitment_stage_failure_blocks_persistence_and_transport :: bool where
  "every_commitment_stage_failure_blocks_persistence_and_transport \<longleftrightarrow>
     list_all (\<lambda>stage.
       let outcome = Inl \<lparr>cf_stage = stage, cf_kind = ''test_failure''\<rparr> :: commit_failure + unit in
       case test_finalize 105 (\<not> isl outcome) Map.empty of
         None \<Rightarrow> False
       | Some (m, v) \<Rightarrow> phase_of v = Inr PairFailed \<and> phase_of v \<noteq> Inr VerifyingTransport \<and> phase_of v \<noteq> Inr PairReady
         \<and> \<not> is_file (pv_fs v) (state_file ''d'') \<and> \<not> is_file (pv_fs v) (key_file ''d''))
     [POST_PAIR_BOOTSTRAP_STAGE, POST_PAIR_TUNNEL_STAGE, POST_PAIR_RSD_STAGE, POST_PAIR_TUNNEL_SERVICE_STAGE,
      POST_PAIR_COMMIT_STAGE]"

lemma every_commitment_stage_failure_blocks_persistence_and_transport_passes:
  every_commitment_stage_failure_blocks_persistence_and_transport
  using finalize_failed [OF load_fresh, of Map.empty 105]
  by (auto simp: every_commitment_stage_failure_blocks_persistence_and_transport_def is_file_def)

lemma commitment_failure_preserves_previous_valid_state_passes: commitment_failure_preserves_previous_valid_state
proof -
  obtain fs1 where fs1: "test_save test_material Map.empty = (Inr (), fs1)"
    "fs1 (state_file ''d'') = Some (test_state test_material)" "fs1 (key_file ''d'') = Some test_key"
    using save_test [of Map.empty test_material] by auto
  from load_saved [OF fs1(2,3)] obtain m' where "test_load fs1 = (Inr m', fs1)" by auto
  from finalize_failed [OF this, of 105] show ?thesis
    by (auto simp: commitment_failure_preserves_previous_valid_state_def fs1)
qed

section \<open>Sessions over a stored pairing\<close>

text \<open>A device whose connection and the two steps of the verification answer as given.\<close>

definition test_device :: "(net_error, unit) call \<Rightarrow> (idevice_error, unit) call \<Rightarrow> (idevice_error, unit) call \<Rightarrow> remote_device" where
  "test_device connect attempt validate = \<lparr>rd_connect = (\<lambda>_ _ _. connect), rd_attempt = (\<lambda>_ _ _. attempt),
     rd_validate = (\<lambda>_ _ _. validate), rd_listener = (\<lambda>_ _. Call 0 (Inl IdTimeout)),
     rd_tunnel = (\<lambda>_ _. Call 0 (Inl IdTimeout)), rd_rsd_connect = (\<lambda>_ _ _. Call 0 (Inl OtherIoKind)),
     rd_handshake = (\<lambda>_ _. Call 0 (Inl IdTimeout)), rd_xpc_new = (\<lambda>_ _. Call 0 (Inl IdTimeout)),
     rd_xpc_handshake = (\<lambda>_ _. Call 0 (Inl IdTimeout)), rd_xpc_root = (\<lambda>_ _. Call 0 (Inl IdTimeout)),
     rd_parse_ip = (\<lambda>_. None)\<rparr>"

text \<open>The stage \<^verbatim>\<open>connect_and_validate_remote_pairing\<close> fails at over a loopback endpoint.\<close>

definition validate_stage :: "remote_device \<Rightarrow> rsd_probe_stage option" where
  "validate_stage rd = (case connect_and_validate rd [\<lparr>ep_addresses = [V4 0x7F000001], ep_port = 0\<rparr>] 0 of
     (Inl failure, _) \<Rightarrow> Some (pf_stage failure) | (Inr _, _) \<Rightarrow> None)"

definition tcp_failure_does_not_reach_validate_pairing :: bool where
  "tcp_failure_does_not_reach_validate_pairing \<longleftrightarrow>
     validate_stage (test_device (Call 0 (Inl ConnectionRefused)) (Call 0 (Inr ())) (Call 0 (Inr ()))) = Some PrValidatePairing"

lemma tcp_failure_does_not_reach_validate_pairing_passes: tcp_failure_does_not_reach_validate_pairing
  by (simp add: tcp_failure_does_not_reach_validate_pairing_def validate_stage_def connect_and_validate_def
      endpoint_candidates_def test_device_def probe_failure_def)

text \<open>
  The address that is found to be the paired device, with the limit a test sets. A device that rejects
  or does not answer the first step would pass the second one. The pairing file is not an argument, so
  nothing regenerates its keys.
\<close>

definition validated_within :: "nat \<Rightarrow> remote_device \<Rightarrow> ip_address option" where
  "validated_within limit rd = fst (validate_candidates rd limit (endpoint_candidates
     [\<lparr>ep_addresses = [V4 0x7F000001], ep_port = 50000\<rparr>]) 0)"

definition attempt_rejection_prevents_validation_and_key_regeneration :: bool where
  "attempt_rejection_prevents_validation_and_key_regeneration \<longleftrightarrow>
     (let rd = test_device (Call 0 (Inr ())) (Call 0 (Inl (IdUnexpectedResponse ''sentinel''))) (Call 0 (Inr ())) in
      validated_within 1000 rd = None \<and> validate_stage rd = Some PrValidatePairing)"

definition validation_rejection_does_not_fallback_to_pairing_or_tunneling :: bool where
  "validation_rejection_does_not_fallback_to_pairing_or_tunneling \<longleftrightarrow>
     (let rd = test_device (Call 0 (Inr ())) (Call 0 (Inr ())) (Call 0 (Inl (IdUnexpectedResponse ''sentinel''))) in
      validated_within 1000 rd = None \<and> validate_stage rd = Some PrValidatePairing)"

definition attempt_timeout_prevents_validation_and_key_regeneration :: bool where
  "attempt_timeout_prevents_validation_and_key_regeneration \<longleftrightarrow>
     (let rd = test_device (Call 0 (Inr ())) (Call 200000 (Inr ())) (Call 0 (Inr ())) in
      validated_within 50 rd = None \<and> validate_stage rd = Some PrValidatePairing)"

text \<open>Over a device that answers both steps a new pairing and a stored one are verified by the same function.\<close>

definition fresh_and_reloaded_pairing_use_identical_established_sequence :: bool where
  "fresh_and_reloaded_pairing_use_identical_established_sequence \<longleftrightarrow>
     (let rd = test_device (Call 0 (Inr ())) (Call 0 (Inr ())) (Call 0 (Inr ())) in
      fst (verify_established_pairing rd (V4 0x7F000001) False (Deadline 1000) 0) = Inr ()
    \<and> validated_within 1000 rd = Some (V4 0x7F000001))"

lemma established_verification_tests_pass:
  attempt_rejection_prevents_validation_and_key_regeneration
  validation_rejection_does_not_fallback_to_pairing_or_tunneling
  attempt_timeout_prevents_validation_and_key_regeneration
  fresh_and_reloaded_pairing_use_identical_established_sequence
  by (simp_all add: attempt_rejection_prevents_validation_and_key_regeneration_def Let_def
      validation_rejection_does_not_fallback_to_pairing_or_tunneling_def validated_within_def validate_stage_def
      attempt_timeout_prevents_validation_and_key_regeneration_def connect_and_validate_def endpoint_candidates_def
      fresh_and_reloaded_pairing_use_identical_established_sequence_def verify_established_pairing_def
      verification_step_def remaining_def REMOTE_CONNECT_TIMEOUT_def test_device_def probe_failure_def)

text \<open>What a session is opened with where no pairing was ever stored.\<close>

definition test_open_env :: "string open_env" where
  "test_open_env = \<lparr>oe_lib = test_lib, oe_fault = no_fault, oe_dir = ''d'', oe_host = rn_host demo_random,
     oe_discovery = \<lparr>de_valid = (\<lambda>_ _ _. True), de_show_ip = (\<lambda>_. ''ip''), de_browses = True, de_events = []\<rparr>,
     oe_device = test_device (Call 0 (Inr ())) (Call 0 (Inr ())) (Call 0 (Inr ())),
     oe_adapter = \<lparr>ra_close = (\<lambda>_. Call 0 (Inr ())), ra_connect_closed = (\<lambda>_. Call 0 (Inl NetBrokenPipe))\<rparr>\<rparr>"

definition rsd_probe_does_not_create_wireless_state :: bool where
  "rsd_probe_does_not_create_wireless_state \<longleftrightarrow>
     (case probe_remote_pairing_rsd test_open_env Map.empty 0 of Inl failure \<Rightarrow> pf_stage failure = PrDiscovery | Inr _ \<Rightarrow> False)"

lemma open_without_pairing:
  "open_session test_open_env Map.empty now = (Inl (probe_failure PrDiscovery), now, [(now, RoDiscovery)])"
  by (simp add: test_open_env_def open_session_def usable_material_def load_existing_def is_file_def Let_def)

lemma rsd_probe_does_not_create_wireless_state_passes: rsd_probe_does_not_create_wireless_state
  by (simp add: rsd_probe_does_not_create_wireless_state_def probe_remote_pairing_rsd_def open_without_pairing probe_failure_def)

definition valid_auth_tag_accepts_discovery_and_invalid_tag_is_rejected :: bool where
  "valid_auth_tag_accepts_discovery_and_invalid_tag_is_rejected \<longleftrightarrow>
     (let valid = (\<lambda>irk identifier tag. tag = ''kXjlTr2l''); addresses = [V4 0xC0000201];
          endpoint = authenticated_endpoint valid (\<lambda>_. ''192.0.2.1'') ''irk'' ''2BE6E510-0325-4365-923E-B14C6F57DB3A'' in
      (case endpoint ''kXjlTr2l'' addresses 52345 of
         None \<Rightarrow> False | Some ep \<Rightarrow> ep_port ep = 52345 \<and> ep_addresses ep = addresses)
    \<and> endpoint ''invalid'' addresses 52345 = None)"

lemma valid_auth_tag_accepts_discovery_and_invalid_tag_is_rejected_passes:
  valid_auth_tag_accepts_discovery_and_invalid_tag_is_rejected
  by (simp add: valid_auth_tag_accepts_discovery_and_invalid_tag_is_rejected_def authenticated_endpoint_def Let_def)

text \<open>An adapter whose closing succeeds, fails or does not come to an end.\<close>

definition closing_succeeds :: rsd_adapter where
  "closing_succeeds = \<lparr>ra_close = (\<lambda>_. Call 0 (Inr ())), ra_connect_closed = (\<lambda>_. Call 0 (Inl NetBrokenPipe))\<rparr>"

definition closing_fails :: rsd_adapter where
  "closing_fails = \<lparr>ra_close = (\<lambda>_. Call 0 (Inl OtherIoKind)), ra_connect_closed = (\<lambda>_. Call 0 (Inl NetBrokenPipe))\<rparr>"

definition closing_pending :: rsd_adapter where
  "closing_pending = \<lparr>ra_close = (\<lambda>_. Call 1000000000 (Inr ())), ra_connect_closed = (\<lambda>_. Call 0 (Inl NetBrokenPipe))\<rparr>"

text \<open>The counters of the test are left out: the model closes a session once, where the code drops it.\<close>

definition cleanup_is_bounded_and_preserves_primary_failures :: bool where
  "cleanup_is_bounded_and_preserves_primary_failures \<longleftrightarrow>
     complete_read_only_probe closing_succeeds (Inr ()) 1000 0 = Inr ()
   \<and> complete_read_only_probe closing_fails (Inr ()) 1000 0 = Inl RoCleanup
   \<and> complete_read_only_probe closing_fails (Inl RoAfcQuery) 1000 0 = Inl RoAfcQuery
   \<and> complete_read_only_probe closing_pending (Inl RoAfcQuery) (1 - 0) 0 = Inl RoAfcQuery
   \<and> complete_read_only_probe closing_pending (Inr ()) 1 0 = Inl RoCleanup"

lemma cleanup_is_bounded_and_preserves_primary_failures_passes: cleanup_is_bounded_and_preserves_primary_failures
  by (simp add: cleanup_is_bounded_and_preserves_primary_failures_def complete_read_only_probe_def close_provider_def
      closing_succeeds_def closing_fails_def closing_pending_def Let_def)

section \<open>Diagnostics\<close>

definition read_only_step_timeouts_map_to_the_active_stage :: bool where
  "read_only_step_timeouts_map_to_the_active_stage \<longleftrightarrow>
     list_all (\<lambda>(service, stage).
       fst (run_read_only_probe_step service stage (read_only_operation stage) 1
         (\<lambda>_. Call 1000000000 (Inr ()) :: (idevice_error, unit) call) 0) = Inl stage)
     [(ProbeAfc, RoServiceConnect), (ProbeAfc, RoClientInit), (ProbeAfc, RoAfcQuery),
      (ProbeInstallationProxy, RoServiceConnect), (ProbeInstallationProxy, RoClientInit),
      (ProbeInstallationProxy, RoAppLookup)]"

definition approved_reporter_uses_only_bounded_static_fields :: bool where
  "approved_reporter_uses_only_bounded_static_fields \<longleftrightarrow>
     (let ev = snd (read_only_probe_failure ProbeAfc RoClientInit ''client_init'' ''error'' ''unexpected_response'') in
      ev_target ev = SPIKE_DIAGNOSTICS_TARGET
    \<and> set (''message'' # map fst (ev_fields ev))
        = {''error_kind'', ''message'', ''operation'', ''result'', ''service'', ''stage'', ''transport''})"

definition appservice_setup_reporter_only_changes_the_target :: bool where
  "appservice_setup_reporter_only_changes_the_target \<longleftrightarrow>
     (let failure = \<lparr>pf_stage = PrTunnel, pf_cleanup = ScNotNeeded\<rparr> in
      case report_appservice_setup_failure failure of (reported, ev) \<Rightarrow>
        reported = failure \<and> ev_target ev = SPIKE_DIAGNOSTICS_TARGET
      \<and> set (''message'' # map fst (ev_fields ev)) = {''message'', ''stage''}
      \<and> map_of (ev_fields ev) ''stage'' = Some (LogStr ''tunnel''))"

lemma reporters_pass:
  read_only_step_timeouts_map_to_the_active_stage
  approved_reporter_uses_only_bounded_static_fields
  appservice_setup_reporter_only_changes_the_target
  by (auto simp: read_only_step_timeouts_map_to_the_active_stage_def run_read_only_probe_step_def
      approved_reporter_uses_only_bounded_static_fields_def read_only_probe_failure_def diagnostic_event_def
      appservice_setup_reporter_only_changes_the_target_def report_appservice_setup_failure_def Let_def)

definition summary_values :: "service_summary \<Rightarrow> bool list" where
  "summary_values s = [sm_appservice s, sm_deviceinfo s, sm_tunnelservice s, sm_image_mounter s,
     sm_installation_proxy s, sm_afc s]"

definition summary_of :: "(string \<times> u16) list \<Rightarrow> bool list" where
  "summary_of services = summary_values (parsed_rsd_service_summary (map_of services))"

definition parsed_rsd_service_summary_uses_only_six_exact_names :: bool where
  "parsed_rsd_service_summary_uses_only_six_exact_names \<longleftrightarrow>
     (let service_names = [CORE_DEVICE_APP_SERVICE_NAME, CORE_DEVICE_INFO_SERVICE_NAME, TUNNEL_SERVICE_NAME,
            MOBILE_IMAGE_MOUNTER_SERVICE_NAME, INSTALLATION_PROXY_SERVICE_NAME, AFC_SERVICE_NAME] in
      summary_of [] = [False, False, False, False, False, False]
    \<and> list_all (\<lambda>index. summary_of [(service_names ! index, 62000 + of_nat index)]
        = [False, False, False, False, False, False][index := True]) [0..<6]
    \<and> summary_of (map (\<lambda>index. (service_names ! index, 62100 + of_nat index)) [0..<6]) = [True, True, True, True, True, True]
    \<and> summary_of (map (\<lambda>index. (service_names ! index, 62200 + of_nat index)) [0, 2, 5]
        @ [(CORE_DEVICE_APP_SERVICE_NAME @ ''.unexpected'', 62300), (''sentinel-unknown-service'', 62301)])
        = [True, False, True, False, False, True])"

lemma six_names:
  "distinct [CORE_DEVICE_APP_SERVICE_NAME, CORE_DEVICE_INFO_SERVICE_NAME, TUNNEL_SERVICE_NAME,
     MOBILE_IMAGE_MOUNTER_SERVICE_NAME, INSTALLATION_PROXY_SERVICE_NAME, AFC_SERVICE_NAME,
     CORE_DEVICE_APP_SERVICE_NAME @ ''.unexpected'', ''sentinel-unknown-service'']"
  by (simp add: CORE_DEVICE_APP_SERVICE_NAME_def CORE_DEVICE_INFO_SERVICE_NAME_def TUNNEL_SERVICE_NAME_def
      MOBILE_IMAGE_MOUNTER_SERVICE_NAME_def INSTALLATION_PROXY_SERVICE_NAME_def AFC_SERVICE_NAME_def)

lemma parsed_rsd_service_summary_uses_only_six_exact_names_passes:
  parsed_rsd_service_summary_uses_only_six_exact_names
  using six_names
  by (simp add: parsed_rsd_service_summary_uses_only_six_exact_names_def summary_of_def summary_values_def
      parsed_rsd_service_summary_def Let_def upt_conv_Cons eq_commute)

definition core_device_service_lookup_requires_exact_appservice_name :: bool where
  "core_device_service_lookup_requires_exact_appservice_name \<longleftrightarrow>
     (let near = CORE_DEVICE_APP_SERVICE_NAME @ ''.unexpected'' in
      (case core_device_appservice_port [near \<mapsto> 62078] of
         Inr _ \<Rightarrow> False
       | Inl missing \<Rightarrow> cf_operation missing = CdServiceLookup
         \<and> core_device_operation_str (cf_operation missing) = ''service_lookup'' \<and> cf_result missing = ''missing''
         \<and> cf_error_kind missing = ''service_not_found'' \<and> \<not> cf_appservice_present missing)
    \<and> core_device_appservice_port [near \<mapsto> 62078, CORE_DEVICE_APP_SERVICE_NAME \<mapsto> 62079] = Inr 62079)"

definition core_device_service_failures_are_classified_and_secret_free :: bool where
  "core_device_service_failures_are_classified_and_secret_free \<longleftrightarrow>
     (let run = (\<lambda>operation limit answer.
          fst (run_core_device_service_operation operation True limit (\<lambda>_. answer :: (idevice_error, unit) call) 0)) in
      (case run CdServiceConnect 1 (Call 1000000000 (Inr ())) of
         Inr _ \<Rightarrow> False
       | Inl k \<Rightarrow> cf_operation k = CdServiceConnect \<and> core_device_operation_str (cf_operation k) = ''service_connect''
         \<and> cf_result k = ''timeout'' \<and> cf_error_kind k = ''timeout'' \<and> cf_appservice_present k)
    \<and> (case run CdClientInit 1000 (Call 0 (Inl (IdUnexpectedResponse ''sentinel''))) of
         Inr _ \<Rightarrow> False
       | Inl k \<Rightarrow> cf_operation k = CdClientInit \<and> core_device_operation_str (cf_operation k) = ''client_init''
         \<and> cf_result k = ''error'' \<and> cf_error_kind k = ''unexpected_response'')
    \<and> (case run CdListApps 1000 (Call 0 (Inl (IdCoreDevice ''sentinel''))) of
         Inr _ \<Rightarrow> False
       | Inl k \<Rightarrow> cf_operation k = CdListApps \<and> core_device_operation_str (cf_operation k) = ''list_apps''
         \<and> cf_result k = ''error'' \<and> cf_error_kind k = ''core_device'' \<and> cf_appservice_present k
         \<and> pf_stage (fst (report_core_device_service_failure k)) = PrCoreDeviceService))"

lemma core_device_tests_pass:
  core_device_service_lookup_requires_exact_appservice_name
  core_device_service_failures_are_classified_and_secret_free
  by (simp_all add: core_device_service_lookup_requires_exact_appservice_name_def core_device_appservice_port_def
      missing_service_def core_device_service_failures_are_classified_and_secret_free_def
      run_core_device_service_operation_def core_device_timeout_def core_device_from_error_def
      report_core_device_service_failure_def Let_def)

text \<open>The names of services and texts of the device that must not be in an event.\<close>

definition sentinels :: "string list" where
  "sentinels = [''sentinel-peer-uuid'', ''sentinel-property-name'', ''sentinel-property-value'',
     ''sentinel-unknown-service'', ''sentinel-entitlement'', ''sentinel-feature'', ''62345'']"

definition parsed_rsd_service_summary_event_is_bounded_and_precedes_lookup_failure :: bool where
  "parsed_rsd_service_summary_event_is_bounded_and_precedes_lookup_failure \<longleftrightarrow>
     (let services = map_of [(''sentinel-unknown-service'', 62345), (CORE_DEVICE_INFO_SERVICE_NAME, 62346),
            (TUNNEL_SERVICE_NAME, 62347), (AFC_SERVICE_NAME, 62348)];
          summary = report_parsed_rsd_service_summary (parsed_rsd_service_summary services) in
      case core_device_appservice_port services of
        Inr _ \<Rightarrow> False
      | Inl missing \<Rightarrow>
          (case report_core_device_service_failure missing of (reported, failure) \<Rightarrow>
             pf_stage reported = PrCoreDeviceService
           \<and> ev_level summary = LogWarn
           \<and> set (''message'' # map fst (ev_fields summary)) = {''message'', ''stage'', ''operation'', ''result'', ''source'',
               ''parsed_appservice_present'', ''parsed_deviceinfo_present'', ''parsed_untrusted_tunnelservice_present'',
               ''parsed_image_mounter_present'', ''parsed_installation_proxy_present'', ''parsed_afc_present''}
           \<and> ev_message summary = ''remote pairing parsed RSD service summary''
           \<and> map_of (ev_fields summary) ''stage'' = Some (LogStr ''coreDeviceService'')
           \<and> map_of (ev_fields summary) ''operation'' = Some (LogStr ''service_summary'')
           \<and> map_of (ev_fields summary) ''result'' = Some (LogStr ''observed'')
           \<and> map_of (ev_fields summary) ''source'' = Some (LogStr ''parsed_rsd_services'')
           \<and> ev_target summary = SPIKE_DIAGNOSTICS_TARGET
           \<and> list_all (\<lambda>(key, expected). map_of (ev_fields summary) key = Some (LogBool expected))
               [(''parsed_appservice_present'', False), (''parsed_deviceinfo_present'', True),
                (''parsed_untrusted_tunnelservice_present'', True), (''parsed_image_mounter_present'', False),
                (''parsed_installation_proxy_present'', False), (''parsed_afc_present'', True)]
           \<and> ev_target failure = SPIKE_DIAGNOSTICS_TARGET
           \<and> set (''message'' # map fst (ev_fields failure)) = {''message'', ''stage'', ''operation'', ''result'',
               ''error_kind'', ''appservice_present''}
           \<and> map_of (ev_fields failure) ''operation'' = Some (LogStr ''service_lookup'')
           \<and> list_all (\<lambda>(_, v). case v of LogStr w \<Rightarrow> \<not> List.member sentinels w | _ \<Rightarrow> True) (ev_fields summary)))"

lemma parsed_rsd_service_summary_event_is_bounded_and_precedes_lookup_failure_passes:
  parsed_rsd_service_summary_event_is_bounded_and_precedes_lookup_failure
proof -
  let ?services = "map_of [(''sentinel-unknown-service'', 62345 :: u16), (CORE_DEVICE_INFO_SERVICE_NAME, 62346),
    (TUNNEL_SERVICE_NAME, 62347), (AFC_SERVICE_NAME, 62348)]"
  have names: "?services CORE_DEVICE_APP_SERVICE_NAME = None"
    "parsed_rsd_service_summary ?services = \<lparr>sm_appservice = False, sm_deviceinfo = True, sm_tunnelservice = True,
       sm_image_mounter = False, sm_installation_proxy = False, sm_afc = True\<rparr>"
    using six_names by (auto simp: parsed_rsd_service_summary_def)
  then have lookup: "core_device_appservice_port ?services = Inl missing_service"
    by (simp add: core_device_appservice_port_def)
  show ?thesis
    unfolding parsed_rsd_service_summary_event_is_bounded_and_precedes_lookup_failure_def Let_def names(2) lookup
    by (simp add: missing_service_def report_core_device_service_failure_def
        report_parsed_rsd_service_summary_def diagnostic_event_def sentinels_def)
qed

definition status_serialization_contains_no_pairing_material :: bool where
  "status_serialization_contains_no_pairing_material \<longleftrightarrow>
     (let show_time = (\<lambda>t. if t = 1700000000 then ''2023-11-14T22:13:20Z'' else '''');
          encoded = session_json (\<lambda>_. ''id'') show_time \<lparr>ps_id = 7, ps_phase = VerifyingTransport,
            ps_expires_at = 1700000000, ps_message = ''Verifying trusted device transport.'',
            ps_setup_code = Some ''123456''\<rparr> in
      case encoded of
        JObj es \<Rightarrow> map_of es ''expiresAt'' = Some (JStr ''2023-11-14T22:13:20Z'')
          \<and> map_of es ''setupCode'' = Some (JStr ''123456'')
          \<and> list_all (\<lambda>(k, _). k \<noteq> ''pairing_file'' \<and> k \<noteq> ''private_key'' \<and> k \<noteq> ''alt_irk'') es
      | _ \<Rightarrow> False)"

lemma status_serialization_contains_no_pairing_material_passes: status_serialization_contains_no_pairing_material
  by (simp add: status_serialization_contains_no_pairing_material_def session_json_def)

section \<open>Devices that show a PIN\<close>

definition manual_pairing_target_needs_identifier_port_and_address :: bool where
  "manual_pairing_target_needs_identifier_port_and_address \<longleftrightarrow>
     (let address = V4 0xC0A80814; ipv6 = V6 0xFE800000000000000000000000000001;
          target = manual_pairing_target (\<lambda>a. if is_ipv4 a then ''192.168.8.20'' else ''fe80::1'') in
      target (Some ''ABCD-1234'') (Some ''Living Room'') (Some ''AppleTV14,1'')
          ''Living Room._remotepairing-manual-pairing._tcp.local.'' [ipv6, address, address] 49152
        = Some \<lparr>mt_identifier = ''ABCD-1234'', mt_name = ''Living Room'', mt_model = Some ''AppleTV14,1'',
            mt_addresses = [address, ipv6], mt_port = 49152\<rparr>
    \<and> map_option mt_name (target (Some ''ABCD-1234'') None None ''Bedroom._remotepairing-manual-pairing._tcp.local.''
        [address] 49152) = Some ''Bedroom''
    \<and> target None None None ''x'' [address] 1 = None
    \<and> target (Some '' '') None None ''x'' [address] 1 = None
    \<and> target (Some ''id'') None None ''x'' [] 1 = None
    \<and> target (Some ''id'') None None ''x'' [address] 0 = None)"

lemma nonblank_names:
  "nonblank (Some ''ABCD-1234'') = Some ''ABCD-1234''" "nonblank (Some ''Living Room'') = Some ''Living Room''"
  "nonblank (Some ''AppleTV14,1'') = Some ''AppleTV14,1''" "nonblank (Some '' '') = None" "nonblank None = None"
  "nonblank (Some ''id'') = Some ''id''"
  by code_simp+

lemma taken_names:
  "take_chars 64 ''Living Room'' = ''Living Room''" "take_chars 64 ''Bedroom'' = ''Bedroom''"
  "hd (split_on CHR ''.'' ''Bedroom._remotepairing-manual-pairing._tcp.local.'') = ''Bedroom''"
  by code_simp+

lemma first_label: "\<exists>rest. split_on CHR ''.'' ''Bedroom._remotepairing-manual-pairing._tcp.local.'' = ''Bedroom'' # rest"
  using taken_names(3) split_on_nonempty [of "CHR ''.''" "''Bedroom._remotepairing-manual-pairing._tcp.local.''"]
  by (metis list.exhaust_sel)

lemma named_target:
  "manual_pairing_target show_ip (Some ''ABCD-1234'') (Some ''Living Room'') (Some ''AppleTV14,1'') fullname
     addresses 49152 = (if addresses = [] then None else Some \<lparr>mt_identifier = ''ABCD-1234'', mt_name = ''Living Room'',
       mt_model = Some ''AppleTV14,1'', mt_addresses = remdups_adj (sort_key (\<lambda>a. (\<not> is_ipv4 a, show_ip a)) addresses),
       mt_port = 49152\<rparr>)"
  by (simp add: manual_pairing_target_def nonblank_names taken_names(1) del: take_chars.simps split_on.simps)

lemma unnamed_target:
  "map_option mt_name (manual_pairing_target show_ip (Some ''ABCD-1234'') None None
     ''Bedroom._remotepairing-manual-pairing._tcp.local.'' [a] 49152) = Some ''Bedroom''"
  using first_label by (auto simp: manual_pairing_target_def nonblank_names taken_names(2) simp del: take_chars.simps split_on.simps)

lemma refused_targets:
  "manual_pairing_target show_ip None None None fullname [a] 1 = None"
  "manual_pairing_target show_ip (Some '' '') None None fullname [a] 1 = None"
  "manual_pairing_target show_ip (Some ''id'') None None fullname [] 1 = None"
  "manual_pairing_target show_ip (Some ''id'') None None fullname [a] 0 = None"
  by (simp_all add: manual_pairing_target_def nonblank_names del: take_chars.simps split_on.simps)

lemma manual_pairing_target_needs_identifier_port_and_address_passes:
  manual_pairing_target_needs_identifier_port_and_address
  unfolding manual_pairing_target_needs_identifier_port_and_address_def Let_def
  by (simp only: named_target unnamed_target refused_targets) simp

definition identity_marks_apple_tv_from_device_class :: bool where
  "identity_marks_apple_tv_from_device_class \<longleftrightarrow>
     (case new_identity ''TV'' ''UDID'' of
        Inl _ \<Rightarrow> False | Inr i \<Rightarrow> di_apple_tv (with_device_class (Some ''AppleTV'') i))
   \<and> (case new_identity ''Phone'' ''UDID'' of
        Inl _ \<Rightarrow> False | Inr i \<Rightarrow> \<not> di_apple_tv (with_device_class (Some ''iPhone'') i))"

lemma identity_marks_apple_tv_from_device_class_passes: identity_marks_apple_tv_from_device_class
  by code_simp

definition apple_tv_requires_explicit_on :: bool where
  "apple_tv_requires_explicit_on \<longleftrightarrow>
     tv_enabled (Some ''on'') \<and> tv_enabled (Some ('' on'' @ [CHR 0x0A])) \<and> \<not> tv_enabled None
   \<and> \<not> tv_enabled (Some ''ON'') \<and> \<not> tv_enabled (Some ''1'')"

definition pin_must_be_six_digits :: bool where
  "pin_must_be_six_digits \<longleftrightarrow>
     valid_pin ''012345'' \<and> \<not> valid_pin ''12345'' \<and> \<not> valid_pin ''1234567'' \<and> \<not> valid_pin ''12a456''
   \<and> \<not> valid_pin ''''"

definition failure_codes_are_stable :: bool where
  "failure_codes_are_stable \<longleftrightarrow> manual_failure_str FailWrongPin = ''wrong_pin''"

lemma apple_tv_texts_pass: apple_tv_requires_explicit_on pin_must_be_six_digits failure_codes_are_stable
  by code_simp+

text \<open>An Apple TV with the session of a test and its channel.\<close>

definition test_tv :: "tv_phase \<Rightarrow> nat \<Rightarrow> apple_tv" where
  "test_tv ph expires_at = new_apple_tv\<lparr>tv_tasks := [new_tv_task 7],
     tv_session := Some \<lparr>ts_id = 7, ts_phase = ph, ts_device_name = ''Living Room'', ts_expires_at = expires_at,
       ts_failure_code = None, ts_verified = False, ts_pin = True\<rparr>\<rparr>"

definition unknown_session_and_pin_before_prompt_are_rejected :: bool where
  "unknown_session_and_pin_before_prompt_are_rejected \<longleftrightarrow>
     fst (tv_status 100 8 new_apple_tv) = Inl TvNotFound
   \<and> (case tv_submit_pin 100 7 ''123456'' (test_tv TvConnecting (100 + TV_SESSION_LIFETIME)) of (r1, v1) \<Rightarrow>
        r1 = Inl TvNotAwaitingPin
      \<and> (case tv_submit_pin 100 7 ''123456'' (tv_set_phase 7 TvAwaitingPin None v1) of (r2, v2) \<Rightarrow>
           map_sum id ts_phase r2 = Inr TvVerifying
         \<and> fst (tv_submit_pin 100 7 ''123456'' v2) = Inl TvNotAwaitingPin))"

definition expired_session_reports_expired :: bool where
  "expired_session_reports_expired \<longleftrightarrow> map_sum id ts_phase (fst (tv_status 100 7 (test_tv TvAwaitingPin 0))) = Inr TvExpired"

lemma apple_tv_sessions_pass: unknown_session_and_pin_before_prompt_are_rejected expired_session_reports_expired
  by (simp_all add: unknown_session_and_pin_before_prompt_are_rejected_def expired_session_reports_expired_def
      tv_status_def tv_submit_pin_def tv_named_def test_tv_def new_apple_tv_def new_tv_task_def expire_if_due_def
      tv_terminal_def tv_set_phase_def tv_receiver_alive_def TV_SESSION_LIFETIME_def Let_def)

end
