(* ===== verification/TestsRoutes.thy ===== *)
theory TestsRoutes
  imports TestsPairing TestsSigning RemoteSessionContract RsdContract ServerContract Requests
begin

text \<open>
  The unit tests of \<^verbatim>\<open>src/main.rs\<close>: a test is the conjunction of its assertions over the model, and the
  lemma after it says that the model passes it. A request of a test is a call of its handler, where the
  route is registered; how often a session is opened is not counted.
\<close>

section \<open>Jobs and devices\<close>

definition contains_text :: "string \<Rightarrow> string \<Rightarrow> bool" where
  "contains_text s pat \<longleftrightarrow> list_ex (\<lambda>i. starts_with (drop i s) pat) [0..<Suc (length s)]"

lemma contains_textI: "s = a @ pat @ b \<Longrightarrow> contains_text s pat"
  by (auto simp: contains_text_def list_ex_iff starts_with_iff intro!: bexI [of _ "length a"])

definition missing_ipa_file_has_its_own_message :: bool where
  "missing_ipa_file_has_its_own_message \<longleftrightarrow>
     (let text = job_message ''failed'' (Some ''ipa_file_missing'') in
      contains_text text ''missing on the server'' \<and> text \<noteq> job_message ''failed'' (Some ''ipa_signing_failed''))"

lemma missing_ipa_file_has_its_own_message_passes: missing_ipa_file_has_its_own_message
  using contains_textI [of "job_message ''failed'' (Some ''ipa_file_missing'')" "''The IPA file is ''"
      "''missing on the server''" "''. Download it again from its source or upload it again.''"]
  by (simp add: missing_ipa_file_has_its_own_message_def job_message_def Let_def)

definition managed_apps_require_service_install_history :: bool where
  "managed_apps_require_service_install_history \<longleftrightarrow>
     (let identities =
        [\<lparr>mi_installed_bundle_id = Some ''com.example.current.TEAM123'', mi_source_bundle_id = Some ''com.example.current''\<rparr>,
         \<lparr>mi_installed_bundle_id = None, mi_source_bundle_id = Some ''com.example.legacy''\<rparr>] in
      managed_app ''com.example.current.TEAM123'' identities
    \<and> \<not> managed_app ''com.example.current.OTHERTEAM'' identities
    \<and> managed_app ''com.example.legacy.OLDTEAM'' identities
    \<and> \<not> managed_app ''com.example.legacymalicious.OLDTEAM'' identities
    \<and> \<not> managed_app ''com.apple.Pages'' identities)"

lemma managed_apps_require_service_install_history_passes: managed_apps_require_service_install_history
  by (simp add: managed_apps_require_service_install_history_def managed_app_def strip_prefix_def starts_with_def Let_def)

definition install_job_json_preserves_live_progress_and_safe_fields :: bool where
  "install_job_json_preserves_live_progress_and_safe_fields \<longleftrightarrow>
     (let show_uuid = (\<lambda>i :: uuid. if i = 1 then ''one'' else if i = 2 then ''two'' else ''three'');
          value = install_job_json show_uuid \<lparr>sj_id = 1, sj_app_id = 2, sj_device_id = 3, sj_phase = ''signing'',
            sj_progress_percent = Some 18, sj_device_label = ''Test iPhone'', sj_created_at = 1787918400,
            sj_completed_at = None, sj_failure_code = None, sj_app_display_name = ''Example'',
            sj_app_version = Some ''1.2.3''\<rparr> in
      json_field ''id'' value = Some (JStr (show_uuid 1))
    \<and> json_field ''appId'' value = Some (JStr (show_uuid 2))
    \<and> json_field ''deviceId'' value = Some (JStr (show_uuid 3))
    \<and> json_field ''deviceLabel'' value = Some (JStr ''Test iPhone'')
    \<and> json_field ''progressPercent'' value = Some (JNum 18)
    \<and> json_field ''appDisplayName'' value = Some (JStr ''Example'')
    \<and> json_field ''appVersion'' value = Some (JStr ''1.2.3'')
    \<and> json_field ''createdAt'' value = Some (jtime 1787918400)
    \<and> json_field ''completedAt'' value = Some JNull
    \<and> json_field ''publicMessage'' value = Some (JStr ''Signing the IPA.''))"

lemma install_job_json_preserves_live_progress_and_safe_fields_passes:
  install_job_json_preserves_live_progress_and_safe_fields
  by (simp add: install_job_json_preserves_live_progress_and_safe_fields_def install_job_json_def job_message_def jopt_def ju8_def Let_def)

definition rsd_install_requires_explicit_on :: bool where
  "rsd_install_requires_explicit_on \<longleftrightarrow>
     rsd_install_enabled (Some ''on'') \<and> rsd_install_enabled (Some ('' on'' @ [CHR 0x0A]))
   \<and> list_all (\<lambda>v. \<not> rsd_install_enabled v) [None, Some '''', Some ''1'', Some ''ON'']"

lemma rsd_install_requires_explicit_on_passes: rsd_install_requires_explicit_on
  by code_simp

text \<open>The digest of the test distinguishes the two devices.\<close>

definition test_sha16 :: "string \<Rightarrow> uuid" where
  "test_sha16 udid = (if udid = ''other-udid'' then 2 else 1)"

definition rsd_test_device :: device_summary where
  "rsd_test_device = rsd_device_summary test_sha16 \<lparr>di_name = ''Test iPhone'', di_udid = ''00008110-000000000000001E'',
     di_apple_tv = False, di_product_type = None, di_ios_version = None\<rparr>"

definition rsd_device_replaces_netmux_entry_and_survives_netmux_outage :: bool where
  "rsd_device_replaces_netmux_entry_and_survives_netmux_outage \<longleftrightarrow>
     (let rsd = rsd_test_device; duplicate = rsd_test_device\<lparr>ds_display_name := ''via netmuxd''\<rparr>;
          other_id = device_id_for_udid test_sha16 ''other-udid''; other = rsd_test_device\<lparr>ds_id := other_id\<rparr> in
      (case merge_install_devices (Inr [duplicate, other]) [rsd] of
         Inl _ \<Rightarrow> False
       | Inr merged \<Rightarrow> length merged = 2
         \<and> map_option ds_display_name (find (\<lambda>d. ds_id d = ds_id rsd) merged) = Some ''Test iPhone''
         \<and> list_ex (\<lambda>d. ds_id d = other_id) merged)
    \<and> map_sum id length (merge_install_devices (Inl TransportUnavailable) [rsd]) = Inr 1
    \<and> merge_install_devices (Inl TransportUnavailable) [] = Inl TransportUnavailable)"

lemma rsd_device_replaces_netmux_entry_and_survives_netmux_outage_passes:
  rsd_device_replaces_netmux_entry_and_survives_netmux_outage
  by (simp add: rsd_device_replaces_netmux_entry_and_survives_netmux_outage_def merge_install_devices_def Let_def
      rsd_test_device_def rsd_device_summary_def device_id_for_udid_def test_sha16_def)

definition rsd_installed_apps_reads_names_versions_and_falls_back :: bool where
  "rsd_installed_apps_reads_names_versions_and_falls_back \<longleftrightarrow>
     (let full = PDict [(''CFBundleName'', PString ''hello_world''), (''CFBundleShortVersionString'', PString ''1.13.8'')];
          listed = rsd_installed_apps [(''com.example.bare'', POther),
            (''com.k2fsa.sherpa.onnx.hello.world.252NQ2KTH7'', full)] in
      map ia_bundle_id listed = [''com.example.bare'', ''com.k2fsa.sherpa.onnx.hello.world.252NQ2KTH7'']
    \<and> map ia_display_name listed = [''com.example.bare'', ''hello_world'']
    \<and> map ia_version listed = [em_dash, ''1.13.8'']
    \<and> managed_app (ia_bundle_id (listed ! 1))
        [\<lparr>mi_installed_bundle_id = None, mi_source_bundle_id = Some ''com.k2fsa.sherpa.onnx.hello.world''\<rparr>])"

lemma rsd_installed_apps_reads_names_versions_and_falls_back_passes:
  rsd_installed_apps_reads_names_versions_and_falls_back
  by (simp add: rsd_installed_apps_reads_names_versions_and_falls_back_def rsd_installed_apps_def rsd_field_def
      get_string_def opt_or_else_def managed_app_def strip_prefix_def starts_with_def Let_def)

section \<open>Reports of an installation\<close>

definition test_report :: "install_outcome \<Rightarrow> staging_cleanup \<Rightarrow> string \<Rightarrow> install_report" where
  "test_report outcome cleanup error_kind = \<lparr>rp_outcome = outcome, rp_stage = InComplete, rp_cleanup = cleanup,
     rp_session_cleanup = ScNotNeeded, rp_install_command_count = 1, rp_error_kind = error_kind,
     rp_bundle_id = Some ''com.example.test'', rp_certificate_pressure = False, rp_signing_diagnostic = None\<rparr>"

definition signing_failure_response_keeps_zero_installs_and_bounded_diagnostic :: bool where
  "signing_failure_response_keeps_zero_installs_and_bounded_diagnostic \<longleftrightarrow>
     (let report = (test_report NotStarted StNotNeeded ''signing_failed'')\<lparr>rp_stage := InSigning,
            rp_install_command_count := 0, rp_bundle_id := None,
            rp_signing_diagnostic := Some \<lparr>sf_stage = ''certificateIdentity'', sf_error_class = FkDeveloperService,
              sf_http_status = None, sf_apple_code = Some 7460, sf_local_io = None\<rparr>\<rparr>;
          value = spike_install_response signing_diagnostic_json report;
          clean = spike_install_response signing_diagnostic_json (test_report Installed StNotNeeded '''') in
      spike_install_status report = 503
    \<and> json_field ''outcome'' value = Some (JStr ''notStarted'')
    \<and> json_field ''stage'' value = Some (JStr ''signing'')
    \<and> json_field ''installCommandCount'' value = Some (JNum 0)
    \<and> (case json_field ''signingDiagnostic'' value of
         None \<Rightarrow> False
       | Some d \<Rightarrow> json_field ''stage'' d = Some (JStr ''certificateIdentity'')
         \<and> json_field ''appleCode'' d = Some (JNum 7460) \<and> length (json_keys d) = 5)
    \<and> json_field ''signingDiagnostic'' clean = None)"

definition verified_installed_status_is_success_despite_ancillary_cleanup_errors :: bool where
  "verified_installed_status_is_success_despite_ancillary_cleanup_errors \<longleftrightarrow>
     list_all (\<lambda>(cleanup, error_kind). spike_install_status (test_report Installed cleanup error_kind) = 200)
       [(StFailed, ''staging_cleanup''), (StSucceeded, ''session_cleanup'')]"

definition verified_install_preserves_both_cleanup_failures :: bool where
  "verified_install_preserves_both_cleanup_failures \<longleftrightarrow>
     (let report = (test_report Installed StFailed ''staging_cleanup'')\<lparr>rp_session_cleanup := ScFailed\<rparr>;
          response = spike_install_response signing_diagnostic_json report in
      spike_install_status report = 200
    \<and> json_field ''cleanup'' response = Some (JStr ''failed'')
    \<and> json_field ''sessionCleanup'' response = Some (JStr ''failed'')
    \<and> json_field ''errorKind'' response = Some (JStr ''staging_cleanup''))"

definition unverified_install_outcomes_remain_failure_class_statuses :: bool where
  "unverified_install_outcomes_remain_failure_class_statuses \<longleftrightarrow>
     list_all (\<lambda>outcome. spike_install_status (test_report outcome StNotNeeded '''') = 502) [NotInstalled, OutcomeUnknown]
   \<and> spike_install_status (test_report NotStarted StNotNeeded '''') = 503
   \<and> spike_install_status (test_report NotStarted StNotNeeded ''app_already_installed'') = 409"

definition rsd_install_result_accepts_only_verified_installs :: bool where
  "rsd_install_result_accepts_only_verified_installs \<longleftrightarrow>
     rsd_install_result ((test_report Installed StSucceeded '''')\<lparr>rp_bundle_id := Some ''com.example.test.TEAMID1234''\<rparr>)
       = Inr ''com.example.test.TEAMID1234''
   \<and> rsd_install_result ((test_report Installed StSucceeded '''')\<lparr>rp_bundle_id := None\<rparr>) = Inl DeviceInstallFailed
   \<and> list_all (\<lambda>(outcome, stage, error_kind, expected).
         rsd_install_result ((test_report outcome StNotNeeded error_kind)\<lparr>rp_stage := stage\<rparr>) = Inl expected)
       [(NotStarted, InSigning, ''signing_failed'', IpaSigningFailed),
        (NotStarted, InTunnel, ''session_open'', TransportUnavailable),
        (NotStarted, InAccountPreflight, ''device_registration_required'', DeviceRegistrationFailed),
        (OutcomeUnknown, InVerification, ''verification'', DeviceInstallFailed)]"

lemma reports_pass:
  signing_failure_response_keeps_zero_installs_and_bounded_diagnostic
  verified_installed_status_is_success_despite_ancillary_cleanup_errors
  verified_install_preserves_both_cleanup_failures
  unverified_install_outcomes_remain_failure_class_statuses
  rsd_install_result_accepts_only_verified_installs
  by (simp_all add: signing_failure_response_keeps_zero_installs_and_bounded_diagnostic_def test_report_def
      verified_installed_status_is_success_despite_ancillary_cleanup_errors_def spike_install_status_def
      verified_install_preserves_both_cleanup_failures_def spike_install_response_def signing_diagnostic_json_def
      unverified_install_outcomes_remain_failure_class_statuses_def rsd_install_result_def ok_or_def
      rsd_install_result_accepts_only_verified_installs_def jopt_def Let_def)

section \<open>Routes\<close>

definition rsd_probe_routes_are_registered_only_in_spike_mode :: bool where
  "rsd_probe_routes_are_registered_only_in_spike_mode \<longleftrightarrow>
     list_all (\<lambda>p. \<not> List.member (spike_route_paths False) p \<and> List.member (spike_route_paths True) p)
       [SPIKE_RSD_PROBE_PATH, SPIKE_REMOTE_AFC_PROBE_PATH, SPIKE_INSTALLATION_PROXY_PROBE_PATH, SPIKE_RSD_INSTALL_PATH]"

definition afc_probe_response_contains_only_non_secret_status :: bool where
  "afc_probe_response_contains_only_non_secret_status \<longleftrightarrow>
     spike_afc_probe (Inr ()) = Response 200 (Some (JObj [(''transport'', JStr ''lockdown''), (''afc'', JStr ''ok'')]))"

definition read_only_probe_responses_are_bounded :: bool where
  "read_only_probe_responses_are_bounded \<longleftrightarrow>
     list_all (\<lambda>(service, name).
       read_only_response service (Inr ()) = Response 200 (Some (JObj
         [(''transport'', JStr ''rsd''), (''service'', JStr name), (''status'', JStr ''ok'')]))
     \<and> list_all (\<lambda>(stage, text). read_only_response service (Inl stage) = Response 503 (Some (JObj
         [(''transport'', JStr ''rsd''), (''service'', JStr name), (''status'', JStr ''unavailable''), (''stage'', JStr text)])))
       [(RoDiscovery, ''discovery''), (RoValidatePairing, ''validatePairing''), (RoTunnel, ''tunnel''),
        (RoRsdHandshake, ''rsdHandshake''), (RoServiceLookup, ''serviceLookup''), (RoServiceConnect, ''serviceConnect''),
        (RoClientInit, ''clientInit''),
        if name = ''afc'' then (RoAfcQuery, ''afcQuery'') else (RoAppLookup, ''appLookup''), (RoCleanup, ''cleanup'')])
     [(ProbeAfc, ''afc''), (ProbeInstallationProxy, ''installationProxy'')]"

text \<open>The paired device with the two services an installation needs, and one that is not verified.\<close>

definition ready_env :: "string open_env" where
  "ready_env = paired_env\<lparr>oe_device := demo_device\<lparr>rd_handshake := (\<lambda>_ _. Call 1 (Inr
     ([AFC_SERVICE_NAME \<mapsto> 9, INSTALLATION_PROXY_SERVICE_NAME \<mapsto> 10], Map.empty)))\<rparr>\<rparr>"

definition unverified_env :: "string open_env" where
  "unverified_env = paired_env\<lparr>oe_device := demo_device\<lparr>rd_attempt := (\<lambda>_ _ _. Call 1 (Inl (IdUnexpectedResponse ''rejected'')))\<rparr>\<rparr>"

definition rsd_probe_success_response_is_non_secret :: bool where
  "rsd_probe_success_response_is_non_secret \<longleftrightarrow>
     spike_remote_pairing_rsd_probe ready_env paired_fs 0 = Response 200 (Some (JObj
       [(''transport'', JStr ''rsdCoreDevice''), (''remotePairing'', JStr ''ok''), (''rsd'', JStr ''ok''), (''coreDevice'', JStr ''ok'')]))"

definition rsd_probe_failure_response_is_non_secret :: bool where
  "rsd_probe_failure_response_is_non_secret \<longleftrightarrow>
     list_all (\<lambda>(env, stage). spike_remote_pairing_rsd_probe env paired_fs 0 = Response 503 (Some (JObj
         [(''transport'', JStr ''rsdCoreDevice''), (''status'', JStr ''unavailable''), (''stage'', JStr stage)])))
       [(unverified_env, ''validatePairing''), (paired_env, ''coreDeviceService'')]"

lemma same_material:
  "usable_material (paired_env\<lparr>oe_device := d\<rparr>) paired_fs = Some (replicate 16 CHR ''k'')"
  using paired_material by (auto simp: usable_material_def split: sum.splits)

lemma ready_open: "\<exists>s t marks. open_session ready_env paired_fs 0 = (Inr s, t, marks)
  \<and> rs_services s = [AFC_SERVICE_NAME \<mapsto> 9, INSTALLATION_PROXY_SERVICE_NAME \<mapsto> 10]"
  unfolding open_session_def Let_def ready_env_def same_material
  by (simp add: paired_env_def REMOTE_DISCOVERY_TIMEOUT_def demo_discover connect_and_validate_def
      endpoint_candidates_def session_tunnel_def session_handshake_def timed_bind_def limited_def
      verify_established_pairing_def verification_step_def REMOTE_CONNECT_TIMEOUT_def demo_device_def)

lemma unverified_open: "\<exists>t marks. open_session unverified_env paired_fs 0 = (Inl (probe_failure PrValidatePairing), t, marks)"
  unfolding open_session_def Let_def unverified_env_def same_material
  by (simp add: paired_env_def REMOTE_DISCOVERY_TIMEOUT_def demo_discover connect_and_validate_def
      endpoint_candidates_def verify_established_pairing_def verification_step_def REMOTE_CONNECT_TIMEOUT_def demo_device_def)

lemma rsd_probe_responses_pass:
  rsd_probe_success_response_is_non_secret rsd_probe_failure_response_is_non_secret
proof -
  have "AFC_SERVICE_NAME \<noteq> INSTALLATION_PROXY_SERVICE_NAME" "AFC_SERVICE_NAME \<noteq> TUNNEL_SERVICE_NAME"
    "AFC_SERVICE_NAME \<noteq> LOCKDOWN_SERVICE_NAME"
    by (simp_all add: AFC_SERVICE_NAME_def INSTALLATION_PROXY_SERVICE_NAME_def TUNNEL_SERVICE_NAME_def LOCKDOWN_SERVICE_NAME_def)
  note services = this required_install_path_services_present_def exact_rsd_service_port_def probe_remote_pairing_rsd_def
  show rsd_probe_success_response_is_non_secret
    using ready_open
    by (auto simp: rsd_probe_success_response_is_non_secret_def spike_remote_pairing_rsd_probe_def services)
  show rsd_probe_failure_response_is_non_secret
    using unverified_open paired_open [of 0]
    by (auto simp: rsd_probe_failure_response_is_non_secret_def spike_remote_pairing_rsd_probe_def services probe_failure_def)
qed

text \<open>The routes a path and a method lead to, and the answers of a client a test never reaches.\<close>

definition routes_of :: "bool \<Rightarrow> string \<Rightarrow> route list" where
  "routes_of spike p = filter (\<lambda>r. rt_path r = p) (with_spike_routes [] spike)"

definition no_answers :: "unit service_answers" where
  "no_answers = \<lparr>va_connect = (\<lambda>_ _. Call 0 (Inl IdTimeout)), va_client = (\<lambda>_. Call 0 (Inl IdTimeout)),
     va_query = (\<lambda>_. Call 0 (Inl IdTimeout))\<rparr>"

definition read_only_probe_routes_are_spike_only_and_use_fresh_wireless_sessions :: bool where
  "read_only_probe_routes_are_spike_only_and_use_fresh_wireless_sessions \<longleftrightarrow>
     (let unavailable = (\<lambda>service. Response 503 (Some (JObj [(''transport'', JStr ''rsd''), (''service'', JStr service),
            (''status'', JStr ''unavailable''), (''stage'', JStr ''discovery'')]))) in
      map rt_handler (routes_of True SPIKE_REMOTE_AFC_PROBE_PATH) = [HSpikeRemoteAfc]
    \<and> map rt_handler (routes_of True SPIKE_INSTALLATION_PROXY_PROBE_PATH) = [HSpikeProxy]
    \<and> spike_remote_pairing_afc_probe test_open_env no_answers Map.empty 0 = unavailable ''afc''
    \<and> spike_remote_pairing_installation_proxy_probe test_open_env no_answers Map.empty 0 = unavailable ''installationProxy''
    \<and> routes_of False SPIKE_REMOTE_AFC_PROBE_PATH = [] \<and> routes_of False SPIKE_INSTALLATION_PROXY_PROBE_PATH = [])"

lemmas spike_paths_eval = spike_route_paths_def SPIKE_AFC_PROBE_PATH_def SPIKE_RSD_PROBE_PATH_def
  SPIKE_REMOTE_AFC_PROBE_PATH_def SPIKE_INSTALLATION_PROXY_PROBE_PATH_def SPIKE_RSD_INSTALL_PATH_def

lemma spike_routes_pass:
  rsd_probe_routes_are_registered_only_in_spike_mode
  afc_probe_response_contains_only_non_secret_status
  read_only_probe_responses_are_bounded
  by (simp_all add: rsd_probe_routes_are_registered_only_in_spike_mode_def spike_paths_eval
      afc_probe_response_contains_only_non_secret_status_def spike_afc_probe_def
      read_only_probe_responses_are_bounded_def read_only_response_def)

lemma probe_without_pairing: "read_only_probe service test_open_env no_answers Map.empty now = Inl RoDiscovery"
  by (simp add: read_only_probe_def open_within_def open_without_pairing probe_failure_def READ_ONLY_ENDPOINT_TIMEOUT_def)

lemma read_only_probe_routes_are_spike_only_and_use_fresh_wireless_sessions_passes:
  read_only_probe_routes_are_spike_only_and_use_fresh_wireless_sessions
  by (simp add: read_only_probe_routes_are_spike_only_and_use_fresh_wireless_sessions_def routes_of_def
      with_spike_routes_def on_def spike_paths_eval spike_remote_pairing_afc_probe_def probe_remote_pairing_afc_def
      spike_remote_pairing_installation_proxy_probe_def probe_remote_pairing_installation_proxy_def
      probe_without_pairing read_only_response_def Let_def)

text \<open>The body that is too long is turned away by the limit of the route, before the handler.\<close>

definition install_route_is_guarded_spike_only_and_resolves_server_app_id :: bool where
  "install_route_is_guarded_spike_only_and_resolves_server_app_id \<longleftrightarrow>
     (let h = (\<lambda>action. \<lparr>ah_action = action, ah_content_type = Some ''application/json''\<rparr>);
          parse_uuid = (\<lambda>s. if s = ''one'' then Some (1 :: uuid) else if s = ''two'' then Some 2 else None);
          request = (\<lambda>body. spike_install_request_of parse_uuid (JObj body));
          e = (demo_install ProxyOk)\<lparr>ie_open1 := SessionFailed PrDiscovery ScNotNeeded\<rparr>;
          post = (\<lambda>action body busy. spike_remote_pairing_install signing_diagnostic_json e (h action) 50 (request body)
            busy False demo_server) in
      resp_status (post None [(''appId'', JStr ''one'')] False) = 400
    \<and> map body_limit (routes_of True SPIKE_RSD_INSTALL_PATH) = [1024]
    \<and> resp_status (post (Some ''1'') [(''appId'', JStr ''one''), (''ipaPath'', JStr ''arbitrary.ipa'')] False) = 400
    \<and> resp_status (post (Some ''1'') [(''appId'', JStr ''two'')] False) = 404
    \<and> resp_status (post (Some ''1'') [(''appId'', JStr ''one'')] True) = 409
    \<and> post (Some ''1'') [(''appId'', JStr ''one'')] False = Response 503 (Some (JObj
        [(''transport'', JStr ''rsd''), (''outcome'', JStr ''notStarted''), (''stage'', JStr ''discovery''),
         (''cleanup'', JStr ''notNeeded''), (''sessionCleanup'', JStr ''notNeeded''), (''installCommandCount'', JNum 0),
         (''errorKind'', JStr ''session_open''), (''bundleId'', JNull), (''certificatePressure'', JBool False)]))
    \<and> routes_of False SPIKE_RSD_INSTALL_PATH = [])"

text \<open>The identifiers of the test and its environment.\<close>

lemma test_requests:
  "spike_install_request_of (\<lambda>s. if s = ''one'' then Some 1 else if s = ''two'' then Some 2 else None)
     (JObj [(''appId'', JStr ''one'')]) = Some 1"
  "spike_install_request_of (\<lambda>s. if s = ''one'' then Some 1 else if s = ''two'' then Some 2 else None)
     (JObj [(''appId'', JStr ''two'')]) = Some 2"
  "spike_install_request_of (\<lambda>s. if s = ''one'' then Some 1 else if s = ''two'' then Some 2 else None)
     (JObj [(''appId'', JStr ''one''), (''ipaPath'', JStr ''arbitrary.ipa'')]) = None"
  by (simp_all add: spike_install_request_of_def required_def read_uuid_def)

lemma unpaired_install:
  "run_spike_remote_pairing_install ((demo_install ProxyOk)\<lparr>ie_open1 := SessionFailed PrDiscovery ScNotNeeded\<rparr>) 1 demo_server
     = SpikeReport (rsd_install_failure InDiscovery ''session_open'' False None)"
  "run_spike_remote_pairing_install e 2 demo_server = SpikeAppNotFound"
  by (simp_all add: run_spike_remote_pairing_install_def read_db_def demo_server_def demo_db_eval app_path_def
      opt_filter_def is_file_def install_remote_pairing_app_def demo_install_def record_session_cleanup_def
      rsd_install_failure_def)

lemma install_route_is_guarded_spike_only_and_resolves_server_app_id_passes:
  install_route_is_guarded_spike_only_and_resolves_server_app_id
  unfolding install_route_is_guarded_spike_only_and_resolves_server_app_id_def Let_def test_requests
  by (simp add: spike_remote_pairing_install_def action_allowed_def starts_with_def action_required_def message_def
      unpaired_install routes_of_def with_spike_routes_def on_def spike_paths_eval body_limit_def
      spike_install_status_def spike_install_response_def rsd_install_failure_def jopt_def)

section \<open>Logging and requests\<close>

definition hostile_targets :: "string list" where
  "hostile_targets = [''idevice'', ''idevice::services::afc'', ''idevice::services::afc::packet'',
     ''idevice::remote_pairing::sentinel'', ''jktcp'', ''jktcp::adapter'', ''jktcp::other'', ''revision4_dependency_sentinel'',
     ''iphoneloadly_api'', ''iphoneloadly_api::wireless_pairing'', ''iphoneloadly_api::spike_diagnostics::child'']"

definition spike_subscriber_hard_filter_denies_every_nonapproved_target :: bool where
  "spike_subscriber_hard_filter_denies_every_nonapproved_target \<longleftrightarrow>
     list_all (\<lambda>target. \<not> spike_target_allowed True target) hostile_targets
   \<and> spike_target_allowed True SPIKE_DIAGNOSTICS_TARGET"

definition non_spike_subscriber_preserves_every_hostile_operator_enabled_event :: bool where
  "non_spike_subscriber_preserves_every_hostile_operator_enabled_event \<longleftrightarrow>
     list_all (spike_target_allowed False) hostile_targets"

definition login_request_reads_browser_save_credentials_field :: bool where
  "login_request_reads_browser_save_credentials_field \<longleftrightarrow>
     map_option lq_save_credentials (login_request_of (JObj [(''email'', JStr ''person@example.test''),
       (''password'', JStr ''secret''), (''saveCredentials'', JBool True)])) = Some True"

lemma logging_and_requests_pass:
  spike_subscriber_hard_filter_denies_every_nonapproved_target
  non_spike_subscriber_preserves_every_hostile_operator_enabled_event
  login_request_reads_browser_save_credentials_field
  by code_simp+

end
