(* ===== verification/Spec2Isabelle.thy ===== *)
theory Spec2Isabelle
  imports Ipa Github StoreContract LoginContract SigningRun JobsContract RsdContract Update PairingContract AppleTvContract StagingContract RemoteSessionContract ServerContract Advertising Diagnostics StoreRows Requests RsdRun LoginJson TestsUploads TestsStore TestsSigning TestsInstall TestsPairing TestsRoutes
begin

text \<open>
  A verification development for the iPhoneLoadly server (\<^verbatim>\<open>src/crates/iphoneloadly-api/src\<close>, below
  only the file names): a service on the local network that stores IPA files, signs them with an Apple
  account and installs them on paired devices.

  \<^bold>\<open>The program.\<close> A browser calls JSON routes (\<^verbatim>\<open>main.rs\<close>). An IPA comes from an upload
  (\<^verbatim>\<open>upload_ipa\<close>) or from a GitHub release (\<^verbatim>\<open>sources.rs\<close>, \<^verbatim>\<open>github.rs\<close>), is checked (\<^verbatim>\<open>ipa.rs\<close>) and
  recorded (\<^verbatim>\<open>store.rs\<close>). A job (\<^verbatim>\<open>jobs.rs\<close>, \<^verbatim>\<open>run_install_job\<close>) signs it (\<^verbatim>\<open>signing.rs\<close>), with the
  session of a sign-in that runs as a background task, and installs it: over the network daemon
  (\<^verbatim>\<open>NetmuxTransport\<close>) or over a remote pairing (\<^verbatim>\<open>wireless_pairing.rs\<close>), where the signed bundle is
  planned, staged file by file, installed by one command and checked. Pairings come from the wireless
  pairing service or, for an Apple TV, from a PIN (\<^verbatim>\<open>apple_tv.rs\<close>). \<^verbatim>\<open>update.rs\<close> queues an update of the
  program itself, if no job is active when the request comes in. The jobs, the sign-in and the pairings share the
  store and the sessions behind locks, which is where the interesting interleavings are.

  \<^bold>\<open>How code becomes definitions.\<close> Structs are records and enums datatypes; a Rust string is a list of
  bytes, a machine integer a word, a \<^verbatim>\<open>Uuid\<close> a 128-bit word. A fallible function returns a sum whose
  left side is the error, and state is passed and returned: \<^typ>\<open>db\<close> is what a connection holds,
  \<^typ>\<open>server\<close> the application state with the file system, \<^typ>\<open>disk\<close> the files of a signing run (nodes and
  the data hard links share). What an \<^verbatim>\<open>await\<close> may let happen is an argument of the handler. Code that
  runs for a long time is a function of time, where a call of the network is a duration and a result
  (\<^verbatim>\<open>RemoteSession\<close>, \<^verbatim>\<open>Advertising\<close>, in milliseconds; elsewhere time is in seconds). Background tasks are
  step relations: one step is one section under a lock.

  \<^bold>\<open>The theories.\<close>
  \<^item> \<^verbatim>\<open>Prelude\<close>: words, byte strings and the string operations of the standard library, the file system,
    JSON and responses; the locales \<^verbatim>\<open>keyed_table\<close> (a table with a key) and \<^verbatim>\<open>selection\<close> (a loop that keeps
    the best candidate). \<^verbatim>\<open>Sessions\<close>: the locales \<^verbatim>\<open>session_invariant\<close> and \<^verbatim>\<open>session_machine\<close>.
  \<^item> \<^verbatim>\<open>Ipa\<close>: \<^verbatim>\<open>inspect_ipa\<close> over the entries of an archive, its limits and the metadata of the bundle.
  \<^item> \<^verbatim>\<open>Github\<close>: repository references, patterns, the choice of a release and its asset, the download.
  \<^item> \<^verbatim>\<open>Store\<close>: every function of \<^verbatim>\<open>store.rs\<close>; \<^verbatim>\<open>StoreInvariant\<close>: the integrity of the tables under every
    statement that writes; \<^verbatim>\<open>StoreContract\<close>: what the rest relies on; \<^verbatim>\<open>StoreRows\<close>: the cells of a row.
  \<^item> \<^verbatim>\<open>Signing\<close>, \<^verbatim>\<open>LoginSession\<close>, \<^verbatim>\<open>LoginContract\<close>: diagnostics, the sign-in attempt with its two-factor
    exchange, the provider with its sessions and saved credentials, their invariant. \<^verbatim>\<open>LoginJson\<close>: what a
    browser is told of it, the parameters of Apple's challenge included.
  \<^item> \<^verbatim>\<open>SigningFiles\<close>, \<^verbatim>\<open>SigningRun\<close>, \<^verbatim>\<open>SigningCleanup\<close>: the disk of a signing run, the run from the device's
    identity to the artifact, and that nothing of it stays behind but what the signing library keeps in
    the storage the program hands to it (the signing key, \<^verbatim>\<open>FsStorage\<close> in the data directory).
  \<^item> \<^verbatim>\<open>Devices\<close>, \<^verbatim>\<open>Transport\<close>: the device list and the operations of the network transport.
  \<^item> \<^verbatim>\<open>Jobs\<close>, \<^verbatim>\<open>Uploads\<close>, \<^verbatim>\<open>JobsContract\<close>: the handlers over the store, and the server as a system of
    handlers and job tasks (\<^const>\<open>system_step\<close>), with writes that fail and the progress reports of a
    signing that was given up; the ghost field \<open>sy_astray\<close> names the jobs these can leave active.
  \<^item> \<^verbatim>\<open>Sources\<close>, \<^verbatim>\<open>Update\<close>: the GitHub sources and the updater. \<^verbatim>\<open>Requests\<close>: the bodies of the requests as
    the derived deserialisation reads them.
  \<^item> \<^verbatim>\<open>PairingStore\<close>, \<^verbatim>\<open>Pairing\<close>, \<^verbatim>\<open>PairingHandlers\<close>, \<^verbatim>\<open>PairingContract\<close>: the encrypted pairing, the pairing
    service, its tasks and its handlers. \<^verbatim>\<open>AppleTv\<close>, \<^verbatim>\<open>AppleTvContract\<close>: the same for an Apple TV.
    \<^verbatim>\<open>Advertising\<close>: the announcement of the service and the daemons it owns.
  \<^item> \<^verbatim>\<open>UploadPlan\<close>, \<^verbatim>\<open>Staging\<close>, \<^verbatim>\<open>StagingContract\<close>: what is uploaded, the requests that upload it and what they
    amount to. \<^verbatim>\<open>RsdInstall\<close>, \<^verbatim>\<open>RsdContract\<close>: the installation and the report a job records.
    \<^verbatim>\<open>RsdPipeline\<close>: both together, with everything the device is asked as one list of events. \<^verbatim>\<open>RsdRun\<close>: the
    whole run, with its two sessions and the signing run of the theories above and below; the plan is
    made of the directory the artifact names.
  \<^item> \<^verbatim>\<open>RemoteSession\<close>, \<^verbatim>\<open>Probes\<close>, \<^verbatim>\<open>RemoteSessionContract\<close>: sessions over a stored pairing, the commitment of a
    new one, the probes and diagnostic routes. \<^verbatim>\<open>Diagnostics\<close>: what is logged about them, with the errors
    carrying the texts a device may send.
  \<^item> \<^verbatim>\<open>Server\<close>, \<^verbatim>\<open>ServerContract\<close>: \<^verbatim>\<open>main\<close>, the route table, the limits and the log filter.
  \<^item> The theories beginning with \<^verbatim>\<open>Tests\<close>: the unit tests of the modules, as conjunctions of their
    assertions over the model, each with the lemma that it passes. They compare the model with the
    examples the authors wrote; no property rests on them.

  \<^bold>\<open>Interfaces.\<close> \<^verbatim>\<open>keyed_table\<close> is interpreted on the apps, jobs and sources of the store, \<^verbatim>\<open>selection\<close> on the
  releases and on the versions of the updater. \<^verbatim>\<open>session_invariant\<close> is interpreted on the sign-in, the job
  system, wireless pairing and Apple TV pairing; its rule carries an invariant to every reachable state.
  \<^verbatim>\<open>staging_invariant\<close> is what staging promises about any property its requests keep, interpreted for the
  sequence of the packets, for the paths and for the files that arrived. \<^verbatim>\<open>device_transport\<close> is an operation
  that first looks a device up, interpreted on the three of the network transport. \<^verbatim>\<open>owned_resource\<close> is an
  acquisition that either leaves nothing or is undone by a drop, interpreted on the advertisement and on
  the guard of a discovery.

  \<^bold>\<open>What is shown.\<close> The theories ending in Contract, and \<^verbatim>\<open>SigningCleanup\<close>, hold the properties of their
  component: invariants of the reachable states (store, jobs, sign-in, pairings), error behaviour (an
  upload or an update request that fails leaves everything as it was, a signing run or an installation
  everything but the signer's own storage),
  limits and safe paths of archives, plans and trees, the deadline of a commitment, the discipline of
  the one installation command, and the refinement of the plan by the files sent before the command. That every job comes to an
  end is not claimed: an installation over the network has no deadline.
  Where the code falls short of what it means to do, the theorem states what it does: the jobs a
  restart strands, the job a late progress report strands, the update that overlooks a job, the session whose task ran too early or too late, the completed pairing that blocks,
  the download that loses its file, the forgotten identity that returns, the deleted IPA that cannot be
  uploaded again before a source replaces its app, the rejected upgrade that counts as installed, the limit whose answer is never given, the
  mode of wireless pairing that the normal mode leaves enabled.

  \<^bold>\<open>Bounds and termination.\<close> Recursion is structural or has a measure. Planning and the check of a
  signed tree walk directories a file system may nest without end: every round either takes an item
  from the queue or counts an entry against the limit, so twice the remaining entries plus the length of
  the queue decreases (20,000 for a plan and for a tree), and the limit turns an endless
  nesting into an error. The file system does not change during a plan, and every listing and file in it
  is finite. Nothing uses fuel. The 2 GiB limits are kept in 64-bit words with the checked
  and saturating sums of the code.

  \<^bold>\<open>Parameters.\<close> Code outside the repository is an argument, with its documented behaviour as hypothesis
  where a property needs it: the ZIP reader and the property lists, SHA-256 and the ciphers, the JSON
  codec, the URL and version parsers, HTTP to GitHub and Apple, the signing library, the device protocol
  library, mDNS, random numbers and the clock. The properties of the disk rely on the signing library
  writing only below its extraction directory and in its storage. SQLite is read as documented: keys and foreign keys reject
  a statement, a transaction is all or nothing.

  \<^bold>\<open>Not modelled.\<close> Two adjacent acquisitions of locks are one step where a pairing session ends
  (\<^verbatim>\<open>Pairing\<close>); the lookups of the installation proxy are answers, not events (\<^verbatim>\<open>RsdPipeline\<close>); of the log
  filter only the targets are modelled, not the operator's levels (\<^verbatim>\<open>Server\<close>). The routing and extraction of axum, the tracing subscriber and the listener are calls
  of libraries (what they are given is in \<^verbatim>\<open>Server\<close>); log calls besides those of \<^verbatim>\<open>Diagnostics\<close> only repeat
  values of the model. The dashboard is a static page, the scripts and units under \<^verbatim>\<open>src/scripts\<close> and
  \<^verbatim>\<open>src/deploy\<close> are not part of the program. Unit tests of sockets, of log subscribers and of the operating system have
  nothing to run on here. Wrapping
  of the clock, failing allocation and panics of the libraries are left out.
\<close>

end
